(* ===== verification/Prelude.thy ===== *)
theory Prelude
  imports
    "HOL-Library.Word"
    "HOL-Library.List_Lexorder"
    "HOL-Library.Char_ord"
begin

text \<open>
  Shared vocabulary of the development: results with early return, unsigned machine
  integers with checked arithmetic, and the ordered maps of the Rust standard library
  (\<open>BTreeMap\<close>), whose iteration order is the order of their keys.
\<close>

section \<open>Collections of facts\<close>

named_theorems result_simps \<open>evaluation of results with early return\<close>
named_theorems result_elims \<open>inversion of successful results\<close>

section \<open>Machine integers\<close>

type_synonym u16 = "16 word"
type_synonym u32 = "32 word"
type_synonym u64 = "64 word"

text \<open>Rust's \<open>checked_add\<close>, \<open>checked_sub\<close> and \<open>saturating_sub\<close> on an unsigned width.\<close>

definition checked_add :: "'a::len word \<Rightarrow> 'a word \<Rightarrow> 'a word option" where
  "checked_add a b = (if unat a + unat b < 2 ^ LENGTH('a) then Some (a + b) else None)"

definition checked_sub :: "'a::len word \<Rightarrow> 'a word \<Rightarrow> 'a word option" where
  "checked_sub a b = (if b \<le> a then Some (a - b) else None)"

definition saturating_sub :: "'a::len word \<Rightarrow> 'a word \<Rightarrow> 'a word" where
  "saturating_sub a b = (if b \<le> a then a - b else 0)"

definition checked_mul :: "'a::len word \<Rightarrow> 'a word \<Rightarrow> 'a word option" where
  "checked_mul a b = (if unat a * unat b < 2 ^ LENGTH('a) then Some (a * b) else None)"

lemma checked_add_SomeD:
  fixes a b c :: "'a::len word"
  assumes "checked_add a b = Some c"
  shows "unat c = unat a + unat b"
  using assms by (auto simp: checked_add_def unat_word_ariths split: if_splits)

lemma checked_add_Some_iff:
  fixes a b c :: "'a::len word"
  shows "checked_add a b = Some c \<longleftrightarrow> unat c = unat a + unat b"
proof
  assume "unat c = unat a + unat b"
  moreover have "unat c < 2 ^ LENGTH('a)" by (rule unsigned_less)
  ultimately have "unat a + unat b < 2 ^ LENGTH('a)" by simp
  moreover from this \<open>unat c = unat a + unat b\<close> have "c = a + b"
    by (simp add: word_unat_eq_iff unat_word_ariths)
  ultimately show "checked_add a b = Some c" by (simp add: checked_add_def)
qed (rule checked_add_SomeD)

text \<open>Evaluation compares the wrapped sum instead of building the bound in unary.\<close>

lemma add_wraps_iff:
  fixes a b :: "'a::len word"
  shows "a + b < a \<longleftrightarrow> \<not> unat a + unat b < 2 ^ LENGTH('a)"
proof (cases "unat a + unat b < 2 ^ LENGTH('a)")
  case True
  then have "unat (a + b) = unat a + unat b"
    unfolding unat_word_ariths by (rule mod_less)
  with True show ?thesis unfolding word_less_nat_alt by linarith
next
  case False
  have l: "unat a < 2 ^ LENGTH('a)" "unat b < 2 ^ LENGTH('a)" by (rule unsigned_less)+
  have "unat (a + b) = (unat a + unat b - 2 ^ LENGTH('a)) mod 2 ^ LENGTH('a)"
    unfolding unat_word_ariths by (rule le_mod_geq) (use False in linarith)
  also have "\<dots> = unat a + unat b - 2 ^ LENGTH('a)"
    by (rule mod_less) (use l in linarith)
  finally show ?thesis using False l unfolding word_less_nat_alt by linarith
qed
lemma checked_add_code [code]:
  fixes a b :: "'a::len word"
  shows "checked_add a b = (let c = a + b in if c < a then None else Some c)"
  unfolding checked_add_def Let_def add_wraps_iff by simp

lemma checked_mul_code [code]:
  fixes a b :: "'a::len word"
  shows "checked_mul a b = (if uint a * uint b < 2 ^ LENGTH('a) then Some (a * b) else None)"
proof -
  have "int (unat a * unat b) < int (2 ^ LENGTH('a)) \<longleftrightarrow> unat a * unat b < 2 ^ LENGTH('a)"
    by (rule of_nat_less_iff)
  then show ?thesis unfolding checked_mul_def by simp
qed

lemma checked_add_None_iff:
  fixes a b :: "'a::len word"
  shows "checked_add a b = None \<longleftrightarrow> 2 ^ LENGTH('a) \<le> unat a + unat b"
  by (auto simp: checked_add_def)

lemma checked_sub_SomeD:
  fixes a b c :: "'a::len word"
  assumes "checked_sub a b = Some c"
  shows "unat a = unat b + unat c"
proof -
  from assms have "b \<le> a" and c: "c = a - b" by (auto simp: checked_sub_def split: if_splits)
  then have "unat b \<le> unat a" by (simp add: word_le_nat_alt)
  moreover from \<open>b \<le> a\<close> c have "unat c = unat a - unat b" by (simp add: unat_sub)
  ultimately show ?thesis by simp
qed

lemma checked_mul_SomeD:
  fixes a b c :: "'a::len word"
  assumes "checked_mul a b = Some c"
  shows "unat c = unat a * unat b"
  using assms by (auto simp: checked_mul_def unat_word_ariths split: if_splits)

lemma checked_succ_gt:
  fixes a c :: "'a::len word"
  assumes "checked_add a 1 = Some c"
  shows "a < c" and "c \<noteq> 0"
  using checked_add_SomeD [OF assms] by (auto simp: word_less_nat_alt)

lemma checked_succ_unat:
  fixes a c :: "'a::len word"
  assumes "checked_add a 1 = Some c"
  shows "unat c = Suc (unat a)"
  using checked_add_SomeD [OF assms] by simp

section \<open>Results with early return\<close>

text \<open>
  A Rust \<open>Result\<close> is a sum whose left values are the errors; \<open>try_r\<close> is the question-mark
  operator: an error leaves the function at once, a value is handed to the rest of it.
\<close>

definition try_r :: "'e + 'a \<Rightarrow> ('a \<Rightarrow> 'e + 'b) \<Rightarrow> 'e + 'b" where
  "try_r r f = (case r of Inl e \<Rightarrow> Inl e | Inr x \<Rightarrow> f x)"

definition ok_or :: "'a option \<Rightarrow> 'e \<Rightarrow> 'e + 'a" where
  "ok_or x e = (case x of None \<Rightarrow> Inl e | Some v \<Rightarrow> Inr v)"

definition map_err :: "('e \<Rightarrow> 'f) \<Rightarrow> 'e + 'a \<Rightarrow> 'f + 'a" where
  "map_err f r = (case r of Inl e \<Rightarrow> Inl (f e) | Inr x \<Rightarrow> Inr x)"

definition is_ok :: "'e + 'a \<Rightarrow> bool" where
  "is_ok r = (case r of Inl _ \<Rightarrow> False | Inr _ \<Rightarrow> True)"

lemma try_r_simps [simp, result_simps]:
  "try_r (Inl e) f = Inl e"
  "try_r (Inr x) f = f x"
  by (simp_all add: try_r_def)

lemma ok_or_simps [simp, result_simps]:
  "ok_or None e = Inl e"
  "ok_or (Some v) e = Inr v"
  by (simp_all add: ok_or_def)

lemma map_err_simps [simp, result_simps]:
  "map_err f (Inl e) = Inl (f e)"
  "map_err f (Inr x) = Inr x"
  by (simp_all add: map_err_def)

lemma is_ok_simps [simp, result_simps]:
  "is_ok (Inl e) = False"
  "is_ok (Inr x) = True"
  by (simp_all add: is_ok_def)

lemma try_r_Inr_iff [result_elims]:
  "try_r r f = Inr y \<longleftrightarrow> (\<exists>x. r = Inr x \<and> f x = Inr y)"
  by (cases r) auto

lemma ok_or_Inr_iff [result_elims]: "ok_or x e = Inr y \<longleftrightarrow> x = Some y"
  by (cases x) auto

lemma map_err_Inr_iff [result_elims]: "map_err f r = Inr y \<longleftrightarrow> r = Inr y"
  by (cases r) auto

lemma is_ok_iff: "is_ok r \<longleftrightarrow> (\<exists>x. r = Inr x)"
  by (cases r) auto

lemma if_Inl_Inr_iff [result_elims]: "(if b then Inl e else r) = Inr y \<longleftrightarrow> \<not> b \<and> r = Inr y"
  by simp

text \<open>Rust's \<open>if let Some(x) = value\<close> around a check.\<close>

definition if_some_r :: "'a option \<Rightarrow> ('a \<Rightarrow> 'e + unit) \<Rightarrow> 'e + unit" where
  "if_some_r opt f = (case opt of None \<Rightarrow> Inr () | Some x \<Rightarrow> f x)"

lemma if_some_r_simps [simp, result_simps]:
  "if_some_r None f = Inr ()"
  "if_some_r (Some x) f = f x"
  by (simp_all add: if_some_r_def)

lemma if_some_r_ok_iff [result_elims]:
  "if_some_r opt f = Inr u \<longleftrightarrow> (\<forall>x. opt = Some x \<longrightarrow> f x = Inr ())"
  by (cases opt) auto

text \<open>A loop over a list whose body may fail: the first error ends it.\<close>

fun for_each_r :: "('a \<Rightarrow> 'e + unit) \<Rightarrow> 'a list \<Rightarrow> 'e + unit" where
  "for_each_r f [] = Inr ()"
| "for_each_r f (x # xs) = try_r (f x) (\<lambda>_. for_each_r f xs)"

lemma for_each_r_ok_iff [result_elims]:
  "for_each_r f xs = Inr u \<longleftrightarrow> (\<forall>x \<in> set xs. f x = Inr ())"
  by (induction xs) (auto simp: try_r_Inr_iff)

text \<open>A loop that threads a state through a body that may fail.\<close>

fun fold_r :: "('a \<Rightarrow> 's \<Rightarrow> 'e + 's) \<Rightarrow> 'a list \<Rightarrow> 's \<Rightarrow> 'e + 's" where
  "fold_r f [] s = Inr s"
| "fold_r f (x # xs) s = try_r (f x s) (fold_r f xs)"

lemma fold_r_append: "fold_r f (xs @ ys) s = try_r (fold_r f xs s) (fold_r f ys)"
  by (induction xs arbitrary: s) (auto simp: try_r_def split: sum.splits)

lemma fold_r_invariant:
  assumes "fold_r f xs s = Inr t" and "P s"
    and "\<And>x s t. x \<in> set xs \<Longrightarrow> P s \<Longrightarrow> f x s = Inr t \<Longrightarrow> P t"
  shows "P t"
  using assms by (induction xs arbitrary: s) (auto simp: try_r_Inr_iff)

section \<open>Ordered maps\<close>

text \<open>
  \<open>BTreeMap<K, V>\<close>: the entries in strictly increasing key order. The representation is
  canonical, so equality of maps is equality of their lookups, and the loops of the source
  that iterate over a map iterate over \<open>bt_entries\<close>.
\<close>

fun upd_sorted :: "'k::linorder \<Rightarrow> 'v \<Rightarrow> ('k \<times> 'v) list \<Rightarrow> ('k \<times> 'v) list" where
  "upd_sorted k v [] = [(k, v)]"
| "upd_sorted k v ((a, b) # xs) =
     (if k < a then (k, v) # (a, b) # xs
      else if k = a then (k, v) # xs
      else (a, b) # upd_sorted k v xs)"

abbreviation keys_sorted :: "('k::linorder \<times> 'v) list \<Rightarrow> bool" where
  "keys_sorted xs \<equiv> sorted_wrt (<) (map fst xs)"

lemma set_upd_sorted_keys: "fst ` set (upd_sorted k v xs) = insert k (fst ` set xs)"
  by (induction k v xs rule: upd_sorted.induct) auto

lemma keys_sorted_upd: "keys_sorted xs \<Longrightarrow> keys_sorted (upd_sorted k v xs)"
proof (induction k v xs rule: upd_sorted.induct)
  case (2 k v a b xs)
  then show ?case
    using set_upd_sorted_keys [of k v xs] by fastforce
qed simp

lemma map_of_upd_sorted: "map_of (upd_sorted k v xs) = (map_of xs)(k \<mapsto> v)"
  by (induction k v xs rule: upd_sorted.induct) auto

lemma upd_sorted_snoc:
  "(\<forall>x \<in> fst ` set xs. x < k) \<Longrightarrow> upd_sorted k v xs = xs @ [(k, v)]"
  by (induction k v xs rule: upd_sorted.induct) auto

lemma keys_sorted_distinct: "keys_sorted xs \<Longrightarrow> distinct (map fst xs)"
  by (induction xs) auto

lemma keys_sorted_filter: "keys_sorted xs \<Longrightarrow> keys_sorted (filter P xs)"
  by (induction xs) auto

lemma keys_sorted_eqI:
  assumes "keys_sorted xs" and "keys_sorted ys" and "map_of xs = map_of ys"
  shows "xs = ys"
proof -
  have dx: "distinct (map fst xs)" and dy: "distinct (map fst ys)"
    using assms by (auto intro: keys_sorted_distinct)
  then have sets: "set xs = set ys"
    using assms(3) by (simp add: map_of_inject_set)
  moreover have "inj_on fst (set xs \<union> set ys)"
    using dx sets by (simp add: distinct_map)
  ultimately show ?thesis
    using assms(1,2) dx dy
    by (intro map_sorted_distinct_set_unique) (auto simp: strict_sorted_iff)
qed

typedef (overloaded) ('k, 'v) btree_map = "{xs :: ('k::linorder \<times> 'v) list. keys_sorted xs}"
  morphisms bt_entries Abs_btree_map
  by (rule exI [of _ "[]"]) simp

setup_lifting type_definition_btree_map

lift_definition bt_empty :: "('k::linorder, 'v) btree_map" is "[]"
  by simp

lift_definition bt_get :: "('k::linorder, 'v) btree_map \<Rightarrow> 'k \<Rightarrow> 'v option" is "map_of" .

lift_definition bt_insert :: "'k \<Rightarrow> 'v \<Rightarrow> ('k::linorder, 'v) btree_map \<Rightarrow> ('k, 'v) btree_map"
  is "upd_sorted"
  by (rule keys_sorted_upd)

lift_definition bt_remove :: "'k \<Rightarrow> ('k::linorder, 'v) btree_map \<Rightarrow> ('k, 'v) btree_map"
  is "\<lambda>k. filter (\<lambda>(a, _). a \<noteq> k)"
  by (rule keys_sorted_filter)

definition bt_len :: "('k::linorder, 'v) btree_map \<Rightarrow> nat" where
  "bt_len m = length (bt_entries m)"

definition bt_keys :: "('k::linorder, 'v) btree_map \<Rightarrow> 'k list" where
  "bt_keys m = map fst (bt_entries m)"

definition bt_values :: "('k::linorder, 'v) btree_map \<Rightarrow> 'v list" where
  "bt_values m = map snd (bt_entries m)"

definition bt_contains :: "('k::linorder, 'v) btree_map \<Rightarrow> 'k \<Rightarrow> bool" where
  "bt_contains m k = (bt_get m k \<noteq> None)"

instantiation btree_map :: (linorder, equal) equal
begin

definition equal_btree_map :: "('a, 'b) btree_map \<Rightarrow> ('a, 'b) btree_map \<Rightarrow> bool" where
  "equal_btree_map m n \<longleftrightarrow> bt_entries m = bt_entries n"

instance
  by standard (simp add: equal_btree_map_def bt_entries_inject)

end

instantiation btree_map :: (linorder, type) size
begin

definition size_btree_map :: "('a, 'b) btree_map \<Rightarrow> nat" where
  "size_btree_map m = bt_len m"

instance ..

end

lemma bt_keys_sorted: "keys_sorted (bt_entries m)"
  using bt_entries [of m] by simp

lemma bt_entries_simps [simp]:
  "bt_entries bt_empty = []"
  "bt_entries (bt_insert k v m) = upd_sorted k v (bt_entries m)"
  by (simp_all add: bt_empty.rep_eq bt_insert.rep_eq)

lemma bt_get_entries: "bt_get m = map_of (bt_entries m)"
  by (simp add: bt_get.rep_eq)

lemma bt_get_simps [simp]:
  "bt_get bt_empty k = None"
  "bt_get (bt_insert k v m) j = (if j = k then Some v else bt_get m j)"
  by (simp_all add: bt_get_entries map_of_upd_sorted)

lemma map_of_filter_neq:
  "map_of (filter (\<lambda>(a, _). a \<noteq> k) xs) j = (if j = k then None else map_of xs j)"
  by (induction xs) auto

lemma bt_get_remove [simp]: "bt_get (bt_remove k m) j = (if j = k then None else bt_get m j)"
  by (simp add: bt_get_entries bt_remove.rep_eq map_of_filter_neq)

lemma bt_distinct_keys: "distinct (map fst (bt_entries m))"
  by (rule keys_sorted_distinct [OF bt_keys_sorted])

lemma bt_in_entries_iff: "(k, v) \<in> set (bt_entries m) \<longleftrightarrow> bt_get m k = Some v"
  by (simp add: bt_get_entries map_of_eq_Some_iff [OF bt_distinct_keys])

lemma bt_in_values_iff: "v \<in> set (bt_values m) \<longleftrightarrow> (\<exists>k. bt_get m k = Some v)"
  by (force simp: bt_values_def simp flip: bt_in_entries_iff)

lemma bt_in_keys_iff: "k \<in> set (bt_keys m) \<longleftrightarrow> bt_get m k \<noteq> None"
  by (force simp: bt_keys_def simp flip: bt_in_entries_iff)

lemma bt_eqI: "(\<And>k. bt_get m k = bt_get n k) \<Longrightarrow> m = n"
  using keys_sorted_eqI [OF bt_keys_sorted bt_keys_sorted, of m n]
  by (auto simp: bt_get_entries bt_entries_inject)

lemma bt_insert_same: "bt_get m k = Some v \<Longrightarrow> bt_insert k v m = m"
  by (rule bt_eqI) auto

lemma bt_insert_insert [simp]: "bt_insert k v (bt_insert k w m) = bt_insert k v m"
  by (rule bt_eqI) simp

lemma bt_len_keys: "bt_len m = card (dom (bt_get m))"
proof -
  have "bt_len m = card (set (map fst (bt_entries m)))"
    using distinct_card [OF bt_distinct_keys, of m] by (simp add: bt_len_def)
  also have "set (map fst (bt_entries m)) = dom (bt_get m)"
    by (simp add: bt_get_entries dom_map_of_conv_image_fst)
  finally show ?thesis .
qed

lemma bt_finite_dom: "finite (dom (bt_get m))"
  by (simp add: bt_get_entries finite_dom_map_of)

text \<open>Replacing the value under a present key keeps the keys and the size.\<close>

lemma bt_len_insert_present: "bt_get m k = Some w \<Longrightarrow> bt_len (bt_insert k v m) = bt_len m"
  by (auto simp: bt_len_keys dom_def intro!: arg_cong [where f = card])

lemma bt_entries_insert_last:
  "(\<And>j. bt_get m j \<noteq> None \<Longrightarrow> j < k) \<Longrightarrow> bt_entries (bt_insert k v m) = bt_entries m @ [(k, v)]"
  by (simp, rule upd_sorted_snoc) (force simp: bt_in_entries_iff)

text \<open>
  The loops over a map that check every entry: \<open>bt_for_each\<close> stops at the first error, in
  key order.
\<close>

definition bt_for_each :: "('k::linorder \<Rightarrow> 'v \<Rightarrow> 'e + unit) \<Rightarrow> ('k, 'v) btree_map \<Rightarrow> 'e + unit" where
  "bt_for_each f m = for_each_r (\<lambda>(k, v). f k v) (bt_entries m)"

lemma bt_for_each_ok_iff [result_elims]:
  "bt_for_each f m = Inr u \<longleftrightarrow> (\<forall>k v. bt_get m k = Some v \<longrightarrow> f k v = Inr ())"
  by (auto simp: bt_for_each_def for_each_r_ok_iff simp flip: bt_in_entries_iff)

definition bt_any :: "('k::linorder \<Rightarrow> 'v \<Rightarrow> bool) \<Rightarrow> ('k, 'v) btree_map \<Rightarrow> bool" where
  "bt_any P m = list_ex (\<lambda>(k, v). P k v) (bt_entries m)"

lemma bt_any_iff: "bt_any P m \<longleftrightarrow> (\<exists>k v. bt_get m k = Some v \<and> P k v)"
  by (force simp: bt_any_def list_ex_iff simp flip: bt_in_entries_iff)

section \<open>Signed machine integers\<close>

text \<open>
  The signed integers of the source only occur under checked operations, so they are
  integers and every operation states its range.
\<close>

definition in_i32 :: "int \<Rightarrow> bool" where
  "in_i32 v = (- (2 ^ 31) \<le> v \<and> v < 2 ^ 31)"

definition in_i64 :: "int \<Rightarrow> bool" where
  "in_i64 v = (- (2 ^ 63) \<le> v \<and> v < 2 ^ 63)"

definition in_i128 :: "int \<Rightarrow> bool" where
  "in_i128 v = (- (2 ^ 127) \<le> v \<and> v < 2 ^ 127)"

definition checked_i128 :: "int \<Rightarrow> int option" where
  "checked_i128 v = (if in_i128 v then Some v else None)"

definition checked_u128 :: "int \<Rightarrow> int option" where
  "checked_u128 v = (if 0 \<le> v \<and> v < 2 ^ 128 then Some v else None)"

lemma checked_i128_Some_iff [result_elims]: "checked_i128 v = Some w \<longleftrightarrow> in_i128 v \<and> w = v"
  by (auto simp: checked_i128_def)

lemma checked_i128_ok [simp]: "in_i128 v \<Longrightarrow> checked_i128 v = Some v"
  by (simp add: checked_i128_def)

section \<open>Byte strings\<close>

text \<open>
  A Rust string is the list of its UTF-8 bytes; a character of \<open>string\<close> is one byte.
\<close>

definition is_ascii_digit :: "char \<Rightarrow> bool" where
  "is_ascii_digit c = (CHR ''0'' \<le> c \<and> c \<le> CHR ''9'')"

definition is_ascii_lowercase :: "char \<Rightarrow> bool" where
  "is_ascii_lowercase c = (CHR ''a'' \<le> c \<and> c \<le> CHR ''z'')"

definition is_ascii_alphanumeric :: "char \<Rightarrow> bool" where
  "is_ascii_alphanumeric c =
     (is_ascii_digit c \<or> is_ascii_lowercase c \<or> CHR ''A'' \<le> c \<and> c \<le> CHR ''Z'')"

section \<open>Decimal text\<close>

text \<open>
  The standard library's \<open>i128::from_str\<close> (an optional sign, then at least one ASCII
  digit, leading zeros allowed, an error outside the range) and \<open>to_string\<close>.
\<close>

definition digit_char :: "nat \<Rightarrow> char" where
  "digit_char d = char_of (48 + d)"

definition digit_value :: "char \<Rightarrow> nat option" where
  "digit_value c = (if is_ascii_digit c then Some (of_char c - 48) else None)"

fun parse_digits :: "nat \<Rightarrow> string \<Rightarrow> nat option" where
  "parse_digits acc [] = Some acc"
| "parse_digits acc (c # cs) =
     (case digit_value c of None \<Rightarrow> None | Some d \<Rightarrow> parse_digits (acc * 10 + d) cs)"

definition parse_nat :: "string \<Rightarrow> nat option" where
  "parse_nat s = (if s = [] then None else parse_digits 0 s)"

definition parse_i128 :: "string \<Rightarrow> int option" where
  "parse_i128 s =
     (case s of [] \<Rightarrow> None
      | c # cs \<Rightarrow>
          if c = CHR ''-'' then Option.bind (parse_nat cs) (\<lambda>n. checked_i128 (- int n))
          else if c = CHR ''+'' then Option.bind (parse_nat cs) (\<lambda>n. checked_i128 (int n))
          else Option.bind (parse_nat s) (\<lambda>n. checked_i128 (int n)))"

fun show_nat :: "nat \<Rightarrow> string" where
  "show_nat n = (if n < 10 then [digit_char n] else show_nat (n div 10) @ [digit_char (n mod 10)])"

declare show_nat.simps [simp del]

definition show_int :: "int \<Rightarrow> string" where
  "show_int v = (if v < 0 then CHR ''-'' # show_nat (nat (- v)) else show_nat (nat v))"

lemma digit_value_digit_char [simp]: "d < 10 \<Longrightarrow> digit_value (digit_char d) = Some d"
  by (auto simp: digit_value_def digit_char_def is_ascii_digit_def less_eq_char_def)

lemma parse_digits_append:
  "parse_digits acc (xs @ ys) =
     (case parse_digits acc xs of None \<Rightarrow> None | Some n \<Rightarrow> parse_digits n ys)"
  by (induction acc xs rule: parse_digits.induct) (auto split: option.splits)

lemma parse_digits_show_nat: "parse_digits 0 (show_nat n) = Some n"
proof (induction n rule: show_nat.induct)
  case (1 n)
  then show ?case
    by (subst show_nat.simps) (auto simp: parse_digits_append)
qed

lemma show_nat_nonempty [simp]: "show_nat n \<noteq> []"
  by (subst show_nat.simps) simp

lemma show_nat_digits: "c \<in> set (show_nat n) \<Longrightarrow> is_ascii_digit c"
proof (induction n rule: show_nat.induct)
  case (1 n)
  have "is_ascii_digit (digit_char d)" if "d < 10" for d
    using that by (auto simp: digit_char_def is_ascii_digit_def less_eq_char_def)
  with 1 show ?case
    by (subst (asm) (2) show_nat.simps) (auto split: if_splits)
qed

lemma parse_i128_show_int: "in_i128 v \<Longrightarrow> parse_i128 (show_int v) = Some v"
proof (cases "v < 0")
  case True
  moreover assume "in_i128 v"
  ultimately show ?thesis
    by (simp add: parse_i128_def show_int_def parse_nat_def parse_digits_show_nat)
next
  case False
  moreover assume "in_i128 v"
  moreover obtain c cs where c: "show_nat (nat v) = c # cs"
    by (meson list.exhaust show_nat_nonempty)
  then have "is_ascii_digit c" by (metis list.set_intros(1) show_nat_digits)
  then have "c \<noteq> CHR ''-''" and "c \<noteq> CHR ''+''"
    by (auto simp: is_ascii_digit_def less_eq_char_def)
  ultimately show ?thesis
    using parse_digits_show_nat [of "nat v"] c
    by (simp add: parse_i128_def show_int_def parse_nat_def)
qed

lemma parse_i128_range: "parse_i128 s = Some v \<Longrightarrow> in_i128 v"
  by (auto simp: parse_i128_def bind_eq_Some_conv checked_i128_def split: list.splits if_splits)

end
