(* ===== verification/Celestial.thy ===== *)
theory Celestial
  imports Prelude
begin

text \<open>
  Exact hierarchical addressing (\<open>crates/verse-simulation/src/celestial.rs\<close>): a position is a
  sector, a cell of the sector and a local offset in micrometres, and cells have canonical
  identities. The address types are those of \<open>crates/verse-protocol/src/lib.rs\<close>.
  BLAKE3 and the JSON encoder are third-party code: the functions that hash take them as
  arguments.
\<close>

section \<open>Address types\<close>

record i64_vec3 =
  lx :: int
  ly :: int
  lz :: int

record sector_coordinate =
  sx :: string
  sy :: string
  sz :: string

record cell_coordinate =
  cx :: u32
  cy :: u32
  cz :: u32

record universe_address =
  adr_universe_id :: string
  adr_sector :: sector_coordinate
  adr_cell :: cell_coordinate
  adr_local_um :: i64_vec3

record cell_key_v1 =
  key_schema_version :: u32
  key_universe_id :: string
  key_sector :: sector_coordinate
  key_cell :: cell_coordinate

datatype celestial_error =
    InvalidJson string
  | InvalidRegistry string
  | AddressOverflow
  | InvalidAddress string
  | NonFinitePosition
  | UnsafeDerivedPosition

definition i64_vec3_zero :: i64_vec3 where
  "i64_vec3_zero = \<lparr>lx = 0, ly = 0, lz = 0\<rparr>"

definition SECTOR_EDGE_UM :: int where
  "SECTOR_EDGE_UM = 20000000000000"

definition CELL_EDGE_UM :: int where
  "CELL_EDGE_UM = 20000000000"

definition CELLS_PER_SECTOR_AXIS :: int where
  "CELLS_PER_SECTOR_AXIS = 1000"

definition CELL_KEY_SCHEMA_VERSION :: u32 where
  "CELL_KEY_SCHEMA_VERSION = 1"

lemmas address_constants = SECTOR_EDGE_UM_def CELL_EDGE_UM_def CELLS_PER_SECTOR_AXIS_def

section \<open>Normalisation of one axis\<close>

definition normalize_axis :: "int \<Rightarrow> int \<Rightarrow> int \<Rightarrow> celestial_error + int \<times> u32 \<times> int" where
  "normalize_axis sector cell local_um =
     (let half_cell = CELL_EDGE_UM div 2 in
      try_r (ok_or (checked_i128 (local_um + half_cell)) AddressOverflow) (\<lambda>shifted.
      let local_carry = shifted div CELL_EDGE_UM;
          normalized_local = shifted mod CELL_EDGE_UM - half_cell in
      try_r (ok_or (checked_i128 (cell + local_carry)) AddressOverflow) (\<lambda>carried_cell.
      let sector_carry = carried_cell div CELLS_PER_SECTOR_AXIS;
          normalized_cell = carried_cell mod CELLS_PER_SECTOR_AXIS in
      try_r (ok_or (checked_i128 (sector + sector_carry)) AddressOverflow) (\<lambda>normalized_sector.
      if \<not> (0 \<le> normalized_cell \<and> normalized_cell < 2 ^ 32) then Inl AddressOverflow
      else if \<not> in_i64 normalized_local then Inl AddressOverflow
      else Inr (normalized_sector, word_of_int normalized_cell, normalized_local)))))"

section \<open>Keys and addresses\<close>

definition validate_sector_component :: "string \<Rightarrow> celestial_error + unit" where
  "validate_sector_component component =
     try_r (ok_or (parse_i128 component)
              (InvalidAddress ''sector coordinate is not signed 128-bit'')) (\<lambda>parsed.
     if show_int parsed \<noteq> component
     then Inl (InvalidAddress ''sector coordinate is not canonical decimal'')
     else Inr ())"

definition validate_universe_address :: "universe_address \<Rightarrow> string \<Rightarrow> celestial_error + unit" where
  "validate_universe_address address expected_universe_id =
     (if adr_universe_id address \<noteq> expected_universe_id
      then Inl (InvalidAddress ''address belongs to a different universe'')
      else
      try_r (for_each_r validate_sector_component
              [sx (adr_sector address), sy (adr_sector address), sz (adr_sector address)]) (\<lambda>_.
      if list_ex (\<lambda>cell. CELLS_PER_SECTOR_AXIS \<le> uint cell)
           [cx (adr_cell address), cy (adr_cell address), cz (adr_cell address)]
      then Inl (InvalidAddress ''cell coordinate lies outside the sector'')
      else
      let half = CELL_EDGE_UM div 2 in
      if list_ex (\<lambda>l. \<not> (- half \<le> l \<and> l < half))
           [lx (adr_local_um address), ly (adr_local_um address), lz (adr_local_um address)]
      then Inl (InvalidAddress ''local coordinate is not normalized'')
      else Inr ()))"

definition cell_address_from_parts :: "cell_key_v1 \<Rightarrow> universe_address" where
  "cell_address_from_parts key =
     \<lparr>adr_universe_id = key_universe_id key, adr_sector = key_sector key,
      adr_cell = key_cell key, adr_local_um = i64_vec3_zero\<rparr>"

definition validate_cell_key :: "cell_key_v1 \<Rightarrow> celestial_error + unit" where
  "validate_cell_key key =
     (if key_schema_version key \<noteq> CELL_KEY_SCHEMA_VERSION
      then Inl (InvalidAddress (''cell-key schema '' @ show_nat (unat (key_schema_version key))
             @ '' does not match required schema '' @ show_nat (unat CELL_KEY_SCHEMA_VERSION)))
      else validate_universe_address (cell_address_from_parts key) (key_universe_id key))"

definition cell_key_from_address :: "universe_address \<Rightarrow> celestial_error + cell_key_v1" where
  "cell_key_from_address address =
     try_r (validate_universe_address address (adr_universe_id address)) (\<lambda>_.
     Inr \<lparr>key_schema_version = CELL_KEY_SCHEMA_VERSION, key_universe_id = adr_universe_id address,
          key_sector = adr_sector address, key_cell = adr_cell address\<rparr>)"

definition cell_address_from_key :: "cell_key_v1 \<Rightarrow> celestial_error + universe_address" where
  "cell_address_from_key key =
     try_r (validate_cell_key key) (\<lambda>_. Inr (cell_address_from_parts key))"

definition neighbor_axis :: "string \<Rightarrow> u32 \<Rightarrow> int \<Rightarrow> celestial_error + int \<times> u32" where
  "neighbor_axis sector_text cell delta =
     try_r (ok_or (parse_i128 sector_text) AddressOverflow) (\<lambda>sector.
     try_r (ok_or (checked_i128 (uint cell + delta)) AddressOverflow) (\<lambda>requested_cell.
     try_r (normalize_axis sector requested_cell 0) (\<lambda>(sector, cell, local_um).
     Inr (sector, cell))))"

text \<open>The loop over the three axes is unrolled; \<open>delta\<close> is the array argument.\<close>

definition neighbor_cell_key ::
    "cell_key_v1 \<Rightarrow> int \<times> int \<times> int \<Rightarrow> celestial_error + cell_key_v1" where
  "neighbor_cell_key key delta =
     (case delta of (dx, dy, dz) \<Rightarrow>
      try_r (validate_cell_key key) (\<lambda>_.
      try_r (neighbor_axis (sx (key_sector key)) (cx (key_cell key)) dx) (\<lambda>(sec_x, cell_x).
      try_r (neighbor_axis (sy (key_sector key)) (cy (key_cell key)) dy) (\<lambda>(sec_y, cell_y).
      try_r (neighbor_axis (sz (key_sector key)) (cz (key_cell key)) dz) (\<lambda>(sec_z, cell_z).
      Inr \<lparr>key_schema_version = CELL_KEY_SCHEMA_VERSION, key_universe_id = key_universe_id key,
           key_sector = \<lparr>sx = show_int sec_x, sy = show_int sec_y, sz = show_int sec_z\<rparr>,
           key_cell = \<lparr>cx = cell_x, cy = cell_y, cz = cell_z\<rparr>\<rparr>)))))"

text \<open>The shape of a BLAKE3 hash in hexadecimal.\<close>

definition valid_blake3_hex :: "string \<Rightarrow> bool" where
  "valid_blake3_hex value =
     (length value = 64 \<and>
      list_all (\<lambda>byte. is_ascii_digit byte \<or> CHR ''a'' \<le> byte \<and> byte \<le> CHR ''f'') value)"

text \<open>
  \<open>cell_id\<close>: the BLAKE3 hash, in hexadecimal, of a domain separator and the canonical JSON
  bytes of a validated key.
\<close>

record externals =
  ext_blake3_hex :: "string \<Rightarrow> string"
  ext_cell_key_json :: "cell_key_v1 \<Rightarrow> string + string"

definition cell_key_domain :: string where
  "cell_key_domain = ''the-verse/cell-key/v1'' @ [CHR 0x00]"

definition cell_id :: "externals \<Rightarrow> cell_key_v1 \<Rightarrow> celestial_error + string" where
  "cell_id ext key =
     try_r (validate_cell_key key) (\<lambda>_.
     try_r (map_err InvalidJson (ext_cell_key_json ext key)) (\<lambda>bytes.
     Inr (ext_blake3_hex ext (cell_key_domain @ bytes))))"

definition cell_origin_address :: "string \<Rightarrow> universe_address" where
  "cell_origin_address universe_id =
     \<lparr>adr_universe_id = universe_id, adr_sector = \<lparr>sx = ''0'', sy = ''0'', sz = ''0''\<rparr>,
      adr_cell = \<lparr>cx = 500, cy = 500, cz = 500\<rparr>, adr_local_um = i64_vec3_zero\<rparr>"

definition cell_origin_key :: "string \<Rightarrow> celestial_error + cell_key_v1" where
  "cell_origin_key universe_id = cell_key_from_address (cell_origin_address universe_id)"

section \<open>Offsets between addresses\<close>

definition offset_axis :: "string \<Rightarrow> u32 \<Rightarrow> int \<Rightarrow> int \<Rightarrow> celestial_error + int \<times> u32 \<times> int" where
  "offset_axis sector_text cell local_um offset_um =
     try_r (ok_or (parse_i128 sector_text) AddressOverflow) (\<lambda>sector.
     try_r (ok_or (checked_i128 (local_um + offset_um)) AddressOverflow) (\<lambda>local.
     normalize_axis sector (uint cell) local))"

definition address_from_origin_offset_um ::
    "universe_address \<Rightarrow> int \<times> int \<times> int \<Rightarrow> celestial_error + universe_address" where
  "address_from_origin_offset_um origin offset_um =
     (case offset_um of (ox, oy, oz) \<Rightarrow>
      try_r (validate_universe_address origin (adr_universe_id origin)) (\<lambda>_.
      try_r (offset_axis (sx (adr_sector origin)) (cx (adr_cell origin)) (lx (adr_local_um origin)) ox)
        (\<lambda>(sec_x, cell_x, loc_x).
      try_r (offset_axis (sy (adr_sector origin)) (cy (adr_cell origin)) (ly (adr_local_um origin)) oy)
        (\<lambda>(sec_y, cell_y, loc_y).
      try_r (offset_axis (sz (adr_sector origin)) (cz (adr_cell origin)) (lz (adr_local_um origin)) oz)
        (\<lambda>(sec_z, cell_z, loc_z).
      Inr \<lparr>adr_universe_id = adr_universe_id origin,
           adr_sector = \<lparr>sx = show_int sec_x, sy = show_int sec_y, sz = show_int sec_z\<rparr>,
           adr_cell = \<lparr>cx = cell_x, cy = cell_y, cz = cell_z\<rparr>,
           adr_local_um = \<lparr>lx = loc_x, ly = loc_y, lz = loc_z\<rparr>\<rparr>)))))"

definition relative_axis ::
    "string \<Rightarrow> u32 \<Rightarrow> int \<Rightarrow> string \<Rightarrow> u32 \<Rightarrow> int \<Rightarrow> celestial_error + int" where
  "relative_axis origin_text origin_cell origin_local address_text address_cell address_local =
     try_r (ok_or (parse_i128 origin_text) AddressOverflow) (\<lambda>origin_sector.
     try_r (ok_or (parse_i128 address_text) AddressOverflow) (\<lambda>address_sector.
     ok_or
       (Option.bind (checked_i128 (address_sector - origin_sector)) (\<lambda>value.
        Option.bind (checked_i128 (value * SECTOR_EDGE_UM)) (\<lambda>value.
        Option.bind (checked_i128 (uint address_cell - uint origin_cell)) (\<lambda>cell_delta.
        Option.bind (checked_i128 (cell_delta * CELL_EDGE_UM)) (\<lambda>cell_offset.
        Option.bind (checked_i128 (value + cell_offset)) (\<lambda>value.
        checked_i128 (value + (address_local - origin_local))))))))
       AddressOverflow))"

definition relative_offset_um ::
    "universe_address \<Rightarrow> universe_address \<Rightarrow> celestial_error + int \<times> int \<times> int" where
  "relative_offset_um origin address =
     try_r (validate_universe_address origin (adr_universe_id origin)) (\<lambda>_.
     try_r (validate_universe_address address (adr_universe_id origin)) (\<lambda>_.
     try_r (relative_axis
              (sx (adr_sector origin)) (cx (adr_cell origin)) (lx (adr_local_um origin))
              (sx (adr_sector address)) (cx (adr_cell address)) (lx (adr_local_um address))) (\<lambda>dx.
     try_r (relative_axis
              (sy (adr_sector origin)) (cy (adr_cell origin)) (ly (adr_local_um origin))
              (sy (adr_sector address)) (cy (adr_cell address)) (ly (adr_local_um address))) (\<lambda>dy.
     try_r (relative_axis
              (sz (adr_sector origin)) (cz (adr_cell origin)) (lz (adr_local_um origin))
              (sz (adr_sector address)) (cz (adr_cell address)) (lz (adr_local_um address))) (\<lambda>dz.
     Inr (dx, dy, dz))))))"

definition global_axis_um :: "string \<Rightarrow> u32 \<Rightarrow> int \<Rightarrow> celestial_error + int" where
  "global_axis_um sector_text cell local_um =
     try_r (ok_or (parse_i128 sector_text) AddressOverflow) (\<lambda>sector.
     ok_or
       (Option.bind (checked_i128 (sector * SECTOR_EDGE_UM)) (\<lambda>value.
        Option.bind (checked_i128 (value + uint cell * CELL_EDGE_UM)) (\<lambda>value.
        checked_i128 (value + local_um))))
       AddressOverflow)"

definition global_position_um :: "universe_address \<Rightarrow> celestial_error + int \<times> int \<times> int" where
  "global_position_um address =
     try_r (global_axis_um (sx (adr_sector address)) (cx (adr_cell address)) (lx (adr_local_um address))) (\<lambda>px.
     try_r (global_axis_um (sy (adr_sector address)) (cy (adr_cell address)) (ly (adr_local_um address))) (\<lambda>py.
     try_r (global_axis_um (sz (adr_sector address)) (cz (adr_cell address)) (lz (adr_local_um address))) (\<lambda>pz.
     Inr (px, py, pz))))"

section \<open>One axis: exactness and uniqueness of the normal form\<close>

text \<open>The position an axis triple denotes, and the normal form of the encoding.\<close>

definition axis_um :: "int \<Rightarrow> int \<Rightarrow> int \<Rightarrow> int" where
  "axis_um sector cell local_um = sector * SECTOR_EDGE_UM + cell * CELL_EDGE_UM + local_um"

definition normal_axis :: "int \<Rightarrow> int \<Rightarrow> int \<Rightarrow> bool" where
  "normal_axis sector cell local_um =
     (in_i128 sector \<and> 0 \<le> cell \<and> cell < CELLS_PER_SECTOR_AXIS \<and>
      - (CELL_EDGE_UM div 2) \<le> local_um \<and> local_um < CELL_EDGE_UM div 2)"

lemma quotient_unique:
  fixes q q' a a' m :: int
  assumes "0 \<le> a" "a < m" "0 \<le> a'" "a' < m" "q * m + a = q' * m + a'"
  shows "q = q'" and "a = a'"
proof -
  have "(q * m + a) div m = q" and "(q' * m + a') div m = q'"
    using assms(1-4) by (simp_all add: int_div_pos_eq [of _ m _ _])
  with assms(5) show "q = q'" by simp
  with assms(5) show "a = a'" by simp
qed

lemma normal_axis_unique:
  assumes "normal_axis s c l" and "normal_axis s' c' l'" and "axis_um s c l = axis_um s' c' l'"
  shows "s = s' \<and> c = c' \<and> l = l'"
proof -
  let ?h = "CELL_EDGE_UM div 2"
  have "(s * 1000 + c) * CELL_EDGE_UM + (l + ?h) = (s' * 1000 + c') * CELL_EDGE_UM + (l' + ?h)"
    using assms(3) by (simp add: axis_um_def address_constants)
  moreover have "0 \<le> l + ?h" "l + ?h < CELL_EDGE_UM" "0 \<le> l' + ?h" "l' + ?h < CELL_EDGE_UM"
    using assms(1,2) by (auto simp: normal_axis_def address_constants)
  ultimately have "s * 1000 + c = s' * 1000 + c'" and l: "l + ?h = l' + ?h"
    using quotient_unique by blast+
  moreover have "0 \<le> c" "c < 1000" "0 \<le> c'" "c' < 1000"
    using assms(1,2) by (auto simp: normal_axis_def address_constants)
  ultimately show ?thesis
    using quotient_unique [of c 1000 c' s s'] by simp
qed

lemma normalize_axis_exact:
  assumes "normalize_axis s c l = Inr (s', c', l')"
  shows "axis_um s' (uint c') l' = axis_um s c l" and "normal_axis s' (uint c') l'"
proof -
  let ?h = "CELL_EDGE_UM div 2"
  define carry where "carry = (l + ?h) div CELL_EDGE_UM"
  from assms have s': "s' = s + (c + carry) div CELLS_PER_SECTOR_AXIS"
    and c': "c' = word_of_int ((c + carry) mod CELLS_PER_SECTOR_AXIS)"
    and l': "l' = (l + ?h) mod CELL_EDGE_UM - ?h" and "in_i128 s'"
    by (auto simp: normalize_axis_def Let_def result_elims carry_def split: if_splits)
  have "uint c' = (c + carry) mod CELLS_PER_SECTOR_AXIS"
    unfolding c' by (simp add: uint_word_of_int address_constants)
  moreover have "0 \<le> (c + carry) mod CELLS_PER_SECTOR_AXIS"
      "(c + carry) mod CELLS_PER_SECTOR_AXIS < CELLS_PER_SECTOR_AXIS"
    by (simp_all add: address_constants)
  moreover have "0 \<le> (l + ?h) mod CELL_EDGE_UM" "(l + ?h) mod CELL_EDGE_UM < CELL_EDGE_UM"
    by (simp_all add: address_constants)
  ultimately show "normal_axis s' (uint c') l'"
    using \<open>in_i128 s'\<close> l' unfolding normal_axis_def by (auto simp: address_constants)
  have "c + carry = (c + carry) div CELLS_PER_SECTOR_AXIS * CELLS_PER_SECTOR_AXIS + uint c'"
    using \<open>uint c' = _\<close> by (simp add: div_mult_mod_eq)
  moreover have "l + ?h = carry * CELL_EDGE_UM + (l' + ?h)"
    unfolding carry_def l' by (simp add: div_mult_mod_eq)
  ultimately show "axis_um s' (uint c') l' = axis_um s c l"
    unfolding s' axis_um_def by (simp add: address_constants algebra_simps)
qed

text \<open>Normalisation succeeds exactly when no intermediate value leaves the signed 128-bit range.\<close>

lemma normalize_axis_succeeds:
  assumes "in_i128 (l + CELL_EDGE_UM div 2)"
    and "in_i128 (c + (l + CELL_EDGE_UM div 2) div CELL_EDGE_UM)"
    and "in_i128 (s + (c + (l + CELL_EDGE_UM div 2) div CELL_EDGE_UM) div CELLS_PER_SECTOR_AXIS)"
  shows "\<exists>s' c' l'. normalize_axis s c l = Inr (s', c', l')"
proof -
  have "0 \<le> (c + x) mod 1000 \<and> (c + x) mod 1000 < 2 ^ 32" for x :: int
    using pos_mod_sign [of 1000 "c + x"] pos_mod_bound [of 1000 "c + x"] by simp
  moreover have "in_i64 ((l + 10000000000) mod 20000000000 - 10000000000)"
    using pos_mod_sign [of 20000000000 "l + 10000000000"]
      pos_mod_bound [of 20000000000 "l + 10000000000"]
    unfolding in_i64_def by simp
  ultimately show ?thesis
    using assms by (auto simp: normalize_axis_def Let_def address_constants)
qed

text \<open>
  A value that denotes the position of a normal triple is normalised to that triple, if
  its cell is small and its local part is far from the end of the range.
\<close>

lemma normalize_axis_to_normal:
  assumes normal: "normal_axis s' c' l'" and same: "axis_um s c l = axis_um s' c' l'"
    and local: "in_i128 (l + CELL_EDGE_UM div 2)" and cell: "\<bar>c\<bar> \<le> 2 ^ 33"
  shows "normalize_axis s c l = Inr (s', word_of_int c', l')"
proof -
  let ?h = "CELL_EDGE_UM div 2"
  let ?carry = "(l + ?h) div CELL_EDGE_UM"
  have "in_i128 (c + ?carry)"
    using local cell unfolding in_i128_def address_constants by (simp add: abs_le_iff) arith
  let ?q = "(c + ?carry) div CELLS_PER_SECTOR_AXIS"
  let ?r = "(c + ?carry) mod CELLS_PER_SECTOR_AXIS"
  have "(s + ?q) * 1000 + ?r = s * 1000 + (c + ?carry)"
    using div_mult_mod_eq [of "c + ?carry" 1000] by (simp add: address_constants algebra_simps)
  moreover have "l + ?h = ?carry * CELL_EDGE_UM + (l + ?h) mod CELL_EDGE_UM"
    by (simp add: div_mult_mod_eq)
  ultimately have e: "((s + ?q) * 1000 + ?r) * CELL_EDGE_UM + (l + ?h) mod CELL_EDGE_UM
      = (s' * 1000 + c') * CELL_EDGE_UM + (l' + ?h)"
    using same by (simp add: axis_um_def address_constants algebra_simps)
  have "0 \<le> l' + ?h" "l' + ?h < CELL_EDGE_UM"
    using normal by (auto simp: normal_axis_def address_constants)
  then have "(s + ?q) * 1000 + ?r = s' * 1000 + c'"
    using quotient_unique(1) [OF _ _ _ _ e] by (simp add: address_constants)
  moreover have "0 \<le> ?r" "?r < 1000" "0 \<le> c'" "c' < 1000"
    using normal by (auto simp: normal_axis_def address_constants)
  ultimately have "s + ?q = s'"
    using quotient_unique(1) [of ?r 1000 c'] by blast
  then have "in_i128 (s + ?q)"
    using normal by (simp add: normal_axis_def)
  with local \<open>in_i128 (c + ?carry)\<close> obtain s2 c2 l2 where n: "normalize_axis s c l = Inr (s2, c2, l2)"
    using normalize_axis_succeeds by blast
  with normalize_axis_exact [OF n] normal same
  have "s2 = s'" "uint c2 = c'" "l2 = l'"
    using normal_axis_unique by metis+
  with n show ?thesis by auto
qed

section \<open>Addresses: validity, offsets and neighbours\<close>

definition canonical_sector :: "string \<Rightarrow> bool" where
  "canonical_sector t = (\<exists>v. in_i128 v \<and> t = show_int v)"

lemma validate_sector_component_ok: "validate_sector_component t = Inr () \<longleftrightarrow> canonical_sector t"
  by (auto simp: validate_sector_component_def canonical_sector_def result_elims
      parse_i128_show_int dest: parse_i128_range)

definition normal_address :: "universe_address \<Rightarrow> bool" where
  "normal_address a \<longleftrightarrow>
     (\<exists>s1 s2 s3.
       adr_sector a = \<lparr>sx = show_int s1, sy = show_int s2, sz = show_int s3\<rparr> \<and>
       normal_axis s1 (uint (cx (adr_cell a))) (lx (adr_local_um a)) \<and>
       normal_axis s2 (uint (cy (adr_cell a))) (ly (adr_local_um a)) \<and>
       normal_axis s3 (uint (cz (adr_cell a))) (lz (adr_local_um a)))"

lemma validate_universe_address_ok:
  "validate_universe_address a u = Inr () \<longleftrightarrow> adr_universe_id a = u \<and> normal_address a"
  (is "?l \<longleftrightarrow> ?r")
proof -
  have "?l \<longleftrightarrow> adr_universe_id a = u \<and>
      canonical_sector (sx (adr_sector a)) \<and> canonical_sector (sy (adr_sector a)) \<and>
      canonical_sector (sz (adr_sector a)) \<and>
      uint (cx (adr_cell a)) < CELLS_PER_SECTOR_AXIS \<and>
      uint (cy (adr_cell a)) < CELLS_PER_SECTOR_AXIS \<and>
      uint (cz (adr_cell a)) < CELLS_PER_SECTOR_AXIS \<and>
      (\<forall>l \<in> {lx (adr_local_um a), ly (adr_local_um a), lz (adr_local_um a)}.
        - (CELL_EDGE_UM div 2) \<le> l \<and> l < CELL_EDGE_UM div 2)"
    by (auto simp: validate_universe_address_def result_elims validate_sector_component_ok Let_def)
  also have "\<dots> \<longleftrightarrow> ?r"
    by (cases "adr_sector a") (auto simp: normal_address_def normal_axis_def canonical_sector_def)
  finally show ?thesis .
qed

lemma validate_universe_address_okI:
  "normal_address a \<Longrightarrow> adr_universe_id a = u \<Longrightarrow> validate_universe_address a u = Inr ()"
  by (simp add: validate_universe_address_ok)

lemma normal_axis_in_i128: "normal_axis s c l \<Longrightarrow> in_i128 s"
  by (simp add: normal_axis_def)

lemma offset_axis_show:
  "in_i128 s \<Longrightarrow> offset_axis (show_int s) c l off = Inr r \<longleftrightarrow>
     in_i128 (l + off) \<and> normalize_axis s (uint c) (l + off) = Inr r"
  by (auto simp: offset_axis_def parse_i128_show_int result_elims)

text \<open>The two conversions of one axis agree, in both directions.\<close>

definition small_offset :: "int \<Rightarrow> bool" where
  "small_offset off = (\<bar>off\<bar> \<le> 2 ^ 126)"

lemma relative_axis_value:
  assumes n: "normal_axis s (uint c) l" and n': "normal_axis s' (uint c') l'"
    and eq: "axis_um s' (uint c') l' = axis_um s (uint c) l + off" and off: "small_offset off"
  shows "relative_axis (show_int s) c l (show_int s') c' l' = Inr off"
proof -
  have b: "\<bar>uint c' - uint c\<bar> < 1000" "\<bar>l' - l\<bar> \<le> 20000000000"
    using n n' uint_ge_0 [of c] uint_ge_0 [of c'] unfolding normal_axis_def address_constants
    by linarith+
  have e: "(s' - s) * 20000000000000 + (uint c' - uint c) * 20000000000 + (l' - l) = off"
    using eq by (simp add: axis_um_def address_constants algebra_simps)
  with off b have r: "in_i128 (s' - s)" "in_i128 ((s' - s) * 20000000000000)"
      "in_i128 (uint c' - uint c)" "in_i128 ((uint c' - uint c) * 20000000000)"
      "in_i128 ((s' - s) * 20000000000000 + (uint c' - uint c) * 20000000000)" "in_i128 off"
    unfolding small_offset_def in_i128_def abs_le_iff abs_less_iff by simp_all
  have "in_i128 s" "in_i128 s'"
    using n n' by (auto intro: normal_axis_in_i128)
  with r e show ?thesis
    by (simp add: relative_axis_def parse_i128_show_int address_constants)
qed

lemma relative_axis_exact:
  assumes "relative_axis (show_int s) c l (show_int s') c' l' = Inr off" and "in_i128 s" "in_i128 s'"
  shows "axis_um s' (uint c') l' = axis_um s (uint c) l + off"
proof -
  from assms have "off = (s' - s) * SECTOR_EDGE_UM + (uint c' - uint c) * CELL_EDGE_UM + (l' - l)"
    by (auto simp: relative_axis_def parse_i128_show_int result_elims bind_eq_Some_conv)
  then show ?thesis
    by (simp add: axis_um_def algebra_simps)
qed

lemma offset_axis_iff_relative:
  assumes n: "normal_axis s (uint c) l" and n': "normal_axis s' (uint c') l'"
    and off: "small_offset off"
  shows "offset_axis (show_int s) c l off = Inr (s', c', l') \<longleftrightarrow>
    relative_axis (show_int s) c l (show_int s') c' l' = Inr off"
proof -
  have i: "in_i128 s" "in_i128 s'" using n n' by (auto intro: normal_axis_in_i128)
  have l: "in_i128 (l + off)" "in_i128 (l + off + CELL_EDGE_UM div 2)" "\<bar>uint c\<bar> \<le> 2 ^ 33"
    using n off by (auto simp: normal_axis_def address_constants in_i128_def small_offset_def abs_le_iff)
  show ?thesis
  proof
    assume "offset_axis (show_int s) c l off = Inr (s', c', l')"
    then have "axis_um s' (uint c') l' = axis_um s (uint c) (l + off)"
      using i normalize_axis_exact(1) by (auto simp: offset_axis_show)
    then show "relative_axis (show_int s) c l (show_int s') c' l' = Inr off"
      by (intro relative_axis_value [OF n n' _ off]) (simp add: axis_um_def)
  next
    assume "relative_axis (show_int s) c l (show_int s') c' l' = Inr off"
    then have "axis_um s (uint c) (l + off) = axis_um s' (uint c') l'"
      using relative_axis_exact [OF _ i] by (simp add: axis_um_def)
    from normalize_axis_to_normal [OF n' this l(2,3)] l(1) i
    show "offset_axis (show_int s) c l off = Inr (s', c', l')"
      by (simp add: offset_axis_show)
  qed
qed

lemma show_int_inject: "in_i128 v \<Longrightarrow> in_i128 w \<Longrightarrow> show_int v = show_int w \<longleftrightarrow> v = w"
  by (metis option.inject parse_i128_show_int)

lemma offset_axis_normal:
  "in_i128 s \<Longrightarrow> offset_axis (show_int s) c l off = Inr (s', c', l') \<Longrightarrow> normal_axis s' (uint c') l'"
  using normalize_axis_exact(2) by (auto simp: offset_axis_show)

lemma offset_read_back:
  assumes "small_offset ox" "small_offset oy" "small_offset oz" and "normal_address origin"
    and "address_from_origin_offset_um origin (ox, oy, oz) = Inr address"
  shows "relative_offset_um origin address = Inr (ox, oy, oz)"
proof -
  from assms(4) obtain s1 s2 s3 where sec:
      "adr_sector origin = \<lparr>sx = show_int s1, sy = show_int s2, sz = show_int s3\<rparr>"
    and n: "normal_axis s1 (uint (cx (adr_cell origin))) (lx (adr_local_um origin))"
      "normal_axis s2 (uint (cy (adr_cell origin))) (ly (adr_local_um origin))"
      "normal_axis s3 (uint (cz (adr_cell origin))) (lz (adr_local_um origin))"
    unfolding normal_address_def by blast
  note i = n [THEN normal_axis_in_i128]
  from assms(5) obtain t1 t2 t3 c1 c2 c3 l1 l2 l3 where
    ax: "offset_axis (show_int s1) (cx (adr_cell origin)) (lx (adr_local_um origin)) ox = Inr (t1, c1, l1)"
      "offset_axis (show_int s2) (cy (adr_cell origin)) (ly (adr_local_um origin)) oy = Inr (t2, c2, l2)"
      "offset_axis (show_int s3) (cz (adr_cell origin)) (lz (adr_local_um origin)) oz = Inr (t3, c3, l3)"
    and a: "address = \<lparr>adr_universe_id = adr_universe_id origin,
      adr_sector = \<lparr>sx = show_int t1, sy = show_int t2, sz = show_int t3\<rparr>,
      adr_cell = \<lparr>cx = c1, cy = c2, cz = c3\<rparr>, adr_local_um = \<lparr>lx = l1, ly = l2, lz = l3\<rparr>\<rparr>"
    by (auto simp: address_from_origin_offset_um_def result_elims sec)
  have n': "normal_axis t1 (uint c1) l1" "normal_axis t2 (uint c2) l2" "normal_axis t3 (uint c3) l3"
    using ax i offset_axis_normal by blast+
  then have "normal_address address"
    by (auto simp: normal_address_def a)
  with ax n n' assms(1-4) show ?thesis
    by (simp add: relative_offset_um_def validate_universe_address_okI sec offset_axis_iff_relative a)
qed

text \<open>
  C38: Moving by an exact offset and reading the offset between two addresses are inverse:
  for offsets of at most $2^{126}$ micrometres per axis,
  \<open>address_from_origin_offset_um\<close> returns an address exactly when \<open>relative_offset_um\<close>
  reads that offset back between the same addresses. No carry between micrometres, cells and
  sectors loses or gains a micrometre.
\<close>

theorem address_offset_roundtrip:
  assumes "small_offset ox" "small_offset oy" "small_offset oz"
  shows "address_from_origin_offset_um origin (ox, oy, oz) = Inr address \<longleftrightarrow>
    relative_offset_um origin address = Inr (ox, oy, oz)"
    (is "?from \<longleftrightarrow> ?rel")
proof (cases "normal_address origin")
  case False
  then have "validate_universe_address origin (adr_universe_id origin) \<noteq> Inr ()"
    by (simp add: validate_universe_address_ok)
  then show ?thesis
    by (auto simp: address_from_origin_offset_um_def relative_offset_um_def result_elims)
next
  case True
  then obtain s1 s2 s3 where sec:
      "adr_sector origin = \<lparr>sx = show_int s1, sy = show_int s2, sz = show_int s3\<rparr>"
    and n: "normal_axis s1 (uint (cx (adr_cell origin))) (lx (adr_local_um origin))"
      "normal_axis s2 (uint (cy (adr_cell origin))) (ly (adr_local_um origin))"
      "normal_axis s3 (uint (cz (adr_cell origin))) (lz (adr_local_um origin))"
    unfolding normal_address_def by blast
  show ?thesis
  proof
    assume ?from
    then show ?rel by (rule offset_read_back [OF assms True])
  next
    assume ?rel
    then have va: "adr_universe_id address = adr_universe_id origin" "normal_address address"
      by (auto simp: relative_offset_um_def result_elims validate_universe_address_ok)
    then obtain t1 t2 t3 where sec':
        "adr_sector address = \<lparr>sx = show_int t1, sy = show_int t2, sz = show_int t3\<rparr>"
      and n': "normal_axis t1 (uint (cx (adr_cell address))) (lx (adr_local_um address))"
        "normal_axis t2 (uint (cy (adr_cell address))) (ly (adr_local_um address))"
        "normal_axis t3 (uint (cz (adr_cell address))) (lz (adr_local_um address))"
      unfolding normal_address_def by blast
    from \<open>?rel\<close> n n' assms True show ?from
      by (simp add: address_from_origin_offset_um_def relative_offset_um_def result_elims sec sec'
          va validate_universe_address_okI offset_axis_iff_relative [symmetric])
  qed
qed

theorem address_offset_roundtrip_witness:
  "address_from_origin_offset_um (cell_origin_address ''u'') (15000000000, -3, 0) =
     Inr \<lparr>adr_universe_id = ''u'', adr_sector = \<lparr>sx = ''0'', sy = ''0'', sz = ''0''\<rparr>,
          adr_cell = \<lparr>cx = 501, cy = 500, cz = 500\<rparr>,
          adr_local_um = \<lparr>lx = -5000000000, ly = -3, lz = 0\<rparr>\<rparr>"
  by (subst address_offset_roundtrip) (simp_all add: small_offset_def, code_simp)

definition normal_key :: "cell_key_v1 \<Rightarrow> bool" where
  "normal_key key \<longleftrightarrow>
     key_schema_version key = CELL_KEY_SCHEMA_VERSION \<and> normal_address (cell_address_from_parts key)"

lemma validate_cell_key_ok: "validate_cell_key key = Inr () \<longleftrightarrow> normal_key key"
  by (auto simp: validate_cell_key_def normal_key_def validate_universe_address_ok
      cell_address_from_parts_def)

lemma normal_key_iff:
  "normal_key key \<longleftrightarrow> key_schema_version key = CELL_KEY_SCHEMA_VERSION \<and>
    (\<exists>s1 s2 s3. key_sector key = \<lparr>sx = show_int s1, sy = show_int s2, sz = show_int s3\<rparr> \<and>
      normal_axis s1 (uint (cx (key_cell key))) 0 \<and> normal_axis s2 (uint (cy (key_cell key))) 0 \<and>
      normal_axis s3 (uint (cz (key_cell key))) 0)"
  by (auto simp: normal_key_def normal_address_def cell_address_from_parts_def i64_vec3_zero_def)

lemma normalize_axis_zero_local:
  assumes "normalize_axis s c 0 = Inr (s', c', l')"
  shows "l' = 0"
  using assms by (auto simp: normalize_axis_def Let_def result_elims address_constants split: if_splits)

lemma neighbor_axis_show:
  "in_i128 s \<Longrightarrow> neighbor_axis (show_int s) c d = Inr (s', c') \<longleftrightarrow>
     in_i128 (uint c + d) \<and> normalize_axis s (uint c + d) 0 = Inr (s', c', 0)"
  by (auto simp: neighbor_axis_def parse_i128_show_int result_elims dest: normalize_axis_zero_local)

lemma neighbor_axis_back:
  assumes n: "normal_axis s (uint c) 0" and d: "in_i32 d"
    and step: "neighbor_axis (show_int s) c d = Inr (s', c')"
  shows "normal_axis s' (uint c') 0" and "neighbor_axis (show_int s') c' (- d) = Inr (s, c)"
proof -
  from step n have norm: "normalize_axis s (uint c + d) 0 = Inr (s', c', 0)"
    by (simp add: neighbor_axis_show normal_axis_in_i128)
  then show n': "normal_axis s' (uint c') 0"
    by (rule normalize_axis_exact(2))
  have "axis_um s' (uint c' + - d) 0 = axis_um s (uint c) 0"
    using normalize_axis_exact(1) [OF norm] by (simp add: axis_um_def algebra_simps)
  moreover have "\<bar>u + - d\<bar> \<le> 2 ^ 33 \<and> in_i128 (u - d)" if "0 \<le> u" "u < 1000" for u
    using that d by (simp add: in_i32_def in_i128_def abs_le_iff)
  then have "\<bar>uint c' + - d\<bar> \<le> 2 ^ 33" "in_i128 (uint c' - d)"
    using n' by (simp_all add: normal_axis_def CELLS_PER_SECTOR_AXIS_def)
  moreover have "in_i128 (0 + CELL_EDGE_UM div 2)"
    by (simp add: in_i128_def address_constants)
  ultimately have "normalize_axis s' (uint c' + - d) 0 = Inr (s, word_of_int (uint c), 0)"
    using normalize_axis_to_normal [OF n] by blast
  with \<open>in_i128 (uint c' - d)\<close> n' show "neighbor_axis (show_int s') c' (- d) = Inr (s, c)"
    by (simp add: neighbor_axis_show normal_axis_in_i128)
qed

text \<open>
  Stepping to a neighbouring cell is reversible: the neighbour of a valid key is itself
  a valid canonical key, and the opposite step leads back to the very same key (and so to the
  same cell identity), whatever sector boundaries are crossed.
\<close>

theorem neighbor_cell_key_reversible:
  assumes step: "neighbor_cell_key key (dx, dy, dz) = Inr key'"
    and d: "in_i32 dx" "in_i32 dy" "in_i32 dz"
  shows "validate_cell_key key' = Inr () \<and> neighbor_cell_key key' (- dx, - dy, - dz) = Inr key"
proof -
  from step have "normal_key key"
    by (auto simp: neighbor_cell_key_def result_elims validate_cell_key_ok)
  then obtain s1 s2 s3 where sec: "key_sector key = \<lparr>sx = show_int s1, sy = show_int s2, sz = show_int s3\<rparr>"
    and n: "normal_axis s1 (uint (cx (key_cell key))) 0" "normal_axis s2 (uint (cy (key_cell key))) 0"
      "normal_axis s3 (uint (cz (key_cell key))) 0"
    and ver: "key_schema_version key = CELL_KEY_SCHEMA_VERSION"
    by (auto simp: normal_key_iff)
  from step obtain t1 t2 t3 c1 c2 c3 where
    ax: "neighbor_axis (show_int s1) (cx (key_cell key)) dx = Inr (t1, c1)"
      "neighbor_axis (show_int s2) (cy (key_cell key)) dy = Inr (t2, c2)"
      "neighbor_axis (show_int s3) (cz (key_cell key)) dz = Inr (t3, c3)"
    and k': "key' = \<lparr>key_schema_version = CELL_KEY_SCHEMA_VERSION, key_universe_id = key_universe_id key,
      key_sector = \<lparr>sx = show_int t1, sy = show_int t2, sz = show_int t3\<rparr>,
      key_cell = \<lparr>cx = c1, cy = c2, cz = c3\<rparr>\<rparr>"
    by (auto simp: neighbor_cell_key_def result_elims sec)
  note reverse = neighbor_axis_back [OF n(1) d(1) ax(1)] neighbor_axis_back [OF n(2) d(2) ax(2)]
    neighbor_axis_back [OF n(3) d(3) ax(3)]
  then have "normal_key key'"
    by (auto simp: normal_key_iff k')
  then have v: "validate_cell_key key' = Inr ()"
    by (simp add: validate_cell_key_ok)
  have "neighbor_cell_key key' (- dx, - dy, - dz) = Inr key"
    using reverse v sec ver by (cases key; cases "key_cell key") (simp add: neighbor_cell_key_def k')
  with v show ?thesis ..
qed

theorem neighbor_cell_key_reversible_witness:
  "let key = \<lparr>key_schema_version = 1, key_universe_id = ''u'',
         key_sector = \<lparr>sx = ''0'', sy = ''-1'', sz = ''7''\<rparr>, key_cell = \<lparr>cx = 0, cy = 999, cz = 5\<rparr>\<rparr>;
       key' = \<lparr>key_schema_version = 1, key_universe_id = ''u'',
         key_sector = \<lparr>sx = ''-1'', sy = ''0'', sz = ''7''\<rparr>, key_cell = \<lparr>cx = 999, cy = 0, cz = 5\<rparr>\<rparr>
   in neighbor_cell_key key' (1, -1, 0) = Inr key"
proof -
  have step: "neighbor_cell_key \<lparr>key_schema_version = 1, key_universe_id = ''u'',
      key_sector = \<lparr>sx = ''0'', sy = ''-1'', sz = ''7''\<rparr>, key_cell = \<lparr>cx = 0, cy = 999, cz = 5\<rparr>\<rparr> (-1, 1, 0)
    = Inr \<lparr>key_schema_version = 1, key_universe_id = ''u'',
         key_sector = \<lparr>sx = ''-1'', sy = ''0'', sz = ''7''\<rparr>, key_cell = \<lparr>cx = 999, cy = 0, cz = 5\<rparr>\<rparr>"
    by code_simp
  show ?thesis
    using neighbor_cell_key_reversible [OF step] by (simp add: in_i32_def Let_def)
qed

lemma cell_id_ok:
  "cell_id ext key = Inr h \<Longrightarrow> normal_key key"
  by (auto simp: cell_id_def result_elims validate_cell_key_ok)

end
