(* ===== verification/CellDirectory.thy ===== *)
theory CellDirectory
  imports Celestial
begin

text \<open>
  The durable cell directory (\<open>crates/verse-simulation/src/cell_directory.rs\<close>): which
  authority holds each cell, where each mobile aggregate lives, and the transfers that move
  aggregates between cells. This theory holds the records, the checks on the proofs that
  cells submit, and one definition per operation. An operation of the source clones the
  document, edits the clone and commits it; here it is a function of the document that
  returns the document to commit (\<open>Commit\<close>) or answers without writing (\<open>Unchanged\<close>),
  and \<open>execute\<close> performs the commit with the outcome of the file system.
\<close>

section \<open>Records\<close>

datatype cell_assignment_state = Sleeping | Claiming | Assigned | Releasing

record cell_assignment_record =
  asg_cell_key :: cell_key_v1
  asg_cell_id :: string
  asg_assignment_generation :: u64
  asg_authority_fencing_token :: u64
  asg_fencing_history :: "(u64, u64) btree_map"
  asg_state :: cell_assignment_state
  asg_holder_id :: "string option"

datatype mobile_aggregate_kind = Player | Grid

datatype aggregate_placement_state = Resident | Preparing | InTransit

record aggregate_placement_record =
  plc_aggregate_id :: string
  plc_aggregate_kind :: mobile_aggregate_kind
  plc_cell_key :: cell_key_v1
  plc_cell_id :: string
  plc_placement_generation :: u64
  plc_state :: aggregate_placement_state
  plc_active_transfer_id :: "string option"

datatype transfer_phase =
  Prepared | Quarantined | Committed | Imported | Finalized | Aborting | Aborted

datatype transfer_abort_role = Source | Destination

record cell_transfer_abort_proof =
  abp_transfer_id :: string
  abp_package_hash :: string
  abp_cell_id :: string
  abp_assignment_generation :: u64
  abp_role :: transfer_abort_role
  abp_fencing_token :: u64
  abp_event_sequence :: u64
  abp_event_hash :: string
  abp_world_hash :: string

record cell_transfer_import_proof =
  imp_transfer_id :: string
  imp_package_hash :: string
  imp_quarantine_receipt_hash :: string
  imp_destination_cell_id :: string
  imp_destination_assignment_generation :: u64
  imp_resulting_placement_generation :: u64
  imp_destination_fencing_token :: u64
  imp_destination_event_sequence :: u64
  imp_destination_event_hash :: string
  imp_destination_world_hash :: string

record cell_transfer_finalization_proof =
  fin_transfer_id :: string
  fin_package_hash :: string
  fin_source_cell_id :: string
  fin_source_assignment_generation :: u64
  fin_resulting_placement_generation :: u64
  fin_source_fencing_token :: u64
  fin_source_event_sequence :: u64
  fin_source_event_hash :: string
  fin_source_world_hash :: string

record cell_transfer_prepare_proof =
  prp_transfer_id :: string
  prp_package_hash :: string
  prp_source_cell_id :: string
  prp_source_assignment_generation :: u64
  prp_prior_placement_generation :: u64
  prp_source_fencing_token :: u64
  prp_source_event_sequence :: u64
  prp_source_event_hash :: string
  prp_source_world_hash :: string

record cell_transfer_quarantine_proof =
  qrt_transfer_id :: string
  qrt_package_hash :: string
  qrt_quarantine_receipt_hash :: string
  qrt_destination_cell_id :: string
  qrt_destination_assignment_generation :: u64
  qrt_resulting_placement_generation :: u64
  qrt_destination_fencing_token :: u64
  qrt_destination_event_sequence :: u64
  qrt_destination_event_hash :: string
  qrt_destination_world_hash :: string

record cell_transfer_record =
  trf_transfer_id :: string
  trf_aggregate_id :: string
  trf_aggregate_kind :: mobile_aggregate_kind
  trf_source_cell_key :: cell_key_v1
  trf_source_cell_id :: string
  trf_destination_cell_key :: cell_key_v1
  trf_destination_cell_id :: string
  trf_source_assignment_generation :: u64
  trf_destination_assignment_generation :: u64
  trf_prior_placement_generation :: u64
  trf_resulting_placement_generation :: u64
  trf_package_hash :: string
  trf_quarantine_receipt_hash :: "string option"
  trf_source_prepare_proof :: "cell_transfer_prepare_proof option"
  trf_destination_quarantine_proof :: "cell_transfer_quarantine_proof option"
  trf_import_proof :: "cell_transfer_import_proof option"
  trf_finalization_proof :: "cell_transfer_finalization_proof option"
  trf_source_abort_proof :: "cell_transfer_abort_proof option"
  trf_destination_abort_proof :: "cell_transfer_abort_proof option"
  trf_phase :: transfer_phase

record cell_directory_document =
  doc_schema_version :: u32
  doc_universe_id :: string
  doc_universe_manifest_hash :: string
  doc_directory_revision :: u64
  doc_assignments :: "(string, cell_assignment_record) btree_map"
  doc_placements :: "(string, aggregate_placement_record) btree_map"
  doc_transfers :: "(string, cell_transfer_record) btree_map"

datatype cell_directory_error =
    Io string
  | Json string
  | WriterAlreadyActive string
  | InvalidDirectory string
  | UnknownCell string
  | AssignmentConflict string string
  | AssignmentGenerationExhausted string
  | TransferConflict string string
  | UnknownAggregate string
  | UnknownTransfer string
  | PlacementGenerationExhausted string
  | DirectoryRevisionExhausted

text \<open>The display text of an address error, which directory errors carry.\<close>

fun celestial_error_text :: "celestial_error \<Rightarrow> string" where
  "celestial_error_text (InvalidJson s) = ''celestial registry definition is invalid JSON: '' @ s"
| "celestial_error_text (InvalidRegistry s) = ''celestial registry invariant failed: '' @ s"
| "celestial_error_text AddressOverflow = ''universe address arithmetic overflowed''"
| "celestial_error_text (InvalidAddress s) = ''universe address is invalid: '' @ s"
| "celestial_error_text NonFinitePosition = ''active-cell position contains a non-finite component''"
| "celestial_error_text UnsafeDerivedPosition =
     ''universe address is outside the exact active-physics conversion range''"

definition directory_cell_id :: "externals \<Rightarrow> cell_key_v1 \<Rightarrow> cell_directory_error + string" where
  "directory_cell_id ext key =
     map_err (\<lambda>source. InvalidDirectory (celestial_error_text source)) (cell_id ext key)"

section \<open>Checks on identifiers, hashes and proofs\<close>

definition stable_id_byte :: "char \<Rightarrow> bool" where
  "stable_id_byte byte =
     (is_ascii_alphanumeric byte \<or> byte \<in> {CHR ''-'', CHR ''_'', CHR ''.'', CHR '':''})"

definition validate_stable_id :: "string \<Rightarrow> string \<Rightarrow> cell_directory_error + unit" where
  "validate_stable_id value kind =
     (if value = [] \<or> 128 < length value \<or> \<not> list_all stable_id_byte value
      then Inl (InvalidDirectory (kind @ '' ID is not bounded canonical text''))
      else Inr ())"

definition validate_hash :: "string \<Rightarrow> string \<Rightarrow> cell_directory_error + unit" where
  "validate_hash value kind =
     (if \<not> valid_blake3_hex value
      then Inl (InvalidDirectory (kind @ '' hash is not canonical BLAKE3 text''))
      else Inr ())"

definition validate_holder :: "string \<Rightarrow> cell_directory_error + unit" where
  "validate_holder holder_id = validate_stable_id holder_id ''assignment holder''"

definition validate_import_proof ::
    "cell_transfer_record \<Rightarrow> cell_transfer_import_proof \<Rightarrow> cell_directory_error + unit" where
  "validate_import_proof transfer proof =
     try_r (validate_hash (imp_destination_event_hash proof) ''destination import event'') (\<lambda>_.
     try_r (validate_hash (imp_destination_world_hash proof) ''destination import world'') (\<lambda>_.
     if imp_transfer_id proof \<noteq> trf_transfer_id transfer
        \<or> imp_package_hash proof \<noteq> trf_package_hash transfer
        \<or> trf_quarantine_receipt_hash transfer \<noteq> Some (imp_quarantine_receipt_hash proof)
        \<or> imp_destination_cell_id proof \<noteq> trf_destination_cell_id transfer
        \<or> imp_destination_assignment_generation proof < trf_destination_assignment_generation transfer
        \<or> imp_resulting_placement_generation proof \<noteq> trf_resulting_placement_generation transfer
        \<or> imp_destination_fencing_token proof = 0
        \<or> imp_destination_event_sequence proof = 0
     then Inl (TransferConflict (trf_transfer_id transfer)
                 ''destination import proof does not bind the committed transfer'')
     else Inr ()))"

definition validate_finalization_proof ::
    "cell_transfer_record \<Rightarrow> cell_transfer_finalization_proof \<Rightarrow> cell_directory_error + unit" where
  "validate_finalization_proof transfer proof =
     try_r (validate_hash (fin_source_event_hash proof) ''source finalization event'') (\<lambda>_.
     try_r (validate_hash (fin_source_world_hash proof) ''source finalization world'') (\<lambda>_.
     if fin_transfer_id proof \<noteq> trf_transfer_id transfer
        \<or> fin_package_hash proof \<noteq> trf_package_hash transfer
        \<or> fin_source_cell_id proof \<noteq> trf_source_cell_id transfer
        \<or> fin_source_assignment_generation proof < trf_source_assignment_generation transfer
        \<or> fin_resulting_placement_generation proof \<noteq> trf_resulting_placement_generation transfer
        \<or> fin_source_fencing_token proof = 0
        \<or> fin_source_event_sequence proof = 0
     then Inl (TransferConflict (trf_transfer_id transfer)
                 ''source finalization proof does not bind the committed transfer'')
     else Inr ()))"

definition validate_prepare_proof ::
    "cell_transfer_record \<Rightarrow> cell_transfer_prepare_proof \<Rightarrow> cell_directory_error + unit" where
  "validate_prepare_proof transfer proof =
     try_r (validate_hash (prp_source_event_hash proof) ''source prepare event'') (\<lambda>_.
     try_r (validate_hash (prp_source_world_hash proof) ''source prepare world'') (\<lambda>_.
     if prp_transfer_id proof \<noteq> trf_transfer_id transfer
        \<or> prp_package_hash proof \<noteq> trf_package_hash transfer
        \<or> prp_source_cell_id proof \<noteq> trf_source_cell_id transfer
        \<or> prp_source_assignment_generation proof < trf_source_assignment_generation transfer
        \<or> prp_prior_placement_generation proof \<noteq> trf_prior_placement_generation transfer
        \<or> prp_source_fencing_token proof = 0
        \<or> prp_source_event_sequence proof = 0
     then Inl (TransferConflict (trf_transfer_id transfer)
                 ''source prepare proof does not bind the prepared transfer'')
     else Inr ()))"

definition validate_quarantine_proof ::
    "cell_transfer_record \<Rightarrow> cell_transfer_quarantine_proof \<Rightarrow> cell_directory_error + unit" where
  "validate_quarantine_proof transfer proof =
     try_r (validate_hash (qrt_destination_event_hash proof) ''destination quarantine event'') (\<lambda>_.
     try_r (validate_hash (qrt_destination_world_hash proof) ''destination quarantine world'') (\<lambda>_.
     if qrt_transfer_id proof \<noteq> trf_transfer_id transfer
        \<or> qrt_package_hash proof \<noteq> trf_package_hash transfer
        \<or> (case trf_quarantine_receipt_hash transfer of None \<Rightarrow> False
            | Some receipt \<Rightarrow> receipt \<noteq> qrt_quarantine_receipt_hash proof)
        \<or> qrt_destination_cell_id proof \<noteq> trf_destination_cell_id transfer
        \<or> qrt_destination_assignment_generation proof < trf_destination_assignment_generation transfer
        \<or> qrt_resulting_placement_generation proof \<noteq> trf_resulting_placement_generation transfer
        \<or> qrt_destination_fencing_token proof = 0
        \<or> qrt_destination_event_sequence proof = 0
     then Inl (TransferConflict (trf_transfer_id transfer)
                 ''destination quarantine proof does not bind the prepared transfer'')
     else Inr ()))"

definition validate_abort_proof ::
    "cell_transfer_record \<Rightarrow> cell_transfer_abort_proof \<Rightarrow> cell_directory_error + unit" where
  "validate_abort_proof transfer proof =
     try_r (validate_hash (abp_event_hash proof) ''abort cleanup event'') (\<lambda>_.
     try_r (validate_hash (abp_world_hash proof) ''abort cleanup world'') (\<lambda>_.
     let (expected_cell_id, minimum_generation) =
       (case abp_role proof of
          Source \<Rightarrow> (trf_source_cell_id transfer, trf_source_assignment_generation transfer)
        | Destination \<Rightarrow>
            (trf_destination_cell_id transfer, trf_destination_assignment_generation transfer)) in
     if abp_transfer_id proof \<noteq> trf_transfer_id transfer
        \<or> abp_package_hash proof \<noteq> trf_package_hash transfer
        \<or> abp_cell_id proof \<noteq> expected_cell_id
        \<or> abp_assignment_generation proof < minimum_generation
        \<or> abp_fencing_token proof = 0
        \<or> abp_event_sequence proof = 0
     then Inl (TransferConflict (trf_transfer_id transfer)
                 ''abort cleanup proof does not bind the transfer and cell role'')
     else Inr ()))"

text \<open>
  A proof names the fence under which its event was written; the fence has to identify
  exactly one generation of the cell's assignment.
\<close>

definition resolve_proof_generation ::
    "cell_transfer_record \<Rightarrow> u64 \<Rightarrow> u64 \<Rightarrow> cell_assignment_record \<Rightarrow> cell_directory_error + u64" where
  "resolve_proof_generation transfer claimed_generation fencing_token assignment =
     (let generations = map fst (filter (\<lambda>(generation, fence). fence = fencing_token)
                                  (bt_entries (asg_fencing_history assignment))) in
      if asg_state assignment \<noteq> Assigned \<or> length generations \<noteq> 1
      then Inl (TransferConflict (trf_transfer_id transfer)
                  ''cell event fence does not resolve to one durable assignment generation'')
      else
      let generation = generations ! 0 in
      if claimed_generation \<noteq> 0 \<and> claimed_generation \<noteq> generation
      then Inl (TransferConflict (trf_transfer_id transfer)
                  ''cell event proof claims the wrong historical assignment generation'')
      else Inr generation)"

definition validate_historical_proof_authority ::
    "cell_transfer_record \<Rightarrow> u64 \<Rightarrow> u64 \<Rightarrow> cell_assignment_record \<Rightarrow> cell_directory_error + unit" where
  "validate_historical_proof_authority transfer assignment_generation fencing_token assignment =
     (if bt_get (asg_fencing_history assignment) assignment_generation \<noteq> Some fencing_token
      then Inl (InvalidDirectory (''transfer '' @ trf_transfer_id transfer
                  @ '' proof generation is not bound to its historical cell fence''))
      else Inr ())"

section \<open>Lookups\<close>

definition assignment ::
    "externals \<Rightarrow> cell_directory_document \<Rightarrow> cell_key_v1 \<Rightarrow> cell_directory_error + cell_assignment_record" where
  "assignment ext document cell_key =
     try_r (directory_cell_id ext cell_key) (\<lambda>cell_id.
     ok_or (bt_get (doc_assignments document) cell_id) (UnknownCell cell_id))"

definition placement ::
    "cell_directory_document \<Rightarrow> string \<Rightarrow> cell_directory_error + aggregate_placement_record" where
  "placement document aggregate_id =
     ok_or (bt_get (doc_placements document) aggregate_id) (UnknownAggregate aggregate_id)"

definition transfer ::
    "cell_directory_document \<Rightarrow> string \<Rightarrow> cell_directory_error + cell_transfer_record" where
  "transfer document transfer_id =
     ok_or (bt_get (doc_transfers document) transfer_id) (UnknownTransfer transfer_id)"

definition transfer_records :: "cell_directory_document \<Rightarrow> cell_transfer_record list" where
  "transfer_records document = bt_values (doc_transfers document)"

text \<open>What an operation asks for: an answer without a write, or a document to commit.\<close>

datatype 'a staged = Unchanged 'a | Commit cell_directory_document 'a

abbreviation put_assignment ::
    "string \<Rightarrow> cell_assignment_record \<Rightarrow> cell_directory_document \<Rightarrow> cell_directory_document" where
  "put_assignment cid r document \<equiv>
     document\<lparr>doc_assignments := bt_insert cid r (doc_assignments document)\<rparr>"

abbreviation put_placement ::
    "string \<Rightarrow> aggregate_placement_record \<Rightarrow> cell_directory_document \<Rightarrow> cell_directory_document" where
  "put_placement aggregate_id r document \<equiv>
     document\<lparr>doc_placements := bt_insert aggregate_id r (doc_placements document)\<rparr>"

abbreviation put_transfer ::
    "string \<Rightarrow> cell_transfer_record \<Rightarrow> cell_directory_document \<Rightarrow> cell_directory_document" where
  "put_transfer transfer_id r document \<equiv>
     document\<lparr>doc_transfers := bt_insert transfer_id r (doc_transfers document)\<rparr>"

section \<open>Assignments of cells to authorities\<close>

definition claim ::
    "externals \<Rightarrow> cell_directory_document \<Rightarrow> cell_key_v1 \<Rightarrow> u64 \<Rightarrow> string \<Rightarrow> u64 \<Rightarrow>
     cell_directory_error + cell_assignment_record staged" where
  "claim ext document cell_key expected_generation holder_id authority_fencing_token =
     try_r (validate_holder holder_id) (\<lambda>_.
     if authority_fencing_token = 0
     then Inl (InvalidDirectory ''assigned cell authority fence must be positive'') else
     try_r (directory_cell_id ext cell_key) (\<lambda>cell_id.
     try_r (ok_or (bt_get (doc_assignments document) cell_id) (UnknownCell cell_id)) (\<lambda>a.
     if asg_assignment_generation a \<noteq> expected_generation
        \<or> asg_state a \<noteq> Sleeping
        \<or> asg_holder_id a \<noteq> None
     then Inl (AssignmentConflict cell_id
                 ''expected the current sleeping generation without a holder'') else
     try_r (ok_or (checked_add (asg_assignment_generation a) 1)
              (AssignmentGenerationExhausted (asg_cell_id a))) (\<lambda>generation.
     if authority_fencing_token \<le> asg_authority_fencing_token a
     then Inl (AssignmentConflict cell_id
                 ''new cell authority fence must exceed its durable predecessor'') else
     let result = a\<lparr>asg_assignment_generation := generation,
                    asg_state := Assigned,
                    asg_holder_id := Some holder_id,
                    asg_authority_fencing_token := authority_fencing_token,
                    asg_fencing_history :=
                      bt_insert generation authority_fencing_token (asg_fencing_history a)\<rparr>
     in Inr (Commit (put_assignment cell_id result document) result)))))"

definition terminal_phase :: "transfer_phase \<Rightarrow> bool" where
  "terminal_phase phase = (phase = Finalized \<or> phase = Aborted)"

definition pinned_by_transfer :: "cell_directory_document \<Rightarrow> string \<Rightarrow> bool" where
  "pinned_by_transfer document cid =
     list_ex (\<lambda>t. \<not> terminal_phase (trf_phase t)
                \<and> (trf_source_cell_id t = cid \<or> trf_destination_cell_id t = cid))
       (bt_values (doc_transfers document))"

definition release ::
    "externals \<Rightarrow> cell_directory_document \<Rightarrow> cell_key_v1 \<Rightarrow> u64 \<Rightarrow> string \<Rightarrow>
     cell_directory_error + cell_assignment_record staged" where
  "release ext document cell_key expected_generation holder_id =
     try_r (validate_holder holder_id) (\<lambda>_.
     try_r (directory_cell_id ext cell_key) (\<lambda>cell_id.
     try_r (ok_or (bt_get (doc_assignments document) cell_id) (UnknownCell cell_id)) (\<lambda>a.
     if asg_state a = Sleeping
        \<and> asg_assignment_generation a = expected_generation
        \<and> asg_holder_id a = None
     then Inr (Unchanged a)
     else if asg_assignment_generation a \<noteq> expected_generation
        \<or> asg_state a \<noteq> Assigned
        \<or> asg_holder_id a \<noteq> Some holder_id
     then Inl (AssignmentConflict cell_id ''generation, state, or holder no longer matches'')
     else if pinned_by_transfer document cell_id
     then Inl (AssignmentConflict cell_id ''cell assignment is pinned by a nonterminal transfer'')
     else
     let result = a\<lparr>asg_state := Sleeping, asg_holder_id := None\<rparr>
     in Inr (Commit (put_assignment cell_id result document) result))))"

definition recover_assignment ::
    "externals \<Rightarrow> cell_directory_document \<Rightarrow> cell_key_v1 \<Rightarrow> u64 \<Rightarrow> string \<Rightarrow> u64 \<Rightarrow>
     cell_directory_error + cell_assignment_record staged" where
  "recover_assignment ext document cell_key expected_generation holder_id authority_fencing_token =
     try_r (validate_holder holder_id) (\<lambda>_.
     try_r (directory_cell_id ext cell_key) (\<lambda>cell_id.
     try_r (ok_or (bt_get (doc_assignments document) cell_id) (UnknownCell cell_id)) (\<lambda>a.
     if asg_assignment_generation a \<noteq> expected_generation \<or> asg_state a \<noteq> Assigned
     then Inl (AssignmentConflict cell_id ''only the current assigned generation may be recovered'') else
     try_r (ok_or (checked_add (asg_assignment_generation a) 1)
              (AssignmentGenerationExhausted (asg_cell_id a))) (\<lambda>generation.
     if authority_fencing_token \<le> asg_authority_fencing_token a
     then Inl (AssignmentConflict cell_id ''replacement cell authority fence must strictly advance'') else
     let result = a\<lparr>asg_assignment_generation := generation,
                    asg_authority_fencing_token := authority_fencing_token,
                    asg_fencing_history :=
                      bt_insert generation authority_fencing_token (asg_fencing_history a),
                    asg_holder_id := Some holder_id\<rparr>
     in Inr (Commit (put_assignment cell_id result document) result)))))"

section \<open>Placements\<close>

definition register_placement ::
    "externals \<Rightarrow> cell_directory_document \<Rightarrow> string \<Rightarrow> mobile_aggregate_kind \<Rightarrow> cell_key_v1 \<Rightarrow>
     cell_directory_error + aggregate_placement_record staged" where
  "register_placement ext document aggregate_id aggregate_kind cell_key =
     try_r (validate_stable_id aggregate_id ''aggregate'') (\<lambda>_.
     try_r (assignment ext document cell_key) (\<lambda>a.
     let requested = \<lparr>plc_aggregate_id = aggregate_id, plc_aggregate_kind = aggregate_kind,
                      plc_cell_key = cell_key, plc_cell_id = asg_cell_id a,
                      plc_placement_generation = 1, plc_state = Resident,
                      plc_active_transfer_id = None\<rparr> in
     case bt_get (doc_placements document) aggregate_id of
       Some existing \<Rightarrow>
         if existing = requested then Inr (Unchanged existing)
         else Inl (TransferConflict aggregate_id
                     ''aggregate already has a different canonical placement'')
     | None \<Rightarrow> Inr (Commit (put_placement aggregate_id requested document) requested)))"

section \<open>Transfers\<close>

definition prepare_transfer ::
    "externals \<Rightarrow> cell_directory_document \<Rightarrow> string \<Rightarrow> u64 \<Rightarrow> string \<Rightarrow> cell_key_v1 \<Rightarrow> string \<Rightarrow>
     cell_directory_error + cell_transfer_record staged" where
  "prepare_transfer ext document aggregate_id expected_placement_generation transfer_id
       destination_cell_key package_hash =
     try_r (validate_stable_id aggregate_id ''aggregate'') (\<lambda>_.
     try_r (validate_stable_id transfer_id ''transfer'') (\<lambda>_.
     try_r (validate_hash package_hash ''transfer package'') (\<lambda>_.
     case bt_get (doc_transfers document) transfer_id of
       Some existing \<Rightarrow>
         if trf_aggregate_id existing = aggregate_id
            \<and> trf_destination_cell_key existing = destination_cell_key
            \<and> trf_prior_placement_generation existing = expected_placement_generation
            \<and> trf_package_hash existing = package_hash
         then Inr (Unchanged existing)
         else Inl (TransferConflict transfer_id
                     ''transfer ID is already bound to different immutable material'')
     | None \<Rightarrow>
       try_r (placement document aggregate_id) (\<lambda>p.
       try_r (assignment ext document (plc_cell_key p)) (\<lambda>source_assignment.
       try_r (assignment ext document destination_cell_key) (\<lambda>destination_assignment.
       if asg_state source_assignment \<noteq> Assigned \<or> asg_state destination_assignment \<noteq> Assigned
       then Inl (TransferConflict transfer_id
                   ''source and destination cells must both have current assignments'')
       else if plc_state p \<noteq> Resident
          \<or> plc_active_transfer_id p \<noteq> None
          \<or> plc_placement_generation p \<noteq> expected_placement_generation
          \<or> plc_cell_id p = asg_cell_id destination_assignment
       then Inl (TransferConflict transfer_id
                   ''aggregate is not resident at the expected source generation'')
       else
       try_r (ok_or (checked_add (plc_placement_generation p) 1)
                (PlacementGenerationExhausted aggregate_id)) (\<lambda>resulting_placement_generation.
       let requested =
         \<lparr>trf_transfer_id = transfer_id, trf_aggregate_id = aggregate_id,
          trf_aggregate_kind = plc_aggregate_kind p,
          trf_source_cell_key = plc_cell_key p, trf_source_cell_id = plc_cell_id p,
          trf_destination_cell_key = destination_cell_key,
          trf_destination_cell_id = asg_cell_id destination_assignment,
          trf_source_assignment_generation = asg_assignment_generation source_assignment,
          trf_destination_assignment_generation = asg_assignment_generation destination_assignment,
          trf_prior_placement_generation = plc_placement_generation p,
          trf_resulting_placement_generation = resulting_placement_generation,
          trf_package_hash = package_hash, trf_quarantine_receipt_hash = None,
          trf_source_prepare_proof = None, trf_destination_quarantine_proof = None,
          trf_import_proof = None, trf_finalization_proof = None,
          trf_source_abort_proof = None, trf_destination_abort_proof = None,
          trf_phase = Prepared\<rparr> in
       let next_placement = p\<lparr>plc_state := Preparing, plc_active_transfer_id := Some transfer_id\<rparr> in
       Inr (Commit (put_transfer transfer_id requested
                     (put_placement aggregate_id next_placement document)) requested))))))))"

definition record_source_prepared ::
    "externals \<Rightarrow> cell_directory_document \<Rightarrow> string \<Rightarrow> cell_transfer_prepare_proof \<Rightarrow>
     cell_directory_error + cell_transfer_record staged" where
  "record_source_prepared ext document transfer_id submitted =
     try_r (transfer document transfer_id) (\<lambda>current.
     try_r (assignment ext document (trf_source_cell_key current)) (\<lambda>source.
     try_r (resolve_proof_generation current (prp_source_assignment_generation submitted)
              (prp_source_fencing_token submitted) source) (\<lambda>generation.
     let proof = submitted\<lparr>prp_source_assignment_generation := generation\<rparr> in
     try_r (validate_prepare_proof current proof) (\<lambda>_.
     case trf_source_prepare_proof current of
       Some existing \<Rightarrow>
         if existing = proof then Inr (Unchanged current)
         else Inl (TransferConflict transfer_id
                     ''source prepare retry does not match the durable event proof'')
     | None \<Rightarrow>
       if trf_phase current \<noteq> Prepared
       then Inl (TransferConflict transfer_id
                   ''source prepare proof arrived after the quarantine transition'')
       else
       try_r (validate_historical_proof_authority current (prp_source_assignment_generation proof)
                (prp_source_fencing_token proof) source) (\<lambda>_.
       let result = current\<lparr>trf_source_prepare_proof := Some proof\<rparr>
       in Inr (Commit (put_transfer transfer_id result document) result))))))"

definition record_quarantine ::
    "externals \<Rightarrow> cell_directory_document \<Rightarrow> string \<Rightarrow> string \<Rightarrow> string \<Rightarrow>
     cell_transfer_quarantine_proof \<Rightarrow> cell_directory_error + cell_transfer_record staged" where
  "record_quarantine ext document transfer_id package_hash receipt_hash submitted =
     try_r (validate_hash package_hash ''transfer package'') (\<lambda>_.
     try_r (validate_hash receipt_hash ''quarantine receipt'') (\<lambda>_.
     try_r (transfer document transfer_id) (\<lambda>current.
     if trf_package_hash current \<noteq> package_hash
     then Inl (TransferConflict transfer_id ''quarantine package hash does not match prepare'') else
     try_r (assignment ext document (trf_destination_cell_key current)) (\<lambda>destination.
     try_r (resolve_proof_generation current (qrt_destination_assignment_generation submitted)
              (qrt_destination_fencing_token submitted) destination) (\<lambda>generation.
     let proof = submitted\<lparr>qrt_destination_assignment_generation := generation\<rparr> in
     if qrt_quarantine_receipt_hash proof \<noteq> receipt_hash
     then Inl (TransferConflict transfer_id
                 ''quarantine proof does not bind the submitted receipt hash'')
     else if trf_phase current = Quarantined
        \<and> trf_quarantine_receipt_hash current = Some receipt_hash
     then (if trf_destination_quarantine_proof current = Some proof then Inr (Unchanged current)
           else Inl (TransferConflict transfer_id
                       ''quarantine retry does not match the durable event proof''))
     else if trf_phase current \<noteq> Prepared
        \<or> trf_quarantine_receipt_hash current \<noteq> None
        \<or> trf_source_prepare_proof current = None
     then Inl (TransferConflict transfer_id
                 ''transfer is not awaiting its first quarantine receipt'')
     else
     try_r (validate_quarantine_proof current proof) (\<lambda>_.
     try_r (validate_historical_proof_authority current (qrt_destination_assignment_generation proof)
              (qrt_destination_fencing_token proof) destination) (\<lambda>_.
     let result = current\<lparr>trf_phase := Quarantined,
                          trf_quarantine_receipt_hash := Some receipt_hash,
                          trf_destination_quarantine_proof := Some proof\<rparr>
     in Inr (Commit (put_transfer transfer_id result document) result))))))))"

definition commit_transfer ::
    "externals \<Rightarrow> cell_directory_document \<Rightarrow> string \<Rightarrow> u64 \<Rightarrow>
     cell_directory_error + cell_transfer_record staged" where
  "commit_transfer ext document transfer_id expected_prior_placement_generation =
     try_r (transfer document transfer_id) (\<lambda>current.
     if trf_phase current \<in> {Committed, Imported, Finalized}
        \<and> trf_prior_placement_generation current = expected_prior_placement_generation
     then Inr (Unchanged current)
     else if trf_phase current \<noteq> Quarantined
        \<or> trf_prior_placement_generation current \<noteq> expected_prior_placement_generation
        \<or> trf_quarantine_receipt_hash current = None
        \<or> trf_source_prepare_proof current = None
        \<or> trf_destination_quarantine_proof current = None
     then Inl (TransferConflict transfer_id
                 ''transfer is not quarantined at the expected placement generation'')
     else
     try_r (assignment ext document (trf_source_cell_key current)) (\<lambda>source_assignment.
     try_r (assignment ext document (trf_destination_cell_key current)) (\<lambda>destination_assignment.
     if asg_state source_assignment \<noteq> Assigned
        \<or> asg_state destination_assignment \<noteq> Assigned
        \<or> asg_assignment_generation source_assignment < trf_source_assignment_generation current
        \<or> asg_assignment_generation destination_assignment
            < trf_destination_assignment_generation current
     then Inl (TransferConflict transfer_id
                 ''source or destination assignment changed before commit'')
     else
     try_r (placement document (trf_aggregate_id current)) (\<lambda>p.
     if plc_state p \<noteq> Preparing
        \<or> plc_cell_id p \<noteq> trf_source_cell_id current
        \<or> plc_placement_generation p \<noteq> trf_prior_placement_generation current
        \<or> plc_active_transfer_id p \<noteq> Some transfer_id
     then Inl (TransferConflict transfer_id
                 ''source placement no longer matches prepared transfer'')
     else
     let next_placement = p\<lparr>plc_cell_key := trf_destination_cell_key current,
                            plc_cell_id := trf_destination_cell_id current,
                            plc_placement_generation := trf_resulting_placement_generation current,
                            plc_state := InTransit\<rparr>;
         result = current\<lparr>trf_phase := Committed\<rparr>
     in Inr (Commit (put_transfer transfer_id result
                       (put_placement (trf_aggregate_id current) next_placement document)) result)))))"

definition record_imported ::
    "externals \<Rightarrow> cell_directory_document \<Rightarrow> string \<Rightarrow> cell_transfer_import_proof \<Rightarrow>
     cell_directory_error + cell_transfer_record staged" where
  "record_imported ext document transfer_id submitted =
     try_r (transfer document transfer_id) (\<lambda>current.
     try_r (assignment ext document (trf_destination_cell_key current)) (\<lambda>destination.
     try_r (resolve_proof_generation current (imp_destination_assignment_generation submitted)
              (imp_destination_fencing_token submitted) destination) (\<lambda>generation.
     let proof = submitted\<lparr>imp_destination_assignment_generation := generation\<rparr> in
     if trf_phase current \<in> {Imported, Finalized}
     then (if trf_import_proof current = Some proof then Inr (Unchanged current)
           else Inl (TransferConflict transfer_id
                       ''import retry does not match the durable destination proof''))
     else
     try_r (placement document (trf_aggregate_id current)) (\<lambda>p.
     if trf_phase current \<noteq> Committed
        \<or> plc_state p \<noteq> InTransit
        \<or> plc_cell_id p \<noteq> trf_destination_cell_id current
        \<or> plc_placement_generation p \<noteq> trf_resulting_placement_generation current
        \<or> plc_active_transfer_id p \<noteq> Some transfer_id
     then Inl (TransferConflict transfer_id
                 ''committed destination placement is not ready for import'')
     else
     try_r (validate_import_proof current proof) (\<lambda>_.
     try_r (validate_historical_proof_authority current (imp_destination_assignment_generation proof)
              (imp_destination_fencing_token proof) destination) (\<lambda>_.
     let next_placement = p\<lparr>plc_state := Resident, plc_active_transfer_id := None\<rparr>;
         result = current\<lparr>trf_phase := Imported, trf_import_proof := Some proof\<rparr>
     in Inr (Commit (put_transfer transfer_id result
                       (put_placement (trf_aggregate_id current) next_placement document)) result)))))))"

definition finalize_transfer ::
    "externals \<Rightarrow> cell_directory_document \<Rightarrow> string \<Rightarrow> cell_transfer_finalization_proof \<Rightarrow>
     cell_directory_error + cell_transfer_record staged" where
  "finalize_transfer ext document transfer_id submitted =
     try_r (transfer document transfer_id) (\<lambda>current.
     try_r (assignment ext document (trf_source_cell_key current)) (\<lambda>source.
     try_r (resolve_proof_generation current (fin_source_assignment_generation submitted)
              (fin_source_fencing_token submitted) source) (\<lambda>generation.
     let proof = submitted\<lparr>fin_source_assignment_generation := generation\<rparr> in
     if trf_phase current = Finalized
     then (if trf_finalization_proof current = Some proof then Inr (Unchanged current)
           else Inl (TransferConflict transfer_id
                       ''finalization retry does not match the durable source proof''))
     else if trf_phase current \<noteq> Imported
     then Inl (TransferConflict transfer_id ''only an imported transfer may finalize'')
     else
     try_r (placement document (trf_aggregate_id current)) (\<lambda>p.
     if plc_state p \<noteq> Resident
        \<or> plc_cell_id p \<noteq> trf_destination_cell_id current
        \<or> plc_placement_generation p \<noteq> trf_resulting_placement_generation current
     then Inl (TransferConflict transfer_id
                 ''destination residency does not match imported transfer'')
     else
     try_r (validate_finalization_proof current proof) (\<lambda>_.
     try_r (validate_historical_proof_authority current (fin_source_assignment_generation proof)
              (fin_source_fencing_token proof) source) (\<lambda>_.
     let result = current\<lparr>trf_phase := Finalized, trf_finalization_proof := Some proof\<rparr>
     in Inr (Commit (put_transfer transfer_id result document) result)))))))"

definition request_abort ::
    "externals \<Rightarrow> cell_directory_document \<Rightarrow> string \<Rightarrow> cell_directory_error + cell_transfer_record staged" where
  "request_abort ext document transfer_id =
     try_r (transfer document transfer_id) (\<lambda>current.
     if trf_phase current \<in> {Aborting, Aborted} then Inr (Unchanged current)
     else if trf_phase current \<notin> {Prepared, Quarantined}
     then Inl (TransferConflict transfer_id ''a committed transfer cannot abort to the source'')
     else
     try_r (placement document (trf_aggregate_id current)) (\<lambda>p.
     if plc_state p \<noteq> Preparing
        \<or> plc_cell_id p \<noteq> trf_source_cell_id current
        \<or> plc_placement_generation p \<noteq> trf_prior_placement_generation current
        \<or> plc_active_transfer_id p \<noteq> Some transfer_id
     then Inl (TransferConflict transfer_id
                 ''source placement no longer matches the abortable prepare'')
     else
     let result = current\<lparr>trf_phase := Aborting\<rparr>
     in Inr (Commit (put_transfer transfer_id result document) result)))"

text \<open>The three matches on the role of the submitted proof.\<close>

fun abort_cell_key :: "transfer_abort_role \<Rightarrow> cell_transfer_record \<Rightarrow> cell_key_v1" where
  "abort_cell_key Source current = trf_source_cell_key current"
| "abort_cell_key Destination current = trf_destination_cell_key current"

fun stored_abort_proof ::
    "transfer_abort_role \<Rightarrow> cell_transfer_record \<Rightarrow> cell_transfer_abort_proof option" where
  "stored_abort_proof Source current = trf_source_abort_proof current"
| "stored_abort_proof Destination current = trf_destination_abort_proof current"

fun store_abort_proof ::
    "transfer_abort_role \<Rightarrow> cell_transfer_abort_proof \<Rightarrow> cell_transfer_record \<Rightarrow> cell_transfer_record" where
  "store_abort_proof Source proof current = current\<lparr>trf_source_abort_proof := Some proof\<rparr>"
| "store_abort_proof Destination proof current = current\<lparr>trf_destination_abort_proof := Some proof\<rparr>"

definition record_abort_cleanup ::
    "externals \<Rightarrow> cell_directory_document \<Rightarrow> string \<Rightarrow> cell_transfer_abort_proof \<Rightarrow>
     cell_directory_error + cell_transfer_record staged" where
  "record_abort_cleanup ext document transfer_id submitted =
     try_r (transfer document transfer_id) (\<lambda>current.
     if trf_phase current \<noteq> Aborting
     then Inl (TransferConflict transfer_id ''abort cleanup proof requires an aborting transfer'')
     else
     try_r (assignment ext document (abort_cell_key (abp_role submitted) current)) (\<lambda>cell.
     try_r (resolve_proof_generation current (abp_assignment_generation submitted)
              (abp_fencing_token submitted) cell) (\<lambda>generation.
     let proof = submitted\<lparr>abp_assignment_generation := generation\<rparr> in
     try_r (validate_abort_proof current proof) (\<lambda>_.
     case stored_abort_proof (abp_role proof) current of
       Some existing \<Rightarrow>
         if existing = proof then Inr (Unchanged current)
         else Inl (TransferConflict transfer_id
                     ''abort cleanup retry does not match its durable cell proof'')
     | None \<Rightarrow>
       try_r (validate_historical_proof_authority current (abp_assignment_generation proof)
                (abp_fencing_token proof) cell) (\<lambda>_.
       let result = store_abort_proof (abp_role proof) proof current
       in Inr (Commit (put_transfer transfer_id result document) result))))))"

definition finalize_abort ::
    "externals \<Rightarrow> cell_directory_document \<Rightarrow> string \<Rightarrow> cell_directory_error + cell_transfer_record staged" where
  "finalize_abort ext document transfer_id =
     try_r (transfer document transfer_id) (\<lambda>current.
     if trf_phase current = Aborted then Inr (Unchanged current)
     else if trf_phase current \<noteq> Aborting
        \<or> trf_source_abort_proof current = None
        \<or> trf_destination_abort_proof current = None
     then Inl (TransferConflict transfer_id
                 ''abort cannot finish before every durable cell cleanup'')
     else
     try_r (placement document (trf_aggregate_id current)) (\<lambda>p.
     if plc_state p \<noteq> Preparing
        \<or> plc_cell_id p \<noteq> trf_source_cell_id current
        \<or> plc_placement_generation p \<noteq> trf_prior_placement_generation current
        \<or> plc_active_transfer_id p \<noteq> Some transfer_id
     then Inl (TransferConflict transfer_id
                 ''source placement no longer matches the aborting transfer'')
     else
     let next_placement = p\<lparr>plc_state := Resident, plc_active_transfer_id := None\<rparr>;
         result = current\<lparr>trf_phase := Aborted\<rparr>
     in Inr (Commit (put_transfer transfer_id result
                       (put_placement (trf_aggregate_id current) next_placement document)) result)))"

section \<open>Committing a document\<close>

text \<open>
  The open directory: the document in memory and the one in the file. A write either
  completes, or fails before the rename that publishes it, or fails after the rename when the
  parent directory cannot be synchronised; in the last case the file already holds the new
  document although the operation reports an error.
\<close>

record local_cell_directory =
  dir_document :: cell_directory_document
  dir_file :: "cell_directory_document option"

datatype write_outcome = Written | NotPublished cell_directory_error | NotSynced cell_directory_error

fun write_json_atomic ::
    "write_outcome \<Rightarrow> cell_directory_document \<Rightarrow> cell_directory_document option \<Rightarrow>
     cell_directory_document option \<times> (cell_directory_error + unit)" where
  "write_json_atomic Written value file = (Some value, Inr ())"
| "write_json_atomic (NotPublished e) value file = (file, Inl e)"
| "write_json_atomic (NotSynced e) value file = (Some value, Inl e)"

definition commit_document ::
    "write_outcome \<Rightarrow> local_cell_directory \<Rightarrow> cell_directory_document \<Rightarrow>
     local_cell_directory \<times> (cell_directory_error + unit)" where
  "commit_document w dir next_document =
     (case checked_add (doc_directory_revision (dir_document dir)) 1 of
        None \<Rightarrow> (dir, Inl DirectoryRevisionExhausted)
      | Some revision \<Rightarrow>
          let next_document = next_document\<lparr>doc_directory_revision := revision\<rparr> in
          case write_json_atomic w next_document (dir_file dir) of
            (file, Inl e) \<Rightarrow> (dir\<lparr>dir_file := file\<rparr>, Inl e)
          | (file, Inr _) \<Rightarrow> (\<lparr>dir_document = next_document, dir_file = file\<rparr>, Inr ()))"

definition run_operation ::
    "write_outcome \<Rightarrow> local_cell_directory \<Rightarrow> cell_directory_error + 'a staged \<Rightarrow>
     local_cell_directory \<times> (cell_directory_error + 'a)" where
  "run_operation w dir staged =
     (case staged of
        Inl e \<Rightarrow> (dir, Inl e)
      | Inr (Unchanged result) \<Rightarrow> (dir, Inr result)
      | Inr (Commit next_document result) \<Rightarrow>
          (case commit_document w dir next_document of
             (dir', Inl e) \<Rightarrow> (dir', Inl e)
           | (dir', Inr _) \<Rightarrow> (dir', Inr result)))"

section \<open>All operations of the directory\<close>

datatype directory_command =
    Claim cell_key_v1 u64 string u64
  | Release cell_key_v1 u64 string
  | RecoverAssignment cell_key_v1 u64 string u64
  | RegisterPlacement string mobile_aggregate_kind cell_key_v1
  | PrepareTransfer string u64 string cell_key_v1 string
  | RecordSourcePrepared string cell_transfer_prepare_proof
  | RecordQuarantine string string string cell_transfer_quarantine_proof
  | CommitTransfer string u64
  | RecordImported string cell_transfer_import_proof
  | FinalizeTransfer string cell_transfer_finalization_proof
  | RequestAbort string
  | RecordAbortCleanup string cell_transfer_abort_proof
  | FinalizeAbort string

datatype directory_answer =
    AssignmentAnswer cell_assignment_record
  | PlacementAnswer aggregate_placement_record
  | TransferAnswer cell_transfer_record

definition map_staged :: "('a \<Rightarrow> 'b) \<Rightarrow> 'e + 'a staged \<Rightarrow> 'e + 'b staged" where
  "map_staged f r = (case r of Inl e \<Rightarrow> Inl e
      | Inr (Unchanged x) \<Rightarrow> Inr (Unchanged (f x))
      | Inr (Commit d x) \<Rightarrow> Inr (Commit d (f x)))"

fun stage ::
    "externals \<Rightarrow> cell_directory_document \<Rightarrow> directory_command \<Rightarrow>
     cell_directory_error + directory_answer staged" where
  "stage ext d (Claim k g h f) = map_staged AssignmentAnswer (claim ext d k g h f)"
| "stage ext d (Release k g h) = map_staged AssignmentAnswer (release ext d k g h)"
| "stage ext d (RecoverAssignment k g h f) = map_staged AssignmentAnswer (recover_assignment ext d k g h f)"
| "stage ext d (RegisterPlacement a m k) = map_staged PlacementAnswer (register_placement ext d a m k)"
| "stage ext d (PrepareTransfer a g t k h) = map_staged TransferAnswer (prepare_transfer ext d a g t k h)"
| "stage ext d (RecordSourcePrepared t p) = map_staged TransferAnswer (record_source_prepared ext d t p)"
| "stage ext d (RecordQuarantine t h r p) = map_staged TransferAnswer (record_quarantine ext d t h r p)"
| "stage ext d (CommitTransfer t g) = map_staged TransferAnswer (commit_transfer ext d t g)"
| "stage ext d (RecordImported t p) = map_staged TransferAnswer (record_imported ext d t p)"
| "stage ext d (FinalizeTransfer t p) = map_staged TransferAnswer (finalize_transfer ext d t p)"
| "stage ext d (RequestAbort t) = map_staged TransferAnswer (request_abort ext d t)"
| "stage ext d (RecordAbortCleanup t p) = map_staged TransferAnswer (record_abort_cleanup ext d t p)"
| "stage ext d (FinalizeAbort t) = map_staged TransferAnswer (finalize_abort ext d t)"

definition execute ::
    "externals \<Rightarrow> write_outcome \<Rightarrow> local_cell_directory \<Rightarrow> directory_command \<Rightarrow>
     local_cell_directory \<times> (cell_directory_error + directory_answer)" where
  "execute ext w dir command = run_operation w dir (stage ext (dir_document dir) command)"

end
