(* ===== verification/DirectoryDocument.thy ===== *)
theory DirectoryDocument
  imports CellDirectory
begin

text \<open>
  The validation of a directory document (\<open>validate_document\<close> of \<open>cell_directory.rs\<close>), which
  every reopening of a universe runs on the document it finds, and the opening itself. The
  checks of the source's three loops are one definition each; \<open>valid_document\<close> restates their
  conjunction, and the lemmas of this theory are the facts about it that the operations need.
\<close>

section \<open>The universe manifest and the expected assignments\<close>

text \<open>The two fields of the universe manifest that the directory reads.\<close>

record universe_binding =
  ub_universe_id :: string
  ub_manifest_hash :: string

definition CELL_DIRECTORY_SCHEMA_VERSION :: u32 where
  "CELL_DIRECTORY_SCHEMA_VERSION = 2"

text \<open>The two cells of the proof universe: the origin cell and its eastern neighbour.\<close>

definition proof_cell_keys :: "string \<Rightarrow> cell_directory_error + cell_key_v1 list" where
  "proof_cell_keys universe_id =
     try_r (map_err (\<lambda>source. InvalidDirectory (celestial_error_text source))
              (cell_origin_key universe_id)) (\<lambda>origin.
     try_r (map_err (\<lambda>source. InvalidDirectory (celestial_error_text source))
              (neighbor_cell_key origin (1, 0, 0))) (\<lambda>east.
     Inr [origin, east]))"

definition add_canonical_assignment ::
    "externals \<Rightarrow> universe_binding \<Rightarrow> cell_key_v1 \<Rightarrow> (string, cell_assignment_record) btree_map \<Rightarrow>
     cell_directory_error + (string, cell_assignment_record) btree_map" where
  "add_canonical_assignment ext universe_manifest cell_key assignments =
     try_r (map_err (\<lambda>source. InvalidDirectory (celestial_error_text source))
              (validate_cell_key cell_key)) (\<lambda>_.
     if key_universe_id cell_key \<noteq> ub_universe_id universe_manifest
     then Inl (InvalidDirectory ''proof cell belongs to a different universe'') else
     try_r (directory_cell_id ext cell_key) (\<lambda>cell_id.
     let r = \<lparr>asg_cell_key = cell_key, asg_cell_id = cell_id, asg_assignment_generation = 0,
              asg_authority_fencing_token = 0, asg_fencing_history = bt_empty,
              asg_state = Sleeping, asg_holder_id = None\<rparr> in
     if bt_contains assignments cell_id
     then Inl (InvalidDirectory ''proof cells contain a duplicate canonical identity'')
     else Inr (bt_insert cell_id r assignments)))"

definition canonical_assignments ::
    "externals \<Rightarrow> universe_binding \<Rightarrow> cell_key_v1 list \<Rightarrow>
     cell_directory_error + (string, cell_assignment_record) btree_map" where
  "canonical_assignments ext universe_manifest proof_cells =
     try_r (fold_r (add_canonical_assignment ext universe_manifest) proof_cells bt_empty) (\<lambda>assignments.
     if bt_len assignments \<noteq> 2
     then Inl (InvalidDirectory ''P1.7 proof requires exactly two canonical cells'')
     else Inr assignments)"

section \<open>Validation\<close>

definition validate_document_header ::
    "cell_directory_document \<Rightarrow> universe_binding \<Rightarrow> (string, cell_assignment_record) btree_map \<Rightarrow>
     cell_directory_error + unit" where
  "validate_document_header document universe_manifest expected_assignments =
     (if doc_schema_version document \<noteq> CELL_DIRECTORY_SCHEMA_VERSION
         \<or> doc_universe_id document \<noteq> ub_universe_id universe_manifest
         \<or> doc_universe_manifest_hash document \<noteq> ub_manifest_hash universe_manifest
         \<or> doc_directory_revision document = 0
         \<or> bt_len (doc_assignments document) \<noteq> bt_len expected_assignments
      then Inl (InvalidDirectory
                  ''schema, universe, manifest, revision, or proof-cell count mismatch'')
      else Inr ())"

definition index_generation :: "nat \<Rightarrow> u64" where
  "index_generation index = (if Suc index < 2 ^ 64 then of_nat (Suc index) else - 1)"

definition fencing_history_invalid :: "cell_assignment_record \<Rightarrow> bool" where
  "fencing_history_invalid stored =
     (let history = asg_fencing_history stored in
      bt_len history \<noteq> unat (asg_assignment_generation stored)
      \<or> list_ex (\<lambda>(index, generation, fence).
            generation \<noteq> index_generation index
            \<or> fence = 0
            \<or> (0 < index \<and>
               (case bt_get history (generation - 1) of None \<Rightarrow> False
                | Some previous \<Rightarrow> fence \<le> previous)))
          (List.enumerate 0 (bt_entries history))
      \<or> (case bt_get history (asg_assignment_generation stored) of None \<Rightarrow> 0 | Some f \<Rightarrow> f)
          \<noteq> asg_authority_fencing_token stored)"

definition validate_assignment_state ::
    "string \<Rightarrow> cell_assignment_record \<Rightarrow> cell_directory_error + unit" where
  "validate_assignment_state cid stored =
     (case asg_state stored of
        Sleeping \<Rightarrow>
          if asg_holder_id stored \<noteq> None
          then Inl (InvalidDirectory (''sleeping cell '' @ cid @ '' retains a holder''))
          else Inr ()
      | Assigned \<Rightarrow>
          if asg_assignment_generation stored = 0
             \<or> asg_authority_fencing_token stored = 0
             \<or> asg_holder_id stored = None \<or> asg_holder_id stored = Some []
          then Inl (InvalidDirectory (''assigned cell '' @ cid @ '' lacks a generation or holder''))
          else Inr ()
      | Claiming \<Rightarrow>
          Inl (InvalidDirectory (''cell '' @ cid @ '' retained an incomplete assignment transition''))
      | Releasing \<Rightarrow>
          Inl (InvalidDirectory (''cell '' @ cid @ '' retained an incomplete assignment transition'')))"

definition validate_assignment_entry ::
    "cell_directory_document \<Rightarrow> string \<Rightarrow> cell_assignment_record \<Rightarrow> cell_directory_error + unit" where
  "validate_assignment_entry document cid expected =
     try_r (ok_or (bt_get (doc_assignments document) cid)
              (InvalidDirectory (''directory is missing proof cell '' @ cid))) (\<lambda>stored.
     if asg_cell_id stored \<noteq> cid \<or> asg_cell_key stored \<noteq> asg_cell_key expected
     then Inl (InvalidDirectory (''directory cell identity mismatch for '' @ cid)) else
     try_r (validate_assignment_state cid stored) (\<lambda>_.
     if fencing_history_invalid stored
     then Inl (InvalidDirectory (''cell '' @ cid @ '' assignment-to-fence history is invalid''))
     else Inr ()))"

definition validate_placement_entry ::
    "cell_directory_document \<Rightarrow> string \<Rightarrow> aggregate_placement_record \<Rightarrow> cell_directory_error + unit" where
  "validate_placement_entry document aggregate_id p =
     try_r (validate_stable_id aggregate_id ''aggregate'') (\<lambda>_.
     if plc_aggregate_id p \<noteq> aggregate_id \<or> plc_placement_generation p = 0
     then Inl (InvalidDirectory (''aggregate placement identity or generation is invalid for ''
                 @ aggregate_id)) else
     try_r (ok_or (bt_get (doc_assignments document) (plc_cell_id p))
              (InvalidDirectory (''aggregate '' @ aggregate_id @ '' references an unknown cell''))) (\<lambda>a.
     if asg_cell_key a \<noteq> plc_cell_key p
     then Inl (InvalidDirectory (''aggregate '' @ aggregate_id @ '' cell key and ID disagree''))
     else if (case plc_state p of
                Resident \<Rightarrow> plc_active_transfer_id p = None
              | Preparing \<Rightarrow> plc_active_transfer_id p \<noteq> None
              | InTransit \<Rightarrow> plc_active_transfer_id p \<noteq> None)
     then Inr ()
     else Inl (InvalidDirectory (''aggregate '' @ aggregate_id
                 @ '' placement state and transfer binding disagree''))))"

definition validate_transfer_proofs ::
    "string \<Rightarrow> cell_transfer_record \<Rightarrow> cell_assignment_record \<Rightarrow> cell_assignment_record \<Rightarrow>
     cell_directory_error + unit" where
  "validate_transfer_proofs transfer_id t source destination =
     try_r (if_some_r (trf_quarantine_receipt_hash t) (\<lambda>receipt_hash.
              validate_hash receipt_hash ''quarantine receipt'')) (\<lambda>_.
     try_r (if_some_r (trf_source_prepare_proof t) (\<lambda>proof.
              try_r (validate_prepare_proof t proof) (\<lambda>_.
              validate_historical_proof_authority t (prp_source_assignment_generation proof)
                (prp_source_fencing_token proof) source))) (\<lambda>_.
     try_r (if_some_r (trf_destination_quarantine_proof t) (\<lambda>proof.
              try_r (validate_quarantine_proof t proof) (\<lambda>_.
              try_r (validate_historical_proof_authority t (qrt_destination_assignment_generation proof)
                (qrt_destination_fencing_token proof) destination) (\<lambda>_.
              if trf_quarantine_receipt_hash t \<noteq> Some (qrt_quarantine_receipt_hash proof)
              then Inl (InvalidDirectory (''transfer '' @ transfer_id
                          @ '' quarantine proof and receipt disagree''))
              else Inr ())))) (\<lambda>_.
     try_r (if_some_r (trf_import_proof t) (\<lambda>proof.
              try_r (validate_import_proof t proof) (\<lambda>_.
              validate_historical_proof_authority t (imp_destination_assignment_generation proof)
                (imp_destination_fencing_token proof) destination))) (\<lambda>_.
     try_r (if_some_r (trf_finalization_proof t) (\<lambda>proof.
              try_r (validate_finalization_proof t proof) (\<lambda>_.
              validate_historical_proof_authority t (fin_source_assignment_generation proof)
                (fin_source_fencing_token proof) source))) (\<lambda>_.
     try_r (if_some_r (trf_source_abort_proof t) (\<lambda>proof.
              try_r (validate_abort_proof t proof) (\<lambda>_.
              try_r (validate_historical_proof_authority t (abp_assignment_generation proof)
                (abp_fencing_token proof) source) (\<lambda>_.
              if abp_role proof \<noteq> Source
              then Inl (InvalidDirectory (''transfer '' @ transfer_id
                          @ '' source abort proof has the wrong role''))
              else Inr ())))) (\<lambda>_.
     if_some_r (trf_destination_abort_proof t) (\<lambda>proof.
              try_r (validate_abort_proof t proof) (\<lambda>_.
              try_r (validate_historical_proof_authority t (abp_assignment_generation proof)
                (abp_fencing_token proof) destination) (\<lambda>_.
              if abp_role proof \<noteq> Destination
              then Inl (InvalidDirectory (''transfer '' @ transfer_id
                          @ '' destination abort proof has the wrong role''))
              else Inr ())))))))))"

definition placement_matches :: "string \<Rightarrow> cell_transfer_record \<Rightarrow> aggregate_placement_record \<Rightarrow> bool" where
  "placement_matches transfer_id t p =
     (if trf_phase t \<in> {Prepared, Quarantined, Aborting} then
        plc_state p = Preparing
        \<and> plc_cell_id p = trf_source_cell_id t
        \<and> plc_placement_generation p = trf_prior_placement_generation t
        \<and> plc_active_transfer_id p = Some transfer_id
      else if trf_phase t = Committed then
        plc_state p = InTransit
        \<and> plc_cell_id p = trf_destination_cell_id t
        \<and> plc_placement_generation p = trf_resulting_placement_generation t
        \<and> plc_active_transfer_id p = Some transfer_id
      else if trf_phase t \<in> {Imported, Finalized} then
        trf_resulting_placement_generation t < plc_placement_generation p
        \<or> (plc_placement_generation p = trf_resulting_placement_generation t
           \<and> plc_cell_id p = trf_destination_cell_id t)
      else
        trf_prior_placement_generation t < plc_placement_generation p
        \<or> (plc_placement_generation p = trf_prior_placement_generation t
           \<and> plc_cell_id p = trf_source_cell_id t))"

definition phase_evidence_invalid :: "cell_transfer_record \<Rightarrow> bool" where
  "phase_evidence_invalid t =
     ((trf_phase t = Prepared \<and> trf_quarantine_receipt_hash t \<noteq> None)
      \<or> (trf_phase t \<in> {Quarantined, Committed, Imported, Finalized}
         \<and> trf_quarantine_receipt_hash t = None)
      \<or> (trf_source_prepare_proof t = None \<and> trf_phase t \<notin> {Prepared, Aborted})
      \<or> ((trf_destination_quarantine_proof t \<noteq> None) \<noteq> (trf_quarantine_receipt_hash t \<noteq> None))
      \<or> (trf_phase t \<in> {Quarantined, Committed, Imported, Finalized}
         \<and> trf_destination_quarantine_proof t = None)
      \<or> (trf_phase t \<in> {Prepared, Quarantined, Committed, Aborting, Aborted}
         \<and> (trf_import_proof t \<noteq> None \<or> trf_finalization_proof t \<noteq> None))
      \<or> (trf_phase t = Imported \<and> (trf_import_proof t = None \<or> trf_finalization_proof t \<noteq> None))
      \<or> (trf_phase t = Finalized \<and> (trf_import_proof t = None \<or> trf_finalization_proof t = None))
      \<or> (trf_phase t \<notin> {Aborting, Aborted}
         \<and> (trf_source_abort_proof t \<noteq> None \<or> trf_destination_abort_proof t \<noteq> None))
      \<or> (trf_phase t = Aborted
         \<and> (trf_source_abort_proof t = None \<or> trf_destination_abort_proof t = None)))"

definition validate_transfer_entry ::
    "cell_directory_document \<Rightarrow> string \<Rightarrow> cell_transfer_record \<Rightarrow> cell_directory_error + unit" where
  "validate_transfer_entry document transfer_id t =
     try_r (validate_stable_id transfer_id ''transfer'') (\<lambda>_.
     try_r (validate_stable_id (trf_aggregate_id t) ''aggregate'') (\<lambda>_.
     try_r (validate_hash (trf_package_hash t) ''transfer package'') (\<lambda>_.
     if trf_transfer_id t \<noteq> transfer_id
        \<or> trf_source_cell_id t = trf_destination_cell_id t
        \<or> trf_source_assignment_generation t = 0
        \<or> trf_destination_assignment_generation t = 0
        \<or> trf_prior_placement_generation t = 0
        \<or> checked_add (trf_prior_placement_generation t) 1 \<noteq> Some (trf_resulting_placement_generation t)
     then Inl (InvalidDirectory (''transfer '' @ transfer_id
                 @ '' immutable identity or generation is invalid'')) else
     try_r (ok_or (bt_get (doc_assignments document) (trf_source_cell_id t))
              (InvalidDirectory (''transfer '' @ transfer_id @ '' source cell is unknown''))) (\<lambda>source.
     try_r (ok_or (bt_get (doc_assignments document) (trf_destination_cell_id t))
              (InvalidDirectory (''transfer '' @ transfer_id @ '' destination cell is unknown''))) (\<lambda>destination.
     try_r (ok_or (bt_get (doc_placements document) (trf_aggregate_id t))
              (InvalidDirectory (''transfer '' @ transfer_id @ '' aggregate placement is unknown''))) (\<lambda>p.
     if asg_cell_key source \<noteq> trf_source_cell_key t
        \<or> asg_cell_key destination \<noteq> trf_destination_cell_key t
        \<or> plc_aggregate_kind p \<noteq> trf_aggregate_kind t
     then Inl (InvalidDirectory (''transfer '' @ transfer_id
                 @ '' cell or aggregate identity is inconsistent'')) else
     try_r (validate_transfer_proofs transfer_id t source destination) (\<lambda>_.
     if \<not> placement_matches transfer_id t p \<or> phase_evidence_invalid t
     then Inl (InvalidDirectory (''transfer '' @ transfer_id
                 @ '' phase and placement state disagree''))
     else Inr ())))))))"

definition validate_document ::
    "cell_directory_document \<Rightarrow> universe_binding \<Rightarrow> (string, cell_assignment_record) btree_map \<Rightarrow>
     cell_directory_error + unit" where
  "validate_document document universe_manifest expected_assignments =
     try_r (validate_document_header document universe_manifest expected_assignments) (\<lambda>_.
     try_r (bt_for_each (validate_assignment_entry document) expected_assignments) (\<lambda>_.
     try_r (bt_for_each (validate_placement_entry document) (doc_placements document)) (\<lambda>_.
     bt_for_each (validate_transfer_entry document) (doc_transfers document))))"

section \<open>Opening a directory\<close>

text \<open>
  \<open>LocalCellDirectory::open\<close> after the lock is held: \<open>file\<close> is the parsed content of the
  directory file, absent for a new universe, which is then created by an atomic write.
\<close>

definition open_directory ::
    "externals \<Rightarrow> write_outcome \<Rightarrow> universe_binding \<Rightarrow> cell_key_v1 list \<Rightarrow>
     cell_directory_document option \<Rightarrow>
     cell_directory_document option \<times> (cell_directory_error + local_cell_directory)" where
  "open_directory ext w universe_manifest proof_cells file =
     (case canonical_assignments ext universe_manifest proof_cells of
        Inl e \<Rightarrow> (file, Inl e)
      | Inr expected_assignments \<Rightarrow>
          (case file of
             Some document \<Rightarrow>
               (file, try_r (validate_document document universe_manifest expected_assignments) (\<lambda>_.
                      Inr \<lparr>dir_document = document, dir_file = file\<rparr>))
           | None \<Rightarrow>
               let document = \<lparr>doc_schema_version = CELL_DIRECTORY_SCHEMA_VERSION,
                     doc_universe_id = ub_universe_id universe_manifest,
                     doc_universe_manifest_hash = ub_manifest_hash universe_manifest,
                     doc_directory_revision = 1, doc_assignments = expected_assignments,
                     doc_placements = bt_empty, doc_transfers = bt_empty\<rparr> in
               (case write_json_atomic w document file of
                  (file', Inl e) \<Rightarrow> (file', Inl e)
                | (file', Inr _) \<Rightarrow> (file', Inr \<lparr>dir_document = document, dir_file = file'\<rparr>))))"

text \<open>
  The additional admission checks of \<open>FrozenProtocol18Directory::lock_existing\<close> on a document
  that already passed \<open>validate_document\<close>.
\<close>

definition frozen_directory_admissible ::
    "cell_directory_document \<Rightarrow> cell_directory_error + unit" where
  "frozen_directory_admissible document =
     (if list_ex (\<lambda>t. \<not> terminal_phase (trf_phase t)) (bt_values (doc_transfers document))
      then Inl (InvalidDirectory ''frozen protocol-18 directory retains a nonterminal transfer'')
      else if list_ex (\<lambda>a. asg_assignment_generation a = 0
                 \<or> asg_authority_fencing_token a = 0
                 \<or> asg_state a \<noteq> Sleeping
                 \<or> asg_holder_id a \<noteq> None) (bt_values (doc_assignments document))
      then Inl (InvalidDirectory
                  ''frozen protocol-18 directory requires every cell released to sleeping'')
      else Inr ())"

end
