(* ===== verification/DirectorySoundness.thy ===== *)
theory DirectorySoundness
  imports DirectoryDocument
begin

text \<open>
  What holds of every document the directory commits. \<open>sound_document\<close> is the predicate all
  operations keep; it is what \<open>validate_document\<close> checks, plus the link from placements back
  to their transfers, minus one clause of the evidence check (see \<open>premature_abort\<close>).
\<close>

section \<open>Fencing histories\<close>

text \<open>The fences of the generations \<open>1, 2, \<dots>\<close> of a cell, in order.\<close>

definition history_entries :: "u64 list \<Rightarrow> (u64 \<times> u64) list" where
  "history_entries fences = map (\<lambda>i. (of_nat (Suc i), fences ! i)) [0..<length fences]"

definition good_history :: "cell_assignment_record \<Rightarrow> bool" where
  "good_history a \<longleftrightarrow> (\<exists>fences.
     bt_entries (asg_fencing_history a) = history_entries fences \<and>
     length fences = unat (asg_assignment_generation a) \<and>
     sorted_wrt (<) (0 # fences) \<and>
     asg_authority_fencing_token a = last (0 # fences))"

lemma length_history_entries [simp]: "length (history_entries fs) = length fs"
  by (simp add: history_entries_def)

lemma history_entries_snoc:
  "history_entries (fs @ [f]) = history_entries fs @ [(of_nat (Suc (length fs)), f)]"
  by (auto simp: history_entries_def nth_append intro!: nth_equalityI)

lemma unat_generation: "i \<le> unat (g :: u64) \<Longrightarrow> unat (of_nat i :: u64) = i"
  using unsigned_less [of g, where 'a = nat] by (simp add: unat_of_nat take_bit_nat_eq_self)

lemma history_get:
  assumes "bt_entries h = history_entries fs" and "length fs = unat (g :: u64)"
  shows "bt_get h n = (if 1 \<le> unat n \<and> unat n \<le> length fs then Some (fs ! (unat n - 1)) else None)"
proof (cases "1 \<le> unat n \<and> unat n \<le> length fs")
  case True
  then have "(n, fs ! (unat n - 1)) \<in> set (bt_entries h)"
    unfolding assms(1) history_entries_def
    by (auto intro!: image_eqI [of _ _ "unat n - 1"])
  with True show ?thesis by (simp add: bt_in_entries_iff)
next
  case False
  have "bt_get h n \<noteq> Some f" for f
  proof
    assume "bt_get h n = Some f"
    then have "(n, f) \<in> set (history_entries fs)"
      by (simp flip: bt_in_entries_iff assms(1))
    then obtain i where "i < length fs" "n = of_nat (Suc i)"
      by (auto simp: history_entries_def)
    with assms(2) have "unat n = Suc i"
      using unat_generation [of "Suc i" g] by (simp del: of_nat_Suc)
    with False \<open>i < length fs\<close> show False by simp
  qed
  with False show ?thesis by (cases "bt_get h n") auto
qed

lemma sorted_zero_iff:
  "sorted_wrt (<) (0 # fs) \<longleftrightarrow>
    (\<forall>i < length fs. fs ! i \<noteq> (0 :: u64) \<and> (0 < i \<longrightarrow> fs ! (i - 1) < fs ! i))"
proof -
  have "sorted_wrt (<) fs \<longleftrightarrow> (\<forall>i. Suc i < length fs \<longrightarrow> fs ! i < fs ! Suc i)"
    by (rule sorted_wrt_iff_nth_Suc_transp) (rule transp_on_less)
  also have "\<dots> \<longleftrightarrow> (\<forall>i < length fs. 0 < i \<longrightarrow> fs ! (i - 1) < fs ! i)"
    by (metis Suc_pred diff_Suc_1 zero_less_Suc)
  finally show ?thesis
    by (auto simp: all_set_conv_all_nth word_neq_0_conv)
qed

lemma list_ex_enumerate:
  "list_ex P (List.enumerate 0 xs) \<longleftrightarrow> (\<exists>i < length xs. P (i, xs ! i))"
  by (auto simp: list_ex_iff in_set_enumerate_eq)

lemma history_step:
  assumes "length fs = unat (g :: u64)" and "i < length fs"
  shows "index_generation i = of_nat (Suc i)" and "unat (index_generation i) = Suc i"
    and "0 < i \<Longrightarrow> unat (index_generation i - 1) = i"
proof -
  have "Suc i < 2 ^ 64"
    using assms unsigned_less [of g, where 'a = nat] by simp
  then show g: "index_generation i = of_nat (Suc i)"
    by (simp add: index_generation_def)
  from assms have "unat (of_nat (Suc i) :: u64) = Suc i"
    using unat_generation [of "Suc i" g] by (simp del: of_nat_Suc)
  with g show u: "unat (index_generation i) = Suc i" by simp
  have "index_generation i - 1 = of_nat i" by (simp add: g)
  with assms show "0 < i \<Longrightarrow> unat (index_generation i - 1) = i"
    using unat_generation [of i g] by simp
qed

lemma fencing_history_check:
  assumes e: "bt_entries (asg_fencing_history a) = history_entries fs"
    and l: "length fs = unat (asg_assignment_generation a)"
  shows "\<not> fencing_history_invalid a \<longleftrightarrow>
    sorted_wrt (<) (0 # fs) \<and> asg_authority_fencing_token a = last (0 # fs)"
proof -
  let ?h = "asg_fencing_history a" and ?g = "asg_assignment_generation a"
  note get = history_get [OF e l]
  have entry: "bt_entries ?h ! i = (index_generation i, fs ! i)" if "i < length fs" for i
    using that history_step(1) [OF l that] by (simp add: e history_entries_def)
  have prev: "bt_get ?h (index_generation i - 1) = Some (fs ! (i - 1))" if "i < length fs" "0 < i" for i
    using that history_step(3) [OF l] by (simp add: get)
  have len: "length (bt_entries ?h) = length fs" by (simp add: e)
  have "list_ex (\<lambda>(index, generation, fence).
            generation \<noteq> index_generation index \<or> fence = 0 \<or>
            (0 < index \<and> (case bt_get ?h (generation - 1) of None \<Rightarrow> False
                | Some previous \<Rightarrow> fence \<le> previous)))
          (List.enumerate 0 (bt_entries ?h)) \<longleftrightarrow>
      (\<exists>i < length fs. fs ! i = 0 \<or> (0 < i \<and> fs ! i \<le> fs ! (i - 1)))"
    unfolding list_ex_enumerate len
    by (rule ex_cong1) (use entry prev in force)
  moreover have "(case bt_get ?h ?g of None \<Rightarrow> 0 | Some f \<Rightarrow> f) = last (0 # fs)"
    by (cases fs rule: rev_cases) (auto simp: get l [symmetric] nth_append)
  ultimately show ?thesis
    unfolding fencing_history_invalid_def Let_def sorted_zero_iff
    by (auto simp: bt_len_def e l not_le)
qed

lemma fencing_history_valid_iff: "\<not> fencing_history_invalid a \<longleftrightarrow> good_history a"
proof
  assume v: "\<not> fencing_history_invalid a"
  let ?es = "bt_entries (asg_fencing_history a)"
  let ?fs = "map snd ?es"
  from v have l: "length ?fs = unat (asg_assignment_generation a)"
    by (simp add: fencing_history_invalid_def Let_def bt_len_def)
  from v have "fst (?es ! i) = index_generation i" if "i < length ?es" for i
    using that unfolding fencing_history_invalid_def Let_def list_ex_enumerate
    by (auto simp: case_prod_beta)
  then have e: "?es = history_entries ?fs"
    using history_step(1) [OF l]
    by (intro nth_equalityI) (auto simp: history_entries_def intro!: prod_eqI)
  from fencing_history_check [OF e l] v e l show "good_history a"
    unfolding good_history_def by blast
next
  assume "good_history a"
  then show "\<not> fencing_history_invalid a"
    unfolding good_history_def using fencing_history_check by blast
qed

lemma sorted_wrt_snoc:
  fixes f :: u64
  assumes "sorted_wrt (<) xs" and "xs \<noteq> []" and "last xs < f"
  shows "sorted_wrt (<) (xs @ [f])"
  using assms by (cases xs rule: rev_cases) (auto simp: sorted_wrt_append intro: less_trans)

text \<open>The history grows by one generation at each claim or recovery.\<close>

lemma good_history_extend:
  assumes "good_history a" and gen: "checked_add (asg_assignment_generation a) 1 = Some g"
    and fence: "asg_authority_fencing_token a < f"
    and a': "asg_assignment_generation a' = g" "asg_authority_fencing_token a' = f"
      "asg_fencing_history a' = bt_insert g f (asg_fencing_history a)"
  shows "good_history a'"
    and "bt_get (asg_fencing_history a) n = Some x \<Longrightarrow> bt_get (asg_fencing_history a') n = Some x"
proof -
  from assms(1) obtain fs where e: "bt_entries (asg_fencing_history a) = history_entries fs"
    and l: "length fs = unat (asg_assignment_generation a)"
    and s: "sorted_wrt (<) (0 # fs)" and t: "asg_authority_fencing_token a = last (0 # fs)"
    unfolding good_history_def by blast
  from gen have g: "unat g = Suc (length fs)" by (simp add: checked_succ_unat l)
  then have gw: "g = of_nat (Suc (length fs))"
    by (metis of_nat_unat ucast_id)
  note get = history_get [OF e l]
  have less: "j < g" if "bt_get (asg_fencing_history a) j \<noteq> None" for j
    using that g by (auto simp: get word_less_nat_alt split: if_splits)
  have "bt_entries (asg_fencing_history a') = history_entries fs @ [(g, f)]"
    unfolding a' e [symmetric] by (rule bt_entries_insert_last) (rule less)
  then have "bt_entries (asg_fencing_history a') = history_entries (fs @ [f])"
    by (simp add: history_entries_snoc gw)
  moreover have "sorted_wrt (<) ((0 # fs) @ [f])"
    by (rule sorted_wrt_snoc [OF s]) (use t fence in auto)
  ultimately show "good_history a'"
    unfolding good_history_def using g a'(1,2) by (intro exI [of _ "fs @ [f]"]) auto
  show "bt_get (asg_fencing_history a) n = Some x \<Longrightarrow> bt_get (asg_fencing_history a') n = Some x"
    using less [of n] by (auto simp: a')
qed

section \<open>Sound documents\<close>

definition sound_assignment :: "cell_key_v1 \<Rightarrow> string \<Rightarrow> cell_assignment_record \<Rightarrow> bool" where
  "sound_assignment key cid a \<longleftrightarrow>
     asg_cell_id a = cid \<and> asg_cell_key a = key \<and> validate_assignment_state cid a = Inr () \<and>
     good_history a"

definition state_binding_ok :: "aggregate_placement_record \<Rightarrow> bool" where
  "state_binding_ok p \<longleftrightarrow> (plc_active_transfer_id p = None) = (plc_state p = Resident)"

definition sound_placement ::
    "cell_directory_document \<Rightarrow> string \<Rightarrow> aggregate_placement_record \<Rightarrow> bool" where
  "sound_placement d aid p \<longleftrightarrow>
     validate_stable_id aid ''aggregate'' = Inr () \<and> plc_aggregate_id p = aid \<and>
     plc_placement_generation p \<noteq> 0 \<and>
     (\<exists>a. bt_get (doc_assignments d) (plc_cell_id p) = Some a \<and> asg_cell_key a = plc_cell_key p) \<and>
     state_binding_ok p"

lemma validate_placement_entry_ok: "validate_placement_entry d aid p = Inr () \<longleftrightarrow> sound_placement d aid p"
  by (cases "plc_state p")
    (auto simp: validate_placement_entry_def sound_placement_def state_binding_ok_def result_elims)

lemma validate_assignment_entry_ok:
  "validate_assignment_entry d cid e = Inr () \<longleftrightarrow>
    (\<exists>a. bt_get (doc_assignments d) cid = Some a \<and> sound_assignment (asg_cell_key e) cid a)"
  by (auto simp: validate_assignment_entry_def sound_assignment_def result_elims
      fencing_history_valid_iff)

text \<open>The transfer's fields that never change, and its place in the document.\<close>

definition transfer_material :: "string \<Rightarrow> cell_transfer_record \<Rightarrow> bool" where
  "transfer_material tid t \<longleftrightarrow>
     validate_stable_id tid ''transfer'' = Inr () \<and>
     validate_stable_id (trf_aggregate_id t) ''aggregate'' = Inr () \<and>
     validate_hash (trf_package_hash t) ''transfer package'' = Inr () \<and>
     trf_transfer_id t = tid \<and> trf_source_cell_id t \<noteq> trf_destination_cell_id t \<and>
     trf_source_assignment_generation t \<noteq> 0 \<and> trf_destination_assignment_generation t \<noteq> 0 \<and>
     trf_prior_placement_generation t \<noteq> 0 \<and>
     checked_add (trf_prior_placement_generation t) 1 = Some (trf_resulting_placement_generation t)"

definition transfer_bound :: "cell_directory_document \<Rightarrow> string \<Rightarrow> cell_transfer_record \<Rightarrow> bool" where
  "transfer_bound d tid t \<longleftrightarrow> transfer_material tid t \<and>
     (\<exists>src dst p.
       bt_get (doc_assignments d) (trf_source_cell_id t) = Some src \<and>
       bt_get (doc_assignments d) (trf_destination_cell_id t) = Some dst \<and>
       bt_get (doc_placements d) (trf_aggregate_id t) = Some p \<and>
       asg_cell_key src = trf_source_cell_key t \<and> asg_cell_key dst = trf_destination_cell_key t \<and>
       plc_aggregate_kind p = trf_aggregate_kind t \<and>
       validate_transfer_proofs tid t src dst = Inr () \<and> placement_matches tid t p)"

lemma validate_transfer_entry_ok:
  "validate_transfer_entry d tid t = Inr () \<longleftrightarrow> transfer_bound d tid t \<and> \<not> phase_evidence_invalid t"
  unfolding validate_transfer_entry_def transfer_bound_def transfer_material_def result_elims
  by auto

text \<open>
  An abort requested before the source cell recorded its prepare event. Such a transfer has
  no evidence at all; \<open>phase_evidence_invalid\<close> rejects it.
\<close>

definition premature_abort :: "cell_transfer_record \<Rightarrow> bool" where
  "premature_abort t \<longleftrightarrow> trf_phase t = Aborting \<and> trf_source_prepare_proof t = None \<and>
     trf_quarantine_receipt_hash t = None \<and> trf_destination_quarantine_proof t = None \<and>
     trf_import_proof t = None \<and> trf_finalization_proof t = None"

definition sound_evidence :: "cell_transfer_record \<Rightarrow> bool" where
  "sound_evidence t \<longleftrightarrow> \<not> phase_evidence_invalid t \<or> premature_abort t"

definition active_phase :: "transfer_phase \<Rightarrow> bool" where
  "active_phase ph = (ph \<in> {Prepared, Quarantined, Aborting, Committed})"

text \<open>A placement that is on the move belongs to a live transfer of its own aggregate.\<close>

definition placement_linked ::
    "cell_directory_document \<Rightarrow> string \<Rightarrow> aggregate_placement_record \<Rightarrow> bool" where
  "placement_linked d aid p \<longleftrightarrow> (\<forall>tid. plc_active_transfer_id p = Some tid \<longrightarrow>
     (\<exists>t. bt_get (doc_transfers d) tid = Some t \<and> trf_aggregate_id t = aid \<and> active_phase (trf_phase t)))"

definition sound_document ::
    "universe_binding \<Rightarrow> (string, cell_assignment_record) btree_map \<Rightarrow> cell_directory_document \<Rightarrow> bool" where
  "sound_document ub expected d \<longleftrightarrow>
     validate_document_header d ub expected = Inr () \<and>
     (\<forall>cid e. bt_get expected cid = Some e \<longrightarrow>
        (\<exists>a. bt_get (doc_assignments d) cid = Some a \<and> sound_assignment (asg_cell_key e) cid a)) \<and>
     (\<forall>aid p. bt_get (doc_placements d) aid = Some p \<longrightarrow> sound_placement d aid p \<and> placement_linked d aid p) \<and>
     (\<forall>tid t. bt_get (doc_transfers d) tid = Some t \<longrightarrow> transfer_bound d tid t \<and> sound_evidence t)"

lemma validate_document_ok:
  "validate_document d ub expected = Inr () \<longleftrightarrow>
     validate_document_header d ub expected = Inr () \<and>
     (\<forall>cid e. bt_get expected cid = Some e \<longrightarrow>
        (\<exists>a. bt_get (doc_assignments d) cid = Some a \<and> sound_assignment (asg_cell_key e) cid a)) \<and>
     (\<forall>aid p. bt_get (doc_placements d) aid = Some p \<longrightarrow> sound_placement d aid p) \<and>
     (\<forall>tid t. bt_get (doc_transfers d) tid = Some t \<longrightarrow> transfer_bound d tid t \<and> \<not> phase_evidence_invalid t)"
  by (auto simp: validate_document_def result_elims validate_assignment_entry_ok
      validate_placement_entry_ok validate_transfer_entry_ok)

text \<open>A sound document is accepted on reopening unless it holds a premature abort.\<close>

lemma sound_document_validates:
  assumes "sound_document ub expected d"
  shows "validate_document d ub expected = Inr () \<longleftrightarrow>
    (\<forall>tid t. bt_get (doc_transfers d) tid = Some t \<longrightarrow> \<not> premature_abort t)"
proof -
  have "premature_abort t \<Longrightarrow> phase_evidence_invalid t" for t
    by (auto simp: premature_abort_def phase_evidence_invalid_def)
  then show ?thesis
    using assms unfolding validate_document_ok sound_document_def sound_evidence_def by blast
qed

section \<open>Frames\<close>

lemma validate_transfer_proofs_mono:
  assumes "validate_transfer_proofs tid t src dst = Inr ()"
    and "\<And>g f. bt_get (asg_fencing_history src) g = Some f \<Longrightarrow> bt_get (asg_fencing_history src') g = Some f"
    and "\<And>g f. bt_get (asg_fencing_history dst) g = Some f \<Longrightarrow> bt_get (asg_fencing_history dst') g = Some f"
  shows "validate_transfer_proofs tid t src' dst' = Inr ()"
  using assms(1)
  unfolding validate_transfer_proofs_def result_elims validate_historical_proof_authority_def
  by (auto intro: assms(2,3))

lemma header_revision:
  "validate_document_header d ub expected = Inr () \<Longrightarrow> doc_directory_revision d \<noteq> 0"
  by (auto simp: validate_document_header_def split: if_splits)

lemma sound_header: "sound_document ub expected d \<Longrightarrow> validate_document_header d ub expected = Inr ()"
  by (simp add: sound_document_def)

lemma sound_header_cong:
  assumes "validate_document_header d ub expected = Inr ()"
    and "doc_schema_version d' = doc_schema_version d" "doc_universe_id d' = doc_universe_id d"
    "doc_universe_manifest_hash d' = doc_universe_manifest_hash d"
    "doc_directory_revision d' \<noteq> 0"
    "bt_len (doc_assignments d') = bt_len (doc_assignments d)"
  shows "validate_document_header d' ub expected = Inr ()"
  using assms by (auto simp: validate_document_header_def split: if_splits)

text \<open>Advancing the assignment of one cell.\<close>

lemma sound_put_assignment:
  assumes sound: "sound_document ub expected d"
    and get: "bt_get (doc_assignments d) cid = Some a"
    and sa: "\<And>key. sound_assignment key cid a \<Longrightarrow> sound_assignment key cid a'"
    and key: "asg_cell_key a' = asg_cell_key a"
    and mono: "\<And>g f. bt_get (asg_fencing_history a) g = Some f \<Longrightarrow> bt_get (asg_fencing_history a') g = Some f"
  shows "sound_document ub expected (put_assignment cid a' d)"
proof -
  let ?d = "put_assignment cid a' d"
  have h: "validate_document_header ?d ub expected = Inr ()"
    by (rule sound_header_cong [OF sound_header [OF sound]])
      (simp_all add: bt_len_insert_present [OF get] header_revision [OF sound_header [OF sound]])
  have asg: "\<exists>b. bt_get (doc_assignments ?d) c = Some b \<and> asg_cell_key b = k \<and>
      (\<forall>g f. bt_get (asg_fencing_history b0) g = Some f \<longrightarrow> bt_get (asg_fencing_history b) g = Some f)"
    if "bt_get (doc_assignments d) c = Some b0" "asg_cell_key b0 = k" for c b0 k
    using that get key mono by auto
  have "sound_placement ?d aid p" if "sound_placement d aid p" for aid p
    using that asg unfolding sound_placement_def by blast
  moreover have "placement_linked ?d aid p = placement_linked d aid p" for aid p
    by (simp add: placement_linked_def)
  moreover have "transfer_bound ?d tid t" if "transfer_bound d tid t" for tid t
  proof -
    from that obtain src dst p where
      b: "transfer_material tid t" "bt_get (doc_assignments d) (trf_source_cell_id t) = Some src"
       "bt_get (doc_assignments d) (trf_destination_cell_id t) = Some dst"
       "bt_get (doc_placements d) (trf_aggregate_id t) = Some p"
       "asg_cell_key src = trf_source_cell_key t" "asg_cell_key dst = trf_destination_cell_key t"
       "plc_aggregate_kind p = trf_aggregate_kind t" "placement_matches tid t p"
       and v: "validate_transfer_proofs tid t src dst = Inr ()"
      unfolding transfer_bound_def by blast
    from asg [OF b(2,5)] asg [OF b(3,6)] obtain src' dst' where
      c: "bt_get (doc_assignments ?d) (trf_source_cell_id t) = Some src'" "asg_cell_key src' = trf_source_cell_key t"
       "bt_get (doc_assignments ?d) (trf_destination_cell_id t) = Some dst'" "asg_cell_key dst' = trf_destination_cell_key t"
      and m: "\<And>g f. bt_get (asg_fencing_history src) g = Some f \<Longrightarrow> bt_get (asg_fencing_history src') g = Some f"
       "\<And>g f. bt_get (asg_fencing_history dst) g = Some f \<Longrightarrow> bt_get (asg_fencing_history dst') g = Some f"
      by blast
    have "validate_transfer_proofs tid t src' dst' = Inr ()"
      by (rule validate_transfer_proofs_mono [OF v m])
    moreover have "bt_get (doc_placements ?d) (trf_aggregate_id t) = Some p"
      using b(4) by simp
    ultimately show ?thesis
      unfolding transfer_bound_def using b(1,7,8) c
      by (intro conjI exI [of _ src'] exI [of _ dst'] exI [of _ p])
  qed
  moreover have "\<exists>b. bt_get (doc_assignments ?d) c = Some b \<and> sound_assignment (asg_cell_key e) c b"
    if "bt_get expected c = Some e" for c e
    using that sound get sa unfolding sound_document_def by (cases "c = cid") fastforce+
  ultimately show ?thesis
    using sound h unfolding sound_document_def by simp
qed

text \<open>
  A placement may move on under the transfer that holds it (or under none): the records of
  the other transfers of the same aggregate still match it, because they are all over.
\<close>

definition placement_advances ::
    "string \<Rightarrow> aggregate_placement_record \<Rightarrow> aggregate_placement_record \<Rightarrow> bool" where
  "placement_advances tid p p' \<longleftrightarrow> p' = p \<or>
     ((plc_active_transfer_id p = None \<or> plc_active_transfer_id p = Some tid) \<and>
      (plc_active_transfer_id p' = None \<or> plc_active_transfer_id p' = Some tid) \<and>
      (plc_placement_generation p < plc_placement_generation p' \<or>
       plc_placement_generation p = plc_placement_generation p' \<and> plc_cell_id p = plc_cell_id p'))"

lemma placement_matches_other:
  assumes "placement_matches tid2 t2 p" and "tid2 \<noteq> tid" and "placement_advances tid p p'"
  shows "placement_matches tid2 t2 p'"
proof (cases "p' = p")
  case False
  with assms(3) have a: "plc_active_transfer_id p \<noteq> Some tid2"
    and g: "plc_placement_generation p < plc_placement_generation p' \<or>
       plc_placement_generation p = plc_placement_generation p' \<and> plc_cell_id p = plc_cell_id p'"
    using assms(2) by (auto simp: placement_advances_def)
  from assms(1) a show ?thesis
    unfolding placement_matches_def using g by (auto split: if_splits intro: less_trans)
qed (use assms in simp)

lemma sound_put_placement_transfer:
  assumes sound: "sound_document ub expected d"
    and old_p: "bt_get (doc_placements d) aid = Some p"
    and kind: "plc_aggregate_kind p' = plc_aggregate_kind p"
    and new_p: "sound_placement d aid p'" and adv: "placement_advances tid p p'"
    and old_t: "\<And>t. bt_get (doc_transfers d) tid = Some t \<Longrightarrow> trf_aggregate_id t = aid"
    and aid: "trf_aggregate_id t' = aid" and evidence: "sound_evidence t'"
    and material: "transfer_material tid t'"
    and src: "bt_get (doc_assignments d) (trf_source_cell_id t') = Some src"
      "asg_cell_key src = trf_source_cell_key t'"
    and dst: "bt_get (doc_assignments d) (trf_destination_cell_id t') = Some dst"
      "asg_cell_key dst = trf_destination_cell_key t'"
    and kind': "trf_aggregate_kind t' = plc_aggregate_kind p"
    and proofs: "validate_transfer_proofs tid t' src dst = Inr ()"
    and matches: "placement_matches tid t' p'"
    and live: "plc_active_transfer_id p' = Some tid \<Longrightarrow> active_phase (trf_phase t')"
  shows "sound_document ub expected (put_transfer tid t' (put_placement aid p' d))"
    (is "sound_document _ _ ?d")
proof -
  have h: "validate_document_header ?d ub expected = Inr ()"
    by (rule sound_header_cong [OF sound_header [OF sound]])
      (simp_all add: header_revision [OF sound_header [OF sound]])
  have pl: "sound_placement ?d a q \<and> placement_linked ?d a q"
    if "bt_get (doc_placements ?d) a = Some q" for a q
  proof (cases "a = aid")
    case False
    with that sound have "sound_placement d a q" and "placement_linked d a q"
      unfolding sound_document_def by auto
    then show ?thesis
      using False old_t unfolding sound_placement_def placement_linked_def by fastforce
  next
    case True
    with that have q: "q = p'" by simp
    from sound old_p have "placement_linked d aid p"
      unfolding sound_document_def by blast
    then have "placement_linked ?d aid p'"
      using live adv aid unfolding placement_linked_def placement_advances_def by auto
    moreover have "sound_placement ?d aid p'"
      using new_p by (simp add: sound_placement_def)
    ultimately show ?thesis using q True by simp
  qed
  have tr: "transfer_bound ?d i t \<and> sound_evidence t" if "bt_get (doc_transfers ?d) i = Some t" for i t
  proof (cases "i = tid")
    case True
    with that have "t = t'" by simp
    moreover have "transfer_bound ?d tid t'"
      unfolding transfer_bound_def using material src dst kind kind' proofs matches aid by simp
    ultimately show ?thesis using evidence True by simp
  next
    case False
    with that sound have b: "transfer_bound d i t" and e: "sound_evidence t"
      unfolding sound_document_def by auto
    then obtain s1 d1 p1 where b1: "transfer_material i t"
        "bt_get (doc_assignments d) (trf_source_cell_id t) = Some s1"
        "bt_get (doc_assignments d) (trf_destination_cell_id t) = Some d1"
        "bt_get (doc_placements d) (trf_aggregate_id t) = Some p1"
        "asg_cell_key s1 = trf_source_cell_key t" "asg_cell_key d1 = trf_destination_cell_key t"
        "plc_aggregate_kind p1 = trf_aggregate_kind t"
        "validate_transfer_proofs i t s1 d1 = Inr ()" "placement_matches i t p1"
      unfolding transfer_bound_def by blast
    define p2 where "p2 = (if trf_aggregate_id t = aid then p' else p1)"
    have "bt_get (doc_placements ?d) (trf_aggregate_id t) = Some p2"
      and "plc_aggregate_kind p2 = trf_aggregate_kind t" and "placement_matches i t p2"
      using b1 old_p kind placement_matches_other [OF _ False adv]
      by (auto simp: p2_def)
    then have "transfer_bound ?d i t"
      unfolding transfer_bound_def using b1
      by (intro conjI exI [of _ s1] exI [of _ d1] exI [of _ p2]) simp_all
    with e show ?thesis by blast
  qed
  from sound h pl tr show ?thesis
    unfolding sound_document_def by simp
qed

definition same_material :: "cell_transfer_record \<Rightarrow> cell_transfer_record \<Rightarrow> bool" where
  "same_material t t' \<longleftrightarrow>
     trf_transfer_id t' = trf_transfer_id t \<and> trf_aggregate_id t' = trf_aggregate_id t \<and>
     trf_aggregate_kind t' = trf_aggregate_kind t \<and>
     trf_source_cell_key t' = trf_source_cell_key t \<and> trf_source_cell_id t' = trf_source_cell_id t \<and>
     trf_destination_cell_key t' = trf_destination_cell_key t \<and>
     trf_destination_cell_id t' = trf_destination_cell_id t \<and>
     trf_source_assignment_generation t' = trf_source_assignment_generation t \<and>
     trf_destination_assignment_generation t' = trf_destination_assignment_generation t \<and>
     trf_prior_placement_generation t' = trf_prior_placement_generation t \<and>
     trf_resulting_placement_generation t' = trf_resulting_placement_generation t \<and>
     trf_package_hash t' = trf_package_hash t"

lemma sound_transferE:
  assumes "sound_document ub expected d" and "bt_get (doc_transfers d) tid = Some t"
  obtains src dst p where "transfer_material tid t" "sound_evidence t"
    "bt_get (doc_assignments d) (trf_source_cell_id t) = Some src"
    "bt_get (doc_assignments d) (trf_destination_cell_id t) = Some dst"
    "bt_get (doc_placements d) (trf_aggregate_id t) = Some p"
    "asg_cell_key src = trf_source_cell_key t" "asg_cell_key dst = trf_destination_cell_key t"
    "plc_aggregate_kind p = trf_aggregate_kind t"
    "validate_transfer_proofs tid t src dst = Inr ()" "placement_matches tid t p"
proof -
  from assms have "transfer_bound d tid t" and "sound_evidence t"
    unfolding sound_document_def by blast+
  then show thesis
    unfolding transfer_bound_def using that by blast
qed

text \<open>Advancing one transfer, together with the placement of its aggregate.\<close>

lemma sound_update_transfer:
  assumes sound: "sound_document ub expected d" and get: "bt_get (doc_transfers d) tid = Some t"
    and old_p: "bt_get (doc_placements d) (trf_aggregate_id t) = Some p"
    and same: "same_material t t'" and evidence: "sound_evidence t'"
    and proofs: "\<And>src dst. bt_get (doc_assignments d) (trf_source_cell_id t) = Some src \<Longrightarrow>
      bt_get (doc_assignments d) (trf_destination_cell_id t) = Some dst \<Longrightarrow>
      validate_transfer_proofs tid t src dst = Inr () \<Longrightarrow> validate_transfer_proofs tid t' src dst = Inr ()"
    and new_p: "sound_placement d (trf_aggregate_id t) p'"
    and kind: "plc_aggregate_kind p' = plc_aggregate_kind p" and adv: "placement_advances tid p p'"
    and matches: "placement_matches tid t' p'"
    and live: "plc_active_transfer_id p' = Some tid \<Longrightarrow> active_phase (trf_phase t')"
  shows "sound_document ub expected (put_transfer tid t' (put_placement (trf_aggregate_id t) p' d))"
proof (rule sound_transferE [OF sound get])
  fix src dst q
  assume t: "transfer_material tid t" "bt_get (doc_assignments d) (trf_source_cell_id t) = Some src"
    "bt_get (doc_assignments d) (trf_destination_cell_id t) = Some dst"
    "asg_cell_key src = trf_source_cell_key t" "asg_cell_key dst = trf_destination_cell_key t"
    "validate_transfer_proofs tid t src dst = Inr ()"
    and q: "bt_get (doc_placements d) (trf_aggregate_id t) = Some q"
      "plc_aggregate_kind q = trf_aggregate_kind t"
  have m: "transfer_material tid t'"
    using t(1) same by (simp add: transfer_material_def same_material_def)
  show ?thesis
    by (rule sound_put_placement_transfer [OF sound old_p kind new_p adv _ _ evidence m _ _ _ _ _
          proofs [OF t(2,3,6)] matches live])
      (use get t q old_p same in \<open>auto simp: same_material_def\<close>)
qed

text \<open>The same when the placement stays as it is.\<close>

lemma sound_update_transfer_only:
  assumes sound: "sound_document ub expected d" and get: "bt_get (doc_transfers d) tid = Some t"
    and same: "same_material t t'" and evidence: "sound_evidence t'"
    and proofs: "\<And>src dst. bt_get (doc_assignments d) (trf_source_cell_id t) = Some src \<Longrightarrow>
      bt_get (doc_assignments d) (trf_destination_cell_id t) = Some dst \<Longrightarrow>
      validate_transfer_proofs tid t src dst = Inr () \<Longrightarrow> validate_transfer_proofs tid t' src dst = Inr ()"
    and matches: "\<And>p. bt_get (doc_placements d) (trf_aggregate_id t) = Some p \<Longrightarrow>
      placement_matches tid t p \<Longrightarrow> state_binding_ok p \<Longrightarrow>
      placement_matches tid t' p \<and> (plc_active_transfer_id p = Some tid \<longrightarrow> active_phase (trf_phase t'))"
  shows "sound_document ub expected (put_transfer tid t' d)"
proof (rule sound_transferE [OF sound get])
  fix p
  assume p: "bt_get (doc_placements d) (trf_aggregate_id t) = Some p" and m: "placement_matches tid t p"
  from sound p have sp: "sound_placement d (trf_aggregate_id t) p"
    unfolding sound_document_def by blast
  then have "state_binding_ok p" by (simp add: sound_placement_def)
  note mm = matches [OF p m this]
  have "sound_document ub expected (put_transfer tid t' (put_placement (trf_aggregate_id t) p d))"
    by (rule sound_update_transfer [OF sound get p same evidence proofs sp])
      (use mm in \<open>auto simp: placement_advances_def\<close>)
  then show ?thesis
    by (simp add: bt_insert_same [OF p])
qed

lemma sound_revision:
  "sound_document ub expected d \<Longrightarrow> r \<noteq> 0 \<Longrightarrow> sound_document ub expected (d\<lparr>doc_directory_revision := r\<rparr>)"
  by (auto simp: sound_document_def validate_document_header_def sound_placement_def
      placement_linked_def transfer_bound_def split: if_splits)

end
