(* ===== verification/DirectoryOperations.thy ===== *)
theory DirectoryOperations
  imports DirectorySoundness
begin

text \<open>
  Every operation of the directory keeps \<open>sound_document\<close>, and what each of them does to the
  phase of a transfer and the placement of its aggregate.
\<close>

section \<open>Cell identities\<close>

text \<open>
  The identity of a hosted cell is the hash of its key, and of no other key: the first half
  holds of the assignments \<open>canonical_assignments\<close> builds, the second is collision-freedom of
  BLAKE3 on the hosted cells.
\<close>

definition cells_identified ::
    "externals \<Rightarrow> (string, cell_assignment_record) btree_map \<Rightarrow> bool" where
  "cells_identified ext expected \<longleftrightarrow>
     (\<forall>key cid e. bt_get expected cid = Some e \<longrightarrow> (cell_id ext key = Inr cid \<longleftrightarrow> key = asg_cell_key e))"

lemma sound_assignments_expected:
  assumes sound: "sound_document ub expected d" and get: "bt_get (doc_assignments d) cid = Some a"
  obtains e where "bt_get expected cid = Some e" and "sound_assignment (asg_cell_key e) cid a"
proof -
  have "dom (bt_get expected) \<subseteq> dom (bt_get (doc_assignments d))"
    using sound unfolding sound_document_def by blast
  moreover have "card (dom (bt_get expected)) = card (dom (bt_get (doc_assignments d)))"
    using sound_header [OF sound]
    by (auto simp: validate_document_header_def bt_len_keys split: if_splits)
  ultimately have "dom (bt_get expected) = dom (bt_get (doc_assignments d))"
    by (intro card_subset_eq) (auto simp: bt_finite_dom)
  with get obtain e where e: "bt_get expected cid = Some e" by blast
  with sound get have "sound_assignment (asg_cell_key e) cid a"
    unfolding sound_document_def by fastforce
  with e show thesis by (rule that)
qed

lemma sound_assignment_history:
  "sound_document ub expected d \<Longrightarrow> bt_get (doc_assignments d) cid = Some a \<Longrightarrow> good_history a"
  by (erule (1) sound_assignments_expected) (simp add: sound_assignment_def)

lemma directory_cell_id_ok: "directory_cell_id ext key = Inr cid \<longleftrightarrow> cell_id ext key = Inr cid"
  by (simp add: directory_cell_id_def result_elims)

lemma sound_assignment_lookup:
  assumes sound: "sound_document ub expected d" and ids: "cells_identified ext expected"
    and look: "assignment ext d key = Inr a"
  shows "bt_get (doc_assignments d) (asg_cell_id a) = Some a" and "asg_cell_key a = key"
    and "asg_state a = Assigned \<Longrightarrow> asg_assignment_generation a \<noteq> 0"
proof -
  from look obtain cid where cid: "cell_id ext key = Inr cid" and get: "bt_get (doc_assignments d) cid = Some a"
    by (auto simp: assignment_def result_elims directory_cell_id_ok)
  obtain e where e: "bt_get expected cid = Some e" "sound_assignment (asg_cell_key e) cid a"
    by (rule sound_assignments_expected [OF sound get])
  then show "bt_get (doc_assignments d) (asg_cell_id a) = Some a"
    using get by (simp add: sound_assignment_def)
  have "key = asg_cell_key e"
    using e(1) cid ids unfolding cells_identified_def by blast
  with e(2) show "asg_cell_key a = key"
    by (simp add: sound_assignment_def)
  show "asg_state a = Assigned \<Longrightarrow> asg_assignment_generation a \<noteq> 0"
    using e(2) by (auto simp: sound_assignment_def validate_assignment_state_def split: if_splits)
qed

section \<open>Assignments\<close>

lemma validate_holder_nonempty: "validate_holder h = Inr () \<Longrightarrow> h \<noteq> []"
  by (auto simp: validate_holder_def validate_stable_id_def)

lemma claim_commitE:
  assumes "claim ext d key g h f = Inr (Commit d' r)"
  obtains a cid gen where "validate_holder h = Inr ()" "f \<noteq> 0" "cell_id ext key = Inr cid"
    "bt_get (doc_assignments d) cid = Some a" "asg_assignment_generation a = g"
    "asg_state a = Sleeping" "asg_holder_id a = None" "checked_add g 1 = Some gen"
    "asg_authority_fencing_token a < f"
    "r = a\<lparr>asg_assignment_generation := gen, asg_state := Assigned, asg_holder_id := Some h,
       asg_authority_fencing_token := f,
       asg_fencing_history := bt_insert gen f (asg_fencing_history a)\<rparr>"
    "d' = put_assignment cid r d"
  using assms
  by (auto simp: claim_def result_elims Let_def directory_cell_id_ok not_le)

lemma claim_sound:
  assumes "claim ext d key g h f = Inr (Commit d' r)" and "sound_document ub expected d"
  shows "sound_document ub expected d'"
proof (rule claim_commitE [OF assms(1)])
  fix a cid gen
  assume h: "validate_holder h = Inr ()" and f: "f \<noteq> 0" and get: "bt_get (doc_assignments d) cid = Some a"
    and g: "asg_assignment_generation a = g" "checked_add g 1 = Some gen"
    and fence: "asg_authority_fencing_token a < f"
    and r: "r = a\<lparr>asg_assignment_generation := gen, asg_state := Assigned, asg_holder_id := Some h,
       asg_authority_fencing_token := f,
       asg_fencing_history := bt_insert gen f (asg_fencing_history a)\<rparr>"
    and d': "d' = put_assignment cid r d"
  note ext = good_history_extend [OF sound_assignment_history [OF assms(2) get] _ fence, of gen r]
  show ?thesis
    unfolding d'
  proof (rule sound_put_assignment [OF assms(2) get])
    fix k
    assume "sound_assignment k cid a"
    then show "sound_assignment k cid r"
      using ext(1) g f checked_succ_gt(2) [OF g(2)] validate_holder_nonempty [OF h]
      by (auto simp: sound_assignment_def validate_assignment_state_def r)
  qed (use ext(2) g r in auto)
qed

lemma recover_commitE:
  assumes "recover_assignment ext d key g h f = Inr (Commit d' r)"
  obtains a cid gen where "validate_holder h = Inr ()" "cell_id ext key = Inr cid"
    "bt_get (doc_assignments d) cid = Some a" "asg_assignment_generation a = g"
    "asg_state a = Assigned" "checked_add g 1 = Some gen" "asg_authority_fencing_token a < f"
    "r = a\<lparr>asg_assignment_generation := gen, asg_authority_fencing_token := f,
       asg_fencing_history := bt_insert gen f (asg_fencing_history a), asg_holder_id := Some h\<rparr>"
    "d' = put_assignment cid r d"
  using assms
  by (auto simp: recover_assignment_def result_elims Let_def directory_cell_id_ok not_le)

lemma recover_sound:
  assumes "recover_assignment ext d key g h f = Inr (Commit d' r)" and "sound_document ub expected d"
  shows "sound_document ub expected d'"
proof (rule recover_commitE [OF assms(1)])
  fix a cid gen
  assume h: "validate_holder h = Inr ()" and get: "bt_get (doc_assignments d) cid = Some a"
    and g: "asg_assignment_generation a = g" "checked_add g 1 = Some gen"
    and st: "asg_state a = Assigned" and fence: "asg_authority_fencing_token a < f"
    and r: "r = a\<lparr>asg_assignment_generation := gen, asg_authority_fencing_token := f,
       asg_fencing_history := bt_insert gen f (asg_fencing_history a), asg_holder_id := Some h\<rparr>"
    and d': "d' = put_assignment cid r d"
  note ext = good_history_extend [OF sound_assignment_history [OF assms(2) get] _ fence, of gen r]
  have "f \<noteq> 0" using fence word_gt_0 by fastforce
  show ?thesis
    unfolding d'
  proof (rule sound_put_assignment [OF assms(2) get])
    fix k
    assume "sound_assignment k cid a"
    then show "sound_assignment k cid r"
      using ext(1) g st checked_succ_gt(2) [OF g(2)] validate_holder_nonempty [OF h] \<open>f \<noteq> 0\<close>
      by (auto simp: sound_assignment_def validate_assignment_state_def r)
  qed (use ext(2) g r in auto)
qed

lemma pinned_by_transfer_iff:
  "pinned_by_transfer d cid \<longleftrightarrow> (\<exists>tid t. bt_get (doc_transfers d) tid = Some t \<and>
     \<not> terminal_phase (trf_phase t) \<and> (trf_source_cell_id t = cid \<or> trf_destination_cell_id t = cid))"
  unfolding pinned_by_transfer_def list_ex_iff Bex_def bt_in_values_iff by blast

lemma release_commitE:
  assumes "release ext d key g h = Inr (Commit d' r)"
  obtains a cid where "cell_id ext key = Inr cid"
    "bt_get (doc_assignments d) cid = Some a" "asg_assignment_generation a = g"
    "asg_state a = Assigned" "asg_holder_id a = Some h" "\<not> pinned_by_transfer d cid"
    "r = a\<lparr>asg_state := Sleeping, asg_holder_id := None\<rparr>" "d' = put_assignment cid r d"
  using assms
  by (auto simp: release_def result_elims Let_def directory_cell_id_ok split: if_splits)

lemma release_sound:
  assumes "release ext d key g h = Inr (Commit d' r)" and "sound_document ub expected d"
  shows "sound_document ub expected d'"
proof (rule release_commitE [OF assms(1)])
  fix a cid
  assume get: "bt_get (doc_assignments d) cid = Some a"
    and r: "r = a\<lparr>asg_state := Sleeping, asg_holder_id := None\<rparr>" and d': "d' = put_assignment cid r d"
  show ?thesis
    unfolding d'
    by (rule sound_put_assignment [OF assms(2) get])
      (auto simp: sound_assignment_def validate_assignment_state_def good_history_def r)
qed

section \<open>Placements\<close>

lemma sound_put_new_placement:
  assumes sound: "sound_document ub expected d" and new: "bt_get (doc_placements d) aid = None"
    and p: "sound_placement d aid p" "plc_active_transfer_id p = None"
  shows "sound_document ub expected (put_placement aid p d)" (is "sound_document _ _ ?d")
proof -
  have "validate_document_header ?d ub expected = Inr ()"
    by (rule sound_header_cong [OF sound_header [OF sound]])
      (simp_all add: header_revision [OF sound_header [OF sound]])
  moreover have "sound_placement ?d a q \<and> placement_linked ?d a q"
    if "bt_get (doc_placements ?d) a = Some q" for a q
    using that sound p unfolding sound_document_def
    by (auto simp: sound_placement_def placement_linked_def split: if_splits)
  moreover have "transfer_bound ?d i t" if "transfer_bound d i t" for i t
    using that new unfolding transfer_bound_def by fastforce
  ultimately show ?thesis
    using sound unfolding sound_document_def by simp
qed

lemma register_commitE:
  assumes "register_placement ext d aid k key = Inr (Commit d' r)"
  obtains a where "validate_stable_id aid ''aggregate'' = Inr ()" "assignment ext d key = Inr a"
    "bt_get (doc_placements d) aid = None"
    "r = \<lparr>plc_aggregate_id = aid, plc_aggregate_kind = k, plc_cell_key = key,
       plc_cell_id = asg_cell_id a, plc_placement_generation = 1, plc_state = Resident,
       plc_active_transfer_id = None\<rparr>"
    "d' = put_placement aid r d"
  using assms
  by (auto simp: register_placement_def result_elims Let_def split: option.splits if_splits)

lemma register_sound:
  assumes "register_placement ext d aid k key = Inr (Commit d' r)"
    and sound: "sound_document ub expected d" and ids: "cells_identified ext expected"
  shows "sound_document ub expected d'"
proof (rule register_commitE [OF assms(1)])
  fix a
  assume v: "validate_stable_id aid ''aggregate'' = Inr ()" and a: "assignment ext d key = Inr a"
    and n: "bt_get (doc_placements d) aid = None"
    and r: "r = \<lparr>plc_aggregate_id = aid, plc_aggregate_kind = k, plc_cell_key = key,
       plc_cell_id = asg_cell_id a, plc_placement_generation = 1, plc_state = Resident,
       plc_active_transfer_id = None\<rparr>"
    and d': "d' = put_placement aid r d"
  show ?thesis
    unfolding d'
    by (rule sound_put_new_placement [OF sound n])
      (use v sound_assignment_lookup [OF sound ids a] in
        \<open>auto simp: sound_placement_def state_binding_ok_def r\<close>)
qed

section \<open>Preparing a transfer\<close>

lemma prepare_commitE:
  assumes "prepare_transfer ext d aid g tid key h = Inr (Commit d' r)"
  obtains p src dst gen where "validate_stable_id aid ''aggregate'' = Inr ()"
    "validate_stable_id tid ''transfer'' = Inr ()" "validate_hash h ''transfer package'' = Inr ()"
    "bt_get (doc_transfers d) tid = None" "bt_get (doc_placements d) aid = Some p"
    "assignment ext d (plc_cell_key p) = Inr src" "assignment ext d key = Inr dst"
    "asg_state src = Assigned" "asg_state dst = Assigned" "plc_state p = Resident"
    "plc_active_transfer_id p = None" "plc_placement_generation p = g"
    "plc_cell_id p \<noteq> asg_cell_id dst" "checked_add g 1 = Some gen"
    "r = \<lparr>trf_transfer_id = tid, trf_aggregate_id = aid, trf_aggregate_kind = plc_aggregate_kind p,
          trf_source_cell_key = plc_cell_key p, trf_source_cell_id = plc_cell_id p,
          trf_destination_cell_key = key, trf_destination_cell_id = asg_cell_id dst,
          trf_source_assignment_generation = asg_assignment_generation src,
          trf_destination_assignment_generation = asg_assignment_generation dst,
          trf_prior_placement_generation = g, trf_resulting_placement_generation = gen,
          trf_package_hash = h, trf_quarantine_receipt_hash = None,
          trf_source_prepare_proof = None, trf_destination_quarantine_proof = None,
          trf_import_proof = None, trf_finalization_proof = None,
          trf_source_abort_proof = None, trf_destination_abort_proof = None, trf_phase = Prepared\<rparr>"
    "d' = put_transfer tid r (put_placement aid
       (p\<lparr>plc_state := Preparing, plc_active_transfer_id := Some tid\<rparr>) d)"
  using assms
  by (auto simp: prepare_transfer_def placement_def result_elims Let_def split: option.splits if_splits)

lemma sound_placement_of:
  "sound_document ub expected d \<Longrightarrow> bt_get (doc_placements d) aid = Some p \<Longrightarrow> sound_placement d aid p"
  by (simp add: sound_document_def)

lemma prepare_sound:
  assumes "prepare_transfer ext d aid g tid key h = Inr (Commit d' r)"
    and sound: "sound_document ub expected d" and ids: "cells_identified ext expected"
  shows "sound_document ub expected d'"
proof (rule prepare_commitE [OF assms(1)])
  fix p src dst gen
  assume v: "validate_stable_id aid ''aggregate'' = Inr ()"
    "validate_stable_id tid ''transfer'' = Inr ()" "validate_hash h ''transfer package'' = Inr ()"
    and n: "bt_get (doc_transfers d) tid = None" and p: "bt_get (doc_placements d) aid = Some p"
    and a: "assignment ext d (plc_cell_key p) = Inr src" "assignment ext d key = Inr dst"
    and st: "asg_state src = Assigned" "asg_state dst = Assigned"
    and pl: "plc_active_transfer_id p = None" "plc_placement_generation p = g"
      "plc_cell_id p \<noteq> asg_cell_id dst" and gen: "checked_add g 1 = Some gen"
    and r: "r = \<lparr>trf_transfer_id = tid, trf_aggregate_id = aid, trf_aggregate_kind = plc_aggregate_kind p,
          trf_source_cell_key = plc_cell_key p, trf_source_cell_id = plc_cell_id p,
          trf_destination_cell_key = key, trf_destination_cell_id = asg_cell_id dst,
          trf_source_assignment_generation = asg_assignment_generation src,
          trf_destination_assignment_generation = asg_assignment_generation dst,
          trf_prior_placement_generation = g, trf_resulting_placement_generation = gen,
          trf_package_hash = h, trf_quarantine_receipt_hash = None,
          trf_source_prepare_proof = None, trf_destination_quarantine_proof = None,
          trf_import_proof = None, trf_finalization_proof = None,
          trf_source_abort_proof = None, trf_destination_abort_proof = None, trf_phase = Prepared\<rparr>"
    and d': "d' = put_transfer tid r (put_placement aid
       (p\<lparr>plc_state := Preparing, plc_active_transfer_id := Some tid\<rparr>) d)"
  let ?p = "p\<lparr>plc_state := Preparing, plc_active_transfer_id := Some tid\<rparr>"
  have sp: "sound_placement d aid p" by (rule sound_placement_of [OF sound p])
  then obtain s where s: "bt_get (doc_assignments d) (plc_cell_id p) = Some s" "asg_cell_key s = plc_cell_key p"
    and g0: "g \<noteq> 0" using pl(2) unfolding sound_placement_def by blast
  note src = sound_assignment_lookup [OF sound ids a(1)] and dst = sound_assignment_lookup [OF sound ids a(2)]
  have m: "transfer_material tid r"
    using v pl gen g0 src(3) dst(3) st by (simp add: transfer_material_def r)
  show ?thesis
    unfolding d'
    by (rule sound_put_placement_transfer [OF sound p, where src = s and dst = dst])
      (use n m s dst pl sp in \<open>auto simp: r sound_placement_def state_binding_ok_def placement_advances_def
        sound_evidence_def phase_evidence_invalid_def validate_transfer_proofs_def placement_matches_def
        active_phase_def\<close>)
qed

section \<open>Advancing a transfer\<close>

lemma resolve_generation_bound:
  "resolve_proof_generation t c f a = Inr g \<Longrightarrow> bt_get (asg_fencing_history a) g = Some f"
proof -
  assume r: "resolve_proof_generation t c f a = Inr g"
  let ?gs = "map fst (filter (\<lambda>(generation, fence). fence = f) (bt_entries (asg_fencing_history a)))"
  from r have "length ?gs = 1" and "g = ?gs ! 0"
    by (auto simp: resolve_proof_generation_def Let_def split: if_splits)
  then have "g \<in> set ?gs" by (metis nth_mem zero_less_one)
  then show ?thesis by (auto simp: bt_in_entries_iff)
qed

lemma source_prepared_commitE:
  assumes "record_source_prepared ext d tid sub = Inr (Commit d' r)"
  obtains t src gen where "bt_get (doc_transfers d) tid = Some t"
    "assignment ext d (trf_source_cell_key t) = Inr src"
    "bt_get (asg_fencing_history src) gen = Some (prp_source_fencing_token sub)"
    "validate_prepare_proof t (sub\<lparr>prp_source_assignment_generation := gen\<rparr>) = Inr ()"
    "trf_source_prepare_proof t = None" "trf_phase t = Prepared"
    "r = t\<lparr>trf_source_prepare_proof := Some (sub\<lparr>prp_source_assignment_generation := gen\<rparr>)\<rparr>"
    "d' = put_transfer tid r d"
  using assms
  by (auto simp: record_source_prepared_def transfer_def result_elims Let_def
      validate_historical_proof_authority_def split: option.splits if_splits)

text \<open>The cell that a key names is the one the transfer was bound to.\<close>

lemma sound_transfer_cells:
  assumes sound: "sound_document ub expected d" and ids: "cells_identified ext expected"
    and get: "bt_get (doc_transfers d) tid = Some t"
  shows "assignment ext d (trf_source_cell_key t) = Inr a \<Longrightarrow>
      bt_get (doc_assignments d) (trf_source_cell_id t) = Some a"
    and "assignment ext d (trf_destination_cell_key t) = Inr a \<Longrightarrow>
      bt_get (doc_assignments d) (trf_destination_cell_id t) = Some a"
proof -
  have same: "bt_get (doc_assignments d) cid = Some a"
    if look: "assignment ext d key = Inr a" and b: "bt_get (doc_assignments d) cid = Some b"
      and key: "asg_cell_key b = key" for key cid a b
  proof -
    obtain e where e: "bt_get expected cid = Some e" "sound_assignment (asg_cell_key e) cid b"
      using sound_assignments_expected [OF sound b] by blast
    then have "key = asg_cell_key e" using key by (simp add: sound_assignment_def)
    with e(1) ids have "cell_id ext key = Inr cid" unfolding cells_identified_def by blast
    with look show ?thesis
      by (auto simp: assignment_def result_elims directory_cell_id_ok)
  qed
  show "assignment ext d (trf_source_cell_key t) = Inr a \<Longrightarrow>
      bt_get (doc_assignments d) (trf_source_cell_id t) = Some a"
    and "assignment ext d (trf_destination_cell_key t) = Inr a \<Longrightarrow>
      bt_get (doc_assignments d) (trf_destination_cell_id t) = Some a"
    by (rule sound_transferE [OF sound get], rule same, assumption+)+
qed

text \<open>
  The evidence of a transfer, one predicate for each kind of proof. They depend on the
  transfer only through its material (and the quarantine receipt, for the destination's
  proofs), so a transfer that advances keeps the proofs it has.
\<close>

definition prepare_evidence ::
    "cell_transfer_record \<Rightarrow> cell_assignment_record \<Rightarrow> cell_transfer_prepare_proof \<Rightarrow> bool" where
  "prepare_evidence t src p \<longleftrightarrow> validate_prepare_proof t p = Inr () \<and>
     bt_get (asg_fencing_history src) (prp_source_assignment_generation p) = Some (prp_source_fencing_token p)"

definition quarantine_evidence ::
    "cell_transfer_record \<Rightarrow> cell_assignment_record \<Rightarrow> cell_transfer_quarantine_proof \<Rightarrow> bool" where
  "quarantine_evidence t dst p \<longleftrightarrow> validate_quarantine_proof t p = Inr () \<and>
     bt_get (asg_fencing_history dst) (qrt_destination_assignment_generation p) = Some (qrt_destination_fencing_token p) \<and>
     trf_quarantine_receipt_hash t = Some (qrt_quarantine_receipt_hash p)"

definition import_evidence ::
    "cell_transfer_record \<Rightarrow> cell_assignment_record \<Rightarrow> cell_transfer_import_proof \<Rightarrow> bool" where
  "import_evidence t dst p \<longleftrightarrow> validate_import_proof t p = Inr () \<and>
     bt_get (asg_fencing_history dst) (imp_destination_assignment_generation p) = Some (imp_destination_fencing_token p)"

definition finalization_evidence ::
    "cell_transfer_record \<Rightarrow> cell_assignment_record \<Rightarrow> cell_transfer_finalization_proof \<Rightarrow> bool" where
  "finalization_evidence t src p \<longleftrightarrow> validate_finalization_proof t p = Inr () \<and>
     bt_get (asg_fencing_history src) (fin_source_assignment_generation p) = Some (fin_source_fencing_token p)"

definition abort_evidence ::
    "cell_transfer_record \<Rightarrow> cell_assignment_record \<Rightarrow> transfer_abort_role \<Rightarrow> cell_transfer_abort_proof \<Rightarrow> bool" where
  "abort_evidence t cell role p \<longleftrightarrow> validate_abort_proof t p = Inr () \<and>
     bt_get (asg_fencing_history cell) (abp_assignment_generation p) = Some (abp_fencing_token p) \<and>
     abp_role p = role"

lemma validate_transfer_proofs_ok:
  "validate_transfer_proofs tid t src dst = Inr () \<longleftrightarrow>
     (\<forall>h. trf_quarantine_receipt_hash t = Some h \<longrightarrow> validate_hash h ''quarantine receipt'' = Inr ()) \<and>
     (\<forall>p. trf_source_prepare_proof t = Some p \<longrightarrow> prepare_evidence t src p) \<and>
     (\<forall>p. trf_destination_quarantine_proof t = Some p \<longrightarrow> quarantine_evidence t dst p) \<and>
     (\<forall>p. trf_import_proof t = Some p \<longrightarrow> import_evidence t dst p) \<and>
     (\<forall>p. trf_finalization_proof t = Some p \<longrightarrow> finalization_evidence t src p) \<and>
     (\<forall>p. trf_source_abort_proof t = Some p \<longrightarrow> abort_evidence t src Source p) \<and>
     (\<forall>p. trf_destination_abort_proof t = Some p \<longrightarrow> abort_evidence t dst Destination p)"
  unfolding validate_transfer_proofs_def validate_historical_proof_authority_def result_elims
    prepare_evidence_def quarantine_evidence_def import_evidence_def finalization_evidence_def
    abort_evidence_def
  by auto

lemma evidence_cong:
  assumes "same_material t t'"
  shows "prepare_evidence t' = prepare_evidence t" "finalization_evidence t' = finalization_evidence t"
    "abort_evidence t' = abort_evidence t"
    "trf_quarantine_receipt_hash t' = trf_quarantine_receipt_hash t \<Longrightarrow> import_evidence t' = import_evidence t"
    "trf_quarantine_receipt_hash t' = trf_quarantine_receipt_hash t \<Longrightarrow> quarantine_evidence t' = quarantine_evidence t"
  using assms
  by (auto simp: fun_eq_iff same_material_def prepare_evidence_def quarantine_evidence_def
      import_evidence_def finalization_evidence_def abort_evidence_def validate_prepare_proof_def
      validate_quarantine_proof_def validate_import_proof_def validate_finalization_proof_def
      validate_abort_proof_def Let_def split: transfer_abort_role.splits option.splits)

lemmas evidence_checks = sound_evidence_def phase_evidence_invalid_def premature_abort_def

lemma source_prepared_sound:
  assumes "record_source_prepared ext d tid sub = Inr (Commit d' r)"
    and sound: "sound_document ub expected d" and ids: "cells_identified ext expected"
  shows "sound_document ub expected d'"
proof (rule source_prepared_commitE [OF assms(1)])
  fix t src gen
  let ?p = "sub\<lparr>prp_source_assignment_generation := gen\<rparr>"
  assume get: "bt_get (doc_transfers d) tid = Some t"
    and src: "assignment ext d (trf_source_cell_key t) = Inr src"
    and hist: "bt_get (asg_fencing_history src) gen = Some (prp_source_fencing_token sub)"
    and v: "validate_prepare_proof t ?p = Inr ()"
    and t: "trf_source_prepare_proof t = None" "trf_phase t = Prepared"
    and r: "r = t\<lparr>trf_source_prepare_proof := Some ?p\<rparr>" and d': "d' = put_transfer tid r d"
  have ev: "sound_evidence t" by (rule sound_transferE [OF sound get])
  have same: "same_material t r" by (simp add: same_material_def r)
  show ?thesis
    unfolding d'
  proof (rule sound_update_transfer_only [OF sound get same])
    show "sound_evidence r" using ev t by (simp add: evidence_checks r)
    fix s dst
    assume "bt_get (doc_assignments d) (trf_source_cell_id t) = Some s"
      and old: "validate_transfer_proofs tid t s dst = Inr ()"
    then have "s = src" using sound_transfer_cells(1) [OF sound ids get src] by simp
    then have "prepare_evidence t s ?p" using v hist by (simp add: prepare_evidence_def)
    with old show "validate_transfer_proofs tid r s dst = Inr ()"
      by (simp add: validate_transfer_proofs_ok evidence_cong [OF same, unfolded r] r)
  qed (use t in \<open>auto simp: placement_matches_def active_phase_def r\<close>)
qed

lemma quarantine_commitE:
  assumes "record_quarantine ext d tid ph rh sub = Inr (Commit d' r)"
  obtains t dst gen where "bt_get (doc_transfers d) tid = Some t"
    "assignment ext d (trf_destination_cell_key t) = Inr dst" "validate_hash rh ''quarantine receipt'' = Inr ()"
    "bt_get (asg_fencing_history dst) gen = Some (qrt_destination_fencing_token sub)"
    "validate_quarantine_proof t (sub\<lparr>qrt_destination_assignment_generation := gen\<rparr>) = Inr ()"
    "qrt_quarantine_receipt_hash sub = rh"
    "trf_phase t = Prepared" "trf_quarantine_receipt_hash t = None" "trf_source_prepare_proof t \<noteq> None"
    "r = t\<lparr>trf_phase := Quarantined, trf_quarantine_receipt_hash := Some rh,
       trf_destination_quarantine_proof := Some (sub\<lparr>qrt_destination_assignment_generation := gen\<rparr>)\<rparr>"
    "d' = put_transfer tid r d"
  using assms
  by (auto simp: record_quarantine_def transfer_def result_elims Let_def
      validate_historical_proof_authority_def split: if_splits)

lemma quarantine_sound:
  assumes "record_quarantine ext d tid ph rh sub = Inr (Commit d' r)"
    and sound: "sound_document ub expected d" and ids: "cells_identified ext expected"
  shows "sound_document ub expected d'"
proof (rule quarantine_commitE [OF assms(1)])
  fix t dst gen
  let ?p = "sub\<lparr>qrt_destination_assignment_generation := gen\<rparr>"
  assume get: "bt_get (doc_transfers d) tid = Some t"
    and dst: "assignment ext d (trf_destination_cell_key t) = Inr dst"
    and rh: "validate_hash rh ''quarantine receipt'' = Inr ()"
    and hist: "bt_get (asg_fencing_history dst) gen = Some (qrt_destination_fencing_token sub)"
    and v: "validate_quarantine_proof t ?p = Inr ()" "qrt_quarantine_receipt_hash sub = rh"
    and t: "trf_phase t = Prepared" "trf_quarantine_receipt_hash t = None" "trf_source_prepare_proof t \<noteq> None"
    and r: "r = t\<lparr>trf_phase := Quarantined, trf_quarantine_receipt_hash := Some rh,
       trf_destination_quarantine_proof := Some ?p\<rparr>"
    and d': "d' = put_transfer tid r d"
  have ev: "sound_evidence t" by (rule sound_transferE [OF sound get])
  then have none: "trf_destination_quarantine_proof t = None" "trf_import_proof t = None"
    "trf_finalization_proof t = None" "trf_source_abort_proof t = None" "trf_destination_abort_proof t = None"
    using t by (auto simp: evidence_checks)
  have same: "same_material t r" by (simp add: same_material_def r)
  show ?thesis
    unfolding d'
  proof (rule sound_update_transfer_only [OF sound get same])
    show "sound_evidence r" using none t by (simp add: evidence_checks r)
    fix src s
    assume "bt_get (doc_assignments d) (trf_destination_cell_id t) = Some s"
      and old: "validate_transfer_proofs tid t src s = Inr ()"
    then have "s = dst" using sound_transfer_cells(2) [OF sound ids get dst] by simp
    then have "quarantine_evidence r s ?p"
      using v hist by (simp add: quarantine_evidence_def validate_quarantine_proof_def result_elims r)
    with old none rh show "validate_transfer_proofs tid r src s = Inr ()"
      by (simp add: validate_transfer_proofs_ok evidence_cong(1-3) [OF same, unfolded r] r)
  qed (use t in \<open>auto simp: placement_matches_def active_phase_def r\<close>)
qed

lemma commit_commitE:
  assumes "commit_transfer ext d tid g = Inr (Commit d' r)"
  obtains t p where "bt_get (doc_transfers d) tid = Some t" "trf_phase t = Quarantined"
    "trf_prior_placement_generation t = g" "bt_get (doc_placements d) (trf_aggregate_id t) = Some p"
    "plc_state p = Preparing" "plc_cell_id p = trf_source_cell_id t"
    "plc_placement_generation p = trf_prior_placement_generation t"
    "plc_active_transfer_id p = Some tid"
    "r = t\<lparr>trf_phase := Committed\<rparr>"
    "d' = put_transfer tid r (put_placement (trf_aggregate_id t)
       (p\<lparr>plc_cell_key := trf_destination_cell_key t, plc_cell_id := trf_destination_cell_id t,
          plc_placement_generation := trf_resulting_placement_generation t,
          plc_state := InTransit\<rparr>) d)"
  using assms
  by (auto simp: commit_transfer_def transfer_def placement_def result_elims Let_def split: if_splits)

lemma commit_sound:
  assumes "commit_transfer ext d tid g = Inr (Commit d' r)" and sound: "sound_document ub expected d"
  shows "sound_document ub expected d'"
proof (rule commit_commitE [OF assms(1)])
  fix t :: cell_transfer_record and p :: aggregate_placement_record
  let ?p = "p\<lparr>plc_cell_key := trf_destination_cell_key t, plc_cell_id := trf_destination_cell_id t,
          plc_placement_generation := trf_resulting_placement_generation t, plc_state := InTransit\<rparr>"
  assume get: "bt_get (doc_transfers d) tid = Some t" and t: "trf_phase t = Quarantined"
    and p: "bt_get (doc_placements d) (trf_aggregate_id t) = Some p"
    and pl: "plc_state p = Preparing" "plc_placement_generation p = trf_prior_placement_generation t"
      "plc_active_transfer_id p = Some tid"
    and r: "r = t\<lparr>trf_phase := Committed\<rparr>"
    and d': "d' = put_transfer tid r (put_placement (trf_aggregate_id t) ?p d)"
  have same: "same_material t r" by (simp add: same_material_def r)
  obtain dst where dst: "bt_get (doc_assignments d) (trf_destination_cell_id t) = Some dst"
      "asg_cell_key dst = trf_destination_cell_key t" and mat: "transfer_material tid t"
    and ev: "sound_evidence t"
    by (rule sound_transferE [OF sound get])
  have gen: "trf_prior_placement_generation t < trf_resulting_placement_generation t"
      "trf_resulting_placement_generation t \<noteq> 0"
    using mat checked_succ_gt by (auto simp: transfer_material_def)
  show ?thesis
    unfolding d'
  proof (rule sound_update_transfer [OF sound get p same])
    show "sound_evidence r" using ev t by (simp add: evidence_checks r)
    show "sound_placement d (trf_aggregate_id t) ?p"
      using sound_placement_of [OF sound p] dst gen pl by (simp add: sound_placement_def state_binding_ok_def)
  qed (use t pl gen in \<open>auto simp: placement_matches_def placement_advances_def active_phase_def
      validate_transfer_proofs_ok evidence_cong [OF same, unfolded r] r\<close>)
qed

lemma imported_commitE:
  assumes "record_imported ext d tid sub = Inr (Commit d' r)"
  obtains t p dst gen where "bt_get (doc_transfers d) tid = Some t" "trf_phase t = Committed"
    "assignment ext d (trf_destination_cell_key t) = Inr dst"
    "bt_get (asg_fencing_history dst) gen = Some (imp_destination_fencing_token sub)"
    "validate_import_proof t (sub\<lparr>imp_destination_assignment_generation := gen\<rparr>) = Inr ()"
    "bt_get (doc_placements d) (trf_aggregate_id t) = Some p" "plc_state p = InTransit"
    "plc_cell_id p = trf_destination_cell_id t"
    "plc_placement_generation p = trf_resulting_placement_generation t"
    "plc_active_transfer_id p = Some tid"
    "r = t\<lparr>trf_phase := Imported,
       trf_import_proof := Some (sub\<lparr>imp_destination_assignment_generation := gen\<rparr>)\<rparr>"
    "d' = put_transfer tid r (put_placement (trf_aggregate_id t)
       (p\<lparr>plc_state := Resident, plc_active_transfer_id := None\<rparr>) d)"
  using assms
  by (auto simp: record_imported_def transfer_def placement_def result_elims Let_def
      validate_historical_proof_authority_def split: if_splits)

lemma imported_sound:
  assumes "record_imported ext d tid sub = Inr (Commit d' r)"
    and sound: "sound_document ub expected d" and ids: "cells_identified ext expected"
  shows "sound_document ub expected d'"
proof (rule imported_commitE [OF assms(1)])
  fix t :: cell_transfer_record and p :: aggregate_placement_record and dst gen
  let ?p = "p\<lparr>plc_state := Resident, plc_active_transfer_id := None\<rparr>"
  let ?i = "sub\<lparr>imp_destination_assignment_generation := gen\<rparr>"
  assume get: "bt_get (doc_transfers d) tid = Some t" and t: "trf_phase t = Committed"
    and dst: "assignment ext d (trf_destination_cell_key t) = Inr dst"
    and hist: "bt_get (asg_fencing_history dst) gen = Some (imp_destination_fencing_token sub)"
    and v: "validate_import_proof t ?i = Inr ()"
    and p: "bt_get (doc_placements d) (trf_aggregate_id t) = Some p"
    and pl: "plc_cell_id p = trf_destination_cell_id t"
      "plc_placement_generation p = trf_resulting_placement_generation t"
      "plc_active_transfer_id p = Some tid"
    and r: "r = t\<lparr>trf_phase := Imported, trf_import_proof := Some ?i\<rparr>"
    and d': "d' = put_transfer tid r (put_placement (trf_aggregate_id t) ?p d)"
  have same: "same_material t r" by (simp add: same_material_def r)
  have ev: "sound_evidence t" by (rule sound_transferE [OF sound get])
  show ?thesis
    unfolding d'
  proof (rule sound_update_transfer [OF sound get p same])
    show "sound_evidence r" using ev t by (simp add: evidence_checks r)
    show "sound_placement d (trf_aggregate_id t) ?p"
      using sound_placement_of [OF sound p] by (simp add: sound_placement_def state_binding_ok_def)
    fix src s
    assume "bt_get (doc_assignments d) (trf_destination_cell_id t) = Some s"
      and old: "validate_transfer_proofs tid t src s = Inr ()"
    then have "s = dst" using sound_transfer_cells(2) [OF sound ids get dst] by simp
    then have "import_evidence t s ?i" using v hist by (simp add: import_evidence_def)
    with old show "validate_transfer_proofs tid r src s = Inr ()"
      by (simp add: validate_transfer_proofs_ok evidence_cong [OF same, unfolded r] r)
  qed (use pl in \<open>auto simp: placement_matches_def placement_advances_def r\<close>)
qed

lemma finalize_commitE:
  assumes "finalize_transfer ext d tid sub = Inr (Commit d' r)"
  obtains t p src gen where "bt_get (doc_transfers d) tid = Some t" "trf_phase t = Imported"
    "assignment ext d (trf_source_cell_key t) = Inr src"
    "bt_get (asg_fencing_history src) gen = Some (fin_source_fencing_token sub)"
    "validate_finalization_proof t (sub\<lparr>fin_source_assignment_generation := gen\<rparr>) = Inr ()"
    "bt_get (doc_placements d) (trf_aggregate_id t) = Some p" "plc_state p = Resident"
    "plc_cell_id p = trf_destination_cell_id t"
    "plc_placement_generation p = trf_resulting_placement_generation t"
    "r = t\<lparr>trf_phase := Finalized,
       trf_finalization_proof := Some (sub\<lparr>fin_source_assignment_generation := gen\<rparr>)\<rparr>"
    "d' = put_transfer tid r d"
  using assms
  by (auto simp: finalize_transfer_def transfer_def placement_def result_elims Let_def
      validate_historical_proof_authority_def split: if_splits)

lemma finalize_sound:
  assumes "finalize_transfer ext d tid sub = Inr (Commit d' r)"
    and sound: "sound_document ub expected d" and ids: "cells_identified ext expected"
  shows "sound_document ub expected d'"
proof (rule finalize_commitE [OF assms(1)])
  fix t :: cell_transfer_record and p :: aggregate_placement_record and src gen
  let ?f = "sub\<lparr>fin_source_assignment_generation := gen\<rparr>"
  assume get: "bt_get (doc_transfers d) tid = Some t" and t: "trf_phase t = Imported"
    and src: "assignment ext d (trf_source_cell_key t) = Inr src"
    and hist: "bt_get (asg_fencing_history src) gen = Some (fin_source_fencing_token sub)"
    and v: "validate_finalization_proof t ?f = Inr ()"
    and p: "bt_get (doc_placements d) (trf_aggregate_id t) = Some p" "plc_state p = Resident"
    and r: "r = t\<lparr>trf_phase := Finalized, trf_finalization_proof := Some ?f\<rparr>"
    and d': "d' = put_transfer tid r d"
  have same: "same_material t r" by (simp add: same_material_def r)
  have ev: "sound_evidence t" by (rule sound_transferE [OF sound get])
  show ?thesis
    unfolding d'
  proof (rule sound_update_transfer_only [OF sound get same])
    show "sound_evidence r" using ev t by (simp add: evidence_checks r)
    fix s dst
    assume "bt_get (doc_assignments d) (trf_source_cell_id t) = Some s"
      and old: "validate_transfer_proofs tid t s dst = Inr ()"
    then have "s = src" using sound_transfer_cells(1) [OF sound ids get src] by simp
    then have "finalization_evidence t s ?f" using v hist by (simp add: finalization_evidence_def)
    with old show "validate_transfer_proofs tid r s dst = Inr ()"
      by (simp add: validate_transfer_proofs_ok evidence_cong [OF same, unfolded r] r)
  qed (use t p in \<open>auto simp: placement_matches_def state_binding_ok_def r\<close>)
qed

section \<open>Aborting a transfer\<close>

lemma request_abort_commitE:
  assumes "request_abort ext d tid = Inr (Commit d' r)"
  obtains t p where "bt_get (doc_transfers d) tid = Some t" "trf_phase t \<in> {Prepared, Quarantined}"
    "bt_get (doc_placements d) (trf_aggregate_id t) = Some p" "plc_state p = Preparing"
    "plc_cell_id p = trf_source_cell_id t"
    "plc_placement_generation p = trf_prior_placement_generation t"
    "plc_active_transfer_id p = Some tid"
    "r = t\<lparr>trf_phase := Aborting\<rparr>" "d' = put_transfer tid r d"
  using assms
  by (auto simp: request_abort_def transfer_def placement_def result_elims Let_def split: if_splits)

lemma request_abort_sound:
  assumes "request_abort ext d tid = Inr (Commit d' r)" and sound: "sound_document ub expected d"
  shows "sound_document ub expected d'"
proof (rule request_abort_commitE [OF assms(1)])
  fix t :: cell_transfer_record and p :: aggregate_placement_record
  assume get: "bt_get (doc_transfers d) tid = Some t" and t: "trf_phase t \<in> {Prepared, Quarantined}"
    and r: "r = t\<lparr>trf_phase := Aborting\<rparr>" and d': "d' = put_transfer tid r d"
  have same: "same_material t r" by (simp add: same_material_def r)
  have ev: "sound_evidence t" by (rule sound_transferE [OF sound get])
  show ?thesis
    unfolding d'
  proof (rule sound_update_transfer_only [OF sound get same])
    from t consider "trf_phase t = Prepared" | "trf_phase t = Quarantined" by blast
    then show "sound_evidence r"
    proof cases
      case 1
      then show ?thesis using ev unfolding r
        by (cases "trf_destination_quarantine_proof t"; cases "trf_source_prepare_proof t";
            cases "trf_quarantine_receipt_hash t") (simp_all add: evidence_checks)
    next
      case 2
      then show ?thesis using ev unfolding r by (simp add: evidence_checks)
    qed
  next
    fix src dst
    assume "validate_transfer_proofs tid t src dst = Inr ()"
    then show "validate_transfer_proofs tid r src dst = Inr ()"
      by (simp add: validate_transfer_proofs_ok evidence_cong [OF same, unfolded r] r)
  qed (use t in \<open>auto simp: placement_matches_def active_phase_def r\<close>)
qed

lemma abort_cleanup_commitE:
  assumes "record_abort_cleanup ext d tid sub = Inr (Commit d' r)"
  obtains t cell gen where "bt_get (doc_transfers d) tid = Some t" "trf_phase t = Aborting"
    "assignment ext d (abort_cell_key (abp_role sub) t) = Inr cell"
    "bt_get (asg_fencing_history cell) gen = Some (abp_fencing_token sub)"
    "validate_abort_proof t (sub\<lparr>abp_assignment_generation := gen\<rparr>) = Inr ()"
    "r = store_abort_proof (abp_role sub) (sub\<lparr>abp_assignment_generation := gen\<rparr>) t"
    "d' = put_transfer tid r d"
  using assms
  by (auto simp: record_abort_cleanup_def transfer_def result_elims Let_def
      validate_historical_proof_authority_def split: option.splits if_splits)

lemma store_abort_proof_fields:
  "trf_quarantine_receipt_hash (store_abort_proof role a t) = trf_quarantine_receipt_hash t"
  "trf_source_prepare_proof (store_abort_proof role a t) = trf_source_prepare_proof t"
  "trf_destination_quarantine_proof (store_abort_proof role a t) = trf_destination_quarantine_proof t"
  "trf_import_proof (store_abort_proof role a t) = trf_import_proof t"
  "trf_finalization_proof (store_abort_proof role a t) = trf_finalization_proof t"
  "trf_source_abort_proof (store_abort_proof role a t) =
     (if role = Source then Some a else trf_source_abort_proof t)"
  "trf_destination_abort_proof (store_abort_proof role a t) =
     (if role = Destination then Some a else trf_destination_abort_proof t)"
  "trf_phase (store_abort_proof role a t) = trf_phase t"
  by (cases role; simp)+

lemma store_abort_proof_material: "same_material t (store_abort_proof role a t)"
  by (cases role) (simp_all add: same_material_def)

lemma abort_cleanup_sound:
  assumes "record_abort_cleanup ext d tid sub = Inr (Commit d' r)"
    and sound: "sound_document ub expected d" and ids: "cells_identified ext expected"
  shows "sound_document ub expected d'"
proof (rule abort_cleanup_commitE [OF assms(1)])
  fix t :: cell_transfer_record and cell gen
  let ?a = "sub\<lparr>abp_assignment_generation := gen\<rparr>"
  assume get: "bt_get (doc_transfers d) tid = Some t" and t: "trf_phase t = Aborting"
    and cell: "assignment ext d (abort_cell_key (abp_role sub) t) = Inr cell"
    and hist: "bt_get (asg_fencing_history cell) gen = Some (abp_fencing_token sub)"
    and v: "validate_abort_proof t ?a = Inr ()"
    and r: "r = store_abort_proof (abp_role sub) ?a t" and d': "d' = put_transfer tid r d"
  have same: "same_material t r" unfolding r by (rule store_abort_proof_material)
  have ev: "sound_evidence t" by (rule sound_transferE [OF sound get])
  note fields = store_abort_proof_fields [of "abp_role sub" ?a t, folded r]
  show ?thesis
    unfolding d'
  proof (rule sound_update_transfer_only [OF sound get same])
    show "sound_evidence r"
      using ev t by (auto simp: evidence_checks fields)
    fix s dst
    assume s: "bt_get (doc_assignments d) (trf_source_cell_id t) = Some s"
        "bt_get (doc_assignments d) (trf_destination_cell_id t) = Some dst"
      and old: "validate_transfer_proofs tid t s dst = Inr ()"
    have "cell = (if abp_role sub = Source then s else dst)"
      using cell s sound_transfer_cells [OF sound ids get, of cell] by (cases "abp_role sub") auto
    then have "abort_evidence t (if abp_role sub = Source then s else dst) (abp_role sub) ?a"
      using v hist by (simp add: abort_evidence_def)
    with old show "validate_transfer_proofs tid r s dst = Inr ()"
      by (cases "abp_role sub") (simp_all add: validate_transfer_proofs_ok evidence_cong [OF same] fields)
  qed (use t same in \<open>auto simp: placement_matches_def active_phase_def same_material_def fields\<close>)
qed

lemma finalize_abort_commitE:
  assumes "finalize_abort ext d tid = Inr (Commit d' r)"
  obtains t p where "bt_get (doc_transfers d) tid = Some t" "trf_phase t = Aborting"
    "trf_source_abort_proof t \<noteq> None" "trf_destination_abort_proof t \<noteq> None"
    "bt_get (doc_placements d) (trf_aggregate_id t) = Some p" "plc_state p = Preparing"
    "plc_cell_id p = trf_source_cell_id t"
    "plc_placement_generation p = trf_prior_placement_generation t"
    "plc_active_transfer_id p = Some tid"
    "r = t\<lparr>trf_phase := Aborted\<rparr>"
    "d' = put_transfer tid r (put_placement (trf_aggregate_id t)
       (p\<lparr>plc_state := Resident, plc_active_transfer_id := None\<rparr>) d)"
  using assms
  by (auto simp: finalize_abort_def transfer_def placement_def result_elims Let_def split: if_splits)

lemma finalize_abort_sound:
  assumes "finalize_abort ext d tid = Inr (Commit d' r)" and sound: "sound_document ub expected d"
  shows "sound_document ub expected d'"
proof (rule finalize_abort_commitE [OF assms(1)])
  fix t :: cell_transfer_record and p :: aggregate_placement_record
  let ?p = "p\<lparr>plc_state := Resident, plc_active_transfer_id := None\<rparr>"
  assume get: "bt_get (doc_transfers d) tid = Some t" and t: "trf_phase t = Aborting"
    "trf_source_abort_proof t \<noteq> None" "trf_destination_abort_proof t \<noteq> None"
    and p: "bt_get (doc_placements d) (trf_aggregate_id t) = Some p"
    and pl: "plc_cell_id p = trf_source_cell_id t"
      "plc_placement_generation p = trf_prior_placement_generation t"
      "plc_active_transfer_id p = Some tid"
    and r: "r = t\<lparr>trf_phase := Aborted\<rparr>"
    and d': "d' = put_transfer tid r (put_placement (trf_aggregate_id t) ?p d)"
  have same: "same_material t r" by (simp add: same_material_def r)
  have ev: "sound_evidence t" by (rule sound_transferE [OF sound get])
  show ?thesis
    unfolding d'
  proof (rule sound_update_transfer [OF sound get p same])
    show "sound_evidence r" using ev t by (auto simp: evidence_checks r)
    show "sound_placement d (trf_aggregate_id t) ?p"
      using sound_placement_of [OF sound p] by (simp add: sound_placement_def state_binding_ok_def)
  qed (use pl in \<open>auto simp: placement_matches_def placement_advances_def validate_transfer_proofs_ok
      evidence_cong [OF same, unfolded r] r\<close>)
qed

end
