(* ===== verification/Durable.thy ===== *)
theory Durable
  imports Prelude
begin

text \<open>
  The contract of a store that keeps a document in memory and a copy of it in a file: which
  documents a command may leave in either of them, and what the outcome of a write changes.
  The lemmas are proved here once, for any run of commands; the cell directory provides the
  interface in \<open>DirectoryHost\<close>.
\<close>

locale durable_store =
  fixes env_ok :: "'env \<Rightarrow> bool"
    and good :: "'env \<Rightarrow> 'd \<Rightarrow> bool"
    and memory :: "'s \<Rightarrow> 'd"
    and disk :: "'s \<Rightarrow> 'd option"
    and committed :: "'env \<Rightarrow> 'd \<Rightarrow> 'c \<Rightarrow> 'd option"
    and step :: "'env \<Rightarrow> 'w \<Rightarrow> 's \<Rightarrow> 'c \<Rightarrow> 's \<times> ('e + 'a)"
    and clean :: 'w
  assumes committed_good: "env_ok env \<Longrightarrow> good env d \<Longrightarrow> committed env d c = Some d' \<Longrightarrow> good env d'"
    and step_answer: "step env w s c = (s', Inr a) \<Longrightarrow>
      s' = s \<or> (\<exists>d. committed env (memory s) c = Some d \<and> memory s' = d \<and> disk s' = Some d)"
    and step_error: "step env w s c = (s', Inl e) \<Longrightarrow>
      memory s' = memory s \<and>
      (disk s' = disk s \<or> (\<exists>d. committed env (memory s) c = Some d \<and> disk s' = Some d))"
    and clean_commits: "committed env (memory s) c = Some d \<Longrightarrow>
      \<exists>s' a. step env clean s c = (s', Inr a) \<and> memory s' = d \<and> disk s' = Some d"
begin

definition good_state :: "'env \<Rightarrow> 's \<Rightarrow> bool" where
  "good_state env s \<longleftrightarrow> good env (memory s) \<and> (\<forall>d. disk s = Some d \<longrightarrow> good env d)"

definition run :: "'env \<Rightarrow> ('w \<times> 'c) list \<Rightarrow> 's \<Rightarrow> 's" where
  "run env = fold (\<lambda>(w, c) s. fst (step env w s c))"

lemma step_good:
  assumes "env_ok env" and good: "good_state env s" and step: "step env w s c = (s', r)"
  shows "good_state env s'"
proof (cases r)
  case (Inl e)
  with step_error step good committed_good [OF assms(1)] show ?thesis
    unfolding good_state_def by (metis option.inject)
next
  case (Inr a)
  with step_answer step good committed_good [OF assms(1)] show ?thesis
    unfolding good_state_def by (metis option.inject)
qed

lemma run_good:
  assumes "env_ok env" and "good_state env s"
  shows "good_state env (run env cs s)"
  using assms(2)
proof (induction cs arbitrary: s)
  case (Cons x cs)
  obtain w c where x: "x = (w, c)" by (cases x)
  obtain s' r where s': "step env w s c = (s', r)" by (cases "step env w s c")
  from Cons.IH [OF step_good [OF assms(1) Cons.prems s']] show ?case
    by (simp add: run_def x s')
qed (simp add: run_def)

text \<open>An answer never leaves the file behind the memory.\<close>

lemma answer_durable:
  "step env w s c = (s', Inr a) \<Longrightarrow> disk s = Some (memory s) \<Longrightarrow> disk s' = Some (memory s')"
  by (drule step_answer) auto

text \<open>A refused or failed command leaves the memory alone.\<close>

lemma error_keeps_memory: "step env w s c = (s', Inl e) \<Longrightarrow> memory s' = memory s"
  by (drule step_error) auto

text \<open>Once the disk system works again, the command that failed commits the same document.\<close>

lemma retry_commits:
  assumes "step env w s c = (s', Inl e)" and "committed env (memory s) c = Some d"
  shows "\<exists>s'' a. step env clean s' c = (s'', Inr a) \<and> memory s'' = d \<and> disk s'' = Some d"
  using assms clean_commits error_keeps_memory by metis

text \<open>The file is never anything but the document in memory or one that a command asked for.\<close>

lemma file_one_step_ahead:
  assumes "step env w s c = (s', r)" and "disk s = Some (memory s)"
  shows "disk s' = Some (memory s') \<or> disk s' = committed env (memory s') c"
proof (cases r)
  case (Inl e)
  from step_error [OF assms(1) [unfolded Inl]] assms(2) show ?thesis by auto
next
  case (Inr a)
  from answer_durable [OF assms(1) [unfolded Inr] assms(2)] show ?thesis by simp
qed

end

end
