(* ===== verification/DirectoryHost.thy ===== *)
theory DirectoryHost
  imports DirectoryOperations Durable
begin

text \<open>
  The directory as it runs: a host opens the directory of a universe, executes commands on it
  with any outcome of the file system, crashes, and opens it again.
\<close>

section \<open>The directory is a durable store\<close>

definition committed_document ::
    "externals \<Rightarrow> cell_directory_document \<Rightarrow> directory_command \<Rightarrow> cell_directory_document option" where
  "committed_document ext d c =
     (case stage ext d c of
        Inr (Commit d' r) \<Rightarrow>
          (case checked_add (doc_directory_revision d) 1 of
             None \<Rightarrow> None
           | Some revision \<Rightarrow> Some (d'\<lparr>doc_directory_revision := revision\<rparr>))
      | _ \<Rightarrow> None)"

lemma map_staged_Commit [result_elims]:
  "map_staged f r = Inr (Commit d x) \<longleftrightarrow> (\<exists>y. r = Inr (Commit d y) \<and> x = f y)"
  by (auto simp: map_staged_def split: sum.splits staged.splits)

lemma map_staged_Unchanged [result_elims]:
  "map_staged f r = Inr (Unchanged x) \<longleftrightarrow> (\<exists>y. r = Inr (Unchanged y) \<and> x = f y)"
  by (auto simp: map_staged_def split: sum.splits staged.splits)

lemmas operations_sound = claim_sound release_sound recover_sound register_sound prepare_sound
  source_prepared_sound quarantine_sound commit_sound imported_sound finalize_sound
  request_abort_sound abort_cleanup_sound finalize_abort_sound

lemma stage_sound:
  assumes "stage ext d c = Inr (Commit d' r)" and "sound_document ub expected d"
    and "cells_identified ext expected"
  shows "sound_document ub expected d'"
  using assms by (cases c) (auto simp: result_elims dest: operations_sound)

lemma committed_document_iff:
  "committed_document ext d c = Some d' \<longleftrightarrow>
     (\<exists>d0 r revision. stage ext d c = Inr (Commit d0 r) \<and>
        checked_add (doc_directory_revision d) 1 = Some revision \<and>
        d' = d0\<lparr>doc_directory_revision := revision\<rparr>)"
  by (auto simp: committed_document_def split: sum.splits staged.splits option.splits)

lemma execute_Inr:
  assumes "execute ext w dir c = (dir', Inr a)"
  shows "(dir' = dir \<and> stage ext (dir_document dir) c = Inr (Unchanged a)) \<or>
    (\<exists>d0 revision. w = Written \<and> stage ext (dir_document dir) c = Inr (Commit d0 a) \<and>
       checked_add (doc_directory_revision (dir_document dir)) 1 = Some revision \<and>
       dir' = \<lparr>dir_document = d0\<lparr>doc_directory_revision := revision\<rparr>,
               dir_file = Some (d0\<lparr>doc_directory_revision := revision\<rparr>)\<rparr>)"
  using assms
  by (cases w) (auto simp: execute_def run_operation_def commit_document_def Let_def
      split: sum.splits staged.splits option.splits prod.splits)

lemma execute_Inl:
  assumes "execute ext w dir c = (dir', Inl e)"
  shows "dir_document dir' = dir_document dir \<and>
    (dir_file dir' = dir_file dir \<or>
     (\<exists>d. committed_document ext (dir_document dir) c = Some d \<and> dir_file dir' = Some d))"
  using assms
  by (cases w) (auto simp: execute_def run_operation_def commit_document_def committed_document_def Let_def
      split: sum.splits staged.splits option.splits prod.splits)

lemma execute_committed:
  assumes "committed_document ext (dir_document dir) c = Some d"
  shows "\<exists>a. execute ext Written dir c = (\<lparr>dir_document = d, dir_file = Some d\<rparr>, Inr a)"
  using assms
  by (auto simp: execute_def run_operation_def commit_document_def committed_document_iff Let_def)

record directory_env =
  dev_ext :: externals
  dev_binding :: universe_binding
  dev_expected :: "(string, cell_assignment_record) btree_map"

interpretation dir: durable_store
  "\<lambda>env. cells_identified (dev_ext env) (dev_expected env)"
  "\<lambda>env. sound_document (dev_binding env) (dev_expected env)"
  dir_document dir_file
  "\<lambda>env. committed_document (dev_ext env)" "\<lambda>env. execute (dev_ext env)" Written
proof
  fix env and d d' :: cell_directory_document and c
  assume "cells_identified (dev_ext env) (dev_expected env)"
    and s: "sound_document (dev_binding env) (dev_expected env) d"
    and c: "committed_document (dev_ext env) d c = Some d'"
  with stage_sound show "sound_document (dev_binding env) (dev_expected env) d'"
    unfolding committed_document_iff by (metis checked_succ_gt(2) sound_revision)
next
  fix env w and s s' :: local_cell_directory and c a
  assume "execute (dev_ext env) w s c = (s', Inr a)"
  from execute_Inr [OF this]
  show "s' = s \<or> (\<exists>d. committed_document (dev_ext env) (dir_document s) c = Some d \<and>
      dir_document s' = d \<and> dir_file s' = Some d)"
    by (auto simp: committed_document_iff)
next
  fix env and s :: local_cell_directory and c d
  assume "committed_document (dev_ext env) (dir_document s) c = Some d"
  from execute_committed [OF this]
  show "\<exists>s' a. execute (dev_ext env) Written s c = (s', Inr a) \<and> dir_document s' = d \<and> dir_file s' = Some d"
    by auto
qed (rule execute_Inl)

section \<open>Opening\<close>

text \<open>BLAKE3 is free of collisions on the keys of the cells hosted here.\<close>

definition distinct_cell_ids :: "externals \<Rightarrow> cell_key_v1 list \<Rightarrow> bool" where
  "distinct_cell_ids ext cells \<longleftrightarrow>
     (\<forall>k \<in> set cells. \<forall>key cid. cell_id ext k = Inr cid \<longrightarrow> cell_id ext key = Inr cid \<longrightarrow> key = k)"

definition fresh_assignment :: "cell_key_v1 \<Rightarrow> string \<Rightarrow> cell_assignment_record" where
  "fresh_assignment key cid =
     \<lparr>asg_cell_key = key, asg_cell_id = cid, asg_assignment_generation = 0,
      asg_authority_fencing_token = 0, asg_fencing_history = bt_empty,
      asg_state = Sleeping, asg_holder_id = None\<rparr>"

lemma canonical_assignments_get:
  assumes "canonical_assignments ext ub cells = Inr m" and "bt_get m cid = Some e"
  shows "\<exists>key \<in> set cells. cell_id ext key = Inr cid \<and> e = fresh_assignment key cid"
proof -
  let ?P = "\<lambda>m. \<forall>cid e. bt_get m cid = Some e \<longrightarrow>
    (\<exists>key \<in> set cells. cell_id ext key = Inr cid \<and> e = fresh_assignment key cid)"
  from assms(1) have f: "fold_r (add_canonical_assignment ext ub) cells bt_empty = Inr m"
    by (auto simp: canonical_assignments_def result_elims)
  have "?P m"
    by (rule fold_r_invariant [OF f])
      (auto simp: add_canonical_assignment_def result_elims Let_def directory_cell_id_ok
        fresh_assignment_def split: if_splits)
  with assms(2) show ?thesis by blast
qed

lemma canonical_assignments_identified:
  assumes "canonical_assignments ext ub cells = Inr m" and "distinct_cell_ids ext cells"
  shows "cells_identified ext m"
  unfolding cells_identified_def
proof (intro allI impI)
  fix key cid e
  assume "bt_get m cid = Some e"
  from canonical_assignments_get [OF assms(1) this] obtain k
    where "k \<in> set cells" "cell_id ext k = Inr cid" "e = fresh_assignment k cid"
    by blast
  with assms(2) show "cell_id ext key = Inr cid \<longleftrightarrow> key = asg_cell_key e"
    unfolding distinct_cell_ids_def fresh_assignment_def by auto
qed

definition initial_document ::
    "universe_binding \<Rightarrow> (string, cell_assignment_record) btree_map \<Rightarrow> cell_directory_document" where
  "initial_document ub m =
     \<lparr>doc_schema_version = CELL_DIRECTORY_SCHEMA_VERSION,
      doc_universe_id = ub_universe_id ub, doc_universe_manifest_hash = ub_manifest_hash ub,
      doc_directory_revision = 1, doc_assignments = m,
      doc_placements = bt_empty, doc_transfers = bt_empty\<rparr>"

lemma good_history_fresh: "good_history (fresh_assignment key cid)"
  by (auto simp: good_history_def fresh_assignment_def history_entries_def intro: exI [of _ "[]"])

lemma initial_document_sound:
  assumes "canonical_assignments ext ub cells = Inr m"
  shows "sound_document ub m (initial_document ub m)"
proof -
  have "sound_assignment (asg_cell_key e) cid e" if "bt_get m cid = Some e" for cid e
    using canonical_assignments_get [OF assms that] good_history_fresh
    by (auto simp: sound_assignment_def validate_assignment_state_def fresh_assignment_def)
  then show ?thesis
    by (auto simp: sound_document_def initial_document_def validate_document_header_def)
qed

lemma open_existing:
  assumes "open_directory ext w ub cells (Some d) = (file', r)"
  shows "file' = Some d"
    and "r = Inr dir \<Longrightarrow> dir = \<lparr>dir_document = d, dir_file = Some d\<rparr>"
    and "canonical_assignments ext ub cells = Inr m \<Longrightarrow>
      is_ok r \<longleftrightarrow> validate_document d ub m = Inr ()"
  using assms
  by (auto simp: open_directory_def is_ok_iff result_elims split: sum.splits)

lemma open_fresh:
  assumes "open_directory ext w ub cells None = (file', r)" and "canonical_assignments ext ub cells = Inr m"
  shows "file' = None \<or> file' = Some (initial_document ub m)"
    and "r = Inr dir \<Longrightarrow> dir = \<lparr>dir_document = initial_document ub m, dir_file = Some (initial_document ub m)\<rparr>"
  using assms
  by (cases w; auto simp: open_directory_def initial_document_def Let_def)+

section \<open>Hosts\<close>

datatype directory_host = Stopped "cell_directory_document option" | Running local_cell_directory

inductive host_step ::
    "externals \<Rightarrow> universe_binding \<Rightarrow> cell_key_v1 list \<Rightarrow> directory_host \<Rightarrow> directory_host \<Rightarrow> bool"
  for ext :: externals and ub :: universe_binding and cells :: "cell_key_v1 list" where
  open_failed: "open_directory ext w ub cells file = (file', Inl e) \<Longrightarrow>
    host_step ext ub cells (Stopped file) (Stopped file')"
| opened: "open_directory ext w ub cells file = (file', Inr dir) \<Longrightarrow>
    host_step ext ub cells (Stopped file) (Running dir)"
| executed: "execute ext w dir c = (dir', r) \<Longrightarrow>
    host_step ext ub cells (Running dir) (Running dir')"
| crashed: "host_step ext ub cells (Running dir) (Stopped (dir_file dir))"

inductive_cases host_step_runningE: "host_step ext ub cells (Running dir) h"
inductive_simps host_step_stopped: "host_step ext ub cells (Stopped file) h"

inductive reachable_host ::
    "externals \<Rightarrow> universe_binding \<Rightarrow> cell_key_v1 list \<Rightarrow> directory_host \<Rightarrow> bool"
  for ext :: externals and ub :: universe_binding and cells :: "cell_key_v1 list" where
  new_universe: "reachable_host ext ub cells (Stopped None)"
| step: "reachable_host ext ub cells h \<Longrightarrow> host_step ext ub cells h h' \<Longrightarrow> reachable_host ext ub cells h'"

fun host_documents :: "directory_host \<Rightarrow> cell_directory_document set" where
  "host_documents (Stopped file) = set_option file"
| "host_documents (Running dir) = {dir_document dir} \<union> set_option (dir_file dir)"

lemma host_step_documents:
  assumes "host_step ext ub cells h h'" and m: "canonical_assignments ext ub cells = Inr m"
    and ids: "distinct_cell_ids ext cells"
    and sound: "\<forall>d \<in> host_documents h. sound_document ub m d"
  shows "\<forall>d \<in> host_documents h'. sound_document ub m d"
  using assms(1)
proof cases
  case (open_failed w f f' e)
  then show ?thesis
    using sound open_fresh(1) [OF _ m] open_existing(1) initial_document_sound [OF m]
    by (cases f) fastforce+
next
  case (opened w f f' dir)
  then show ?thesis
    using sound open_fresh(2) [OF _ m] open_existing(2) initial_document_sound [OF m]
    by (cases f) fastforce+
next
  case (executed w dir c dir' r)
  let ?env = "\<lparr>dev_ext = ext, dev_binding = ub, dev_expected = m\<rparr>"
  have "dir.good_state ?env dir"
    using sound executed(1) by (auto simp: dir.good_state_def)
  from dir.step_good [OF _ this, of w c dir' r] executed canonical_assignments_identified [OF m ids]
  show ?thesis by (auto simp: dir.good_state_def)
next
  case (crashed dir)
  with sound show ?thesis by simp
qed

lemma reachable_documents:
  assumes "reachable_host ext ub cells h" and "canonical_assignments ext ub cells = Inr m"
    and "distinct_cell_ids ext cells" and "d \<in> host_documents h"
  shows "sound_document ub m d"
  using assms(1,4)
proof (induction arbitrary: d)
  case (step h h')
  with host_step_documents [OF step.hyps(2) assms(2,3)] show ?case by blast
qed simp

end
