(* ===== verification/DirectorySpec.thy ===== *)
theory DirectorySpec
  imports DirectoryHost
begin

text \<open>
  What the directory promises, without its documents: where every mobile aggregate is, and
  which transfer may move it. The operations of the directory refine \<open>ownership_step\<close>.
\<close>

section \<open>Ownership of aggregates\<close>

record owned_place =
  at_cell :: string
  at_generation :: u64
  moved_by :: "string option"

record move =
  mv_aggregate :: string
  mv_from :: string
  mv_to :: string
  mv_generation :: u64
  mv_phase :: transfer_phase

record ownership =
  own_place :: "string \<Rightarrow> owned_place option"
  own_moves :: "string \<Rightarrow> move option"

abbreviation set_place :: "string \<Rightarrow> owned_place \<Rightarrow> ownership \<Rightarrow> ownership" where
  "set_place a p s \<equiv> s\<lparr>own_place := (own_place s)(a \<mapsto> p)\<rparr>"

abbreviation set_move :: "string \<Rightarrow> move \<Rightarrow> ownership \<Rightarrow> ownership" where
  "set_move tid m s \<equiv> s\<lparr>own_moves := (own_moves s)(tid \<mapsto> m)\<rparr>"

text \<open>Where the aggregate of a move stands before and after the move.\<close>

definition place_before :: "string option \<Rightarrow> move \<Rightarrow> owned_place" where
  "place_before by m = \<lparr>at_cell = mv_from m, at_generation = mv_generation m, moved_by = by\<rparr>"

definition place_after :: "string option \<Rightarrow> move \<Rightarrow> owned_place" where
  "place_after by m = \<lparr>at_cell = mv_to m, at_generation = mv_generation m + 1, moved_by = by\<rparr>"

inductive ownership_step :: "ownership \<Rightarrow> ownership \<Rightarrow> bool" where
  unchanged: "ownership_step s s"
| register: "own_place s a = None \<Longrightarrow>
    ownership_step s (set_place a \<lparr>at_cell = c, at_generation = 1, moved_by = None\<rparr> s)"
| begin_move: "own_moves s tid = None \<Longrightarrow> own_place s (mv_aggregate m) = Some (place_before None m) \<Longrightarrow>
    mv_from m \<noteq> mv_to m \<Longrightarrow> mv_phase m = Prepared \<Longrightarrow>
    ownership_step s (set_move tid m (set_place (mv_aggregate m) (place_before (Some tid) m) s))"
| accept: "own_moves s tid = Some m \<Longrightarrow> mv_phase m = Prepared \<Longrightarrow>
    ownership_step s (set_move tid (m\<lparr>mv_phase := Quarantined\<rparr>) s)"
| move: "own_moves s tid = Some m \<Longrightarrow> mv_phase m = Quarantined \<Longrightarrow>
    own_place s (mv_aggregate m) = Some (place_before (Some tid) m) \<Longrightarrow>
    ownership_step s (set_move tid (m\<lparr>mv_phase := Committed\<rparr>)
      (set_place (mv_aggregate m) (place_after (Some tid) m) s))"
| settle: "own_moves s tid = Some m \<Longrightarrow> mv_phase m = Committed \<Longrightarrow>
    own_place s (mv_aggregate m) = Some (place_after (Some tid) m) \<Longrightarrow>
    ownership_step s (set_move tid (m\<lparr>mv_phase := Imported\<rparr>)
      (set_place (mv_aggregate m) (place_after None m) s))"
| close_source: "own_moves s tid = Some m \<Longrightarrow> mv_phase m = Imported \<Longrightarrow>
    ownership_step s (set_move tid (m\<lparr>mv_phase := Finalized\<rparr>) s)"
| cancel: "own_moves s tid = Some m \<Longrightarrow> mv_phase m \<in> {Prepared, Quarantined} \<Longrightarrow>
    ownership_step s (set_move tid (m\<lparr>mv_phase := Aborting\<rparr>) s)"
| cancelled: "own_moves s tid = Some m \<Longrightarrow> mv_phase m = Aborting \<Longrightarrow>
    own_place s (mv_aggregate m) = Some (place_before (Some tid) m) \<Longrightarrow>
    ownership_step s (set_move tid (m\<lparr>mv_phase := Aborted\<rparr>)
      (set_place (mv_aggregate m) (place_before None m) s))"

section \<open>The abstraction\<close>

definition abs_place :: "aggregate_placement_record \<Rightarrow> owned_place" where
  "abs_place p = \<lparr>at_cell = plc_cell_id p, at_generation = plc_placement_generation p,
                  moved_by = plc_active_transfer_id p\<rparr>"

definition abs_move :: "cell_transfer_record \<Rightarrow> move" where
  "abs_move t = \<lparr>mv_aggregate = trf_aggregate_id t, mv_from = trf_source_cell_id t,
                 mv_to = trf_destination_cell_id t, mv_generation = trf_prior_placement_generation t,
                 mv_phase = trf_phase t\<rparr>"

definition ownership_of :: "cell_directory_document \<Rightarrow> ownership" where
  "ownership_of d = \<lparr>own_place = (\<lambda>a. map_option abs_place (bt_get (doc_placements d) a)),
                     own_moves = (\<lambda>tid. map_option abs_move (bt_get (doc_transfers d) tid))\<rparr>"

lemma ownership_of_simps [simp]:
  "own_place (ownership_of d) a = map_option abs_place (bt_get (doc_placements d) a)"
  "own_moves (ownership_of d) tid = map_option abs_move (bt_get (doc_transfers d) tid)"
  by (simp_all add: ownership_of_def)

lemma ownership_of_put [simp]:
  "ownership_of (put_assignment cid a d) = ownership_of d"
  "ownership_of (d\<lparr>doc_directory_revision := r\<rparr>) = ownership_of d"
  "ownership_of (put_placement aid p d) = set_place aid (abs_place p) (ownership_of d)"
  "ownership_of (put_transfer tid t d) = set_move tid (abs_move t) (ownership_of d)"
  "ownership_of ((put_placement aid p d)\<lparr>doc_transfers := bt_insert tid t (doc_transfers d)\<rparr>) =
     set_move tid (abs_move t) (set_place aid (abs_place p) (ownership_of d))"
  by (simp_all add: ownership_of_def fun_eq_iff)

lemma abs_move_simps [simp]:
  "mv_aggregate (abs_move t) = trf_aggregate_id t" "mv_from (abs_move t) = trf_source_cell_id t"
  "mv_to (abs_move t) = trf_destination_cell_id t"
  "mv_generation (abs_move t) = trf_prior_placement_generation t" "mv_phase (abs_move t) = trf_phase t"
  by (simp_all add: abs_move_def)

lemma set_same_move: "own_moves s tid = Some m \<Longrightarrow> set_move tid m s = s"
  by (simp add: fun_upd_idem)

section \<open>Refinement\<close>

lemma assignment_commits_own:
  "claim ext d k g h f = Inr (Commit d' r) \<Longrightarrow> ownership_of d' = ownership_of d"
  "release ext d k g h = Inr (Commit d' r) \<Longrightarrow> ownership_of d' = ownership_of d"
  "recover_assignment ext d k g h f = Inr (Commit d' r) \<Longrightarrow> ownership_of d' = ownership_of d"
  by (erule claim_commitE release_commitE recover_commitE; simp)+

lemma register_refines:
  assumes "register_placement ext d a k key = Inr (Commit d' r)"
  shows "ownership_step (ownership_of d) (ownership_of d')"
  by (rule register_commitE [OF assms]) (simp add: abs_place_def ownership_step.register)

lemma prepare_refines:
  assumes "prepare_transfer ext d a g tid key h = Inr (Commit d' r)"
  shows "ownership_step (ownership_of d) (ownership_of d')"
proof (rule prepare_commitE [OF assms])
  fix p src dst gen
  assume n: "bt_get (doc_transfers d) tid = None" and p: "bt_get (doc_placements d) a = Some p"
    and q: "plc_active_transfer_id p = None" "plc_placement_generation p = g" "plc_cell_id p \<noteq> asg_cell_id dst"
    and r: "r = \<lparr>trf_transfer_id = tid, trf_aggregate_id = a, trf_aggregate_kind = plc_aggregate_kind p,
          trf_source_cell_key = plc_cell_key p, trf_source_cell_id = plc_cell_id p,
          trf_destination_cell_key = key, trf_destination_cell_id = asg_cell_id dst,
          trf_source_assignment_generation = asg_assignment_generation src,
          trf_destination_assignment_generation = asg_assignment_generation dst,
          trf_prior_placement_generation = g, trf_resulting_placement_generation = gen,
          trf_package_hash = h, trf_quarantine_receipt_hash = None,
          trf_source_prepare_proof = None, trf_destination_quarantine_proof = None,
          trf_import_proof = None, trf_finalization_proof = None,
          trf_source_abort_proof = None, trf_destination_abort_proof = None, trf_phase = Prepared\<rparr>"
    and d': "d' = put_transfer tid r (put_placement a
       (p\<lparr>plc_state := Preparing, plc_active_transfer_id := Some tid\<rparr>) d)"
  show ?thesis
    using begin_move [of "ownership_of d" tid "abs_move r"] n p q
    by (simp add: d' abs_place_def place_before_def abs_move_def r)
qed

text \<open>The operations that advance one transfer and perhaps the placement of its aggregate.\<close>

lemma advance_refines:
  assumes "bt_get (doc_transfers d) tid = Some t"
  shows "abs_move t' = abs_move t \<Longrightarrow> ownership_step (ownership_of d) (ownership_of (put_transfer tid t' d))"
    and "trf_phase t = Prepared \<Longrightarrow> abs_move t' = (abs_move t)\<lparr>mv_phase := Quarantined\<rparr> \<Longrightarrow>
      ownership_step (ownership_of d) (ownership_of (put_transfer tid t' d))"
    and "trf_phase t = Imported \<Longrightarrow> abs_move t' = (abs_move t)\<lparr>mv_phase := Finalized\<rparr> \<Longrightarrow>
      ownership_step (ownership_of d) (ownership_of (put_transfer tid t' d))"
    and "trf_phase t \<in> {Prepared, Quarantined} \<Longrightarrow> abs_move t' = (abs_move t)\<lparr>mv_phase := Aborting\<rparr> \<Longrightarrow>
      ownership_step (ownership_of d) (ownership_of (put_transfer tid t' d))"
  using assms unchanged [of "ownership_of d"] set_same_move [of "ownership_of d" tid "abs_move t"]
    accept [of "ownership_of d" tid "abs_move t"]
    close_source [of "ownership_of d" tid "abs_move t"] cancel [of "ownership_of d" tid "abs_move t"]
  by simp_all

lemma move_refines:
  assumes "bt_get (doc_transfers d) tid = Some t" and "bt_get (doc_placements d) (trf_aggregate_id t) = Some p"
  shows "trf_phase t = Quarantined \<Longrightarrow> abs_place p = place_before (Some tid) (abs_move t) \<Longrightarrow>
      abs_move t' = (abs_move t)\<lparr>mv_phase := Committed\<rparr> \<Longrightarrow>
      abs_place p' = place_after (Some tid) (abs_move t) \<Longrightarrow>
      ownership_step (ownership_of d)
        (ownership_of (put_transfer tid t' (put_placement (trf_aggregate_id t) p' d)))"
    and "trf_phase t = Committed \<Longrightarrow> abs_place p = place_after (Some tid) (abs_move t) \<Longrightarrow>
      abs_move t' = (abs_move t)\<lparr>mv_phase := Imported\<rparr> \<Longrightarrow>
      abs_place p' = place_after None (abs_move t) \<Longrightarrow>
      ownership_step (ownership_of d)
        (ownership_of (put_transfer tid t' (put_placement (trf_aggregate_id t) p' d)))"
    and "trf_phase t = Aborting \<Longrightarrow> abs_place p = place_before (Some tid) (abs_move t) \<Longrightarrow>
      abs_move t' = (abs_move t)\<lparr>mv_phase := Aborted\<rparr> \<Longrightarrow>
      abs_place p' = place_before None (abs_move t) \<Longrightarrow>
      ownership_step (ownership_of d)
        (ownership_of (put_transfer tid t' (put_placement (trf_aggregate_id t) p' d)))"
  using assms move [of "ownership_of d" tid "abs_move t"] settle [of "ownership_of d" tid "abs_move t"]
    cancelled [of "ownership_of d" tid "abs_move t"]
  by simp_all

lemma sound_generation:
  assumes "sound_document ub expected d" and "bt_get (doc_transfers d) tid = Some t"
  shows "trf_resulting_placement_generation t = trf_prior_placement_generation t + 1"
  by (rule sound_transferE [OF assms]) (auto simp: transfer_material_def checked_add_def split: if_splits)

lemma abs_move_store_abort: "abs_move (store_abort_proof role a t) = abs_move t"
  by (cases role) (simp_all add: abs_move_def)

lemma stage_refines:
  assumes st: "stage ext d c = Inr (Commit d' r)" and sound: "sound_document ub expected d"
  shows "ownership_step (ownership_of d) (ownership_of d')"
proof (cases c)
  case (Claim k g h f)
  with st show ?thesis
    by (auto simp: result_elims assignment_commits_own unchanged)
next
  case (Release k g h)
  with st show ?thesis
    by (auto simp: result_elims assignment_commits_own unchanged)
next
  case (RecoverAssignment k g h f)
  with st show ?thesis
    by (auto simp: result_elims assignment_commits_own unchanged)
next
  case (RegisterPlacement a k key)
  with st show ?thesis by (auto simp: result_elims intro: register_refines)
next
  case (PrepareTransfer a g tid key h)
  with st show ?thesis by (auto simp: result_elims intro: prepare_refines)
next
  case (RecordSourcePrepared tid p)
  with st show ?thesis
    by (auto simp: result_elims abs_move_def intro!: advance_refines(1) elim!: source_prepared_commitE)
next
  case (RecordQuarantine tid h rh p)
  with st show ?thesis
    by (auto simp: result_elims abs_move_def intro!: advance_refines(2) elim!: quarantine_commitE)
next
  case (CommitTransfer tid g)
  with st show ?thesis
    by (auto simp: result_elims abs_move_def abs_place_def place_before_def place_after_def
        sound_generation [OF sound] intro!: move_refines(1) elim!: commit_commitE)
next
  case (RecordImported tid p)
  with st show ?thesis
    by (auto simp: result_elims abs_move_def abs_place_def place_before_def place_after_def
        sound_generation [OF sound] intro!: move_refines(2) elim!: imported_commitE)
next
  case (FinalizeTransfer tid p)
  with st show ?thesis
    by (auto simp: result_elims abs_move_def intro!: advance_refines(3) elim!: finalize_commitE)
next
  case (RequestAbort tid)
  with st show ?thesis
    by (auto simp: result_elims abs_move_def intro!: advance_refines(4) elim!: request_abort_commitE)
next
  case (RecordAbortCleanup tid p)
  with st show ?thesis
    by (auto simp: result_elims abs_move_store_abort intro!: advance_refines(1) elim!: abort_cleanup_commitE)
next
  case (FinalizeAbort tid)
  with st show ?thesis
    by (auto simp: result_elims abs_move_def abs_place_def place_before_def place_after_def
        intro!: move_refines(3) elim!: finalize_abort_commitE)
qed

lemma execute_refines:
  assumes ex: "execute ext w dir c = (dir', r)" and sound: "sound_document ub expected (dir_document dir)"
  shows "ownership_step (ownership_of (dir_document dir)) (ownership_of (dir_document dir'))"
proof (cases r)
  case (Inl e)
  with execute_Inl [of ext w dir c dir' e] ex show ?thesis by (simp add: unchanged)
next
  case (Inr a)
  with execute_Inr [of ext w dir c dir' a] ex stage_refines [OF _ sound] show ?thesis
    by (auto simp: unchanged)
qed

end
