(* ===== verification/DirectoryScenario.thy ===== *)
theory DirectoryScenario
  imports DirectorySpec
begin

text \<open>
  A concrete universe for the witnesses: two assigned cells, one aggregate, and the evidence
  its transfer collects. The hash and the encoder of keys are concrete functions that tell
  the two hosted cells apart from every other key.
\<close>

definition scenario_origin :: cell_key_v1 where
  "scenario_origin = \<lparr>key_schema_version = 1, key_universe_id = ''verse'',
     key_sector = \<lparr>sx = ''0'', sy = ''0'', sz = ''0''\<rparr>, key_cell = \<lparr>cx = 500, cy = 500, cz = 500\<rparr>\<rparr>"

definition scenario_east :: cell_key_v1 where
  "scenario_east = scenario_origin\<lparr>key_cell := \<lparr>cx = 501, cy = 500, cz = 500\<rparr>\<rparr>"

definition scenario_externals :: externals where
  "scenario_externals =
     \<lparr>ext_blake3_hex = (\<lambda>bytes. [last bytes]),
      ext_cell_key_json = (\<lambda>key. if key = scenario_origin then Inr ''A''
                                 else if key = scenario_east then Inr ''B'' else Inr ''C'')\<rparr>"

definition scenario_binding :: universe_binding where
  "scenario_binding = \<lparr>ub_universe_id = ''verse'', ub_manifest_hash = ''m''\<rparr>"

abbreviation scenario_cells :: "cell_key_v1 list" where
  "scenario_cells \<equiv> [scenario_origin, scenario_east]"

definition scenario_hash :: string where
  "scenario_hash = replicate 64 (CHR ''a'')"

definition scenario_prepare :: cell_transfer_prepare_proof where
  "scenario_prepare = \<lparr>prp_transfer_id = ''t'', prp_package_hash = scenario_hash,
     prp_source_cell_id = ''A'', prp_source_assignment_generation = 0,
     prp_prior_placement_generation = 1, prp_source_fencing_token = 7,
     prp_source_event_sequence = 1, prp_source_event_hash = scenario_hash,
     prp_source_world_hash = scenario_hash\<rparr>"

definition scenario_quarantine :: cell_transfer_quarantine_proof where
  "scenario_quarantine = \<lparr>qrt_transfer_id = ''t'', qrt_package_hash = scenario_hash,
     qrt_quarantine_receipt_hash = scenario_hash, qrt_destination_cell_id = ''B'',
     qrt_destination_assignment_generation = 0, qrt_resulting_placement_generation = 2,
     qrt_destination_fencing_token = 8, qrt_destination_event_sequence = 1,
     qrt_destination_event_hash = scenario_hash, qrt_destination_world_hash = scenario_hash\<rparr>"

definition scenario_import :: cell_transfer_import_proof where
  "scenario_import = \<lparr>imp_transfer_id = ''t'', imp_package_hash = scenario_hash,
     imp_quarantine_receipt_hash = scenario_hash, imp_destination_cell_id = ''B'',
     imp_destination_assignment_generation = 0, imp_resulting_placement_generation = 2,
     imp_destination_fencing_token = 8, imp_destination_event_sequence = 2,
     imp_destination_event_hash = scenario_hash, imp_destination_world_hash = scenario_hash\<rparr>"

definition scenario_finalization :: cell_transfer_finalization_proof where
  "scenario_finalization = \<lparr>fin_transfer_id = ''t'', fin_package_hash = scenario_hash,
     fin_source_cell_id = ''A'', fin_source_assignment_generation = 0,
     fin_resulting_placement_generation = 2, fin_source_fencing_token = 7,
     fin_source_event_sequence = 2, fin_source_event_hash = scenario_hash,
     fin_source_world_hash = scenario_hash\<rparr>"

definition scenario_setup :: "directory_command list" where
  "scenario_setup =
     [Claim scenario_origin 0 ''holder'' 7, Claim scenario_east 0 ''holder'' 8,
      RegisterPlacement ''ship'' Grid scenario_origin]"

definition scenario_transfer :: "directory_command list" where
  "scenario_transfer =
     [PrepareTransfer ''ship'' 1 ''t'' scenario_east scenario_hash,
      RecordSourcePrepared ''t'' scenario_prepare,
      RecordQuarantine ''t'' scenario_hash scenario_hash scenario_quarantine,
      CommitTransfer ''t'' 1, RecordImported ''t'' scenario_import,
      FinalizeTransfer ''t'' scenario_finalization]"

definition scenario_expected :: "(string, cell_assignment_record) btree_map" where
  "scenario_expected = bt_insert ''A'' (fresh_assignment scenario_origin ''A'')
     (bt_insert ''B'' (fresh_assignment scenario_east ''B'') bt_empty)"

definition scenario_start :: local_cell_directory where
  "scenario_start = (let d = initial_document scenario_binding scenario_expected
                     in \<lparr>dir_document = d, dir_file = Some d\<rparr>)"

definition run_written :: "directory_command list \<Rightarrow> local_cell_directory \<Rightarrow> local_cell_directory" where
  "run_written cs = fold (\<lambda>c dir. fst (execute scenario_externals Written dir c)) cs"

lemma scenario_proof_cells: "proof_cell_keys ''verse'' = Inr scenario_cells"
  by code_simp

lemma scenario_canonical:
  "canonical_assignments scenario_externals scenario_binding scenario_cells = Inr scenario_expected"
  by code_simp

lemma scenario_distinct: "distinct_cell_ids scenario_externals scenario_cells"
  by (auto simp: distinct_cell_ids_def cell_id_def result_elims scenario_externals_def split: if_splits)

lemma scenario_open:
  "open_directory scenario_externals Written scenario_binding scenario_cells None =
     (Some (dir_document scenario_start), Inr scenario_start)"
  by (simp add: open_directory_def scenario_canonical scenario_start_def initial_document_def Let_def)

lemma scenario_reachable:
  "reachable_host scenario_externals scenario_binding scenario_cells (Running (run_written cs scenario_start))"
proof (induction cs rule: rev_induct)
  case Nil
  show ?case
    unfolding run_written_def
    by (simp, rule reachable_host.step [OF new_universe opened [OF scenario_open]])
next
  case (snoc c cs)
  have "host_step scenario_externals scenario_binding scenario_cells (Running (run_written cs scenario_start))
      (Running (run_written (cs @ [c]) scenario_start))"
    by (cases "execute scenario_externals Written (run_written cs scenario_start) c")
      (auto simp: run_written_def intro: executed)
  with snoc show ?case by (rule reachable_host.step)
qed

lemma scenario_sound:
  "sound_document scenario_binding scenario_expected (dir_document (run_written cs scenario_start))"
  by (rule reachable_documents [OF scenario_reachable [of cs] scenario_canonical scenario_distinct]) simp

definition scenario_phase :: "local_cell_directory \<Rightarrow> transfer_phase option" where
  "scenario_phase dir = map_option trf_phase (bt_get (doc_transfers (dir_document dir)) ''t'')"

end
