(* ===== verification/DirectoryEvolution.thy ===== *)
theory DirectoryEvolution
  imports DirectoryScenario
begin

text \<open>
  How the records of the directory evolve from one document to the next: the assignments,
  the transfers and the placements, for every command.
\<close>

section \<open>Documents of reachable hosts\<close>

lemma host_step_invariant:
  assumes "host_step ext ub cells h h'" and m: "canonical_assignments ext ub cells = Inr m"
    and ids: "distinct_cell_ids ext cells" and "reachable_host ext ub cells h"
    and init: "P (initial_document ub m)"
    and stage: "\<And>d c d' r. sound_document ub m d \<Longrightarrow> P d \<Longrightarrow> stage ext d c = Inr (Commit d' r) \<Longrightarrow> P d'"
    and rev: "\<And>d r. P (d\<lparr>doc_directory_revision := r\<rparr>) = P d"
    and P: "\<forall>d \<in> host_documents h. P d"
  shows "\<forall>d \<in> host_documents h'. P d"
  using assms(1)
proof cases
  case (open_failed w f f' e)
  then show ?thesis
    using P open_fresh(1) [OF _ m] open_existing(1) init by (cases f) fastforce+
next
  case (opened w f f' dir)
  then show ?thesis
    using P open_fresh(2) [OF _ m] open_existing(2) init by (cases f) fastforce+
next
  case (executed w dir c dir' r)
  have step: "P d'" if "committed_document ext (dir_document dir) c = Some d'" for d'
  proof -
    have "sound_document ub m (dir_document dir)" "P (dir_document dir)"
      using reachable_documents [OF assms(4) m ids] P executed(1) by auto
    with that stage rev show ?thesis unfolding committed_document_iff by metis
  qed
  show ?thesis
  proof (cases r)
    case (Inl e)
    from execute_Inl [of ext w dir c dir' e] executed(3) Inl P executed(1,2) step show ?thesis by auto
  next
    case (Inr a)
    from execute_Inr [of ext w dir c dir' a] executed(3) Inr P executed(1,2) step show ?thesis
      by (auto simp: committed_document_iff)
  qed
next
  case (crashed dir)
  with P show ?thesis by simp
qed

lemma reachable_invariant:
  assumes "reachable_host ext ub cells h" and m: "canonical_assignments ext ub cells = Inr m"
    and ids: "distinct_cell_ids ext cells" and init: "P (initial_document ub m)"
    and stage: "\<And>d c d' r. sound_document ub m d \<Longrightarrow> P d \<Longrightarrow> stage ext d c = Inr (Commit d' r) \<Longrightarrow> P d'"
    and rev: "\<And>d r. P (d\<lparr>doc_directory_revision := r\<rparr>) = P d"
    and d: "d \<in> host_documents h"
  shows "P d"
  using assms(1) d
proof (induction arbitrary: d)
  case (step h h')
  then have "\<forall>d \<in> host_documents h. P d" by blast
  then have old: "\<forall>d \<in> host_documents h. P d" .
  have "\<forall>d \<in> host_documents h'. P d"
    by (rule host_step_invariant [where P = P, OF step.hyps(2) m ids step.hyps(1)])
      (rule init, erule (2) stage, rule rev, rule old)
  then show ?case using step.prems by blast
qed simp

section \<open>Assignments\<close>

definition assignment_advances :: "cell_assignment_record \<Rightarrow> cell_assignment_record \<Rightarrow> bool" where
  "assignment_advances a a' \<longleftrightarrow>
     asg_cell_id a' = asg_cell_id a \<and> asg_cell_key a' = asg_cell_key a \<and>
     (asg_assignment_generation a' = asg_assignment_generation a \<and>
        asg_authority_fencing_token a' = asg_authority_fencing_token a \<and>
        asg_fencing_history a' = asg_fencing_history a
      \<or> asg_assignment_generation a < asg_assignment_generation a' \<and>
        asg_authority_fencing_token a < asg_authority_fencing_token a' \<and>
        (\<forall>g f. bt_get (asg_fencing_history a) g = Some f \<longrightarrow> bt_get (asg_fencing_history a') g = Some f))"

lemma assignment_advances_refl [simp]: "assignment_advances a a"
  by (simp add: assignment_advances_def)

lemma assignment_advances_trans:
  "assignment_advances a b \<Longrightarrow> assignment_advances b c \<Longrightarrow> assignment_advances a c"
  unfolding assignment_advances_def by (elim conjE disjE) auto

lemma assignment_advances_succ:
  assumes sound: "sound_document ub m d" and get: "bt_get (doc_assignments d) cid = Some a"
    and gen: "checked_add (asg_assignment_generation a) 1 = Some g" and f: "asg_authority_fencing_token a < f"
    and a': "asg_cell_id a' = asg_cell_id a" "asg_cell_key a' = asg_cell_key a"
      "asg_assignment_generation a' = g" "asg_authority_fencing_token a' = f"
      "asg_fencing_history a' = bt_insert g f (asg_fencing_history a)"
  shows "assignment_advances a a'"
  unfolding assignment_advances_def
  using a'(1-4) f checked_succ_gt(1) [OF gen]
    good_history_extend(2) [OF sound_assignment_history [OF sound get] gen f a'(3-5)]
  by auto

definition assignment_commit :: "cell_directory_document \<Rightarrow> cell_directory_document \<Rightarrow> bool" where
  "assignment_commit d d' \<longleftrightarrow> doc_assignments d' = doc_assignments d \<or>
     (\<exists>cid a a'. bt_get (doc_assignments d) cid = Some a \<and> d' = put_assignment cid a' d \<and>
        assignment_advances a a' \<and>
        (if asg_state a' = Sleeping then \<not> pinned_by_transfer d cid
         else asg_state a' = Assigned \<and> asg_assignment_generation a < asg_assignment_generation a'))"

lemma assignment_commit_same: "doc_assignments d' = doc_assignments d \<Longrightarrow> assignment_commit d d'"
  by (simp add: assignment_commit_def)

lemma assignment_commit_put:
  "bt_get (doc_assignments d) cid = Some a \<Longrightarrow> assignment_advances a a' \<Longrightarrow>
    (if asg_state a' = Sleeping then \<not> pinned_by_transfer d cid
     else asg_state a' = Assigned \<and> asg_assignment_generation a < asg_assignment_generation a') \<Longrightarrow>
    assignment_commit d (put_assignment cid a' d)"
  unfolding assignment_commit_def by blast

lemma assignment_commits:
  assumes sound: "sound_document ub m d"
  shows "claim ext d k g h f = Inr (Commit d' r) \<Longrightarrow> assignment_commit d d'"
    and "recover_assignment ext d k g h f = Inr (Commit d' r) \<Longrightarrow> assignment_commit d d'"
    and "release ext d k g h = Inr (Commit d' r) \<Longrightarrow> assignment_commit d d'"
proof -
  show "claim ext d k g h f = Inr (Commit d' r) \<Longrightarrow> assignment_commit d d'"
    by (erule claim_commitE, hypsubst, rule assignment_commit_put, assumption,
        rule assignment_advances_succ [OF sound]) (auto dest: checked_succ_gt(1))
  show "recover_assignment ext d k g h f = Inr (Commit d' r) \<Longrightarrow> assignment_commit d d'"
    by (erule recover_commitE, hypsubst, rule assignment_commit_put, assumption,
        rule assignment_advances_succ [OF sound]) (auto dest: checked_succ_gt(1))
  show "release ext d k g h = Inr (Commit d' r) \<Longrightarrow> assignment_commit d d'"
    by (erule release_commitE, hypsubst, rule assignment_commit_put, assumption)
      (auto simp: assignment_advances_def)
qed

lemma stage_assignments:
  assumes st: "stage ext d c = Inr (Commit d' r)" and sound: "sound_document ub m d"
  shows "assignment_commit d d'"
  using st by (cases c) (auto simp: result_elims dest: assignment_commits [OF sound]
      intro: assignment_commit_same elim!: register_commitE prepare_commitE source_prepared_commitE
      quarantine_commitE commit_commitE imported_commitE finalize_commitE request_abort_commitE
      abort_cleanup_commitE finalize_abort_commitE)

section \<open>Transfers\<close>

fun phase_edge :: "transfer_phase \<Rightarrow> transfer_phase \<Rightarrow> bool" where
  "phase_edge Prepared q = (q \<in> {Prepared, Quarantined, Aborting})"
| "phase_edge Quarantined q = (q \<in> {Committed, Aborting})"
| "phase_edge Committed q = (q = Imported)"
| "phase_edge Imported q = (q = Finalized)"
| "phase_edge Aborting q = (q \<in> {Aborting, Aborted})"
| "phase_edge Finalized q = False"
| "phase_edge Aborted q = False"

lemma same_material_refl [simp]: "same_material t t"
  by (simp add: same_material_def)

lemma same_material_trans: "same_material t u \<Longrightarrow> same_material u v \<Longrightarrow> same_material t v"
  by (simp add: same_material_def)

text \<open>What a commit does to the transfers: at most one is new or advances along an edge.\<close>

definition transfers_advance :: "cell_directory_document \<Rightarrow> cell_directory_document \<Rightarrow> bool" where
  "transfers_advance d d' \<longleftrightarrow> doc_transfers d' = doc_transfers d \<or>
     (\<exists>tid t'. doc_transfers d' = bt_insert tid t' (doc_transfers d) \<and>
        (case bt_get (doc_transfers d) tid of
           None \<Rightarrow> trf_phase t' = Prepared
         | Some t \<Rightarrow> same_material t t' \<and> phase_edge (trf_phase t) (trf_phase t')))"

lemma transfers_advance_same: "doc_transfers d' = doc_transfers d \<Longrightarrow> transfers_advance d d'"
  by (simp add: transfers_advance_def)

lemma transfers_advance_insert:
  assumes "doc_transfers d' = bt_insert tid t' (doc_transfers d)" and "bt_get (doc_transfers d) tid = None"
    and "trf_phase t' = Prepared"
  shows "transfers_advance d d'"
  unfolding transfers_advance_def using assms by (intro disjI2 exI [of _ tid] exI [of _ t']) simp

lemma transfers_advance_update:
  assumes "doc_transfers d' = bt_insert tid t' (doc_transfers d)" and "bt_get (doc_transfers d) tid = Some t"
    and "same_material t t'" and "phase_edge (trf_phase t) (trf_phase t')"
  shows "transfers_advance d d'"
  unfolding transfers_advance_def using assms by (intro disjI2 exI [of _ tid] exI [of _ t']) simp

lemma transfer_commits:
  "prepare_transfer ext d a g tid k h = Inr (Commit d' r) \<Longrightarrow> transfers_advance d d'"
  "record_source_prepared ext d tid p1 = Inr (Commit d' r) \<Longrightarrow> transfers_advance d d'"
  "record_quarantine ext d tid h rh p2 = Inr (Commit d' r) \<Longrightarrow> transfers_advance d d'"
  "commit_transfer ext d tid g = Inr (Commit d' r) \<Longrightarrow> transfers_advance d d'"
  "record_imported ext d tid p3 = Inr (Commit d' r) \<Longrightarrow> transfers_advance d d'"
  "finalize_transfer ext d tid p4 = Inr (Commit d' r) \<Longrightarrow> transfers_advance d d'"
  "request_abort ext d tid = Inr (Commit d' r) \<Longrightarrow> transfers_advance d d'"
  "record_abort_cleanup ext d tid p5 = Inr (Commit d' r) \<Longrightarrow> transfers_advance d d'"
  "finalize_abort ext d tid = Inr (Commit d' r) \<Longrightarrow> transfers_advance d d'"
proof -
  show "prepare_transfer ext d a g tid k h = Inr (Commit d' r) \<Longrightarrow> transfers_advance d d'"
    by (erule prepare_commitE, rule transfers_advance_insert [where tid = tid and t' = r]) simp_all
qed (((erule source_prepared_commitE quarantine_commitE commit_commitE imported_commitE
       finalize_commitE request_abort_commitE abort_cleanup_commitE finalize_abort_commitE),
     rule transfers_advance_update [where tid = tid and t' = r],
     auto simp: same_material_def store_abort_proof_material [unfolded same_material_def]
       store_abort_proof_fields)+)

lemma stage_transfers:
  assumes st: "stage ext d c = Inr (Commit d' r)"
  shows "transfers_advance d d'"
  using st by (cases c) (auto simp: result_elims dest: transfer_commits intro: transfers_advance_same
      elim!: claim_commitE release_commitE recover_commitE register_commitE)

lemma transfers_advanceE:
  assumes adv: "transfers_advance d d'" and get: "bt_get (doc_transfers d) tid = Some t"
  obtains t' where "bt_get (doc_transfers d') tid = Some t'" "same_material t t'"
    "t' = t \<or> phase_edge (trf_phase t) (trf_phase t')"
proof -
  from adv consider "doc_transfers d' = doc_transfers d"
    | i u where "doc_transfers d' = bt_insert i u (doc_transfers d)"
      "case bt_get (doc_transfers d) i of None \<Rightarrow> trf_phase u = Prepared
         | Some t \<Rightarrow> same_material t u \<and> phase_edge (trf_phase t) (trf_phase u)"
    unfolding transfers_advance_def by blast
  then show thesis
  proof cases
    case 1
    with get that show thesis by simp
  next
    case 2
    with get that show thesis by (cases "i = tid") auto
  qed
qed

lemma transfers_advance_new:
  assumes adv: "transfers_advance d d'" and get: "bt_get (doc_transfers d') tid = Some t'"
  obtains "bt_get (doc_transfers d) tid = None" "trf_phase t' = Prepared"
  | t where "bt_get (doc_transfers d) tid = Some t" "same_material t t'"
    "t' = t \<or> phase_edge (trf_phase t) (trf_phase t')"
proof (cases "bt_get (doc_transfers d) tid")
  case (Some t)
  then show thesis
    by (rule transfers_advanceE [OF adv]) (use Some get that(2) in auto)
next
  case None
  with adv get have "trf_phase t' = Prepared"
    unfolding transfers_advance_def by (auto split: if_splits)
  with None that(1) show thesis by blast
qed

section \<open>The cells of live transfers\<close>

text \<open>Both cells of a transfer stay assigned until it is over, so its proofs can be submitted.\<close>

definition live_cells_assigned :: "cell_directory_document \<Rightarrow> bool" where
  "live_cells_assigned d \<longleftrightarrow> (\<forall>tid t. bt_get (doc_transfers d) tid = Some t \<longrightarrow> \<not> terminal_phase (trf_phase t) \<longrightarrow>
     (\<forall>cid \<in> {trf_source_cell_id t, trf_destination_cell_id t}.
        \<exists>a. bt_get (doc_assignments d) cid = Some a \<and> asg_state a = Assigned))"

lemma stage_new_transfer:
  assumes st: "stage ext d c = Inr (Commit d' r)" and "bt_get (doc_transfers d) tid = None"
    and "bt_get (doc_transfers d') tid = Some t'"
  shows "doc_assignments d' = doc_assignments d \<and>
    (\<exists>src dst. assignment ext d (trf_source_cell_key t') = Inr src \<and> asg_state src = Assigned \<and>
       assignment ext d (trf_destination_cell_key t') = Inr dst \<and> asg_state dst = Assigned)"
proof (cases c)
  case (PrepareTransfer a g i k h)
  with assms show ?thesis
    by (auto simp: result_elims elim!: prepare_commitE split: if_splits)
qed (use assms in \<open>auto simp: result_elims split: if_splits
  elim!: claim_commitE release_commitE recover_commitE register_commitE source_prepared_commitE
    quarantine_commitE commit_commitE imported_commitE finalize_commitE request_abort_commitE
    abort_cleanup_commitE finalize_abort_commitE\<close>)

lemma phase_edge_terminal: "phase_edge p q \<Longrightarrow> \<not> terminal_phase p"
  by (cases p) (auto simp: terminal_phase_def)

lemma assignment_cong: "doc_assignments d' = doc_assignments d \<Longrightarrow> assignment ext d' k = assignment ext d k"
  by (simp add: assignment_def)

lemma stage_live_cells:
  assumes sound: "sound_document ub m d" and ids: "cells_identified ext m"
    and live: "live_cells_assigned d" and st: "stage ext d c = Inr (Commit d' r)"
  shows "live_cells_assigned d'"
  unfolding live_cells_assigned_def
proof (intro allI impI ballI)
  fix tid t' cid
  assume get: "bt_get (doc_transfers d') tid = Some t'" and nt: "\<not> terminal_phase (trf_phase t')"
    and cid: "cid \<in> {trf_source_cell_id t', trf_destination_cell_id t'}"
  have sound': "sound_document ub m d'" by (rule stage_sound [OF st sound ids])
  show "\<exists>a. bt_get (doc_assignments d') cid = Some a \<and> asg_state a = Assigned"
  proof (rule transfers_advance_new [OF stage_transfers [OF st] get])
    assume "bt_get (doc_transfers d) tid = None"
    from stage_new_transfer [OF st this get] obtain src dst where
      a: "assignment ext d' (trf_source_cell_key t') = Inr src" "asg_state src = Assigned"
        "assignment ext d' (trf_destination_cell_key t') = Inr dst" "asg_state dst = Assigned"
      using assignment_cong by metis
    from sound_transfer_cells(1) [OF sound' ids get a(1)] sound_transfer_cells(2) [OF sound' ids get a(3)]
    show ?thesis using a cid by blast
  next
    fix t
    assume t: "bt_get (doc_transfers d) tid = Some t" "same_material t t'"
      and e: "t' = t \<or> phase_edge (trf_phase t) (trf_phase t')"
    from e nt have ntt: "\<not> terminal_phase (trf_phase t)" using phase_edge_terminal by blast
    from t cid have cid': "cid \<in> {trf_source_cell_id t, trf_destination_cell_id t}"
      by (simp add: same_material_def)
    with live t(1) ntt obtain a where a: "bt_get (doc_assignments d) cid = Some a" "asg_state a = Assigned"
      unfolding live_cells_assigned_def by blast
    have pin: "pinned_by_transfer d cid"
      unfolding pinned_by_transfer_iff using t(1) ntt cid' by blast
    from stage_assignments [OF st sound] a pin show ?thesis
      unfolding assignment_commit_def by (auto split: if_splits)
  qed
qed

lemma reachable_live_cells:
  assumes "reachable_host ext ub cells h" and m: "canonical_assignments ext ub cells = Inr m"
    and ids: "distinct_cell_ids ext cells" and d: "d \<in> host_documents h"
  shows "live_cells_assigned d"
  using assms(1) m ids _ _ _ d
proof (rule reachable_invariant)
  show "live_cells_assigned (initial_document ub m)"
    by (simp add: live_cells_assigned_def initial_document_def)
  show "live_cells_assigned d'"
    if "sound_document ub m d" "live_cells_assigned d" "stage ext d c = Inr (Commit d' r)" for d c d' r
    by (rule stage_live_cells [OF that(1) canonical_assignments_identified [OF m ids] that(2,3)])
  show "live_cells_assigned (d\<lparr>doc_directory_revision := r\<rparr>) = live_cells_assigned d" for d r
    by (simp add: live_cells_assigned_def)
qed

section \<open>Placements\<close>

text \<open>
  What a command does to the placement of an aggregate: nothing, reserve it for a transfer,
  give it back, or move it to the destination of the transfer it is reserved for.
\<close>

inductive placement_change ::
    "cell_directory_document \<Rightarrow> directory_command \<Rightarrow> aggregate_placement_record \<Rightarrow>
     aggregate_placement_record \<Rightarrow> bool"
  for d :: cell_directory_document and c :: directory_command where
  kept: "placement_change d c p p"
| reserved: "plc_state p = Resident \<Longrightarrow> plc_active_transfer_id p = None \<Longrightarrow>
    placement_change d c p (p\<lparr>plc_state := Preparing, plc_active_transfer_id := Some tid\<rparr>)"
| released: "plc_active_transfer_id p = Some tid \<Longrightarrow> bt_get (doc_transfers d) tid = Some t \<Longrightarrow>
    trf_phase t \<in> {Committed, Aborting} \<Longrightarrow>
    placement_change d c p (p\<lparr>plc_state := Resident, plc_active_transfer_id := None\<rparr>)"
| moved: "c = CommitTransfer tid (plc_placement_generation p) \<Longrightarrow>
    plc_state p = Preparing \<Longrightarrow> plc_active_transfer_id p = Some tid \<Longrightarrow>
    bt_get (doc_transfers d) tid = Some t \<Longrightarrow> trf_phase t = Quarantined \<Longrightarrow>
    trf_aggregate_id t = plc_aggregate_id p \<Longrightarrow> plc_cell_id p = trf_source_cell_id t \<Longrightarrow>
    trf_prior_placement_generation t = plc_placement_generation p \<Longrightarrow>
    checked_add (plc_placement_generation p) 1 = Some g \<Longrightarrow>
    placement_change d c p (p\<lparr>plc_cell_key := trf_destination_cell_key t,
      plc_cell_id := trf_destination_cell_id t, plc_placement_generation := g,
      plc_state := InTransit\<rparr>)"

lemma stage_placement:
  assumes st: "stage ext d c = Inr (Commit d' r)" and sound: "sound_document ub m d"
    and p: "bt_get (doc_placements d) aid = Some p"
  shows "\<exists>p'. bt_get (doc_placements d') aid = Some p' \<and> placement_change d c p p'"
proof -
  have id: "plc_aggregate_id p = aid"
    using sound_placement_of [OF sound p] by (simp add: sound_placement_def)
  have gen: "checked_add (trf_prior_placement_generation t) 1 = Some (trf_resulting_placement_generation t)"
    if "bt_get (doc_transfers d) tid = Some t" for tid t
    by (rule sound_transferE [OF sound that]) (simp add: transfer_material_def)
  show ?thesis
  proof (cases c)
    case (CommitTransfer tid g)
    with st obtain x where "commit_transfer ext d tid g = Inr (Commit d' x)"
      by (auto simp: result_elims)
    then show ?thesis
      by (rule commit_commitE) (use CommitTransfer p id gen in \<open>auto intro: kept intro!: moved [where tid = tid]\<close>)
  next
    case (RecordImported tid i)
    with st obtain x where "record_imported ext d tid i = Inr (Commit d' x)"
      by (auto simp: result_elims)
    then show ?thesis
      by (rule imported_commitE) (use p in \<open>auto intro: placement_change.intros\<close>)
  next
    case (FinalizeAbort tid)
    with st obtain x where "finalize_abort ext d tid = Inr (Commit d' x)"
      by (auto simp: result_elims)
    then show ?thesis
      by (rule finalize_abort_commitE) (use p in \<open>auto intro: placement_change.intros\<close>)
  next
    case (PrepareTransfer a g tid k h)
    with st obtain x where "prepare_transfer ext d a g tid k h = Inr (Commit d' x)"
      by (auto simp: result_elims)
    then show ?thesis
      by (rule prepare_commitE) (use p in \<open>auto intro: placement_change.intros\<close>)
  qed (use st p in \<open>auto simp: result_elims intro: kept
    elim!: claim_commitE release_commitE recover_commitE register_commitE source_prepared_commitE
      quarantine_commitE finalize_commitE request_abort_commitE abort_cleanup_commitE\<close>)
qed

end
