(* ===== verification/DirectoryRetry.thy ===== *)
theory DirectoryRetry
  imports DirectoryEvolution
begin

text \<open>
  Retries: every command but \<open>claim\<close> and \<open>recover_assignment\<close> answers the same again, without
  a write, on the document it committed. Those two compare and swap a generation, so that a
  repetition is refused.
\<close>

fun idempotent_command :: "directory_command \<Rightarrow> bool" where
  "idempotent_command (Claim k g h f) = False"
| "idempotent_command (RecoverAssignment k g h f) = False"
| "idempotent_command _ = True"

text \<open>The generation a proof resolves to depends on the cell, not on the progress of the transfer.\<close>

lemma resolve_update [simp]:
  "resolve_proof_generation (t\<lparr>trf_phase := x0\<rparr>) = resolve_proof_generation t"
  "resolve_proof_generation (t\<lparr>trf_source_prepare_proof := x1\<rparr>) = resolve_proof_generation t"
  "resolve_proof_generation (t\<lparr>trf_quarantine_receipt_hash := x2\<rparr>) = resolve_proof_generation t"
  "resolve_proof_generation (t\<lparr>trf_destination_quarantine_proof := x3\<rparr>) = resolve_proof_generation t"
  "resolve_proof_generation (t\<lparr>trf_import_proof := x4\<rparr>) = resolve_proof_generation t"
  "resolve_proof_generation (t\<lparr>trf_finalization_proof := x5\<rparr>) = resolve_proof_generation t"
  "resolve_proof_generation (t\<lparr>trf_source_abort_proof := x6\<rparr>) = resolve_proof_generation t"
  "resolve_proof_generation (t\<lparr>trf_destination_abort_proof := x7\<rparr>) = resolve_proof_generation t"
  by (simp_all add: fun_eq_iff resolve_proof_generation_def Let_def)

lemma release_retry:
  assumes "release ext d k g h = Inr (Commit d' r)"
  shows "release ext (d'\<lparr>doc_directory_revision := v\<rparr>) k g h = Inr (Unchanged r)"
proof -
  have h: "validate_holder h = Inr ()"
    using assms unfolding release_def try_r_Inr_iff by auto
  show ?thesis
    by (rule release_commitE [OF assms])
      (simp add: release_def h directory_cell_id_ok [THEN iffD2] Let_def)
qed

lemma register_retry:
  assumes "register_placement ext d a m k = Inr (Commit d' r)"
  shows "register_placement ext (d'\<lparr>doc_directory_revision := v\<rparr>) a m k = Inr (Unchanged r)"
  using assms
  by (auto simp: register_placement_def assignment_def result_elims Let_def split: option.splits if_splits)

lemma prepare_retry:
  assumes "prepare_transfer ext d a g tid k h = Inr (Commit d' r)"
  shows "prepare_transfer ext (d'\<lparr>doc_directory_revision := v\<rparr>) a g tid k h = Inr (Unchanged r)"
  by (rule prepare_commitE [OF assms]) (simp add: prepare_transfer_def)

lemma source_prepared_retry:
  assumes "record_source_prepared ext d tid p = Inr (Commit d' r)"
  shows "record_source_prepared ext (d'\<lparr>doc_directory_revision := v\<rparr>) tid p = Inr (Unchanged r)"
  using assms
  by (auto simp: record_source_prepared_def transfer_def assignment_def result_elims Let_def
      validate_prepare_proof_def split: option.splits if_splits)

lemma quarantine_retry:
  assumes "record_quarantine ext d tid h rh p = Inr (Commit d' r)"
  shows "record_quarantine ext (d'\<lparr>doc_directory_revision := v\<rparr>) tid h rh p = Inr (Unchanged r)"
  using assms
  by (auto simp: record_quarantine_def transfer_def assignment_def result_elims Let_def
      validate_quarantine_proof_def split: option.splits if_splits)

lemma commit_retry:
  assumes "commit_transfer ext d tid g = Inr (Commit d' r)"
  shows "commit_transfer ext (d'\<lparr>doc_directory_revision := v\<rparr>) tid g = Inr (Unchanged r)"
  by (rule commit_commitE [OF assms]) (simp add: commit_transfer_def transfer_def)

lemma imported_retry:
  assumes "record_imported ext d tid p = Inr (Commit d' r)"
  shows "record_imported ext (d'\<lparr>doc_directory_revision := v\<rparr>) tid p = Inr (Unchanged r)"
  using assms
  by (auto simp: record_imported_def transfer_def assignment_def result_elims Let_def
      split: option.splits if_splits)

lemma finalize_retry:
  assumes "finalize_transfer ext d tid p = Inr (Commit d' r)"
  shows "finalize_transfer ext (d'\<lparr>doc_directory_revision := v\<rparr>) tid p = Inr (Unchanged r)"
  using assms
  by (auto simp: finalize_transfer_def transfer_def assignment_def result_elims Let_def
      split: option.splits if_splits)

lemma request_abort_retry:
  assumes "request_abort ext d tid = Inr (Commit d' r)"
  shows "request_abort ext (d'\<lparr>doc_directory_revision := v\<rparr>) tid = Inr (Unchanged r)"
  by (rule request_abort_commitE [OF assms]) (simp add: request_abort_def transfer_def)

lemma abort_cleanup_retry:
  assumes "record_abort_cleanup ext d tid p = Inr (Commit d' r)"
  shows "record_abort_cleanup ext (d'\<lparr>doc_directory_revision := v\<rparr>) tid p = Inr (Unchanged r)"
proof (cases "abp_role p")
  case Source
  with assms show ?thesis
    by (auto simp: record_abort_cleanup_def transfer_def assignment_def result_elims Let_def
        validate_abort_proof_def split: option.splits if_splits)
next
  case Destination
  with assms show ?thesis
    by (auto simp: record_abort_cleanup_def transfer_def assignment_def result_elims Let_def
        validate_abort_proof_def split: option.splits if_splits)
qed

lemma finalize_abort_retry:
  assumes "finalize_abort ext d tid = Inr (Commit d' r)"
  shows "finalize_abort ext (d'\<lparr>doc_directory_revision := v\<rparr>) tid = Inr (Unchanged r)"
  by (rule finalize_abort_commitE [OF assms]) (simp add: finalize_abort_def transfer_def)

lemma stage_retry:
  assumes "stage ext d c = Inr (Commit d' r)" and "idempotent_command c"
  shows "stage ext (d'\<lparr>doc_directory_revision := v\<rparr>) c = Inr (Unchanged r)"
  using assms
  by (cases c) (auto simp: result_elims release_retry register_retry prepare_retry source_prepared_retry
      quarantine_retry commit_retry imported_retry finalize_retry request_abort_retry
      abort_cleanup_retry finalize_abort_retry)

end
