(* ===== verification/DirectoryProperties.thy ===== *)
theory DirectoryProperties
  imports DirectoryRetry
begin

text \<open>
  The properties of the cell directory, over every history of a host: opening, commands with
  any outcome of the file system, crashes and reopenings.
\<close>

section \<open>Helpers\<close>

definition run_commands ::
    "externals \<Rightarrow> (write_outcome \<times> directory_command) list \<Rightarrow> local_cell_directory \<Rightarrow> local_cell_directory" where
  "run_commands ext cs dir = fold (\<lambda>(w, c) dir. fst (execute ext w dir c)) cs dir"

lemma run_commands_simps [simp]:
  "run_commands ext [] dir = dir"
  "run_commands ext ((w, c) # cs) dir = run_commands ext cs (fst (execute ext w dir c))"
  by (simp_all add: run_commands_def)

lemma run_commands_induct [consumes 1, case_names start step]:
  assumes sound: "sound_document ub m (dir_document dir)" and ids: "cells_identified ext m"
    and start: "P (dir_document dir)"
    and step: "\<And>d c d' r v. sound_document ub m d \<Longrightarrow> P d \<Longrightarrow> stage ext d c = Inr (Commit d' r) \<Longrightarrow>
      P (d'\<lparr>doc_directory_revision := v\<rparr>)"
  shows "sound_document ub m (dir_document (run_commands ext cs dir)) \<and>
    P (dir_document (run_commands ext cs dir))"
  using sound start
proof (induction cs arbitrary: dir)
  case (Cons wc cs)
  obtain w c where wc: "wc = (w, c)" by (cases wc)
  obtain dir' r where ex: "execute ext w dir c = (dir', r)" by (cases "execute ext w dir c")
  have "sound_document ub m (dir_document dir') \<and> P (dir_document dir')"
  proof (cases r)
    case (Inl e)
    with execute_Inl [of ext w dir c dir' e] ex Cons.prems show ?thesis by simp
  next
    case (Inr a)
    have "sound_document ub m (d0\<lparr>doc_directory_revision := v\<rparr>)"
      if "stage ext (dir_document dir) c = Inr (Commit d0 a)"
        "checked_add (doc_directory_revision (dir_document dir)) 1 = Some v" for d0 v
      using stage_sound [OF that(1) Cons.prems(1) ids] checked_succ_gt(2) [OF that(2)]
      by (rule sound_revision)
    with execute_Inr [of ext w dir c dir' a] ex Inr Cons.prems step show ?thesis by auto
  qed
  with Cons.IH [of dir'] ex show ?case by (simp add: wc)
qed simp

lemma reachable_running:
  "reachable_host ext ub cells (Running dir) \<Longrightarrow> canonical_assignments ext ub cells = Inr m \<Longrightarrow>
    distinct_cell_ids ext cells \<Longrightarrow> sound_document ub m (dir_document dir)"
  by (rule reachable_documents) auto

lemma scenario_running:
  "reachable_host scenario_externals scenario_binding scenario_cells (Running (run_written cs scenario_start))"
  by (rule scenario_reachable)

section \<open>The document on disk\<close>

text \<open>
  C9: Whatever commands were executed, whatever writes failed and wherever the process
  crashed, the document in the file (and the one in memory) passes the validation that
  reopening the universe runs, except for exactly one kind of content: a transfer whose abort
  was requested before its source cell recorded the prepare event.
\<close>

theorem reopening_accepted:
  assumes "reachable_host ext ub cells h" and m: "canonical_assignments ext ub cells = Inr m"
    and "distinct_cell_ids ext cells" and "d \<in> host_documents h"
  shows "is_ok (snd (open_directory ext w ub cells (Some d))) \<longleftrightarrow>
    (\<forall>tid t. bt_get (doc_transfers d) tid = Some t \<longrightarrow> \<not> premature_abort t)"
proof -
  have "is_ok (snd (open_directory ext w ub cells (Some d))) \<longleftrightarrow> validate_document d ub m = Inr ()"
    by (cases "open_directory ext w ub cells (Some d)") (simp add: open_existing(3) [OF _ m])
  with sound_document_validates [OF reachable_documents [OF assms]] show ?thesis by simp
qed

theorem reopening_accepted_witness:
  "is_ok (snd (open_directory scenario_externals Written scenario_binding scenario_cells
     (Some (dir_document (run_written (scenario_setup @ take 5 scenario_transfer) scenario_start)))))"
proof -
  let ?d = "dir_document (run_written (scenario_setup @ take 5 scenario_transfer) scenario_start)"
  have "list_all (\<lambda>t. \<not> premature_abort t) (bt_values (doc_transfers ?d))"
    by code_simp
  then have "\<forall>tid t. bt_get (doc_transfers ?d) tid = Some t \<longrightarrow> \<not> premature_abort t"
    by (auto simp: list_all_iff bt_in_values_iff)
  moreover have "?d \<in> host_documents
      (Running (run_written (scenario_setup @ take 5 scenario_transfer) scenario_start))"
    by simp
  ultimately show ?thesis
    using reopening_accepted [OF scenario_running scenario_canonical scenario_distinct] by blast
qed

text \<open>
  C20: A transfer that is prepared at the directory but whose source cell has not yet recorded
  its prepare event can be asked to abort, and the abort is committed durably; but the
  committed document is rejected by every later opening of the universe.
\<close>

theorem premature_abort_blocks_reopening:
  assumes "sound_document ub m d" and "canonical_assignments ext ub cells = Inr m"
    and "bt_get (doc_transfers d) tid = Some t" and "trf_phase t = Prepared"
    and "trf_source_prepare_proof t = None"
  shows "\<exists>d' r. request_abort ext d tid = Inr (Commit d' r) \<and>
    (\<forall>w v. \<not> is_ok (snd (open_directory ext w ub cells (Some (d'\<lparr>doc_directory_revision := v\<rparr>)))))"
proof -
  let ?r = "t\<lparr>trf_phase := Aborting\<rparr>"
  let ?d' = "put_transfer tid ?r d"
  obtain p where "bt_get (doc_placements d) (trf_aggregate_id t) = Some p" "placement_matches tid t p"
    by (rule sound_transferE [OF assms(1,3)])
  then have "request_abort ext d tid = Inr (Commit ?d' ?r)"
    using assms(3,4)
    by (simp add: request_abort_def transfer_def placement_def placement_matches_def Let_def)
  moreover have "validate_document (?d'\<lparr>doc_directory_revision := v\<rparr>) ub m \<noteq> Inr ()" for v
    unfolding validate_document_ok using assms(5) by (auto simp: phase_evidence_invalid_def)
  then have "\<not> is_ok (snd (open_directory ext w ub cells (Some (?d'\<lparr>doc_directory_revision := v\<rparr>))))"
    for w v
    using open_existing(3) [OF _ assms(2)] by (metis prod.collapse)
  ultimately show ?thesis by blast
qed

theorem premature_abort_blocks_reopening_witness:
  "\<exists>d' r. request_abort scenario_externals
      (dir_document (run_written (scenario_setup @ take 1 scenario_transfer) scenario_start)) ''t''
        = Inr (Commit d' r) \<and>
    (\<forall>w v. \<not> is_ok (snd (open_directory scenario_externals w scenario_binding scenario_cells
       (Some (d'\<lparr>doc_directory_revision := v\<rparr>)))))"
proof -
  let ?d = "dir_document (run_written (scenario_setup @ take 1 scenario_transfer) scenario_start)"
  have "map_option trf_phase (bt_get (doc_transfers ?d) ''t'') = Some Prepared"
    and "map_option trf_source_prepare_proof (bt_get (doc_transfers ?d) ''t'') = Some None"
    by code_simp+
  then obtain t where "bt_get (doc_transfers ?d) ''t'' = Some t" "trf_phase t = Prepared"
      "trf_source_prepare_proof t = None"
    by auto
  then show ?thesis
    by (rule premature_abort_blocks_reopening [OF scenario_sound scenario_canonical])
qed



section \<open>Ownership\<close>

text \<open>
  C1: The directory implements its specification: every command, whatever the outcome of its
  write, takes the ownership of aggregates that the document stands for one step of
  \<open>ownership_step\<close> further or leaves it alone.
\<close>

theorem directory_refines_ownership:
  assumes "reachable_host ext ub cells (Running dir)" and "canonical_assignments ext ub cells = Inr m"
    and "distinct_cell_ids ext cells" and "execute ext w dir c = (dir', r)"
  shows "ownership_step (ownership_of (dir_document dir)) (ownership_of (dir_document dir'))"
  by (rule execute_refines [OF assms(4) reachable_running [OF assms(1-3)]])

theorem directory_refines_ownership_witness:
  "ownership_step (ownership_of (dir_document scenario_start))
     (ownership_of (dir_document (fst (execute scenario_externals Written scenario_start
        (RegisterPlacement ''ship'' Grid scenario_origin)))))"
  by (rule directory_refines_ownership [OF scenario_running [of "[]", unfolded run_written_def, simplified]
        scenario_canonical scenario_distinct prod.collapse [symmetric]])

text \<open>
  C18: An aggregate is never claimed by two transfers at once: two transfers of the same
  aggregate that still hold it (prepared, quarantined, committed or aborting) are the same.
\<close>

theorem one_live_transfer_per_aggregate:
  assumes "reachable_host ext ub cells h" and "canonical_assignments ext ub cells = Inr m"
    and "distinct_cell_ids ext cells" and "d \<in> host_documents h"
    and t: "bt_get (doc_transfers d) tid = Some t" "bt_get (doc_transfers d) tid' = Some t'"
    and "trf_aggregate_id t = trf_aggregate_id t'" and "active_phase (trf_phase t)" "active_phase (trf_phase t')"
  shows "tid = tid'"
proof -
  have holds: "\<exists>p. bt_get (doc_placements d) (trf_aggregate_id u) = Some p \<and> plc_active_transfer_id p = Some i"
    if "bt_get (doc_transfers d) i = Some u" "active_phase (trf_phase u)" for i u
    by (rule sound_transferE [OF reachable_documents [OF assms(1-4)] that(1)])
      (use that(2) in \<open>auto simp: placement_matches_def active_phase_def\<close>)
  from holds [OF t(1)] holds [OF t(2)] assms(7-9) show ?thesis by auto
qed

theorem one_live_transfer_per_aggregate_witness:
  "\<exists>t. bt_get (doc_transfers (dir_document (run_written (scenario_setup @ take 1 scenario_transfer)
      scenario_start))) ''t'' = Some t \<and> active_phase (trf_phase t) \<and> ''t'' = ''t''"
proof -
  let ?d = "dir_document (run_written (scenario_setup @ take 1 scenario_transfer) scenario_start)"
  have "map_option trf_phase (bt_get (doc_transfers ?d) ''t'') = Some Prepared"
    by code_simp
  then obtain t where t: "bt_get (doc_transfers ?d) ''t'' = Some t" "active_phase (trf_phase t)"
    by (auto simp: active_phase_def)
  have "?d \<in> host_documents (Running (run_written (scenario_setup @ take 1 scenario_transfer) scenario_start))"
    by simp
  from one_live_transfer_per_aggregate [OF scenario_running scenario_canonical scenario_distinct
      this t(1) t(1) refl t(2) t(2)] t
  show ?thesis by blast
qed

text \<open>
  C19: An aggregate changes its cell only by the commit of a quarantined transfer that holds
  it: from the source to the destination of that transfer, with the next placement generation.
  Every other command leaves cell and generation alone, and no command forgets the aggregate.
\<close>

theorem aggregate_moves_only_by_commit:
  assumes "reachable_host ext ub cells (Running dir)" and m: "canonical_assignments ext ub cells = Inr m"
    and "distinct_cell_ids ext cells" and ex: "execute ext w dir c = (dir', r)"
    and p: "bt_get (doc_placements (dir_document dir)) aid = Some p"
  shows "\<exists>p'. bt_get (doc_placements (dir_document dir')) aid = Some p' \<and>
    (if plc_cell_id p' = plc_cell_id p \<and> plc_placement_generation p' = plc_placement_generation p then True
     else plc_placement_generation p' = plc_placement_generation p + 1 \<and>
       (\<exists>tid t. plc_active_transfer_id p = Some tid \<and>
          bt_get (doc_transfers (dir_document dir)) tid = Some t \<and>
          trf_phase t = Quarantined \<and> trf_aggregate_id t = aid \<and>
          trf_source_cell_id t = plc_cell_id p \<and> trf_destination_cell_id t = plc_cell_id p' \<and>
          (\<exists>g. c = CommitTransfer tid g)))"
proof -
  have sound: "sound_document ub m (dir_document dir)" by (rule reachable_running [OF assms(1-3)])
  have id: "plc_aggregate_id p = aid"
    using sound_placement_of [OF sound p] by (simp add: sound_placement_def)
  show ?thesis
  proof (cases "dir_document dir' = dir_document dir")
    case True
    with p show ?thesis by auto
  next
    case False
    then obtain a where "r = Inr a" using execute_Inl [of ext w dir c dir'] ex by (cases r) auto
    with execute_Inr [of ext w dir c dir' a] ex False obtain d0 v where
      st: "stage ext (dir_document dir) c = Inr (Commit d0 a)"
      and d': "dir_document dir' = d0\<lparr>doc_directory_revision := v\<rparr>"
      by auto
    from stage_placement [OF st sound p] obtain p' where
      p': "bt_get (doc_placements d0) aid = Some p'" and ch: "placement_change (dir_document dir) c p p'"
      by blast
    from ch show ?thesis
    proof cases
      case (moved tid t g)
      with p' d' id show ?thesis
        by (auto simp: checked_add_def split: if_splits)
    qed (use p' d' in auto)
  qed
qed

theorem aggregate_moves_only_by_commit_witness:
  "\<exists>p p'. bt_get (doc_placements (dir_document (run_written (scenario_setup @ take 3 scenario_transfer)
       scenario_start))) ''ship'' = Some p \<and> plc_cell_id p = ''A'' \<and>
     bt_get (doc_placements (dir_document (fst (execute scenario_externals Written
       (run_written (scenario_setup @ take 3 scenario_transfer) scenario_start)
       (CommitTransfer ''t'' 1))))) ''ship'' = Some p' \<and> plc_cell_id p' = ''B''"
proof -
  let ?dir = "run_written (scenario_setup @ take 3 scenario_transfer) scenario_start"
  let ?x = "execute scenario_externals Written ?dir (CommitTransfer ''t'' 1)"
  have "map_option plc_cell_id (bt_get (doc_placements (dir_document ?dir)) ''ship'') = Some ''A''"
    and "map_option plc_cell_id (bt_get (doc_placements (dir_document (fst ?x))) ''ship'') = Some ''B''"
    by code_simp+
  moreover from this obtain p where p: "bt_get (doc_placements (dir_document ?dir)) ''ship'' = Some p"
    by auto
  note aggregate_moves_only_by_commit [OF scenario_running scenario_canonical scenario_distinct
      prod.collapse [symmetric] p, of Written "CommitTransfer ''t'' 1"]
  ultimately show ?thesis using p by auto
qed

section \<open>Transfers\<close>

text \<open>
  C28: Over any sequence of commands a transfer keeps its identity, aggregate, cells,
  generations and package, and once it is finalized or aborted its record never changes again.
\<close>

theorem transfer_material_is_immutable:
  assumes "sound_document ub m (dir_document dir)" and "cells_identified ext m"
    and get: "bt_get (doc_transfers (dir_document dir)) tid = Some t"
  shows "\<exists>t'. bt_get (doc_transfers (dir_document (run_commands ext cs dir))) tid = Some t' \<and>
    same_material t t' \<and> (if terminal_phase (trf_phase t) then t' = t else True)"
proof -
  let ?P = "\<lambda>d. \<exists>t'. bt_get (doc_transfers d) tid = Some t' \<and> same_material t t' \<and>
    (if terminal_phase (trf_phase t) then t' = t else True)"
  have "?P (d'\<lparr>doc_directory_revision := v\<rparr>)"
    if P: "?P d" and st: "stage ext d c = Inr (Commit d' r)" for d c d' r v
  proof -
    from P obtain u where u: "bt_get (doc_transfers d) tid = Some u" "same_material t u"
      "terminal_phase (trf_phase t) \<Longrightarrow> u = t" by (auto split: if_splits)
    show ?thesis
    proof (rule transfers_advanceE [OF stage_transfers [OF st] u(1)])
      fix u'
      assume "bt_get (doc_transfers d') tid = Some u'" "same_material u u'"
        and e: "u' = u \<or> phase_edge (trf_phase u) (trf_phase u')"
      moreover have "u' = t" if "terminal_phase (trf_phase t)"
        using e u(3) [OF that] that phase_edge_terminal by blast
      ultimately show ?thesis using same_material_trans [OF u(2)] by auto
    qed
  qed
  with run_commands_induct [where P = ?P, OF assms(1,2)] get show ?thesis by simp
qed

theorem transfer_material_is_immutable_witness:
  "\<exists>t. bt_get (doc_transfers (dir_document (run_written (scenario_setup @ scenario_transfer) scenario_start)))
       ''t'' = Some t \<and>
     bt_get (doc_transfers (dir_document (run_commands scenario_externals
        [(Written, RequestAbort ''t''), (Written, CommitTransfer ''t'' 1)]
        (run_written (scenario_setup @ scenario_transfer) scenario_start)))) ''t'' = Some t"
proof -
  let ?dir = "run_written (scenario_setup @ scenario_transfer) scenario_start"
  have "map_option trf_phase (bt_get (doc_transfers (dir_document ?dir)) ''t'') = Some Finalized"
    by code_simp
  then obtain t where t: "bt_get (doc_transfers (dir_document ?dir)) ''t'' = Some t" "trf_phase t = Finalized"
    by auto
  from transfer_material_is_immutable [OF scenario_sound
      canonical_assignments_identified [OF scenario_canonical scenario_distinct] t(1),
      of "[(Written, RequestAbort ''t''), (Written, CommitTransfer ''t'' 1)]"] t
  show ?thesis by (auto simp: terminal_phase_def)
qed

text \<open>
  C27: A transfer only advances along its protocol: prepared, quarantined, committed,
  imported, finalized, or from prepared or quarantined through aborting to aborted. A new
  transfer is prepared. In particular a committed transfer never aborts.
\<close>

theorem transfers_follow_protocol:
  assumes "execute ext w dir c = (dir', r)"
    and "bt_get (doc_transfers (dir_document dir')) tid = Some t'"
  shows "case bt_get (doc_transfers (dir_document dir)) tid of
      None \<Rightarrow> trf_phase t' = Prepared
    | Some t \<Rightarrow> t' = t \<or> phase_edge (trf_phase t) (trf_phase t')"
proof (cases r)
  case (Inl e)
  with execute_Inl [of ext w dir c dir' e] assms show ?thesis by simp
next
  case (Inr a)
  with execute_Inr [of ext w dir c dir' a] assms(1) consider "dir' = dir"
    | d0 v where "stage ext (dir_document dir) c = Inr (Commit d0 a)"
      "dir_document dir' = d0\<lparr>doc_directory_revision := v\<rparr>" by auto
  then show ?thesis
  proof cases
    case 1
    with assms(2) show ?thesis by simp
  next
    case 2
    from assms(2) 2(2) have "bt_get (doc_transfers d0) tid = Some t'" by simp
    then show ?thesis
      by (rule transfers_advance_new [OF stage_transfers [OF 2(1)]]) auto
  qed
qed

theorem transfers_follow_protocol_witness:
  "\<exists>t'. bt_get (doc_transfers (dir_document (fst (execute scenario_externals Written
        (run_written scenario_setup scenario_start)
        (PrepareTransfer ''ship'' 1 ''t'' scenario_east scenario_hash))))) ''t'' = Some t' \<and>
     trf_phase t' = Prepared"
proof -
  let ?dir = "run_written scenario_setup scenario_start"
  let ?x = "execute scenario_externals Written ?dir (PrepareTransfer ''ship'' 1 ''t'' scenario_east scenario_hash)"
  have "bt_contains (doc_transfers (dir_document (fst ?x))) ''t''" and
    n: "bt_get (doc_transfers (dir_document ?dir)) ''t'' = None"
    by code_simp+
  then obtain t' where t': "bt_get (doc_transfers (dir_document (fst ?x))) ''t'' = Some t'"
    by (auto simp: bt_contains_def)
  from transfers_follow_protocol [OF prod.collapse [symmetric] t'] n t' show ?thesis by simp
qed

text \<open>
  C21: Both cells of a transfer stay assigned to an authority until the transfer is finalized
  or aborted, over every history: the directory does not let a cell go to sleep while a
  transfer still needs its event log.
\<close>

theorem cells_of_live_transfers_stay_assigned:
  assumes "reachable_host ext ub cells h" and "canonical_assignments ext ub cells = Inr m"
    and "distinct_cell_ids ext cells" and "d \<in> host_documents h"
    and "bt_get (doc_transfers d) tid = Some t" and "\<not> terminal_phase (trf_phase t)"
  shows "\<exists>src dst. bt_get (doc_assignments d) (trf_source_cell_id t) = Some src \<and>
    bt_get (doc_assignments d) (trf_destination_cell_id t) = Some dst \<and>
    asg_state src = Assigned \<and> asg_state dst = Assigned"
  using reachable_live_cells [OF assms(1-4)] assms(5,6)
  unfolding live_cells_assigned_def by blast

theorem cells_of_live_transfers_stay_assigned_witness:
  "\<exists>t src. bt_get (doc_transfers (dir_document (run_written (scenario_setup @ take 2 scenario_transfer)
        scenario_start))) ''t'' = Some t \<and>
     bt_get (doc_assignments (dir_document (run_written (scenario_setup @ take 2 scenario_transfer)
        scenario_start))) (trf_source_cell_id t) = Some src \<and> asg_state src = Assigned"
proof -
  let ?dir = "run_written (scenario_setup @ take 2 scenario_transfer) scenario_start"
  have "map_option trf_phase (bt_get (doc_transfers (dir_document ?dir)) ''t'') = Some Prepared"
    by code_simp
  then obtain t where t: "bt_get (doc_transfers (dir_document ?dir)) ''t'' = Some t"
    "\<not> terminal_phase (trf_phase t)" by (auto simp: terminal_phase_def)
  have "dir_document ?dir \<in> host_documents (Running ?dir)" by simp
  from cells_of_live_transfers_stay_assigned [OF scenario_running scenario_canonical scenario_distinct this t] t
  show ?thesis by blast
qed



lemma sound_assignment_of_key:
  assumes sound: "sound_document ub m d" and ids: "cells_identified ext m"
    and get: "bt_get (doc_assignments d) cid = Some a"
  shows "assignment ext d (asg_cell_key a) = Inr a"
proof -
  obtain e where e: "bt_get m cid = Some e" "sound_assignment (asg_cell_key e) cid a"
    by (rule sound_assignments_expected [OF sound get])
  then have "cell_id ext (asg_cell_key a) = Inr cid"
    using ids unfolding cells_identified_def by (simp add: sound_assignment_def)
  with get show ?thesis by (simp add: assignment_def directory_cell_id_ok [THEN iffD2])
qed

lemma history_bound:
  assumes "good_history a" and "bt_get (asg_fencing_history a) g = Some f"
  shows "g \<le> asg_assignment_generation a"
proof -
  from assms(1) obtain fs where "bt_entries (asg_fencing_history a) = history_entries fs"
    "length fs = unat (asg_assignment_generation a)" unfolding good_history_def by blast
  from history_get [OF this] this(2) assms(2) show ?thesis
    by (auto simp: word_le_nat_alt split: if_splits)
qed

lemma live_cells:
  assumes "live_cells_assigned d" and "bt_get (doc_transfers d) tid = Some t"
    and "\<not> terminal_phase (trf_phase t)" and "cid \<in> {trf_source_cell_id t, trf_destination_cell_id t}"
  shows "\<exists>a. bt_get (doc_assignments d) cid = Some a \<and> asg_state a = Assigned"
  using assms unfolding live_cells_assigned_def by blast

lemma quarantined_transfer_commits:
  assumes sound: "sound_document ub m d" and ids: "cells_identified ext m" and live: "live_cells_assigned d"
    and get: "bt_get (doc_transfers d) tid = Some t" and q: "trf_phase t = Quarantined"
  shows "\<exists>d' r. commit_transfer ext d tid (trf_prior_placement_generation t) = Inr (Commit d' r)
    \<and> trf_phase r = Committed"
proof (rule sound_transferE [OF sound get])
  fix src dst p
  assume src: "bt_get (doc_assignments d) (trf_source_cell_id t) = Some src" "asg_cell_key src = trf_source_cell_key t"
    and dst: "bt_get (doc_assignments d) (trf_destination_cell_id t) = Some dst"
      "asg_cell_key dst = trf_destination_cell_key t"
    and p: "bt_get (doc_placements d) (trf_aggregate_id t) = Some p" "placement_matches tid t p"
    and ev: "sound_evidence t" and pr: "validate_transfer_proofs tid t src dst = Inr ()"
  from ev q obtain h pp qp where h: "trf_quarantine_receipt_hash t = Some h"
    "trf_source_prepare_proof t = Some pp" "trf_destination_quarantine_proof t = Some qp"
    by (auto simp: sound_evidence_def phase_evidence_invalid_def premature_abort_def)
  with pr have "prepare_evidence t src pp" "quarantine_evidence t dst qp"
    by (simp_all add: validate_transfer_proofs_ok)
  then have "trf_source_assignment_generation t \<le> asg_assignment_generation src"
    "trf_destination_assignment_generation t \<le> asg_assignment_generation dst"
    using history_bound [OF sound_assignment_history [OF sound src(1)]]
      history_bound [OF sound_assignment_history [OF sound dst(1)]]
    by (auto simp: prepare_evidence_def quarantine_evidence_def validate_prepare_proof_def
        validate_quarantine_proof_def result_elims not_less intro: order_trans)
  moreover have "asg_state src = Assigned" "asg_state dst = Assigned"
    using live_cells [OF live get, of "trf_source_cell_id t"] live_cells [OF live get, of "trf_destination_cell_id t"]
      q src(1) dst(1) by (simp_all add: terminal_phase_def)
  moreover note sound_assignment_of_key [OF sound ids src(1)] sound_assignment_of_key [OF sound ids dst(1)]
  ultimately show ?thesis
    using get q h src(2) dst(2) p
    by (auto simp: commit_transfer_def transfer_def placement_def placement_matches_def Let_def)
qed

text \<open>
  C22: No transfer is stuck before its commit: a quarantined transfer can be committed at its
  recorded generation, a prepared or quarantined one can be asked to abort, and an aborting
  one with the cleanup proofs of both cells can be finished.
\<close>

theorem live_transfers_can_advance:
  assumes "reachable_host ext ub cells h" and "canonical_assignments ext ub cells = Inr m"
    and "distinct_cell_ids ext cells" and "d \<in> host_documents h"
    and t: "bt_get (doc_transfers d) tid = Some t"
  shows "case trf_phase t of
      Quarantined \<Rightarrow> \<exists>d' r. commit_transfer ext d tid (trf_prior_placement_generation t) = Inr (Commit d' r)
        \<and> trf_phase r = Committed \<and> (\<exists>d' r. request_abort ext d tid = Inr (Commit d' r))
    | Prepared \<Rightarrow> \<exists>d' r. request_abort ext d tid = Inr (Commit d' r) \<and> trf_phase r = Aborting
    | Aborting \<Rightarrow> is_ok (finalize_abort ext d tid) =
        (trf_source_abort_proof t \<noteq> None \<and> trf_destination_abort_proof t \<noteq> None)
    | _ \<Rightarrow> True"
proof (rule sound_transferE [OF reachable_documents [OF assms(1-4)] t])
  fix p
  assume p: "bt_get (doc_placements d) (trf_aggregate_id t) = Some p" "placement_matches tid t p"
  then have abort: "trf_phase t \<in> {Prepared, Quarantined} \<Longrightarrow>
      \<exists>d' r. request_abort ext d tid = Inr (Commit d' r) \<and> trf_phase r = Aborting"
    using t by (auto simp: placement_matches_def request_abort_def transfer_def placement_def Let_def)
  have finish: "trf_phase t = Aborting \<Longrightarrow> is_ok (finalize_abort ext d tid) =
      (trf_source_abort_proof t \<noteq> None \<and> trf_destination_abort_proof t \<noteq> None)"
    using t p by (auto simp: placement_matches_def finalize_abort_def transfer_def placement_def Let_def)
  from abort finish quarantined_transfer_commits [OF reachable_documents [OF assms(1-4)]
      canonical_assignments_identified [OF assms(2,3)] reachable_live_cells [OF assms(1-4)] t]
  show ?thesis
    by (cases "trf_phase t") auto
qed

theorem live_transfers_can_advance_witness:
  "\<exists>d' r. commit_transfer scenario_externals
     (dir_document (run_written (scenario_setup @ take 3 scenario_transfer) scenario_start)) ''t'' 1
       = Inr (Commit d' r) \<and> trf_phase r = Committed"
proof -
  let ?dir = "run_written (scenario_setup @ take 3 scenario_transfer) scenario_start"
  have "map_option (\<lambda>t. (trf_phase t, trf_prior_placement_generation t))
      (bt_get (doc_transfers (dir_document ?dir)) ''t'') = Some (Quarantined, 1)"
    by code_simp
  then obtain t where t: "bt_get (doc_transfers (dir_document ?dir)) ''t'' = Some t"
    "trf_phase t = Quarantined" "trf_prior_placement_generation t = 1" by auto
  have "dir_document ?dir \<in> host_documents (Running ?dir)" by simp
  from live_transfers_can_advance [OF scenario_running scenario_canonical scenario_distinct this t(1)] t
  show ?thesis by auto
qed

section \<open>Authorities of cells\<close>

text \<open>
  C24: Over any sequence of commands the assignment of a cell keeps its key and its history of
  fences; its generation never decreases, and when it increases, so does the fencing token, so
  that a fence recorded earlier is never issued again.
\<close>

theorem fences_increase:
  assumes "sound_document ub m (dir_document dir)" and "cells_identified ext m"
    and get: "bt_get (doc_assignments (dir_document dir)) cid = Some a"
  shows "\<exists>a'. bt_get (doc_assignments (dir_document (run_commands ext cs dir))) cid = Some a' \<and>
    assignment_advances a a'"
proof -
  let ?P = "\<lambda>d. \<exists>a'. bt_get (doc_assignments d) cid = Some a' \<and> assignment_advances a a'"
  have "?P (d'\<lparr>doc_directory_revision := v\<rparr>)"
    if "sound_document ub m d" "?P d" "stage ext d c = Inr (Commit d' r)" for d c d' r v
  proof -
    from that(2) obtain b where b: "bt_get (doc_assignments d) cid = Some b" "assignment_advances a b"
      by blast
    from stage_assignments [OF that(3,1)] consider "doc_assignments d' = doc_assignments d"
      | i x y where "bt_get (doc_assignments d) i = Some x" "d' = put_assignment i y d"
        "assignment_advances x y"
      unfolding assignment_commit_def by blast
    then show ?thesis
    proof cases
      case 1
      with b show ?thesis by simp
    next
      case 2
      with b assignment_advances_trans [of a x y] show ?thesis by (cases "i = cid") auto
    qed
  qed
  with run_commands_induct [where P = ?P, OF assms(1,2)] get show ?thesis by simp
qed

theorem fences_increase_witness:
  "\<exists>a'. bt_get (doc_assignments (dir_document (run_commands scenario_externals
      [(Written, RecoverAssignment scenario_origin 1 ''other'' 9)]
      (run_written scenario_setup scenario_start)))) ''A'' = Some a' \<and>
    7 < asg_authority_fencing_token a'"
proof -
  let ?dir = "run_written scenario_setup scenario_start"
  let ?cs = "[(Written, RecoverAssignment scenario_origin 1 ''other'' 9)]"
  have "map_option asg_authority_fencing_token (bt_get (doc_assignments (dir_document ?dir)) ''A'') = Some 7"
    and "map_option asg_authority_fencing_token (bt_get (doc_assignments (dir_document
        (fst (execute scenario_externals Written ?dir (RecoverAssignment scenario_origin 1 ''other'' 9))))) ''A'')
        = Some 9"
    by code_simp+
  then obtain a where a: "bt_get (doc_assignments (dir_document ?dir)) ''A'' = Some a"
    "asg_authority_fencing_token a = 7"
    and r: "map_option asg_authority_fencing_token
      (bt_get (doc_assignments (dir_document (run_commands scenario_externals ?cs ?dir))) ''A'') = Some 9"
    by auto
  from fences_increase [OF scenario_sound canonical_assignments_identified [OF scenario_canonical
      scenario_distinct] a(1), of ?cs] r
  show ?thesis by auto
qed

text \<open>
  C23: A claim is exclusive: once a claim of a cell at some generation was answered, every
  other claim, recovery or release at that generation is refused, however many commands come
  in between.
\<close>

theorem claims_are_exclusive:
  assumes sound: "sound_document ub m (dir_document dir)" and ids: "cells_identified ext m"
    and ex: "execute ext w dir (Claim k g h f) = (dir', Inr a)"
    and c: "c \<in> {Claim k g h' f', RecoverAssignment k g h' f', Release k g h'}"
  shows "\<not> is_ok (snd (execute ext w' (run_commands ext cs dir') c))"
proof -
  let ?P = "\<lambda>d. \<exists>cid a. cell_id ext k = Inr cid \<and> bt_get (doc_assignments d) cid = Some a \<and>
    g < asg_assignment_generation a"
  have "claim ext (dir_document dir) k g h f \<noteq> Inr (Unchanged x)" for x
    by (auto simp: claim_def result_elims Let_def)
  with execute_Inr [OF ex] obtain d0 r v where
    cl: "claim ext (dir_document dir) k g h f = Inr (Commit d0 r)"
    and v: "checked_add (doc_directory_revision (dir_document dir)) 1 = Some v"
    and d': "dir_document dir' = d0\<lparr>doc_directory_revision := v\<rparr>"
    by (auto simp: result_elims)
  have sound': "sound_document ub m (dir_document dir')"
    unfolding d' using claim_sound [OF cl sound] checked_succ_gt(2) [OF v] by (rule sound_revision)
  have start: "?P (dir_document dir')"
    by (rule claim_commitE [OF cl]) (auto simp: d' dest: checked_succ_gt(1))
  have step: "?P (d'\<lparr>doc_directory_revision := v\<rparr>)"
    if s: "sound_document ub m d" and P: "?P d" and st: "stage ext d c = Inr (Commit d' r)" for d c d' r v
  proof -
    from P obtain cid b where b: "cell_id ext k = Inr cid" "bt_get (doc_assignments d) cid = Some b"
      "g < asg_assignment_generation b" by blast
    from stage_assignments [OF st s] b show ?thesis
      unfolding assignment_commit_def assignment_advances_def
      by (auto split: if_splits intro: less_trans)
  qed
  have "?P (dir_document (run_commands ext cs dir'))"
    by (rule run_commands_induct [where P = ?P, OF sound' ids start, THEN conjunct2]) (erule (2) step)
  then obtain cid b where b: "cell_id ext k = Inr cid"
    "bt_get (doc_assignments (dir_document (run_commands ext cs dir'))) cid = Some b"
    "g < asg_assignment_generation b" by blast
  have "stage ext (dir_document (run_commands ext cs dir')) c \<noteq> Inr x" for x
    using c b by (auto simp: map_staged_def claim_def recover_assignment_def release_def result_elims
        directory_cell_id_ok Let_def split: sum.splits staged.splits if_splits)
  then show ?thesis
    by (cases "stage ext (dir_document (run_commands ext cs dir')) c")
      (auto simp: execute_def run_operation_def)
qed

theorem claims_are_exclusive_witness:
  "\<not> is_ok (snd (execute scenario_externals Written
     (run_commands scenario_externals [(Written, Release scenario_origin 1 ''holder'')]
       (fst (execute scenario_externals Written scenario_start (Claim scenario_origin 0 ''holder'' 7))))
     (Claim scenario_origin 0 ''rival'' 9)))"
proof -
  let ?x = "execute scenario_externals Written scenario_start (Claim scenario_origin 0 ''holder'' 7)"
  have "is_ok (snd ?x)" by code_simp
  then obtain a where x: "?x = (fst ?x, Inr a)" by (cases ?x) (auto simp: is_ok_iff)
  have s: "sound_document scenario_binding scenario_expected (dir_document scenario_start)"
    using scenario_sound [of "[]"] by (simp add: run_written_def)
  show ?thesis
    by (rule claims_are_exclusive [OF s canonical_assignments_identified [OF scenario_canonical
          scenario_distinct] x]) blast
qed

text \<open>
  A command whose write failed leaves the open directory as it was, and the same command
  succeeds with the same document once the file system works again, even when the failed
  write had already replaced the file.
\<close>

theorem failed_write_can_be_retried:
  assumes "execute ext w dir c = (dir', Inl e)"
    and "committed_document ext (dir_document dir) c = Some d"
  shows "dir_document dir' = dir_document dir \<and>
    (\<exists>a. execute ext Written dir' c = (\<lparr>dir_document = d, dir_file = Some d\<rparr>, Inr a))"
proof -
  let ?env = "\<lparr>dev_ext = ext, dev_binding = undefined, dev_expected = undefined\<rparr>"
  have keep: "dir_document dir' = dir_document dir"
    using dir.error_keeps_memory [of ?env w dir c dir' e] assms(1) by simp
  with execute_committed [of ext dir' c d] assms(2) show ?thesis by simp
qed

theorem failed_write_can_be_retried_witness:
  "\<exists>d a. execute scenario_externals Written
      (fst (execute scenario_externals (NotSynced (InvalidDirectory ''sync'')) scenario_start
         (Claim scenario_origin 0 ''holder'' 7)))
      (Claim scenario_origin 0 ''holder'' 7) = (\<lparr>dir_document = d, dir_file = Some d\<rparr>, Inr a)"
proof -
  let ?c = "Claim scenario_origin 0 ''holder'' 7"
  let ?x = "execute scenario_externals (NotSynced (InvalidDirectory ''sync'')) scenario_start ?c"
  have "\<not> is_ok (snd ?x)" and "committed_document scenario_externals (dir_document scenario_start) ?c \<noteq> None"
    by code_simp+
  then obtain e d where "?x = (fst ?x, Inl e)"
    and "committed_document scenario_externals (dir_document scenario_start) ?c = Some d"
    by (cases ?x; cases "snd ?x") auto
  from failed_write_can_be_retried [OF this] show ?thesis by blast
qed

section \<open>Freezing a directory\<close>

text \<open>
  C29: A document that passes the admission of the frozen protocol-18 directory stands still:
  it validates, every aggregate is resident in one cell and reserved by no transfer, and every
  cell is asleep after having been assigned at least once.
\<close>

theorem frozen_directory_stands_still:
  assumes "reachable_host ext ub cells h" and m: "canonical_assignments ext ub cells = Inr m"
    and "distinct_cell_ids ext cells" and "d \<in> host_documents h"
    and frozen: "frozen_directory_admissible d = Inr ()"
  shows "validate_document d ub m = Inr () \<and>
    (\<forall>p \<in> set (bt_values (doc_placements d)). plc_state p = Resident \<and> plc_active_transfer_id p = None) \<and>
    (\<forall>a \<in> set (bt_values (doc_assignments d)). asg_state a = Sleeping \<and> 0 < asg_assignment_generation a)"
proof -
  have sound: "sound_document ub m d" by (rule reachable_documents [OF assms(1-4)])
  have over: "terminal_phase (trf_phase t)" if "bt_get (doc_transfers d) tid = Some t" for tid t
    using frozen that unfolding frozen_directory_admissible_def
    by (auto simp: list_ex_iff bt_in_values_iff split: if_splits)
  then have "validate_document d ub m = Inr ()"
    unfolding sound_document_validates [OF sound] premature_abort_def by (fastforce simp: terminal_phase_def)
  moreover have "plc_state p = Resident \<and> plc_active_transfer_id p = None"
    if p: "bt_get (doc_placements d) aid = Some p" for aid p
  proof -
    have linked: "placement_linked d aid p" and "state_binding_ok p"
      using sound p by (auto simp: sound_document_def sound_placement_def)
    have "plc_active_transfer_id p = None"
    proof (rule ccontr)
      assume "plc_active_transfer_id p \<noteq> None"
      with linked obtain tid t where "bt_get (doc_transfers d) tid = Some t" "active_phase (trf_phase t)"
        unfolding placement_linked_def by auto
      with over show False by (force simp: active_phase_def terminal_phase_def)
    qed
    with \<open>state_binding_ok p\<close> show ?thesis by (simp add: state_binding_ok_def)
  qed
  moreover have "asg_state a = Sleeping \<and> 0 < asg_assignment_generation a"
    if "bt_get (doc_assignments d) cid = Some a" for cid a
    using frozen that unfolding frozen_directory_admissible_def
    by (auto simp: list_ex_iff bt_in_values_iff word_gt_0 split: if_splits)
  ultimately show ?thesis by (auto simp: bt_in_values_iff)
qed

theorem frozen_directory_stands_still_witness:
  "validate_document (dir_document (run_written (scenario_setup @
      [Release scenario_origin 1 ''holder'', Release scenario_east 1 ''holder'']) scenario_start))
     scenario_binding scenario_expected = Inr ()"
proof -
  let ?dir = "run_written (scenario_setup @
      [Release scenario_origin 1 ''holder'', Release scenario_east 1 ''holder'']) scenario_start"
  have "is_ok (frozen_directory_admissible (dir_document ?dir))" by code_simp
  then have f: "frozen_directory_admissible (dir_document ?dir) = Inr ()" by (auto simp: is_ok_iff)
  have "dir_document ?dir \<in> host_documents (Running ?dir)" by simp
  from frozen_directory_stands_still [OF scenario_running scenario_canonical scenario_distinct this f]
  show ?thesis by blast
qed

end
