(* ===== verification/BundledPlacement.thy ===== *)
theory BundledPlacement
  imports DirectoryScenario
begin

text \<open>
  The placement of a grid and its riders as one bundle (\<open>BundledPlacementPlan\<close> and
  \<open>stage_bundled_placement_transition\<close> of \<open>cell_directory.rs\<close>): the plan and its checks, and
  the staging of the four transitions of all members at once.
\<close>

section \<open>Plans\<close>

record bundled_placement_member =
  bpm_aggregate_id :: string
  bpm_aggregate_kind :: mobile_aggregate_kind
  bpm_prior_placement_generation :: u64
  bpm_resulting_placement_generation :: u64

record bundled_placement_plan =
  bpp_root_aggregate_id :: string
  bpp_source_cell_key :: cell_key_v1
  bpp_source_cell_id :: string
  bpp_destination_cell_key :: cell_key_v1
  bpp_destination_cell_id :: string
  bpp_members :: "bundled_placement_member list"
  bpp_member_root :: string

datatype bundled_placement_transition = PrepareBundle | CommitBundle | ImportBundle | AbortBundle

record bundled_placement_root_material =
  bpr_root_aggregate_id :: string
  bpr_source_cell_key :: cell_key_v1
  bpr_source_cell_id :: string
  bpr_destination_cell_key :: cell_key_v1
  bpr_destination_cell_id :: string
  bpr_members :: "bundled_placement_member list"

definition bundle_domain :: string where
  "bundle_domain = ''the-verse/bundled-placement-members/v1'' @ [CHR 0x00]"

text \<open>\<open>json\<close> stands for \<open>serde_json::to_vec\<close> on the root material.\<close>

definition calculate_member_root ::
    "externals \<Rightarrow> (bundled_placement_root_material \<Rightarrow> string + string) \<Rightarrow> bundled_placement_plan \<Rightarrow>
     cell_directory_error + string" where
  "calculate_member_root ext json plan =
     (let material = \<lparr>bpr_root_aggregate_id = bpp_root_aggregate_id plan,
                      bpr_source_cell_key = bpp_source_cell_key plan,
                      bpr_source_cell_id = bpp_source_cell_id plan,
                      bpr_destination_cell_key = bpp_destination_cell_key plan,
                      bpr_destination_cell_id = bpp_destination_cell_id plan,
                      bpr_members = bpp_members plan\<rparr> in
      try_r (map_err (\<lambda>source. InvalidDirectory
               (''bundled placement root material cannot be encoded: '' @ source)) (json material)) (\<lambda>bytes.
      Inr (ext_blake3_hex ext (bundle_domain @ bytes))))"

text \<open>The body of the member loop; the state is \<open>saw_root\<close> and \<open>prior_id\<close>.\<close>

definition validate_bundle_member ::
    "string \<Rightarrow> bundled_placement_member \<Rightarrow> bool \<times> string option \<Rightarrow>
     cell_directory_error + bool \<times> string option" where
  "validate_bundle_member root_aggregate_id member state =
     (let (saw_root, prior_id) = state in
      try_r (validate_stable_id (bpm_aggregate_id member) ''bundle member'') (\<lambda>_.
      if (case prior_id of None \<Rightarrow> False | Some prior \<Rightarrow> bpm_aggregate_id member \<le> prior)
         \<or> bpm_prior_placement_generation member = 0
         \<or> checked_add (bpm_prior_placement_generation member) 1
             \<noteq> Some (bpm_resulting_placement_generation member)
      then Inl (InvalidDirectory ''bundled placement members must be unique, ordered, and advance once'')
      else if bpm_aggregate_id member = root_aggregate_id
      then (if bpm_aggregate_kind member \<noteq> Grid \<or> saw_root
            then Inl (InvalidDirectory ''bundled placement root must identify exactly one grid'')
            else Inr (True, Some (bpm_aggregate_id member)))
      else if bpm_aggregate_kind member \<noteq> Player
      then Inl (InvalidDirectory ''the bounded grid bundle permits only player rider members'')
      else Inr (saw_root, Some (bpm_aggregate_id member))))"

definition bundle_cell_mismatch :: "externals \<Rightarrow> cell_key_v1 \<Rightarrow> string \<Rightarrow> bool" where
  "bundle_cell_mismatch ext key claimed =
     (case cell_id ext key of Inl _ \<Rightarrow> False | Inr cid \<Rightarrow> cid \<noteq> claimed)"

definition validate_bundled_placement_plan ::
    "externals \<Rightarrow> (bundled_placement_root_material \<Rightarrow> string + string) \<Rightarrow> bundled_placement_plan \<Rightarrow>
     cell_directory_error + unit" where
  "validate_bundled_placement_plan ext json plan =
     try_r (validate_stable_id (bpp_root_aggregate_id plan) ''root aggregate'') (\<lambda>_.
     try_r (map_err (\<lambda>source. InvalidDirectory (celestial_error_text source))
              (validate_cell_key (bpp_source_cell_key plan))) (\<lambda>_.
     try_r (map_err (\<lambda>source. InvalidDirectory (celestial_error_text source))
              (validate_cell_key (bpp_destination_cell_key plan))) (\<lambda>_.
     let invalid = Inl (InvalidDirectory ''bundled placement cells, members, or root are invalid'') in
     if bpp_source_cell_key plan = bpp_destination_cell_key plan
        \<or> key_universe_id (bpp_source_cell_key plan) \<noteq> key_universe_id (bpp_destination_cell_key plan)
        \<or> bundle_cell_mismatch ext (bpp_source_cell_key plan) (bpp_source_cell_id plan)
        \<or> bundle_cell_mismatch ext (bpp_destination_cell_key plan) (bpp_destination_cell_id plan)
        \<or> bpp_members plan = []
        \<or> 128 < length (bpp_members plan)
     then invalid else
     try_r (calculate_member_root ext json plan) (\<lambda>member_root.
     if bpp_member_root plan \<noteq> member_root then invalid else
     try_r (fold_r (validate_bundle_member (bpp_root_aggregate_id plan)) (bpp_members plan) (False, None))
       (\<lambda>(saw_root, prior_id).
     if \<not> saw_root
     then Inl (InvalidDirectory ''bundled placement members omit the grid root'')
     else Inr ())))))"

definition new_bundled_placement_plan ::
    "externals \<Rightarrow> (bundled_placement_root_material \<Rightarrow> string + string) \<Rightarrow> string \<Rightarrow> cell_key_v1 \<Rightarrow>
     cell_key_v1 \<Rightarrow> bundled_placement_member list \<Rightarrow> cell_directory_error + bundled_placement_plan" where
  "new_bundled_placement_plan ext json root_aggregate_id source_cell_key destination_cell_key members =
     try_r (map_err (\<lambda>source. InvalidDirectory (celestial_error_text source))
              (cell_id ext source_cell_key)) (\<lambda>source_cell_id.
     try_r (map_err (\<lambda>source. InvalidDirectory (celestial_error_text source))
              (cell_id ext destination_cell_key)) (\<lambda>destination_cell_id.
     let plan = \<lparr>bpp_root_aggregate_id = root_aggregate_id,
                  bpp_source_cell_key = source_cell_key, bpp_source_cell_id = source_cell_id,
                  bpp_destination_cell_key = destination_cell_key,
                  bpp_destination_cell_id = destination_cell_id,
                  bpp_members = members, bpp_member_root = []\<rparr> in
     try_r (calculate_member_root ext json plan) (\<lambda>member_root.
     let plan = plan\<lparr>bpp_member_root := member_root\<rparr> in
     try_r (validate_bundled_placement_plan ext json plan) (\<lambda>_. Inr plan))))"

section \<open>Staging a transition\<close>

fun bundle_phase_valid ::
    "bundled_placement_plan \<Rightarrow> string \<Rightarrow> bundled_placement_transition \<Rightarrow> bundled_placement_member \<Rightarrow>
     aggregate_placement_record \<Rightarrow> bool" where
  "bundle_phase_valid plan transfer_id PrepareBundle member p =
     (plc_cell_key p = bpp_source_cell_key plan
      \<and> plc_cell_id p = bpp_source_cell_id plan
      \<and> plc_placement_generation p = bpm_prior_placement_generation member
      \<and> plc_state p = Resident
      \<and> plc_active_transfer_id p = None)"
| "bundle_phase_valid plan transfer_id ImportBundle member p =
     (plc_cell_key p = bpp_destination_cell_key plan
      \<and> plc_cell_id p = bpp_destination_cell_id plan
      \<and> plc_placement_generation p = bpm_resulting_placement_generation member
      \<and> plc_state p = InTransit
      \<and> plc_active_transfer_id p = Some transfer_id)"
| "bundle_phase_valid plan transfer_id _ member p =
     (plc_cell_key p = bpp_source_cell_key plan
      \<and> plc_cell_id p = bpp_source_cell_id plan
      \<and> plc_placement_generation p = bpm_prior_placement_generation member
      \<and> plc_state p = Preparing
      \<and> plc_active_transfer_id p = Some transfer_id)"

definition check_bundle_member ::
    "(string, aggregate_placement_record) btree_map \<Rightarrow> bundled_placement_plan \<Rightarrow> string \<Rightarrow>
     bundled_placement_transition \<Rightarrow> bundled_placement_member \<Rightarrow> cell_directory_error + unit" where
  "check_bundle_member placements plan transfer_id transition member =
     try_r (ok_or (bt_get placements (bpm_aggregate_id member))
              (UnknownAggregate (bpm_aggregate_id member))) (\<lambda>p.
     if \<not> (plc_aggregate_id p = bpm_aggregate_id member
            \<and> plc_aggregate_kind p = bpm_aggregate_kind member)
        \<or> \<not> bundle_phase_valid plan transfer_id transition member p
     then Inl (TransferConflict transfer_id (''bundle member '' @ bpm_aggregate_id member
                 @ '' is stale or in the wrong placement phase''))
     else Inr ())"

fun advance_bundle_member ::
    "bundled_placement_plan \<Rightarrow> string \<Rightarrow> bundled_placement_transition \<Rightarrow> bundled_placement_member \<Rightarrow>
     aggregate_placement_record \<Rightarrow> aggregate_placement_record" where
  "advance_bundle_member plan transfer_id PrepareBundle member p =
     p\<lparr>plc_state := Preparing, plc_active_transfer_id := Some transfer_id\<rparr>"
| "advance_bundle_member plan transfer_id CommitBundle member p =
     p\<lparr>plc_cell_key := bpp_destination_cell_key plan, plc_cell_id := bpp_destination_cell_id plan,
       plc_placement_generation := bpm_resulting_placement_generation member,
       plc_state := InTransit\<rparr>"
| "advance_bundle_member plan transfer_id _ member p =
     p\<lparr>plc_state := Resident, plc_active_transfer_id := None\<rparr>"

text \<open>
  The second loop. A member that is missing from the clone is a panic of the source; the
  first loop has found every member (\<open>staged_member\<close>), so the branch is never taken.
\<close>

definition apply_bundle_member ::
    "bundled_placement_plan \<Rightarrow> string \<Rightarrow> bundled_placement_transition \<Rightarrow> bundled_placement_member \<Rightarrow>
     (string, aggregate_placement_record) btree_map \<Rightarrow> (string, aggregate_placement_record) btree_map" where
  "apply_bundle_member plan transfer_id transition member staged =
     (case bt_get staged (bpm_aggregate_id member) of
        None \<Rightarrow> staged
      | Some p \<Rightarrow> bt_insert (bpm_aggregate_id member)
                    (advance_bundle_member plan transfer_id transition member p) staged)"

definition stage_bundled_placement_transition ::
    "externals \<Rightarrow> (bundled_placement_root_material \<Rightarrow> string + string) \<Rightarrow>
     (string, aggregate_placement_record) btree_map \<Rightarrow> bundled_placement_plan \<Rightarrow> string \<Rightarrow> string \<Rightarrow>
     bundled_placement_transition \<Rightarrow>
     cell_directory_error + (string, aggregate_placement_record) btree_map" where
  "stage_bundled_placement_transition ext json placements plan transfer_id durable_member_root transition =
     try_r (validate_bundled_placement_plan ext json plan) (\<lambda>_.
     try_r (validate_stable_id transfer_id ''transfer'') (\<lambda>_.
     try_r (validate_hash durable_member_root ''bundled placement member root'') (\<lambda>_.
     if durable_member_root \<noteq> bpp_member_root plan
     then Inl (TransferConflict transfer_id ''placement plan does not match the durable member root'')
     else if list_ex (\<lambda>(aggregate_id, p). plc_active_transfer_id p = Some transfer_id
                \<and> \<not> list_ex (\<lambda>member. bpm_aggregate_id member = aggregate_id) (bpp_members plan))
               (bt_entries placements)
     then Inl (TransferConflict transfer_id ''transfer ID is active on a nonmember placement'')
     else
     try_r (for_each_r (check_bundle_member placements plan transfer_id transition) (bpp_members plan)) (\<lambda>_.
     Inr (fold (apply_bundle_member plan transfer_id transition) (bpp_members plan) placements)))))"

section \<open>Valid plans\<close>

definition bundle_members_ok :: "string \<Rightarrow> bundled_placement_member list \<Rightarrow> bool" where
  "bundle_members_ok root ms \<longleftrightarrow> sorted_wrt (<) (map bpm_aggregate_id ms) \<and>
     (\<forall>m \<in> set ms. checked_add (bpm_prior_placement_generation m) 1 = Some (bpm_resulting_placement_generation m) \<and>
        bpm_prior_placement_generation m \<noteq> 0 \<and>
        bpm_aggregate_kind m = (if bpm_aggregate_id m = root then Grid else Player))"

lemma validate_members_sound:
  assumes "fold_r (validate_bundle_member root) ms (False, None) = Inr (saw, prior)"
  shows "bundle_members_ok root ms \<and> saw = (root \<in> bpm_aggregate_id ` set ms) \<and>
    prior = (if ms = [] then None else Some (bpm_aggregate_id (last ms)))"
  using assms
proof (induction ms arbitrary: saw prior rule: rev_induct)
  case Nil
  then show ?case by (simp add: bundle_members_ok_def)
next
  case (snoc m ms)
  from snoc.prems obtain saw0 prior0 where
    f: "fold_r (validate_bundle_member root) ms (False, None) = Inr (saw0, prior0)"
    and v: "validate_bundle_member root m (saw0, prior0) = Inr (saw, prior)"
    by (auto simp: fold_r_append result_elims)
  from snoc.IH [OF f] have ih: "bundle_members_ok root ms" "saw0 = (root \<in> bpm_aggregate_id ` set ms)"
    "prior0 = (if ms = [] then None else Some (bpm_aggregate_id (last ms)))" by auto
  have below: "x \<in> set ms \<Longrightarrow> bpm_aggregate_id x \<le> bpm_aggregate_id (last ms)" for x
    using ih(1) unfolding bundle_members_ok_def
    by (cases ms rule: rev_cases) (auto simp: sorted_wrt_append)
  from v ih below show ?case
    unfolding bundle_members_ok_def
    by (auto simp: validate_bundle_member_def result_elims sorted_wrt_append not_le
        split: if_splits option.splits intro: le_less_trans)
qed

lemma validate_plan_sound:
  assumes "validate_bundled_placement_plan ext json plan = Inr ()"
  shows "bundle_members_ok (bpp_root_aggregate_id plan) (bpp_members plan)"
    and "bpp_root_aggregate_id plan \<in> bpm_aggregate_id ` set (bpp_members plan)"
    and "bpp_source_cell_key plan \<noteq> bpp_destination_cell_key plan"
  using assms validate_members_sound
  by (auto simp: validate_bundled_placement_plan_def result_elims Let_def split: if_splits)

lemma bundle_members_distinct:
  "bundle_members_ok root ms \<Longrightarrow> distinct (map bpm_aggregate_id ms)"
  unfolding bundle_members_ok_def by (auto dest: strict_sorted_iff [THEN iffD1])

section \<open>What a transition does\<close>

lemma staged_nonmember:
  "aid \<notin> bpm_aggregate_id ` set ms \<Longrightarrow> bt_get (fold (apply_bundle_member plan tid tr) ms s) aid = bt_get s aid"
  by (induction ms arbitrary: s) (auto simp: apply_bundle_member_def split: option.splits)

lemma staged_member:
  assumes "distinct (map bpm_aggregate_id ms)" and "m \<in> set ms"
  shows "bt_get (fold (apply_bundle_member plan tid tr) ms s) (bpm_aggregate_id m) =
    map_option (advance_bundle_member plan tid tr m) (bt_get s (bpm_aggregate_id m))"
  using assms
proof (induction ms arbitrary: s)
  case (Cons x ms)
  show ?case
  proof (cases "m = x")
    case True
    with Cons.prems have "bpm_aggregate_id m \<notin> bpm_aggregate_id ` set ms" by auto
    with True show ?thesis
      by (simp add: staged_nonmember) (auto simp: apply_bundle_member_def split: option.splits)
  next
    case False
    with Cons.prems have "bpm_aggregate_id m \<noteq> bpm_aggregate_id x" "m \<in> set ms"
      by (auto intro: rev_image_eqI)
    moreover from this(1) have "bt_get (apply_bundle_member plan tid tr x s) (bpm_aggregate_id m) =
        bt_get s (bpm_aggregate_id m)"
      by (auto simp: apply_bundle_member_def split: option.splits)
    ultimately show ?thesis using Cons by simp
  qed
qed simp

lemma stage_bundle_ok:
  "stage_bundled_placement_transition ext json s plan tid root tr = Inr s' \<longleftrightarrow>
     validate_bundled_placement_plan ext json plan = Inr () \<and> validate_stable_id tid ''transfer'' = Inr () \<and>
     validate_hash root ''bundled placement member root'' = Inr () \<and> root = bpp_member_root plan \<and>
     (\<forall>aid p. bt_get s aid = Some p \<longrightarrow> plc_active_transfer_id p = Some tid \<longrightarrow>
        aid \<in> bpm_aggregate_id ` set (bpp_members plan)) \<and>
     (\<forall>m \<in> set (bpp_members plan). \<exists>p. bt_get s (bpm_aggregate_id m) = Some p \<and>
        plc_aggregate_id p = bpm_aggregate_id m \<and> plc_aggregate_kind p = bpm_aggregate_kind m \<and>
        bundle_phase_valid plan tid tr m p) \<and>
     s' = fold (apply_bundle_member plan tid tr) (bpp_members plan) s"
  unfolding stage_bundled_placement_transition_def check_bundle_member_def result_elims
    list_ex_iff Bex_def bt_in_entries_iff split_paired_Ex
  by (auto simp: image_iff)

lemma staged_nonmember_active:
  assumes "\<forall>aid p. bt_get s aid = Some p \<longrightarrow> plc_active_transfer_id p = Some tid \<longrightarrow> aid \<in> bpm_aggregate_id ` set ms"
  shows "\<forall>aid p. bt_get (fold (apply_bundle_member plan tid tr) ms s) aid = Some p \<longrightarrow>
    plc_active_transfer_id p = Some tid \<longrightarrow> aid \<in> bpm_aggregate_id ` set ms"
  using assms staged_nonmember by metis

lemma stage_bundle_member:
  assumes "stage_bundled_placement_transition ext json s plan tid root tr = Inr s'" and "m \<in> set (bpp_members plan)"
  obtains p where "bt_get s (bpm_aggregate_id m) = Some p" "bundle_phase_valid plan tid tr m p"
    "plc_aggregate_id p = bpm_aggregate_id m" "plc_aggregate_kind p = bpm_aggregate_kind m"
    "bt_get s' (bpm_aggregate_id m) = Some (advance_bundle_member plan tid tr m p)"
proof -
  from assms(1) have v: "validate_bundled_placement_plan ext json plan = Inr ()"
    and s': "s' = fold (apply_bundle_member plan tid tr) (bpp_members plan) s"
    unfolding stage_bundle_ok by blast+
  from assms obtain p where p: "bt_get s (bpm_aggregate_id m) = Some p" "bundle_phase_valid plan tid tr m p"
    "plc_aggregate_id p = bpm_aggregate_id m" "plc_aggregate_kind p = bpm_aggregate_kind m"
    unfolding stage_bundle_ok by blast
  have "bt_get s' (bpm_aggregate_id m) = Some (advance_bundle_member plan tid tr m p)"
    using staged_member [OF bundle_members_distinct [OF validate_plan_sound(1) [OF v]] assms(2)] p(1)
    by (simp add: s')
  with p show thesis by (rule that)
qed

lemma stage_bundle_nonmember:
  assumes "stage_bundled_placement_transition ext json s plan tid root tr = Inr s'"
    and "aid \<notin> bpm_aggregate_id ` set (bpp_members plan)"
  shows "bt_get s' aid = bt_get s aid"
  using assms staged_nonmember unfolding stage_bundle_ok by metis

text \<open>The next transition is accepted when the previous one leaves every member in its phase.\<close>

lemma stage_bundle_next:
  assumes st: "stage_bundled_placement_transition ext json s plan tid root tr = Inr s'"
    and ph: "\<And>m p. m \<in> set (bpp_members plan) \<Longrightarrow> bundle_phase_valid plan tid tr m p \<Longrightarrow>
      bundle_phase_valid plan tid tr' m (advance_bundle_member plan tid tr m p)"
    and same: "\<And>m p. plc_aggregate_id (advance_bundle_member plan tid tr m p) = plc_aggregate_id p \<and>
      plc_aggregate_kind (advance_bundle_member plan tid tr m p) = plc_aggregate_kind p"
  shows "\<exists>s''. stage_bundled_placement_transition ext json s' plan tid root tr' = Inr s''"
proof -
  from st have "\<forall>aid p. bt_get s' aid = Some p \<longrightarrow> plc_active_transfer_id p = Some tid \<longrightarrow>
      aid \<in> bpm_aggregate_id ` set (bpp_members plan)"
    unfolding stage_bundle_ok using staged_nonmember_active by metis
  moreover have "\<exists>p. bt_get s' (bpm_aggregate_id m) = Some p \<and> plc_aggregate_id p = bpm_aggregate_id m \<and>
      plc_aggregate_kind p = bpm_aggregate_kind m \<and> bundle_phase_valid plan tid tr' m p"
    if "m \<in> set (bpp_members plan)" for m
    by (rule stage_bundle_member [OF st that]) (use ph [OF that] same in auto)
  ultimately show ?thesis
    using st unfolding stage_bundle_ok by blast
qed

section \<open>A bundle of a ship and a rider\<close>

definition bundle_externals :: externals where
  "bundle_externals =
     \<lparr>ext_blake3_hex = (\<lambda>bytes. replicate 64 (last bytes)),
      ext_cell_key_json = (\<lambda>key. if key = scenario_origin then Inr ''a'' else Inr ''b'')\<rparr>"

definition bundle_json :: "bundled_placement_root_material \<Rightarrow> string + string" where
  "bundle_json material = Inr ''c''"

definition bundle_plan :: bundled_placement_plan where
  "bundle_plan = \<lparr>bpp_root_aggregate_id = ''ship'', bpp_source_cell_key = scenario_origin,
     bpp_source_cell_id = replicate 64 (CHR ''a''), bpp_destination_cell_key = scenario_east,
     bpp_destination_cell_id = replicate 64 (CHR ''b''),
     bpp_members = [\<lparr>bpm_aggregate_id = ''rider'', bpm_aggregate_kind = Player,
                      bpm_prior_placement_generation = 4, bpm_resulting_placement_generation = 5\<rparr>,
                    \<lparr>bpm_aggregate_id = ''ship'', bpm_aggregate_kind = Grid,
                      bpm_prior_placement_generation = 1, bpm_resulting_placement_generation = 2\<rparr>],
     bpp_member_root = replicate 64 (CHR ''c'')\<rparr>"

definition bundle_resident :: "string \<Rightarrow> mobile_aggregate_kind \<Rightarrow> u64 \<Rightarrow> aggregate_placement_record" where
  "bundle_resident aid kind generation = \<lparr>plc_aggregate_id = aid, plc_aggregate_kind = kind,
     plc_cell_key = scenario_origin, plc_cell_id = replicate 64 (CHR ''a''),
     plc_placement_generation = generation, plc_state = Resident, plc_active_transfer_id = None\<rparr>"

definition bundle_placements :: "(string, aggregate_placement_record) btree_map" where
  "bundle_placements = bt_insert ''ship'' (bundle_resident ''ship'' Grid 1)
     (bt_insert ''rider'' (bundle_resident ''rider'' Player 4)
       (bt_insert ''drone'' (bundle_resident ''drone'' Grid 1) bt_empty))"

abbreviation bundle_stage ::
    "(string, aggregate_placement_record) btree_map \<Rightarrow> bundled_placement_transition \<Rightarrow>
     cell_directory_error + (string, aggregate_placement_record) btree_map" where
  "bundle_stage s tr \<equiv> stage_bundled_placement_transition bundle_externals bundle_json s bundle_plan ''t''
     (replicate 64 (CHR ''c'')) tr"

lemma bundle_prepared: "is_ok (bundle_stage bundle_placements PrepareBundle)"
  by code_simp

section \<open>Properties\<close>

text \<open>
  Aborting a bundle right after its prepare restores every placement of the directory
  exactly as it was.
\<close>

theorem bundle_abort_restores:
  assumes "stage_bundled_placement_transition ext json s plan tid root PrepareBundle = Inr s1"
  shows "stage_bundled_placement_transition ext json s1 plan tid root AbortBundle = Inr s"
proof -
  obtain s2 where s2: "stage_bundled_placement_transition ext json s1 plan tid root AbortBundle = Inr s2"
    using stage_bundle_next [OF assms, of AbortBundle] by auto
  have "bt_get s2 aid = bt_get s aid" for aid
  proof (cases "aid \<in> bpm_aggregate_id ` set (bpp_members plan)")
    case True
    then obtain m where m: "m \<in> set (bpp_members plan)" "aid = bpm_aggregate_id m" by blast
    show ?thesis
      by (rule stage_bundle_member [OF assms m(1)], rule stage_bundle_member [OF s2 m(1)])
        (auto simp: m(2) intro!: aggregate_placement_record.equality)
  next
    case False
    with stage_bundle_nonmember [OF assms] stage_bundle_nonmember [OF s2] show ?thesis by simp
  qed
  then have "s2 = s" by (rule bt_eqI)
  with s2 show ?thesis by simp
qed

theorem bundle_abort_restores_witness:
  "\<exists>s1. bundle_stage bundle_placements PrepareBundle = Inr s1 \<and>
     bundle_stage s1 AbortBundle = Inr bundle_placements"
  using bundle_prepared bundle_abort_restores unfolding is_ok_iff by blast

text \<open>
  C31: A prepared bundle commits and imports as a whole: both transitions are accepted, every
  member ends resident in the destination cell at its resulting generation with nothing else
  of its record changed, and no other placement of the directory is touched.
\<close>

theorem bundle_moves_together:
  assumes prep: "stage_bundled_placement_transition ext json s plan tid root PrepareBundle = Inr s1"
  shows "\<exists>s2 s3. stage_bundled_placement_transition ext json s1 plan tid root CommitBundle = Inr s2 \<and>
    stage_bundled_placement_transition ext json s2 plan tid root ImportBundle = Inr s3 \<and>
    list_all (\<lambda>m. bt_get s3 (bpm_aggregate_id m) =
      map_option (\<lambda>p. p\<lparr>plc_cell_key := bpp_destination_cell_key plan,
                       plc_cell_id := bpp_destination_cell_id plan,
                       plc_placement_generation := bpm_resulting_placement_generation m\<rparr>)
        (bt_get s (bpm_aggregate_id m)) \<and> bt_contains s3 (bpm_aggregate_id m)) (bpp_members plan) \<and>
    (\<forall>aid. aid \<in> bpm_aggregate_id ` set (bpp_members plan) \<or> bt_get s3 aid = bt_get s aid)"
proof -
  obtain s2 where s2: "stage_bundled_placement_transition ext json s1 plan tid root CommitBundle = Inr s2"
    using stage_bundle_next [OF prep, of CommitBundle] by auto
  obtain s3 where s3: "stage_bundled_placement_transition ext json s2 plan tid root ImportBundle = Inr s3"
    using stage_bundle_next [OF s2, of ImportBundle] stage_bundle_member [OF prep] stage_bundle_member [OF s2]
    by (auto simp: intro: ex_comm)
  have "bt_get s3 (bpm_aggregate_id m) =
      map_option (\<lambda>p. p\<lparr>plc_cell_key := bpp_destination_cell_key plan,
                       plc_cell_id := bpp_destination_cell_id plan,
                       plc_placement_generation := bpm_resulting_placement_generation m\<rparr>)
        (bt_get s (bpm_aggregate_id m)) \<and> bt_contains s3 (bpm_aggregate_id m)"
    if m: "m \<in> set (bpp_members plan)" for m
    by (rule stage_bundle_member [OF prep m], rule stage_bundle_member [OF s2 m], rule stage_bundle_member [OF s3 m])
      (auto simp: bt_contains_def intro!: aggregate_placement_record.equality)
  moreover have "aid \<in> bpm_aggregate_id ` set (bpp_members plan) \<or> bt_get s3 aid = bt_get s aid" for aid
    using stage_bundle_nonmember [OF prep] stage_bundle_nonmember [OF s2] stage_bundle_nonmember [OF s3] by auto
  ultimately show ?thesis using s2 s3 unfolding list_all_iff by blast
qed

theorem bundle_moves_together_witness:
  "\<exists>s1 s2 s3. bundle_stage bundle_placements PrepareBundle = Inr s1 \<and>
     bundle_stage s1 CommitBundle = Inr s2 \<and> bundle_stage s2 ImportBundle = Inr s3"
  using bundle_prepared bundle_moves_together unfolding is_ok_iff by blast

end
