(* ===== verification/StoreMonad.thy ===== *)
theory StoreMonad
  imports Prelude
begin

text \<open>
  Operations that update a state and may fail half way: what has been written before an
  early return stays written. \<open>bind_op\<close> is the \<open>?\<close> of the source on such operations, and
  \<open>wp\<close> is the weakest precondition the proofs about such operations are stated with.
\<close>

type_synonym ('s, 'e, 'a) operation = "'s \<Rightarrow> 's \<times> ('e + 'a)"

definition return_op :: "'a \<Rightarrow> ('s, 'e, 'a) operation" where
  "return_op x s = (s, Inr x)"

definition fail_op :: "'e \<Rightarrow> ('s, 'e, 'a) operation" where
  "fail_op e s = (s, Inl e)"

definition lift_op :: "'e + 'a \<Rightarrow> ('s, 'e, 'a) operation" where
  "lift_op r s = (s, r)"

definition get_op :: "('s \<Rightarrow> 'a) \<Rightarrow> ('s, 'e, 'a) operation" where
  "get_op f s = (s, Inr (f s))"

definition modify_op :: "('s \<Rightarrow> 's) \<Rightarrow> ('s, 'e, unit) operation" where
  "modify_op f s = (f s, Inr ())"

definition bind_op ::
    "('s, 'e, 'a) operation \<Rightarrow> ('a \<Rightarrow> ('s, 'e, 'b) operation) \<Rightarrow> ('s, 'e, 'b) operation" where
  "bind_op m f s = (case m s of (s', Inl e) \<Rightarrow> (s', Inl e) | (s', Inr x) \<Rightarrow> f x s')"

definition guard_op :: "bool \<Rightarrow> 'e \<Rightarrow> ('s, 'e, unit) operation" where
  "guard_op b e = (if b then return_op () else fail_op e)"

named_theorems op_simps \<open>evaluation of operations\<close>

lemma basic_op_simps [op_simps]:
  "return_op x s = (s, Inr x)" "fail_op e s = (s, Inl e)" "lift_op r s = (s, r)"
  "get_op f s = (s, Inr (f s))" "modify_op g s = (g s, Inr ())"
  "guard_op b e s = (if b then (s, Inr ()) else (s, Inl e))"
  by (simp_all add: return_op_def fail_op_def lift_op_def get_op_def modify_op_def guard_op_def)

lemma bind_op_simps [op_simps]:
  "m s = (s', Inl e) \<Longrightarrow> bind_op m f s = (s', Inl e)"
  "m s = (s', Inr x) \<Longrightarrow> bind_op m f s = f x s'"
  by (simp_all add: bind_op_def)

lemma bind_op_Inr:
  "bind_op m f s = (t, Inr y) \<longleftrightarrow> (\<exists>s' x. m s = (s', Inr x) \<and> f x s' = (t, Inr y))"
  by (auto simp: bind_op_def split: prod.splits sum.splits)

lemma bind_op_cases:
  assumes "bind_op m f s = (t, r)"
  obtains e where "m s = (t, Inl e)" "r = Inl e" | s' x where "m s = (s', Inr x)" "f x s' = (t, r)"
  using assms by (auto simp: bind_op_def split: prod.splits sum.splits)

section \<open>Weakest preconditions\<close>

text \<open>
  \<open>wp m Q E s\<close>: from \<open>s\<close>, the operation ends in a state with \<open>Q x\<close> when it returns \<open>x\<close>, and
  in a state with \<open>E\<close> when it fails. The rules of \<open>wp_intro\<close> decompose an operation.
\<close>

definition wp ::
    "('s, 'e, 'a) operation \<Rightarrow> ('a \<Rightarrow> 's \<Rightarrow> bool) \<Rightarrow> ('e \<Rightarrow> 's \<Rightarrow> bool) \<Rightarrow> 's \<Rightarrow> bool" where
  "wp m Q E s = (case m s of (s', Inr x) \<Rightarrow> Q x s' | (s', Inl e) \<Rightarrow> E e s')"

named_theorems wp_intro \<open>decomposition of weakest preconditions\<close>

lemma wp_bind [wp_intro]: "wp m (\<lambda>x. wp (f x) Q E) E s \<Longrightarrow> wp (bind_op m f) Q E s"
  by (auto simp: wp_def bind_op_def split: prod.splits sum.splits)

lemma wp_return_op [wp_intro]: "Q x s \<Longrightarrow> wp (return_op x) Q E s"
  by (simp add: wp_def op_simps)

lemma wp_fail_op [wp_intro]: "E e s \<Longrightarrow> wp (fail_op e) Q E s"
  by (simp add: wp_def op_simps)

lemma wp_get_op [wp_intro]: "Q (f s) s \<Longrightarrow> wp (get_op f) Q E s"
  by (simp add: wp_def op_simps)

lemma wp_modify_op [wp_intro]: "Q () (g s) \<Longrightarrow> wp (modify_op g) Q E s"
  by (simp add: wp_def op_simps)

lemma wp_guard_op [wp_intro]:
  "(b \<Longrightarrow> Q () s) \<Longrightarrow> (\<not> b \<Longrightarrow> E err s) \<Longrightarrow> wp (guard_op b err) Q E s"
  by (simp add: wp_def op_simps)

lemma wp_lift_op [wp_intro]:
  "(\<And>y. r = Inr y \<Longrightarrow> Q y s) \<Longrightarrow> (\<And>e. r = Inl e \<Longrightarrow> E e s) \<Longrightarrow> wp (lift_op r) Q E s"
  by (auto simp: wp_def op_simps split: sum.splits)

lemma wp_option [wp_intro]:
  "(x = None \<Longrightarrow> wp m Q E s) \<Longrightarrow> (\<And>y. x = Some y \<Longrightarrow> wp (f y) Q E s) \<Longrightarrow>
     wp (case x of None \<Rightarrow> m | Some y \<Rightarrow> f y) Q E s"
  by (cases x) simp_all

lemma wp_if [wp_intro]: "(b \<Longrightarrow> wp m Q E s) \<Longrightarrow> (\<not> b \<Longrightarrow> wp m' Q E s) \<Longrightarrow> wp (if b then m else m') Q E s"
  by simp

lemma wp_conseq:
  "wp m Q' E' s \<Longrightarrow> (\<And>x s'. Q' x s' \<Longrightarrow> Q x s') \<Longrightarrow> (\<And>e s'. E' e s' \<Longrightarrow> E e s') \<Longrightarrow> wp m Q E s"
  by (auto simp: wp_def split: prod.splits sum.splits)

lemma wp_result:
  "wp m Q E s \<Longrightarrow> m s = (s', Inr x) \<Longrightarrow> Q x s'"
  "wp m Q E s \<Longrightarrow> m s = (s', Inl e) \<Longrightarrow> E e s'"
  by (simp_all add: wp_def)

lemma wp_always: "wp m (\<lambda>_. P) (\<lambda>_. P) s \<Longrightarrow> P (fst (m s))"
  by (auto simp: wp_def split: prod.splits sum.splits)

section \<open>Stable and refused\<close>

text \<open>
  An operation is \<open>stable\<close> for a predicate when it keeps it, whatever the result, and
  \<open>refused\<close> when it keeps it and fails.
\<close>

definition stable :: "('s \<Rightarrow> bool) \<Rightarrow> ('s, 'e, 'a) operation \<Rightarrow> bool" where
  "stable P m \<longleftrightarrow> (\<forall>s. P s \<longrightarrow> wp m (\<lambda>_. P) (\<lambda>_. P) s)"

definition refused :: "('s \<Rightarrow> bool) \<Rightarrow> ('s, 'e, 'a) operation \<Rightarrow> bool" where
  "refused P m \<longleftrightarrow> (\<forall>s. P s \<longrightarrow> wp m (\<lambda>_ _. False) (\<lambda>_. P) s)"

lemma stableI: "(\<And>s. P s \<Longrightarrow> wp m (\<lambda>_. P) (\<lambda>_. P) s) \<Longrightarrow> stable P m"
  by (simp add: stable_def)

lemma refusedI: "(\<And>s. P s \<Longrightarrow> wp m (\<lambda>_ _. False) (\<lambda>_. P) s) \<Longrightarrow> refused P m"
  by (simp add: refused_def)

lemma wp_stable:
  "stable P m \<Longrightarrow> P s \<Longrightarrow> (\<And>x s'. P s' \<Longrightarrow> Q x s') \<Longrightarrow> (\<And>e s'. P s' \<Longrightarrow> E e s') \<Longrightarrow> wp m Q E s"
  by (rule wp_conseq [where Q' = "\<lambda>_. P" and E' = "\<lambda>_. P"]) (auto simp: stable_def)

lemma wp_refused:
  "refused P m \<Longrightarrow> P s \<Longrightarrow> (\<And>e s'. P s' \<Longrightarrow> E e s') \<Longrightarrow> wp m Q E s"
  by (rule wp_conseq [where Q' = "\<lambda>_ _. False" and E' = "\<lambda>_. P"]) (auto simp: refused_def)

lemma refused_bind: "refused P m \<Longrightarrow> refused P (bind_op m f)"
  by (rule refusedI) (rule wp_bind, erule (1) wp_refused)

lemma refused_stable: "refused P m \<Longrightarrow> stable P m"
  by (rule stableI) (erule (1) wp_refused)

lemma stable_result: "stable P m \<Longrightarrow> P s \<Longrightarrow> m s = (s', r) \<Longrightarrow> P s'"
  using wp_always [of m P s] by (simp add: stable_def)

end
