(* ===== verification/Lifecycle.thy ===== *)
theory Lifecycle
  imports StoreMonad Celestial "HOL-Library.Product_Lexorder"
begin

text \<open>
  The store of one cell (\<open>crates/verse-simulation/src/persistence.rs\<close>): the lifecycle record
  with its fenced lease, the journal of canonical events, the snapshot and the boundaries of
  transfers. An operation works on the files and on the open store together; every reading
  of the clock and the outcome of every write are taken from the state, so that a failure can
  happen at each of them.
\<close>

section \<open>Records\<close>

datatype lifecycle_mode = ModeSleeping | ModeActivating | ModeBackground | ModeActive | ModeDraining

record production_schedule_occurrence =
  occ_schema_version :: u32
  occ_universe_id :: string
  occ_cell_id :: string
  occ_lifecycle_generation :: u64
  occ_production_quantum_sequence :: u64
  occ_scheduled_for_unix_ms :: u64
  occ_universe_manifest_hash :: string
  occ_celestial_registry_hash :: string

record pending_world_commit =
  pwc_event_sequence :: u64
  pwc_event_hash :: string
  pwc_occurred_at_unix_ms :: u64
  pwc_prior_next_occurrence :: "production_schedule_occurrence option"
  pwc_resulting_next_occurrence :: "production_schedule_occurrence option"

record cell_lifecycle_record =
  lcr_schema_version :: u32
  lcr_universe_id :: string
  lcr_cell_id :: string
  lcr_universe_manifest_hash :: string
  lcr_celestial_registry_hash :: string
  lcr_lifecycle_revision :: u64
  lcr_desired_mode :: lifecycle_mode
  lcr_observed_mode :: lifecycle_mode
  lcr_fencing_token :: u64
  lcr_holder_id :: "string option"
  lcr_acquired_at_unix_ms :: "u64 option"
  lcr_renewed_at_unix_ms :: "u64 option"
  lcr_expires_at_unix_ms :: "u64 option"
  lcr_activation_cutoff_unix_ms :: "u64 option"
  lcr_last_trusted_unix_ms :: u64
  lcr_last_world_event_sequence :: u64
  lcr_last_world_event_hash :: string
  lcr_last_world_state_hash :: string
  lcr_transfer_boundary_head_hash :: string
  lcr_next_production_occurrence :: "production_schedule_occurrence option"
  lcr_acknowledged_production_sequence :: u64
  lcr_pending_world_commit :: "pending_world_commit option"
  lcr_updated_at_unix_ms :: u64

text \<open>The fields of the runtime universe manifest that the store compares.\<close>

record store_manifest =
  smf_universe_id :: string
  smf_content_manifest_version :: string
  smf_manifest_hash :: string
  smf_celestial_registry_hash :: string

text \<open>
  What the store reads of a world state: fields, and the results of \<open>state_hash\<close>,
  \<open>validate_player_roster\<close>, \<open>background_production_is_runnable\<close> and
  \<open>next_production_occurrence_at\<close>.
\<close>

record world_view =
  wv_world_seed :: u64
  wv_universe_id :: string
  wv_content_manifest_version :: string
  wv_universe_manifest_hash :: string
  wv_celestial_registry_hash :: string
  wv_cell_id :: string
  wv_cell_address :: universe_address
  wv_event_sequence :: u64
  wv_last_event_hash :: string
  wv_fencing_token :: u64
  wv_clock_lifecycle_generation :: u64
  wv_clock_last_committed_quantum_sequence :: u64
  wv_clock_last_scheduled_for_unix_ms :: u64
  wv_state_hash :: string
  wv_player_roster :: "string + unit"
  wv_runnable :: "string + bool"
  wv_next_occurrence_at :: "u64 \<Rightarrow> string + production_schedule_occurrence"

datatype transfer_boundary_kind =
  BoundaryPrepare | BoundaryQuarantine | BoundaryImport | BoundaryExport
  | BoundaryAbortSource | BoundaryAbortDestination

record durable_transfer_boundary =
  dtb_transfer_id :: string
  dtb_package_hash :: string
  dtb_receipt_hash :: "string option"
  dtb_cell_id :: string
  dtb_kind :: transfer_boundary_kind
  dtb_authority_fencing_token :: u64
  dtb_event_sequence :: u64
  dtb_event_hash :: string
  dtb_resulting_world_hash :: string
  dtb_previous_boundary_hash :: string
  dtb_boundary_hash :: string

text \<open>A transfer package as the store sees it; the last field is the result of \<open>hash_is_valid\<close>.\<close>

record package_view =
  pkv_transfer_id :: string
  pkv_package_hash :: string
  pkv_source_cell_id :: string
  pkv_destination_cell_id :: string
  pkv_hash_is_valid :: bool

datatype event_payload =
    PlayerTransferPrepared package_view
  | PlayerTransferQuarantined package_view string
  | PlayerTransferImported package_view string
  | PlayerTransferExported package_view
  | PlayerTransferAborted package_view
  | OtherPayload

record canonical_event =
  evt_schema_name :: string
  evt_schema_version :: u32
  evt_event_sequence :: u64
  evt_previous_event_hash :: string
  evt_event_hash :: string
  evt_authority_fencing_token :: u64
  evt_occurred_at_unix_ms :: u64
  evt_content_manifest_version :: string
  evt_universe_id :: string
  evt_cell_id :: string
  evt_universe_manifest_hash :: string
  evt_celestial_registry_hash :: string
  evt_payload :: event_payload
  evt_hash_is_valid :: bool

text \<open>A line of the journal: blank, not a readable event, or an event.\<close>

datatype journal_line = BlankLine | UnreadableLine string | EventLine canonical_event

text \<open>The snapshot repeats three fields of its state, which are compared on loading.\<close>

record snapshot_document =
  snd_schema_version :: u32
  snd_state_hash :: string
  snd_event_sequence :: u64
  snd_last_event_hash :: string
  snd_state :: world_view

datatype persistence_error =
    StoreIo string
  | SnapshotSchema u32 u32
  | SnapshotHashMismatch
  | InvalidCellIdentity string
  | CorruptJournal nat string
  | EventSchema nat string u32
  | Replay u64 string
  | LiveFenceNotNewer u64 u64
  | MissingLifecycleControl
  | InvalidLifecycleControl string
  | WorldUniverseBindingMismatch
  | EventUniverseBindingMismatch string
  | InvalidPlayerRoster string
  | FencingTokenChanged u64 u64
  | FencingTokenExhausted
  | LeaseOwnershipChanged
  | StoreReleased
  | LeaseExpired u64 u64
  | LeaseSafetyMarginInsufficient u64 u64
  | TrustedClockRollback u64 u64
  | TrustedClockUnavailable
  | LifecycleWorldFrontierMismatch
  | InvalidHistoricalFence nat u64 u64
  | HistoricalFenceSnapshotMismatch nat u64 u64
  | InvalidTransferBoundary string

definition LIFECYCLE_CONTROL_SCHEMA_VERSION :: u32 where
  "LIFECYCLE_CONTROL_SCHEMA_VERSION = 2"

definition WORLD_SCHEMA_VERSION :: u32 where "WORLD_SCHEMA_VERSION = 20"
definition EVENT_SCHEMA_NAME :: string where "EVENT_SCHEMA_NAME = ''verse.world_event''"
definition EVENT_SCHEMA_VERSION :: u32 where "EVENT_SCHEMA_VERSION = 16"

definition PRODUCTION_SCHEDULE_OCCURRENCE_SCHEMA_VERSION :: u32 where
  "PRODUCTION_SCHEDULE_OCCURRENCE_SCHEMA_VERSION = 1"

definition LEASE_DURATION_MILLIS :: u64 where "LEASE_DURATION_MILLIS = 15000"
definition LEASE_RENEWAL_INTERVAL_MILLIS :: u64 where "LEASE_RENEWAL_INTERVAL_MILLIS = 5000"
definition LEASE_WRITE_SAFETY_MARGIN_MILLIS :: u64 where "LEASE_WRITE_SAFETY_MARGIN_MILLIS = 5000"
definition TRUSTED_CLOCK_ROLLBACK_TOLERANCE_MILLIS :: u64 where
  "TRUSTED_CLOCK_ROLLBACK_TOLERANCE_MILLIS = 1000"

text \<open>The index of boundaries is ordered by transfer and kind, kinds in the order of their declaration.\<close>

fun boundary_kind_index :: "transfer_boundary_kind \<Rightarrow> nat" where
  "boundary_kind_index BoundaryPrepare = 0"
| "boundary_kind_index BoundaryQuarantine = 1"
| "boundary_kind_index BoundaryImport = 2"
| "boundary_kind_index BoundaryExport = 3"
| "boundary_kind_index BoundaryAbortSource = 4"
| "boundary_kind_index BoundaryAbortDestination = 5"

lemma boundary_kind_index_inj: "boundary_kind_index a = boundary_kind_index b \<Longrightarrow> a = b"
  by (cases a; cases b) simp_all

instantiation transfer_boundary_kind :: linorder
begin

definition less_eq_transfer_boundary_kind :: "transfer_boundary_kind \<Rightarrow> transfer_boundary_kind \<Rightarrow> bool" where
  "less_eq_transfer_boundary_kind a b = (boundary_kind_index a \<le> boundary_kind_index b)"

definition less_transfer_boundary_kind :: "transfer_boundary_kind \<Rightarrow> transfer_boundary_kind \<Rightarrow> bool" where
  "less_transfer_boundary_kind a b = (boundary_kind_index a < boundary_kind_index b)"

instance
  by standard (auto simp: less_eq_transfer_boundary_kind_def less_transfer_boundary_kind_def
      intro: boundary_kind_index_inj)

end

section \<open>Pure checks\<close>

definition accept_trusted_time :: "u64 \<Rightarrow> u64 \<Rightarrow> persistence_error + u64" where
  "accept_trusted_time sample previous =
     (let rollback_floor = saturating_sub previous TRUSTED_CLOCK_ROLLBACK_TOLERANCE_MILLIS in
      if sample < rollback_floor then Inl (TrustedClockRollback previous sample)
      else Inr (max sample previous))"

fun valid_lifecycle_transition :: "lifecycle_mode \<Rightarrow> lifecycle_mode \<Rightarrow> bool" where
  "valid_lifecycle_transition ModeSleeping to = (to \<in> {ModeActivating, ModeBackground})"
| "valid_lifecycle_transition ModeBackground to = (to \<in> {ModeActivating, ModeSleeping})"
| "valid_lifecycle_transition ModeActivating to = (to = ModeActive)"
| "valid_lifecycle_transition ModeActive to = (to = ModeDraining)"
| "valid_lifecycle_transition ModeDraining to = (to \<in> {ModeBackground, ModeSleeping})"

definition validate_live_lease_record ::
    "cell_lifecycle_record \<Rightarrow> u64 \<Rightarrow> cell_lifecycle_record \<Rightarrow> u64 \<Rightarrow> persistence_error + unit" where
  "validate_live_lease_record expected fencing_token found now_unix_ms =
     (if lcr_fencing_token found \<noteq> fencing_token
      then Inl (FencingTokenChanged fencing_token (lcr_fencing_token found))
      else if lcr_schema_version found \<noteq> LIFECYCLE_CONTROL_SCHEMA_VERSION \<or> found \<noteq> expected
      then Inl LeaseOwnershipChanged
      else
      try_r (ok_or (lcr_expires_at_unix_ms found) LeaseOwnershipChanged) (\<lambda>expires_at_unix_ms.
      if expires_at_unix_ms \<le> now_unix_ms
      then Inl (LeaseExpired expires_at_unix_ms now_unix_ms)
      else Inr ()))"

definition validate_occurrence_binding ::
    "production_schedule_occurrence \<Rightarrow> cell_lifecycle_record \<Rightarrow> persistence_error + unit" where
  "validate_occurrence_binding occurrence lifecycle =
     (if occ_schema_version occurrence \<noteq> PRODUCTION_SCHEDULE_OCCURRENCE_SCHEMA_VERSION
         \<or> occ_universe_id occurrence \<noteq> lcr_universe_id lifecycle
         \<or> occ_cell_id occurrence \<noteq> lcr_cell_id lifecycle
         \<or> occ_universe_manifest_hash occurrence \<noteq> lcr_universe_manifest_hash lifecycle
         \<or> occ_celestial_registry_hash occurrence \<noteq> lcr_celestial_registry_hash lifecycle
         \<or> occ_lifecycle_generation occurrence = 0
         \<or> occ_production_quantum_sequence occurrence = 0
         \<or> occ_scheduled_for_unix_ms occurrence = 0
      then Inl (InvalidLifecycleControl ''production occurrence binding is invalid'')
      else Inr ())"

definition validate_lifecycle_mode :: "cell_lifecycle_record \<Rightarrow> persistence_error + unit" where
  "validate_lifecycle_mode lifecycle =
     (if lcr_observed_mode lifecycle = ModeSleeping then
        if lcr_holder_id lifecycle \<noteq> None
           \<or> lcr_acquired_at_unix_ms lifecycle \<noteq> None
           \<or> lcr_renewed_at_unix_ms lifecycle \<noteq> None
           \<or> lcr_expires_at_unix_ms lifecycle \<noteq> None
        then Inl (InvalidLifecycleControl ''sleeping lifecycle cannot retain a live holder or lease times'')
        else if lcr_activation_cutoff_unix_ms lifecycle \<noteq> None
        then Inl (InvalidLifecycleControl ''sleeping lifecycle cannot retain an activation cut-off'')
        else Inr ()
      else
        let holder_id = (case lcr_holder_id lifecycle of None \<Rightarrow> [] | Some h \<Rightarrow> h) in
        case (lcr_acquired_at_unix_ms lifecycle, lcr_renewed_at_unix_ms lifecycle,
              lcr_expires_at_unix_ms lifecycle) of
          (Some acquired, Some renewed, Some expires) \<Rightarrow>
            if lcr_fencing_token lifecycle = 0
               \<or> holder_id = []
               \<or> renewed < acquired
               \<or> lcr_last_trusted_unix_ms lifecycle < renewed
               \<or> expires \<le> lcr_last_trusted_unix_ms lifecycle
            then Inl (InvalidLifecycleControl ''live lifecycle holder, fence, or timestamps are not canonical'')
            else (case lcr_activation_cutoff_unix_ms lifecycle of
                    Some cutoff \<Rightarrow>
                      if lcr_observed_mode lifecycle = ModeActivating then
                        (if cutoff \<le> lcr_last_trusted_unix_ms lifecycle then Inr ()
                         else Inl (InvalidLifecycleControl ''activating lifecycle requires a trusted wake cut-off''))
                      else Inl (InvalidLifecycleControl ''only an activating lifecycle may retain a wake cut-off'')
                  | None \<Rightarrow>
                      if lcr_observed_mode lifecycle = ModeActivating
                      then Inl (InvalidLifecycleControl ''activating lifecycle requires a trusted wake cut-off'')
                      else Inr ())
        | _ \<Rightarrow> Inl (InvalidLifecycleControl ''live lifecycle requires complete lease times''))"

definition validate_prior_lifecycle ::
    "cell_lifecycle_record \<Rightarrow> store_manifest \<Rightarrow> string \<Rightarrow> persistence_error + unit" where
  "validate_prior_lifecycle lifecycle manifest expected_cell_id =
     (if lcr_schema_version lifecycle \<noteq> LIFECYCLE_CONTROL_SCHEMA_VERSION
      then Inl (InvalidLifecycleControl (''schema '' @ show_nat (unat (lcr_schema_version lifecycle))
                  @ '' is unsupported; expected '' @ show_nat (unat LIFECYCLE_CONTROL_SCHEMA_VERSION)))
      else if lcr_universe_id lifecycle \<noteq> smf_universe_id manifest
         \<or> lcr_cell_id lifecycle \<noteq> expected_cell_id
         \<or> lcr_universe_manifest_hash lifecycle \<noteq> smf_manifest_hash manifest
         \<or> lcr_celestial_registry_hash lifecycle \<noteq> smf_celestial_registry_hash manifest
      then Inl (InvalidLifecycleControl ''universe, cell, or manifest binding mismatch'')
      else if lcr_lifecycle_revision lifecycle = 0
      then Inl (InvalidLifecycleControl ''lifecycle revision must be positive'')
      else if lcr_transfer_boundary_head_hash lifecycle \<noteq> []
         \<and> \<not> valid_blake3_hex (lcr_transfer_boundary_head_hash lifecycle)
      then Inl (InvalidLifecycleControl ''transfer boundary head is not a canonical hash'')
      else
      try_r (validate_lifecycle_mode lifecycle) (\<lambda>_.
      if lcr_updated_at_unix_ms lifecycle < lcr_last_trusted_unix_ms lifecycle
      then Inl (InvalidLifecycleControl ''lifecycle update time precedes trusted time'')
      else if 0 < lcr_last_world_event_sequence lifecycle
         \<and> (length (lcr_last_world_event_hash lifecycle) \<noteq> 64
            \<or> length (lcr_last_world_state_hash lifecycle) \<noteq> 64)
      then Inl (InvalidLifecycleControl ''nonempty world frontier requires canonical hashes'')
      else
      try_r (if_some_r (lcr_next_production_occurrence lifecycle) (\<lambda>occurrence.
               try_r (validate_occurrence_binding occurrence lifecycle) (\<lambda>_.
               if occ_production_quantum_sequence occurrence
                    \<le> lcr_acknowledged_production_sequence lifecycle
               then Inl (InvalidLifecycleControl
                           ''next production occurrence does not follow the acknowledged frontier'')
               else Inr ()))) (\<lambda>_.
      if_some_r (lcr_pending_world_commit lifecycle) (\<lambda>pending.
        if pwc_event_sequence pending \<le> lcr_last_world_event_sequence lifecycle
           \<or> length (pwc_event_hash pending) \<noteq> 64
           \<or> pwc_occurred_at_unix_ms pending = 0
        then Inl (InvalidLifecycleControl
                    ''pending world commit does not follow the durable world frontier'')
        else
        try_r (if_some_r (pwc_prior_next_occurrence pending) (\<lambda>occurrence.
                 validate_occurrence_binding occurrence lifecycle)) (\<lambda>_.
        if_some_r (pwc_resulting_next_occurrence pending) (\<lambda>occurrence.
          validate_occurrence_binding occurrence lifecycle))))))"

section \<open>Transfer boundaries\<close>

definition boundary_abort_kind ::
    "canonical_event \<Rightarrow> package_view \<Rightarrow> persistence_error + transfer_boundary_kind" where
  "boundary_abort_kind event package =
     (if evt_cell_id event = pkv_source_cell_id package then Inr BoundaryAbortSource
      else if evt_cell_id event = pkv_destination_cell_id package then Inr BoundaryAbortDestination
      else Inl (InvalidTransferBoundary ''abort event belongs to neither transfer cell''))"

fun boundary_cell :: "transfer_boundary_kind \<Rightarrow> package_view \<Rightarrow> string" where
  "boundary_cell BoundaryPrepare package = pkv_source_cell_id package"
| "boundary_cell BoundaryExport package = pkv_source_cell_id package"
| "boundary_cell BoundaryAbortSource package = pkv_source_cell_id package"
| "boundary_cell BoundaryQuarantine package = pkv_destination_cell_id package"
| "boundary_cell BoundaryImport package = pkv_destination_cell_id package"
| "boundary_cell BoundaryAbortDestination package = pkv_destination_cell_id package"

definition make_transfer_boundary ::
    "canonical_event \<Rightarrow> string \<Rightarrow> package_view \<Rightarrow> string option \<Rightarrow> transfer_boundary_kind \<Rightarrow>
     persistence_error + durable_transfer_boundary option" where
  "make_transfer_boundary event resulting_world_hash package receipt_hash kind =
     (if \<not> evt_hash_is_valid event
         \<or> evt_authority_fencing_token event = 0
         \<or> evt_event_sequence event = 0
         \<or> \<not> valid_blake3_hex resulting_world_hash
      then Inl (InvalidTransferBoundary ''event, fence, sequence, or resulting world hash is invalid'')
      else if \<not> pkv_hash_is_valid package
         \<or> pkv_transfer_id package = []
         \<or> evt_cell_id event \<noteq> boundary_cell kind package
      then Inl (InvalidTransferBoundary ''transfer event is not bound to its package and cell'')
      else Inr (Some \<lparr>dtb_transfer_id = pkv_transfer_id package,
                      dtb_package_hash = pkv_package_hash package,
                      dtb_receipt_hash = receipt_hash, dtb_cell_id = evt_cell_id event,
                      dtb_kind = kind,
                      dtb_authority_fencing_token = evt_authority_fencing_token event,
                      dtb_event_sequence = evt_event_sequence event,
                      dtb_event_hash = evt_event_hash event,
                      dtb_resulting_world_hash = resulting_world_hash,
                      dtb_previous_boundary_hash = [], dtb_boundary_hash = []\<rparr>))"

fun boundary_of_payload ::
    "event_payload \<Rightarrow> canonical_event \<Rightarrow> string \<Rightarrow> persistence_error + durable_transfer_boundary option" where
  "boundary_of_payload (PlayerTransferPrepared package) event h =
     make_transfer_boundary event h package None BoundaryPrepare"
| "boundary_of_payload (PlayerTransferQuarantined package receipt_hash) event h =
     make_transfer_boundary event h package (Some receipt_hash) BoundaryQuarantine"
| "boundary_of_payload (PlayerTransferImported package receipt_hash) event h =
     make_transfer_boundary event h package (Some receipt_hash) BoundaryImport"
| "boundary_of_payload (PlayerTransferExported package) event h =
     make_transfer_boundary event h package None BoundaryExport"
| "boundary_of_payload (PlayerTransferAborted package) event h =
     try_r (boundary_abort_kind event package) (\<lambda>kind.
     make_transfer_boundary event h package None kind)"
| "boundary_of_payload OtherPayload event h = Inr None"

definition transfer_boundary_from_event ::
    "canonical_event \<Rightarrow> string \<Rightarrow> persistence_error + durable_transfer_boundary option" where
  "transfer_boundary_from_event event resulting_world_hash =
     boundary_of_payload (evt_payload event) event resulting_world_hash"

section \<open>The state of a store\<close>

text \<open>
  \<open>FileNotSynced\<close> is a write that reached the file although its synchronisation failed, so that
  the caller sees an error.
\<close>

datatype file_outcome = FileWritten | FileFailed persistence_error | FileNotSynced persistence_error

record store_state =
  sto_lifecycle_file :: "cell_lifecycle_record option"
  sto_journal_file :: "journal_line list"
  sto_snapshot_file :: "snapshot_document option"
  sto_boundary_file :: "durable_transfer_boundary list"
  sto_lifecycle :: cell_lifecycle_record
  sto_fencing_token :: u64
  sto_last_trusted_unix_ms :: u64
  sto_world_seed :: u64
  sto_cell_key :: cell_key_v1
  sto_cell_id :: string
  sto_manifest :: store_manifest
  sto_write_enabled :: bool
  sto_recovered_mode :: "lifecycle_mode option"
  sto_boundaries :: "(string \<times> transfer_boundary_kind, durable_transfer_boundary) btree_map"
  sto_clock :: "(persistence_error + u64) list"
  sto_writes :: "file_outcome list"

type_synonym 'a store_op = "(store_state, persistence_error, 'a) operation"

definition now_unix_ms :: "u64 store_op" where
  "now_unix_ms s =
     (case sto_clock s of
        [] \<Rightarrow> (s, Inl TrustedClockUnavailable)
      | sample # samples \<Rightarrow> (s\<lparr>sto_clock := samples\<rparr>, sample))"

definition write_file :: "(store_state \<Rightarrow> store_state) \<Rightarrow> unit store_op" where
  "write_file update s =
     (case sto_writes s of
        [] \<Rightarrow> (update s, Inr ())
      | FileWritten # ws \<Rightarrow> (update (s\<lparr>sto_writes := ws\<rparr>), Inr ())
      | FileFailed e # ws \<Rightarrow> (s\<lparr>sto_writes := ws\<rparr>, Inl e)
      | FileNotSynced e # ws \<Rightarrow> (update (s\<lparr>sto_writes := ws\<rparr>), Inl e))"

definition write_lifecycle_file :: "cell_lifecycle_record \<Rightarrow> unit store_op" where
  "write_lifecycle_file lifecycle = write_file (\<lambda>s. s\<lparr>sto_lifecycle_file := Some lifecycle\<rparr>)"

section \<open>Leases\<close>

definition trusted_unix_millis :: "u64 store_op" where
  "trusted_unix_millis =
     bind_op now_unix_ms (\<lambda>sample.
     bind_op (get_op sto_last_trusted_unix_ms) (\<lambda>previous.
     bind_op (lift_op (accept_trusted_time sample previous)) (\<lambda>accepted.
     bind_op (modify_op (\<lambda>s. s\<lparr>sto_last_trusted_unix_ms := accepted\<rparr>)) (\<lambda>_.
     return_op accepted))))"

definition maintain_live_lease :: "unit store_op" where
  "maintain_live_lease =
     bind_op (get_op sto_lifecycle_file) (\<lambda>file.
     bind_op (lift_op (ok_or file (StoreIo ''cell-lifecycle.json''))) (\<lambda>found.
     bind_op now_unix_ms (\<lambda>sample.
     bind_op (get_op sto_last_trusted_unix_ms) (\<lambda>previous.
     bind_op (lift_op (accept_trusted_time sample previous)) (\<lambda>now_ms.
     bind_op (get_op sto_lifecycle) (\<lambda>lifecycle.
     bind_op (get_op sto_fencing_token) (\<lambda>fencing_token.
     bind_op (lift_op (validate_live_lease_record lifecycle fencing_token found now_ms)) (\<lambda>_.
     bind_op (lift_op (ok_or (lcr_renewed_at_unix_ms lifecycle) LeaseOwnershipChanged)) (\<lambda>renewed_at.
     bind_op (lift_op (ok_or (lcr_expires_at_unix_ms lifecycle) LeaseOwnershipChanged)) (\<lambda>expires_at.
     let renewal_due = LEASE_RENEWAL_INTERVAL_MILLIS \<le> saturating_sub now_ms renewed_at;
         write_margin_low = saturating_sub expires_at now_ms < LEASE_WRITE_SAFETY_MARGIN_MILLIS in
     bind_op
       (if renewal_due \<or> write_margin_low then
          bind_op (lift_op (ok_or (checked_add now_ms LEASE_DURATION_MILLIS) TrustedClockUnavailable))
            (\<lambda>expires_at.
          let renewed = found\<lparr>lcr_renewed_at_unix_ms := Some now_ms,
                              lcr_expires_at_unix_ms := Some expires_at,
                              lcr_last_trusted_unix_ms := now_ms,
                              lcr_updated_at_unix_ms := now_ms\<rparr> in
          bind_op (write_lifecycle_file renewed) (\<lambda>_.
          modify_op (\<lambda>s. s\<lparr>sto_lifecycle := renewed\<rparr>)))
        else return_op ()) (\<lambda>_.
     modify_op (\<lambda>s. s\<lparr>sto_last_trusted_unix_ms := now_ms\<rparr>))))))))))))"

definition read_current_lease :: "cell_lifecycle_record store_op" where
  "read_current_lease =
     bind_op (get_op sto_lifecycle_file) (\<lambda>file. lift_op (ok_or file LeaseOwnershipChanged))"

text \<open>The loop of \<open>verify_live_lease_for_write\<close>, with the number of rounds left.\<close>

fun verify_lease_rounds :: "nat \<Rightarrow> u64 \<Rightarrow> unit store_op" where
  "verify_lease_rounds 0 remaining =
     fail_op (LeaseSafetyMarginInsufficient remaining LEASE_WRITE_SAFETY_MARGIN_MILLIS)"
| "verify_lease_rounds (Suc rounds) remaining =
     bind_op maintain_live_lease (\<lambda>_.
     bind_op trusted_unix_millis (\<lambda>now_ms.
     bind_op read_current_lease (\<lambda>found.
     bind_op (get_op sto_lifecycle) (\<lambda>lifecycle.
     bind_op (get_op sto_fencing_token) (\<lambda>fencing_token.
     bind_op (lift_op (validate_live_lease_record lifecycle fencing_token found now_ms)) (\<lambda>_.
     bind_op (lift_op (ok_or (lcr_expires_at_unix_ms found) LeaseOwnershipChanged)) (\<lambda>expires_at.
     let remaining = saturating_sub expires_at now_ms in
     if LEASE_WRITE_SAFETY_MARGIN_MILLIS \<le> remaining then return_op ()
     else verify_lease_rounds rounds remaining)))))))"

definition verify_live_lease_for_write :: "unit store_op" where
  "verify_live_lease_for_write =
     bind_op (get_op sto_write_enabled) (\<lambda>write_enabled.
     bind_op (guard_op write_enabled StoreReleased) (\<lambda>_.
     verify_lease_rounds 2 0))"

definition persist_lifecycle :: "cell_lifecycle_record \<Rightarrow> unit store_op" where
  "persist_lifecycle lifecycle =
     bind_op trusted_unix_millis (\<lambda>now_ms.
     bind_op (get_op sto_lifecycle) (\<lambda>current.
     bind_op (lift_op (ok_or (lcr_expires_at_unix_ms current) LeaseOwnershipChanged)) (\<lambda>expires_at.
     bind_op (guard_op (now_ms < expires_at) (LeaseExpired expires_at now_ms)) (\<lambda>_.
     bind_op (write_lifecycle_file lifecycle) (\<lambda>_.
     modify_op (\<lambda>s. s\<lparr>sto_lifecycle := lifecycle\<rparr>))))))"

section \<open>Modes\<close>

definition next_revision :: "cell_lifecycle_record \<Rightarrow> persistence_error + u64" where
  "next_revision lifecycle =
     ok_or (checked_add (lcr_lifecycle_revision lifecycle) 1)
       (InvalidLifecycleControl ''lifecycle revision is exhausted'')"

text \<open>The fields every mode change takes from the world and the clock.\<close>

definition at_world_frontier :: "world_view \<Rightarrow> u64 \<Rightarrow> cell_lifecycle_record \<Rightarrow> cell_lifecycle_record" where
  "at_world_frontier state now_ms lifecycle =
     lifecycle\<lparr>lcr_last_world_event_sequence := wv_event_sequence state,
               lcr_last_world_event_hash := wv_last_event_hash state,
               lcr_last_world_state_hash := wv_state_hash state,
               lcr_last_trusted_unix_ms := now_ms,
               lcr_updated_at_unix_ms := now_ms\<rparr>"

definition publish_active :: "world_view \<Rightarrow> unit store_op" where
  "publish_active state =
     bind_op verify_live_lease_for_write (\<lambda>_.
     bind_op (get_op sto_lifecycle) (\<lambda>lifecycle.
     if lcr_observed_mode lifecycle = ModeActive \<and> lcr_desired_mode lifecycle = ModeActive
     then return_op () else
     bind_op trusted_unix_millis (\<lambda>now_ms.
     bind_op (lift_op (next_revision lifecycle)) (\<lambda>revision.
     persist_lifecycle (at_world_frontier state now_ms
       (lifecycle\<lparr>lcr_lifecycle_revision := revision,
                  lcr_desired_mode := ModeActive, lcr_observed_mode := ModeActive,
                  lcr_activation_cutoff_unix_ms := None\<rparr>))))))"

definition transition_mode :: "lifecycle_mode \<Rightarrow> lifecycle_mode \<Rightarrow> world_view \<Rightarrow> unit store_op" where
  "transition_mode desired_mode observed_mode state =
     bind_op verify_live_lease_for_write (\<lambda>_.
     bind_op (get_op sto_lifecycle) (\<lambda>lifecycle.
     if lcr_desired_mode lifecycle = desired_mode \<and> lcr_observed_mode lifecycle = observed_mode
     then return_op () else
     bind_op (guard_op (valid_lifecycle_transition (lcr_observed_mode lifecycle) observed_mode)
                (InvalidLifecycleControl ''invalid transition'')) (\<lambda>_.
     bind_op trusted_unix_millis (\<lambda>now_ms.
     bind_op (lift_op (next_revision lifecycle)) (\<lambda>revision.
     persist_lifecycle (at_world_frontier state now_ms
       (lifecycle\<lparr>lcr_lifecycle_revision := revision,
                  lcr_desired_mode := desired_mode, lcr_observed_mode := observed_mode,
                  lcr_activation_cutoff_unix_ms :=
                    (if observed_mode = ModeActivating then Some now_ms else None)\<rparr>)))))))"

section \<open>Snapshots and the journal\<close>

definition world_binding_matches :: "store_state \<Rightarrow> world_view \<Rightarrow> bool" where
  "world_binding_matches s state =
     (wv_world_seed state = sto_world_seed s
      \<and> wv_universe_id state = smf_universe_id (sto_manifest s)
      \<and> wv_content_manifest_version state = smf_content_manifest_version (sto_manifest s)
      \<and> wv_universe_manifest_hash state = smf_manifest_hash (sto_manifest s)
      \<and> wv_celestial_registry_hash state = smf_celestial_registry_hash (sto_manifest s)
      \<and> wv_cell_id state = sto_cell_id s
      \<and> cell_key_from_address (wv_cell_address state) = Inr (sto_cell_key s))"

definition event_binding_matches :: "store_state \<Rightarrow> canonical_event \<Rightarrow> bool" where
  "event_binding_matches s event =
     (evt_content_manifest_version event = smf_content_manifest_version (sto_manifest s)
      \<and> evt_universe_id event = smf_universe_id (sto_manifest s)
      \<and> evt_cell_id event = sto_cell_id s
      \<and> evt_universe_manifest_hash event = smf_manifest_hash (sto_manifest s)
      \<and> evt_celestial_registry_hash event = smf_celestial_registry_hash (sto_manifest s))"

definition snapshot_of :: "world_view \<Rightarrow> snapshot_document" where
  "snapshot_of state =
     \<lparr>snd_schema_version = WORLD_SCHEMA_VERSION, snd_state_hash = wv_state_hash state,
      snd_event_sequence = wv_event_sequence state, snd_last_event_hash = wv_last_event_hash state,
      snd_state = state\<rparr>"

definition save_snapshot :: "world_view \<Rightarrow> unit store_op" where
  "save_snapshot state =
     bind_op verify_live_lease_for_write (\<lambda>_.
     bind_op (get_op sto_fencing_token) (\<lambda>fencing_token.
     bind_op (guard_op (wv_fencing_token state = fencing_token)
                (FencingTokenChanged fencing_token (wv_fencing_token state))) (\<lambda>_.
     bind_op (get_op (\<lambda>s. world_binding_matches s state)) (\<lambda>bound.
     bind_op (guard_op bound WorldUniverseBindingMismatch) (\<lambda>_.
     bind_op (lift_op (map_err InvalidPlayerRoster (wv_player_roster state))) (\<lambda>_.
     bind_op (write_file (\<lambda>s. s\<lparr>sto_snapshot_file := Some (snapshot_of state)\<rparr>)) (\<lambda>_.
     bind_op trusted_unix_millis (\<lambda>now_ms.
     bind_op (get_op sto_lifecycle) (\<lambda>lifecycle.
     persist_lifecycle (at_world_frontier state now_ms lifecycle))))))))))"

definition append_event :: "canonical_event \<Rightarrow> unit store_op" where
  "append_event event =
     bind_op verify_live_lease_for_write (\<lambda>_.
     bind_op (get_op sto_fencing_token) (\<lambda>fencing_token.
     bind_op (guard_op (evt_authority_fencing_token event = fencing_token)
                (FencingTokenChanged fencing_token (evt_authority_fencing_token event))) (\<lambda>_.
     bind_op (get_op (\<lambda>s. event_binding_matches s event)) (\<lambda>bound.
     bind_op (guard_op bound (EventUniverseBindingMismatch ''append'')) (\<lambda>_.
     write_file (\<lambda>s. s\<lparr>sto_journal_file := sto_journal_file s @ [EventLine event]\<rparr>))))))"

text \<open>The release of the lock that ends \<open>release_to_sleeping\<close>, whose outcome is a write outcome.\<close>

definition sleeping_record :: "world_view \<Rightarrow> u64 \<Rightarrow> u64 \<Rightarrow> cell_lifecycle_record \<Rightarrow> cell_lifecycle_record" where
  "sleeping_record state now_ms revision lifecycle =
     at_world_frontier state now_ms
       (lifecycle\<lparr>lcr_lifecycle_revision := revision,
                  lcr_desired_mode := ModeSleeping, lcr_observed_mode := ModeSleeping,
                  lcr_holder_id := None, lcr_acquired_at_unix_ms := None,
                  lcr_renewed_at_unix_ms := None, lcr_expires_at_unix_ms := None,
                  lcr_activation_cutoff_unix_ms := None\<rparr>)"

definition fall_asleep :: "world_view \<Rightarrow> unit store_op" where
  "fall_asleep state =
     bind_op (save_snapshot state) (\<lambda>_.
     bind_op trusted_unix_millis (\<lambda>now_ms.
     bind_op (get_op sto_lifecycle) (\<lambda>lifecycle.
     bind_op (lift_op (next_revision lifecycle)) (\<lambda>revision.
     let sleeping = sleeping_record state now_ms revision lifecycle in
     bind_op (write_lifecycle_file sleeping) (\<lambda>_.
     bind_op (modify_op (\<lambda>s. s\<lparr>sto_lifecycle := sleeping\<rparr>)) (\<lambda>_.
     bind_op (write_file (\<lambda>s. s)) (\<lambda>_.
     modify_op (\<lambda>s. s\<lparr>sto_write_enabled := False\<rparr>))))))))"

definition release_to_sleeping :: "world_view \<Rightarrow> unit store_op" where
  "release_to_sleeping state =
     bind_op (get_op (lcr_observed_mode \<circ> sto_lifecycle)) (\<lambda>mode.
     bind_op (guard_op (mode \<in> {ModeDraining, ModeBackground})
                (InvalidLifecycleControl ''only a draining or background cell may release to sleeping''))
       (\<lambda>_.
     fall_asleep state))"

text \<open>The three branches of \<open>restore_recovered_host_mode\<close>; a draining host recurses once.\<close>

definition restore_sleeping :: "world_view \<Rightarrow> lifecycle_mode store_op" where
  "restore_sleeping state =
     bind_op (get_op (lcr_observed_mode \<circ> sto_lifecycle)) (\<lambda>mode.
     bind_op (guard_op (mode = ModeActivating)
                (InvalidLifecycleControl ''sleeping recovery must hold activating authority'')) (\<lambda>_.
     bind_op (fall_asleep state) (\<lambda>_. return_op ModeSleeping)))"

definition restore_background :: "world_view \<Rightarrow> lifecycle_mode store_op" where
  "restore_background state =
     bind_op verify_live_lease_for_write (\<lambda>_.
     bind_op trusted_unix_millis (\<lambda>now_ms.
     bind_op (get_op sto_lifecycle) (\<lambda>lifecycle.
     bind_op (lift_op (next_revision lifecycle)) (\<lambda>revision.
     bind_op (persist_lifecycle (at_world_frontier state now_ms
       (lifecycle\<lparr>lcr_lifecycle_revision := revision,
                  lcr_desired_mode := ModeBackground, lcr_observed_mode := ModeBackground,
                  lcr_activation_cutoff_unix_ms := None\<rparr>))) (\<lambda>_.
     return_op ModeBackground)))))"

definition restore_recovered_host_mode :: "world_view \<Rightarrow> lifecycle_mode store_op" where
  "restore_recovered_host_mode state =
     bind_op (get_op sto_recovered_mode) (\<lambda>recovered.
     case recovered of
       Some ModeSleeping \<Rightarrow> restore_sleeping state
     | Some ModeBackground \<Rightarrow> restore_background state
     | Some ModeDraining \<Rightarrow>
         bind_op (lift_op (map_err InvalidLifecycleControl (wv_runnable state))) (\<lambda>runnable.
         bind_op (modify_op (\<lambda>s. s\<lparr>sto_recovered_mode :=
                     Some (if runnable then ModeBackground else ModeSleeping)\<rparr>)) (\<lambda>_.
         if runnable then restore_background state else restore_sleeping state))
     | _ \<Rightarrow> return_op ModeActivating)"

section \<open>Committing an event\<close>

text \<open>\<open>json\<close> stands for \<open>serde_json::to_vec\<close> on a boundary.\<close>

definition boundary_domain :: string where
  "boundary_domain = ''the-verse/durable-transfer-boundary/v1'' @ [CHR 0x00]"

definition calculate_boundary_hash ::
    "externals \<Rightarrow> (durable_transfer_boundary \<Rightarrow> string) \<Rightarrow> durable_transfer_boundary \<Rightarrow> string" where
  "calculate_boundary_hash ext json boundary =
     ext_blake3_hex ext (boundary_domain @ json (boundary\<lparr>dtb_boundary_hash := []\<rparr>))"

definition link_boundary ::
    "externals \<Rightarrow> (durable_transfer_boundary \<Rightarrow> string) \<Rightarrow> string \<Rightarrow> durable_transfer_boundary \<Rightarrow>
     durable_transfer_boundary" where
  "link_boundary ext json head boundary =
     (let boundary = boundary\<lparr>dtb_previous_boundary_hash := head\<rparr>
      in boundary\<lparr>dtb_boundary_hash := calculate_boundary_hash ext json boundary\<rparr>)"

definition append_boundary :: "durable_transfer_boundary \<Rightarrow> unit store_op" where
  "append_boundary boundary =
     bind_op (write_file (\<lambda>s. s\<lparr>sto_boundary_file := sto_boundary_file s @ [boundary]\<rparr>)) (\<lambda>_.
     modify_op (\<lambda>s. s\<lparr>sto_boundaries :=
                        bt_insert (dtb_transfer_id boundary, dtb_kind boundary) boundary (sto_boundaries s),
                     sto_lifecycle := (sto_lifecycle s)\<lparr>lcr_transfer_boundary_head_hash :=
                        dtb_boundary_hash boundary\<rparr>\<rparr>))"

definition commit_world_event ::
    "externals \<Rightarrow> (durable_transfer_boundary \<Rightarrow> string) \<Rightarrow> canonical_event \<Rightarrow> world_view \<Rightarrow>
     production_schedule_occurrence option \<Rightarrow> unit store_op" where
  "commit_world_event ext json event resulting_state resulting_next_occurrence =
     bind_op verify_live_lease_for_write (\<lambda>_.
     bind_op (get_op sto_fencing_token) (\<lambda>fencing_token.
     bind_op (guard_op (evt_authority_fencing_token event = fencing_token)
                (FencingTokenChanged fencing_token (evt_authority_fencing_token event))) (\<lambda>_.
     bind_op (guard_op (wv_event_sequence resulting_state = evt_event_sequence event
                        \<and> wv_last_event_hash resulting_state = evt_event_hash event
                        \<and> wv_fencing_token resulting_state = fencing_token)
                LifecycleWorldFrontierMismatch) (\<lambda>_.
     bind_op (get_op sto_lifecycle) (\<lambda>lifecycle.
     bind_op (lift_op (if_some_r resulting_next_occurrence (\<lambda>occurrence.
                validate_occurrence_binding occurrence lifecycle))) (\<lambda>_.
     bind_op trusted_unix_millis (\<lambda>now_ms.
     let pending = \<lparr>pwc_event_sequence = evt_event_sequence event,
                     pwc_event_hash = evt_event_hash event,
                     pwc_occurred_at_unix_ms = evt_occurred_at_unix_ms event,
                     pwc_prior_next_occurrence = lcr_next_production_occurrence lifecycle,
                     pwc_resulting_next_occurrence = resulting_next_occurrence\<rparr> in
     bind_op (persist_lifecycle (lifecycle\<lparr>lcr_pending_world_commit := Some pending,
                lcr_last_trusted_unix_ms := now_ms, lcr_updated_at_unix_ms := now_ms\<rparr>)) (\<lambda>_.
     bind_op (lift_op (transfer_boundary_from_event event (wv_state_hash resulting_state))) (\<lambda>boundary.
     bind_op (get_op (lcr_transfer_boundary_head_hash \<circ> sto_lifecycle)) (\<lambda>head.
     let boundary = map_option (link_boundary ext json head) boundary in
     bind_op (get_op sto_boundaries) (\<lambda>index.
     bind_op (guard_op (case boundary of None \<Rightarrow> True
                          | Some b \<Rightarrow> \<not> bt_contains index (dtb_transfer_id b, dtb_kind b))
                (InvalidTransferBoundary ''transfer already has a committed boundary'')) (\<lambda>_.
     bind_op (append_event event) (\<lambda>_.
     bind_op (case boundary of None \<Rightarrow> return_op () | Some b \<Rightarrow> append_boundary b) (\<lambda>_.
     bind_op trusted_unix_millis (\<lambda>now_ms.
     bind_op (get_op sto_lifecycle) (\<lambda>lifecycle.
     persist_lifecycle (lifecycle\<lparr>
       lcr_last_world_event_sequence := evt_event_sequence event,
       lcr_last_world_event_hash := evt_event_hash event,
       lcr_last_world_state_hash := wv_state_hash resulting_state,
       lcr_next_production_occurrence := resulting_next_occurrence,
       lcr_pending_world_commit := None,
       lcr_last_trusted_unix_ms := now_ms, lcr_updated_at_unix_ms := now_ms\<rparr>)))))))))))))))))"

definition acknowledge_production_sequence :: "world_view \<Rightarrow> unit store_op" where
  "acknowledge_production_sequence state =
     bind_op verify_live_lease_for_write (\<lambda>_.
     bind_op (get_op sto_lifecycle) (\<lambda>lifecycle.
     let production_quantum_sequence = wv_clock_last_committed_quantum_sequence state in
     if production_quantum_sequence \<le> lcr_acknowledged_production_sequence lifecycle
     then return_op () else
     bind_op (guard_op (wv_event_sequence state = lcr_last_world_event_sequence lifecycle
                        \<and> wv_last_event_hash state = lcr_last_world_event_hash lifecycle
                        \<and> wv_state_hash state = lcr_last_world_state_hash lifecycle)
                LifecycleWorldFrontierMismatch) (\<lambda>_.
     bind_op trusted_unix_millis (\<lambda>now_ms.
     persist_lifecycle (lifecycle\<lparr>lcr_acknowledged_production_sequence := production_quantum_sequence,
       lcr_last_trusted_unix_ms := now_ms, lcr_updated_at_unix_ms := now_ms\<rparr>)))))"

section \<open>Reconciling the record with the recovered world\<close>

text \<open>The pending commit is resolved by whether its event made it into the journal.\<close>

definition resolve_pending_commit ::
    "world_view \<Rightarrow> cell_lifecycle_record \<Rightarrow> persistence_error + cell_lifecycle_record" where
  "resolve_pending_commit state found =
     (let reconciled = found\<lparr>lcr_pending_world_commit := None\<rparr> in
      case lcr_pending_world_commit found of
        None \<Rightarrow> Inr reconciled
      | Some pending \<Rightarrow>
          if wv_event_sequence state < pwc_event_sequence pending
          then Inr (reconciled\<lparr>lcr_next_production_occurrence := pwc_prior_next_occurrence pending\<rparr>)
          else if wv_event_sequence state = pwc_event_sequence pending
             \<and> wv_last_event_hash state = pwc_event_hash pending
          then Inr (reconciled\<lparr>lcr_next_production_occurrence := pwc_resulting_next_occurrence pending\<rparr>)
          else Inl LifecycleWorldFrontierMismatch)"

definition world_frontier_disagrees :: "world_view \<Rightarrow> cell_lifecycle_record \<Rightarrow> bool" where
  "world_frontier_disagrees state reconciled =
     (wv_event_sequence state < lcr_last_world_event_sequence reconciled
      \<or> (lcr_last_world_event_sequence reconciled = wv_event_sequence state
         \<and> ((lcr_last_world_event_hash reconciled \<noteq> []
               \<and> lcr_last_world_event_hash reconciled \<noteq> wv_last_event_hash state)
            \<or> (lcr_last_world_state_hash reconciled \<noteq> []
               \<and> lcr_last_world_state_hash reconciled \<noteq> wv_state_hash state))))"

definition reconcile_next_occurrence ::
    "world_view \<Rightarrow> u64 \<Rightarrow> bool \<Rightarrow> production_schedule_occurrence option \<Rightarrow>
     persistence_error + production_schedule_occurrence option" where
  "reconcile_next_occurrence state now_ms runnable next_occurrence =
     (let committed_sequence = wv_clock_last_committed_quantum_sequence state in
      case next_occurrence of
        Some occurrence \<Rightarrow>
          try_r (ok_or (checked_add committed_sequence 1)
                   (InvalidLifecycleControl ''production occurrence sequence is exhausted'')) (\<lambda>expected_sequence.
          try_r (if committed_sequence = 0 then Inr None
                 else try_r (ok_or (checked_add (wv_clock_last_scheduled_for_unix_ms state) 1000)
                        (InvalidLifecycleControl ''production schedule time is exhausted''))
                        (\<lambda>t. Inr (Some t))) (\<lambda>expected_time.
          if \<not> runnable
             \<or> occ_lifecycle_generation occurrence \<noteq> wv_clock_lifecycle_generation state
             \<or> occ_production_quantum_sequence occurrence \<noteq> expected_sequence
             \<or> (case expected_time of None \<Rightarrow> False
                 | Some scheduled \<Rightarrow> occ_scheduled_for_unix_ms occurrence \<noteq> scheduled)
          then Inl (InvalidLifecycleControl ''next occurrence does not match canonical production state'')
          else Inr next_occurrence))
      | None \<Rightarrow>
          if runnable then
            try_r (ok_or (checked_add now_ms 1000) TrustedClockUnavailable) (\<lambda>scheduled_for_unix_ms.
            try_r (map_err InvalidLifecycleControl (wv_next_occurrence_at state scheduled_for_unix_ms)) (\<lambda>occurrence.
            Inr (Some occurrence)))
          else Inr None)"

definition reconcile_lifecycle_with_world :: "world_view \<Rightarrow> unit store_op" where
  "reconcile_lifecycle_with_world state =
     bind_op read_current_lease (\<lambda>found.
     bind_op trusted_unix_millis (\<lambda>now_ms.
     bind_op (get_op sto_lifecycle) (\<lambda>lifecycle.
     bind_op (get_op sto_fencing_token) (\<lambda>fencing_token.
     bind_op (lift_op (validate_live_lease_record lifecycle fencing_token found now_ms)) (\<lambda>_.
     bind_op (lift_op (resolve_pending_commit state found)) (\<lambda>reconciled.
     bind_op (guard_op (\<not> world_frontier_disagrees state reconciled) LifecycleWorldFrontierMismatch) (\<lambda>_.
     bind_op (guard_op (lcr_acknowledged_production_sequence reconciled
                          \<le> wv_clock_last_committed_quantum_sequence state)
                (InvalidLifecycleControl ''production acknowledgement is ahead of canonical world state'')) (\<lambda>_.
     bind_op (lift_op (map_err InvalidLifecycleControl (wv_runnable state))) (\<lambda>runnable.
     bind_op (lift_op (reconcile_next_occurrence state now_ms runnable
                         (lcr_next_production_occurrence reconciled))) (\<lambda>next_occurrence.
     persist_lifecycle (at_world_frontier state now_ms
       (reconciled\<lparr>lcr_next_production_occurrence := next_occurrence,
                   lcr_acknowledged_production_sequence :=
                     wv_clock_last_committed_quantum_sequence state\<rparr>))))))))))))"

section \<open>Acquiring the lease of a cell\<close>

text \<open>
  The scan of the journal headers after the snapshot; \<open>index\<close> counts lines from zero. A line
  whose header can be read but whose event cannot is not told apart from an unreadable one.
\<close>

fun scan_journal_fences ::
    "u64 \<Rightarrow> u64 \<Rightarrow> nat \<Rightarrow> journal_line list \<Rightarrow> u64 \<Rightarrow> persistence_error + u64" where
  "scan_journal_fences snapshot_event_sequence snapshot_fence index [] historical_fence =
     Inr historical_fence"
| "scan_journal_fences snapshot_event_sequence snapshot_fence index (BlankLine # journal) historical_fence =
     scan_journal_fences snapshot_event_sequence snapshot_fence (index + 1) journal historical_fence"
| "scan_journal_fences snapshot_event_sequence snapshot_fence index (UnreadableLine message # journal)
     historical_fence = Inl (CorruptJournal (index + 1) message)"
| "scan_journal_fences snapshot_event_sequence snapshot_fence index (EventLine header # journal)
     historical_fence =
     (let fence = evt_authority_fencing_token header; event_sequence = evt_event_sequence header in
      if fence = 0 \<or> fence < historical_fence
      then Inl (InvalidHistoricalFence (index + 1) historical_fence fence)
      else if (event_sequence \<le> snapshot_event_sequence \<and> snapshot_fence < fence)
         \<or> (snapshot_event_sequence < event_sequence \<and> fence < snapshot_fence)
      then Inl (HistoricalFenceSnapshotMismatch (index + 1) snapshot_fence fence)
      else scan_journal_fences snapshot_event_sequence snapshot_fence (index + 1) journal fence)"

definition recover_persisted_fencing_frontier ::
    "snapshot_document option \<Rightarrow> journal_line list \<Rightarrow> persistence_error + u64" where
  "recover_persisted_fencing_frontier snapshot journal =
     try_r (case snapshot of None \<Rightarrow> Inr (0, 0)
            | Some snapshot \<Rightarrow>
                if snd_schema_version snapshot \<noteq> WORLD_SCHEMA_VERSION
                then Inl (SnapshotSchema (snd_schema_version snapshot) WORLD_SCHEMA_VERSION)
                else Inr (wv_event_sequence (snd_state snapshot), wv_fencing_token (snd_state snapshot)))
       (\<lambda>(snapshot_event_sequence, snapshot_fence).
     try_r (scan_journal_fences snapshot_event_sequence snapshot_fence 0 journal 0) (\<lambda>historical_fence.
     Inr (max snapshot_fence historical_fence)))"

text \<open>
  The part of \<open>open_for_cell_with_clock\<close> that takes the cell over, after the manifest has been
  compared: from the check of the previous record to the write of the new one. \<open>holder_id\<close> is
  the fresh UUID.
\<close>

definition acquired_lifecycle ::
    "store_manifest \<Rightarrow> string \<Rightarrow> string \<Rightarrow> cell_lifecycle_record option \<Rightarrow> u64 \<Rightarrow> u64 \<Rightarrow> u64 \<Rightarrow> u64 \<Rightarrow>
     cell_lifecycle_record" where
  "acquired_lifecycle manifest cid holder_id previous revision fencing_token acquired_at expires_at =
     \<lparr>lcr_schema_version = LIFECYCLE_CONTROL_SCHEMA_VERSION,
       lcr_universe_id = smf_universe_id manifest, lcr_cell_id = cid,
       lcr_universe_manifest_hash = smf_manifest_hash manifest,
       lcr_celestial_registry_hash = smf_celestial_registry_hash manifest,
       lcr_lifecycle_revision = revision,
       lcr_desired_mode = ModeActive, lcr_observed_mode = ModeActivating,
       lcr_fencing_token = fencing_token, lcr_holder_id = Some holder_id,
       lcr_acquired_at_unix_ms = Some acquired_at, lcr_renewed_at_unix_ms = Some acquired_at,
       lcr_expires_at_unix_ms = Some expires_at,
       lcr_activation_cutoff_unix_ms =
         (case (case previous of None \<Rightarrow> None
                | Some record \<Rightarrow> if lcr_observed_mode record = ModeActivating
                    then lcr_activation_cutoff_unix_ms record else None) of
            Some cutoff \<Rightarrow> Some cutoff | None \<Rightarrow> Some acquired_at),
       lcr_last_trusted_unix_ms = acquired_at,
       lcr_last_world_event_sequence =
         (case previous of None \<Rightarrow> 0 | Some record \<Rightarrow> lcr_last_world_event_sequence record),
       lcr_last_world_event_hash =
         (case previous of None \<Rightarrow> [] | Some record \<Rightarrow> lcr_last_world_event_hash record),
       lcr_last_world_state_hash =
         (case previous of None \<Rightarrow> [] | Some record \<Rightarrow> lcr_last_world_state_hash record),
       lcr_transfer_boundary_head_hash =
         (case previous of None \<Rightarrow> [] | Some record \<Rightarrow> lcr_transfer_boundary_head_hash record),
       lcr_next_production_occurrence =
         (case previous of None \<Rightarrow> None | Some record \<Rightarrow> lcr_next_production_occurrence record),
       lcr_acknowledged_production_sequence =
         (case previous of None \<Rightarrow> 0 | Some record \<Rightarrow> lcr_acknowledged_production_sequence record),
       lcr_pending_world_commit =
         (case previous of None \<Rightarrow> None | Some record \<Rightarrow> lcr_pending_world_commit record),
       lcr_updated_at_unix_ms = acquired_at\<rparr>"

definition acquire_cell_lease ::
    "store_manifest \<Rightarrow> string \<Rightarrow> string \<Rightarrow> cell_lifecycle_record store_op" where
  "acquire_cell_lease manifest cid holder_id =
     bind_op (get_op sto_lifecycle_file) (\<lambda>previous.
     bind_op (get_op sto_snapshot_file) (\<lambda>snapshot.
     bind_op (get_op sto_journal_file) (\<lambda>journal.
     bind_op (case previous of
                Some lifecycle \<Rightarrow> lift_op (validate_prior_lifecycle lifecycle manifest cid)
              | None \<Rightarrow> guard_op (snapshot = None \<and> journal = []) MissingLifecycleControl) (\<lambda>_.
     bind_op (lift_op (recover_persisted_fencing_frontier snapshot journal)) (\<lambda>recovered_fence.
     let previous_token = (case previous of None \<Rightarrow> recovered_fence
                           | Some lifecycle \<Rightarrow> max (lcr_fencing_token lifecycle) recovered_fence) in
     bind_op (lift_op (case previous of None \<Rightarrow> Inr 1 | Some lifecycle \<Rightarrow> next_revision lifecycle)) (\<lambda>revision.
     bind_op (lift_op (ok_or (checked_add previous_token 1) FencingTokenExhausted)) (\<lambda>fencing_token.
     bind_op now_unix_ms (\<lambda>sample.
     bind_op (lift_op (accept_trusted_time sample
                (case previous of None \<Rightarrow> 0 | Some lifecycle \<Rightarrow> lcr_last_trusted_unix_ms lifecycle)))
       (\<lambda>acquired_at.
     bind_op (lift_op (ok_or (checked_add acquired_at LEASE_DURATION_MILLIS) TrustedClockUnavailable))
       (\<lambda>expires_at.
     let lifecycle = acquired_lifecycle manifest cid holder_id previous revision fencing_token
                       acquired_at expires_at in
     bind_op (write_lifecycle_file lifecycle) (\<lambda>_.
     bind_op (modify_op (\<lambda>s. s\<lparr>sto_lifecycle := lifecycle, sto_fencing_token := fencing_token,
                sto_last_trusted_unix_ms := acquired_at, sto_cell_id := cid, sto_manifest := manifest,
                sto_write_enabled := True,
                sto_recovered_mode := map_option lcr_observed_mode previous\<rparr>)) (\<lambda>_.
     return_op lifecycle))))))))))))"

section \<open>Commands\<close>

text \<open>What the host asks of a store after it has acquired the cell.\<close>

datatype store_command =
    ReconcileWorld world_view
  | RestoreHostMode world_view
  | PublishActive world_view
  | TransitionMode lifecycle_mode lifecycle_mode world_view
  | SaveSnapshot world_view
  | AppendEvent canonical_event
  | CommitWorldEvent canonical_event world_view "production_schedule_occurrence option"
  | AcknowledgeProduction world_view
  | ReleaseToSleeping world_view
  | MaintainLease

primrec execute_store ::
    "externals \<Rightarrow> (durable_transfer_boundary \<Rightarrow> string) \<Rightarrow> store_command \<Rightarrow> unit store_op" where
  "execute_store ext json (ReconcileWorld state) = reconcile_lifecycle_with_world state"
| "execute_store ext json (RestoreHostMode state) =
     bind_op (restore_recovered_host_mode state) (\<lambda>_. return_op ())"
| "execute_store ext json (PublishActive state) = publish_active state"
| "execute_store ext json (TransitionMode desired observed state) = transition_mode desired observed state"
| "execute_store ext json (SaveSnapshot state) = save_snapshot state"
| "execute_store ext json (AppendEvent event) = append_event event"
| "execute_store ext json (CommitWorldEvent event state next_occurrence) =
     commit_world_event ext json event state next_occurrence"
| "execute_store ext json (AcknowledgeProduction state) = acknowledge_production_sequence state"
| "execute_store ext json (ReleaseToSleeping state) = release_to_sleeping state"
| "execute_store ext json MaintainLease = maintain_live_lease"

end
