(* ===== verification/LifecycleAuthority.thy ===== *)
theory LifecycleAuthority
  imports Lifecycle
begin

text \<open>
  Who may write to a cell: a store whose fencing token is no longer the one in the lifecycle
  file changes no file, whatever it is asked to do, and one whose token is still there keeps
  it there. From these two laws the locale \<open>fenced_writer\<close> derives that the commands of
  outdated holders, interleaved in any order with those of the current one, leave no trace.
\<close>

section \<open>Steps of the store\<close>

lemma wp_now_unix_ms [wp_intro]:
  assumes "\<And>x c. Q x (s\<lparr>sto_clock := c\<rparr>)" and "\<And>e c. E e (s\<lparr>sto_clock := c\<rparr>)"
  shows "wp now_unix_ms Q E s"
proof (cases "sto_clock s")
  case Nil
  then have "s\<lparr>sto_clock := []\<rparr> = s" by (cases s) simp
  with assms(2) [of TrustedClockUnavailable "[]"] Nil show ?thesis
    by (simp add: wp_def now_unix_ms_def)
next
  case (Cons x xs)
  with assms show ?thesis by (cases x) (simp_all add: wp_def now_unix_ms_def)
qed

lemma wp_write_file [wp_intro]:
  assumes "\<And>w. Q () (update (s\<lparr>sto_writes := w\<rparr>))" and "\<And>e w. E e (s\<lparr>sto_writes := w\<rparr>)"
    and "\<And>e w. E e (update (s\<lparr>sto_writes := w\<rparr>))"
  shows "wp (write_file update) Q E s"
proof (cases "sto_writes s")
  case Nil
  then have "s\<lparr>sto_writes := []\<rparr> = s" by (cases s) simp
  with assms(1) [of "[]"] Nil show ?thesis by (simp add: wp_def write_file_def)
next
  case (Cons x xs)
  with assms show ?thesis by (cases x) (simp_all add: wp_def write_file_def)
qed

lemma accept_trusted_time_Inr:
  "accept_trusted_time sample previous = Inr accepted \<longleftrightarrow>
     saturating_sub previous TRUSTED_CLOCK_ROLLBACK_TOLERANCE_MILLIS \<le> sample \<and>
     accepted = max sample previous"
  by (auto simp: accept_trusted_time_def Let_def)

lemma wp_trusted_unix_millis [wp_intro]:
  assumes "\<And>x c. sto_last_trusted_unix_ms s \<le> x \<Longrightarrow>
      Q x (s\<lparr>sto_clock := c, sto_last_trusted_unix_ms := x\<rparr>)"
    and "\<And>e c. E e (s\<lparr>sto_clock := c\<rparr>)"
  shows "wp trusted_unix_millis Q E s"
  unfolding trusted_unix_millis_def
  by (intro wp_intro) (simp_all add: assms accept_trusted_time_Inr)

lemma lease_record_ok:
  "validate_live_lease_record expected t found now_ms = Inr () \<longleftrightarrow>
     lcr_fencing_token found = t \<and> lcr_schema_version found = LIFECYCLE_CONTROL_SCHEMA_VERSION \<and>
     found = expected \<and> (\<exists>e. lcr_expires_at_unix_ms found = Some e \<and> now_ms < e)"
  by (auto simp: validate_live_lease_record_def result_elims not_le)

section \<open>Files and authority\<close>

record store_files =
  fil_lifecycle :: "cell_lifecycle_record option"
  fil_journal :: "journal_line list"
  fil_snapshot :: "snapshot_document option"
  fil_boundaries :: "durable_transfer_boundary list"

definition files_of :: "store_state \<Rightarrow> store_files" where
  "files_of s = \<lparr>fil_lifecycle = sto_lifecycle_file s, fil_journal = sto_journal_file s,
                 fil_snapshot = sto_snapshot_file s, fil_boundaries = sto_boundary_file s\<rparr>"

definition with_files :: "store_files \<Rightarrow> store_state \<Rightarrow> store_state" where
  "with_files f s = s\<lparr>sto_lifecycle_file := fil_lifecycle f, sto_journal_file := fil_journal f,
                     sto_snapshot_file := fil_snapshot f, sto_boundary_file := fil_boundaries f\<rparr>"

definition files_token :: "store_files \<Rightarrow> u64 option" where
  "files_token f = map_option lcr_fencing_token (fil_lifecycle f)"

text \<open>The files are \<open>f\<close>, and they do not carry the token \<open>t\<close> of the store.\<close>

definition outdated :: "store_files \<Rightarrow> u64 \<Rightarrow> store_state \<Rightarrow> bool" where
  "outdated f t s \<longleftrightarrow> files_of s = f \<and> sto_fencing_token s = t \<and> files_token f \<noteq> Some t"

text \<open>The store, its record and the file all carry the token \<open>t\<close>.\<close>

definition authority :: "u64 \<Rightarrow> store_state \<Rightarrow> bool" where
  "authority t s \<longleftrightarrow> sto_fencing_token s = t \<and> lcr_fencing_token (sto_lifecycle s) = t
     \<and> files_token (files_of s) = Some t"

lemma outdated_frame [simp]:
  "outdated f t (s\<lparr>sto_clock := x1\<rparr>) = outdated f t s"
  "outdated f t (s\<lparr>sto_writes := x2\<rparr>) = outdated f t s"
  "outdated f t (s\<lparr>sto_last_trusted_unix_ms := x3\<rparr>) = outdated f t s"
  "outdated f t (s\<lparr>sto_recovered_mode := x4\<rparr>) = outdated f t s"
  by (simp_all add: outdated_def files_of_def)

lemma authority_frame [simp]:
  "authority t (s\<lparr>sto_clock := x1\<rparr>) = authority t s"
  "authority t (s\<lparr>sto_writes := x2\<rparr>) = authority t s"
  "authority t (s\<lparr>sto_last_trusted_unix_ms := x3\<rparr>) = authority t s"
  "authority t (s\<lparr>sto_recovered_mode := x4\<rparr>) = authority t s"
  "authority t (s\<lparr>sto_write_enabled := x5\<rparr>) = authority t s"
  "authority t (s\<lparr>sto_boundaries := x6\<rparr>) = authority t s"
  "authority t (s\<lparr>sto_journal_file := x7\<rparr>) = authority t s"
  "authority t (s\<lparr>sto_snapshot_file := x8\<rparr>) = authority t s"
  "authority t (s\<lparr>sto_boundary_file := x9\<rparr>) = authority t s"
  by (simp_all add: authority_def files_of_def files_token_def)

lemma authority_update [simp]:
  "authority t s \<Longrightarrow> lcr_fencing_token l = t \<Longrightarrow> authority t (s\<lparr>sto_lifecycle := l\<rparr>)"
  "authority t s \<Longrightarrow> lcr_fencing_token l = t \<Longrightarrow> authority t (s\<lparr>sto_lifecycle_file := Some l\<rparr>)"
  by (simp_all add: authority_def files_of_def files_token_def)

lemma authority_token [simp]: "authority t s \<Longrightarrow> lcr_fencing_token (sto_lifecycle s) = t"
  by (simp add: authority_def)

section \<open>An outdated store writes nothing\<close>

lemma outdated_lease:
  assumes "outdated f t s" and "sto_lifecycle_file s = Some found"
  shows "validate_live_lease_record l (sto_fencing_token s) found now \<noteq> Inr ()"
  using assms by (auto simp: lease_record_ok outdated_def files_token_def files_of_def)

named_theorems refusals \<open>operations that an outdated store is refused\<close>

lemma refused_maintain [refusals]: "refused (outdated f t) maintain_live_lease"
  unfolding maintain_live_lease_def Let_def
  by (intro refusedI wp_intro) (simp_all add: ok_or_Inr_iff outdated_lease)

lemmas [refusals] = refused_bind

lemma refused_verify [refusals]: "refused (outdated f t) verify_live_lease_for_write"
proof (rule refusedI)
  fix s assume outdated: "outdated f t s"
  have "refused (outdated f t) (verify_lease_rounds 2 0)"
    by (simp add: numeral_2_eq_2 refusals)
  with outdated show "wp verify_live_lease_for_write (\<lambda>_ _. False) (\<lambda>_. outdated f t) s"
    unfolding verify_live_lease_for_write_def by (intro wp_intro) (auto elim: wp_refused)
qed

lemma refused_reconcile [refusals]: "refused (outdated f t) (reconcile_lifecycle_with_world state)"
  unfolding reconcile_lifecycle_with_world_def read_current_lease_def
  by (intro refusedI wp_intro) (simp_all add: ok_or_Inr_iff outdated_lease)

lemma refused_commands [refusals]:
  "refused (outdated f t) (commit_world_event ext json event next_state next)"
  "refused (outdated f t) (acknowledge_production_sequence state)"
  "refused (outdated f t) (publish_active state)"
  "refused (outdated f t) (transition_mode desired observed state)"
  "refused (outdated f t) (save_snapshot state)"
  "refused (outdated f t) (append_event event)"
  "refused (outdated f t) (restore_background state)"
  unfolding commit_world_event_def acknowledge_production_sequence_def publish_active_def
    transition_mode_def save_snapshot_def append_event_def restore_background_def
  by (rule refused_bind [OF refused_verify])+

lemma refused_asleep [refusals]: "refused (outdated f t) (fall_asleep state)"
  by (simp add: fall_asleep_def refusals)

lemma stable_release: "stable (outdated f t) (release_to_sleeping state)"
  unfolding release_to_sleeping_def
  by (intro stableI wp_intro wp_refused [OF refused_asleep]) simp_all

lemma stable_restore: "stable (outdated f t) (restore_recovered_host_mode state)"
proof (rule stableI)
  fix s assume outdated: "outdated f t s"
  have sleeping: "stable (outdated f t) (restore_sleeping state)"
    unfolding restore_sleeping_def
    by (intro stableI wp_intro wp_refused [OF refused_asleep]) simp_all
  note ends = wp_stable [OF sleeping] wp_refused [OF refused_commands(7)]
  show "wp (restore_recovered_host_mode state) (\<lambda>_. outdated f t) (\<lambda>_. outdated f t) s"
    unfolding restore_recovered_host_mode_def
    by (rule wp_bind, rule wp_get_op, simp split: option.split lifecycle_mode.split,
        intro conjI impI allI wp_intro ends) (simp_all add: outdated)
qed

lemma execute_outdated: "stable (outdated f t) (execute_store ext json command)"
proof (cases command)
  case (RestoreHostMode state)
  then show ?thesis
    by (auto intro!: stableI wp_intro wp_stable [OF stable_restore])
qed (simp_all add: refusals [THEN refused_stable] stable_release)

section \<open>The holder keeps its authority\<close>

named_theorems stabilities \<open>operations that keep the authority of the holder\<close>

lemma authority_write_lifecycle:
  "lcr_fencing_token l = t \<Longrightarrow> stable (authority t) (write_lifecycle_file l)"
  unfolding write_lifecycle_file_def by (intro stableI wp_intro) simp_all

lemma authority_maintain [stabilities]: "stable (authority t) maintain_live_lease"
  unfolding maintain_live_lease_def Let_def
  by (intro stableI wp_intro wp_stable [OF authority_write_lifecycle]) 
     (auto simp: lease_record_ok)

lemma authority_rounds: "stable (authority t) (verify_lease_rounds n remaining)"
proof (induction n arbitrary: remaining)
  case (Suc n)
  show ?case
    unfolding verify_lease_rounds.simps Let_def read_current_lease_def
    by (intro stableI wp_intro wp_stable [OF authority_maintain] wp_stable [OF Suc.IH]) simp_all
qed (auto intro: stableI wp_intro)

lemma authority_verify [stabilities]: "stable (authority t) verify_live_lease_for_write"
  unfolding verify_live_lease_for_write_def
  by (intro stableI wp_intro wp_stable [OF authority_rounds]) simp_all

lemma authority_persist:
  "lcr_fencing_token l = t \<Longrightarrow> stable (authority t) (persist_lifecycle l)"
  unfolding persist_lifecycle_def
  by (intro stableI wp_intro wp_stable [OF authority_write_lifecycle]) simp_all

lemma at_world_frontier_token [simp]:
  "lcr_fencing_token (at_world_frontier state now_ms l) = lcr_fencing_token l"
  by (simp add: at_world_frontier_def)

lemmas authority_steps = wp_intro wp_stable [OF authority_verify] wp_stable [OF authority_persist]

lemma authority_publish [stabilities]: "stable (authority t) (publish_active state)"
  unfolding publish_active_def by (intro stableI authority_steps) simp_all

lemma authority_transition [stabilities]: "stable (authority t) (transition_mode desired observed state)"
  unfolding transition_mode_def by (intro stableI authority_steps) simp_all

lemma authority_snapshot [stabilities]: "stable (authority t) (save_snapshot state)"
  unfolding save_snapshot_def by (intro stableI authority_steps) simp_all

lemma authority_append [stabilities]: "stable (authority t) (append_event event)"
  unfolding append_event_def by (intro stableI authority_steps) simp_all

lemma authority_acknowledge [stabilities]: "stable (authority t) (acknowledge_production_sequence state)"
  unfolding acknowledge_production_sequence_def Let_def by (intro stableI authority_steps) simp_all

lemma authority_asleep [stabilities]: "stable (authority t) (fall_asleep state)"
  unfolding fall_asleep_def Let_def
  by (intro stableI authority_steps wp_stable [OF authority_snapshot]
       wp_stable [OF authority_write_lifecycle]) (simp_all add: sleeping_record_def)

lemma authority_boundary [stabilities]: "stable (authority t) (append_boundary boundary)"
  unfolding append_boundary_def by (intro stableI authority_steps) simp_all

lemma authority_commit [stabilities]:
  "stable (authority t) (commit_world_event ext json event state next_occurrence)"
  unfolding commit_world_event_def Let_def
  by (intro stableI authority_steps wp_stable [OF authority_append] wp_stable [OF authority_boundary])
     simp_all

lemma authority_reconcile [stabilities]: "stable (authority t) (reconcile_lifecycle_with_world state)"
  unfolding reconcile_lifecycle_with_world_def read_current_lease_def
  by (intro stableI authority_steps)
     (auto simp: lease_record_ok resolve_pending_commit_def Let_def split: option.splits if_splits)

lemma authority_release [stabilities]: "stable (authority t) (release_to_sleeping state)"
  unfolding release_to_sleeping_def
  by (intro stableI wp_intro wp_stable [OF authority_asleep]) simp_all

lemma authority_restore_background [stabilities]: "stable (authority t) (restore_background state)"
  unfolding restore_background_def by (intro stableI authority_steps) simp_all

lemma authority_restore_sleeping [stabilities]: "stable (authority t) (restore_sleeping state)"
  unfolding restore_sleeping_def
  by (intro stableI wp_intro wp_stable [OF authority_asleep]) simp_all

lemma authority_restore: "stable (authority t) (restore_recovered_host_mode state)"
proof (rule stableI)
  fix s assume authority: "authority t s"
  show "wp (restore_recovered_host_mode state) (\<lambda>_. authority t) (\<lambda>_. authority t) s"
    unfolding restore_recovered_host_mode_def
    by (rule wp_bind, rule wp_get_op, simp split: option.split lifecycle_mode.split,
        intro conjI impI allI wp_intro wp_stable [OF authority_restore_background]
          wp_stable [OF authority_restore_sleeping]) (simp_all add: authority)
qed

lemma execute_authority: "stable (authority t) (execute_store ext json command)"
proof (cases command)
  case (RestoreHostMode state)
  then show ?thesis by (auto intro!: stableI wp_intro wp_stable [OF authority_restore])
qed (simp_all add: stabilities)

section \<open>Interleaved stores\<close>

text \<open>
  Several writers over one disk. \<open>step\<close> runs a command of one writer on the disk it sees,
  \<open>holder\<close> reads the token on the disk, \<open>sound\<close> says that a writer agrees with itself.
\<close>

locale fenced_writer =
  fixes step :: "'c \<Rightarrow> 's \<Rightarrow> 's \<times> 'r"
    and disk :: "'s \<Rightarrow> 'd"
    and with_disk :: "'d \<Rightarrow> 's \<Rightarrow> 's"
    and token :: "'s \<Rightarrow> 't"
    and holder :: "'d \<Rightarrow> 't option"
    and sound :: "'s \<Rightarrow> bool"
  assumes disk_with_disk [simp]: "disk (with_disk d s) = d"
    and token_with_disk [simp]: "token (with_disk d s) = token s"
    and sound_with_disk [simp]: "sound (with_disk d s) = sound s"
    and outdated_idle: "step c s = (s', r) \<Longrightarrow> holder (disk s) \<noteq> Some (token s) \<Longrightarrow>
      disk s' = disk s \<and> token s' = token s"
    and holder_keeps: "step c s = (s', r) \<Longrightarrow> holder (disk s) = Some (token s) \<Longrightarrow> sound s \<Longrightarrow>
      holder (disk s') = Some (token s') \<and> token s' = token s \<and> sound s'"
begin

definition turn :: "nat \<times> 'c \<Rightarrow> 'd \<times> (nat \<Rightarrow> 's) \<Rightarrow> 'd \<times> (nat \<Rightarrow> 's)" where
  "turn = (\<lambda>(i, c) (d, writers).
     let s' = fst (step c (with_disk d (writers i))) in (disk s', writers(i := s')))"

definition governed :: "nat \<Rightarrow> 't \<Rightarrow> 'd \<times> (nat \<Rightarrow> 's) \<Rightarrow> bool" where
  "governed i t = (\<lambda>(d, writers). holder d = Some t \<and> token (writers i) = t \<and> sound (writers i)
     \<and> (\<forall>j. j \<noteq> i \<longrightarrow> token (writers j) \<noteq> t))"

lemma turn_other:
  assumes "governed i t (d, writers)" and "j \<noteq> i"
  obtains s' where "turn (j, c) (d, writers) = (d, writers(j := s'))" "token s' = token (writers j)"
proof -
  obtain s' r where step: "step c (with_disk d (writers j)) = (s', r)" by fastforce
  from outdated_idle [OF step] assms have "disk s' = d" "token s' = token (writers j)"
    by (auto simp: governed_def)
  with step that show thesis by (auto simp: turn_def)
qed

lemma turn_holder:
  assumes "governed i t (d, writers)"
  obtains s' where "turn (i, c) (d, writers) = (disk s', writers(i := s'))"
    "holder (disk s') = Some t" "token s' = t" "sound s'" "s' = fst (step c (with_disk d (writers i)))"
proof -
  obtain s' r where step: "step c (with_disk d (writers i)) = (s', r)" by fastforce
  from holder_keeps [OF step] assms have "holder (disk s') = Some t" "token s' = t" "sound s'"
    by (auto simp: governed_def)
  with step that show thesis by (auto simp: turn_def)
qed

definition alike :: "nat \<Rightarrow> 't \<Rightarrow> 'd \<times> (nat \<Rightarrow> 's) \<Rightarrow> 'd \<times> (nat \<Rightarrow> 's) \<Rightarrow> bool" where
  "alike i t cfg cfg' \<longleftrightarrow> governed i t cfg \<and> governed i t cfg' \<and> fst cfg = fst cfg' \<and> snd cfg i = snd cfg' i"

lemma governed_other:
  assumes "governed i t cfg" and "j \<noteq> i"
  shows "governed i t (turn (j, c) cfg) \<and> fst (turn (j, c) cfg) = fst cfg
    \<and> snd (turn (j, c) cfg) i = snd cfg i"
proof (cases cfg)
  case (Pair d writers)
  from turn_other [OF assms [unfolded Pair]] obtain s'
    where "turn (j, c) cfg = (d, writers(j := s'))" "token s' = token (writers j)"
    unfolding Pair by blast
  with assms show ?thesis by (simp add: Pair governed_def)
qed

lemma governed_holder:
  assumes "governed i t cfg"
  shows "governed i t (turn (i, c) cfg) \<and> fst (turn (i, c) cfg) = disk (snd (turn (i, c) cfg) i)
    \<and> snd (turn (i, c) cfg) i = fst (step c (with_disk (fst cfg) (snd cfg i)))"
proof (cases cfg)
  case (Pair d writers)
  from turn_holder [OF assms [unfolded Pair], of c] obtain s'
    where "turn (i, c) cfg = (disk s', writers(i := s'))" "holder (disk s') = Some t" "token s' = t"
      "sound s'" "s' = fst (step c (with_disk d (writers i)))"
    unfolding Pair by blast
  with assms show ?thesis by (simp add: Pair governed_def)
qed

text \<open>Erasing the turns of all others changes neither the disk nor the holder.\<close>

lemma erase_outdated:
  "alike i t cfg cfg' \<Longrightarrow> alike i t (fold turn cs cfg) (fold turn (filter (\<lambda>c. fst c = i) cs) cfg')"
proof (induction cs arbitrary: cfg cfg')
  case (Cons x cs)
  obtain j c where x: "x = (j, c)" by fastforce
  show ?case
  proof (cases "j = i")
    case True
    from Cons.prems governed_holder [of i t cfg c] governed_holder [of i t cfg' c]
    have "alike i t (turn x cfg) (turn x cfg')"
      unfolding alike_def x True by metis
    from Cons.IH [OF this] True show ?thesis by (simp add: x)
  next
    case False
    from Cons.prems governed_other [of i t cfg j c] False have "alike i t (turn x cfg) cfg'"
      unfolding alike_def x by metis
    from Cons.IH [OF this] False show ?thesis by (simp add: x)
  qed
qed simp

end

definition sound_store :: "store_state \<Rightarrow> bool" where
  "sound_store s \<longleftrightarrow> lcr_fencing_token (sto_lifecycle s) = sto_fencing_token s"

lemma files_of_with_files [simp]: "files_of (with_files f s) = f"
  by (simp add: files_of_def with_files_def)

lemma with_files_frame [simp]:
  "sto_fencing_token (with_files f s) = sto_fencing_token s"
  "sound_store (with_files f s) = sound_store s"
  by (simp_all add: with_files_def sound_store_def)

interpretation cell_writer: fenced_writer "execute_store ext json" files_of with_files sto_fencing_token
  files_token sound_store for ext json
proof
  fix c s s' r assume step: "execute_store ext json c s = (s', r)"
  { assume "files_token (files_of s) \<noteq> Some (sto_fencing_token s)"
    then have "outdated (files_of s) (sto_fencing_token s) s" by (simp add: outdated_def)
    from stable_result [OF execute_outdated this step]
    show "files_of s' = files_of s \<and> sto_fencing_token s' = sto_fencing_token s"
      by (simp add: outdated_def) }
  { assume "files_token (files_of s) = Some (sto_fencing_token s)" and "sound_store s"
    then have "authority (sto_fencing_token s) s" unfolding authority_def sound_store_def by blast
    from stable_result [OF execute_authority this step]
    show "files_token (files_of s') = Some (sto_fencing_token s') \<and>
        sto_fencing_token s' = sto_fencing_token s \<and> sound_store s'"
      unfolding authority_def sound_store_def by simp }
qed simp_all

end
