(* ===== verification/LifecycleRecords.thy ===== *)
theory LifecycleRecords
  imports LifecycleAuthority
begin

text \<open>
  The records a store writes are ones that the next opening of the cell accepts: a
  characterisation of \<open>validate_prior_lifecycle\<close>, what the operations change of a record, and
  the invariant of an open store.
\<close>

section \<open>Accepted records\<close>

definition header_ok :: "store_manifest \<Rightarrow> string \<Rightarrow> cell_lifecycle_record \<Rightarrow> bool" where
  "header_ok m cid l \<longleftrightarrow> lcr_schema_version l = LIFECYCLE_CONTROL_SCHEMA_VERSION
     \<and> lcr_universe_id l = smf_universe_id m \<and> lcr_cell_id l = cid
     \<and> lcr_universe_manifest_hash l = smf_manifest_hash m
     \<and> lcr_celestial_registry_hash l = smf_celestial_registry_hash m
     \<and> lcr_lifecycle_revision l \<noteq> 0
     \<and> (lcr_transfer_boundary_head_hash l = [] \<or> valid_blake3_hex (lcr_transfer_boundary_head_hash l))"

definition frontier_ok :: "u64 \<Rightarrow> string \<Rightarrow> string \<Rightarrow> bool" where
  "frontier_ok event_sequence event_hash state_hash \<longleftrightarrow>
     (0 < event_sequence \<longrightarrow> length event_hash = 64 \<and> length state_hash = 64)"

definition occurrence_ok :: "cell_lifecycle_record \<Rightarrow> production_schedule_occurrence option \<Rightarrow> bool" where
  "occurrence_ok l next \<longleftrightarrow> (\<forall>o'. next = Some o' \<longrightarrow> validate_occurrence_binding o' l = Inr ())"

definition schedule_ok :: "cell_lifecycle_record \<Rightarrow> bool" where
  "schedule_ok l \<longleftrightarrow> occurrence_ok l (lcr_next_production_occurrence l)
     \<and> (\<forall>o'. lcr_next_production_occurrence l = Some o' \<longrightarrow>
          lcr_acknowledged_production_sequence l < occ_production_quantum_sequence o')"

definition pending_ok :: "cell_lifecycle_record \<Rightarrow> bool" where
  "pending_ok l \<longleftrightarrow> (\<forall>p. lcr_pending_world_commit l = Some p \<longrightarrow>
     lcr_last_world_event_sequence l < pwc_event_sequence p \<and> length (pwc_event_hash p) = 64
     \<and> pwc_occurred_at_unix_ms p \<noteq> 0 \<and> occurrence_ok l (pwc_prior_next_occurrence p)
     \<and> occurrence_ok l (pwc_resulting_next_occurrence p))"

definition lease_ok :: "cell_lifecycle_record \<Rightarrow> bool" where
  "lease_ok l \<longleftrightarrow> lcr_fencing_token l \<noteq> 0 \<and> lcr_holder_id l \<noteq> None \<and> lcr_holder_id l \<noteq> Some []
     \<and> (\<exists>a r e. lcr_acquired_at_unix_ms l = Some a \<and> lcr_renewed_at_unix_ms l = Some r
          \<and> lcr_expires_at_unix_ms l = Some e \<and> a \<le> r \<and> r \<le> lcr_last_trusted_unix_ms l
          \<and> lcr_last_trusted_unix_ms l < e)"

definition cutoff_ok :: "cell_lifecycle_record \<Rightarrow> bool" where
  "cutoff_ok l \<longleftrightarrow> (case lcr_activation_cutoff_unix_ms l of
       None \<Rightarrow> lcr_observed_mode l \<noteq> ModeActivating
     | Some c \<Rightarrow> lcr_observed_mode l = ModeActivating \<and> c \<le> lcr_last_trusted_unix_ms l)"

definition unleased :: "cell_lifecycle_record \<Rightarrow> bool" where
  "unleased l \<longleftrightarrow> lcr_holder_id l = None \<and> lcr_acquired_at_unix_ms l = None
     \<and> lcr_renewed_at_unix_ms l = None \<and> lcr_expires_at_unix_ms l = None"

lemma lifecycle_mode_ok_iff:
  "validate_lifecycle_mode l = Inr () \<longleftrightarrow>
     (if lcr_observed_mode l = ModeSleeping then unleased l \<and> lcr_activation_cutoff_unix_ms l = None
      else lease_ok l \<and> cutoff_ok l)"
  unfolding validate_lifecycle_mode_def Let_def unleased_def lease_ok_def cutoff_ok_def
  by (auto split: option.splits simp: not_less)

lemma prior_lifecycle_ok_iff:
  "validate_prior_lifecycle l m cid = Inr () \<longleftrightarrow>
     header_ok m cid l \<and> validate_lifecycle_mode l = Inr ()
     \<and> lcr_last_trusted_unix_ms l \<le> lcr_updated_at_unix_ms l
     \<and> frontier_ok (lcr_last_world_event_sequence l) (lcr_last_world_event_hash l) (lcr_last_world_state_hash l)
     \<and> schedule_ok l \<and> pending_ok l"
  unfolding validate_prior_lifecycle_def header_ok_def frontier_ok_def schedule_ok_def pending_ok_def
    occurrence_ok_def
  by (simp add: result_elims not_less not_le) (auto simp: not_less not_le)

text \<open>A live record is accepted and holds a lease.\<close>

definition live_record :: "store_manifest \<Rightarrow> string \<Rightarrow> cell_lifecycle_record \<Rightarrow> bool" where
  "live_record m cid l \<longleftrightarrow> header_ok m cid l \<and> lcr_observed_mode l \<noteq> ModeSleeping \<and> lease_ok l
     \<and> cutoff_ok l \<and> lcr_last_trusted_unix_ms l \<le> lcr_updated_at_unix_ms l
     \<and> frontier_ok (lcr_last_world_event_sequence l) (lcr_last_world_event_hash l) (lcr_last_world_state_hash l)
     \<and> schedule_ok l \<and> pending_ok l"

lemma live_record_accepted: "live_record m cid l \<Longrightarrow> validate_prior_lifecycle l m cid = Inr ()"
  by (simp add: live_record_def prior_lifecycle_ok_iff lifecycle_mode_ok_iff)

section \<open>What a renewal changes\<close>

definition untimed :: "cell_lifecycle_record \<Rightarrow> cell_lifecycle_record" where
  "untimed l = l\<lparr>lcr_renewed_at_unix_ms := None, lcr_expires_at_unix_ms := None,
     lcr_last_trusted_unix_ms := 0, lcr_updated_at_unix_ms := 0\<rparr>"

lemma untimed_fields:
  assumes "untimed l' = untimed l"
  shows "lcr_schema_version l' = lcr_schema_version l" "lcr_universe_id l' = lcr_universe_id l"
    "lcr_cell_id l' = lcr_cell_id l" "lcr_universe_manifest_hash l' = lcr_universe_manifest_hash l"
    "lcr_celestial_registry_hash l' = lcr_celestial_registry_hash l"
    "lcr_lifecycle_revision l' = lcr_lifecycle_revision l"
    "lcr_desired_mode l' = lcr_desired_mode l" "lcr_observed_mode l' = lcr_observed_mode l"
    "lcr_fencing_token l' = lcr_fencing_token l" "lcr_holder_id l' = lcr_holder_id l"
    "lcr_acquired_at_unix_ms l' = lcr_acquired_at_unix_ms l"
    "lcr_activation_cutoff_unix_ms l' = lcr_activation_cutoff_unix_ms l"
    "lcr_last_world_event_sequence l' = lcr_last_world_event_sequence l"
    "lcr_last_world_event_hash l' = lcr_last_world_event_hash l"
    "lcr_last_world_state_hash l' = lcr_last_world_state_hash l"
    "lcr_transfer_boundary_head_hash l' = lcr_transfer_boundary_head_hash l"
    "lcr_next_production_occurrence l' = lcr_next_production_occurrence l"
    "lcr_acknowledged_production_sequence l' = lcr_acknowledged_production_sequence l"
    "lcr_pending_world_commit l' = lcr_pending_world_commit l"
  using assms by (cases l; cases l'; simp add: untimed_def)+

lemma untimed_renewed [simp]:
  "untimed (l\<lparr>lcr_renewed_at_unix_ms := r, lcr_expires_at_unix_ms := e,
     lcr_last_trusted_unix_ms := t, lcr_updated_at_unix_ms := u\<rparr>) = untimed l"
  by (simp add: untimed_def)

text \<open>The store \<open>s\<close> differs from \<open>s0\<close> at most by the clock and by renewals of the lease.\<close>

definition renewed :: "store_state \<Rightarrow> store_state \<Rightarrow> bool" where
  "renewed s0 s \<longleftrightarrow> untimed (sto_lifecycle s) = untimed (sto_lifecycle s0)
     \<and> map_option untimed (sto_lifecycle_file s) = map_option untimed (sto_lifecycle_file s0)
     \<and> sto_last_trusted_unix_ms s0 \<le> sto_last_trusted_unix_ms s
     \<and> sto_journal_file s = sto_journal_file s0 \<and> sto_snapshot_file s = sto_snapshot_file s0
     \<and> sto_boundary_file s = sto_boundary_file s0 \<and> sto_boundaries s = sto_boundaries s0
     \<and> sto_fencing_token s = sto_fencing_token s0 \<and> sto_manifest s = sto_manifest s0
     \<and> sto_cell_id s = sto_cell_id s0 \<and> sto_cell_key s = sto_cell_key s0
     \<and> sto_world_seed s = sto_world_seed s0
     \<and> sto_write_enabled s = sto_write_enabled s0 \<and> sto_recovered_mode s = sto_recovered_mode s0"

lemma renewed_refl [simp]: "renewed s s"
  by (simp add: renewed_def)

lemma renewed_trans: "renewed s s' \<Longrightarrow> renewed s' s'' \<Longrightarrow> renewed s s''"
  unfolding renewed_def by (auto intro: order_trans)

lemma renewed_frame [simp]:
  "renewed s0 (s\<lparr>sto_clock := c\<rparr>) = renewed s0 s" "renewed s0 (s\<lparr>sto_writes := w\<rparr>) = renewed s0 s"
  "renewed s0 s \<Longrightarrow> sto_last_trusted_unix_ms s \<le> x \<Longrightarrow> renewed s0 (s\<lparr>sto_last_trusted_unix_ms := x\<rparr>)"
  by (auto simp: renewed_def)

lemma renewed_update [simp]:
  "renewed s0 s \<Longrightarrow> untimed l = untimed (sto_lifecycle s) \<Longrightarrow> renewed s0 (s\<lparr>sto_lifecycle := l\<rparr>)"
  "renewed s0 s \<Longrightarrow> sto_lifecycle_file s = Some l' \<Longrightarrow> untimed l = untimed l' \<Longrightarrow>
     renewed s0 (s\<lparr>sto_lifecycle_file := Some l\<rparr>)"
  by (auto simp: renewed_def)

lemma accept_trusted_le: "accept_trusted_time x previous = Inr y \<Longrightarrow> previous \<le> y"
  by (auto simp: accept_trusted_time_Inr)

lemma renewed_maintain: "stable (renewed s0) maintain_live_lease"
  unfolding maintain_live_lease_def Let_def write_lifecycle_file_def
  by (intro stableI wp_intro)
     (auto simp: lease_record_ok ok_or_Inr_iff dest!: accept_trusted_le intro!: renewed_update renewed_frame)

lemma stable_conj: "stable P m \<Longrightarrow> stable Q m \<Longrightarrow> stable (\<lambda>s. P s \<and> Q s) m"
  by (auto simp: stable_def wp_def split: prod.splits sum.splits)

section \<open>The invariant of an open store\<close>

definition recoverable :: "store_manifest \<Rightarrow> string \<Rightarrow> store_state \<Rightarrow> bool" where
  "recoverable m cid s \<longleftrightarrow> sto_manifest s = m \<and> sto_cell_id s = cid
     \<and> (\<exists>l. sto_lifecycle_file s = Some l \<and> validate_prior_lifecycle l m cid = Inr ())
     \<and> (live_record m cid (sto_lifecycle s) \<or> lcr_expires_at_unix_ms (sto_lifecycle s) = None)
     \<and> lcr_last_trusted_unix_ms (sto_lifecycle s) \<le> sto_last_trusted_unix_ms s"

lemma recoverable_frame [simp]:
  "recoverable m cid (s\<lparr>sto_clock := c\<rparr>) = recoverable m cid s"
  "recoverable m cid (s\<lparr>sto_writes := w\<rparr>) = recoverable m cid s"
  "recoverable m cid (s\<lparr>sto_write_enabled := b\<rparr>) = recoverable m cid s"
  "recoverable m cid (s\<lparr>sto_recovered_mode := d\<rparr>) = recoverable m cid s"
  "recoverable m cid (s\<lparr>sto_journal_file := j\<rparr>) = recoverable m cid s"
  "recoverable m cid (s\<lparr>sto_snapshot_file := sn\<rparr>) = recoverable m cid s"
  "recoverable m cid (s\<lparr>sto_boundary_file := bf\<rparr>) = recoverable m cid s"
  "recoverable m cid (s\<lparr>sto_boundaries := bi\<rparr>) = recoverable m cid s"
  by (simp_all add: recoverable_def)

lemma recoverable_trusted [simp]:
  "recoverable m cid s \<Longrightarrow> sto_last_trusted_unix_ms s \<le> x \<Longrightarrow>
     recoverable m cid (s\<lparr>sto_last_trusted_unix_ms := x\<rparr>)"
  by (auto simp: recoverable_def)

lemma recoverable_write:
  "recoverable m cid s \<Longrightarrow> validate_prior_lifecycle l m cid = Inr () \<Longrightarrow>
     recoverable m cid (s\<lparr>sto_lifecycle_file := Some l\<rparr>)"
  by (simp add: recoverable_def)

lemma recoverable_memory:
  "recoverable m cid s \<Longrightarrow> live_record m cid l \<Longrightarrow> lcr_last_trusted_unix_ms l \<le> sto_last_trusted_unix_ms s \<Longrightarrow>
     recoverable m cid (s\<lparr>sto_lifecycle := l\<rparr>)"
  by (simp add: recoverable_def)

lemma occurrence_ok_header:
  "header_ok m cid l \<Longrightarrow> header_ok m cid l' \<Longrightarrow> occurrence_ok l' n = occurrence_ok l n"
  by (simp add: occurrence_ok_def validate_occurrence_binding_def header_ok_def cong: if_cong)

lemma schedule_ok_header:
  assumes "header_ok m cid l" and "header_ok m cid l'"
    and "lcr_next_production_occurrence l' = lcr_next_production_occurrence l"
    and "lcr_acknowledged_production_sequence l' = lcr_acknowledged_production_sequence l"
  shows "schedule_ok l' = schedule_ok l"
  using assms(3,4) by (simp add: schedule_ok_def occurrence_ok_header [OF assms(1,2)])

lemma pending_ok_header:
  assumes "header_ok m cid l" and "header_ok m cid l'"
    and "lcr_pending_world_commit l' = lcr_pending_world_commit l"
    and "lcr_last_world_event_sequence l' = lcr_last_world_event_sequence l"
  shows "pending_ok l' = pending_ok l"
  using assms(3,4) by (simp add: pending_ok_def occurrence_ok_header [OF assms(1,2)])

lemma live_record_renewed:
  assumes live: "live_record m cid l" and now: "lcr_last_trusted_unix_ms l \<le> now" and "now < e"
  shows "live_record m cid (l\<lparr>lcr_renewed_at_unix_ms := Some now, lcr_expires_at_unix_ms := Some e,
    lcr_last_trusted_unix_ms := now, lcr_updated_at_unix_ms := now\<rparr>)" (is "live_record m cid ?l")
proof -
  have header: "header_ok m cid l" "header_ok m cid ?l"
    using live by (simp_all add: live_record_def header_ok_def)
  have "lease_ok ?l"
    using live assms(2,3) unfolding live_record_def lease_ok_def by auto
  moreover have "cutoff_ok ?l"
    using live now unfolding live_record_def cutoff_ok_def by (auto split: option.splits)
  moreover have "schedule_ok ?l" "pending_ok ?l"
    using schedule_ok_header [OF header] pending_ok_header [OF header] live
    by (simp_all add: live_record_def)
  ultimately show ?thesis
    using live header by (simp add: live_record_def)
qed

lemma lease_time_ahead: "checked_add x LEASE_DURATION_MILLIS = Some y \<Longrightarrow> x < y"
  by (drule checked_add_SomeD(1)) (simp add: word_less_nat_alt LEASE_DURATION_MILLIS_def)

lemma recoverable_renew:
  "recoverable m cid s \<Longrightarrow> live_record m cid l \<Longrightarrow> lcr_last_trusted_unix_ms l \<le> x \<Longrightarrow>
     recoverable m cid (s\<lparr>sto_lifecycle_file := Some l, sto_lifecycle := l, sto_last_trusted_unix_ms := x\<rparr>)"
  by (simp add: recoverable_def live_record_accepted)

lemma recoverable_maintain: "stable (recoverable m cid) maintain_live_lease"
proof (rule stableI)
  fix s assume rec: "recoverable m cid s"
  have renewed: "live_record m cid (l\<lparr>lcr_renewed_at_unix_ms := Some now, lcr_expires_at_unix_ms := Some e,
      lcr_last_trusted_unix_ms := now, lcr_updated_at_unix_ms := now\<rparr>)"
    if "l = sto_lifecycle s" "lcr_expires_at_unix_ms l = Some e'" "sto_last_trusted_unix_ms s \<le> now"
      "checked_add now LEASE_DURATION_MILLIS = Some e" for l e' now e
  proof (rule live_record_renewed)
    show "live_record m cid l" "lcr_last_trusted_unix_ms l \<le> now"
      using rec that by (auto simp: recoverable_def)
  qed (rule lease_time_ahead [OF that(4)])
  show "wp maintain_live_lease (\<lambda>_. recoverable m cid) (\<lambda>_. recoverable m cid) s"
    unfolding maintain_live_lease_def Let_def write_lifecycle_file_def
    by (intro wp_intro)
       (auto simp: lease_record_ok ok_or_Inr_iff rec dest!: accept_trusted_le
          intro!: recoverable_renew recoverable_write live_record_accepted renewed)
qed

section \<open>A verified lease\<close>

text \<open>After the check: the record in the file is the store's own and outlives a write.\<close>

definition lease_held :: "store_state \<Rightarrow> bool" where
  "lease_held s \<longleftrightarrow> sto_write_enabled s \<and> sto_lifecycle_file s = Some (sto_lifecycle s)
     \<and> lcr_fencing_token (sto_lifecycle s) = sto_fencing_token s
     \<and> (\<exists>e. lcr_expires_at_unix_ms (sto_lifecycle s) = Some e \<and> sto_last_trusted_unix_ms s < e
          \<and> LEASE_WRITE_SAFETY_MARGIN_MILLIS \<le> saturating_sub e (sto_last_trusted_unix_ms s))"

definition time_closed :: "(store_state \<Rightarrow> bool) \<Rightarrow> bool" where
  "time_closed P \<longleftrightarrow> (\<forall>s c x. P s \<longrightarrow> P (s\<lparr>sto_clock := c\<rparr>)
     \<and> (sto_last_trusted_unix_ms s \<le> x \<longrightarrow> P (s\<lparr>sto_clock := c, sto_last_trusted_unix_ms := x\<rparr>)))"

lemma time_closed_simps [simp]:
  "time_closed (recoverable m cid)" "time_closed (renewed s0)"
  "time_closed P \<Longrightarrow> time_closed Q \<Longrightarrow> time_closed (\<lambda>s. P s \<and> Q s)"
  by (simp_all add: time_closed_def)

lemma wp_lease_rounds:
  assumes "stable P maintain_live_lease" and "time_closed P" and "\<And>s. P s \<Longrightarrow> sto_write_enabled s" and "P s"
  shows "wp (verify_lease_rounds n remaining) (\<lambda>_ s'. P s' \<and> lease_held s') (\<lambda>_. P) s"
  using assms(4)
proof (induction n arbitrary: remaining s)
  case (Suc n)
  have closed: "P (s\<lparr>sto_clock := c\<rparr>)"
    "sto_last_trusted_unix_ms s \<le> x \<Longrightarrow> P (s\<lparr>sto_clock := c, sto_last_trusted_unix_ms := x\<rparr>)"
    if "P s" for s c x
    using assms(2) that by (auto simp: time_closed_def)
  show ?case
    unfolding verify_lease_rounds.simps Let_def read_current_lease_def
    by (intro wp_intro wp_stable [OF assms(1)] Suc.IH)
       (use assms(3) in \<open>auto simp: Suc.prems closed lease_record_ok ok_or_Inr_iff lease_held_def\<close>)
qed (auto intro: wp_intro)

lemma wp_verify_lease:
  assumes stable: "stable P maintain_live_lease" and closed: "time_closed P" and P: "P s"
  shows "wp verify_live_lease_for_write (\<lambda>_ s'. P s' \<and> renewed s s' \<and> lease_held s')
    (\<lambda>_ s'. P s' \<and> renewed s s') s"
proof (cases "sto_write_enabled s")
  case True
  let ?R = "\<lambda>s'. P s' \<and> renewed s s'"
  have enabled: "sto_write_enabled s'" if "?R s'" for s'
    using that True by (simp add: renewed_def)
  have "wp (verify_lease_rounds 2 0) (\<lambda>_ s'. ?R s' \<and> lease_held s') (\<lambda>_. ?R) s"
    by (rule wp_lease_rounds [OF stable_conj [OF stable renewed_maintain]])
       (use P closed in \<open>simp_all add: enabled\<close>)
  with True show ?thesis
    unfolding verify_live_lease_for_write_def by (intro wp_intro) simp_all
next
  case False
  with P show ?thesis
    unfolding verify_live_lease_for_write_def by (intro wp_intro) simp_all
qed

lemma stable_true: "stable (\<lambda>_. True) m"
  by (simp add: stable_def wp_def split: prod.split sum.split)

lemma wp_verify_lease_plain:
  "wp verify_live_lease_for_write (\<lambda>_ s'. renewed s s' \<and> lease_held s') (\<lambda>_ s'. renewed s s') s"
  using wp_verify_lease [OF stable_true, of s] by (simp add: time_closed_def)

section \<open>Persisting a record\<close>

definition recorded :: "store_manifest \<Rightarrow> string \<Rightarrow> cell_lifecycle_record \<Rightarrow> store_state \<Rightarrow> bool" where
  "recorded m cid l s \<longleftrightarrow> recoverable m cid s \<and> sto_lifecycle s = l \<and> live_record m cid l"

lemma wp_persist_recorded:
  assumes rec: "recoverable m cid s" and trusted: "lcr_last_trusted_unix_ms l \<le> sto_last_trusted_unix_ms s"
    and live: "\<And>e. lcr_expires_at_unix_ms (sto_lifecycle s) = Some e \<Longrightarrow> sto_last_trusted_unix_ms s < e \<Longrightarrow>
      live_record m cid l"
  shows "wp (persist_lifecycle l) (\<lambda>_. recorded m cid l) (\<lambda>_. recoverable m cid) s"
proof -
  have "live_record m cid l" if "sto_last_trusted_unix_ms s \<le> now" "lcr_expires_at_unix_ms (sto_lifecycle s) = Some e"
    "now < e" for now e
    using live that by (meson order_le_less_trans)
  moreover have "recoverable m cid (s\<lparr>sto_clock := c, sto_last_trusted_unix_ms := x, sto_writes := w,
      sto_lifecycle_file := Some l\<rparr>)"
    "recoverable m cid (s\<lparr>sto_clock := c, sto_last_trusted_unix_ms := x, sto_writes := w,
      sto_lifecycle_file := Some l, sto_lifecycle := l\<rparr>)"
    if "live_record m cid l" "sto_last_trusted_unix_ms s \<le> x" for c x w
    using rec that trusted live_record_accepted [OF that(1)] by (auto simp: recoverable_def)
  ultimately show ?thesis
    unfolding persist_lifecycle_def write_lifecycle_file_def
    by (intro wp_intro) (auto simp: rec ok_or_Inr_iff recorded_def)
qed

lemma wp_recorded: "wp x (\<lambda>_. recorded m cid l) E s \<Longrightarrow> wp x (\<lambda>_. recoverable m cid) E s"
  by (erule wp_conseq) (simp_all add: recorded_def)

text \<open>What a world must satisfy to be recorded after \<open>l\<close>: its hashes, and a pending commit ahead of it.\<close>

definition recordable :: "cell_lifecycle_record \<Rightarrow> world_view \<Rightarrow> bool" where
  "recordable l state \<longleftrightarrow>
     frontier_ok (wv_event_sequence state) (wv_last_event_hash state) (wv_state_hash state)
     \<and> (\<forall>p. lcr_pending_world_commit l = Some p \<longrightarrow> wv_event_sequence state < pwc_event_sequence p)"

definition same_schedule :: "cell_lifecycle_record \<Rightarrow> cell_lifecycle_record \<Rightarrow> bool" where
  "same_schedule l l' \<longleftrightarrow>
     lcr_next_production_occurrence l' = lcr_next_production_occurrence l
     \<and> lcr_acknowledged_production_sequence l' = lcr_acknowledged_production_sequence l
     \<and> lcr_pending_world_commit l' = lcr_pending_world_commit l"

definition same_lease :: "cell_lifecycle_record \<Rightarrow> cell_lifecycle_record \<Rightarrow> bool" where
  "same_lease l l' \<longleftrightarrow> lcr_fencing_token l' = lcr_fencing_token l \<and> lcr_holder_id l' = lcr_holder_id l
     \<and> lcr_acquired_at_unix_ms l' = lcr_acquired_at_unix_ms l
     \<and> lcr_renewed_at_unix_ms l' = lcr_renewed_at_unix_ms l
     \<and> lcr_expires_at_unix_ms l' = lcr_expires_at_unix_ms l"

lemma lease_ok_later:
  assumes "lease_ok l" and "same_lease l l'" and "lcr_last_trusted_unix_ms l \<le> lcr_last_trusted_unix_ms l'"
    and "lcr_expires_at_unix_ms l = Some e" and "lcr_last_trusted_unix_ms l' < e"
  shows "lease_ok l'"
  using assms unfolding lease_ok_def same_lease_def by auto

lemma tail_at_frontier:
  assumes "header_ok m cid l" and "schedule_ok l" and "pending_ok l" and "recordable l state"
    and "header_ok m cid l'" and "same_schedule l l'"
  shows "schedule_ok (at_world_frontier state now l')" "pending_ok (at_world_frontier state now l')"
    "header_ok m cid (at_world_frontier state now l')"
proof -
  let ?l = "at_world_frontier state now l'"
  show header: "header_ok m cid ?l"
    using assms(5) by (simp add: header_ok_def at_world_frontier_def)
  show "schedule_ok ?l"
    using schedule_ok_header [OF assms(1) header] assms(2,6)
    by (simp add: at_world_frontier_def same_schedule_def)
  have "pending_ok (?l\<lparr>lcr_last_world_event_sequence := lcr_last_world_event_sequence l\<rparr>)"
    using pending_ok_header [OF assms(1), of "?l\<lparr>lcr_last_world_event_sequence := lcr_last_world_event_sequence l\<rparr>"]
      assms(3,6) header by (simp add: at_world_frontier_def same_schedule_def header_ok_def)
  then show "pending_ok ?l"
    using assms(4,6) unfolding pending_ok_def recordable_def same_schedule_def at_world_frontier_def
      occurrence_ok_def validate_occurrence_binding_def
    by simp
qed

lemma live_at_frontier:
  assumes live: "live_record m cid l" and expires: "lcr_expires_at_unix_ms l = Some e" "now < e"
    and now: "lcr_last_trusted_unix_ms l \<le> now" and view: "recordable l state"
    and l': "header_ok m cid l'" "same_schedule l l'" "same_lease l l'"
      "lcr_observed_mode l' \<noteq> ModeSleeping" "cutoff_ok (l'\<lparr>lcr_last_trusted_unix_ms := now\<rparr>)"
  shows "live_record m cid (at_world_frontier state now l')" (is "live_record m cid ?l")
proof -
  have "lease_ok ?l"
    by (rule lease_ok_later [of l]) (use live expires now l' in \<open>simp_all add: live_record_def same_lease_def at_world_frontier_def\<close>)
  moreover have "cutoff_ok ?l"
    using l'(5) by (simp add: cutoff_ok_def at_world_frontier_def split: option.splits)
  moreover have "schedule_ok ?l" "pending_ok ?l" "header_ok m cid ?l"
    using tail_at_frontier [of m cid l state l'] live view l' by (simp_all add: live_record_def)
  ultimately show ?thesis
    using l'(4) view by (simp add: live_record_def recordable_def) (simp add: at_world_frontier_def)
qed

section \<open>The operations write accepted records\<close>

lemma renewed_untimed: "renewed s s' \<Longrightarrow> untimed (sto_lifecycle s') = untimed (sto_lifecycle s)"
  by (simp add: renewed_def)

lemmas renewed_fields = renewed_untimed [THEN untimed_fields(8)] renewed_untimed [THEN untimed_fields(13)]
  renewed_untimed [THEN untimed_fields(17)] renewed_untimed [THEN untimed_fields(18)]
  renewed_untimed [THEN untimed_fields(19)]

lemma recordable_renewed:
  assumes "renewed s s'"
  shows "recordable (sto_lifecycle s') state = recordable (sto_lifecycle s) state"
  by (simp add: recordable_def renewed_fields [OF assms])

lemma next_revision_Inr: "next_revision l = Inr r \<Longrightarrow> r \<noteq> 0"
  using checked_add_SomeD [of "lcr_lifecycle_revision l" 1 0] by (auto simp: next_revision_def result_elims)

lemma live_cutoff: "cutoff_ok l \<Longrightarrow> lcr_last_trusted_unix_ms l \<le> now \<Longrightarrow> cutoff_ok (l\<lparr>lcr_last_trusted_unix_ms := now\<rparr>)"
  by (auto simp: cutoff_ok_def split: option.splits)

lemma wp_verify_recoverable:
  "recoverable m cid s \<Longrightarrow> wp verify_live_lease_for_write
     (\<lambda>_ s'. recoverable m cid s' \<and> renewed s s' \<and> lease_held s') (\<lambda>_. recoverable m cid) s"
  using wp_verify_lease [OF recoverable_maintain, of m cid s] by (auto elim: wp_conseq)

lemma held_live: "recoverable m cid s \<Longrightarrow> lease_held s \<Longrightarrow> live_record m cid (sto_lifecycle s)"
  by (auto simp: recoverable_def lease_held_def)

text \<open>A mode change after a verified lease: the record persisted at a reading \<open>now\<close> of the clock.\<close>

lemma wp_persist_frontier:
  assumes rec: "recoverable m cid s" and held: "lease_held s" and view: "recordable (sto_lifecycle s) state"
    and now: "sto_last_trusted_unix_ms s \<le> now"
    and l: "header_ok m cid l" "same_schedule (sto_lifecycle s) l" "same_lease (sto_lifecycle s) l"
      "lcr_observed_mode l \<noteq> ModeSleeping" "cutoff_ok (l\<lparr>lcr_last_trusted_unix_ms := now\<rparr>)"
  shows "wp (persist_lifecycle (at_world_frontier state now l)) 
    (\<lambda>_. recorded m cid (at_world_frontier state now l)) (\<lambda>_. recoverable m cid)
    (s\<lparr>sto_clock := c, sto_last_trusted_unix_ms := now\<rparr>)"
proof (rule wp_persist_recorded)
  have trusted: "lcr_last_trusted_unix_ms (sto_lifecycle s) \<le> now"
    using rec now by (auto simp: recoverable_def)
  fix e assume "lcr_expires_at_unix_ms (sto_lifecycle (s\<lparr>sto_clock := c, sto_last_trusted_unix_ms := now\<rparr>)) = Some e"
    and "sto_last_trusted_unix_ms (s\<lparr>sto_clock := c, sto_last_trusted_unix_ms := now\<rparr>) < e"
  then show "live_record m cid (at_world_frontier state now l)"
    by (intro live_at_frontier [OF held_live [OF rec held] _ _ trusted view l]) simp_all
qed (use rec now in \<open>simp_all add: at_world_frontier_def\<close>)

lemma live_header: "live_record m cid l \<Longrightarrow> header_ok m cid l"
  by (simp add: live_record_def)

lemma header_ok_mode [simp]:
  "header_ok m cid l \<Longrightarrow> r \<noteq> 0 \<Longrightarrow> header_ok m cid (l\<lparr>lcr_lifecycle_revision := r,
     lcr_desired_mode := d, lcr_observed_mode := ob, lcr_activation_cutoff_unix_ms := a\<rparr>)"
  by (simp add: header_ok_def)

lemma same_mode [simp]:
  "same_schedule l (l\<lparr>lcr_lifecycle_revision := r, lcr_desired_mode := d, lcr_observed_mode := ob,
     lcr_activation_cutoff_unix_ms := a\<rparr>)" "same_schedule l l" "same_lease l l"
  "same_lease l (l\<lparr>lcr_lifecycle_revision := r, lcr_desired_mode := d, lcr_observed_mode := ob,
     lcr_activation_cutoff_unix_ms := a\<rparr>)"
  by (simp_all add: same_schedule_def same_lease_def)

lemma wp_persist_mode:
  assumes "recoverable m cid s" and "lease_held s" and "recordable (sto_lifecycle s) state"
    and "sto_last_trusted_unix_ms s \<le> now" and "next_revision (sto_lifecycle s) = Inr r"
    and "ob \<noteq> ModeSleeping"
    and "case a of None \<Rightarrow> ob \<noteq> ModeActivating | Some x \<Rightarrow> ob = ModeActivating \<and> x \<le> now"
  shows "wp (persist_lifecycle (at_world_frontier state now (sto_lifecycle s\<lparr>lcr_lifecycle_revision := r,
      lcr_desired_mode := d, lcr_observed_mode := ob, lcr_activation_cutoff_unix_ms := a\<rparr>)))
      (\<lambda>_. recoverable m cid) (\<lambda>_. recoverable m cid) (s\<lparr>sto_clock := c, sto_last_trusted_unix_ms := now\<rparr>)"
  using assms next_revision_Inr [OF assms(5)] live_header [OF held_live [OF assms(1,2)]]
  by (intro wp_recorded [OF wp_persist_frontier]) (simp_all add: cutoff_ok_def split: option.splits)

text \<open>Commands that start by verifying the lease go on from the invariant and a held lease.\<close>

lemma wp_after_verify:
  assumes "recoverable m cid s"
    and "\<And>s'. recoverable m cid s' \<Longrightarrow> renewed s s' \<Longrightarrow> lease_held s' \<Longrightarrow>
      wp (f ()) (\<lambda>_. recoverable m cid) (\<lambda>_. recoverable m cid) s'"
  shows "wp (bind_op verify_live_lease_for_write f) (\<lambda>_. recoverable m cid) (\<lambda>_. recoverable m cid) s"
  by (intro wp_bind wp_conseq [OF wp_verify_recoverable [OF assms(1)]]) (auto simp: assms(2))

lemma recoverable_publish:
  assumes "recoverable m cid s" and "recordable (sto_lifecycle s) state"
  shows "wp (publish_active state) (\<lambda>_. recoverable m cid) (\<lambda>_. recoverable m cid) s"
  unfolding publish_active_def
  by (rule wp_after_verify [OF assms(1)], intro wp_intro wp_persist_mode)
     (simp_all add: assms recordable_renewed)

lemma wp_return_op_eq: "wp (return_op x) Q E = Q x"
  by (simp add: fun_eq_iff wp_def op_simps)

lemma recoverable_restore_background:
  assumes "recoverable m cid s" and "recordable (sto_lifecycle s) state"
  shows "wp (restore_background state) (\<lambda>_. recoverable m cid) (\<lambda>_. recoverable m cid) s"
  unfolding restore_background_def
  by (rule wp_after_verify [OF assms(1)], intro wp_intro)
     (simp_all add: wp_return_op_eq wp_persist_mode assms recordable_renewed)

lemma recoverable_transition:
  assumes "recoverable m cid s" and "recordable (sto_lifecycle s) state" and "ob \<noteq> ModeSleeping"
  shows "wp (transition_mode d ob state) (\<lambda>_. recoverable m cid) (\<lambda>_. recoverable m cid) s"
  unfolding transition_mode_def
  by (rule wp_after_verify [OF assms(1)], intro wp_intro wp_persist_mode)
     (simp_all add: assms recordable_renewed)

lemma wp_persist_kept:
  assumes "recoverable m cid s" and "lease_held s" and "recordable (sto_lifecycle s) state"
    and "sto_last_trusted_unix_ms s \<le> now" and "l = sto_lifecycle s"
  shows "wp (persist_lifecycle (at_world_frontier state now l)) 
    (\<lambda>_. recorded m cid (at_world_frontier state now l)) (\<lambda>_. recoverable m cid) (s\<lparr>sto_clock := c, sto_last_trusted_unix_ms := now\<rparr>)"
proof -
  have live: "live_record m cid l" using held_live [OF assms(1,2)] assms(5) by simp
  have "lcr_last_trusted_unix_ms l \<le> now" using assms(1,4,5) by (auto simp: recoverable_def)
  with live assms show ?thesis
    by (intro wp_persist_frontier) (auto simp: live_record_def intro: live_cutoff)
qed

lemma lease_held_frame [simp]:
  "lease_held (s\<lparr>sto_writes := w\<rparr>) = lease_held s" "lease_held (s\<lparr>sto_snapshot_file := sn\<rparr>) = lease_held s"
  "lease_held (s\<lparr>sto_clock := c\<rparr>) = lease_held s"
  by (simp_all add: lease_held_def)

lemma recordable_at_frontier [simp]: "recordable (at_world_frontier state' now l) state = recordable l state"
  by (simp add: recordable_def at_world_frontier_def)

lemma recoverable_snapshot_then:
  assumes "recoverable m cid s" and "recordable (sto_lifecycle s) state"
  shows "wp (save_snapshot state) (\<lambda>_ s'. recoverable m cid s' \<and> live_record m cid (sto_lifecycle s')
      \<and> recordable (sto_lifecycle s') state) (\<lambda>_. recoverable m cid) s"
proof -
  have persisted: "wp (persist_lifecycle (at_world_frontier state now l)) (\<lambda>_ s'. recoverable m cid s'
      \<and> live_record m cid (sto_lifecycle s') \<and> recordable (sto_lifecycle s') state)
      (\<lambda>_. recoverable m cid) (s'\<lparr>sto_clock := c, sto_last_trusted_unix_ms := now\<rparr>)"
    if "recoverable m cid s'" "lease_held s'" "recordable (sto_lifecycle s') state"
      "sto_last_trusted_unix_ms s' \<le> now" "l = sto_lifecycle s'" for s' now c l
    using that by (auto intro!: wp_conseq [OF wp_persist_kept] simp: recorded_def)
  show ?thesis
    unfolding save_snapshot_def
    by (intro wp_bind wp_conseq [OF wp_verify_recoverable [OF assms(1)]], intro wp_intro persisted)
       (auto simp: assms(2) recordable_renewed)
qed

lemma recoverable_snapshot:
  assumes "recoverable m cid s" and "recordable (sto_lifecycle s) state"
  shows "wp (save_snapshot state) (\<lambda>_. recoverable m cid) (\<lambda>_. recoverable m cid) s"
  using recoverable_snapshot_then [OF assms] by (auto elim: wp_conseq)

text \<open>Falling asleep: the record without a lease.\<close>

lemma sleeping_accepted:
  assumes "live_record m cid l" and "recordable l state" and "next_revision l = Inr r"
  shows "validate_prior_lifecycle (sleeping_record state now r l) m cid = Inr ()"
proof -
  let ?l = "l\<lparr>lcr_lifecycle_revision := r, lcr_desired_mode := ModeSleeping, lcr_observed_mode := ModeSleeping,
    lcr_holder_id := None, lcr_acquired_at_unix_ms := None, lcr_renewed_at_unix_ms := None,
    lcr_expires_at_unix_ms := None, lcr_activation_cutoff_unix_ms := None\<rparr>"
  have "header_ok m cid ?l" "same_schedule l ?l"
    using assms(1) next_revision_Inr [OF assms(3)]
    by (simp_all add: live_record_def header_ok_def same_schedule_def)
  from tail_at_frontier [OF _ _ _ assms(2) this] assms(1)
  have "header_ok m cid (sleeping_record state now r l)" "schedule_ok (sleeping_record state now r l)"
    "pending_ok (sleeping_record state now r l)"
    by (simp_all add: live_record_def sleeping_record_def)
  then show ?thesis
    using assms(2) by (simp add: prior_lifecycle_ok_iff lifecycle_mode_ok_iff recordable_def)
      (simp add: sleeping_record_def at_world_frontier_def unleased_def)
qed

lemma recoverable_asleep:
  assumes "recoverable m cid s" and "recordable (sto_lifecycle s) state"
  shows "wp (fall_asleep state) (\<lambda>_. recoverable m cid) (\<lambda>_. recoverable m cid) s"
proof -
  have sleeping: "recoverable m cid (s'\<lparr>sto_clock := c, sto_last_trusted_unix_ms := now,
      sto_writes := w, sto_lifecycle_file := Some l\<rparr>)"
    "recoverable m cid (s'\<lparr>sto_clock := c, sto_last_trusted_unix_ms := now,
      sto_lifecycle_file := Some l, sto_lifecycle := l\<rparr>)"
    if "recoverable m cid s'" "live_record m cid (sto_lifecycle s')" "recordable (sto_lifecycle s') state"
      "sto_last_trusted_unix_ms s' \<le> now" "next_revision (sto_lifecycle s') = Inr r"
      "l = sleeping_record state now r (sto_lifecycle s')" for s' now c r l w
  proof -
    have "validate_prior_lifecycle l m cid = Inr ()" using sleeping_accepted [OF that(2,3,5)] that(6) by simp
    with that show "recoverable m cid (s'\<lparr>sto_clock := c, sto_last_trusted_unix_ms := now,
        sto_writes := w, sto_lifecycle_file := Some l\<rparr>)"
      "recoverable m cid (s'\<lparr>sto_clock := c, sto_last_trusted_unix_ms := now,
        sto_lifecycle_file := Some l, sto_lifecycle := l\<rparr>)"
      by (auto simp: recoverable_def sleeping_record_def at_world_frontier_def)
  qed
  show ?thesis
    unfolding fall_asleep_def Let_def write_lifecycle_file_def
    by (intro wp_bind wp_conseq [OF recoverable_snapshot_then [OF assms]], intro wp_intro)
       (simp_all add: sleeping)
qed

lemma recoverable_release:
  assumes "recoverable m cid s" and "recordable (sto_lifecycle s) state"
  shows "wp (release_to_sleeping state) (\<lambda>_. recoverable m cid) (\<lambda>_. recoverable m cid) s"
  unfolding release_to_sleeping_def by (intro wp_intro recoverable_asleep) (simp_all add: assms)

lemma recoverable_restore:
  assumes rec: "recoverable m cid s" and view: "recordable (sto_lifecycle s) state"
  shows "wp (restore_recovered_host_mode state) (\<lambda>_. recoverable m cid) (\<lambda>_. recoverable m cid) s"
proof -
  have sleeping: "wp (restore_sleeping state) (\<lambda>_. recoverable m cid) (\<lambda>_. recoverable m cid) s'"
    if "recoverable m cid s'" "recordable (sto_lifecycle s') state" for s'
    unfolding restore_sleeping_def
    by (intro wp_intro) (simp_all add: wp_return_op_eq recoverable_asleep that)
  show ?thesis
    unfolding restore_recovered_host_mode_def
    by (rule wp_bind, rule wp_get_op, simp split: option.split lifecycle_mode.split,
        intro conjI impI allI wp_intro sleeping recoverable_restore_background) (simp_all add: assms)
qed

lemma recoverable_append:
  assumes "recoverable m cid s"
  shows "wp (append_event event) (\<lambda>_. recoverable m cid) (\<lambda>_. recoverable m cid) s"
  unfolding append_event_def by (rule wp_after_verify [OF assms], intro wp_intro) simp_all

text \<open>What the production frontier of a world must satisfy.\<close>

definition acknowledgeable :: "cell_lifecycle_record \<Rightarrow> world_view \<Rightarrow> bool" where
  "acknowledgeable l state \<longleftrightarrow> (\<forall>occurrence. lcr_next_production_occurrence l = Some occurrence \<longrightarrow>
     wv_clock_last_committed_quantum_sequence state < occ_production_quantum_sequence occurrence)"

lemma acknowledgeable_renewed:
  assumes "renewed s s'"
  shows "acknowledgeable (sto_lifecycle s') state = acknowledgeable (sto_lifecycle s) state"
  by (simp add: acknowledgeable_def renewed_fields [OF assms])

lemma live_acknowledged:
  assumes live: "live_record m cid l" and expires: "lcr_expires_at_unix_ms l = Some e" "now < e"
    and now: "lcr_last_trusted_unix_ms l \<le> now" and "acknowledgeable l state"
  shows "live_record m cid (l\<lparr>lcr_acknowledged_production_sequence := wv_clock_last_committed_quantum_sequence state,
    lcr_last_trusted_unix_ms := now, lcr_updated_at_unix_ms := now\<rparr>)" (is "live_record m cid ?l")
proof -
  have header: "header_ok m cid l" "header_ok m cid ?l"
    using live by (simp_all add: live_record_def header_ok_def)
  have "lease_ok ?l"
    by (rule lease_ok_later [of l]) (use live expires now in \<open>simp_all add: live_record_def same_lease_def\<close>)
  moreover have "cutoff_ok ?l"
    using live now by (auto simp: live_record_def cutoff_ok_def split: option.splits)
  moreover have "pending_ok ?l" using pending_ok_header [OF header] live by (simp add: live_record_def)
  moreover have "schedule_ok ?l"
    using live assms(5) occurrence_ok_header [OF header]
    by (auto simp: live_record_def schedule_ok_def acknowledgeable_def)
  ultimately show ?thesis using live header by (simp add: live_record_def)
qed

lemma recoverable_acknowledge:
  assumes "recoverable m cid s" and "acknowledgeable (sto_lifecycle s) state"
  shows "wp (acknowledge_production_sequence state) (\<lambda>_. recoverable m cid) (\<lambda>_. recoverable m cid) s"
proof -
  have persisted: "wp (persist_lifecycle (l\<lparr>lcr_acknowledged_production_sequence :=
        wv_clock_last_committed_quantum_sequence state, lcr_last_trusted_unix_ms := now, lcr_updated_at_unix_ms := now\<rparr>))
      (\<lambda>_. recoverable m cid) (\<lambda>_. recoverable m cid) (s'\<lparr>sto_clock := c, sto_last_trusted_unix_ms := now\<rparr>)"
    if "recoverable m cid s'" "lease_held s'" "acknowledgeable (sto_lifecycle s') state"
      "sto_last_trusted_unix_ms s' \<le> now" "l = sto_lifecycle s'" for s' now c l
    by (rule wp_recorded, rule wp_persist_recorded)
       (use that held_live [OF that(1,2)] in \<open>auto simp: recoverable_def intro: live_acknowledged order_trans\<close>)
  show ?thesis
    unfolding acknowledge_production_sequence_def Let_def
    by (rule wp_after_verify [OF assms(1)], intro wp_intro persisted)
       (auto simp: assms(2) acknowledgeable_renewed)
qed

text \<open>Reconciliation: what the world promises of the occurrences it schedules.\<close>

definition schedules :: "cell_lifecycle_record \<Rightarrow> world_view \<Rightarrow> bool" where
  "schedules l state \<longleftrightarrow> (\<forall>time occurrence. wv_next_occurrence_at state time = Inr occurrence \<longrightarrow>
     validate_occurrence_binding occurrence l = Inr ()
     \<and> wv_clock_last_committed_quantum_sequence state < occ_production_quantum_sequence occurrence)"

lemma resolve_pending_commit_Inr:
  assumes "resolve_pending_commit state l = Inr l'" and "schedule_ok l" and "pending_ok l"
  shows "\<exists>n. l' = l\<lparr>lcr_pending_world_commit := None, lcr_next_production_occurrence := n\<rparr> \<and> occurrence_ok l n"
proof (cases "lcr_pending_world_commit l")
  case None
  with assms have "l' = l\<lparr>lcr_pending_world_commit := None, lcr_next_production_occurrence :=
      lcr_next_production_occurrence l\<rparr>"
    by (cases l) (auto simp: resolve_pending_commit_def)
  with assms(2) show ?thesis unfolding schedule_ok_def by blast
next
  case (Some p)
  with assms show ?thesis
    by (auto simp: resolve_pending_commit_def Let_def pending_ok_def split: if_splits)
qed

lemma reconcile_next_occurrence_Inr:
  assumes "reconcile_next_occurrence state now runnable n = Inr n'" and "occurrence_ok l n" and "schedules l state"
  shows "occurrence_ok l n' \<and> (\<forall>occurrence. n' = Some occurrence \<longrightarrow>
    wv_clock_last_committed_quantum_sequence state < occ_production_quantum_sequence occurrence)"
proof (cases n)
  case None
  with assms show ?thesis
    by (auto simp: reconcile_next_occurrence_def Let_def occurrence_ok_def schedules_def result_elims
        split: if_splits)
next
  case (Some occurrence)
  with assms(1) have "n' = n"
    "checked_add (wv_clock_last_committed_quantum_sequence state) 1 = Some (occ_production_quantum_sequence occurrence)"
    unfolding reconcile_next_occurrence_def Let_def by (auto simp: result_elims split: if_splits)
  with Some assms(2) checked_add_SomeD [OF this(2)] show ?thesis by (simp add: word_less_nat_alt)
qed

lemma live_reconciled:
  assumes live: "live_record m cid l" and expires: "lcr_expires_at_unix_ms l = Some e" "now < e"
    and now: "lcr_last_trusted_unix_ms l \<le> now"
    and view: "frontier_ok (wv_event_sequence state) (wv_last_event_hash state) (wv_state_hash state)"
    and n: "occurrence_ok l n" "\<forall>occurrence. n = Some occurrence \<longrightarrow> a < occ_production_quantum_sequence occurrence"
  shows "live_record m cid (at_world_frontier state now (l\<lparr>lcr_pending_world_commit := None,
    lcr_next_production_occurrence := n, lcr_acknowledged_production_sequence := a\<rparr>))" (is "live_record m cid ?l")
proof -
  have header: "header_ok m cid l" "header_ok m cid ?l"
    using live by (simp_all add: live_record_def header_ok_def at_world_frontier_def)
  have "lease_ok ?l"
    by (rule lease_ok_later [of l])
       (use live expires now in \<open>simp_all add: live_record_def same_lease_def at_world_frontier_def\<close>)
  moreover have "cutoff_ok ?l"
    using live now by (auto simp: live_record_def cutoff_ok_def at_world_frontier_def split: option.splits)
  moreover have "pending_ok ?l" by (simp add: pending_ok_def at_world_frontier_def)
  moreover have "schedule_ok ?l"
    using n occurrence_ok_header [OF header] by (simp add: schedule_ok_def) (simp add: at_world_frontier_def)
  ultimately show ?thesis using live header view by (simp add: live_record_def) (simp add: at_world_frontier_def)
qed

lemma recoverable_reconcile:
  assumes rec: "recoverable m cid s"
    and view: "frontier_ok (wv_event_sequence state) (wv_last_event_hash state) (wv_state_hash state)"
    and sched: "schedules (sto_lifecycle s) state"
  shows "wp (reconcile_lifecycle_with_world state) (\<lambda>_. recoverable m cid) (\<lambda>_. recoverable m cid) s"
proof -
  let ?a = "wv_clock_last_committed_quantum_sequence state"
  have persisted: "wp (persist_lifecycle (at_world_frontier state now (l'\<lparr>lcr_next_production_occurrence := n,
        lcr_acknowledged_production_sequence := ?a\<rparr>)))
      (\<lambda>_. recoverable m cid) (\<lambda>_. recoverable m cid) (s\<lparr>sto_clock := c, sto_last_trusted_unix_ms := now\<rparr>)"
    if now: "sto_last_trusted_unix_ms s \<le> now" and lease: "lcr_expires_at_unix_ms (sto_lifecycle s) \<noteq> None"
      and resolve: "resolve_pending_commit state (sto_lifecycle s) = Inr l'"
      and found_next: "reconcile_next_occurrence state now b (lcr_next_production_occurrence l') = Inr n"
    for now c l' n b
  proof (rule wp_recorded, rule wp_persist_recorded)
    have live: "live_record m cid (sto_lifecycle s)" using rec lease by (auto simp: recoverable_def)
    have trusted: "lcr_last_trusted_unix_ms (sto_lifecycle s) \<le> now" using rec now by (auto simp: recoverable_def)
    from resolve_pending_commit_Inr [OF resolve] live obtain n' where
      l': "l' = (sto_lifecycle s)\<lparr>lcr_pending_world_commit := None, lcr_next_production_occurrence := n'\<rparr>"
        "occurrence_ok (sto_lifecycle s) n'"
      by (auto simp: live_record_def)
    fix e' assume e': "lcr_expires_at_unix_ms (sto_lifecycle (s\<lparr>sto_clock := c, sto_last_trusted_unix_ms := now\<rparr>)) = Some e'"
      "sto_last_trusted_unix_ms (s\<lparr>sto_clock := c, sto_last_trusted_unix_ms := now\<rparr>) < e'"
    show "live_record m cid (at_world_frontier state now (l'\<lparr>lcr_next_production_occurrence := n,
        lcr_acknowledged_production_sequence := ?a\<rparr>))"
      using live_reconciled [OF live _ _ trusted view, of e' n ?a] e'
        reconcile_next_occurrence_Inr [OF found_next _ sched] l' by simp
  qed (use rec that in \<open>simp_all add: at_world_frontier_def\<close>)
  show ?thesis
    unfolding reconcile_lifecycle_with_world_def read_current_lease_def
    by (intro wp_intro persisted) (auto simp: rec lease_record_ok ok_or_Inr_iff result_elims)
qed

section \<open>Committing an event\<close>

text \<open>What a committed event must satisfy: it goes on from the frontier, with hashes of full length.\<close>

definition committable ::
    "cell_lifecycle_record \<Rightarrow> canonical_event \<Rightarrow> world_view \<Rightarrow> production_schedule_occurrence option \<Rightarrow> bool" where
  "committable l event state next_occurrence \<longleftrightarrow>
     lcr_last_world_event_sequence l < evt_event_sequence event
     \<and> length (evt_event_hash event) = 64 \<and> length (wv_state_hash state) = 64
     \<and> evt_occurred_at_unix_ms event \<noteq> 0
     \<and> (\<forall>occurrence. next_occurrence = Some occurrence \<longrightarrow>
          lcr_acknowledged_production_sequence l < occ_production_quantum_sequence occurrence)"

lemma committable_renewed:
  assumes "renewed s s'"
  shows "committable (sto_lifecycle s') event state n = committable (sto_lifecycle s) event state n"
  by (simp add: committable_def renewed_fields [OF assms])

definition pending_record ::
    "canonical_event \<Rightarrow> production_schedule_occurrence option \<Rightarrow> u64 \<Rightarrow> cell_lifecycle_record \<Rightarrow>
     cell_lifecycle_record" where
  "pending_record event next_occurrence now l =
     l\<lparr>lcr_pending_world_commit := Some \<lparr>pwc_event_sequence = evt_event_sequence event,
         pwc_event_hash = evt_event_hash event, pwc_occurred_at_unix_ms = evt_occurred_at_unix_ms event,
         pwc_prior_next_occurrence = lcr_next_production_occurrence l,
         pwc_resulting_next_occurrence = next_occurrence\<rparr>,
       lcr_last_trusted_unix_ms := now, lcr_updated_at_unix_ms := now\<rparr>"

definition committed_record ::
    "canonical_event \<Rightarrow> string \<Rightarrow> production_schedule_occurrence option \<Rightarrow> u64 \<Rightarrow> cell_lifecycle_record \<Rightarrow>
     cell_lifecycle_record" where
  "committed_record event state_hash next_occurrence now l =
     l\<lparr>lcr_last_world_event_sequence := evt_event_sequence event,
       lcr_last_world_event_hash := evt_event_hash event, lcr_last_world_state_hash := state_hash,
       lcr_next_production_occurrence := next_occurrence, lcr_pending_world_commit := None,
       lcr_last_trusted_unix_ms := now, lcr_updated_at_unix_ms := now\<rparr>"

lemma live_pending:
  assumes live: "live_record m cid l" and expires: "lcr_expires_at_unix_ms l = Some e" "now < e"
    and now: "lcr_last_trusted_unix_ms l \<le> now" and commit: "committable l event state n" "occurrence_ok l n"
  shows "live_record m cid (pending_record event n now l)" (is "live_record m cid ?l")
proof -
  have header: "header_ok m cid l" "header_ok m cid ?l"
    using live by (simp_all add: live_record_def header_ok_def pending_record_def)
  have "lease_ok ?l"
    by (rule lease_ok_later [of l])
       (use live expires now in \<open>simp_all add: live_record_def same_lease_def pending_record_def\<close>)
  moreover have "cutoff_ok ?l"
    using live now by (auto simp: live_record_def cutoff_ok_def pending_record_def split: option.splits)
  moreover have "pending_ok ?l"
    using commit live unfolding pending_ok_def occurrence_ok_header [OF header]
    by (simp add: pending_record_def committable_def live_record_def schedule_ok_def)
  moreover have "schedule_ok ?l"
    using schedule_ok_header [OF header] live by (simp add: pending_record_def live_record_def)
  ultimately show ?thesis
    using live header by (simp add: live_record_def) (simp add: pending_record_def)
qed

lemma live_committed:
  assumes live: "live_record m cid l" and expires: "lcr_expires_at_unix_ms l = Some e" "now < e"
    and now: "lcr_last_trusted_unix_ms l \<le> now" and commit: "committable l event state n" "occurrence_ok l n"
  shows "live_record m cid (committed_record event (wv_state_hash state) n now l)" (is "live_record m cid ?l")
proof -
  have header: "header_ok m cid l" "header_ok m cid ?l"
    using live by (simp_all add: live_record_def header_ok_def committed_record_def)
  have "lease_ok ?l"
    by (rule lease_ok_later [of l])
       (use live expires now in \<open>simp_all add: live_record_def same_lease_def committed_record_def\<close>)
  moreover have "cutoff_ok ?l"
    using live now by (auto simp: live_record_def cutoff_ok_def committed_record_def split: option.splits)
  moreover have "pending_ok ?l" by (simp add: pending_ok_def committed_record_def)
  moreover have "schedule_ok ?l"
    using commit occurrence_ok_header [OF header]
    by (simp add: schedule_ok_def committable_def) (simp add: committed_record_def)
  ultimately show ?thesis
    using live header commit(1)
    by (simp add: live_record_def) (simp add: committed_record_def frontier_ok_def committable_def)
qed

text \<open>The state between the record of the pending commit and the record of the committed one.\<close>

definition committing ::
    "store_manifest \<Rightarrow> string \<Rightarrow> canonical_event \<Rightarrow> world_view \<Rightarrow> production_schedule_occurrence option \<Rightarrow>
     store_state \<Rightarrow> bool" where
  "committing m cid event state n s \<longleftrightarrow> recoverable m cid s \<and> live_record m cid (sto_lifecycle s)
     \<and> committable (sto_lifecycle s) event state n \<and> occurrence_ok (sto_lifecycle s) n"

lemma committing_renewed:
  assumes "committing m cid event state n s" and "recoverable m cid s'" and "renewed s s'" and "lease_held s'"
  shows "committing m cid event state n s'"
proof -
  have live: "live_record m cid (sto_lifecycle s')" by (rule held_live [OF assms(2,4)])
  with assms occurrence_ok_header [of m cid "sto_lifecycle s" "sto_lifecycle s'"] show ?thesis
    by (auto simp: committing_def committable_renewed live_header)
qed

lemma committing_frame [simp]:
  "committing m cid event state n (s\<lparr>sto_journal_file := j\<rparr>) = committing m cid event state n s"
  "committing m cid event state n (s\<lparr>sto_boundary_file := b\<rparr>) = committing m cid event state n s"
  "committing m cid event state n (s\<lparr>sto_boundaries := i\<rparr>) = committing m cid event state n s"
  "committing m cid event state n (s\<lparr>sto_writes := w\<rparr>) = committing m cid event state n s"
  "committing m cid event state n (s\<lparr>sto_clock := c\<rparr>) = committing m cid event state n s"
  by (simp_all add: committing_def)

lemma committing_trusted [simp]:
  "committing m cid event state n s \<Longrightarrow> sto_last_trusted_unix_ms s \<le> x \<Longrightarrow>
     committing m cid event state n (s\<lparr>sto_last_trusted_unix_ms := x\<rparr>)"
  by (simp add: committing_def)

lemma committing_recoverable: "committing m cid event state n s \<Longrightarrow> recoverable m cid s"
  by (simp add: committing_def)

lemma committing_append:
  assumes "committing m cid event state n s"
  shows "wp (append_event e) (\<lambda>_. committing m cid event state n) (\<lambda>_. recoverable m cid) s"
  unfolding append_event_def
  by (intro wp_bind wp_conseq [OF wp_verify_recoverable [OF committing_recoverable [OF assms]]], intro wp_intro)
     (auto intro: committing_renewed [OF assms])

lemma live_linked:
  assumes "live_record m cid l" and "valid_blake3_hex h"
  shows "live_record m cid (l\<lparr>lcr_transfer_boundary_head_hash := h\<rparr>)" (is "live_record m cid ?l")
proof -
  have header: "header_ok m cid l" "header_ok m cid ?l"
    using assms by (simp_all add: live_record_def header_ok_def)
  have "schedule_ok ?l" "pending_ok ?l"
    using schedule_ok_header [OF header] pending_ok_header [OF header] assms(1) by (simp_all add: live_record_def)
  moreover have "lease_ok ?l" "cutoff_ok ?l"
    using assms(1) by (simp_all add: live_record_def lease_ok_def cutoff_ok_def cong: option.case_cong)
  ultimately show ?thesis using assms(1) header by (simp add: live_record_def)
qed

lemma committing_linked:
  assumes "committing m cid event state n s" and "valid_blake3_hex h"
    and "l = (sto_lifecycle s)\<lparr>lcr_transfer_boundary_head_hash := h\<rparr>"
  shows "committing m cid event state n (s\<lparr>sto_lifecycle := l\<rparr>)"
proof -
  have live: "live_record m cid (sto_lifecycle s)" "live_record m cid ((sto_lifecycle s)\<lparr>lcr_transfer_boundary_head_hash := h\<rparr>)"
    using assms by (simp_all add: committing_def live_linked)
  from occurrence_ok_header [OF this [THEN live_header]] assms live show ?thesis
    by (auto simp: committing_def recoverable_def committable_def)
qed

lemma committing_boundary:
  assumes "committing m cid event state n s" and "valid_blake3_hex (dtb_boundary_hash b)"
  shows "wp (append_boundary b) (\<lambda>_. committing m cid event state n) (\<lambda>_. recoverable m cid) s"
  unfolding append_boundary_def
  by (intro wp_intro committing_linked [OF _ assms(2)])
     (use assms in \<open>simp_all add: committing_recoverable\<close>)

lemma wp_persist_pending:
  assumes "recoverable m cid s" and "lease_held s" and "committable (sto_lifecycle s) event state n"
    and "occurrence_ok (sto_lifecycle s) n" and "sto_last_trusted_unix_ms s \<le> now"
  shows "wp (persist_lifecycle (pending_record event n now (sto_lifecycle s)))
    (\<lambda>_. committing m cid event state n) (\<lambda>_. recoverable m cid)
    (s\<lparr>sto_clock := c, sto_last_trusted_unix_ms := now\<rparr>)"
proof -
  let ?l = "pending_record event n now (sto_lifecycle s)"
  have live: "live_record m cid (sto_lifecycle s)" by (rule held_live [OF assms(1,2)])
  have trusted: "lcr_last_trusted_unix_ms (sto_lifecycle s) \<le> now"
    using assms(1,5) by (auto simp: recoverable_def)
  have "occurrence_ok ?l n" if "live_record m cid ?l"
    using occurrence_ok_header [OF live_header live_header, OF live that] assms(4) by simp
  then have "committing m cid event state n s'" if "recorded m cid ?l s'" for s'
    using that assms(3) by (auto simp: recorded_def committing_def committable_def pending_record_def)
  moreover have "wp (persist_lifecycle ?l) (\<lambda>_. recorded m cid ?l) (\<lambda>_. recoverable m cid)
      (s\<lparr>sto_clock := c, sto_last_trusted_unix_ms := now\<rparr>)"
    by (rule wp_persist_recorded)
       (use assms live_pending [OF live _ _ trusted assms(3,4)] in \<open>auto simp: pending_record_def\<close>)
  ultimately show ?thesis by (auto elim: wp_conseq)
qed

lemma wp_persist_committed:
  assumes "committing m cid event state n s" and "sto_last_trusted_unix_ms s \<le> now" and "l = sto_lifecycle s"
  shows "wp (persist_lifecycle (committed_record event (wv_state_hash state) n now l))
    (\<lambda>_. recoverable m cid) (\<lambda>_. recoverable m cid) (s\<lparr>sto_clock := c, sto_last_trusted_unix_ms := now\<rparr>)"
proof (rule wp_recorded, rule wp_persist_recorded)
  have trusted: "lcr_last_trusted_unix_ms (sto_lifecycle s) \<le> now"
    using assms(1,2) by (auto simp: recoverable_def committing_def)
  fix e assume "lcr_expires_at_unix_ms (sto_lifecycle (s\<lparr>sto_clock := c, sto_last_trusted_unix_ms := now\<rparr>)) = Some e"
    "sto_last_trusted_unix_ms (s\<lparr>sto_clock := c, sto_last_trusted_unix_ms := now\<rparr>) < e"
  then show "live_record m cid (committed_record event (wv_state_hash state) n now l)"
    using assms trusted by (auto simp: committing_def intro: live_committed)
qed (use assms in \<open>auto simp: committing_def committed_record_def\<close>)

lemma link_boundary_valid:
  "(\<And>bytes. valid_blake3_hex (ext_blake3_hex ext bytes)) \<Longrightarrow>
     valid_blake3_hex (dtb_boundary_hash (link_boundary ext json head b))"
  by (simp add: link_boundary_def calculate_boundary_hash_def Let_def)

lemma recoverable_commit:
  assumes hashes: "\<And>bytes. valid_blake3_hex (ext_blake3_hex ext bytes)" and rec: "recoverable m cid s"
    and "committable (sto_lifecycle s) event state n"
  shows "wp (commit_world_event ext json event state n) (\<lambda>_. recoverable m cid) (\<lambda>_. recoverable m cid) s"
proof -
  have boundary: "wp (case b of None \<Rightarrow> return_op () | Some b \<Rightarrow> append_boundary b)
      (\<lambda>_. committing m cid event state n) (\<lambda>_. recoverable m cid) s'"
    if "committing m cid event state n s'" "b = map_option (link_boundary ext json head) b'" for s' b b' head
    using that committing_boundary [OF that(1) link_boundary_valid [OF hashes]]
    by (auto intro: wp_intro split: option.split)
  note stages = wp_conseq [OF wp_persist_pending] wp_conseq [OF committing_append] wp_conseq [OF boundary]
    wp_persist_committed
  show ?thesis
    unfolding commit_world_event_def Let_def pending_record_def [symmetric] committed_record_def [symmetric]
    apply (rule wp_after_verify [OF rec])
    apply (intro wp_bind wp_get_op wp_guard_op wp_lift_op wp_trusted_unix_millis)
    apply (rule wp_conseq [OF wp_persist_pending])
          apply (assumption | (use assms(3) in \<open>auto simp: committable_renewed occurrence_ok_def result_elims; fail\<close>))+
    apply (intro wp_bind wp_get_op wp_guard_op wp_lift_op wp_trusted_unix_millis wp_conseq [OF committing_append])
    apply (assumption | (rule wp_conseq [OF boundary], assumption, rule refl))+
    apply (intro wp_bind wp_get_op wp_guard_op wp_lift_op wp_trusted_unix_millis wp_persist_committed)
    apply (simp_all add: rec committing_recoverable)
    done
qed

section \<open>All commands\<close>

text \<open>What the host promises of the worlds and events it hands to the store.\<close>

fun admissible_command :: "cell_lifecycle_record \<Rightarrow> store_command \<Rightarrow> bool" where
  "admissible_command l (ReconcileWorld state) =
     (frontier_ok (wv_event_sequence state) (wv_last_event_hash state) (wv_state_hash state)
      \<and> schedules l state)"
| "admissible_command l (RestoreHostMode state) = recordable l state"
| "admissible_command l (PublishActive state) = recordable l state"
| "admissible_command l (TransitionMode desired observed state) =
     (recordable l state \<and> observed \<noteq> ModeSleeping)"
| "admissible_command l (SaveSnapshot state) = recordable l state"
| "admissible_command l (AppendEvent event) = True"
| "admissible_command l (CommitWorldEvent event state n) = committable l event state n"
| "admissible_command l (AcknowledgeProduction state) = acknowledgeable l state"
| "admissible_command l (ReleaseToSleeping state) = recordable l state"
| "admissible_command l MaintainLease = True"

lemma execute_recoverable:
  assumes "\<And>bytes. valid_blake3_hex (ext_blake3_hex ext bytes)" and "recoverable m cid s"
    and "admissible_command (sto_lifecycle s) command"
  shows "wp (execute_store ext json command) (\<lambda>_. recoverable m cid) (\<lambda>_. recoverable m cid) s"
proof (cases command)
  case (RestoreHostMode state)
  with assms recoverable_restore show ?thesis by (auto intro!: wp_intro simp: wp_return_op_eq)
next
  case MaintainLease
  with assms(2) recoverable_maintain show ?thesis by (simp add: stable_def)
qed (use assms in \<open>simp_all add: recoverable_reconcile recoverable_publish recoverable_transition
    recoverable_snapshot recoverable_append recoverable_commit recoverable_acknowledge recoverable_release\<close>)

end
