(* ===== verification/LifecycleCommit.thy ===== *)
theory LifecycleCommit
  imports LifecycleRecords
begin

text \<open>
  What a crash leaves of a commit, what an acquisition takes over, and what a released store
  can still do.
\<close>

section \<open>The two halves of a commit\<close>

text \<open>The record announces \<open>p\<close> and the journal is \<open>j\<close>.\<close>

definition announced :: "pending_world_commit \<Rightarrow> journal_line list \<Rightarrow> store_state \<Rightarrow> bool" where
  "announced p j s \<longleftrightarrow> sto_journal_file s = j \<and> lcr_pending_world_commit (sto_lifecycle s) = Some p
     \<and> (\<exists>l. sto_lifecycle_file s = Some l \<and> lcr_pending_world_commit l = Some p)"

text \<open>The journal is \<open>j\<close> and the record, if it announces nothing, schedules \<open>n\<close> next.\<close>

definition settled ::
    "pending_world_commit \<Rightarrow> production_schedule_occurrence option \<Rightarrow> journal_line list \<Rightarrow> store_state \<Rightarrow> bool" where
  "settled p n j s \<longleftrightarrow> sto_journal_file s = j \<and> (\<exists>l. sto_lifecycle_file s = Some l \<and>
     (lcr_pending_world_commit l = Some p
      \<or> lcr_pending_world_commit l = None \<and> lcr_next_production_occurrence l = n))"

lemma announced_settled: "announced p j s \<Longrightarrow> settled p n j s"
  by (auto simp: announced_def settled_def)

lemma announced_renewed:
  assumes "announced p j s" and "renewed s s'"
  shows "announced p j s'"
proof -
  from assms obtain l where "sto_lifecycle_file s = Some l" "lcr_pending_world_commit l = Some p"
    unfolding announced_def by blast
  moreover from assms(2) this(1) obtain l' where "sto_lifecycle_file s' = Some l'" "untimed l' = untimed l"
    by (auto simp: renewed_def)
  ultimately show ?thesis
    using assms untimed_fields(19) [of l' l] renewed_fields(5) [OF assms(2)]
    unfolding announced_def renewed_def by metis
qed

lemma announced_frame [simp]:
  "announced p j (s\<lparr>sto_clock := c\<rparr>) = announced p j s"
  "announced p j (s\<lparr>sto_last_trusted_unix_ms := t\<rparr>) = announced p j s"
  "announced p j (s\<lparr>sto_writes := w\<rparr>) = announced p j s"
  "announced p j (s\<lparr>sto_boundaries := bs\<rparr>) = announced p j s"
  "announced p j (s\<lparr>sto_boundary_file := bf\<rparr>) = announced p j s"
  by (simp_all add: announced_def)

lemma wp_append_announced:
  assumes "announced p j s"
  shows "wp (append_event event) (\<lambda>_. announced p (j @ [EventLine event]))
    (\<lambda>_ s'. announced p j s' \<or> announced p (j @ [EventLine event]) s') s"
  unfolding append_event_def
  by (intro wp_bind wp_conseq [OF wp_verify_lease_plain], intro wp_intro)
     (auto dest: announced_renewed [OF assms] simp: announced_def)

lemma wp_boundary_announced:
  assumes "announced p j s"
  shows "wp (append_boundary b) (\<lambda>_. announced p j) (\<lambda>_. announced p j) s"
  unfolding append_boundary_def by (intro wp_intro) (use assms in \<open>auto simp: announced_def\<close>)

lemma settled_frame [simp]:
  "settled p n j (s\<lparr>sto_clock := c\<rparr>) = settled p n j s"
  "settled p n j (s\<lparr>sto_last_trusted_unix_ms := t\<rparr>) = settled p n j s"
  "settled p n j (s\<lparr>sto_writes := w\<rparr>) = settled p n j s"
  by (simp_all add: settled_def)

lemma wp_announce:
  assumes "settled p n' j s" and "lcr_pending_world_commit l = Some p"
  shows "wp (persist_lifecycle l) (\<lambda>_. announced p j) (\<lambda>_. settled p n' j) s"
  unfolding persist_lifecycle_def write_lifecycle_file_def
  by (intro wp_intro) (use assms in \<open>auto simp: announced_def settled_def\<close>)

lemma wp_settle:
  assumes "announced p j s" and "lcr_pending_world_commit l = None" and "lcr_next_production_occurrence l = n"
  shows "wp (persist_lifecycle l) (\<lambda>_. settled p n j) (\<lambda>_. settled p n j) s"
  unfolding persist_lifecycle_def write_lifecycle_file_def
  by (intro wp_intro) (use assms in \<open>auto simp: announced_def settled_def\<close>)

lemma wp_commit_event:
  assumes file_now: "sto_lifecycle_file s = Some (sto_lifecycle s)" "lcr_pending_world_commit (sto_lifecycle s) = None"
    and p: "p = \<lparr>pwc_event_sequence = evt_event_sequence event, pwc_event_hash = evt_event_hash event,
       pwc_occurred_at_unix_ms = evt_occurred_at_unix_ms event,
       pwc_prior_next_occurrence = lcr_next_production_occurrence (sto_lifecycle s),
       pwc_resulting_next_occurrence = n\<rparr>"
  shows "wp (commit_world_event ext json event state n)
    (\<lambda>_. settled p n (sto_journal_file s @ [EventLine event]))
    (\<lambda>_ s'. settled p (lcr_next_production_occurrence (sto_lifecycle s)) (sto_journal_file s) s'
       \<or> settled p n (sto_journal_file s @ [EventLine event]) s') s" (is "wp _ ?Q ?E s")
proof -
  let ?old = "settled p (lcr_next_production_occurrence (sto_lifecycle s)) (sto_journal_file s)"
  have old: "?old s'" if "renewed s s'" for s'
  proof -
    from that file_now obtain l where "sto_lifecycle_file s' = Some l" "untimed l = untimed (sto_lifecycle s)"
      by (auto simp: renewed_def)
    with untimed_fields [OF this(2)] file_now(2) that show ?thesis
      by (auto simp: settled_def renewed_def)
  qed
  have verified: "\<lparr>pwc_event_sequence = evt_event_sequence event, pwc_event_hash = evt_event_hash event,
       pwc_occurred_at_unix_ms = evt_occurred_at_unix_ms event,
       pwc_prior_next_occurrence = lcr_next_production_occurrence (sto_lifecycle s'),
       pwc_resulting_next_occurrence = n\<rparr> = p" if "renewed s s'" for s'
    using renewed_fields(3) [OF that] by (simp add: p)
  have boundary: "wp (case b of None \<Rightarrow> return_op () | Some b \<Rightarrow> append_boundary b)
      (\<lambda>_. announced p (sto_journal_file s @ [EventLine event])) ?E s'"
    if "announced p (sto_journal_file s @ [EventLine event]) s'" for s' b
    using that wp_conseq [OF wp_boundary_announced [OF that]]
    by (auto intro!: wp_intro split: option.split simp: announced_settled)
  show ?thesis
    unfolding commit_world_event_def Let_def
    by (rule wp_bind, rule wp_conseq [OF wp_verify_lease_plain],
        intro wp_bind wp_get_op wp_guard_op wp_lift_op wp_trusted_unix_millis
          wp_conseq [OF wp_announce [where p = p and j = "sto_journal_file s"
            and n' = "lcr_next_production_occurrence (sto_lifecycle s)"]]
          wp_conseq [OF wp_append_announced [where p = p and j = "sto_journal_file s"]] wp_conseq [OF boundary]
          wp_conseq [OF wp_settle [where p = p and j = "sto_journal_file s @ [EventLine event]" and n = n]])
       (auto simp: old verified announced_settled)
qed

lemma settled_resolves:
  assumes "settled p n j s" and "wv_event_sequence state < pwc_event_sequence p"
    and "pwc_prior_next_occurrence p = n"
  shows "\<exists>l l'. sto_lifecycle_file s = Some l \<and> resolve_pending_commit state l = Inr l'
    \<and> lcr_next_production_occurrence l' = n \<and> sto_journal_file s = j"
  using assms by (auto simp: settled_def resolve_pending_commit_def Let_def)

lemma settled_resolves_committed:
  assumes "settled p n j s" and "wv_event_sequence state = pwc_event_sequence p"
    and "wv_last_event_hash state = pwc_event_hash p" and "pwc_resulting_next_occurrence p = n"
  shows "\<exists>l l'. sto_lifecycle_file s = Some l \<and> resolve_pending_commit state l = Inr l'
    \<and> lcr_next_production_occurrence l' = n \<and> sto_journal_file s = j"
  using assms by (auto simp: settled_def resolve_pending_commit_def Let_def)

text \<open>A commit that does not even pass the first guards has touched nothing but the lease.\<close>

lemma commit_frontier:
  "commit_world_event ext json event state n s = (s', Inr ()) \<Longrightarrow>
     wv_event_sequence state = evt_event_sequence event \<and> wv_last_event_hash state = evt_event_hash event"
  unfolding commit_world_event_def by (auto simp: bind_op_Inr op_simps split: if_splits)

section \<open>Scanning the fences of a journal\<close>

fun journal_events :: "journal_line list \<Rightarrow> canonical_event list" where
  "journal_events [] = []"
| "journal_events (EventLine event # journal) = event # journal_events journal"
| "journal_events (_ # journal) = journal_events journal"

fun readable :: "journal_line list \<Rightarrow> bool" where
  "readable [] = True"
| "readable (UnreadableLine message # journal) = False"
| "readable (_ # journal) = readable journal"

text \<open>What the scan accepts: positive fences in order, on the right side of the snapshot.\<close>

definition fences_in_order :: "u64 \<Rightarrow> u64 \<Rightarrow> u64 \<Rightarrow> canonical_event list \<Rightarrow> bool" where
  "fences_in_order snapshot_sequence snapshot_fence start events \<longleftrightarrow>
     sorted_wrt (\<le>) (start # map evt_authority_fencing_token events)
     \<and> list_all (\<lambda>event. evt_authority_fencing_token event \<noteq> 0 \<and>
         (if evt_event_sequence event \<le> snapshot_sequence then evt_authority_fencing_token event \<le> snapshot_fence
          else snapshot_fence \<le> evt_authority_fencing_token event)) events"

lemma scan_journal_fences_iff:
  "scan_journal_fences snapshot_sequence snapshot_fence index journal start = Inr found \<longleftrightarrow>
     readable journal \<and> fences_in_order snapshot_sequence snapshot_fence start (journal_events journal)
     \<and> found = last (start # map evt_authority_fencing_token (journal_events journal))"
proof (induction snapshot_sequence snapshot_fence index journal start rule: scan_journal_fences.induct)
  case (4 sequence snapshot_fence index event journal start)
  let ?fence = "evt_authority_fencing_token event"
  have "sorted_wrt (\<le>) (start # ?fence # map evt_authority_fencing_token (journal_events journal)) \<longleftrightarrow>
      start \<le> ?fence \<and> sorted_wrt (\<le>) (?fence # map evt_authority_fencing_token (journal_events journal))"
    by (auto intro: order_trans)
  with 4 show ?case
    unfolding fences_in_order_def by (auto simp: Let_def fences_in_order_def not_less not_le)
qed (auto simp: fences_in_order_def)

lemma last_sorted_ge: "sorted_wrt (\<le>) (x # xs) \<Longrightarrow> y \<in> set (x # xs) \<Longrightarrow> y \<le> last (x # xs)" for x :: u64
  by (induction xs arbitrary: x y) (auto split: if_splits intro: order_trans)

lemma journal_events_set: "event \<in> set (journal_events journal) \<longleftrightarrow> EventLine event \<in> set journal"
  by (induction journal rule: journal_events.induct) auto

text \<open>The event and the token a scan starts from.\<close>

definition snapshot_frontier :: "snapshot_document option \<Rightarrow> u64 \<times> u64" where
  "snapshot_frontier snapshot = (case snapshot of None \<Rightarrow> (0, 0)
     | Some d \<Rightarrow> (wv_event_sequence (snd_state d), wv_fencing_token (snd_state d)))"

lemma recover_frontier_iff:
  "recover_persisted_fencing_frontier snapshot journal = Inr frontier \<longleftrightarrow>
     (\<forall>d. snapshot = Some d \<longrightarrow> snd_schema_version d = WORLD_SCHEMA_VERSION)
     \<and> readable journal
     \<and> fences_in_order (fst (snapshot_frontier snapshot)) (snd (snapshot_frontier snapshot)) 0 (journal_events journal)
     \<and> frontier = max (snd (snapshot_frontier snapshot))
         (last (0 # map evt_authority_fencing_token (journal_events journal)))"
  by (cases snapshot) (auto simp: recover_persisted_fencing_frontier_def snapshot_frontier_def
      result_elims scan_journal_fences_iff)

lemma recovered_frontier_bound:
  assumes "recover_persisted_fencing_frontier snapshot journal = Inr frontier"
  shows "(\<forall>event \<in> set (journal_events journal). evt_authority_fencing_token event \<le> frontier)
    \<and> (\<forall>d. snapshot = Some d \<longrightarrow> wv_fencing_token (snd_state d) \<le> frontier)"
proof -
  from assms have order: "sorted_wrt (\<le>) (0 # map evt_authority_fencing_token (journal_events journal))"
    and frontier: "frontier = max (snd (snapshot_frontier snapshot))
      (last (0 # map evt_authority_fencing_token (journal_events journal)))"
    by (simp_all add: recover_frontier_iff fences_in_order_def)
  from last_sorted_ge [OF order] frontier show ?thesis
    by (auto simp: le_max_iff_disj snapshot_frontier_def)
qed

section \<open>Acquiring a cell\<close>

lemma acquired_live:
  assumes previous: "case previous of None \<Rightarrow> True | Some p \<Rightarrow> validate_prior_lifecycle p m cid = Inr ()
      \<and> lcr_last_trusted_unix_ms p \<le> t"
    and "holder \<noteq> []" and "r \<noteq> 0" and "fence \<noteq> 0" and "t < e"
  shows "live_record m cid (acquired_lifecycle m cid holder previous r fence t e)" (is "live_record m cid ?l")
proof -
  note acquired = acquired_lifecycle_def
  have header: "header_ok m cid ?l"
    using assms by (auto simp: header_ok_def acquired prior_lifecycle_ok_iff split: option.splits)
  have tail: "schedule_ok ?l \<and> pending_ok ?l"
  proof (cases previous)
    case None
    then show ?thesis by (simp add: schedule_ok_def pending_ok_def occurrence_ok_def acquired)
  next
    case (Some p)
    with previous have p: "header_ok m cid p" "schedule_ok p" "pending_ok p"
      by (simp_all add: prior_lifecycle_ok_iff)
    from p(2,3) schedule_ok_header [OF p(1) header] pending_ok_header [OF p(1) header] Some
    show ?thesis by (simp add: acquired)
  qed
  have "cutoff_ok ?l"
  proof (cases previous)
    case (Some p)
    then show ?thesis
      using previous unfolding cutoff_ok_def prior_lifecycle_ok_iff lifecycle_mode_ok_iff
      by (auto simp: acquired split: option.splits if_splits)
  qed (simp add: cutoff_ok_def acquired)
  moreover have "lease_ok ?l" using assms by (simp add: lease_ok_def acquired)
  moreover have "frontier_ok (lcr_last_world_event_sequence ?l) (lcr_last_world_event_hash ?l)
      (lcr_last_world_state_hash ?l)"
    using previous by (cases previous) (simp_all add: acquired frontier_ok_def prior_lifecycle_ok_iff)
  ultimately show ?thesis using header tail by (simp add: live_record_def) (simp add: acquired)
qed

definition acquired_over :: "store_state \<Rightarrow> cell_lifecycle_record \<Rightarrow> store_state \<Rightarrow> bool" where
  "acquired_over s l s' \<longleftrightarrow> sto_lifecycle_file s' = Some l \<and> sto_lifecycle s' = l
     \<and> sto_fencing_token s' = lcr_fencing_token l
     \<and> (\<forall>p. sto_lifecycle_file s = Some p \<longrightarrow> lcr_fencing_token p < lcr_fencing_token l)
     \<and> (\<forall>event \<in> set (journal_events (sto_journal_file s)). evt_authority_fencing_token event < lcr_fencing_token l)
     \<and> (\<forall>d. sto_snapshot_file s = Some d \<longrightarrow> wv_fencing_token (snd_state d) < lcr_fencing_token l)"

lemma checked_add_1_less: "checked_add x 1 = Some y \<Longrightarrow> x < (y :: u64)"
  by (drule checked_add_SomeD) (simp add: word_less_nat_alt)

lemma wp_acquire:
  "wp (acquire_cell_lease m cid holder) (\<lambda>l s'. acquired_over s l s'
     \<and> (holder \<noteq> [] \<longrightarrow> recoverable m cid s')) (\<lambda>_ _. True) s"
proof -
  let ?previous_token = "\<lambda>recovered. case sto_lifecycle_file s of None \<Rightarrow> recovered
    | Some l \<Rightarrow> max (lcr_fencing_token l) recovered"
  have over: "acquired_over s l s'"
    if "recover_persisted_fencing_frontier (sto_snapshot_file s) (sto_journal_file s) = Inr recovered"
      "checked_add (?previous_token recovered) 1 = Some fence" "lcr_fencing_token l = fence"
      "sto_lifecycle_file s' = Some l" "sto_lifecycle s' = l" "sto_fencing_token s' = fence"
    for recovered fence l s'
    using recovered_frontier_bound [OF that(1)] checked_add_1_less [OF that(2)] that
    by (fastforce simp: acquired_over_def split: option.splits intro: order_le_less_trans)
  have fields [simp]: "lcr_fencing_token (acquired_lifecycle m cid holder p r fence t e) = fence"
    "lcr_last_trusted_unix_ms (acquired_lifecycle m cid holder p r fence t e) = t" for p r fence t e
    by (simp_all add: acquired_lifecycle_def)
  have positive: "fence \<noteq> 0" if "checked_add x 1 = Some fence" for x fence :: u64
    using checked_add_1_less [OF that] by auto
  have live: "live_record m cid (acquired_lifecycle m cid holder p r fence t e)"
    if "case p of None \<Rightarrow> True | Some p \<Rightarrow> validate_prior_lifecycle p m cid = Inr () \<and> lcr_last_trusted_unix_ms p \<le> t"
      "holder \<noteq> []" "r \<noteq> 0" "checked_add x 1 = Some fence" "checked_add t LEASE_DURATION_MILLIS = Some e" for p r fence t e x
    by (rule acquired_live [OF that(1-3) positive [OF that(4)] lease_time_ahead [OF that(5)]])
  show ?thesis
    unfolding acquire_cell_lease_def Let_def write_lifecycle_file_def
  proof (intro wp_intro, simp_all add: result_elims, goal_cases first later)
    case (first recovered one fence x c t e w)
    then show ?case
      using over [of recovered fence] live [where p = None and r = 1, OF _ _ _ first(5,7)]
      by (simp add: recoverable_def live_record_accepted)
  next
    case (later p recovered r fence x c t e w)
    then show ?case
      using over [of recovered fence] accept_trusted_le [OF later(6)]
        live [where p = "Some p", OF _ _ next_revision_Inr [OF later(4)] later(5,7)]
      by (simp add: recoverable_def live_record_accepted)
  qed
qed

section \<open>A released store\<close>

definition resting :: "store_files \<Rightarrow> store_state \<Rightarrow> bool" where
  "resting f s \<longleftrightarrow> \<not> sto_write_enabled s \<and> lcr_expires_at_unix_ms (sto_lifecycle s) = None \<and> files_of s = f"

lemma resting_frame [simp]:
  "resting f (s\<lparr>sto_clock := x1\<rparr>) = resting f s" "resting f (s\<lparr>sto_writes := x2\<rparr>) = resting f s"
  "resting f (s\<lparr>sto_last_trusted_unix_ms := x3\<rparr>) = resting f s"
  "resting f (s\<lparr>sto_recovered_mode := x4\<rparr>) = resting f s"
  by (simp_all add: resting_def files_of_def)

lemma resting_lease: "resting f s \<Longrightarrow> validate_live_lease_record (sto_lifecycle s) t found now \<noteq> Inr ()"
  by (auto simp: lease_record_ok resting_def)

named_theorems resting_refusals \<open>operations a released store is refused\<close>

lemma resting_verify: "refused (resting f) verify_live_lease_for_write"
  unfolding verify_live_lease_for_write_def
  by (intro refusedI wp_intro) (simp_all add: resting_def)

lemma resting_maintain [resting_refusals]: "refused (resting f) maintain_live_lease"
  unfolding maintain_live_lease_def Let_def
  by (intro refusedI wp_intro) (simp_all add: ok_or_Inr_iff resting_lease)

lemma resting_reconcile [resting_refusals]: "refused (resting f) (reconcile_lifecycle_with_world state)"
  unfolding reconcile_lifecycle_with_world_def read_current_lease_def
  by (intro refusedI wp_intro) (simp_all add: ok_or_Inr_iff resting_lease)

lemma resting_commands [resting_refusals]:
  "refused (resting f) (commit_world_event ext json event next_state next)"
  "refused (resting f) (acknowledge_production_sequence state)"
  "refused (resting f) (publish_active state)"
  "refused (resting f) (transition_mode desired observed state)"
  "refused (resting f) (save_snapshot state)"
  "refused (resting f) (append_event event)"
  "refused (resting f) (restore_background state)"
  unfolding commit_world_event_def acknowledge_production_sequence_def publish_active_def
    transition_mode_def save_snapshot_def append_event_def restore_background_def
  by (rule refused_bind [OF resting_verify])+

lemma resting_asleep: "refused (resting f) (fall_asleep state)"
  unfolding fall_asleep_def by (rule refused_bind [OF resting_commands(5)])

lemma resting_execute: "stable (resting f) (execute_store ext json command)"
proof (cases command)
  case (RestoreHostMode state)
  have sleeping: "stable (resting f) (restore_sleeping state)"
    unfolding restore_sleeping_def by (intro stableI wp_intro wp_refused [OF resting_asleep]) simp_all
  have "wp (restore_recovered_host_mode state) (\<lambda>_. resting f) (\<lambda>_. resting f) s" if "resting f s" for s
    unfolding restore_recovered_host_mode_def
    by (rule wp_bind, rule wp_get_op, simp split: option.split lifecycle_mode.split,
        intro conjI impI allI wp_intro wp_stable [OF sleeping] wp_refused [OF resting_commands(7)])
       (simp_all add: that)
  with RestoreHostMode show ?thesis by (auto intro!: stableI wp_intro simp: wp_return_op_eq)
next
  case (ReleaseToSleeping state)
  have "stable (resting f) (release_to_sleeping state)"
    unfolding release_to_sleeping_def by (intro stableI wp_intro wp_refused [OF resting_asleep]) simp_all
  with ReleaseToSleeping show ?thesis by simp
qed (simp_all add: resting_refusals [THEN refused_stable])

lemma wp_release_rests:
  "wp (release_to_sleeping state) (\<lambda>_ s'. resting (files_of s') s'
     \<and> (\<exists>l. fil_lifecycle (files_of s') = Some l \<and> lcr_observed_mode l = ModeSleeping)
     \<and> fil_snapshot (files_of s') = Some (snapshot_of state)) (\<lambda>_ _. True) s"
proof -
  have saved: "wp (save_snapshot state) (\<lambda>_ s'. sto_snapshot_file s' = Some (snapshot_of state)) (\<lambda>_ _. True) s" for s
    unfolding save_snapshot_def persist_lifecycle_def write_lifecycle_file_def
    by (rule wp_bind, rule wp_conseq [OF wp_verify_lease_plain], intro wp_intro) simp_all
  show ?thesis
    unfolding release_to_sleeping_def fall_asleep_def Let_def write_lifecycle_file_def
    by (intro wp_bind wp_get_op wp_guard_op wp_conseq [OF saved], intro wp_intro)
       (simp_all add: resting_def files_of_def sleeping_record_def at_world_frontier_def)
qed

end
