(* ===== verification/LifecycleScenario.thy ===== *)
theory LifecycleScenario
  imports LifecycleCommit
begin

text \<open>
  A concrete cell: an empty directory, a clock that stands at one second, and two hosts that
  acquire the cell one after the other.
\<close>

definition store_manifest0 :: store_manifest where
  "store_manifest0 = \<lparr>smf_universe_id = ''verse'', smf_content_manifest_version = ''content-1'',
     smf_manifest_hash = ''manifest'', smf_celestial_registry_hash = ''registry''\<rparr>"

definition some_hash :: string where "some_hash = replicate 64 CHR ''a''"

definition other_hash :: string where "other_hash = replicate 64 CHR ''b''"

definition blank_lifecycle :: cell_lifecycle_record where
  "blank_lifecycle =
     \<lparr>lcr_schema_version = 0, lcr_universe_id = [], lcr_cell_id = [], lcr_universe_manifest_hash = [],
      lcr_celestial_registry_hash = [], lcr_lifecycle_revision = 0, lcr_desired_mode = ModeSleeping,
      lcr_observed_mode = ModeSleeping, lcr_fencing_token = 0, lcr_holder_id = None,
      lcr_acquired_at_unix_ms = None, lcr_renewed_at_unix_ms = None, lcr_expires_at_unix_ms = None,
      lcr_activation_cutoff_unix_ms = None, lcr_last_trusted_unix_ms = 0,
      lcr_last_world_event_sequence = 0, lcr_last_world_event_hash = [], lcr_last_world_state_hash = [],
      lcr_transfer_boundary_head_hash = [], lcr_next_production_occurrence = None,
      lcr_acknowledged_production_sequence = 0, lcr_pending_world_commit = None, lcr_updated_at_unix_ms = 0\<rparr>"

definition blank_store :: store_state where
  "blank_store =
     \<lparr>sto_lifecycle_file = None, sto_journal_file = [], sto_snapshot_file = None, sto_boundary_file = [],
      sto_lifecycle = blank_lifecycle, sto_fencing_token = 0, sto_last_trusted_unix_ms = 0,
      sto_world_seed = 7,
      sto_cell_key = \<lparr>key_schema_version = 1, key_universe_id = ''verse'', key_sector = \<lparr>sx = ''0'', sy = ''0'', sz = ''0''\<rparr>,
        key_cell = \<lparr>cx = 500, cy = 500, cz = 500\<rparr>\<rparr>,
      sto_cell_id = ''cell'', sto_manifest = store_manifest0, sto_write_enabled = True,
      sto_recovered_mode = None, sto_boundaries = bt_empty,
      sto_clock = replicate 64 (Inr 1000), sto_writes = []\<rparr>"

definition world0 :: "u64 \<Rightarrow> world_view" where
  "world0 token =
     \<lparr>wv_world_seed = 7, wv_universe_id = ''verse'', wv_content_manifest_version = ''content-1'',
      wv_universe_manifest_hash = ''manifest'', wv_celestial_registry_hash = ''registry'',
      wv_cell_id = ''cell'', wv_cell_address = cell_origin_address ''verse'',
      wv_event_sequence = 0, wv_last_event_hash = [], wv_fencing_token = token,
      wv_clock_lifecycle_generation = 1, wv_clock_last_committed_quantum_sequence = 0,
      wv_clock_last_scheduled_for_unix_ms = 0, wv_state_hash = some_hash, wv_player_roster = Inr (),
      wv_runnable = Inr False, wv_next_occurrence_at = (\<lambda>_. Inl ''nothing to schedule'')\<rparr>"

definition event1 :: "u64 \<Rightarrow> canonical_event" where
  "event1 token =
     \<lparr>evt_schema_name = EVENT_SCHEMA_NAME, evt_schema_version = EVENT_SCHEMA_VERSION,
      evt_event_sequence = 1, evt_previous_event_hash = [], evt_event_hash = other_hash, evt_authority_fencing_token = token,
      evt_occurred_at_unix_ms = 1000, evt_content_manifest_version = ''content-1'',
      evt_universe_id = ''verse'', evt_cell_id = ''cell'', evt_universe_manifest_hash = ''manifest'',
      evt_celestial_registry_hash = ''registry'', evt_payload = OtherPayload, evt_hash_is_valid = True\<rparr>"

definition world1 :: "u64 \<Rightarrow> world_view" where
  "world1 token = (world0 token)\<lparr>wv_event_sequence := 1, wv_last_event_hash := other_hash,
     wv_state_hash := other_hash\<rparr>"

definition store_externals :: externals where
  "store_externals = \<lparr>ext_blake3_hex = (\<lambda>bytes. some_hash), ext_cell_key_json = (\<lambda>key. Inr ''key'')\<rparr>"

definition store_a :: store_state where
  "store_a = fst (acquire_cell_lease store_manifest0 ''cell'' ''host-a'' blank_store)"

definition store_b :: store_state where
  "store_b = fst (acquire_cell_lease store_manifest0 ''cell'' ''host-b''
     (with_files (files_of store_a) blank_store))"

end
