(* ===== verification/LifecycleProperties.thy ===== *)
theory LifecycleProperties
  imports LifecycleScenario
begin

text \<open>The properties of the store of one cell.\<close>

section \<open>Superseded holders\<close>

text \<open>Commands of several stores over the same files, in the order they run.\<close>

definition run_stores ::
    "externals \<Rightarrow> (durable_transfer_boundary \<Rightarrow> string) \<Rightarrow> (nat \<times> store_command) list \<Rightarrow>
     store_files \<times> (nat \<Rightarrow> store_state) \<Rightarrow> store_files \<times> (nat \<Rightarrow> store_state)" where
  "run_stores ext json = fold (\<lambda>(i, command) (files, stores).
     let s' = fst (execute_store ext json command (with_files files (stores i)))
     in (files_of s', stores(i := s')))"

lemma run_stores_turns: "run_stores ext json = fold (cell_writer.turn ext json)"
  by (simp add: run_stores_def cell_writer.turn_def)

text \<open>
  C5: When the lifecycle file carries the token of store \<open>i\<close> and no other store has that token,
  then the commands of all other stores, interleaved in any way with those of \<open>i\<close>, are without
  any effect on the files: lifecycle record, journal, snapshot and boundaries end up as if
  store \<open>i\<close> had run alone, and so does store \<open>i\<close> itself.
\<close>

theorem superseded_holders_leave_no_trace:
  assumes "files_token files = Some t" and "sto_fencing_token (stores i) = t" and "sound_store (stores i)"
    and "\<forall>j. j \<noteq> i \<longrightarrow> sto_fencing_token (stores j) \<noteq> t"
  shows "fst (run_stores ext json commands (files, stores))
      = fst (run_stores ext json (filter (\<lambda>c. fst c = i) commands) (files, stores))
    \<and> snd (run_stores ext json commands (files, stores)) i
      = snd (run_stores ext json (filter (\<lambda>c. fst c = i) commands) (files, stores)) i"
proof -
  have "cell_writer.alike i t (files, stores) (files, stores)"
    using assms by (simp add: cell_writer.alike_def cell_writer.governed_def)
  from cell_writer.erase_outdated [OF this] show ?thesis
    by (auto simp: run_stores_turns cell_writer.alike_def)
qed

definition two_stores :: "nat \<Rightarrow> store_state" where
  "two_stores i = (if i = 1 then store_b else store_a)"

theorem superseded_holders_leave_no_trace_witness:
  "fst (run_stores store_externals (\<lambda>_. [])
      [(0, SaveSnapshot (world0 1)), (1, SaveSnapshot (world0 2)), (0, MaintainLease)] (files_of store_b, two_stores))
    = fst (run_stores store_externals (\<lambda>_. []) [(1, SaveSnapshot (world0 2))] (files_of store_b, two_stores))"
proof -
  have "files_token (files_of store_b) = Some 2" "sto_fencing_token store_b = 2" "sound_store store_b"
    "sto_fencing_token store_a = 1"
    by code_simp+
  then show ?thesis
    using superseded_holders_leave_no_trace [of "files_of store_b" 2 two_stores 1 store_externals "\<lambda>_. []"
      "[(0, SaveSnapshot (world0 1)), (1, SaveSnapshot (world0 2)), (0, MaintainLease)]"]
    by (simp add: two_stores_def)
qed

text \<open>
  C30: A successful acquisition writes a record whose fencing token is larger than the token of
  the record it replaces, than the token of the snapshot and than the token of every event in
  the journal, and the new store holds exactly that record: every earlier holder is superseded.
\<close>

theorem acquisition_supersedes:
  assumes "acquire_cell_lease manifest cid holder s = (s', Inr l)"
  shows "sto_lifecycle_file s' = Some l \<and> sto_fencing_token s' = lcr_fencing_token l
    \<and> sto_lifecycle s' = l
    \<and> (\<forall>p. sto_lifecycle_file s = Some p \<longrightarrow> lcr_fencing_token p < lcr_fencing_token l)
    \<and> (\<forall>event \<in> set (journal_events (sto_journal_file s)). evt_authority_fencing_token event < lcr_fencing_token l)
    \<and> (\<forall>d. sto_snapshot_file s = Some d \<longrightarrow> wv_fencing_token (snd_state d) < lcr_fencing_token l)"
  using wp_result(1) [OF wp_acquire assms] by (simp add: acquired_over_def)

theorem acquisition_supersedes_witness:
  "lcr_fencing_token (sto_lifecycle store_a) < lcr_fencing_token (sto_lifecycle store_b)"
proof -
  have "acquire_cell_lease store_manifest0 ''cell'' ''host-b'' (with_files (files_of store_a) blank_store)
      = (store_b, Inr (sto_lifecycle store_b))"
    by code_simp
  moreover have "sto_lifecycle_file (with_files (files_of store_a) blank_store) = Some (sto_lifecycle store_a)"
    by code_simp
  ultimately show ?thesis using acquisition_supersedes by blast
qed

section \<open>Every record can be opened again\<close>

text \<open>A store after its acquisition, from any files, and any admissible commands.\<close>

inductive store_history ::
    "externals \<Rightarrow> (durable_transfer_boundary \<Rightarrow> string) \<Rightarrow> store_manifest \<Rightarrow> string \<Rightarrow> store_state \<Rightarrow> bool"
  for ext json manifest cid where
  opened: "acquire_cell_lease manifest cid holder s0 = (s, Inr l) \<Longrightarrow> holder \<noteq> [] \<Longrightarrow>
     store_history ext json manifest cid s"
| command: "store_history ext json manifest cid s \<Longrightarrow> admissible_command (sto_lifecycle s) command \<Longrightarrow>
     execute_store ext json command s = (s', r) \<Longrightarrow> store_history ext json manifest cid s'"

lemma history_recoverable:
  assumes "store_history ext json manifest cid s" and "\<And>bytes. valid_blake3_hex (ext_blake3_hex ext bytes)"
  shows "recoverable manifest cid s"
  using assms(1)
proof induction
  case (opened holder s0 s l)
  with wp_result(1) [OF wp_acquire opened(1)] show ?case by simp
next
  case (command s command s' r)
  from execute_recoverable [OF assms(2) command.IH command.hyps(2), of json] command.hyps(3)
  show ?case by (cases r) (auto dest: wp_result)
qed

text \<open>
  C16: Whatever admissible commands a store has run, with any outcome of every write and any
  readings of the clock, the lifecycle record in the file is one that the next opening of the
  cell accepts.
\<close>

theorem history_can_be_reopened:
  assumes "store_history ext json manifest cid s" and "\<forall>bytes. valid_blake3_hex (ext_blake3_hex ext bytes)"
  shows "\<exists>l. sto_lifecycle_file s = Some l \<and> validate_prior_lifecycle l manifest cid = Inr ()"
  using history_recoverable [OF assms(1)] assms(2) by (simp add: recoverable_def)

theorem history_can_be_reopened_witness:
  "\<exists>l. sto_lifecycle_file (fst (execute_store store_externals (\<lambda>_. []) (PublishActive (world0 1)) store_a)) = Some l
    \<and> validate_prior_lifecycle l store_manifest0 ''cell'' = Inr ()"
proof (rule history_can_be_reopened [where ext = store_externals and json = "\<lambda>_. []"])
  have acquired: "acquire_cell_lease store_manifest0 ''cell'' ''host-a'' blank_store
      = (store_a, Inr (sto_lifecycle store_a))"
    by code_simp
  have nothing_pending: "lcr_pending_world_commit (sto_lifecycle store_a) = None"
    by code_simp
  have "admissible_command (sto_lifecycle store_a) (PublishActive (world0 1))"
    by (simp add: recordable_def frontier_ok_def world0_def nothing_pending)
  moreover have "store_history store_externals (\<lambda>_. []) store_manifest0 ''cell'' store_a"
    by (rule store_history.opened [OF acquired]) simp
  ultimately show "store_history store_externals (\<lambda>_. []) store_manifest0 ''cell''
      (fst (execute_store store_externals (\<lambda>_. []) (PublishActive (world0 1)) store_a))"
    by (blast intro: store_history.command prod.collapse [symmetric])
  show "\<forall>bytes. valid_blake3_hex (ext_blake3_hex store_externals bytes)"
    by (simp add: store_externals_def) code_simp
qed

section \<open>Committing an event\<close>

text \<open>
  C2: However a commit of an event ends, with any outcome of each write, the files hold one of
  two states: the journal is unchanged and the record resolves, for the world before the
  event, to the production schedule from before; or the journal ends with the event and the
  record resolves, for the world after it, to the new schedule. A commit that reports success
  is in the second state.
\<close>

theorem commit_is_atomic_across_crashes:
  assumes "commit_world_event ext json event state next_occurrence s = (s', r)"
    and "sto_lifecycle_file s = Some (sto_lifecycle s)"
    and "lcr_pending_world_commit (sto_lifecycle s) = None"
    and "wv_event_sequence prior_state < evt_event_sequence event"
    and "wv_event_sequence state = evt_event_sequence event" and "wv_last_event_hash state = evt_event_hash event"
  shows "(r \<noteq> Inr () \<and> sto_journal_file s' = sto_journal_file s \<and>
      (\<exists>l l'. sto_lifecycle_file s' = Some l \<and> resolve_pending_commit prior_state l = Inr l'
        \<and> lcr_next_production_occurrence l' = lcr_next_production_occurrence (sto_lifecycle s)))
    \<or> (sto_journal_file s' = sto_journal_file s @ [EventLine event] \<and>
      (\<exists>l l'. sto_lifecycle_file s' = Some l \<and> resolve_pending_commit state l = Inr l'
        \<and> lcr_next_production_occurrence l' = next_occurrence))"
proof -
  let ?p = "\<lparr>pwc_event_sequence = evt_event_sequence event, pwc_event_hash = evt_event_hash event,
       pwc_occurred_at_unix_ms = evt_occurred_at_unix_ms event,
       pwc_prior_next_occurrence = lcr_next_production_occurrence (sto_lifecycle s),
       pwc_resulting_next_occurrence = next_occurrence\<rparr>"
  note ends = wp_commit_event [OF assms(2,3) refl, of ext json event state next_occurrence]
  show ?thesis
  proof (cases r)
    case (Inl e)
    from wp_result(2) [OF ends assms(1) [unfolded Inl]] show ?thesis
    proof
      assume "settled ?p (lcr_next_production_occurrence (sto_lifecycle s)) (sto_journal_file s) s'"
      from settled_resolves [OF this, of prior_state] assms(4) Inl show ?thesis by auto
    next
      assume "settled ?p next_occurrence (sto_journal_file s @ [EventLine event]) s'"
      from settled_resolves_committed [OF this, of state] assms(5,6) show ?thesis by auto
    qed
  next
    case (Inr u)
    from wp_result(1) [OF ends assms(1) [unfolded Inr]]
    have "settled ?p next_occurrence (sto_journal_file s @ [EventLine event]) s'" .
    from settled_resolves_committed [OF this, of state] assms(5,6) show ?thesis by auto
  qed
qed

text \<open>The host loses power after the journal has been written but before that is reported.\<close>

definition crashing_a :: store_state where
  "crashing_a = store_a\<lparr>sto_writes := [FileWritten, FileNotSynced (StoreIo ''event-journal.jsonl'')]\<rparr>"

theorem commit_is_atomic_across_crashes_witness:
  "\<exists>l l'. sto_lifecycle_file (fst (commit_world_event store_externals (\<lambda>_. []) (event1 1) (world1 1) None crashing_a)) = Some l
    \<and> resolve_pending_commit (world1 1) l = Inr l' \<and> lcr_next_production_occurrence l' = None"
proof -
  let ?after = "commit_world_event store_externals (\<lambda>_. []) (event1 1) (world1 1) None crashing_a"
  have "sto_lifecycle_file crashing_a = Some (sto_lifecycle crashing_a)"
    "lcr_pending_world_commit (sto_lifecycle crashing_a) = None"
    "wv_event_sequence (world0 1) < evt_event_sequence (event1 1)"
    "wv_event_sequence (world1 1) = evt_event_sequence (event1 1)"
    "wv_last_event_hash (world1 1) = evt_event_hash (event1 1)"
    by code_simp+
  note commit_is_atomic_across_crashes [OF prod.collapse [symmetric] this,
      of store_externals "\<lambda>_. []" None]
  moreover have "sto_journal_file (fst ?after) \<noteq> sto_journal_file crashing_a"
    by code_simp
  ultimately show ?thesis by auto
qed

section \<open>Leases\<close>

text \<open>
  When the check before a write succeeds, the store may write, the record in the file is the
  store's own, carries its token, and expires no sooner than the safety margin after the
  trusted time, so that the write that follows falls into the lease.
\<close>

theorem verified_lease_covers_the_write:
  assumes "verify_live_lease_for_write s = (s', Inr ())"
  shows "sto_write_enabled s' \<and> sto_lifecycle_file s' = Some (sto_lifecycle s')
    \<and> lcr_fencing_token (sto_lifecycle s') = sto_fencing_token s'
    \<and> (\<exists>e. lcr_expires_at_unix_ms (sto_lifecycle s') = Some e
        \<and> uint (sto_last_trusted_unix_ms s') + 5000 \<le> uint e)"
proof -
  from wp_result(1) [OF wp_verify_lease_plain assms] have held: "lease_held s'" by blast
  then obtain e where e: "lcr_expires_at_unix_ms (sto_lifecycle s') = Some e" "sto_last_trusted_unix_ms s' < e"
      "LEASE_WRITE_SAFETY_MARGIN_MILLIS \<le> saturating_sub e (sto_last_trusted_unix_ms s')"
    by (auto simp: lease_held_def)
  then have "uint (sto_last_trusted_unix_ms s') + 5000 \<le> uint e"
    by (auto simp: saturating_sub_def LEASE_WRITE_SAFETY_MARGIN_MILLIS_def word_le_def word_less_def
        uint_sub_if' split: if_splits)
  with held e show ?thesis by (auto simp: lease_held_def)
qed

theorem verified_lease_covers_the_write_witness:
  "sto_write_enabled (fst (verify_live_lease_for_write store_a))"
proof -
  have "verify_live_lease_for_write store_a = (fst (verify_live_lease_for_write store_a), Inr ())"
    by code_simp
  from verified_lease_covers_the_write [OF this] show ?thesis by simp
qed

text \<open>
  C35: After a successful release to sleep, no command changes a file any more, and what the
  files hold is the released snapshot and a sleeping record.
\<close>

theorem released_store_writes_nothing:
  assumes "release_to_sleeping state s = (s', Inr ())"
  shows "files_of (fold (\<lambda>command s. fst (execute_store ext json command s)) commands s') = files_of s'
    \<and> sto_snapshot_file s' = Some (snapshot_of state)
    \<and> (\<exists>l. sto_lifecycle_file s' = Some l \<and> lcr_observed_mode l = ModeSleeping)"
proof -
  note ends = wp_result(1) [OF wp_release_rests assms]
  have "resting f (fold (\<lambda>command s. fst (execute_store ext json command s)) commands t)" if "resting f t" for f t
    using that
  proof (induction commands arbitrary: t)
    case (Cons command commands)
    from stable_result [OF resting_execute Cons.prems prod.collapse [symmetric]] Cons.IH show ?case
      by simp
  qed simp
  from this [of "files_of s'" s'] ends show ?thesis by (auto simp: resting_def files_of_def)
qed

definition background_a :: store_state where
  "background_a = fold (\<lambda>command s. fst (execute_store store_externals (\<lambda>_. []) command s))
     [PublishActive (world0 1), TransitionMode ModeSleeping ModeDraining (world0 1)] store_a"

theorem released_store_writes_nothing_witness:
  "files_of (fst (execute_store store_externals (\<lambda>_. []) (SaveSnapshot (world1 1))
     (fst (release_to_sleeping (world0 1) background_a)))) = files_of (fst (release_to_sleeping (world0 1) background_a))"
proof -
  have "snd (release_to_sleeping (world0 1) background_a) = Inr ()"
    by code_simp
  then have "release_to_sleeping (world0 1) background_a = (fst (release_to_sleeping (world0 1) background_a), Inr ())"
    by (metis prod.collapse)
  from released_store_writes_nothing [OF this, of store_externals "\<lambda>_. []" "[SaveSnapshot (world1 1)]"]
  show ?thesis by simp
qed

text \<open>
  C36: A mode change to sleeping through \<open>transition_mode\<close>, which the transition table allows to
  a background or a draining cell, keeps the lease in the record: no opening of the cell accepts
  the file afterwards.
\<close>

theorem transition_to_sleeping_blocks_reopening:
  assumes "transition_mode desired ModeSleeping state s = (s', Inr ())"
    and "lcr_observed_mode (sto_lifecycle s) \<noteq> ModeSleeping"
  shows "\<exists>l. sto_lifecycle_file s' = Some l \<and> (\<forall>manifest cid. validate_prior_lifecycle l manifest cid \<noteq> Inr ())"
proof -
  have rejected: "validate_prior_lifecycle l manifest cid \<noteq> Inr ()"
    if "lcr_observed_mode l = ModeSleeping" "lcr_expires_at_unix_ms l = Some e" for l manifest cid e
    using that by (simp add: prior_lifecycle_ok_iff lifecycle_mode_ok_iff unleased_def)
  have "wp (transition_mode desired ModeSleeping state) (\<lambda>_ s'. \<exists>l. sto_lifecycle_file s' = Some l
      \<and> lcr_observed_mode l = ModeSleeping \<and> lcr_expires_at_unix_ms l \<noteq> None) (\<lambda>_ _. True) s"
    unfolding transition_mode_def persist_lifecycle_def write_lifecycle_file_def at_world_frontier_def
    by (rule wp_bind, rule wp_conseq [OF wp_verify_lease_plain], intro wp_intro)
       (use assms(2) in \<open>auto simp: lease_held_def dest: renewed_fields(1)\<close>)
  from wp_result(1) [OF this assms(1)] rejected show ?thesis by blast
qed

theorem transition_to_sleeping_blocks_reopening_witness:
  "\<exists>l. sto_lifecycle_file (fst (transition_mode ModeSleeping ModeSleeping (world0 1) background_a)) = Some l
    \<and> validate_prior_lifecycle l store_manifest0 ''cell'' \<noteq> Inr ()"
proof -
  have "snd (transition_mode ModeSleeping ModeSleeping (world0 1) background_a) = Inr ()"
    "lcr_observed_mode (sto_lifecycle background_a) \<noteq> ModeSleeping"
    by code_simp+
  with transition_to_sleeping_blocks_reopening [of ModeSleeping "world0 1" background_a
      "fst (transition_mode ModeSleeping ModeSleeping (world0 1) background_a)"]
  show ?thesis by (metis prod.collapse)
qed

section \<open>Fences of the journal\<close>

lemma last_sorted_Max: "sorted (x # xs) \<Longrightarrow> last (x # xs) = Max (set (x # xs))" for x :: u64
  by (rule Max_eqI [symmetric]) (use last_sorted_ge [of x xs] in auto)

text \<open>
  The scan of the journal accepts exactly the journals whose events carry positive fencing
  tokens in non-decreasing order, none above the token of the snapshot up to its event and
  none below it afterwards, and then finds the largest token of all.
\<close>

theorem recovered_frontier_exact:
  "recover_persisted_fencing_frontier snapshot journal = Inr frontier \<longleftrightarrow>
     (let fences = map evt_authority_fencing_token (journal_events journal);
          sequence = (case snapshot of None \<Rightarrow> 0 | Some d \<Rightarrow> wv_event_sequence (snd_state d));
          fence = (case snapshot of None \<Rightarrow> 0 | Some d \<Rightarrow> wv_fencing_token (snd_state d)) in
      pred_option (\<lambda>d. snd_schema_version d = WORLD_SCHEMA_VERSION) snapshot
      \<and> readable journal \<and> sorted fences
      \<and> list_all (\<lambda>event. evt_authority_fencing_token event \<noteq> 0 \<and>
           (if evt_event_sequence event \<le> sequence then evt_authority_fencing_token event \<le> fence
            else fence \<le> evt_authority_fencing_token event)) (journal_events journal)
      \<and> frontier = Max (set (fence # fences)))"
proof -
  let ?fences = "map evt_authority_fencing_token (journal_events journal)"
  define fence where "fence = (case snapshot of None \<Rightarrow> 0 | Some d \<Rightarrow> wv_fencing_token (snd_state d))"
  have "max fence (last (0 # ?fences)) = Max (set (fence # ?fences))" if "sorted ?fences"
  proof -
    have "last (0 # ?fences) = Max (set (0 # ?fences))" using that by (intro last_sorted_Max) simp
    then show ?thesis by (cases "?fences = []") (auto simp: max.assoc [symmetric])
  qed
  then show ?thesis
    unfolding recover_frontier_iff fences_in_order_def
    by (cases snapshot) (auto simp: Let_def snapshot_frontier_def fence_def)
qed

end
