(* ===== verification/WorldRecovery.thy ===== *)
theory WorldRecovery
  imports Lifecycle
begin

text \<open>
  Opening a cell (\<open>crates/verse-simulation/src/persistence.rs\<close>): the world from snapshot and
  journal, and the chain of transfer boundaries from its own journal, checked against the
  canonical events and completed by at most the one boundary a crash has cut off.
\<close>

section \<open>Replaying events\<close>

text \<open>
  What the store calls of the world: \<open>genesis_for_cell\<close>, \<open>hydrate_spatial_poses\<close>, and the part
  of \<open>apply_event\<close> that depends on actor and payload. That part returns the view of the world
  after the event, whose frontier \<open>apply_event\<close> sets itself.
\<close>

record replayer =
  rpl_genesis :: "u64 \<Rightarrow> cell_key_v1 \<Rightarrow> string + world_view"
  rpl_hydrate :: "world_view \<Rightarrow> string + world_view"
  rpl_effect :: "canonical_event \<Rightarrow> world_view \<Rightarrow> string + world_view"

definition apply_event :: "replayer \<Rightarrow> canonical_event \<Rightarrow> world_view \<Rightarrow> string + world_view" where
  "apply_event rpl event state =
     (if evt_schema_name event \<noteq> EVENT_SCHEMA_NAME \<or> evt_schema_version event \<noteq> EVENT_SCHEMA_VERSION
      then Inl ''event_schema_mismatch''
      else if evt_event_sequence event \<noteq> wv_event_sequence state + 1
      then Inl ''sequence mismatch''
      else if evt_previous_event_hash event \<noteq> wv_last_event_hash state
      then Inl ''previous hash mismatch''
      else if \<not> evt_hash_is_valid event
      then Inl ''invalid event hash''
      else if evt_universe_id event \<noteq> wv_universe_id state \<or> evt_cell_id event \<noteq> wv_cell_id state
      then Inl ''wrong authority''
      else if evt_content_manifest_version event \<noteq> wv_content_manifest_version state
      then Inl ''content manifest mismatch''
      else if evt_universe_manifest_hash event \<noteq> wv_universe_manifest_hash state
         \<or> evt_celestial_registry_hash event \<noteq> wv_celestial_registry_hash state
      then Inl ''event_universe_binding_mismatch''
      else
      try_r (rpl_effect rpl event state) (\<lambda>state.
      Inr (state\<lparr>wv_event_sequence := evt_event_sequence event,
                 wv_fencing_token := evt_authority_fencing_token event,
                 wv_last_event_hash := evt_event_hash event\<rparr>)))"

lemma apply_event_Inr:
  assumes "apply_event rpl event state = Inr state'"
  shows "evt_event_sequence event = wv_event_sequence state + 1"
    "wv_event_sequence state' = evt_event_sequence event"
    "wv_fencing_token state' = evt_authority_fencing_token event"
    "wv_last_event_hash state' = evt_event_hash event" "evt_hash_is_valid event"
  using assms by (auto simp: apply_event_def result_elims split: if_splits)

section \<open>The world from snapshot and journal\<close>

definition load_snapshot :: "replayer \<Rightarrow> store_state \<Rightarrow> persistence_error + world_view" where
  "load_snapshot rpl s =
     (case sto_snapshot_file s of
        Some snapshot \<Rightarrow>
          if snd_schema_version snapshot \<noteq> WORLD_SCHEMA_VERSION
          then Inl (SnapshotSchema (snd_schema_version snapshot) WORLD_SCHEMA_VERSION)
          else
          try_r (map_err InvalidPlayerRoster (rpl_hydrate rpl (snd_state snapshot))) (\<lambda>state.
          if \<not> world_binding_matches s state then Inl WorldUniverseBindingMismatch
          else
          try_r (map_err InvalidPlayerRoster (wv_player_roster state)) (\<lambda>_.
          if snd_state_hash snapshot \<noteq> wv_state_hash state
             \<or> snd_event_sequence snapshot \<noteq> wv_event_sequence state
             \<or> snd_last_event_hash snapshot \<noteq> wv_last_event_hash state
          then Inl SnapshotHashMismatch
          else Inr state))
      | None \<Rightarrow>
          try_r (map_err InvalidCellIdentity (rpl_genesis rpl (sto_world_seed s) (sto_cell_key s))) (\<lambda>state.
          if \<not> world_binding_matches s state then Inl WorldUniverseBindingMismatch
          else Inr state))"

text \<open>The loop over the journal; the result is the last fencing token and the replayed world.\<close>

fun replay_journal ::
    "replayer \<Rightarrow> store_state \<Rightarrow> u64 \<Rightarrow> u64 \<Rightarrow> nat \<Rightarrow> journal_line list \<Rightarrow> u64 \<Rightarrow> world_view \<Rightarrow>
     persistence_error + u64 \<times> world_view" where
  "replay_journal rpl s snapshot_event_sequence snapshot_fence index [] historical_fence state =
     Inr (historical_fence, state)"
| "replay_journal rpl s snapshot_event_sequence snapshot_fence index (BlankLine # journal)
     historical_fence state =
     replay_journal rpl s snapshot_event_sequence snapshot_fence (index + 1) journal historical_fence state"
| "replay_journal rpl s snapshot_event_sequence snapshot_fence index (UnreadableLine message # journal)
     historical_fence state = Inl (CorruptJournal (index + 1) message)"
| "replay_journal rpl s snapshot_event_sequence snapshot_fence index (EventLine event # journal)
     historical_fence state =
     (let fence = evt_authority_fencing_token event; event_sequence = evt_event_sequence event in
      if evt_schema_name event \<noteq> EVENT_SCHEMA_NAME \<or> evt_schema_version event \<noteq> EVENT_SCHEMA_VERSION
      then Inl (EventSchema (index + 1) (evt_schema_name event) (evt_schema_version event))
      else if fence = 0 \<or> fence < historical_fence
      then Inl (InvalidHistoricalFence (index + 1) historical_fence fence)
      else if (event_sequence \<le> snapshot_event_sequence \<and> snapshot_fence < fence)
         \<or> (snapshot_event_sequence < event_sequence \<and> fence < snapshot_fence)
      then Inl (HistoricalFenceSnapshotMismatch (index + 1) snapshot_fence fence)
      else if \<not> event_binding_matches s event
      then Inl (EventUniverseBindingMismatch (''journal line '' @ show_nat (index + 1)))
      else if event_sequence \<le> wv_event_sequence state
      then replay_journal rpl s snapshot_event_sequence snapshot_fence (index + 1) journal fence state
      else
      try_r (map_err (Replay event_sequence) (apply_event rpl event state)) (\<lambda>state.
      replay_journal rpl s snapshot_event_sequence snapshot_fence (index + 1) journal fence state))"

definition load_world_before_lifecycle_reconciliation ::
    "replayer \<Rightarrow> store_state \<Rightarrow> persistence_error + world_view" where
  "load_world_before_lifecycle_reconciliation rpl s =
     try_r (load_snapshot rpl s) (\<lambda>snapshot.
     try_r (replay_journal rpl s (wv_event_sequence snapshot) (wv_fencing_token snapshot) 0
              (sto_journal_file s) 0 snapshot) (\<lambda>(previous_historical_fence, state).
     try_r (map_err InvalidPlayerRoster (wv_player_roster state)) (\<lambda>_.
     if \<not> world_binding_matches s state then Inl WorldUniverseBindingMismatch
     else
     let recovered_fence = max (wv_fencing_token state) previous_historical_fence in
     if sto_fencing_token s \<le> recovered_fence
     then Inl (LiveFenceNotNewer (sto_fencing_token s) recovered_fence)
     else Inr state)))"

text \<open>\<open>load_world\<close> without the thread that renews the lease while the journal is replayed.\<close>

definition load_world :: "replayer \<Rightarrow> world_view store_op" where
  "load_world rpl =
     bind_op (get_op (load_world_before_lifecycle_reconciliation rpl)) (\<lambda>loaded.
     bind_op (lift_op loaded) (\<lambda>state.
     bind_op (reconcile_lifecycle_with_world state) (\<lambda>_.
     return_op state)))"

section \<open>The chain of transfer boundaries\<close>

definition same_transfer_boundary_material ::
    "durable_transfer_boundary \<Rightarrow> durable_transfer_boundary \<Rightarrow> bool" where
  "same_transfer_boundary_material left right =
     (dtb_transfer_id left = dtb_transfer_id right
      \<and> dtb_package_hash left = dtb_package_hash right
      \<and> dtb_receipt_hash left = dtb_receipt_hash right
      \<and> dtb_cell_id left = dtb_cell_id right
      \<and> dtb_kind left = dtb_kind right
      \<and> dtb_authority_fencing_token left = dtb_authority_fencing_token right
      \<and> dtb_event_sequence left = dtb_event_sequence right
      \<and> dtb_event_hash left = dtb_event_hash right
      \<and> dtb_resulting_world_hash left = dtb_resulting_world_hash right)"

definition boundary_hash_is_valid ::
    "externals \<Rightarrow> (durable_transfer_boundary \<Rightarrow> string) \<Rightarrow> durable_transfer_boundary \<Rightarrow> bool" where
  "boundary_hash_is_valid ext json boundary =
     (valid_blake3_hex (dtb_boundary_hash boundary)
      \<and> dtb_boundary_hash boundary = calculate_boundary_hash ext json boundary)"

type_synonym boundary_key = "string \<times> transfer_boundary_kind"

definition boundary_key :: "durable_transfer_boundary \<Rightarrow> boundary_key" where
  "boundary_key boundary = (dtb_transfer_id boundary, dtb_kind boundary)"

text \<open>The canonical events by boundary, and the boundaries the replayed ones must have.\<close>

record boundary_index =
  bix_replay :: world_view
  bix_events :: "(boundary_key, canonical_event) btree_map"
  bix_expected :: "(boundary_key, durable_transfer_boundary) btree_map"

definition index_event ::
    "durable_transfer_boundary option \<Rightarrow> canonical_event \<Rightarrow> boundary_index \<Rightarrow> boundary_index" where
  "index_event transfer_identity event index =
     (case transfer_identity of None \<Rightarrow> index
      | Some identity \<Rightarrow> index\<lparr>bix_events := bt_insert (boundary_key identity) event (bix_events index)\<rparr>)"

definition expect_boundary ::
    "durable_transfer_boundary option \<Rightarrow> boundary_index \<Rightarrow> persistence_error + boundary_index" where
  "expect_boundary boundary index =
     (case boundary of None \<Rightarrow> Inr index
      | Some boundary \<Rightarrow>
          (case bt_get (bix_expected index) (boundary_key boundary) of
             Some existing \<Rightarrow>
               if existing \<noteq> boundary
               then Inl (InvalidTransferBoundary ''transfer has multiple canonical events'')
               else Inr index
           | None \<Rightarrow>
               Inr (index\<lparr>bix_expected := bt_insert (boundary_key boundary) boundary (bix_expected index)\<rparr>)))"

definition index_transfer_event ::
    "replayer \<Rightarrow> u64 \<Rightarrow> journal_line \<Rightarrow> boundary_index \<Rightarrow> persistence_error + boundary_index" where
  "index_transfer_event rpl snapshot_event_sequence line index =
     (case line of
        BlankLine \<Rightarrow> Inr index
      | UnreadableLine message \<Rightarrow> Inl (InvalidTransferBoundary ''event journal cannot be indexed for transfer proofs'')
      | EventLine event \<Rightarrow>
          if \<not> evt_hash_is_valid event
          then Inl (InvalidTransferBoundary ''event has an invalid hash while indexing transfer proofs'')
          else
          try_r (transfer_boundary_from_event event (replicate 64 CHR ''0'')) (\<lambda>transfer_identity.
          let index = index_event transfer_identity event index in
          if evt_event_sequence event \<le> snapshot_event_sequence then Inr index
          else
          try_r (map_err (Replay (evt_event_sequence event)) (apply_event rpl event (bix_replay index))) (\<lambda>replay.
          let index = index\<lparr>bix_replay := replay\<rparr> in
          if transfer_identity = None then Inr index
          else
          try_r (transfer_boundary_from_event event (wv_state_hash replay)) (\<lambda>boundary.
          expect_boundary boundary index))))"

text \<open>What the loop over the boundary journal keeps.\<close>

record boundary_scan =
  bsc_committed :: "(boundary_key, durable_transfer_boundary) btree_map"
  bsc_observed_head :: string
  bsc_lifecycle_head_on_chain :: bool
  bsc_records_after_lifecycle_head :: nat
  bsc_last_event_sequence :: u64
  bsc_last_event_hash :: string

definition scan_start :: "string \<Rightarrow> boundary_scan" where
  "scan_start lifecycle_head =
     \<lparr>bsc_committed = bt_empty, bsc_observed_head = [], bsc_lifecycle_head_on_chain = (lifecycle_head = []),
      bsc_records_after_lifecycle_head = 0, bsc_last_event_sequence = 0, bsc_last_event_hash = []\<rparr>"

definition advance_scan :: "string \<Rightarrow> durable_transfer_boundary \<Rightarrow> boundary_scan \<Rightarrow> boundary_scan" where
  "advance_scan lifecycle_head boundary scan =
     (let scan = scan\<lparr>bsc_committed := bt_insert (boundary_key boundary) boundary (bsc_committed scan),
                      bsc_observed_head := dtb_boundary_hash boundary,
                      bsc_last_event_sequence := dtb_event_sequence boundary,
                      bsc_last_event_hash := dtb_event_hash boundary\<rparr> in
      if dtb_boundary_hash boundary = lifecycle_head
      then scan\<lparr>bsc_lifecycle_head_on_chain := True, bsc_records_after_lifecycle_head := 0\<rparr>
      else if bsc_lifecycle_head_on_chain scan
      then scan\<lparr>bsc_records_after_lifecycle_head := bsc_records_after_lifecycle_head scan + 1\<rparr>
      else scan)"

definition check_boundary ::
    "externals \<Rightarrow> (durable_transfer_boundary \<Rightarrow> string) \<Rightarrow> boundary_index \<Rightarrow> string \<Rightarrow>
     durable_transfer_boundary \<Rightarrow> boundary_scan \<Rightarrow> persistence_error + boundary_scan" where
  "check_boundary ext json index lifecycle_head boundary scan =
     (case bt_get (bix_events index) (boundary_key boundary) of
        None \<Rightarrow> Inl (InvalidTransferBoundary ''boundary has no canonical cell event'')
      | Some event \<Rightarrow>
          if dtb_previous_boundary_hash boundary \<noteq> bsc_observed_head scan
             \<or> \<not> boundary_hash_is_valid ext json boundary
          then Inl (InvalidTransferBoundary ''boundary breaks the durable boundary hash chain'')
          else if dtb_event_sequence boundary \<le> bsc_last_event_sequence scan
          then Inl (InvalidTransferBoundary ''boundary does not advance the boundary event frontier'')
          else
          try_r (transfer_boundary_from_event event (dtb_resulting_world_hash boundary)) (\<lambda>event_bound.
          if (case event_bound of None \<Rightarrow> True
              | Some event_bound \<Rightarrow> \<not> same_transfer_boundary_material event_bound boundary)
          then Inl (InvalidTransferBoundary ''boundary does not match its canonical event'')
          else if (case bt_get (bix_expected index) (boundary_key boundary) of None \<Rightarrow> False
              | Some canonical \<Rightarrow> \<not> same_transfer_boundary_material canonical boundary)
          then Inl (InvalidTransferBoundary ''boundary corrupts its replay-derived post-state root'')
          else if (case bt_get (bsc_committed scan) (boundary_key boundary) of None \<Rightarrow> False
              | Some existing \<Rightarrow> existing \<noteq> boundary)
          then Inl (InvalidTransferBoundary ''transfer has conflicting boundaries'')
          else Inr (advance_scan lifecycle_head boundary scan)))"

text \<open>A suffix after the head in the lifecycle record is at most the pending commit's boundary.\<close>

definition boundary_suffix_valid :: "cell_lifecycle_record \<Rightarrow> boundary_scan \<Rightarrow> bool" where
  "boundary_suffix_valid lifecycle scan =
     (bsc_observed_head scan = lcr_transfer_boundary_head_hash lifecycle
      \<or> (bsc_lifecycle_head_on_chain scan
         \<and> bsc_records_after_lifecycle_head scan = 1
         \<and> (case lcr_pending_world_commit lifecycle of None \<Rightarrow> False
            | Some pending \<Rightarrow> pwc_event_sequence pending = bsc_last_event_sequence scan
                \<and> pwc_event_hash pending = bsc_last_event_hash scan)))"

text \<open>Without a head and without boundaries there is nothing to check, unless a transfer is pending.\<close>

definition nothing_to_index :: "cell_lifecycle_record \<Rightarrow> store_state \<Rightarrow> bool" where
  "nothing_to_index lifecycle s =
     (lcr_transfer_boundary_head_hash lifecycle = [] \<and> sto_boundary_file s = []
      \<and> (case lcr_pending_world_commit lifecycle of None \<Rightarrow> True
         | Some pending \<Rightarrow>
             \<not> list_ex (\<lambda>line. case line of
                 EventLine event \<Rightarrow> evt_event_hash event = pwc_event_hash pending
                   \<and> evt_payload event \<noteq> OtherPayload
               | _ \<Rightarrow> False) (sto_journal_file s)))"

text \<open>The state the index of events starts from; the roster and the binding are not looked at here.\<close>

definition boundary_replay_start :: "replayer \<Rightarrow> store_state \<Rightarrow> persistence_error + u64 \<times> world_view" where
  "boundary_replay_start rpl s =
     (case sto_snapshot_file s of
        Some snapshot \<Rightarrow>
          if snd_schema_version snapshot \<noteq> WORLD_SCHEMA_VERSION
          then Inl (SnapshotSchema (snd_schema_version snapshot) WORLD_SCHEMA_VERSION)
          else
          try_r (map_err InvalidPlayerRoster (rpl_hydrate rpl (snd_state snapshot))) (\<lambda>state.
          if snd_state_hash snapshot \<noteq> wv_state_hash state
             \<or> snd_event_sequence snapshot \<noteq> wv_event_sequence state
             \<or> snd_last_event_hash snapshot \<noteq> wv_last_event_hash state
          then Inl SnapshotHashMismatch
          else Inr (snd_event_sequence snapshot, state))
      | None \<Rightarrow>
          try_r (map_err InvalidCellIdentity (rpl_genesis rpl (sto_world_seed s) (sto_cell_key s)))
            (\<lambda>state. Inr (0, state)))"

text \<open>The last maximum, as \<open>max_by_key\<close> takes it.\<close>

definition latest_boundary_hash :: "(boundary_key, durable_transfer_boundary) btree_map \<Rightarrow> string" where
  "latest_boundary_hash committed =
     (case fold (\<lambda>candidate best. case best of None \<Rightarrow> Some candidate
              | Some b \<Rightarrow> if dtb_event_sequence b \<le> dtb_event_sequence candidate then Some candidate else Some b)
            (bt_values committed) None of
        None \<Rightarrow> [] | Some boundary \<Rightarrow> dtb_boundary_hash boundary)"

text \<open>The checks of \<open>load_transfer_boundaries\<close>: the scan, and the boundary to append, if any.\<close>

definition check_transfer_boundaries ::
    "externals \<Rightarrow> (durable_transfer_boundary \<Rightarrow> string) \<Rightarrow> replayer \<Rightarrow> cell_lifecycle_record \<Rightarrow> store_state \<Rightarrow>
     persistence_error + boundary_scan \<times> durable_transfer_boundary option" where
  "check_transfer_boundaries ext json rpl lifecycle s =
     try_r (boundary_replay_start rpl s) (\<lambda>(snapshot_event_sequence, replay).
     try_r (fold_r (index_transfer_event rpl snapshot_event_sequence) (sto_journal_file s)
              \<lparr>bix_replay = replay, bix_events = bt_empty, bix_expected = bt_empty\<rparr>) (\<lambda>index.
     let lifecycle_head = lcr_transfer_boundary_head_hash lifecycle in
     try_r (fold_r (check_boundary ext json index lifecycle_head) (sto_boundary_file s)
              (scan_start lifecycle_head)) (\<lambda>scan.
     if \<not> boundary_suffix_valid lifecycle scan
     then Inl (InvalidTransferBoundary
                 ''boundary hash-chain suffix is not the one exact pending lifecycle commit'')
     else if list_ex (\<lambda>(key, event). evt_event_sequence event \<le> snapshot_event_sequence
               \<and> \<not> bt_contains (bsc_committed scan) key) (bt_entries (bix_events index))
     then Inl (InvalidTransferBoundary ''historic transfer is missing its event-time boundary'')
     else
     case map snd (filter (\<lambda>(key, _). \<not> bt_contains (bsc_committed scan) key)
                     (bt_entries (bix_expected index))) of
       [] \<Rightarrow> Inr (scan, None)
     | [missing] \<Rightarrow>
         if (case lcr_pending_world_commit lifecycle of None \<Rightarrow> True
             | Some pending \<Rightarrow> pwc_event_hash pending \<noteq> dtb_event_hash missing)
         then Inl (InvalidTransferBoundary
                     ''only the exact pending world event may backfill a missing boundary'')
         else Inr (scan, Some missing)
     | _ \<Rightarrow> Inl (InvalidTransferBoundary
                     ''only the exact pending world event may backfill a missing boundary''))))"

definition load_transfer_boundaries ::
    "externals \<Rightarrow> (durable_transfer_boundary \<Rightarrow> string) \<Rightarrow> replayer \<Rightarrow> cell_lifecycle_record \<Rightarrow>
     ((boundary_key, durable_transfer_boundary) btree_map \<times> string) store_op" where
  "load_transfer_boundaries ext json rpl lifecycle =
     bind_op (get_op (nothing_to_index lifecycle)) (\<lambda>nothing.
     if nothing then return_op (bt_empty, []) else
     bind_op (get_op (check_transfer_boundaries ext json rpl lifecycle)) (\<lambda>checked.
     bind_op (lift_op checked) (\<lambda>(scan, missing).
     case missing of
       None \<Rightarrow> return_op (bsc_committed scan, bsc_observed_head scan)
     | Some boundary \<Rightarrow>
         let boundary = link_boundary ext json (bsc_observed_head scan) boundary;
             committed = bt_insert (boundary_key boundary) boundary (bsc_committed scan) in
         bind_op (write_file (\<lambda>s. s\<lparr>sto_boundary_file := sto_boundary_file s @ [boundary]\<rparr>)) (\<lambda>_.
         return_op (committed, latest_boundary_hash committed)))))"

text \<open>\<open>open_for_cell_with_clock\<close> from the check of the previous record on.\<close>

definition open_cell_store ::
    "externals \<Rightarrow> (durable_transfer_boundary \<Rightarrow> string) \<Rightarrow> replayer \<Rightarrow> store_manifest \<Rightarrow> string \<Rightarrow> string \<Rightarrow>
     unit store_op" where
  "open_cell_store ext json rpl manifest cid holder_id =
     bind_op (acquire_cell_lease manifest cid holder_id) (\<lambda>lifecycle.
     bind_op (load_transfer_boundaries ext json rpl lifecycle) (\<lambda>(boundaries, recovered_boundary_head).
     bind_op (modify_op (\<lambda>s. s\<lparr>sto_boundaries := boundaries\<rparr>)) (\<lambda>_.
     if recovered_boundary_head \<noteq> lcr_transfer_boundary_head_hash lifecycle then
       let lifecycle = lifecycle\<lparr>lcr_transfer_boundary_head_hash := recovered_boundary_head\<rparr> in
       bind_op (write_lifecycle_file lifecycle) (\<lambda>_.
       modify_op (\<lambda>s. s\<lparr>sto_lifecycle := lifecycle\<rparr>))
     else return_op ())))"

end
