(* ===== verification/BoundaryRecovery.thy ===== *)
theory BoundaryRecovery
  imports WorldRecovery LifecycleCommit
begin

text \<open>
  The journal of transfer boundaries after a crash: what \<open>check_transfer_boundaries\<close> accepts is
  a hash chain, and it accepts what any interruption of a commit leaves.
\<close>

section \<open>The chain\<close>

fun boundary_chain ::
    "externals \<Rightarrow> (durable_transfer_boundary \<Rightarrow> string) \<Rightarrow> string \<Rightarrow> u64 \<Rightarrow> durable_transfer_boundary list \<Rightarrow> bool" where
  "boundary_chain ext json head sequence [] = True"
| "boundary_chain ext json head sequence (b # bs) =
     (dtb_previous_boundary_hash b = head \<and> boundary_hash_is_valid ext json b
      \<and> sequence < dtb_event_sequence b
      \<and> boundary_chain ext json (dtb_boundary_hash b) (dtb_event_sequence b) bs)"

text \<open>What the loop requires of a boundary.\<close>

definition boundary_accepted ::
    "externals \<Rightarrow> (durable_transfer_boundary \<Rightarrow> string) \<Rightarrow> boundary_index \<Rightarrow> boundary_scan \<Rightarrow>
     durable_transfer_boundary \<Rightarrow> bool" where
  "boundary_accepted ext json index scan b \<longleftrightarrow>
     dtb_previous_boundary_hash b = bsc_observed_head scan \<and> boundary_hash_is_valid ext json b
     \<and> bsc_last_event_sequence scan < dtb_event_sequence b
     \<and> (\<exists>event b'. bt_get (bix_events index) (boundary_key b) = Some event
          \<and> transfer_boundary_from_event event (dtb_resulting_world_hash b) = Inr (Some b')
          \<and> same_transfer_boundary_material b' b)
     \<and> (\<forall>b'. bt_get (bix_expected index) (boundary_key b) = Some b' \<longrightarrow> same_transfer_boundary_material b' b)
     \<and> (\<forall>b'. bt_get (bsc_committed scan) (boundary_key b) = Some b' \<longrightarrow> b' = b)"

lemma check_boundary_iff:
  "check_boundary ext json index h b scan = Inr scan' \<longleftrightarrow>
     boundary_accepted ext json index scan b \<and> scan' = advance_scan h b scan"
  unfolding check_boundary_def boundary_accepted_def
  by (auto simp: result_elims not_le split: option.splits if_splits)

lemmas check_boundary_Inr = check_boundary_iff [THEN iffD1, THEN conjunct2]

lemma advance_scan_simps [simp]:
  "bsc_committed (advance_scan h b scan) = bt_insert (boundary_key b) b (bsc_committed scan)"
  "bsc_observed_head (advance_scan h b scan) = dtb_boundary_hash b"
  "bsc_last_event_sequence (advance_scan h b scan) = dtb_event_sequence b"
  "bsc_last_event_hash (advance_scan h b scan) = dtb_event_hash b"
  by (simp_all add: advance_scan_def Let_def)

lemma scan_chain:
  "fold_r (check_boundary ext json index h) bs scan = Inr scan' \<Longrightarrow>
     boundary_chain ext json (bsc_observed_head scan) (bsc_last_event_sequence scan) bs
     \<and> bsc_observed_head scan' = last (bsc_observed_head scan # map dtb_boundary_hash bs)"
proof (induction bs arbitrary: scan)
  case (Cons b bs)
  then obtain scan1 where step: "check_boundary ext json index h b scan = Inr scan1"
      "fold_r (check_boundary ext json index h) bs scan1 = Inr scan'"
    by (auto simp: result_elims)
  from step(1) Cons.IH [OF step(2)] show ?case by (simp add: check_boundary_iff boundary_accepted_def)
qed simp

text \<open>At the head of the record, the scan is on the chain and has counted nothing after it.\<close>

definition scan_consistent :: "string \<Rightarrow> boundary_scan \<Rightarrow> bool" where
  "scan_consistent h scan \<longleftrightarrow> (bsc_observed_head scan = h \<longrightarrow>
     bsc_lifecycle_head_on_chain scan \<and> bsc_records_after_lifecycle_head scan = 0)"

lemma scan_consistent_advance: "scan_consistent h (advance_scan h b scan)"
proof (cases "dtb_boundary_hash b = h")
  case True
  then show ?thesis by (simp add: scan_consistent_def) (simp add: advance_scan_def Let_def)
qed (simp add: scan_consistent_def)

lemma scan_consistent_fold:
  assumes "fold_r (check_boundary ext json index h) bs (scan_start h) = Inr scan"
  shows "scan_consistent h scan"
  using assms
  by (rule fold_r_invariant [where P = "scan_consistent h"])
     (auto simp: scan_consistent_advance dest: check_boundary_Inr,
      simp add: scan_consistent_def scan_start_def)

text \<open>The head in the record only decides the two fields that locate it.\<close>

definition same_scan :: "boundary_scan \<Rightarrow> boundary_scan \<Rightarrow> bool" where
  "same_scan scan scan' \<longleftrightarrow> bsc_committed scan' = bsc_committed scan
     \<and> bsc_observed_head scan' = bsc_observed_head scan
     \<and> bsc_last_event_sequence scan' = bsc_last_event_sequence scan
     \<and> bsc_last_event_hash scan' = bsc_last_event_hash scan"

lemma check_boundary_cong:
  assumes "check_boundary ext json index h b scan = Inr scan1" and "same_scan scan scan'"
    and "bt_get (bix_events index') (boundary_key b) = bt_get (bix_events index) (boundary_key b)"
    and "bt_get (bix_expected index') (boundary_key b) = bt_get (bix_expected index) (boundary_key b)"
  shows "\<exists>scan1'. check_boundary ext json index' h' b scan' = Inr scan1' \<and> same_scan scan1 scan1'"
  using assms by (simp add: check_boundary_iff boundary_accepted_def same_scan_def)

lemma fold_boundary_cong:
  assumes "fold_r (check_boundary ext json index h) bs scan = Inr scan1" and "same_scan scan scan'"
    and "\<forall>b \<in> set bs. bt_get (bix_events index') (boundary_key b) = bt_get (bix_events index) (boundary_key b)
       \<and> bt_get (bix_expected index') (boundary_key b) = bt_get (bix_expected index) (boundary_key b)"
  shows "\<exists>scan1'. fold_r (check_boundary ext json index' h') bs scan' = Inr scan1' \<and> same_scan scan1 scan1'"
  using assms
proof (induction bs arbitrary: scan scan')
  case (Cons b bs)
  then obtain scan2 where step: "check_boundary ext json index h b scan = Inr scan2"
      "fold_r (check_boundary ext json index h) bs scan2 = Inr scan1"
    by (auto simp: result_elims)
  from check_boundary_cong [OF step(1) Cons.prems(2)] Cons.prems(3) obtain scan2' where
    "check_boundary ext json index' h' b scan' = Inr scan2'" "same_scan scan2 scan2'"
    by fastforce
  with Cons.IH [OF step(2)] Cons.prems(3) show ?case by auto
qed auto

lemma committed_keys:
  assumes "fold_r (check_boundary ext json index h) bs scan = Inr scan'" and "b \<in> set bs"
  shows "bt_get (bsc_committed scan') (boundary_key b) \<noteq> None"
  using assms
proof (induction bs arbitrary: scan)
  case (Cons b' bs)
  then obtain scan1 where step: "check_boundary ext json index h b' scan = Inr scan1"
      "fold_r (check_boundary ext json index h) bs scan1 = Inr scan'"
    by (auto simp: result_elims)
  have "bt_get (bsc_committed scan') k \<noteq> None" if "bt_get (bsc_committed scan1) k \<noteq> None" for k
    by (rule fold_r_invariant [OF step(2), where P = "\<lambda>sc. bt_get (bsc_committed sc) k \<noteq> None"])
       (use that in \<open>auto dest: check_boundary_Inr\<close>)
  from this [of "boundary_key b'"] check_boundary_Inr [OF step(1)]
  have "bt_get (bsc_committed scan') (boundary_key b') \<noteq> None" by simp
  with Cons.IH [OF step(2)] Cons.prems(2) show ?case by auto
qed simp

section \<open>The index of events\<close>

lemma boundary_from_event_hash:
  assumes "transfer_boundary_from_event event h = Inr (Some b)" and "valid_blake3_hex h'"
  shows "transfer_boundary_from_event event h' = Inr (Some (b\<lparr>dtb_resulting_world_hash := h'\<rparr>))"
  using assms unfolding transfer_boundary_from_event_def make_transfer_boundary_def
  by (cases "evt_payload event") (auto simp: make_transfer_boundary_def result_elims split: if_splits)

lemma boundary_from_event_fields:
  assumes "transfer_boundary_from_event event h = Inr (Some b)"
  shows "dtb_event_sequence b = evt_event_sequence event" "dtb_event_hash b = evt_event_hash event"
    "dtb_resulting_world_hash b = h" "evt_payload event \<noteq> OtherPayload" "evt_event_sequence event \<noteq> 0"
    "valid_blake3_hex h"
  using assms unfolding transfer_boundary_from_event_def
  by (cases "evt_payload event"; auto simp: make_transfer_boundary_def result_elims split: if_splits)+

lemma boundary_from_event_None:
  assumes "transfer_boundary_from_event event h = Inr None"
  shows "transfer_boundary_from_event event h' = Inr None"
  using assms unfolding transfer_boundary_from_event_def
  by (cases "evt_payload event") (auto simp: make_transfer_boundary_def result_elims split: if_splits)

lemma zero_hash_valid: "valid_blake3_hex (replicate 64 CHR ''0'')"
  by code_simp

text \<open>Every indexed event is at or before the replayed world, and every expected boundary is of an indexed event.\<close>

definition index_sound :: "u64 \<Rightarrow> boundary_index \<Rightarrow> bool" where
  "index_sound n index \<longleftrightarrow> n \<le> wv_event_sequence (bix_replay index)
     \<and> (\<forall>k event. bt_get (bix_events index) k = Some event \<longrightarrow>
          evt_event_sequence event \<le> wv_event_sequence (bix_replay index))
     \<and> (\<forall>k b. bt_get (bix_expected index) k = Some b \<longrightarrow> bt_get (bix_events index) k \<noteq> None)"

lemma word_less_Suc: "x + 1 \<noteq> 0 \<Longrightarrow> x < (x + 1 :: u64)"
  by uint_arith

lemma applied_sequence:
  assumes "apply_event rpl event w = Inr w'" and "evt_event_sequence event \<noteq> 0"
  shows "wv_event_sequence w < wv_event_sequence w'" "wv_event_sequence w' = evt_event_sequence event"
  using apply_event_Inr [OF assms(1)] assms(2) by (simp_all add: word_less_Suc)

lemma index_event_simps [simp]:
  "bix_replay (index_event identity event index) = bix_replay index"
  "bix_expected (index_event identity event index) = bix_expected index"
  by (simp_all add: index_event_def split: option.split)

lemma index_step_iff:
  "index_transfer_event rpl n (EventLine event) index = Inr index' \<longleftrightarrow>
     evt_hash_is_valid event \<and>
     (\<exists>identity. transfer_boundary_from_event event (replicate 64 CHR ''0'') = Inr identity \<and>
       (if evt_event_sequence event \<le> n then index' = index_event identity event index
        else \<exists>w. apply_event rpl event (bix_replay index) = Inr w \<and>
          (if identity = None then index' = (index_event identity event index)\<lparr>bix_replay := w\<rparr>
           else \<exists>b. transfer_boundary_from_event event (wv_state_hash w) = Inr b \<and>
             expect_boundary b ((index_event identity event index)\<lparr>bix_replay := w\<rparr>) = Inr index')))"
  by (cases "transfer_boundary_from_event event (replicate 64 CHR ''0'')";
      cases "apply_event rpl event (bix_replay index)")
     (auto simp: index_transfer_event_def Let_def try_r_Inr_iff)

lemma expect_boundary_Inr:
  assumes "expect_boundary b index = Inr index'"
  shows "bix_replay index' = bix_replay index" "bix_events index' = bix_events index"
    "bt_get (bix_expected index') k = bt_get (bix_expected index) k
       \<or> (\<exists>b'. b = Some b' \<and> k = boundary_key b')"
  using assms by (auto simp: expect_boundary_def split: option.splits if_splits)

lemma same_boundary_key:
  assumes "transfer_boundary_from_event event h = Inr (Some b)" "transfer_boundary_from_event event h' = Inr (Some b')"
  shows "boundary_key b = boundary_key b'"
  using boundary_from_event_hash [OF assms(1) boundary_from_event_fields(6) [OF assms(2)]] assms(2)
  by (auto simp: boundary_key_def)

lemma index_sound_step:
  assumes sound: "index_sound n index" and step: "index_transfer_event rpl n line index = Inr index'"
  shows "index_sound n index'"
proof (cases line)
  case (EventLine event)
  from step [unfolded EventLine index_step_iff] obtain identity where
    identity: "transfer_boundary_from_event event (replicate 64 CHR ''0'') = Inr identity" by blast
  show ?thesis
  proof (cases "evt_event_sequence event \<le> n")
    case True
    with step identity have "index' = index_event identity event index"
      by (simp add: EventLine index_step_iff)
    with sound True show ?thesis by (auto simp: index_sound_def index_event_def split: option.split)
  next
    case False
    with step identity obtain w where w: "apply_event rpl event (bix_replay index) = Inr w"
      by (auto simp: EventLine index_step_iff)
    have "evt_event_sequence event \<noteq> 0" using False by auto
    note ahead = applied_sequence [OF w this]
    have le: "x \<le> wv_event_sequence w" if "x \<le> wv_event_sequence (bix_replay index)" for x
      using that ahead(1) by (rule order_trans [OF _ order.strict_implies_order])
    let ?index = "(index_event identity event index)\<lparr>bix_replay := w\<rparr>"
    have later: "index_sound n ?index"
      using sound le ahead(2) unfolding index_sound_def index_event_def
      by (cases identity) auto
    show ?thesis
    proof (cases identity)
      case None
      with step identity w False later show ?thesis by (simp add: EventLine index_step_iff)
    next
      case (Some i)
      with step identity w False obtain b where b: "transfer_boundary_from_event event (wv_state_hash w) = Inr b"
          "expect_boundary b ?index = Inr index'"
        by (auto simp: EventLine index_step_iff)
      have "bt_get (bix_events ?index) (boundary_key b') \<noteq> None" if "b = Some b'" for b'
        using same_boundary_key [of event "wv_state_hash w" b' "replicate 64 CHR ''0''" i] b(1) identity that Some
        by (simp add: index_event_def)
      with expect_boundary_Inr [OF b(2)] later show ?thesis
        unfolding index_sound_def by metis
    qed
  qed
qed (use assms in \<open>simp_all add: index_transfer_event_def\<close>)

lemma index_sound_fold:
  assumes "fold_r (index_transfer_event rpl n) journal index = Inr index'" and "index_sound n index"
  shows "index_sound n index'"
  using assms(1) by (rule fold_r_invariant [where P = "index_sound n"]) (auto intro: index_sound_step assms(2))

lemma bt_entries_filter_missing:
  "map snd (filter (\<lambda>(k, _). \<not> P k) (bt_entries m)) = [] \<longleftrightarrow> (\<forall>k b. bt_get m k = Some b \<longrightarrow> P k)"
  by (auto simp: filter_empty_conv bt_in_entries_iff)

text \<open>The index after one more replayed event.\<close>

lemma index_snoc:
  assumes fold: "fold_r (index_transfer_event rpl n) journal start = Inr index" and sound: "index_sound n index"
    and event: "evt_hash_is_valid event" "apply_event rpl event (bix_replay index) = Inr w" "evt_event_sequence event \<noteq> 0"
    and boundary: "transfer_boundary_from_event event (wv_state_hash w) = Inr b"
    and fresh: "\<And>b'. b = Some b' \<Longrightarrow> bt_get (bix_expected index) (boundary_key b') = None"
  shows "fold_r (index_transfer_event rpl n) (journal @ [EventLine event]) start = Inr
    (case b of None \<Rightarrow> index\<lparr>bix_replay := w\<rparr>
     | Some b' \<Rightarrow> index\<lparr>bix_replay := w, bix_events := bt_insert (boundary_key b') event (bix_events index),
         bix_expected := bt_insert (boundary_key b') b' (bix_expected index)\<rparr>)" (is "_ = Inr ?index")
proof -
  have later: "\<not> evt_event_sequence event \<le> n"
    using applied_sequence [OF event(2,3)] sound by (auto simp: index_sound_def)
  have "index_transfer_event rpl n (EventLine event) index = Inr ?index"
  proof (cases b)
    case None
    with boundary_from_event_None [of event "wv_state_hash w"] boundary later event show ?thesis
      by (simp add: index_step_iff) (simp add: index_event_def)
  next
    case (Some b')
    have zero: "transfer_boundary_from_event event (replicate 64 CHR ''0'')
        = Inr (Some (b'\<lparr>dtb_resulting_world_hash := replicate 64 CHR ''0''\<rparr>))"
      by (rule boundary_from_event_hash [OF boundary [unfolded Some] zero_hash_valid])
    have key: "boundary_key (b'\<lparr>dtb_resulting_world_hash := replicate 64 CHR ''0''\<rparr>) = boundary_key b'"
      by (simp add: boundary_key_def)
    show ?thesis
      using zero later event boundary Some fresh [OF Some]
      by (simp add: index_step_iff expect_boundary_def) (simp add: index_event_def key)
  qed
  with fold show ?thesis by (simp add: fold_r_append)
qed

section \<open>Consistent boundary journals\<close>

text \<open>The boundary journal agrees with the event journal and with the head in the record.\<close>

definition boundaries_consistent ::
    "externals \<Rightarrow> (durable_transfer_boundary \<Rightarrow> string) \<Rightarrow> replayer \<Rightarrow> store_state \<Rightarrow> cell_lifecycle_record \<Rightarrow>
     u64 \<Rightarrow> boundary_index \<Rightarrow> boundary_scan \<Rightarrow> bool" where
  "boundaries_consistent ext json rpl s l n index scan \<longleftrightarrow>
     (\<exists>w. boundary_replay_start rpl s = Inr (n, w) \<and> wv_event_sequence w = n
        \<and> fold_r (index_transfer_event rpl n) (sto_journal_file s)
            \<lparr>bix_replay = w, bix_events = bt_empty, bix_expected = bt_empty\<rparr> = Inr index)
     \<and> fold_r (check_boundary ext json index (lcr_transfer_boundary_head_hash l)) (sto_boundary_file s)
         (scan_start (lcr_transfer_boundary_head_hash l)) = Inr scan
     \<and> bsc_observed_head scan = lcr_transfer_boundary_head_hash l
     \<and> (\<forall>k event. bt_get (bix_events index) k = Some event \<longrightarrow> evt_event_sequence event \<le> n \<longrightarrow>
          bt_get (bsc_committed scan) k \<noteq> None)
     \<and> (\<forall>k b. bt_get (bix_expected index) k = Some b \<longrightarrow> bt_get (bsc_committed scan) k \<noteq> None)"

lemma consistent_index_sound:
  assumes "boundaries_consistent ext json rpl s l n index scan"
  shows "index_sound n index"
proof -
  from assms obtain w where w: "wv_event_sequence w = n"
      "fold_r (index_transfer_event rpl n) (sto_journal_file s)
        \<lparr>bix_replay = w, bix_events = bt_empty, bix_expected = bt_empty\<rparr> = Inr index"
    unfolding boundaries_consistent_def by blast
  from index_sound_fold [OF w(2)] w(1) show ?thesis by (simp add: index_sound_def)
qed

text \<open>The two ways in which the checks succeed.\<close>

lemma historic_missing:
  "list_ex (\<lambda>(k, event). evt_event_sequence event \<le> n \<and> \<not> bt_contains committed k) (bt_entries m) \<longleftrightarrow>
     (\<exists>k event. bt_get m k = Some event \<and> evt_event_sequence event \<le> n \<and> bt_get committed k = None)"
  unfolding list_ex_iff bt_contains_def bt_in_entries_iff [symmetric] by auto

lemma check_transfer_boundaries_None:
  assumes "boundaries_consistent ext json rpl s l n index scan"
  shows "check_transfer_boundaries ext json rpl l s = Inr (scan, None)"
proof -
  from assms have missing:
    "map snd (filter (\<lambda>(k, _). \<not> bt_contains (bsc_committed scan) k) (bt_entries (bix_expected index))) = []"
    unfolding bt_entries_filter_missing boundaries_consistent_def bt_contains_def by blast
  from assms have historic: "\<not> list_ex (\<lambda>(k, event). evt_event_sequence event \<le> n
      \<and> \<not> bt_contains (bsc_committed scan) k) (bt_entries (bix_events index))"
    unfolding historic_missing boundaries_consistent_def by blast
  from assms obtain w where "boundary_replay_start rpl s = Inr (n, w)"
    "fold_r (index_transfer_event rpl n) (sto_journal_file s)
       \<lparr>bix_replay = w, bix_events = bt_empty, bix_expected = bt_empty\<rparr> = Inr index"
    "fold_r (check_boundary ext json index (lcr_transfer_boundary_head_hash l)) (sto_boundary_file s)
       (scan_start (lcr_transfer_boundary_head_hash l)) = Inr scan"
    "boundary_suffix_valid l scan"
    unfolding boundaries_consistent_def boundary_suffix_valid_def by blast
  with missing historic show ?thesis
    unfolding check_transfer_boundaries_def by (simp only: Let_def try_r_simps prod.case) simp
qed

lemma last_sequence_indexed:
  assumes "fold_r (check_boundary ext json index h) bs scan = Inr scan'"
    and "bsc_last_event_sequence scan \<le> m"
    and "\<And>k event. bt_get (bix_events index) k = Some event \<Longrightarrow> evt_event_sequence event \<le> m"
  shows "bsc_last_event_sequence scan' \<le> m"
  using assms(1,2)
proof (rule fold_r_invariant [where P = "\<lambda>sc. bsc_last_event_sequence sc \<le> m"])
  fix b sc sc' assume "check_boundary ext json index h b sc = Inr sc'"
  then obtain event b' where e: "sc' = advance_scan h b sc" "bt_get (bix_events index) (boundary_key b) = Some event"
      "transfer_boundary_from_event event (dtb_resulting_world_hash b) = Inr (Some b')"
      "same_transfer_boundary_material b' b"
    by (auto simp: check_boundary_iff boundary_accepted_def)
  then have "dtb_event_sequence b = evt_event_sequence event"
    using boundary_from_event_fields(1) [OF e(3)] by (simp add: same_transfer_boundary_material_def)
  with e assms(3) show "bsc_last_event_sequence sc' \<le> m" by simp
qed

lemma distinct_singleton:
  assumes "distinct xs" and "set xs = {x}"
  shows "xs = [x]"
proof (cases xs)
  case (Cons a ys)
  with assms have "a = x" "\<forall>y \<in> set ys. y = x" "x \<notin> set ys" by auto
  then have "ys = []" by (cases ys) simp_all
  with Cons \<open>a = x\<close> show ?thesis by simp
qed (use assms in simp)

lemma single_missing:
  assumes "bt_get m k = Some v" and "\<not> P k" and "\<And>k'. k' \<noteq> k \<Longrightarrow> bt_get m k' \<noteq> None \<Longrightarrow> P k'"
  shows "map snd (filter (\<lambda>(k, _). \<not> P k) (bt_entries m)) = [v]"
proof -
  let ?xs = "filter (\<lambda>(k, _). \<not> P k) (bt_entries m)"
  have only: "a = k \<and> b = v" if "bt_get m a = Some b" "\<not> P a" for a b
    using assms(1) assms(3) [of a] that by (metis option.distinct(1) option.inject)
  have "x \<in> set ?xs \<longleftrightarrow> x = (k, v)" for x
  proof (cases x)
    case (Pair a b)
    have "x \<in> set ?xs \<longleftrightarrow> bt_get m a = Some b \<and> \<not> P a" by (simp add: Pair bt_in_entries_iff)
    with assms(1,2) only Pair show ?thesis by blast
  qed
  then have "set ?xs = {(k, v)}" by blast
  moreover
  have "distinct ?xs"
    using bt_distinct_keys [of m] by (auto simp: distinct_map intro: distinct_filter)
  ultimately have "?xs = [(k, v)]"
    by (rule distinct_singleton [rotated])
  then show ?thesis by simp
qed

text \<open>The same snapshot, so that the replay starts at the same world.\<close>

definition same_replay_start :: "store_state \<Rightarrow> store_state \<Rightarrow> bool" where
  "same_replay_start s s' \<longleftrightarrow> sto_snapshot_file s' = sto_snapshot_file s
     \<and> sto_world_seed s' = sto_world_seed s \<and> sto_cell_key s' = sto_cell_key s"

lemma replay_start_same: "same_replay_start s s' \<Longrightarrow> boundary_replay_start rpl s' = boundary_replay_start rpl s"
  by (simp add: boundary_replay_start_def same_replay_start_def split: option.split)

text \<open>An unchanged journal, or one more event that is no transfer.\<close>

lemma consistent_unchanged:
  assumes "boundaries_consistent ext json rpl s l n index scan" and "same_replay_start s s'"
    and "sto_journal_file s' = sto_journal_file s" and "sto_boundary_file s' = sto_boundary_file s"
    and "lcr_transfer_boundary_head_hash l' = lcr_transfer_boundary_head_hash l"
  shows "boundaries_consistent ext json rpl s' l' n index scan"
  using assms by (simp add: boundaries_consistent_def replay_start_same)

lemma check_boundary_replay [simp]:
  "check_boundary ext json (index\<lparr>bix_replay := w\<rparr>) h = check_boundary ext json index h"
  by (intro ext) (simp add: check_boundary_def cong: option.case_cong if_cong)

lemma consistent_other_event:
  assumes base: "boundaries_consistent ext json rpl s l n index scan" and "same_replay_start s s'"
    and event: "evt_hash_is_valid event" "apply_event rpl event (bix_replay index) = Inr w"
      "evt_event_sequence event \<noteq> 0" "transfer_boundary_from_event event (wv_state_hash w) = Inr None"
    and files: "sto_journal_file s' = sto_journal_file s @ [EventLine event]"
      "sto_boundary_file s' = sto_boundary_file s"
      "lcr_transfer_boundary_head_hash l' = lcr_transfer_boundary_head_hash l"
  shows "boundaries_consistent ext json rpl s' l' n (index\<lparr>bix_replay := w\<rparr>) scan"
proof -
  from base obtain w0 where start: "boundary_replay_start rpl s = Inr (n, w0)" "wv_event_sequence w0 = n"
    "fold_r (index_transfer_event rpl n) (sto_journal_file s)
       \<lparr>bix_replay = w0, bix_events = bt_empty, bix_expected = bt_empty\<rparr> = Inr index"
    unfolding boundaries_consistent_def by blast
  from index_snoc [OF start(3) consistent_index_sound [OF base] event]
  have "fold_r (index_transfer_event rpl n) (sto_journal_file s')
       \<lparr>bix_replay = w0, bix_events = bt_empty, bix_expected = bt_empty\<rparr> = Inr (index\<lparr>bix_replay := w\<rparr>)"
    by (simp add: files)
  with base start files assms(2) show ?thesis
    by (simp add: boundaries_consistent_def replay_start_same)
qed

section \<open>After a transfer event\<close>

text \<open>The index after the event, and the boundary that belongs to it.\<close>

definition with_transfer ::
    "canonical_event \<Rightarrow> durable_transfer_boundary \<Rightarrow> world_view \<Rightarrow> boundary_index \<Rightarrow> boundary_index" where
  "with_transfer event b w index =
     index\<lparr>bix_replay := w, bix_events := bt_insert (boundary_key b) event (bix_events index),
           bix_expected := bt_insert (boundary_key b) b (bix_expected index)\<rparr>"

definition transfer_follows ::
    "replayer \<Rightarrow> boundary_index \<Rightarrow> boundary_scan \<Rightarrow> canonical_event \<Rightarrow> durable_transfer_boundary \<Rightarrow> world_view \<Rightarrow> bool" where
  "transfer_follows rpl index scan event b w \<longleftrightarrow> evt_hash_is_valid event
     \<and> apply_event rpl event (bix_replay index) = Inr w
     \<and> transfer_boundary_from_event event (wv_state_hash w) = Inr (Some b)
     \<and> bt_get (bsc_committed scan) (boundary_key b) = None"

lemma transfer_replayed:
  assumes base: "boundaries_consistent ext json rpl s l n index scan" and "same_replay_start s s'"
    and follows: "transfer_follows rpl index scan event b w"
    and journal: "sto_journal_file s' = sto_journal_file s @ [EventLine event]"
  shows "\<exists>w0. boundary_replay_start rpl s' = Inr (n, w0) \<and> wv_event_sequence w0 = n
      \<and> fold_r (index_transfer_event rpl n) (sto_journal_file s')
         \<lparr>bix_replay = w0, bix_events = bt_empty, bix_expected = bt_empty\<rparr> = Inr (with_transfer event b w index)"
    and "n < evt_event_sequence event"
    and "\<exists>scan'. fold_r (check_boundary ext json (with_transfer event b w index) h) (sto_boundary_file s) (scan_start h)
      = Inr scan' \<and> same_scan scan scan'"
proof -
  from base obtain w0 where start: "boundary_replay_start rpl s = Inr (n, w0)" "wv_event_sequence w0 = n"
    "fold_r (index_transfer_event rpl n) (sto_journal_file s)
       \<lparr>bix_replay = w0, bix_events = bt_empty, bix_expected = bt_empty\<rparr> = Inr index"
    unfolding boundaries_consistent_def by blast
  have sound: "index_sound n index" by (rule consistent_index_sound [OF base])
  have event: "evt_hash_is_valid event" "apply_event rpl event (bix_replay index) = Inr w"
    "transfer_boundary_from_event event (wv_state_hash w) = Inr (Some b)"
    and fresh: "bt_get (bsc_committed scan) (boundary_key b) = None"
    using follows by (simp_all add: transfer_follows_def)
  have positive: "evt_event_sequence event \<noteq> 0" by (rule boundary_from_event_fields(5) [OF event(3)])
  have "bt_get (bix_expected index) (boundary_key b) = None"
    using base fresh unfolding boundaries_consistent_def by (metis option.exhaust)
  with index_snoc [OF start(3) sound event(1,2) positive event(3)]
  have "fold_r (index_transfer_event rpl n) (sto_journal_file s')
      \<lparr>bix_replay = w0, bix_events = bt_empty, bix_expected = bt_empty\<rparr> = Inr (with_transfer event b w index)"
    by (simp add: journal with_transfer_def)
  with start assms(2) show "\<exists>w0. boundary_replay_start rpl s' = Inr (n, w0) \<and> wv_event_sequence w0 = n
      \<and> fold_r (index_transfer_event rpl n) (sto_journal_file s')
         \<lparr>bix_replay = w0, bix_events = bt_empty, bix_expected = bt_empty\<rparr> = Inr (with_transfer event b w index)"
    by (auto simp: replay_start_same)
  show "n < evt_event_sequence event"
    using applied_sequence [OF event(2) positive] sound by (auto simp: index_sound_def)
  let ?H = "lcr_transfer_boundary_head_hash l"
  have scanned: "fold_r (check_boundary ext json index ?H) (sto_boundary_file s) (scan_start ?H) = Inr scan"
    using base by (simp add: boundaries_consistent_def)
  have other: "boundary_key b' \<noteq> boundary_key b" if "b' \<in> set (sto_boundary_file s)" for b'
    using committed_keys [OF scanned that] fresh by metis
  show "\<exists>scan'. fold_r (check_boundary ext json (with_transfer event b w index) h) (sto_boundary_file s) (scan_start h)
      = Inr scan' \<and> same_scan scan scan'"
    by (rule fold_boundary_cong [OF scanned])
       (auto simp: same_scan_def scan_start_def with_transfer_def dest: other)
qed

text \<open>The event is in the journal and its boundary is missing: the pending commit appends it.\<close>

lemma transfer_without_boundary:
  assumes base: "boundaries_consistent ext json rpl s l n index scan" and "same_replay_start s s'"
    and follows: "transfer_follows rpl index scan event b w"
    and files: "sto_journal_file s' = sto_journal_file s @ [EventLine event]"
      "sto_boundary_file s' = sto_boundary_file s"
      "lcr_transfer_boundary_head_hash l' = lcr_transfer_boundary_head_hash l"
    and pending: "lcr_pending_world_commit l' = Some p" "pwc_event_hash p = evt_event_hash event"
  shows "\<exists>scan'. check_transfer_boundaries ext json rpl l' s' = Inr (scan', Some b)"
proof -
  let ?H = "lcr_transfer_boundary_head_hash l"
  let ?index = "with_transfer event b w index"
  from transfer_replayed [OF base assms(2) follows files(1)] obtain w0 scan' where
    start: "boundary_replay_start rpl s' = Inr (n, w0)"
      "fold_r (index_transfer_event rpl n) (sto_journal_file s')
        \<lparr>bix_replay = w0, bix_events = bt_empty, bix_expected = bt_empty\<rparr> = Inr ?index"
    and later: "n < evt_event_sequence event"
    and scan': "fold_r (check_boundary ext json ?index ?H) (sto_boundary_file s) (scan_start ?H) = Inr scan'"
      "same_scan scan scan'"
    by blast
  have suffix: "boundary_suffix_valid l' scan'"
    using base scan'(2) files(3) by (simp add: boundary_suffix_valid_def same_scan_def boundaries_consistent_def)
  have historic: "\<not> list_ex (\<lambda>(k, event). evt_event_sequence event \<le> n \<and> \<not> bt_contains (bsc_committed scan') k)
      (bt_entries (bix_events ?index))"
    using base scan'(2) later unfolding historic_missing boundaries_consistent_def same_scan_def with_transfer_def
    by (auto simp del: split_paired_Ex split_paired_All split: if_splits)
  have missing: "map snd (filter (\<lambda>(k, _). \<not> bt_contains (bsc_committed scan') k) (bt_entries (bix_expected ?index))) = [b]"
  proof (rule single_missing)
    show "bt_get (bix_expected ?index) (boundary_key b) = Some b" by (simp add: with_transfer_def)
    show "\<not> bt_contains (bsc_committed scan') (boundary_key b)"
      using follows scan'(2) by (simp add: transfer_follows_def same_scan_def bt_contains_def)
    show "bt_contains (bsc_committed scan') k" if "k \<noteq> boundary_key b" "bt_get (bix_expected ?index) k \<noteq> None" for k
      using base scan'(2) that unfolding boundaries_consistent_def same_scan_def bt_contains_def with_transfer_def
      by (auto simp del: split_paired_Ex split_paired_All)
  qed
  have hash: "dtb_event_hash b = evt_event_hash event"
    using follows boundary_from_event_fields(2) by (auto simp: transfer_follows_def)
  show ?thesis
    unfolding check_transfer_boundaries_def
    by (simp only: start try_r_simps prod.case Let_def files(2,3) scan' suffix historic missing list.case pending option.case hash)
       simp
qed

lemma linked_boundary [simp]:
  "boundary_key (link_boundary ext json h b) = boundary_key b"
  "dtb_transfer_id (link_boundary ext json h b) = dtb_transfer_id b"
  "dtb_kind (link_boundary ext json h b) = dtb_kind b"
  "dtb_previous_boundary_hash (link_boundary ext json h b) = h"
  "dtb_event_sequence (link_boundary ext json h b) = dtb_event_sequence b"
  "dtb_event_hash (link_boundary ext json h b) = dtb_event_hash b"
  "dtb_resulting_world_hash (link_boundary ext json h b) = dtb_resulting_world_hash b"
  "same_transfer_boundary_material b (link_boundary ext json h b)"
  by (simp_all add: link_boundary_def Let_def boundary_key_def same_transfer_boundary_material_def)

lemma linked_boundary_valid:
  "(\<And>bytes. valid_blake3_hex (ext_blake3_hex ext bytes)) \<Longrightarrow>
     boundary_hash_is_valid ext json (link_boundary ext json h b)"
  by (simp add: boundary_hash_is_valid_def link_boundary_def calculate_boundary_hash_def Let_def)

text \<open>The boundary is in its journal too; the record has its head already, or still announces the event.\<close>

lemma transfer_with_boundary:
  assumes hashes: "\<And>bytes. valid_blake3_hex (ext_blake3_hex ext bytes)"
    and base: "boundaries_consistent ext json rpl s l n index scan" and "same_replay_start s s'"
    and follows: "transfer_follows rpl index scan event b w"
    and linked: "b' = link_boundary ext json (lcr_transfer_boundary_head_hash l) b"
    and files: "sto_journal_file s' = sto_journal_file s @ [EventLine event]"
      "sto_boundary_file s' = sto_boundary_file s @ [b']"
    and heads: "lcr_transfer_boundary_head_hash l' = dtb_boundary_hash b'
      \<or> lcr_transfer_boundary_head_hash l' = lcr_transfer_boundary_head_hash l
        \<and> (\<exists>p. lcr_pending_world_commit l' = Some p \<and> pwc_event_sequence p = evt_event_sequence event
             \<and> pwc_event_hash p = evt_event_hash event)"
  shows "\<exists>scan'. check_transfer_boundaries ext json rpl l' s' = Inr (scan', None)
    \<and> bsc_observed_head scan' = dtb_boundary_hash b'"
proof -
  let ?H = "lcr_transfer_boundary_head_hash l'"
  let ?index = "with_transfer event b w index"
  from transfer_replayed [OF base assms(3) follows files(1)] obtain w0 scan1 where
    start: "boundary_replay_start rpl s' = Inr (n, w0)"
      "fold_r (index_transfer_event rpl n) (sto_journal_file s')
        \<lparr>bix_replay = w0, bix_events = bt_empty, bix_expected = bt_empty\<rparr> = Inr ?index"
    and later: "n < evt_event_sequence event"
    and scan1: "fold_r (check_boundary ext json ?index ?H) (sto_boundary_file s) (scan_start ?H) = Inr scan1"
      "same_scan scan scan1"
    by blast
  note event = follows [unfolded transfer_follows_def]
  have b: "dtb_event_sequence b = evt_event_sequence event" "dtb_event_hash b = evt_event_hash event"
    "dtb_resulting_world_hash b = wv_state_hash w"
    using boundary_from_event_fields [of event "wv_state_hash w" b] event by blast+
  have "bsc_last_event_sequence scan1 \<le> wv_event_sequence (bix_replay index)"
  proof -
    have "fold_r (check_boundary ext json index (lcr_transfer_boundary_head_hash l)) (sto_boundary_file s)
        (scan_start (lcr_transfer_boundary_head_hash l)) = Inr scan"
      using base by (simp add: boundaries_consistent_def)
    from last_sequence_indexed [OF this, of "wv_event_sequence (bix_replay index)"] consistent_index_sound [OF base] scan1(2)
    show ?thesis by (auto simp: same_scan_def index_sound_def scan_start_def)
  qed
  moreover have "wv_event_sequence (bix_replay index) < evt_event_sequence event"
    using applied_sequence [of rpl event "bix_replay index" w] event boundary_from_event_fields(5) by metis
  ultimately have sequence: "bsc_last_event_sequence scan1 < evt_event_sequence event" by simp
  have "boundary_accepted ext json ?index scan1 b'"
    using linked base scan1(2) sequence event b linked_boundary_valid [OF hashes]
    by (auto simp: boundary_accepted_def same_scan_def boundaries_consistent_def with_transfer_def)
  then have scanned: "fold_r (check_boundary ext json ?index ?H) (sto_boundary_file s') (scan_start ?H)
      = Inr (advance_scan ?H b' scan1)"
    using scan1(1) by (simp add: files fold_r_append try_r_Inr_iff check_boundary_iff)
  let ?scan = "advance_scan ?H b' scan1"
  have "boundary_suffix_valid l' ?scan"
    using heads
  proof (elim disjE conjE exE)
    fix p assume same: "?H = lcr_transfer_boundary_head_hash l"
      and p: "lcr_pending_world_commit l' = Some p" "pwc_event_sequence p = evt_event_sequence event"
        "pwc_event_hash p = evt_event_hash event"
    have "bsc_observed_head scan1 = ?H"
      using base scan1(2) same by (simp add: boundaries_consistent_def same_scan_def)
    with scan_consistent_fold [OF scan1(1)] p b linked show ?thesis
      by (simp add: boundary_suffix_valid_def scan_consistent_def) (simp add: advance_scan_def Let_def)
  qed (simp add: boundary_suffix_valid_def)
  moreover have "\<not> list_ex (\<lambda>(k, event). evt_event_sequence event \<le> n \<and> \<not> bt_contains (bsc_committed ?scan) k)
      (bt_entries (bix_events ?index))"
    using base scan1(2) later linked
    unfolding historic_missing boundaries_consistent_def same_scan_def with_transfer_def
    by (auto simp del: split_paired_Ex split_paired_All split: if_splits)
  moreover have "map snd (filter (\<lambda>(k, _). \<not> bt_contains (bsc_committed ?scan) k) (bt_entries (bix_expected ?index))) = []"
    using base scan1(2) linked
    unfolding bt_entries_filter_missing bt_contains_def boundaries_consistent_def same_scan_def with_transfer_def
    by (auto simp del: split_paired_Ex split_paired_All split: if_splits)
  ultimately have "check_transfer_boundaries ext json rpl l' s' = Inr (?scan, None)"
    unfolding check_transfer_boundaries_def
    by (simp only: start scanned try_r_simps prod.case Let_def list.case) simp
  then show ?thesis by simp
qed

section \<open>What a commit leaves in the two journals\<close>

text \<open>
  The state of a commit while its event is announced: the two journals, the head in the record
  of the file, and the head in memory.
\<close>

definition journals_at ::
    "store_state \<Rightarrow> pending_world_commit \<Rightarrow> journal_line list \<Rightarrow> durable_transfer_boundary list \<Rightarrow> string \<Rightarrow>
     store_state \<Rightarrow> bool" where
  "journals_at s0 p j bs h s \<longleftrightarrow> same_replay_start s0 s \<and> sto_journal_file s = j \<and> sto_boundary_file s = bs
     \<and> lcr_transfer_boundary_head_hash (sto_lifecycle s) = h
     \<and> (\<exists>l. sto_lifecycle_file s = Some l \<and> lcr_pending_world_commit l = Some p
          \<and> lcr_transfer_boundary_head_hash l = lcr_transfer_boundary_head_hash (sto_lifecycle s0))"

text \<open>The ends of a commit, by what of it has reached the files.\<close>

definition commit_untouched :: "store_state \<Rightarrow> store_state \<Rightarrow> bool" where
  "commit_untouched s s' \<longleftrightarrow> same_replay_start s s' \<and> sto_journal_file s' = sto_journal_file s
     \<and> sto_boundary_file s' = sto_boundary_file s
     \<and> (\<exists>l. sto_lifecycle_file s' = Some l \<and>
          lcr_transfer_boundary_head_hash l = lcr_transfer_boundary_head_hash (sto_lifecycle s))"

definition commit_reached ::
    "externals \<Rightarrow> (durable_transfer_boundary \<Rightarrow> string) \<Rightarrow> store_state \<Rightarrow> canonical_event \<Rightarrow>
     durable_transfer_boundary option \<Rightarrow> store_state \<Rightarrow> bool" where
  "commit_reached ext json s event b s' \<longleftrightarrow> same_replay_start s s'
     \<and> sto_journal_file s' = sto_journal_file s @ [EventLine event]
     \<and> (\<exists>l. sto_lifecycle_file s' = Some l \<and>
         (let h = lcr_transfer_boundary_head_hash (sto_lifecycle s);
              pending = (\<exists>p. lcr_pending_world_commit l = Some p \<and> pwc_event_sequence p = evt_event_sequence event
                 \<and> pwc_event_hash p = evt_event_hash event)
          in case b of
               None \<Rightarrow> sto_boundary_file s' = sto_boundary_file s \<and> lcr_transfer_boundary_head_hash l = h
             | Some b \<Rightarrow> let b' = link_boundary ext json h b in
                 bt_get (sto_boundaries s) (boundary_key b) = None \<and>
                 (sto_boundary_file s' = sto_boundary_file s \<and> lcr_transfer_boundary_head_hash l = h \<and> pending
                  \<or> sto_boundary_file s' = sto_boundary_file s @ [b']
                    \<and> (lcr_transfer_boundary_head_hash l = dtb_boundary_hash b'
                       \<or> lcr_transfer_boundary_head_hash l = h \<and> pending))))"

lemma journals_renewed:
  assumes "journals_at s0 p j bs h s" and "renewed s s'"
  shows "journals_at s0 p j bs h s'"
proof -
  from assms(1) obtain l where l: "sto_lifecycle_file s = Some l" "lcr_pending_world_commit l = Some p"
      "lcr_transfer_boundary_head_hash l = lcr_transfer_boundary_head_hash (sto_lifecycle s0)"
    unfolding journals_at_def by blast
  from assms(2) l(1) obtain l' where l': "sto_lifecycle_file s' = Some l'" "untimed l' = untimed l"
    by (auto simp: renewed_def)
  with assms l untimed_fields(16,19) [OF l'(2)] untimed_fields(16) [OF renewed_untimed [OF assms(2)]]
  show ?thesis
    unfolding journals_at_def renewed_def same_replay_start_def by metis
qed

lemma journals_frame [simp]:
  "journals_at s0 p j bs h (s\<lparr>sto_clock := c\<rparr>) = journals_at s0 p j bs h s"
  "journals_at s0 p j bs h (s\<lparr>sto_last_trusted_unix_ms := t\<rparr>) = journals_at s0 p j bs h s"
  "journals_at s0 p j bs h (s\<lparr>sto_writes := w\<rparr>) = journals_at s0 p j bs h s"
  by (simp_all add: journals_at_def same_replay_start_def)

lemma wp_append_journals:
  assumes "journals_at s0 p j bs h s"
  shows "wp (append_event event) (\<lambda>_. journals_at s0 p (j @ [EventLine event]) bs h)
    (\<lambda>_ s'. journals_at s0 p j bs h s' \<or> journals_at s0 p (j @ [EventLine event]) bs h s') s"
  unfolding append_event_def
  by (intro wp_bind wp_conseq [OF wp_verify_lease_plain], intro wp_intro)
     (auto dest: journals_renewed [OF assms] simp: journals_at_def same_replay_start_def)

lemma wp_announce_journals:
  assumes "commit_untouched s0 s" and "lcr_pending_world_commit l = Some p"
    and "lcr_transfer_boundary_head_hash l = lcr_transfer_boundary_head_hash (sto_lifecycle s0)"
    and "sto_boundaries s = sto_boundaries s0"
  shows "wp (persist_lifecycle l) (\<lambda>_ s'. journals_at s0 p (sto_journal_file s0) (sto_boundary_file s0)
      (lcr_transfer_boundary_head_hash (sto_lifecycle s0)) s' \<and> sto_boundaries s' = sto_boundaries s0)
    (\<lambda>_. commit_untouched s0) s"
  unfolding persist_lifecycle_def write_lifecycle_file_def
  by (intro wp_intro) (use assms in \<open>auto simp: journals_at_def commit_untouched_def same_replay_start_def\<close>)

lemma wp_settle_journals:
  assumes "journals_at s0 p j bs h s" and "lcr_transfer_boundary_head_hash l = h"
  shows "wp (persist_lifecycle l)
    (\<lambda>_ s'. same_replay_start s0 s' \<and> sto_journal_file s' = j \<and> sto_boundary_file s' = bs \<and>
       (\<exists>l. sto_lifecycle_file s' = Some l \<and> lcr_transfer_boundary_head_hash l = h))
    (\<lambda>_ s'. journals_at s0 p j bs h s' \<or> same_replay_start s0 s' \<and> sto_journal_file s' = j
       \<and> sto_boundary_file s' = bs \<and> (\<exists>l. sto_lifecycle_file s' = Some l \<and> lcr_transfer_boundary_head_hash l = h)) s"
  unfolding persist_lifecycle_def write_lifecycle_file_def
  by (intro wp_intro) (use assms in \<open>auto simp: journals_at_def same_replay_start_def\<close>)

lemma wp_boundary_journals:
  assumes "journals_at s0 p j bs (lcr_transfer_boundary_head_hash (sto_lifecycle s0)) s"
  shows "wp (append_boundary b) (\<lambda>_. journals_at s0 p j (bs @ [b]) (dtb_boundary_hash b))
    (\<lambda>_ s'. journals_at s0 p j bs (lcr_transfer_boundary_head_hash (sto_lifecycle s0)) s'
       \<or> journals_at s0 p j (bs @ [b]) (lcr_transfer_boundary_head_hash (sto_lifecycle s0)) s') s"
  unfolding append_boundary_def
  by (intro wp_intro) (use assms in \<open>auto simp: journals_at_def same_replay_start_def\<close>)

lemma untouched_renewed:
  assumes "renewed s s'" and "sto_lifecycle_file s = Some (sto_lifecycle s)"
  shows "commit_untouched s s'"
proof -
  from assms obtain l where l: "sto_lifecycle_file s' = Some l" "untimed l = untimed (sto_lifecycle s)"
    by (auto simp: renewed_def)
  with assms(1) untimed_fields(16) [OF l(2)] show ?thesis
    by (auto simp: commit_untouched_def renewed_def same_replay_start_def)
qed

lemma journals_untouched:
  "journals_at s0 p (sto_journal_file s0) (sto_boundary_file s0) h s \<Longrightarrow> commit_untouched s0 s"
  by (auto simp: journals_at_def commit_untouched_def)

lemma untouched_frame [simp]:
  "commit_untouched s0 (s\<lparr>sto_clock := c\<rparr>) = commit_untouched s0 s"
  "commit_untouched s0 (s\<lparr>sto_last_trusted_unix_ms := t\<rparr>) = commit_untouched s0 s"
  by (simp_all add: commit_untouched_def same_replay_start_def)

lemma wp_commit_journals:
  assumes file_now: "sto_lifecycle_file s = Some (sto_lifecycle s)"
  shows "wp (commit_world_event ext json event state n)
    (\<lambda>_ s'. \<exists>b. transfer_boundary_from_event event (wv_state_hash state) = Inr b \<and> commit_reached ext json s event b s')
    (\<lambda>_ s'. commit_untouched s s' \<or>
       (\<exists>b. transfer_boundary_from_event event (wv_state_hash state) = Inr b \<and> commit_reached ext json s event b s')) s"
    (is "wp _ ?Q ?E s")
proof -
  let ?H = "lcr_transfer_boundary_head_hash (sto_lifecycle s)"
  let ?J = "sto_journal_file s" and ?B = "sto_boundary_file s"
  let ?pending = "\<lambda>l. \<lparr>pwc_event_sequence = evt_event_sequence event, pwc_event_hash = evt_event_hash event,
       pwc_occurred_at_unix_ms = evt_occurred_at_unix_ms event,
       pwc_prior_next_occurrence = lcr_next_production_occurrence l, pwc_resulting_next_occurrence = n\<rparr>"
  let ?boundary = "transfer_boundary_from_event event (wv_state_hash state)"
  have reached_pending: "commit_reached ext json s event b s'"
    if "journals_at s (?pending l0) (?J @ [EventLine event]) bs h s'"
      "case b of None \<Rightarrow> bs = ?B | Some b \<Rightarrow> bt_get (sto_boundaries s) (boundary_key b) = None
         \<and> (bs = ?B \<or> bs = ?B @ [link_boundary ext json ?H b])" for l0 bs h b s'
    using that by (cases b) (auto simp: commit_reached_def journals_at_def Let_def)
  have reached_settled: "commit_reached ext json s event b s'"
    if "same_replay_start s s'" "sto_journal_file s' = ?J @ [EventLine event]" "sto_boundary_file s' = bs"
      "sto_lifecycle_file s' = Some l" "lcr_transfer_boundary_head_hash l = h"
      "case b of None \<Rightarrow> bs = ?B \<and> h = ?H
       | Some b \<Rightarrow> bt_get (sto_boundaries s) (boundary_key b) = None \<and> bs = ?B @ [link_boundary ext json ?H b]
           \<and> h = dtb_boundary_hash (link_boundary ext json ?H b)" for l bs h b s'
    using that by (cases b) (auto simp: commit_reached_def Let_def)
  let ?settled = "\<lambda>b bs h. case b of None \<Rightarrow> bs = ?B \<and> h = ?H
       | Some b \<Rightarrow> bt_get (sto_boundaries s) (boundary_key b) = None \<and> bs = ?B @ [link_boundary ext json ?H b]
           \<and> h = dtb_boundary_hash (link_boundary ext json ?H b)"
  have settle: "wp (persist_lifecycle l) ?Q ?E s'"
    if "journals_at s (?pending l0) (?J @ [EventLine event]) bs h s'" "lcr_transfer_boundary_head_hash l = h"
      "?boundary = Inr b" "?settled b bs h" for l l0 bs h b s'
  proof (rule wp_conseq [OF wp_settle_journals [OF that(1,2)]])
    have pending: "commit_reached ext json s event b s''"
      if "journals_at s (?pending l0) (?J @ [EventLine event]) bs h s''" for s''
      using reached_pending [OF that, of b] \<open>?settled b bs h\<close> by (simp split: option.splits)
    have settled: "commit_reached ext json s event b s''"
      if "same_replay_start s s'' \<and> sto_journal_file s'' = ?J @ [EventLine event] \<and> sto_boundary_file s'' = bs
        \<and> (\<exists>l. sto_lifecycle_file s'' = Some l \<and> lcr_transfer_boundary_head_hash l = h)" for s''
      using that reached_settled [OF _ _ _ _ _ \<open>?settled b bs h\<close>] by blast
    show "?Q x s''" if "same_replay_start s s'' \<and> sto_journal_file s'' = ?J @ [EventLine event] \<and> sto_boundary_file s'' = bs
        \<and> (\<exists>l. sto_lifecycle_file s'' = Some l \<and> lcr_transfer_boundary_head_hash l = h)" for x :: unit and s''
      using settled [OF that] \<open>?boundary = Inr b\<close> by blast
    show "?E e s''" if "journals_at s (?pending l0) (?J @ [EventLine event]) bs h s'' \<or> same_replay_start s s''
        \<and> sto_journal_file s'' = ?J @ [EventLine event] \<and> sto_boundary_file s'' = bs
        \<and> (\<exists>l. sto_lifecycle_file s'' = Some l \<and> lcr_transfer_boundary_head_hash l = h)" for e s''
      using that pending settled \<open>?boundary = Inr b\<close> by blast
  qed
  have boundary: "wp (case map_option (link_boundary ext json head) b of None \<Rightarrow> return_op () | Some b \<Rightarrow> append_boundary b)
      (\<lambda>_ s'. \<exists>bs h. journals_at s (?pending l0) (?J @ [EventLine event]) bs h s' \<and> ?settled b bs h) ?E s'"
    if "journals_at s (?pending l0) (?J @ [EventLine event]) ?B ?H s'" "?boundary = Inr b"
      and fresh: "\<And>b'. b = Some b' \<Longrightarrow> bt_get (sto_boundaries s) (boundary_key b') = None"
      and head: "head = ?H" for l0 b s' head
  proof (cases b)
    case None
    with that(1) show ?thesis by (auto intro: wp_intro)
  next
    case (Some b')
    have reached: "commit_reached ext json s event b s''"
      if "journals_at s (?pending l0) (?J @ [EventLine event]) bs h s''"
        "bs = ?B \<or> bs = ?B @ [link_boundary ext json ?H b']" for s'' bs h
      using reached_pending [OF that(1), of b] that(2) fresh [OF Some] Some by simp
    have "wp (append_boundary (link_boundary ext json ?H b')) (\<lambda>_ s'. \<exists>bs h.
        journals_at s (?pending l0) (?J @ [EventLine event]) bs h s' \<and> ?settled b bs h) ?E s'"
    proof (rule wp_conseq [OF wp_boundary_journals [OF that(1)]])
      show "?E e s''" if "journals_at s (?pending l0) (?J @ [EventLine event]) ?B ?H s''
          \<or> journals_at s (?pending l0) (?J @ [EventLine event]) (?B @ [link_boundary ext json ?H b']) ?H s''" for e s''
        using that reached \<open>?boundary = Inr b\<close> by blast
    qed (use fresh [OF Some] Some in auto)
    then show ?thesis unfolding Some head by simp
  qed
  have unchanged: "commit_untouched s s'" if "renewed s s'" for s'
    by (rule untouched_renewed [OF that file_now])
  have renewed_head: "lcr_transfer_boundary_head_hash (sto_lifecycle s') = ?H \<and> sto_boundaries s' = sto_boundaries s"
    if "renewed s s'" for s'
    using untimed_fields(16) [OF renewed_untimed [OF that]] that by (simp add: renewed_def)
  have finish: "wp (bind_op trusted_unix_millis (\<lambda>now_ms. bind_op (get_op sto_lifecycle) (\<lambda>lifecycle.
      persist_lifecycle (lifecycle\<lparr>lcr_last_world_event_sequence := q, lcr_last_world_event_hash := eh,
        lcr_last_world_state_hash := wh, lcr_next_production_occurrence := n, lcr_pending_world_commit := None,
        lcr_last_trusted_unix_ms := now_ms, lcr_updated_at_unix_ms := now_ms\<rparr>)))) ?Q ?E s2"
    if "journals_at s (?pending (sto_lifecycle s)) (?J @ [EventLine event]) bs h s2" "?boundary = Inr b" "?settled b bs h"
    for bs h b s2 q eh wh
  proof -
    have failed: "commit_reached ext json s event b s3"
      if "journals_at s (?pending (sto_lifecycle s)) (?J @ [EventLine event]) bs h s3" for s3
      using reached_pending [OF that, of b] \<open>?settled b bs h\<close> by (simp split: option.splits)
    show ?thesis
    proof (intro wp_bind wp_trusted_unix_millis wp_get_op)
      fix x c
      let ?s3 = "s2\<lparr>sto_clock := c, sto_last_trusted_unix_ms := x\<rparr>"
      have at: "journals_at s (?pending (sto_lifecycle s)) (?J @ [EventLine event]) bs h ?s3" using that(1) by simp
      show "wp (persist_lifecycle ((sto_lifecycle ?s3)\<lparr>lcr_last_world_event_sequence := q, lcr_last_world_event_hash := eh,
          lcr_last_world_state_hash := wh, lcr_next_production_occurrence := n, lcr_pending_world_commit := None,
          lcr_last_trusted_unix_ms := x, lcr_updated_at_unix_ms := x\<rparr>)) ?Q ?E ?s3"
        by (rule settle [OF at _ that(2,3)]) (use at in \<open>simp add: journals_at_def\<close>)
    next
      fix c e show "?E e (s2\<lparr>sto_clock := c\<rparr>)" using failed [of "s2\<lparr>sto_clock := c\<rparr>"] that by simp
    qed
  qed
  show ?thesis
    unfolding commit_world_event_def Let_def
    apply (rule wp_bind, rule wp_conseq [OF wp_verify_lease_plain])
     apply (intro wp_bind wp_get_op wp_guard_op wp_lift_op wp_trusted_unix_millis
          wp_conseq [OF wp_announce_journals [where ?s0.0 = s and p = "?pending (sto_lifecycle s)"]]
          wp_conseq [OF wp_append_journals [where ?s0.0 = s and p = "?pending (sto_lifecycle s)"
            and j = ?J and bs = ?B and h = ?H]])
    subgoal for _ s' by (simp add: unchanged)
    subgoal for _ s' using renewed_fields(3) [of s s'] by simp
    subgoal for _ s' using renewed_head [of s'] by simp
    subgoal for _ s' using renewed_head [of s'] by simp
    subgoal by simp
    subgoal for x s' y xa c xb s1 b xc s2
      apply (rule wp_conseq [OF boundary [of "sto_lifecycle s" s2 b]])
           apply assumption
          apply assumption
         apply (simp add: boundary_key_def bt_contains_def split: option.splits)
        apply (simp add: journals_at_def)
       apply (elim exE conjE)
       apply (rule finish)
         apply assumption
        apply assumption
       apply assumption
      apply assumption
      done

    subgoal for _ s' y now _ _ s1 b _ s2
      using reached_pending [of "sto_lifecycle s" ?B ?H s2 b]
      by (auto dest!: journals_untouched simp: boundary_key_def bt_contains_def split: option.splits)
    subgoal by (blast dest: journals_untouched)
    subgoal by (blast dest: journals_untouched)
    subgoal by blast
    subgoal using unchanged by simp
    using unchanged by blast+
qed

end
