(* ===== verification/WorldReplay.thy ===== *)
theory WorldReplay
  imports BoundaryRecovery
begin

text \<open>
  What replaying a journal accepts and yields: the loop over the journal as a condition on its
  fencing tokens and a fold over its events, loading from a snapshot against loading from
  genesis, and loading after a commit.
\<close>

section \<open>The loop as a fold\<close>

definition replay_event :: "replayer \<Rightarrow> canonical_event \<Rightarrow> world_view \<Rightarrow> persistence_error + world_view" where
  "replay_event rpl event w =
     (if evt_event_sequence event \<le> wv_event_sequence w then Inr w
      else map_err (Replay (evt_event_sequence event)) (apply_event rpl event w))"

definition replayable :: "store_state \<Rightarrow> canonical_event \<Rightarrow> bool" where
  "replayable s event \<longleftrightarrow> evt_schema_name event = EVENT_SCHEMA_NAME
     \<and> evt_schema_version event = EVENT_SCHEMA_VERSION \<and> event_binding_matches s event"

definition fence_admitted :: "u64 \<Rightarrow> u64 \<Rightarrow> u64 \<Rightarrow> canonical_event \<Rightarrow> bool" where
  "fence_admitted n f h event \<longleftrightarrow> evt_authority_fencing_token event \<noteq> 0 \<and> h \<le> evt_authority_fencing_token event
     \<and> (if evt_event_sequence event \<le> n then evt_authority_fencing_token event \<le> f
        else f \<le> evt_authority_fencing_token event)"

lemma fences_in_order_Cons:
  "fences_in_order n f h (event # events) \<longleftrightarrow>
     fence_admitted n f h event \<and> fences_in_order n f (evt_authority_fencing_token event) events"
  unfolding fences_in_order_def fence_admitted_def list.map sorted2 list.pred_inject by blast

lemma replay_journal_step:
  "replay_journal rpl s n f i (EventLine event # journal) h w = Inr r \<longleftrightarrow>
     replayable s event \<and> fence_admitted n f h event \<and>
     (\<exists>w1. replay_event rpl event w = Inr w1
        \<and> replay_journal rpl s n f (i + 1) journal (evt_authority_fencing_token event) w1 = Inr r)"
proof -
  let ?fence = "evt_authority_fencing_token event" and ?sequence = "evt_event_sequence event"
  let ?schema = "evt_schema_name event \<noteq> EVENT_SCHEMA_NAME \<or> evt_schema_version event \<noteq> EVENT_SCHEMA_VERSION"
  let ?order = "?fence = 0 \<or> ?fence < h"
  let ?side = "(?sequence \<le> n \<and> f < ?fence) \<or> (n < ?sequence \<and> ?fence < f)"
  have guards: "replayable s event \<and> fence_admitted n f h event \<longleftrightarrow>
      \<not> ?schema \<and> \<not> ?order \<and> \<not> ?side \<and> event_binding_matches s event"
    unfolding replayable_def fence_admitted_def by (auto simp: not_less not_le)
  show ?thesis
    unfolding replay_journal.simps Let_def conj_assoc [symmetric] guards
    by (cases ?schema; cases ?order; cases ?side; cases "event_binding_matches s event")
       (simp_all add: replay_event_def try_r_Inr_iff map_err_Inr_iff del: de_Morgan_disj)
qed

lemma replay_journal_iff:
  "replay_journal rpl s n f i journal h w = Inr (h', w') \<longleftrightarrow>
     readable journal \<and> list_all (replayable s) (journal_events journal)
     \<and> fences_in_order n f h (journal_events journal)
     \<and> h' = last (h # map evt_authority_fencing_token (journal_events journal))
     \<and> fold_r (replay_event rpl) (journal_events journal) w = Inr w'"
proof (induction journal arbitrary: i h w rule: journal_events.induct)
  case 1
  then show ?case by (simp add: fences_in_order_def) blast
next
  case (2 event journal)
  show ?case
    unfolding replay_journal_step 2 journal_events.simps fences_in_order_Cons readable.simps fold_r.simps
      list.pred_inject try_r_Inr_iff list.map last.simps list.distinct if_False
    by (cases "replay_event rpl event w") auto
qed simp_all

lemma load_world_iff:
  "load_world_before_lifecycle_reconciliation rpl s = Inr w \<longleftrightarrow>
     (let events = journal_events (sto_journal_file s) in
      \<exists>w0. load_snapshot rpl s = Inr w0
        \<and> readable (sto_journal_file s) \<and> list_all (replayable s) events
        \<and> fences_in_order (wv_event_sequence w0) (wv_fencing_token w0) 0 events
        \<and> fold_r (replay_event rpl) events w0 = Inr w
        \<and> wv_player_roster w = Inr () \<and> world_binding_matches s w
        \<and> wv_fencing_token w < sto_fencing_token s
        \<and> last (0 # map evt_authority_fencing_token events) < sto_fencing_token s)"
proof (cases "load_snapshot rpl s")
  case (Inr w0)
  let ?events = "journal_events (sto_journal_file s)"
  let ?replay = "replay_journal rpl s (wv_event_sequence w0) (wv_fencing_token w0) 0 (sto_journal_file s) 0 w0"
  have "load_world_before_lifecycle_reconciliation rpl s = Inr w \<longleftrightarrow>
      (\<exists>h. ?replay = Inr (h, w) \<and> wv_player_roster w = Inr () \<and> world_binding_matches s w
        \<and> wv_fencing_token w < sto_fencing_token s \<and> h < sto_fencing_token s)"
    unfolding load_world_before_lifecycle_reconciliation_def Inr
    by (cases ?replay) (auto simp: Let_def result_elims not_le split: prod.splits if_splits)
  then show ?thesis unfolding replay_journal_iff Let_def Inr by auto
qed (simp add: load_world_before_lifecycle_reconciliation_def Let_def)

section \<open>Journals without repeated events\<close>

lemma replayed_frontier:
  assumes "sorted_wrt (<) (wv_event_sequence w # map evt_event_sequence events)"
    and "fold_r (replay_event rpl) events w = Inr w'"
  shows "wv_event_sequence w' = last (wv_event_sequence w # map evt_event_sequence events)
    \<and> wv_fencing_token w' = last (wv_fencing_token w # map evt_authority_fencing_token events)"
  using assms
proof (induction events arbitrary: w)
  case (Cons event events)
  then have "\<not> evt_event_sequence event \<le> wv_event_sequence w" by (simp add: not_le)
  with Cons.prems(2) obtain w1 where
    w1: "apply_event rpl event w = Inr w1" "fold_r (replay_event rpl) events w1 = Inr w'"
    by (auto simp: try_r_Inr_iff map_err_Inr_iff replay_event_def [of rpl event w])
  from apply_event_Inr [OF w1(1)] Cons.IH [OF _ w1(2)] Cons.prems(1) show ?case by simp
qed simp

lemma replay_skipped:
  "list_all (\<lambda>event. evt_event_sequence event \<le> wv_event_sequence w) events \<Longrightarrow>
     fold_r (replay_event rpl) events w = Inr w"
  by (induction events) (simp_all add: replay_event_def)

lemma journal_events_append [simp]: "journal_events (j @ j') = journal_events j @ journal_events j'"
  by (induction j rule: journal_events.induct) simp_all

lemma readable_append [simp]: "readable (j @ j') \<longleftrightarrow> readable j \<and> readable j'"
  by (induction j rule: readable.induct) simp_all

text \<open>The fences of a journal are in order from its start exactly if they are from a prefix on.\<close>

lemma fences_from_prefix:
  fixes events later :: "canonical_event list"
  defines "n \<equiv> last (0 # map evt_event_sequence events)"
  assumes increasing: "sorted_wrt (<) (0 # map evt_event_sequence (events @ later))"
    and prefix: "fences_in_order 0 f 0 events"
    and fence: "f' = last (f # map evt_authority_fencing_token events)"
  shows "fences_in_order 0 f 0 (events @ later) \<longleftrightarrow> fences_in_order n f' 0 (events @ later)"
proof -
  let ?fence = evt_authority_fencing_token
  have early: "evt_event_sequence e \<noteq> 0 \<and> evt_event_sequence e \<le> n" if "e \<in> set events" for e
    unfolding n_def using increasing that
    by (intro conjI last_sorted_ge) (auto simp: sorted_wrt_append intro: sorted_wrt_mono_rel [where P = "(<)"])
  have late: "evt_event_sequence e \<noteq> 0 \<and> n < evt_event_sequence e" if "e \<in> set later" for e
    using increasing that by (cases events rule: rev_cases) (auto simp: n_def sorted_wrt_append)
  have sorted: "sorted_wrt (\<le>) (f # map ?fence events)"
    using prefix early by (auto simp: fences_in_order_def list_all_iff)
  have bounds: "?fence e \<le> f'" if "e \<in> set events" for e
    unfolding fence using sorted that by (intro last_sorted_ge) auto
  have least: "f \<le> f'" unfolding fence by (intro last_sorted_ge [OF sorted]) simp
  have between: "f' \<le> ?fence e" if "e \<in> set later" "fences_in_order 0 f 0 (events @ later)" for e
    using that late [OF that(1)] unfolding fence
    by (cases events rule: rev_cases) (auto simp: fences_in_order_def list_all_iff sorted_wrt_append)
  have split: "fences_in_order m g 0 (events @ later) \<longleftrightarrow>
      sorted_wrt (\<le>) (0 # map ?fence (events @ later)) \<and> (\<forall>e \<in> set (events @ later). ?fence e \<noteq> 0)
      \<and> (\<forall>e \<in> set events. if evt_event_sequence e \<le> m then ?fence e \<le> g else g \<le> ?fence e)
      \<and> (\<forall>e \<in> set later. if evt_event_sequence e \<le> m then ?fence e \<le> g else g \<le> ?fence e)" for m g
    unfolding fences_in_order_def list_all_iff by auto
  have "(\<forall>e \<in> set events. if evt_event_sequence e \<le> n then ?fence e \<le> f' else f' \<le> ?fence e)"
    using early bounds by simp
  moreover have "(\<forall>e \<in> set events. if evt_event_sequence e \<le> 0 then ?fence e \<le> f else f \<le> ?fence e)"
    using prefix by (simp add: fences_in_order_def list_all_iff)
  moreover have "(\<forall>e \<in> set later. if evt_event_sequence e \<le> n then ?fence e \<le> f' else f' \<le> ?fence e)
      \<longleftrightarrow> (\<forall>e \<in> set later. f' \<le> ?fence e)"
    using late by (simp add: not_le [symmetric])
  moreover have "(\<forall>e \<in> set later. if evt_event_sequence e \<le> 0 then ?fence e \<le> f else f \<le> ?fence e)
      \<longleftrightarrow> (\<forall>e \<in> set later. f \<le> ?fence e)"
    using late by simp
  ultimately show ?thesis
    unfolding split using between least order_trans [OF least] unfolding split by blast
qed

section \<open>Loading from a snapshot\<close>

lemma load_snapshot_of:
  assumes "rpl_hydrate rpl w = Inr w" and "world_binding_matches s w" and "wv_player_roster w = Inr ()"
  shows "load_snapshot rpl (s\<lparr>sto_snapshot_file := Some (snapshot_of w)\<rparr>) = Inr w"
  using assms by (simp add: load_snapshot_def snapshot_of_def world_binding_matches_def)

lemma load_genesis:
  assumes "sto_snapshot_file s = None"
  shows "load_snapshot rpl s = Inr w \<longleftrightarrow>
     rpl_genesis rpl (sto_world_seed s) (sto_cell_key s) = Inr w \<and> world_binding_matches s w"
  using assms by (auto simp: load_snapshot_def result_elims split: if_splits)

lemma replayable_frame [simp]:
  "replayable (s\<lparr>sto_snapshot_file := x\<rparr>) = replayable s" "replayable (s\<lparr>sto_journal_file := j\<rparr>) = replayable s"
  "world_binding_matches (s\<lparr>sto_snapshot_file := x\<rparr>) = world_binding_matches s"
  "world_binding_matches (s\<lparr>sto_journal_file := j\<rparr>) = world_binding_matches s"
  by (intro ext, simp add: replayable_def event_binding_matches_def world_binding_matches_def)+

lemma load_from_snapshot_iff:
  assumes none: "sto_snapshot_file s = None" and journal: "sto_journal_file s = J @ K"
    and prefix: "load_world_before_lifecycle_reconciliation rpl (s\<lparr>sto_journal_file := J\<rparr>) = Inr w"
    and hydrate: "rpl_hydrate rpl w = Inr w"
    and genesis: "\<And>w0. rpl_genesis rpl (sto_world_seed s) (sto_cell_key s) = Inr w0 \<Longrightarrow> wv_event_sequence w0 = 0"
    and increasing: "sorted_wrt (<) (0 # map evt_event_sequence (journal_events (J @ K)))"
  shows "load_world_before_lifecycle_reconciliation rpl (s\<lparr>sto_snapshot_file := Some (snapshot_of w)\<rparr>) = Inr w'
    \<longleftrightarrow> load_world_before_lifecycle_reconciliation rpl s = Inr w'"
proof -
  let ?J = "journal_events J" and ?K = "journal_events K"
  from prefix none obtain w0 where
    w0: "rpl_genesis rpl (sto_world_seed s) (sto_cell_key s) = Inr w0" "world_binding_matches s w0"
    and order: "fences_in_order (wv_event_sequence w0) (wv_fencing_token w0) 0 ?J"
    and fold: "fold_r (replay_event rpl) ?J w0 = Inr w"
    and w: "wv_player_roster w = Inr ()" "world_binding_matches s w"
    by (auto simp: load_world_iff load_genesis Let_def)
  have zero: "wv_event_sequence w0 = 0" by (rule genesis [OF w0(1)])
  have "sorted_wrt (<) (wv_event_sequence w0 # map evt_event_sequence ?J)"
    using increasing by (simp add: zero sorted_wrt_append)
  from replayed_frontier [OF this fold] have
    frontier: "wv_event_sequence w = last (0 # map evt_event_sequence ?J)"
      "wv_fencing_token w = last (wv_fencing_token w0 # map evt_authority_fencing_token ?J)"
    by (simp_all only: zero)
  have fences: "fences_in_order 0 (wv_fencing_token w0) 0 (?J @ ?K) \<longleftrightarrow>
      fences_in_order (wv_event_sequence w) (wv_fencing_token w) 0 (?J @ ?K)"
    unfolding frontier(1)
    by (rule fences_from_prefix [OF _ _ frontier(2)]) (use increasing order in \<open>simp_all add: zero\<close>)
  have "list_all (\<lambda>event. evt_event_sequence event \<le> wv_event_sequence w) ?J"
    unfolding frontier(1) list_all_iff using increasing
    by (intro ballI last_sorted_ge) (auto simp: sorted_wrt_append intro: sorted_wrt_mono_rel [where P = "(<)"])
  from replay_skipped [OF this] fold have
    same: "fold_r (replay_event rpl) (?J @ ?K) w0 = fold_r (replay_event rpl) (?J @ ?K) w"
    by (simp add: fold_r_append)
  have "load_snapshot rpl s = Inr w0" using w0 none by (simp add: load_genesis)
  with load_snapshot_of [OF hydrate w(2,1)] show ?thesis
    unfolding load_world_iff Let_def by (simp add: journal zero fences [unfolded zero] same)
qed

section \<open>Loading after a commit\<close>

lemma commit_token:
  assumes "commit_world_event ext json event state n s = (s', Inr ())"
  shows "evt_authority_fencing_token event = sto_fencing_token s"
proof -
  from assms obtain s1 where s1: "verify_live_lease_for_write s = (s1, Inr ())"
      "evt_authority_fencing_token event = sto_fencing_token s1"
    unfolding commit_world_event_def by (auto simp: bind_op_Inr op_simps split: if_splits)
  from wp_result(1) [OF wp_verify_lease_plain s1(1)] s1(2) show ?thesis by (simp add: renewed_def)
qed

lemma load_appended:
  assumes loaded: "load_world_before_lifecycle_reconciliation rpl s = Inr w"
    and event: "apply_event rpl event w = Inr w'" "evt_event_sequence event \<noteq> 0"
      "evt_authority_fencing_token event = sto_fencing_token s"
    and w': "wv_player_roster w' = Inr ()" "world_binding_matches s w'"
    and files: "sto_journal_file t = sto_journal_file s @ [EventLine event]" "sto_snapshot_file t = sto_snapshot_file s"
    and same: "sto_world_seed t = sto_world_seed s" "sto_cell_key t = sto_cell_key s" "sto_cell_id t = sto_cell_id s"
      "sto_manifest t = sto_manifest s"
    and newer: "sto_fencing_token s < sto_fencing_token t"
  shows "load_world_before_lifecycle_reconciliation rpl t = Inr w'"
proof -
  let ?events = "journal_events (sto_journal_file s)" and ?fence = evt_authority_fencing_token
  from loaded obtain w0 where w0: "load_snapshot rpl s = Inr w0" "readable (sto_journal_file s)"
      "list_all (replayable s) ?events" "fold_r (replay_event rpl) ?events w0 = Inr w"
    and order: "fences_in_order (wv_event_sequence w0) (wv_fencing_token w0) 0 ?events"
    and w: "world_binding_matches s w"
    and older: "wv_fencing_token w < sto_fencing_token s" "last (0 # map ?fence ?events) < sto_fencing_token s"
    unfolding load_world_iff Let_def by blast
  have at_least: "wv_event_sequence w0 \<le> wv_event_sequence v \<and> wv_fencing_token w0 \<le> wv_fencing_token v"
    if "fold_r (replay_event rpl) events w0 = Inr v" "set events \<subseteq> set ?events" for events v
    using that
  proof (induction events arbitrary: v rule: rev_induct)
    case (snoc e events)
    then obtain u where u: "fold_r (replay_event rpl) events w0 = Inr u" "replay_event rpl e u = Inr v"
      by (auto simp: fold_r_append result_elims)
    from snoc.IH [OF u(1)] snoc.prems(2) have
      ge: "wv_event_sequence w0 \<le> wv_event_sequence u" "wv_fencing_token w0 \<le> wv_fencing_token u" by simp_all
    show ?case
    proof (cases "evt_event_sequence e \<le> wv_event_sequence u")
      case False
      with u(2) have "apply_event rpl e u = Inr v" by (simp add: replay_event_def map_err_Inr_iff)
      note v = apply_event_Inr [OF this]
      have "e \<in> set ?events" "\<not> evt_event_sequence e \<le> wv_event_sequence w0"
        using snoc.prems(2) False ge(1) by auto
      with order have "wv_fencing_token w0 \<le> ?fence e" by (auto simp: fences_in_order_def list_all_iff)
      with v False ge(1) show ?thesis by simp
    qed (use u(2) ge in \<open>simp add: replay_event_def\<close>)
  qed simp
  from at_least [OF w0(4)] have ge: "wv_event_sequence w0 \<le> wv_event_sequence w" "wv_fencing_token w0 \<le> wv_fencing_token w"
    by simp_all
  note next_world = apply_event_Inr [OF event(1)]
  have later: "wv_event_sequence w < evt_event_sequence event"
    using applied_sequence [OF event(1,2)] by simp
  have sorted: "sorted_wrt (\<le>) (0 # map ?fence ?events)" using order by (simp add: fences_in_order_def)
  have "sorted_wrt (\<le>) (0 # map ?fence (?events @ [event]))"
    using sorted last_sorted_ge [OF sorted] older(2) event(3)
    by (fastforce simp: sorted_wrt_append intro: order.trans [OF _ order.strict_implies_order])
  moreover have "wv_fencing_token w0 \<le> ?fence event" "\<not> evt_event_sequence event \<le> wv_event_sequence w0"
      "?fence event \<noteq> 0"
    using ge older event(3) later by auto
  ultimately have "fences_in_order (wv_event_sequence w0) (wv_fencing_token w0) 0 (?events @ [event])"
    using order unfolding fences_in_order_def by simp
  moreover have "replayable t event"
    using event(1) w same unfolding apply_event_def replayable_def event_binding_matches_def world_binding_matches_def
    by (auto split: if_splits)
  moreover have "replayable t = replayable s" "world_binding_matches t = world_binding_matches s"
    by (intro ext, simp add: replayable_def event_binding_matches_def world_binding_matches_def same)+
  moreover have "load_snapshot rpl t = load_snapshot rpl s"
    unfolding load_snapshot_def files(2) same \<open>world_binding_matches t = world_binding_matches s\<close> ..
  moreover have "fold_r (replay_event rpl) (?events @ [event]) w0 = Inr w'"
    using w0(4) later event(1) by (simp add: fold_r_append replay_event_def not_le)
  ultimately show ?thesis
    using w0 w' files newer event(3) next_world(3) unfolding load_world_iff Let_def by simp
qed

end
