(* ===== verification/BoundaryProperties.thy ===== *)
theory BoundaryProperties
  imports BoundaryRecovery LifecycleScenario
begin

text \<open>The properties of the chain of transfer boundaries.\<close>

lemma commit_loadable:
  assumes "\<forall>bytes. valid_blake3_hex (ext_blake3_hex ext bytes)"
    and "boundaries_consistent ext json rpl s (sto_lifecycle s) n index scan"
    and "sto_lifecycle_file s = Some (sto_lifecycle s)" and "sto_boundaries s = bsc_committed scan"
    and "apply_event rpl event (bix_replay index) = Inr state" and "evt_event_sequence event \<noteq> 0"
    and "commit_world_event ext json event state next_occurrence s = (s', r)"
  shows "\<exists>l scan' missing. sto_lifecycle_file s' = Some l
    \<and> check_transfer_boundaries ext json rpl l s' = Inr (scan', missing)
    \<and> (\<forall>b. missing = Some b \<longrightarrow> sto_journal_file s' = sto_journal_file s @ [EventLine event]
         \<and> transfer_boundary_from_event event (wv_state_hash state) = Inr (Some b))"
proof -
  let ?done = "\<lambda>s' :: store_state. \<exists>l scan' missing. sto_lifecycle_file s' = Some l
    \<and> check_transfer_boundaries ext json rpl l s' = Inr (scan', missing)
    \<and> (\<forall>b. missing = Some b \<longrightarrow> sto_journal_file s' = sto_journal_file s @ [EventLine event]
         \<and> transfer_boundary_from_event event (wv_state_hash state) = Inr (Some b))"
  note valid = apply_event_Inr(5) [OF assms(5)]
  have untouched: "?done s''" if "commit_untouched s s''" for s''
    using that consistent_unchanged [OF assms(2), of s''] check_transfer_boundaries_None
    unfolding commit_untouched_def by (metis option.distinct(1))
  have reached: "?done s''"
    if b: "transfer_boundary_from_event event (wv_state_hash state) = Inr b" and "commit_reached ext json s event b s''"
    for b s''
  proof (cases b)
    case None
    with that(2) obtain l where l: "same_replay_start s s''" "sto_lifecycle_file s'' = Some l"
      "sto_journal_file s'' = sto_journal_file s @ [EventLine event]" "sto_boundary_file s'' = sto_boundary_file s"
      "lcr_transfer_boundary_head_hash l = lcr_transfer_boundary_head_hash (sto_lifecycle s)"
      by (auto simp: commit_reached_def Let_def)
    from check_transfer_boundaries_None [OF consistent_other_event [OF assms(2) l(1) valid assms(5,6)
        b [unfolded None] l(3-5)]] l(2) show ?thesis by blast
  next
    case (Some b')
    let ?H = "lcr_transfer_boundary_head_hash (sto_lifecycle s)"
    let ?b = "link_boundary ext json ?H b'"
    from that(2) Some obtain l where l: "same_replay_start s s''" "sto_lifecycle_file s'' = Some l"
      "sto_journal_file s'' = sto_journal_file s @ [EventLine event]"
      and fresh: "bt_get (sto_boundaries s) (boundary_key b') = None"
      and cases: "sto_boundary_file s'' = sto_boundary_file s \<and> lcr_transfer_boundary_head_hash l = ?H
          \<and> (\<exists>p. lcr_pending_world_commit l = Some p \<and> pwc_event_hash p = evt_event_hash event)
        \<or> sto_boundary_file s'' = sto_boundary_file s @ [?b]
          \<and> (lcr_transfer_boundary_head_hash l = dtb_boundary_hash ?b \<or> lcr_transfer_boundary_head_hash l = ?H
            \<and> (\<exists>p. lcr_pending_world_commit l = Some p \<and> pwc_event_sequence p = evt_event_sequence event
               \<and> pwc_event_hash p = evt_event_hash event))"
      unfolding commit_reached_def Let_def by auto
    have follows: "transfer_follows rpl index scan event b' state"
      using valid assms(4,5) b Some fresh by (simp add: transfer_follows_def)
    from cases show ?thesis
    proof
      assume c: "sto_boundary_file s'' = sto_boundary_file s \<and> lcr_transfer_boundary_head_hash l = ?H
          \<and> (\<exists>p. lcr_pending_world_commit l = Some p \<and> pwc_event_hash p = evt_event_hash event)"
      with transfer_without_boundary [OF assms(2) l(1) follows l(3), of l] l b Some show ?thesis by blast
    next
      assume c: "sto_boundary_file s'' = sto_boundary_file s @ [?b]
          \<and> (lcr_transfer_boundary_head_hash l = dtb_boundary_hash ?b \<or> lcr_transfer_boundary_head_hash l = ?H
            \<and> (\<exists>p. lcr_pending_world_commit l = Some p \<and> pwc_event_sequence p = evt_event_sequence event
               \<and> pwc_event_hash p = evt_event_hash event))"
      with transfer_with_boundary [OF _ assms(2) l(1) follows refl l(3), of l] assms(1) l(2) show ?thesis by blast
    qed
  qed
  from wp_commit_journals [OF assms(3), of ext json event state next_occurrence] assms(7) untouched reached
  show ?thesis by (cases r) (auto dest: wp_result)
qed

text \<open>
  C37: When the checks of an opening accept the boundary journal, it is a hash chain from the empty
  head: every boundary names the hash of the one before it and carries its own hash, and the
  event sequences increase. The head found is the hash of the last boundary.
\<close>

theorem accepted_boundaries_form_a_chain:
  assumes "check_transfer_boundaries ext json rpl lifecycle s = Inr (scan, missing)"
  shows "boundary_chain ext json [] 0 (sto_boundary_file s)
    \<and> bsc_observed_head scan = last ([] # map dtb_boundary_hash (sto_boundary_file s))"
proof -
  from assms obtain index where
    "fold_r (check_boundary ext json index (lcr_transfer_boundary_head_hash lifecycle)) (sto_boundary_file s)
       (scan_start (lcr_transfer_boundary_head_hash lifecycle)) = Inr scan"
    unfolding check_transfer_boundaries_def
    by (auto simp: Let_def try_r_Inr_iff split: prod.splits if_splits list.splits)
  from scan_chain [OF this] show ?thesis by (simp add: scan_start_def)
qed

text \<open>
  C32: However a commit is interrupted, the boundary journal can be loaded afterwards. Let the
  boundaries agree with the events and with the record before the commit, and let the world of the
  commit be the replayed world after its event. Then with any outcome of each write the checks of
  the next opening accept the files; nothing is missing, or exactly the boundary of the event
  whose line is in the journal already.
\<close>

theorem interrupted_commit_keeps_boundaries_loadable:
  assumes "\<forall>bytes. valid_blake3_hex (ext_blake3_hex ext bytes)"
    and "boundaries_consistent ext json rpl s (sto_lifecycle s) n index scan"
    and "sto_lifecycle_file s = Some (sto_lifecycle s)" and "sto_boundaries s = bsc_committed scan"
    and "apply_event rpl event (bix_replay index) = Inr state" and "evt_event_sequence event \<noteq> 0"
    and "commit_world_event ext json event state next_occurrence s = (s', r)"
  shows "\<exists>l scan' missing. sto_lifecycle_file s' = Some l
    \<and> check_transfer_boundaries ext json rpl l s' = Inr (scan', missing)
    \<and> (\<forall>b. missing = Some b \<longrightarrow> sto_journal_file s' = sto_journal_file s @ [EventLine event]
         \<and> transfer_boundary_from_event event (wv_state_hash state) = Inr (Some b))"
  using assms by (rule commit_loadable)

text \<open>A player is prepared for a transfer; the host stops before the boundary is written.\<close>

definition transfer_event :: canonical_event where
  "transfer_event = (event1 1)\<lparr>evt_payload := PlayerTransferPrepared
     \<lparr>pkv_transfer_id = ''transfer-1'', pkv_package_hash = some_hash, pkv_source_cell_id = ''cell'',
      pkv_destination_cell_id = ''other'', pkv_hash_is_valid = True\<rparr>\<rparr>"

text \<open>A replayer whose events only set the state hash.\<close>

definition replayer0 :: replayer where
  "replayer0 = \<lparr>rpl_genesis = (\<lambda>seed key. Inr (world0 0)), rpl_hydrate = Inr,
     rpl_effect = (\<lambda>event w. Inr (w\<lparr>wv_state_hash := evt_event_hash event\<rparr>))\<rparr>"

definition stopping_a :: store_state where
  "stopping_a = store_a\<lparr>sto_writes := [FileWritten, FileWritten, FileFailed (StoreIo ''boundaries'')]\<rparr>"

lemma transfer_scenario:
  defines "index \<equiv> \<lparr>bix_replay = world0 0, bix_events = bt_empty, bix_expected = bt_empty\<rparr>"
  assumes s: "s = store_a \<or> s = stopping_a"
  shows "\<forall>bytes. valid_blake3_hex (ext_blake3_hex store_externals bytes)"
    "boundaries_consistent store_externals (\<lambda>_. []) replayer0 s (sto_lifecycle s) 0 index (scan_start [])"
    "sto_lifecycle_file s = Some (sto_lifecycle s)" "sto_boundaries s = bsc_committed (scan_start [])"
    "apply_event replayer0 transfer_event (bix_replay index) = Inr (world1 1)"
    "evt_event_sequence transfer_event \<noteq> 0"
proof -
  have store: "sto_lifecycle_file store_a = Some (sto_lifecycle store_a)" "sto_boundaries store_a = bt_empty"
    "sto_snapshot_file store_a = None" "sto_journal_file store_a = []" "sto_boundary_file store_a = []"
    "lcr_transfer_boundary_head_hash (sto_lifecycle store_a) = []" "wv_event_sequence (world0 0) = 0"
    by code_simp+
  with s have same: "sto_lifecycle_file s = Some (sto_lifecycle s)" "sto_boundaries s = bt_empty"
    "sto_snapshot_file s = None" "sto_journal_file s = []" "sto_boundary_file s = []"
    "lcr_transfer_boundary_head_hash (sto_lifecycle s) = []"
    by (auto simp: stopping_a_def)
  show "\<forall>bytes. valid_blake3_hex (ext_blake3_hex store_externals bytes)"
    by (simp add: store_externals_def) code_simp
  show "boundaries_consistent store_externals (\<lambda>_. []) replayer0 s (sto_lifecycle s) 0 index (scan_start [])"
    by (simp add: boundaries_consistent_def boundary_replay_start_def same store index_def)
       (simp add: scan_start_def replayer0_def)
  show "apply_event replayer0 transfer_event (bix_replay index) = Inr (world1 1)"
    by (simp add: apply_event_def replayer0_def transfer_event_def event1_def world0_def world1_def index_def)
  show "evt_event_sequence transfer_event \<noteq> 0"
    by (simp add: transfer_event_def event1_def)
qed (use s in \<open>auto simp: scan_start_def stopping_a_def, code_simp+\<close>)

text \<open>The commit that is not interrupted leaves the chain of one boundary.\<close>

theorem accepted_boundaries_form_a_chain_witness:
  "boundary_chain store_externals (\<lambda>_. []) [] 0
     (sto_boundary_file (fst (commit_world_event store_externals (\<lambda>_. []) transfer_event (world1 1) None store_a)))"
  using commit_loadable [OF transfer_scenario [OF disjI1 [OF refl]] prod.collapse [symmetric]]
    accepted_boundaries_form_a_chain by blast

theorem interrupted_commit_keeps_boundaries_loadable_witness:
  "\<exists>l scan' missing. sto_lifecycle_file
        (fst (commit_world_event store_externals (\<lambda>_. []) transfer_event (world1 1) None stopping_a)) = Some l
    \<and> check_transfer_boundaries store_externals (\<lambda>_. []) replayer0 l
        (fst (commit_world_event store_externals (\<lambda>_. []) transfer_event (world1 1) None stopping_a)) = Inr (scan', missing)"
  using interrupted_commit_keeps_boundaries_loadable
    [OF transfer_scenario [OF disjI2 [OF refl]] prod.collapse [symmetric]] by blast

end
