(* ===== verification/RecoveryProperties.thy ===== *)
theory RecoveryProperties
  imports WorldReplay BoundaryProperties
begin

text \<open>The properties of loading the world of a cell again.\<close>

section \<open>The world\<close>

text \<open>
  C34: A snapshot replaces the part of the journal it was taken after. Let the journal up to some
  line load, from genesis, to the world \<open>w\<close>, and let the events of the whole journal have
  increasing sequence numbers. Then with a snapshot of \<open>w\<close> the whole journal loads to exactly the
  worlds it loads to without it.
\<close>

theorem snapshot_replaces_its_journal_prefix:
  assumes "sto_snapshot_file s = None" and "sto_journal_file s = J @ K"
    and "load_world_before_lifecycle_reconciliation rpl (s\<lparr>sto_journal_file := J\<rparr>) = Inr w"
    and "rpl_hydrate rpl w = Inr w"
    and "\<forall>w0. rpl_genesis rpl (sto_world_seed s) (sto_cell_key s) = Inr w0 \<longrightarrow> wv_event_sequence w0 = 0"
    and "sorted_wrt (<) (0 # map evt_event_sequence (journal_events (J @ K)))"
  shows "load_world_before_lifecycle_reconciliation rpl (s\<lparr>sto_snapshot_file := Some (snapshot_of w)\<rparr>) = Inr w'
    \<longleftrightarrow> load_world_before_lifecycle_reconciliation rpl s = Inr w'"
  by (rule load_from_snapshot_iff [OF assms(1-4) _ assms(6)]) (use assms(5) in blast)

text \<open>A second event.\<close>

definition event2 :: canonical_event where
  "event2 = (event1 2)\<lparr>evt_event_sequence := 2, evt_previous_event_hash := other_hash, evt_event_hash := some_hash\<rparr>"

definition world2 :: world_view where
  "world2 = (world1 2)\<lparr>wv_event_sequence := 2, wv_last_event_hash := some_hash, wv_state_hash := some_hash\<rparr>"

definition store_c :: store_state where
  "store_c = blank_store\<lparr>sto_journal_file := [EventLine (event1 1), EventLine event2], sto_fencing_token := 3\<rparr>"

lemma store_c_binding:
  "world_binding_matches store_c (world0 0)" "world_binding_matches store_c (world1 1)"
  "world_binding_matches store_c world2"
  by code_simp+

lemma apply_event1: "apply_event replayer0 (event1 1) (world0 0) = Inr (world1 1)"
  by (simp add: apply_event_def replayer0_def event1_def world0_def world1_def)

lemma apply_event2: "apply_event replayer0 event2 (world1 1) = Inr world2"
  by (simp add: apply_event_def replayer0_def event1_def event2_def world0_def world1_def world2_def)

theorem snapshot_replaces_its_journal_prefix_witness:
  "load_world_before_lifecycle_reconciliation replayer0 (store_c\<lparr>sto_snapshot_file := Some (snapshot_of (world1 1))\<rparr>)
    = Inr world2"
proof -
  have fields: "evt_event_sequence (event1 1) = 1" "evt_authority_fencing_token (event1 1) = 1"
    "evt_event_sequence event2 = 2" "evt_authority_fencing_token event2 = 2"
    "wv_event_sequence (world0 0) = 0" "wv_event_sequence (world1 1) = 1" "wv_fencing_token (world0 0) = 0"
    "wv_fencing_token (world1 1) = 1" "wv_fencing_token world2 = 2" "wv_player_roster world2 = Inr ()"
    "wv_player_roster (world1 1) = Inr ()" "replayable store_c (event1 1)" "replayable store_c event2" "\<not> (2 :: u64) \<le> 1"
    by code_simp+
  have store: "sto_snapshot_file store_c = None" "sto_journal_file store_c = [EventLine (event1 1), EventLine event2]"
    "sto_fencing_token store_c = 3"
    by (simp_all add: store_c_def blank_store_def)
  have start: "load_snapshot replayer0 store_c = Inr (world0 0)"
    "load_snapshot replayer0 (store_c\<lparr>sto_journal_file := j\<rparr>) = Inr (world0 0)" for j
    using store_c_binding(1) store(1) by (simp_all add: load_genesis) (simp_all add: replayer0_def)
  have prefix: "load_world_before_lifecycle_reconciliation replayer0
      (store_c\<lparr>sto_journal_file := [EventLine (event1 1)]\<rparr>) = Inr (world1 1)"
    unfolding load_world_iff Let_def
    by (simp add: fields store start store_c_binding apply_event1 replay_event_def fences_in_order_def)
  have all: "load_world_before_lifecycle_reconciliation replayer0 store_c = Inr world2"
    unfolding load_world_iff Let_def
    by (simp add: fields store start store_c_binding apply_event1 apply_event2 replay_event_def fences_in_order_def)
  show ?thesis
    using snapshot_replaces_its_journal_prefix [of store_c "[EventLine (event1 1)]" "[EventLine event2]" replayer0
        "world1 1" world2] prefix all
    by (simp add: store fields) (simp add: replayer0_def world0_def)
qed



end
