(* ===== verification/OperationHistory.thy ===== *)
theory OperationHistory
  imports Celestial
begin

text \<open>
  The operations of each player that a cell remembers (\<open>crates/verse-simulation/src/model.rs\<close>): the
  attempt of a client is compared with them, a committed operation is appended, and when the retained
  suffix crosses its bounds the oldest records are folded into a hash.
\<close>

section \<open>Records\<close>

record intent_receipt =
  rcp_operation_sequence :: u64
  rcp_operation_id :: string
  rcp_event_sequence :: u64
  rcp_code :: string
  rcp_message :: string

record processed_operation_record =
  por_operation_id :: string
  por_intent_fingerprint :: string
  por_receipt_origin_cell_id :: string
  por_receipt :: intent_receipt

record actor_operation_history =
  aoh_committed_through :: u64
  aoh_compacted_through :: u64
  aoh_compacted_history_hash :: string
  aoh_retained :: "(u64, processed_operation_record) btree_map"

definition new_history :: actor_operation_history where
  "new_history = \<lparr>aoh_committed_through = 0, aoh_compacted_through = 0, aoh_compacted_history_hash = [],
     aoh_retained = bt_empty\<rparr>"

type_synonym operation_histories = "(string, actor_operation_history) btree_map"

definition PROCESSED_OPERATION_RETENTION_LIMIT :: nat where "PROCESSED_OPERATION_RETENTION_LIMIT = 128"
definition PROCESSED_OPERATION_RETAINED_BYTES_LIMIT :: nat where "PROCESSED_OPERATION_RETAINED_BYTES_LIMIT = 131072"
definition PROCESSED_OPERATION_RECORD_BYTES_LIMIT :: nat where "PROCESSED_OPERATION_RECORD_BYTES_LIMIT = 4096"

text \<open>
  The lengths of the JSON texts of a record and of a retained map, the BLAKE3 hash of the compaction
  material, and whether a text is blank after Unicode trimming.
\<close>

record history_codec =
  hcd_record_bytes :: "processed_operation_record \<Rightarrow> nat"
  hcd_retained_bytes :: "(u64, processed_operation_record) btree_map \<Rightarrow> nat"
  hcd_compaction_hash :: "string \<Rightarrow> u64 \<Rightarrow> processed_operation_record \<Rightarrow> string"
  hcd_blank :: "string \<Rightarrow> bool"

text \<open>An empty map is the text of two braces, and hashes print as 64 hexadecimal digits.\<close>

definition codec_documented :: "history_codec \<Rightarrow> bool" where
  "codec_documented codec \<longleftrightarrow> hcd_retained_bytes codec bt_empty \<le> PROCESSED_OPERATION_RETAINED_BYTES_LIMIT
     \<and> (\<forall>h n r. valid_blake3_hex (hcd_compaction_hash codec h n r))"

section \<open>Compaction\<close>

definition operation_history_crosses_retention_bound :: "history_codec \<Rightarrow> actor_operation_history \<Rightarrow> bool" where
  "operation_history_crosses_retention_bound codec history =
     (PROCESSED_OPERATION_RETENTION_LIMIT < bt_len (aoh_retained history)
      \<or> PROCESSED_OPERATION_RETAINED_BYTES_LIMIT < hcd_retained_bytes codec (aoh_retained history)
      \<or> list_ex (\<lambda>r. PROCESSED_OPERATION_RECORD_BYTES_LIMIT < hcd_record_bytes codec r)
          (bt_values (aoh_retained history)))"

definition compact_first :: "history_codec \<Rightarrow> u64 \<Rightarrow> processed_operation_record \<Rightarrow> actor_operation_history \<Rightarrow>
    actor_operation_history" where
  "compact_first codec sequence r history =
     history\<lparr>aoh_compacted_history_hash := hcd_compaction_hash codec (aoh_compacted_history_hash history) sequence r,
             aoh_retained := bt_remove sequence (aoh_retained history),
             aoh_compacted_through := sequence\<rparr>"

lemma bt_remove_first:
  assumes "bt_entries m = (k, v) # rest"
  shows "bt_entries (bt_remove k m) = rest"
proof -
  have "k \<notin> fst ` set rest" using bt_distinct_keys [of m] assms by auto
  then have "filter (\<lambda>(a, _). a \<noteq> k) rest = rest"
    by (intro filter_True) (auto simp: image_iff split: prod.splits)
  with assms show ?thesis by (simp add: bt_remove.rep_eq)
qed

text \<open>The loop; an empty history that crosses the bounds would make the source panic.\<close>

function compact_history :: "history_codec \<Rightarrow> actor_operation_history \<Rightarrow> actor_operation_history" where
  "compact_history codec history =
     (if \<not> operation_history_crosses_retention_bound codec history then history
      else case bt_entries (aoh_retained history) of
        [] \<Rightarrow> history
      | (sequence, r) # _ \<Rightarrow> compact_history codec (compact_first codec sequence r history))"
  by pat_completeness auto

termination
  by (relation "measure (\<lambda>(codec, history). bt_len (aoh_retained history))")
     (auto simp: compact_first_def bt_len_def bt_remove_first)

declare compact_history.simps [simp del]

section \<open>Recording an operation\<close>

definition record_processed_operation ::
    "history_codec \<Rightarrow> string \<Rightarrow> u64 \<Rightarrow> string \<Rightarrow> processed_operation_record \<Rightarrow> operation_histories \<Rightarrow>
     string + operation_histories" where
  "record_processed_operation codec cid event_sequence actor_player_id r histories =
     (if hcd_blank codec (por_operation_id r)
         \<or> 128 < length (por_operation_id r)
         \<or> \<not> valid_blake3_hex (por_intent_fingerprint r)
         \<or> \<not> valid_blake3_hex (por_receipt_origin_cell_id r)
         \<or> rcp_operation_id (por_receipt r) \<noteq> por_operation_id r
         \<or> rcp_event_sequence (por_receipt r) = 0
         \<or> (por_receipt_origin_cell_id r = cid \<and> event_sequence < rcp_event_sequence (por_receipt r))
         \<or> hcd_blank codec (rcp_code (por_receipt r))
      then Inl ''processed operation record identity is invalid''
      else
      let history = (case bt_get histories actor_player_id of None \<Rightarrow> new_history | Some h \<Rightarrow> h) in
      try_r (ok_or (checked_add (aoh_committed_through history) 1) ''operation sequence space is exhausted'') (\<lambda>expected.
      if rcp_operation_sequence (por_receipt r) \<noteq> expected
      then Inl ''operation sequence does not match expected''
      else if list_ex (\<lambda>prior. por_receipt_origin_cell_id prior = por_receipt_origin_cell_id r
                \<and> rcp_event_sequence (por_receipt r) \<le> rcp_event_sequence (por_receipt prior))
              (bt_values (aoh_retained history))
      then Inl ''processed operation receipt event sequences must advance monotonically within each origin cell''
      else
      Inr (bt_insert actor_player_id
             (compact_history codec (history\<lparr>aoh_committed_through := expected,
                aoh_retained := bt_insert expected r (aoh_retained history)\<rparr>)) histories)))"

section \<open>Attempts\<close>

text \<open>The codes of \<open>validate_operation_attempt\<close>; a receipt answers an operation that is retained.\<close>

definition validate_operation_attempt ::
    "operation_histories \<Rightarrow> string \<Rightarrow> u64 \<Rightarrow> string \<Rightarrow> string + intent_receipt option" where
  "validate_operation_attempt histories actor_player_id operation_sequence intent_fingerprint =
     (if operation_sequence = 0 then Inl ''operation_sequence_invalid''
      else case bt_get histories actor_player_id of
        None \<Rightarrow> if operation_sequence = 1 then Inr None else Inl ''operation_sequence_gap''
      | Some history \<Rightarrow>
          if operation_sequence \<le> aoh_compacted_through history then Inl ''operation_already_committed''
          else case bt_get (aoh_retained history) operation_sequence of
            Some r \<Rightarrow>
              if por_intent_fingerprint r = intent_fingerprint then Inr (Some (por_receipt r))
              else Inl ''operation_conflict''
          | None \<Rightarrow>
              if operation_sequence \<le> aoh_committed_through history then Inl ''operation_history_invalid''
              else try_r (ok_or (checked_add (aoh_committed_through history) 1) ''operation_sequence_exhausted'') (\<lambda>expected.
              if operation_sequence \<noteq> expected then Inl ''operation_sequence_gap''
              else Inr None))"

section \<open>Validation\<close>

text \<open>The loop over the retained records: the sequence before and the last receipt of each cell.\<close>

fun validate_retained ::
    "history_codec \<Rightarrow> string \<Rightarrow> u64 \<Rightarrow> (u64 \<times> processed_operation_record) list \<Rightarrow> u64 \<Rightarrow>
     (string, u64) btree_map \<Rightarrow> string + u64" where
  "validate_retained codec cid event_sequence [] last_seen last_receipts = Inr last_seen"
| "validate_retained codec cid event_sequence ((operation_sequence, r) # rest) last_seen last_receipts =
     try_r (ok_or (checked_add last_seen 1) ''operation history cannot advance beyond u64::MAX'') (\<lambda>expected_sequence.
     if operation_sequence \<noteq> expected_sequence
        \<or> hcd_blank codec (por_operation_id r)
        \<or> 128 < length (por_operation_id r)
        \<or> \<not> valid_blake3_hex (por_intent_fingerprint r)
        \<or> \<not> valid_blake3_hex (por_receipt_origin_cell_id r)
        \<or> PROCESSED_OPERATION_RECORD_BYTES_LIMIT < hcd_record_bytes codec r
        \<or> rcp_operation_sequence (por_receipt r) \<noteq> operation_sequence
        \<or> rcp_operation_id (por_receipt r) \<noteq> por_operation_id r
        \<or> rcp_event_sequence (por_receipt r) = 0
        \<or> (case bt_get last_receipts (por_receipt_origin_cell_id r) of None \<Rightarrow> False
           | Some prior \<Rightarrow> rcp_event_sequence (por_receipt r) \<le> prior)
        \<or> (por_receipt_origin_cell_id r = cid \<and> event_sequence < rcp_event_sequence (por_receipt r))
        \<or> hcd_blank codec (rcp_code (por_receipt r))
     then Inl ''processed operations must form one bounded contiguous suffix''
     else validate_retained codec cid event_sequence rest operation_sequence
            (bt_insert (por_receipt_origin_cell_id r) (rcp_event_sequence (por_receipt r)) last_receipts))"

definition validate_operation_history :: "history_codec \<Rightarrow> string \<Rightarrow> u64 \<Rightarrow> actor_operation_history \<Rightarrow> string + unit" where
  "validate_operation_history codec cid event_sequence history =
     (if aoh_committed_through history = 0
         \<or> aoh_committed_through history < aoh_compacted_through history
         \<or> PROCESSED_OPERATION_RETENTION_LIMIT < bt_len (aoh_retained history)
         \<or> PROCESSED_OPERATION_RETAINED_BYTES_LIMIT < hcd_retained_bytes codec (aoh_retained history)
         \<or> (aoh_compacted_through history = 0 \<and> aoh_compacted_history_hash history \<noteq> [])
         \<or> (0 < aoh_compacted_through history \<and> \<not> valid_blake3_hex (aoh_compacted_history_hash history))
      then Inl ''operation history bounds and commitment must remain canonical''
      else
      try_r (validate_retained codec cid event_sequence (bt_entries (aoh_retained history))
               (aoh_compacted_through history) bt_empty) (\<lambda>last_seen.
      if last_seen \<noteq> aoh_committed_through history
      then Inl ''retained operation history must cover the contiguous uncompacted suffix''
      else Inr ()))"

end
