(* ===== verification/OperationProperties.thy ===== *)
theory OperationProperties
  imports OperationHistory "HOL-Library.Code_Target_Nat"
begin

text \<open>The histories of operations stay canonical, bounded and answer every repeated attempt.\<close>

section \<open>What validation accepts\<close>

definition record_ok :: "history_codec \<Rightarrow> string \<Rightarrow> u64 \<Rightarrow> u64 \<times> processed_operation_record \<Rightarrow> bool" where
  "record_ok codec cid n = (\<lambda>(k, r). \<not> hcd_blank codec (por_operation_id r) \<and> length (por_operation_id r) \<le> 128
     \<and> valid_blake3_hex (por_intent_fingerprint r) \<and> valid_blake3_hex (por_receipt_origin_cell_id r)
     \<and> rcp_operation_sequence (por_receipt r) = k \<and> rcp_operation_id (por_receipt r) = por_operation_id r
     \<and> rcp_event_sequence (por_receipt r) \<noteq> 0
     \<and> (por_receipt_origin_cell_id r = cid \<longrightarrow> rcp_event_sequence (por_receipt r) \<le> n)
     \<and> \<not> hcd_blank codec (rcp_code (por_receipt r)))"

definition receipts_advance :: "u64 \<times> processed_operation_record \<Rightarrow> u64 \<times> processed_operation_record \<Rightarrow> bool" where
  "receipts_advance a b \<longleftrightarrow> (por_receipt_origin_cell_id (snd a) = por_receipt_origin_cell_id (snd b) \<longrightarrow>
     rcp_event_sequence (por_receipt (snd a)) < rcp_event_sequence (por_receipt (snd b)))"

definition after_receipts :: "(string, u64) btree_map \<Rightarrow> u64 \<times> processed_operation_record \<Rightarrow> bool" where
  "after_receipts receipts e \<longleftrightarrow> (\<forall>n. bt_get receipts (por_receipt_origin_cell_id (snd e)) = Some n \<longrightarrow>
     n < rcp_event_sequence (por_receipt (snd e)))"

definition small_record :: "history_codec \<Rightarrow> u64 \<times> processed_operation_record \<Rightarrow> bool" where
  "small_record codec e \<longleftrightarrow> hcd_record_bytes codec (snd e) \<le> PROCESSED_OPERATION_RECORD_BYTES_LIMIT"

fun contiguous :: "u64 \<Rightarrow> u64 list \<Rightarrow> u64 \<Rightarrow> bool" where
  "contiguous previous [] latest = (latest = previous)"
| "contiguous previous (k # ks) latest = (unat k = unat previous + 1 \<and> contiguous k ks latest)"

lemma validate_retained_iff:
  "validate_retained codec cid n es previous receipts = Inr last_seen \<longleftrightarrow>
     contiguous previous (map fst es) last_seen \<and> list_all (record_ok codec cid n) es \<and> list_all (small_record codec) es
     \<and> sorted_wrt receipts_advance es \<and> list_all (after_receipts receipts) es"
proof (induction es arbitrary: previous receipts)
  case (Cons e es)
  obtain k r where e: "e = (k, r)" by (cases e)
  let ?origin = "por_receipt_origin_cell_id r" and ?sequence = "rcp_event_sequence (por_receipt r)"
  have step: "validate_retained codec cid n (e # es) previous receipts = Inr last_seen \<longleftrightarrow>
      unat k = unat previous + 1 \<and> record_ok codec cid n e \<and> small_record codec e \<and> after_receipts receipts e
      \<and> validate_retained codec cid n es k (bt_insert ?origin ?sequence receipts) = Inr last_seen"
  proof (cases "checked_add previous 1")
    case None
    then have "unat k \<noteq> unat previous + 1" using checked_add_Some_iff [of previous 1 k] by auto
    with None show ?thesis by (simp add: e)
  next
    case (Some expected)
    then have expected: "k = expected \<longleftrightarrow> unat k = unat previous + 1"
      using checked_add_Some_iff [of previous 1 k] by auto
    have receipts: "(case bt_get receipts ?origin of None \<Rightarrow> False | Some prior \<Rightarrow> ?sequence \<le> prior)
        \<longleftrightarrow> \<not> after_receipts receipts e"
      by (simp add: after_receipts_def e not_less split: option.splits)
    show ?thesis
      unfolding expected [symmetric]
      by (simp add: e Some record_ok_def small_record_def receipts [unfolded e] not_less result_elims) auto
  qed
  have tail: "list_all (after_receipts (bt_insert ?origin ?sequence receipts)) es \<longleftrightarrow>
      list_all (after_receipts receipts) es \<and> (\<forall>x \<in> set es. receipts_advance e x)"
    if "after_receipts receipts e"
    using that unfolding list_all_iff after_receipts_def receipts_advance_def e
    by (auto split: if_splits dest: less_trans)
  show ?case
  proof (cases "after_receipts receipts e")
    case True
    show ?thesis unfolding step Cons.IH tail [OF True] using True by (auto simp: e)
  next
    case False
    then show ?thesis unfolding step by simp
  qed
qed (auto simp: contiguous.simps)

text \<open>Everything but the bounds.\<close>

definition history_chain :: "history_codec \<Rightarrow> string \<Rightarrow> u64 \<Rightarrow> actor_operation_history \<Rightarrow> bool" where
  "history_chain codec cid n h \<longleftrightarrow>
     contiguous (aoh_compacted_through h) (bt_keys (aoh_retained h)) (aoh_committed_through h)
     \<and> list_all (record_ok codec cid n) (bt_entries (aoh_retained h))
     \<and> sorted_wrt receipts_advance (bt_entries (aoh_retained h))
     \<and> (if aoh_compacted_through h = 0 then aoh_compacted_history_hash h = []
        else valid_blake3_hex (aoh_compacted_history_hash h))"

lemma contiguous_le: "contiguous a ks b \<Longrightarrow> a \<le> b"
proof (induction ks arbitrary: a)
  case (Cons k ks)
  then have "unat a \<le> unat k" "k \<le> b" by simp_all
  then show ?case by (simp add: word_le_nat_alt)
qed simp

lemma history_ok_iff:
  "validate_operation_history codec cid n h = Inr () \<longleftrightarrow> aoh_committed_through h \<noteq> 0 \<and> history_chain codec cid n h
     \<and> \<not> operation_history_crosses_retention_bound codec h"
proof -
  have "list_ex (\<lambda>r. PROCESSED_OPERATION_RECORD_BYTES_LIMIT < hcd_record_bytes codec r) (bt_values (aoh_retained h))
      \<longleftrightarrow> \<not> list_all (small_record codec) (bt_entries (aoh_retained h))"
    by (fastforce simp: list_ex_iff list_all_iff small_record_def bt_values_def not_le)
  then show ?thesis
    unfolding validate_operation_history_def history_chain_def operation_history_crosses_retention_bound_def
    by (auto simp: result_elims validate_retained_iff bt_keys_def after_receipts_def list_all_iff not_less
        word_gt_0 dest: contiguous_le)
qed

section \<open>Compaction\<close>

lemma compact_chain:
  assumes "codec_documented codec" and "history_chain codec cid n h"
    and "bt_entries (aoh_retained h) = (sequence, r) # rest"
  shows "history_chain codec cid n (compact_first codec sequence r h)"
proof -
  from assms(2,3) have "unat sequence = unat (aoh_compacted_through h) + 1" by (simp add: history_chain_def bt_keys_def)
  then have "sequence \<noteq> 0" by auto
  with assms show ?thesis
    by (simp add: history_chain_def compact_first_def bt_keys_def bt_remove_first codec_documented_def)
qed

lemma compact_history_chain:
  assumes "codec_documented codec" and "history_chain codec cid n h"
  shows "history_chain codec cid n (compact_history codec h)"
  using assms
proof (induction codec h rule: compact_history.induct)
  case (1 codec h)
  show ?case
  proof (cases "operation_history_crosses_retention_bound codec h \<and> bt_entries (aoh_retained h) \<noteq> []")
    case True
    then obtain sequence r rest where entries: "bt_entries (aoh_retained h) = (sequence, r) # rest"
      by (metis list.exhaust surj_pair)
    from "1.IH" [OF _ entries refl] True compact_chain [OF _ _ entries] have
      "history_chain codec cid n (compact_history codec (compact_first codec sequence r h))"
      using "1.prems" by simp
    with True entries show ?thesis by (subst compact_history.simps) simp
  next
    case False
    with "1.prems" show ?thesis by (subst compact_history.simps) (auto split: list.splits)
  qed
qed

lemma compact_history_ends:
  assumes "codec_documented codec"
  shows "\<not> operation_history_crosses_retention_bound codec (compact_history codec h)"
  using assms
proof (induction codec h rule: compact_history.induct)
  case (1 codec h)
  have "\<not> operation_history_crosses_retention_bound codec h" if "bt_entries (aoh_retained h) = []"
  proof -
    have "aoh_retained h = bt_empty" using that by (simp add: bt_entries_inject [symmetric])
    with 1(2) show ?thesis
      by (simp add: operation_history_crosses_retention_bound_def codec_documented_def bt_len_def bt_values_def)
  qed
  with 1 show ?case by (subst compact_history.simps) (auto split: list.splits)
qed

lemma compact_history_fields [simp]: "aoh_committed_through (compact_history codec h) = aoh_committed_through h"
  by (induction codec h rule: compact_history.induct)
     (subst compact_history.simps, auto simp: compact_first_def split: list.splits)

lemma compaction_keeps:
  "\<exists>k. bt_entries (aoh_retained (compact_history codec h)) = drop k (bt_entries (aoh_retained h))
     \<and> (\<forall>j m. j < k \<longrightarrow> bt_entries m = drop j (bt_entries (aoh_retained h)) \<longrightarrow>
          operation_history_crosses_retention_bound codec (h\<lparr>aoh_retained := m\<rparr>))"
proof (induction codec h rule: compact_history.induct)
  case (1 codec h)
  show ?case (is "?kept h")
  proof (cases "operation_history_crosses_retention_bound codec h \<and> bt_entries (aoh_retained h) \<noteq> []")
    case False
    then have "compact_history codec h = h" by (subst compact_history.simps) (auto split: list.splits)
    then show ?thesis by (intro exI [of _ 0]) simp
  next
    case True
    then obtain sequence r rest where entries: "bt_entries (aoh_retained h) = (sequence, r) # rest"
      by (metis list.exhaust surj_pair)
    let ?h = "compact_first codec sequence r h"
    have same: "operation_history_crosses_retention_bound codec (?h\<lparr>aoh_retained := m\<rparr>)
        = operation_history_crosses_retention_bound codec (h\<lparr>aoh_retained := m\<rparr>)" for m
      by (simp add: operation_history_crosses_retention_bound_def)
    have retained: "bt_entries (aoh_retained ?h) = rest"
      using bt_remove_first [OF entries] by (simp add: compact_first_def)
    from 1 [OF _ entries refl] True entries obtain k where
      k: "bt_entries (aoh_retained (compact_history codec ?h)) = drop k rest"
        "\<forall>j m. j < k \<longrightarrow> bt_entries m = drop j rest \<longrightarrow>
           operation_history_crosses_retention_bound codec (h\<lparr>aoh_retained := m\<rparr>)"
      unfolding same retained by auto
    have "compact_history codec h = compact_history codec ?h"
      using True entries by (subst compact_history.simps) simp
    moreover have "operation_history_crosses_retention_bound codec (h\<lparr>aoh_retained := m\<rparr>)"
      if "j < Suc k" "bt_entries m = drop j (bt_entries (aoh_retained h))" for j m
    proof (cases j)
      case 0
      with that entries have "m = aoh_retained h" by (simp add: bt_entries_inject [symmetric])
      with True show ?thesis by simp
    next
      case (Suc j')
      with that k(2) entries show ?thesis by simp
    qed
    ultimately show ?thesis using k(1) entries by (intro exI [of _ "Suc k"]) simp
  qed
qed

lemma compaction_suffix:
  "\<exists>k. bt_entries (aoh_retained (compact_history codec h)) = drop k (bt_entries (aoh_retained h))"
  using compaction_keeps by blast

text \<open>
  C17: The compaction loop ends within the bounds on the number of records, on their total size and on the
  size of each, and it drops no more than it must: what stays is a suffix of the history, and with
  one record more the bounds would still be crossed.
\<close>

theorem compaction_keeps_longest_suffix:
  assumes "codec_documented codec"
  shows "\<not> operation_history_crosses_retention_bound codec (compact_history codec h)
    \<and> (\<exists>k. bt_entries (aoh_retained (compact_history codec h)) = drop k (bt_entries (aoh_retained h))
       \<and> (\<forall>j m. j < k \<longrightarrow> bt_entries m = drop j (bt_entries (aoh_retained h)) \<longrightarrow>
            operation_history_crosses_retention_bound codec (h\<lparr>aoh_retained := m\<rparr>)))"
  using compact_history_ends [OF assms] compaction_keeps by blast

section \<open>Recording\<close>

definition histories_valid :: "history_codec \<Rightarrow> string \<Rightarrow> u64 \<Rightarrow> operation_histories \<Rightarrow> bool" where
  "histories_valid codec cid n histories \<longleftrightarrow>
     (\<forall>actor h. bt_get histories actor = Some h \<longrightarrow> validate_operation_history codec cid n h = Inr ())"

lemma contiguous_snoc: "contiguous a (ks @ [k]) b \<longleftrightarrow> (\<exists>c. contiguous a ks c \<and> unat k = unat c + 1) \<and> k = b"
  by (induction ks arbitrary: a) auto

lemma contiguous_bound: "contiguous a ks b \<Longrightarrow> k \<in> set ks \<Longrightarrow> a < k \<and> k \<le> b"
proof (induction ks arbitrary: a)
  case (Cons k' ks)
  then have "a < k'" "k' \<le> b" by (auto simp: word_less_nat_alt dest: contiguous_le)
  with Cons show ?case by (auto intro: less_trans)
qed simp

lemma contiguous_mem: "contiguous a ks b \<Longrightarrow> a < k \<Longrightarrow> k \<le> b \<Longrightarrow> k \<in> set ks"
proof (induction ks arbitrary: a)
  case (Cons k' ks)
  show ?case
  proof (cases "k = k'")
    case False
    with Cons.prems have "k' < k" by (simp add: word_less_nat_alt) (metis Suc_lessI word_unat_eq_iff)
    with Cons.IH [of k'] Cons.prems show ?thesis by simp
  qed simp
qed auto

text \<open>The actor's history before compaction.\<close>

lemma record_chain:
  assumes valid: "histories_valid codec cid n histories"
    and recorded: "record_processed_operation codec cid n actor r histories = Inr histories'"
  shows "\<exists>h. histories' = bt_insert actor (compact_history codec h) histories \<and> history_chain codec cid n h
    \<and> aoh_committed_through h \<noteq> 0 \<and> aoh_committed_through h = rcp_operation_sequence (por_receipt r)
    \<and> bt_get (aoh_retained h) (aoh_committed_through h) = Some r"
proof -
  define h0 where "h0 = (case bt_get histories actor of None \<Rightarrow> new_history | Some h \<Rightarrow> h)"
  from recorded obtain expected where
    r: "record_ok codec cid n (expected, r)" "rcp_operation_sequence (por_receipt r) = expected"
    and expected: "checked_add (aoh_committed_through h0) 1 = Some expected"
    and fresh: "\<forall>prior \<in> set (bt_values (aoh_retained h0)).
      por_receipt_origin_cell_id prior = por_receipt_origin_cell_id r \<longrightarrow>
      rcp_event_sequence (por_receipt prior) < rcp_event_sequence (por_receipt r)"
    and h': "histories' = bt_insert actor (compact_history codec (h0\<lparr>aoh_committed_through := expected,
      aoh_retained := bt_insert expected r (aoh_retained h0)\<rparr>)) histories"
    unfolding record_processed_operation_def h0_def [symmetric] Let_def
    by (auto simp: result_elims record_ok_def list_ex_iff not_less not_le simp del: ok_or_Inr_iff
        dest!: ok_or_Inr_iff [THEN iffD1] split: if_splits)
  let ?h = "h0\<lparr>aoh_committed_through := expected, aoh_retained := bt_insert expected r (aoh_retained h0)\<rparr>"
  have chain: "history_chain codec cid n h0"
  proof (cases "bt_get histories actor")
    case None
    then show ?thesis by (simp add: h0_def history_chain_def new_history_def bt_keys_def)
  next
    case (Some h)
    with valid show ?thesis by (simp add: h0_def histories_valid_def history_ok_iff)
  qed
  have one: "unat expected = unat (aoh_committed_through h0) + 1"
    using checked_add_SomeD [OF expected] by simp
  then have later: "aoh_committed_through h0 < expected" by (simp add: word_less_nat_alt)
  have "j < expected" if "bt_get (aoh_retained h0) j \<noteq> None" for j
  proof -
    have "j \<in> set (bt_keys (aoh_retained h0))" using that by (simp add: bt_in_keys_iff)
    with chain have "j \<le> aoh_committed_through h0" by (auto simp: history_chain_def dest: contiguous_bound)
    with later show ?thesis by simp
  qed
  from bt_entries_insert_last [OF this, where v = r] have
    entries: "bt_entries (aoh_retained ?h) = bt_entries (aoh_retained h0) @ [(expected, r)]" by simp
  have "history_chain codec cid n ?h"
    unfolding history_chain_def bt_keys_def entries
    using chain r(1) one fresh
    by (auto simp: history_chain_def bt_keys_def contiguous_snoc sorted_wrt_append receipts_advance_def bt_values_def)
  moreover have "expected \<noteq> 0" using one by auto
  ultimately show ?thesis using h' r(2) by (intro exI [of _ ?h]) simp
qed

text \<open>
  Histories that pass validation pass it again after any recorded operation: contiguous sequences
  without gap from the compacted ones to the last, receipts that advance within each origin cell,
  and all bounds.
\<close>

theorem recording_keeps_histories_canonical:
  assumes "codec_documented codec" and "histories_valid codec cid n histories"
    and "record_processed_operation codec cid n actor r histories = Inr histories'"
  shows "histories_valid codec cid n histories'"
proof -
  from record_chain [OF assms(2,3)] obtain h where
    h: "histories' = bt_insert actor (compact_history codec h) histories" "history_chain codec cid n h"
      "aoh_committed_through h \<noteq> 0" by blast
  have "validate_operation_history codec cid n (compact_history codec h) = Inr ()"
    unfolding history_ok_iff
    using h(3) compact_history_chain [OF assms(1) h(2)] compact_history_ends [OF assms(1)] by simp
  with assms(2) h(1) show ?thesis by (auto simp: histories_valid_def)
qed

lemma attempt_new_iff:
  assumes "history_chain codec cid n h" and "bt_get histories actor = Some h"
  shows "validate_operation_attempt histories actor k f = Inr None \<longleftrightarrow> unat k = unat (aoh_committed_through h) + 1"
proof -
  have chain: "contiguous (aoh_compacted_through h) (bt_keys (aoh_retained h)) (aoh_committed_through h)"
    using assms(1) by (simp add: history_chain_def)
  show ?thesis
  proof (cases "k \<le> aoh_committed_through h")
    case True
    have "bt_get (aoh_retained h) k \<noteq> None" if "aoh_compacted_through h < k"
      using contiguous_mem [OF chain that True] by (simp add: bt_in_keys_iff)
    with True assms(2) show ?thesis
      by (auto simp: validate_operation_attempt_def word_le_nat_alt not_le word_less_nat_alt split: option.splits)
  next
    case False
    have "bt_get (aoh_retained h) k = None"
      using False contiguous_bound [OF chain, of k] unfolding bt_in_keys_iff by blast
    moreover have "\<not> k \<le> aoh_compacted_through h" using False contiguous_le [OF chain] by auto
    moreover have "k \<noteq> 0" using False by auto
    ultimately show ?thesis using assms(2) False
      by (auto simp: validate_operation_attempt_def result_elims checked_add_Some_iff)
  qed
qed

text \<open>
  C12: An operation is carried out at most once. After it has been recorded, an attempt with its
  sequence is answered with its receipt, refused as a conflict when the intent differs, or refused
  as committed when its record has been compacted; the only attempts that are admitted as new carry the
  sequence that follows.
\<close>

theorem recorded_operation_is_not_repeated:
  assumes "codec_documented codec" and "histories_valid codec cid n histories"
    and "record_processed_operation codec cid n actor r histories = Inr histories'"
  shows "validate_operation_attempt histories' actor (rcp_operation_sequence (por_receipt r)) f
      \<in> {if f = por_intent_fingerprint r then Inr (Some (por_receipt r)) else Inl ''operation_conflict'',
         Inl ''operation_already_committed''}
    \<and> (validate_operation_attempt histories' actor k f = Inr None
        \<longleftrightarrow> unat k = unat (rcp_operation_sequence (por_receipt r)) + 1)"
proof -
  from record_chain [OF assms(2,3)] obtain h where
    h: "histories' = bt_insert actor (compact_history codec h) histories" "history_chain codec cid n h"
      "aoh_committed_through h \<noteq> 0" "aoh_committed_through h = rcp_operation_sequence (por_receipt r)"
      "bt_get (aoh_retained h) (aoh_committed_through h) = Some r" by blast
  let ?h = "compact_history codec h"
  have chain: "history_chain codec cid n ?h" by (rule compact_history_chain [OF assms(1) h(2)])
  have same: "bt_get (aoh_retained ?h) j = Some x \<Longrightarrow> bt_get (aoh_retained h) j = Some x" for j x
    using compaction_suffix [of codec h] by (metis bt_in_entries_iff in_set_dropD)
  have "bt_get (aoh_retained ?h) (aoh_committed_through h) = Some r
      \<or> aoh_committed_through h \<le> aoh_compacted_through ?h"
  proof (rule disjCI)
    assume "\<not> aoh_committed_through h \<le> aoh_compacted_through ?h"
    with chain have "aoh_committed_through h \<in> set (bt_keys (aoh_retained ?h))"
      by (intro contiguous_mem [of "aoh_compacted_through ?h"]) (auto simp: history_chain_def)
    then obtain x where "bt_get (aoh_retained ?h) (aoh_committed_through h) = Some x"
      by (auto simp: bt_in_keys_iff)
    with same h(5) show "bt_get (aoh_retained ?h) (aoh_committed_through h) = Some r" by fastforce
  qed
  with h attempt_new_iff [OF chain, of histories' actor k f] show ?thesis
    by (auto simp: validate_operation_attempt_def)
qed

section \<open>A player's first two operations\<close>

definition codec0 :: history_codec where
  "codec0 = \<lparr>hcd_record_bytes = (\<lambda>r. 400), hcd_retained_bytes = (\<lambda>m. 2 + 410 * bt_len m),
     hcd_compaction_hash = (\<lambda>h n r. replicate 64 CHR ''c''), hcd_blank = (\<lambda>s. s = [])\<rparr>"

definition operation0 :: "u64 \<Rightarrow> processed_operation_record" where
  "operation0 n = \<lparr>por_operation_id = ''operation'', por_intent_fingerprint = replicate 64 CHR ''f'',
     por_receipt_origin_cell_id = replicate 64 CHR ''d'',
     por_receipt = \<lparr>rcp_operation_sequence = n, rcp_operation_id = ''operation'', rcp_event_sequence = 10 * n,
                    rcp_code = ''production_queued'', rcp_message = []\<rparr>\<rparr>"

definition record0 :: "u64 \<Rightarrow> operation_histories \<Rightarrow> operation_histories" where
  "record0 n histories = projr (record_processed_operation codec0 (replicate 64 CHR ''d'') 100 ''pilot'' (operation0 n) histories)"

lemma codec0_documented: "codec_documented codec0"
proof -
  have "hcd_retained_bytes codec0 bt_empty \<le> PROCESSED_OPERATION_RETAINED_BYTES_LIMIT" by code_simp
  moreover have "valid_blake3_hex (replicate 64 CHR ''c'')" by code_simp
  ultimately show ?thesis
    unfolding codec_documented_def by (simp only: codec0_def history_codec.simps simp_thms)
qed

lemma recorded0:
  "histories_valid codec0 (replicate 64 CHR ''d'') 100 (record0 1 bt_empty)"
  "record_processed_operation codec0 (replicate 64 CHR ''d'') 100 ''pilot'' (operation0 2) (record0 1 bt_empty)
     = Inr (record0 2 (record0 1 bt_empty))"
proof -
  have "bt_entries (record0 1 bt_empty) = [(''pilot'', the (bt_get (record0 1 bt_empty) ''pilot''))]"
    by code_simp
  then have only: "bt_get (record0 1 bt_empty) actor = Some h \<Longrightarrow> h = the (bt_get (record0 1 bt_empty) ''pilot'')" for actor h
    by (metis bt_in_entries_iff list.set(1) list.set(2) prod.inject singletonD)
  have "validate_operation_history codec0 (replicate 64 CHR ''d'') 100 (the (bt_get (record0 1 bt_empty) ''pilot'')) = Inr ()"
    by code_simp
  with only show "histories_valid codec0 (replicate 64 CHR ''d'') 100 (record0 1 bt_empty)"
    unfolding histories_valid_def by blast
  have "is_ok (record_processed_operation codec0 (replicate 64 CHR ''d'') 100 ''pilot'' (operation0 2) (record0 1 bt_empty))"
    by code_simp
  then show "record_processed_operation codec0 (replicate 64 CHR ''d'') 100 ''pilot'' (operation0 2) (record0 1 bt_empty)
     = Inr (record0 2 (record0 1 bt_empty))"
    by (auto simp: is_ok_iff record0_def)
qed

theorem recording_keeps_histories_canonical_witness:
  "histories_valid codec0 (replicate 64 CHR ''d'') 100 (record0 2 (record0 1 bt_empty))"
  by (rule recording_keeps_histories_canonical [OF codec0_documented recorded0])

theorem recorded_operation_is_not_repeated_witness:
  "validate_operation_attempt (record0 2 (record0 1 bt_empty)) ''pilot'' 3 [] = Inr None"
  using recorded_operation_is_not_repeated [OF codec0_documented recorded0, where k = 3 and f = "[]"] by (simp add: operation0_def)

theorem compaction_keeps_longest_suffix_witness:
  "\<not> operation_history_crosses_retention_bound codec0 (compact_history codec0 new_history)"
  using compaction_keeps_longest_suffix [OF codec0_documented] by blast

end
