(* ===== verification/Content.thy ===== *)
theory Content
  imports Prelude "HOL-Library.Product_Lexorder"
begin

text \<open>
  The content definitions (\<open>crates/verse-simulation/src/content.rs\<close> with the embedded
  \<open>content/definitions/p0-content.json\<close>, whose version \<open>manifest\<close> asserts): block kinds,
  recipes and rewards, and the arithmetic of resources. The floating-point entries of the
  manifest are left out; what is computed from them is a parameter where it is used.
\<close>

section \<open>Kinds\<close>

datatype resource_kind = ResOre | ResRefinedMaterial | ResComponent

datatype block_kind =
  BlkStructural | BlkControlCore | BlkPowerSource | BlkBattery | BlkCargo | BlkDrill | BlkAnchor
| BlkDamageTest | BlkConveyor | BlkRefinery | BlkAssembler

datatype production_recipe_kind = Refining | ComponentRecipe

datatype voxel_material = Rock | FerriteOre

type_synonym u8 = "8 word"

record block_definition =
  bdf_conveyor_ports :: u8
  bdf_max_health :: u16
  bdf_component_cost :: u64
  bdf_mass_grams :: u64

definition block_definition_of :: "u8 \<Rightarrow> u16 \<Rightarrow> u64 \<Rightarrow> u64 \<Rightarrow> block_definition" where
  "block_definition_of ports health cost mass =
     \<lparr>bdf_conveyor_ports = ports, bdf_max_health = health, bdf_component_cost = cost, bdf_mass_grams = mass\<rparr>"

definition ALL_CONVEYOR_PORTS :: u8 where "ALL_CONVEYOR_PORTS = 63"

text \<open>\<open>content::block\<close>: the one entry of the manifest for a kind.\<close>

fun content_block :: "block_kind \<Rightarrow> block_definition" where
  "content_block BlkStructural = block_definition_of 0 100 1 250000"
| "content_block BlkControlCore = block_definition_of 0 180 1 480000"
| "content_block BlkPowerSource = block_definition_of 0 140 1 550000"
| "content_block BlkBattery = block_definition_of 0 120 1 700000"
| "content_block BlkCargo = block_definition_of ALL_CONVEYOR_PORTS 110 1 350000"
| "content_block BlkDrill = block_definition_of 0 100 1 600000"
| "content_block BlkAnchor = block_definition_of 0 160 1 420000"
| "content_block BlkDamageTest = block_definition_of 0 60 1 250000"
| "content_block BlkConveyor = block_definition_of ALL_CONVEYOR_PORTS 90 1 180000"
| "content_block BlkRefinery = block_definition_of ALL_CONVEYOR_PORTS 180 4 900000"
| "content_block BlkAssembler = block_definition_of ALL_CONVEYOR_PORTS 160 4 800000"

fun content_voxel_ore_yield :: "voxel_material \<Rightarrow> u64" where
  "content_voxel_ore_yield Rock = 1"
| "content_voxel_ore_yield FerriteOre = 3"

fun production_machine_kind :: "production_recipe_kind \<Rightarrow> block_kind" where
  "production_machine_kind Refining = BlkRefinery"
| "production_machine_kind ComponentRecipe = BlkAssembler"

definition machine_supports_recipe :: "block_kind \<Rightarrow> production_recipe_kind \<Rightarrow> bool" where
  "machine_supports_recipe machine_kind recipe = (machine_kind = production_machine_kind recipe)"

section \<open>Constants\<close>

definition REFINING_ORE_INPUT :: u64 where "REFINING_ORE_INPUT = 2"
definition REFINING_REFINED_OUTPUT :: u64 where "REFINING_REFINED_OUTPUT = 1"
definition REFINING_DURATION_TICKS :: u64 where "REFINING_DURATION_TICKS = 120"
definition CRAFTING_REFINED_INPUT :: u64 where "CRAFTING_REFINED_INPUT = 1"
definition CRAFTING_COMPONENT_OUTPUT :: u64 where "CRAFTING_COMPONENT_OUTPUT = 1"
definition CRAFTING_DURATION_TICKS :: u64 where "CRAFTING_DURATION_TICKS = 90"
definition QUEUE_LIMIT_PER_MACHINE :: nat where "QUEUE_LIMIT_PER_MACHINE = 32"
definition FIXED_STEP_HZ :: u64 where "FIXED_STEP_HZ = 60"

definition REWARD_MINED_ORE_UNIT :: u64 where "REWARD_MINED_ORE_UNIT = 5"
definition REWARD_REFINING_BATCH :: u64 where "REWARD_REFINING_BATCH = 12"
definition REWARD_CRAFTED_COMPONENT :: u64 where "REWARD_CRAFTED_COMPONENT = 18"
definition REWARD_FRAME_PLACED :: u64 where "REWARD_FRAME_PLACED = 5"
definition REWARD_CONSTRUCTION_COMPLETED :: u64 where "REWARD_CONSTRUCTION_COMPLETED = 20"

lemmas content_constants =
  REFINING_ORE_INPUT_def REFINING_REFINED_OUTPUT_def REFINING_DURATION_TICKS_def CRAFTING_REFINED_INPUT_def
  CRAFTING_COMPONENT_OUTPUT_def CRAFTING_DURATION_TICKS_def QUEUE_LIMIT_PER_MACHINE_def FIXED_STEP_HZ_def

section \<open>Saturating arithmetic\<close>

definition saturating_add :: "'a::len word \<Rightarrow> 'a word \<Rightarrow> 'a word" where
  "saturating_add a b = (case checked_add a b of Some c \<Rightarrow> c | None \<Rightarrow> -1)"

definition saturating_mul :: "'a::len word \<Rightarrow> 'a word \<Rightarrow> 'a word" where
  "saturating_mul a b = (case checked_mul a b of Some c \<Rightarrow> c | None \<Rightarrow> -1)"

section \<open>Contents of inventories\<close>

record inventory_contents =
  ctn_ore :: u64
  ctn_refined_material :: u64
  ctn_components :: u64

definition no_contents :: inventory_contents where
  "no_contents = \<lparr>ctn_ore = 0, ctn_refined_material = 0, ctn_components = 0\<rparr>"

fun contents_amount :: "inventory_contents \<Rightarrow> resource_kind \<Rightarrow> u64" where
  "contents_amount c ResOre = ctn_ore c"
| "contents_amount c ResRefinedMaterial = ctn_refined_material c"
| "contents_amount c ResComponent = ctn_components c"

fun mutate_resource :: "resource_kind \<Rightarrow> (u64 \<Rightarrow> u64) \<Rightarrow> inventory_contents \<Rightarrow> inventory_contents" where
  "mutate_resource ResOre f c = c\<lparr>ctn_ore := f (ctn_ore c)\<rparr>"
| "mutate_resource ResRefinedMaterial f c = c\<lparr>ctn_refined_material := f (ctn_refined_material c)\<rparr>"
| "mutate_resource ResComponent f c = c\<lparr>ctn_components := f (ctn_components c)\<rparr>"

fun resource_unit_volume_liters :: "resource_kind \<Rightarrow> u64" where
  "resource_unit_volume_liters ResOre = 37"
| "resource_unit_volume_liters ResRefinedMaterial = 15"
| "resource_unit_volume_liters ResComponent = 22"

fun resource_unit_mass_grams :: "resource_kind \<Rightarrow> u64" where
  "resource_unit_mass_grams ResOre = 3500"
| "resource_unit_mass_grams ResRefinedMaterial = 2400"
| "resource_unit_mass_grams ResComponent = 4800"

text \<open>The weighted sum of \<open>used_liters\<close>, \<open>mass_grams\<close> and \<open>contents_mass_grams\<close>.\<close>

definition saturating_total :: "(resource_kind \<Rightarrow> u64) \<Rightarrow> inventory_contents \<Rightarrow> u64" where
  "saturating_total unit c =
     saturating_add (saturating_add (saturating_mul (ctn_ore c) (unit ResOre))
         (saturating_mul (ctn_refined_material c) (unit ResRefinedMaterial)))
       (saturating_mul (ctn_components c) (unit ResComponent))"

definition contents_mass_grams :: "inventory_contents \<Rightarrow> u64" where
  "contents_mass_grams = saturating_total resource_unit_mass_grams"

definition subtract_contents :: "inventory_contents \<Rightarrow> inventory_contents \<Rightarrow> inventory_contents option" where
  "subtract_contents c removed =
     (case checked_sub (ctn_ore c) (ctn_ore removed) of None \<Rightarrow> None | Some ore \<Rightarrow>
      case checked_sub (ctn_refined_material c) (ctn_refined_material removed) of None \<Rightarrow> None | Some refined \<Rightarrow>
      case checked_sub (ctn_components c) (ctn_components removed) of None \<Rightarrow> None | Some components \<Rightarrow>
      Some \<lparr>ctn_ore = ore, ctn_refined_material = refined, ctn_components = components\<rparr>)"

definition add_contents :: "inventory_contents \<Rightarrow> inventory_contents \<Rightarrow> inventory_contents option" where
  "add_contents c added =
     (case checked_add (ctn_ore c) (ctn_ore added) of None \<Rightarrow> None | Some ore \<Rightarrow>
      case checked_add (ctn_refined_material c) (ctn_refined_material added) of None \<Rightarrow> None | Some refined \<Rightarrow>
      case checked_add (ctn_components c) (ctn_components added) of None \<Rightarrow> None | Some components \<Rightarrow>
      Some \<lparr>ctn_ore = ore, ctn_refined_material = refined, ctn_components = components\<rparr>)"

text \<open>Inputs, outputs and duration of a number of batches.\<close>

fun production_recipe_quantities ::
    "production_recipe_kind \<Rightarrow> u64 \<Rightarrow> (inventory_contents \<times> inventory_contents \<times> u64) option" where
  "production_recipe_quantities Refining batches =
     (if batches = 0 then None else
      case checked_mul batches REFINING_ORE_INPUT of None \<Rightarrow> None | Some ore \<Rightarrow>
      case checked_mul batches REFINING_REFINED_OUTPUT of None \<Rightarrow> None | Some refined \<Rightarrow>
      case checked_mul batches REFINING_DURATION_TICKS of None \<Rightarrow> None | Some duration \<Rightarrow>
      Some (no_contents\<lparr>ctn_ore := ore\<rparr>, no_contents\<lparr>ctn_refined_material := refined\<rparr>, duration))"
| "production_recipe_quantities ComponentRecipe batches =
     (if batches = 0 then None else
      case checked_mul batches CRAFTING_REFINED_INPUT of None \<Rightarrow> None | Some refined \<Rightarrow>
      case checked_mul batches CRAFTING_COMPONENT_OUTPUT of None \<Rightarrow> None | Some components \<Rightarrow>
      case checked_mul batches CRAFTING_DURATION_TICKS of None \<Rightarrow> None | Some duration \<Rightarrow>
      Some (no_contents\<lparr>ctn_refined_material := refined\<rparr>, no_contents\<lparr>ctn_components := components\<rparr>, duration))"

section \<open>Facts\<close>

lemma add_contents_Some_iff:
  "add_contents c d = Some e \<longleftrightarrow> unat (ctn_ore e) = unat (ctn_ore c) + unat (ctn_ore d)
     \<and> unat (ctn_refined_material e) = unat (ctn_refined_material c) + unat (ctn_refined_material d)
     \<and> unat (ctn_components e) = unat (ctn_components c) + unat (ctn_components d)"
  by (cases e) (auto simp: add_contents_def checked_add_Some_iff split: option.splits dest: checked_add_SomeD,
      (simp add: checked_add_Some_iff [symmetric])+)

lemma checked_sub_Some_iff:
  fixes a b c :: "'a::len word"
  shows "checked_sub a b = Some c \<longleftrightarrow> unat a = unat c + unat b"
proof
  assume "unat a = unat c + unat b"
  then have "b \<le> a" and "c = a - b"
    by (auto simp: word_le_nat_alt word_unat_eq_iff unat_sub)
  then show "checked_sub a b = Some c" by (simp add: checked_sub_def)
qed (auto simp: checked_sub_def unat_sub word_le_nat_alt split: if_splits)

lemma subtract_contents_Some_iff:
  "subtract_contents c d = Some e \<longleftrightarrow> add_contents e d = Some c"
  unfolding add_contents_Some_iff
  by (cases e) (auto simp: subtract_contents_def checked_sub_Some_iff split: option.splits,
      (metis checked_sub_Some_iff option.distinct(1) option.inject)+)

end
