(* ===== verification/WorldModel.thy ===== *)
theory WorldModel
  imports Content Lifecycle OperationHistory
begin

text \<open>
  The state of the world of one cell (\<open>crates/verse-simulation/src/model.rs\<close>) as far as its
  economy goes: grids of blocks, inventories, production queues, the ledger, players with their
  careers, the remembered operations, and the look-ups over them.
\<close>

section \<open>Coordinates\<close>

text \<open>
  \<open>IVec3\<close>, ordered as a triple. The source computes in \<open>i32\<close>; in the release build its
  additions wrap around, which \<open>wrap_i32\<close> writes out.
\<close>

type_synonym ivec3 = "int \<times> int \<times> int"

definition wrap_i32 :: "int \<Rightarrow> int" where
  "wrap_i32 v = (v + 2 ^ 31) mod 2 ^ 32 - 2 ^ 31"

fun manhattan_distance :: "ivec3 \<Rightarrow> ivec3 \<Rightarrow> int" where
  "manhattan_distance (x, y, z) (x', y', z') =
     wrap_i32 (wrap_i32 (wrap_i32 \<bar>wrap_i32 (x - x')\<bar> + wrap_i32 \<bar>wrap_i32 (y - y')\<bar>)
       + wrap_i32 \<bar>wrap_i32 (z - z')\<bar>)"

fun neighbors :: "ivec3 \<Rightarrow> ivec3 list" where
  "neighbors (x, y, z) =
     [(wrap_i32 (x + 1), y, z), (wrap_i32 (x - 1), y, z), (x, wrap_i32 (y + 1), z),
      (x, wrap_i32 (y - 1), z), (x, y, wrap_i32 (z + 1)), (x, y, wrap_i32 (z - 1))]"

text \<open>A \<open>BTreeSet\<close> is a map to \<open>unit\<close>.\<close>

type_synonym 'a btree_set = "('a, unit) btree_map"

section \<open>Blocks and grids\<close>

record block =
  blk_block_id :: string
  blk_coordinate :: ivec3
  blk_kind :: block_kind
  blk_orientation :: u8
  blk_health :: u16
  blk_construction_complete :: bool
  blk_component_cost :: u64
  blk_inventory_id :: "string option"

definition blk_max_health :: "block \<Rightarrow> u16" where
  "blk_max_health b = bdf_max_health (content_block (blk_kind b))"

text \<open>
  Floating-point numbers are their IEEE bit patterns; no arithmetic on them is modelled. The motion
  of a grid or a player is its address, from which the source derives the local position, with the
  rotation and the velocities.
\<close>

type_synonym f64_bits = u64
type_synonym vec3 = "f64_bits \<times> f64_bits \<times> f64_bits"

definition vec3_zero :: vec3 where "vec3_zero = (0, 0, 0)"

record body_motion =
  gmo_address :: universe_address
  gmo_position :: vec3
  gmo_orientation :: "u32 \<times> u32 \<times> u32 \<times> u32"
  gmo_linear_velocity :: vec3
  gmo_angular_velocity :: vec3

record grid =
  grd_grid_id :: string
  grd_owner_player_id :: string
  grd_anchor_reward_eligible :: bool
  grd_motion :: body_motion
  grd_control_linear_input :: vec3
  grd_control_angular_input :: vec3
  grd_dampeners :: bool
  grd_anchored :: bool
  grd_blocks :: "(string, block) btree_map"

definition block_at :: "grid \<Rightarrow> ivec3 \<Rightarrow> block option" where
  "block_at g coordinate = find (\<lambda>b. blk_coordinate b = coordinate) (bt_values (grd_blocks g))"

section \<open>Voxels\<close>

record voxel_field =
  vox_occupied :: "ivec3 btree_set"
  vox_ferrite_ore :: "ivec3 btree_set"

definition voxel_material_at :: "voxel_field \<Rightarrow> ivec3 \<Rightarrow> voxel_material option" where
  "voxel_material_at field coordinate =
     (if \<not> bt_contains (vox_occupied field) coordinate then None
      else if bt_contains (vox_ferrite_ore field) coordinate then Some FerriteOre
      else Some Rock)"

definition remove_voxel :: "ivec3 \<Rightarrow> voxel_field \<Rightarrow> voxel_field" where
  "remove_voxel coordinate field =
     (case voxel_material_at field coordinate of
        None \<Rightarrow> field
      | Some _ \<Rightarrow> field\<lparr>vox_occupied := bt_remove coordinate (vox_occupied field),
                        vox_ferrite_ore := bt_remove coordinate (vox_ferrite_ore field)\<rparr>)"

section \<open>Inventories and production\<close>

datatype inventory_domain =
  DomainPlayer (domain_player_id: string)
| DomainCargo (domain_block_id: string)
| DomainDropped (domain_reason: string) (domain_owner_player_id: string)

record inventory_record =
  inv_inventory_id :: string
  inv_domain :: inventory_domain
  inv_contents :: inventory_contents
  inv_capacity_liters :: u64

definition CARGO_INVENTORY_CAPACITY_LITERS :: u64 where "CARGO_INVENTORY_CAPACITY_LITERS = 8000"

definition used_liters :: "inventory_record \<Rightarrow> u64" where
  "used_liters inventory = saturating_total resource_unit_volume_liters (inv_contents inventory)"

definition mass_grams :: "inventory_record \<Rightarrow> u64" where
  "mass_grams inventory = saturating_total resource_unit_mass_grams (inv_contents inventory)"

definition can_add :: "inventory_record \<Rightarrow> resource_kind \<Rightarrow> u64 \<Rightarrow> bool" where
  "can_add inventory resource quantity =
     (saturating_add (used_liters inventory) (saturating_mul (resource_unit_volume_liters resource) quantity)
       \<le> inv_capacity_liters inventory)"

definition inventory_can_add_contents :: "inventory_record \<Rightarrow> inventory_contents \<Rightarrow> bool" where
  "inventory_can_add_contents inventory c =
     (case Option.bind (checked_mul (ctn_ore c) (resource_unit_volume_liters ResOre)) (\<lambda>v.
           Option.bind (Option.bind (checked_mul (ctn_refined_material c) (resource_unit_volume_liters ResRefinedMaterial))
               (checked_add v)) (\<lambda>v.
           Option.bind (Option.bind (checked_mul (ctn_components c) (resource_unit_volume_liters ResComponent))
               (checked_add v)) (checked_add (used_liters inventory)))) of
        None \<Rightarrow> False
      | Some used \<Rightarrow> used \<le> inv_capacity_liters inventory)"

record production_job =
  job_job_id :: string
  job_operation_id :: string
  job_owner_player_id :: string
  job_machine_block_id :: string
  job_recipe :: production_recipe_kind
  job_content_manifest_version :: string
  job_batches :: u64
  job_source_inventory_id :: string
  job_destination_inventory_id :: string
  job_progress_ticks :: u64
  job_duration_ticks :: u64
  job_reserved_inputs :: inventory_contents
  job_pending_outputs :: inventory_contents
  job_queued_event_sequence :: u64

record production_clock =
  pcl_lifecycle_generation :: u64
  pcl_last_committed_quantum_sequence :: u64
  pcl_last_scheduled_for_unix_ms :: u64

section \<open>Players\<close>

record career =
  car_voxels_mined :: u64
  car_refining_batches :: u64
  car_components_crafted :: u64
  car_blocks_built :: u64
  car_anchors_engaged :: u64

record player =
  ply_player_id :: string
  ply_inventory_id :: string
  ply_experience :: u64
  ply_career :: career
  ply_alive :: bool
  ply_motion :: body_motion

section \<open>What is computed in floating point\<close>

datatype tool_target = TargetVoxel ivec3 | TargetBlock string string ivec3

record tool_hit =
  hit_target :: tool_target
  hit_local_face :: "ivec3 option"

text \<open>
  Whether the power of a grid is on-line, the voxel coordinate a block of a grid comes to lie at, what
  the tool of a player hits first, whether a player's capsule meets a coordinate of a grid, and the hash
  that identifies an occurrence.
\<close>

record world_physics =
  wph_power_online :: "grid \<Rightarrow> bool"
  wph_world_coordinate :: "body_motion \<Rightarrow> ivec3 \<Rightarrow> ivec3"
  wph_closest_tool_hit :: "player \<Rightarrow> voxel_field \<Rightarrow> (string, grid) btree_map \<Rightarrow> tool_hit option"
  wph_capsule_intersects :: "player \<Rightarrow> grid \<Rightarrow> ivec3 \<Rightarrow> bool"
  wph_finite :: "vec3 \<Rightarrow> bool"
  wph_within_control_limit :: "vec3 \<Rightarrow> bool"
  wph_occurrence_event_id :: "production_schedule_occurrence \<Rightarrow> string"

definition anchor_touches_after_removal :: "world_physics \<Rightarrow> grid \<Rightarrow> voxel_field \<Rightarrow> ivec3 option \<Rightarrow> bool" where
  "anchor_touches_after_removal ph g field removed =
     list_ex (\<lambda>b. blk_kind b = BlkAnchor \<and> blk_construction_complete b \<and>
         (let world = wph_world_coordinate ph (grd_motion g) (blk_coordinate b);
              remains = (\<lambda>coordinate. Some coordinate \<noteq> removed \<and> bt_contains (vox_occupied field) coordinate)
          in remains world \<or> list_ex remains (neighbors world)))
       (bt_values (grd_blocks g))"

definition anchor_touches :: "world_physics \<Rightarrow> grid \<Rightarrow> voxel_field \<Rightarrow> bool" where
  "anchor_touches ph g field = anchor_touches_after_removal ph g field None"

section \<open>The ledger and the world\<close>

record ledger =
  led_genesis_ore :: u64
  led_genesis_refined :: u64
  led_genesis_components :: u64
  led_genesis_installed_components :: u64
  led_mined_ore :: u64
  led_refine_batches :: u64
  led_crafted_components :: u64
  led_built_blocks :: u64
  led_destroyed_blocks :: u64
  led_destroyed_components :: u64
  led_transfer_imported_ore :: u64
  led_transfer_imported_refined :: u64
  led_transfer_imported_components :: u64
  led_transfer_exported_ore :: u64
  led_transfer_exported_refined :: u64
  led_transfer_exported_components :: u64

text \<open>
  A \<open>ContactPairKey\<close>: body and collider of the two sides. Of the locks of players in transfer only
  the keys are kept.
\<close>

type_synonym contact_pair = "string \<times> string \<times> string \<times> string"

record world_state =
  wst_content_manifest_version :: string
  wst_universe_id :: string
  wst_cell_id :: string
  wst_universe_manifest_hash :: string
  wst_celestial_registry_hash :: string
  wst_event_sequence :: u64
  wst_fencing_token :: u64
  wst_last_event_hash :: string
  wst_players :: "(string, player) btree_map"
  wst_voxels :: voxel_field
  wst_grids :: "(string, grid) btree_map"
  wst_inventories :: "(string, inventory_record) btree_map"
  wst_production_queues :: "(string, production_job list) btree_map"
  wst_production_clock :: production_clock
  wst_player_transfer_locks :: "string btree_set"
  wst_processed_operations :: operation_histories
  wst_active_contact_pairs :: "contact_pair btree_set"
  wst_ledger :: ledger

section \<open>Errors\<close>

text \<open>\<open>IntentError\<close>, where a rejection is represented by its code and its message is left out.\<close>

datatype intent_error =
  Rejected string
| SequenceMismatch u64 u64
| PreviousHashMismatch
| InvalidEventHash
| WrongAuthority
| ContentManifestMismatch
| ConservationViolation u64

section \<open>Look-ups\<close>

fun find_map :: "('a \<Rightarrow> 'b option) \<Rightarrow> 'a list \<Rightarrow> 'b option" where
  "find_map f [] = None"
| "find_map f (x # xs) = (case f x of None \<Rightarrow> find_map f xs | Some y \<Rightarrow> Some y)"

definition block_grid :: "world_state \<Rightarrow> string \<Rightarrow> (grid \<times> block) option" where
  "block_grid w block_id =
     find_map (\<lambda>g. map_option (Pair g) (bt_get (grd_blocks g) block_id)) (bt_values (wst_grids w))"

definition cargo_block_for_inventory :: "world_state \<Rightarrow> string \<Rightarrow> (grid \<times> block) option" where
  "cargo_block_for_inventory w inventory_id =
     (case bt_get (wst_inventories w) inventory_id of None \<Rightarrow> None | Some inventory \<Rightarrow>
      case inv_domain inventory of
        DomainCargo block_id \<Rightarrow>
          (case block_grid w block_id of None \<Rightarrow> None
           | Some (g, b) \<Rightarrow>
               if blk_kind b = BlkCargo \<and> blk_construction_complete b \<and> blk_inventory_id b = Some inventory_id
               then Some (g, b) else None)
      | _ \<Rightarrow> None)"

text \<open>The loop that resolves the owner of a cargo inventory over all grids.\<close>

fun cargo_owner :: "string \<Rightarrow> string \<Rightarrow> grid list \<Rightarrow> string option \<Rightarrow> string + string" where
  "cargo_owner inventory_id block_id [] owner = ok_or owner ''cargo inventory has no live owner''"
| "cargo_owner inventory_id block_id (g # gs) owner =
     (case bt_get (grd_blocks g) block_id of
        None \<Rightarrow> cargo_owner inventory_id block_id gs owner
      | Some b \<Rightarrow>
          if blk_inventory_id b \<noteq> Some inventory_id then Inl ''cargo block does not link back to inventory''
          else if owner \<noteq> None then Inl ''cargo block is linked from multiple grids''
          else cargo_owner inventory_id block_id gs (Some (grd_owner_player_id g)))"

definition inventory_owner_player_id :: "world_state \<Rightarrow> string \<Rightarrow> string + string" where
  "inventory_owner_player_id w inventory_id =
     try_r (ok_or (bt_get (wst_inventories w) inventory_id) ''inventory does not exist'') (\<lambda>inventory.
     case inv_domain inventory of
       DomainPlayer player_id \<Rightarrow> Inr player_id
     | DomainDropped reason owner \<Rightarrow> Inr owner
     | DomainCargo block_id \<Rightarrow> cargo_owner inventory_id block_id (bt_values (wst_grids w)) None)"

definition find_inventory :: "world_state \<Rightarrow> string \<Rightarrow> intent_error + inventory_record" where
  "find_inventory w inventory_id = ok_or (bt_get (wst_inventories w) inventory_id) (Rejected ''inventory_missing'')"

definition find_grid :: "world_state \<Rightarrow> string \<Rightarrow> intent_error + grid" where
  "find_grid w grid_id = ok_or (bt_get (wst_grids w) grid_id) (Rejected ''grid_missing'')"

text \<open>\<open>inventory_mut\<close> with the assignment to the contents.\<close>

definition set_inventory_contents ::
    "string \<Rightarrow> inventory_contents \<Rightarrow> world_state \<Rightarrow> intent_error + world_state" where
  "set_inventory_contents inventory_id c w =
     try_r (find_inventory w inventory_id) (\<lambda>inventory.
     Inr (w\<lparr>wst_inventories := bt_insert inventory_id (inventory\<lparr>inv_contents := c\<rparr>) (wst_inventories w)\<rparr>))"

section \<open>Authority\<close>

definition ensure_inventory_functional :: "world_state \<Rightarrow> string \<Rightarrow> intent_error + unit" where
  "ensure_inventory_functional w inventory_id =
     try_r (find_inventory w inventory_id) (\<lambda>inventory.
     case inv_domain inventory of
       DomainPlayer _ \<Rightarrow> Inr ()
     | DomainDropped _ _ \<Rightarrow> Inl (Rejected ''dropped_inventory_sealed'')
     | DomainCargo block_id \<Rightarrow>
         try_r (ok_or (block_grid w block_id) (Rejected ''inventory_owner_missing'')) (\<lambda>(_, b).
         if blk_construction_complete b then Inr () else Inl (Rejected ''inventory_block_incomplete'')))"

definition ensure_actor_owns_inventory :: "world_state \<Rightarrow> string \<Rightarrow> string \<Rightarrow> intent_error + unit" where
  "ensure_actor_owns_inventory w actor_player_id inventory_id =
     try_r (find_inventory w inventory_id) (\<lambda>inventory.
     if is_DomainDropped (inv_domain inventory) then Inl (Rejected ''dropped_inventory_sealed'')
     else
     try_r (map_err (\<lambda>_. Rejected ''inventory_authority_invalid'') (inventory_owner_player_id w inventory_id)) (\<lambda>owner.
     if owner \<noteq> actor_player_id then Inl (Rejected ''inventory_access_denied'')
     else
     case inv_domain inventory of
       DomainPlayer player_id \<Rightarrow>
         try_r (ok_or (bt_get (wst_players w) actor_player_id) (Rejected ''actor_not_present'')) (\<lambda>actor.
         if player_id = actor_player_id \<and> ply_inventory_id actor = inventory_id then Inr ()
         else Inl (Rejected ''inventory_access_denied''))
     | _ \<Rightarrow> Inr ()))"

definition ensure_actor_owns_grid :: "world_state \<Rightarrow> string \<Rightarrow> string \<Rightarrow> intent_error + unit" where
  "ensure_actor_owns_grid w actor_player_id grid_id =
     try_r (find_grid w grid_id) (\<lambda>g.
     if grd_owner_player_id g = actor_player_id then Inr () else Inl (Rejected ''grid_access_denied''))"

section \<open>Tools\<close>

definition ensure_voxel_tool_target ::
    "world_physics \<Rightarrow> world_state \<Rightarrow> player \<Rightarrow> ivec3 \<Rightarrow> string \<Rightarrow> intent_error + unit" where
  "ensure_voxel_tool_target ph w actor coordinate code =
     (case wph_closest_tool_hit ph actor (wst_voxels w) (wst_grids w) of
        Some hit \<Rightarrow>
          if hit_local_face hit \<noteq> None \<and> hit_target hit = TargetVoxel coordinate then Inr ()
          else Inl (Rejected code)
      | None \<Rightarrow> Inl (Rejected code))"

definition ensure_block_tool_target ::
    "world_physics \<Rightarrow> world_state \<Rightarrow> player \<Rightarrow> string \<Rightarrow> string \<Rightarrow> string \<Rightarrow> intent_error + unit" where
  "ensure_block_tool_target ph w actor grid_id block_id code =
     (case wph_closest_tool_hit ph actor (wst_voxels w) (wst_grids w) of
        Some hit \<Rightarrow>
          if hit_local_face hit \<noteq> None
             \<and> (case hit_target hit of TargetBlock g b _ \<Rightarrow> g = grid_id \<and> b = block_id | _ \<Rightarrow> False)
          then Inr () else Inl (Rejected code)
      | None \<Rightarrow> Inl (Rejected code))"

definition saturating_i32 :: "int \<Rightarrow> int" where
  "saturating_i32 v = max (- (2 ^ 31)) (min (2 ^ 31 - 1) v)"

definition ensure_build_tool_target ::
    "world_physics \<Rightarrow> world_state \<Rightarrow> player \<Rightarrow> string \<Rightarrow> ivec3 \<Rightarrow> string \<Rightarrow> intent_error + unit" where
  "ensure_build_tool_target ph w actor grid_id coordinate code =
     (case wph_closest_tool_hit ph actor (wst_voxels w) (wst_grids w) of
        None \<Rightarrow> Inl (Rejected code)
      | Some hit \<Rightarrow>
      case hit_local_face hit of
        None \<Rightarrow> Inl (Rejected code)
      | Some (fx, fy, fz) \<Rightarrow>
      case hit_target hit of
        TargetBlock targeted_grid_id _ (x, y, z) \<Rightarrow>
          if targeted_grid_id = grid_id
             \<and> (saturating_i32 (x + fx), saturating_i32 (y + fy), saturating_i32 (z + fz)) = coordinate
          then Inr () else Inl (Rejected code)
      | _ \<Rightarrow> Inl (Rejected code))"

definition player_intersects_grid_coordinate :: "world_physics \<Rightarrow> world_state \<Rightarrow> grid \<Rightarrow> ivec3 \<Rightarrow> bool" where
  "player_intersects_grid_coordinate ph w g coordinate =
     list_ex (\<lambda>p. ply_alive p \<and> wph_capsule_intersects ph p g coordinate) (bt_values (wst_players w))"

end
