(* ===== verification/GridSplit.thy ===== *)
theory GridSplit
  imports WorldModel
begin

text \<open>
  Damage to a block (\<open>apply_damage\<close> and \<open>split_disconnected_grid\<close> of
  \<open>crates/verse-simulation/src/engine.rs\<close>): a destroyed block leaves its cargo and the escrow of its
  production queue as dropped inventories, and its grid falls apart into face-connected components.
\<close>

section \<open>Components\<close>

text \<open>A \<open>BTreeMap\<close> collected from pairs; later pairs replace earlier ones.\<close>

definition bt_collect :: "('k::linorder \<times> 'v) list \<Rightarrow> ('k, 'v) btree_map" where
  "bt_collect = foldl (\<lambda>m (k, v). bt_insert k v m) bt_empty"

text \<open>The loop over the neighbours of a coordinate: what remains, and what is appended to the queue.\<close>

fun take_neighbors :: "ivec3 list \<Rightarrow> ivec3 btree_set \<Rightarrow> ivec3 btree_set \<times> ivec3 list" where
  "take_neighbors [] remaining = (remaining, [])"
| "take_neighbors (neighbor # rest) remaining =
     (if bt_contains remaining neighbor
      then let (remaining, found) = take_neighbors rest (bt_remove neighbor remaining)
           in (remaining, neighbor # found)
      else take_neighbors rest remaining)"

lemma dom_bt_remove: "dom (bt_get (bt_remove k m)) = dom (bt_get m) - {k}"
  by (auto split: if_splits)

lemma bt_len_remove_present: "bt_contains m k \<Longrightarrow> Suc (bt_len (bt_remove k m)) = bt_len m"
proof -
  assume "bt_contains m k"
  then have "k \<in> dom (bt_get m)" by (auto simp: bt_contains_def)
  then show ?thesis
    unfolding bt_len_keys dom_bt_remove by (metis bt_finite_dom card_Suc_Diff1)
qed

lemma take_neighbors_len:
  "take_neighbors ns remaining = (remaining', found) \<Longrightarrow> bt_len remaining' + length found = bt_len remaining"
proof (induction ns arbitrary: remaining remaining' found)
  case (Cons n ns)
  show ?case
  proof (cases "bt_contains remaining n")
    case True
    with Cons.prems obtain found' where
      f: "take_neighbors ns (bt_remove n remaining) = (remaining', found')" "found = n # found'"
      by (auto split: prod.splits)
    from Cons.IH [OF f(1)] f(2) bt_len_remove_present [OF True] show ?thesis by simp
  next
    case False
    with Cons.prems show ?thesis by (auto intro: Cons.IH)
  qed
qed simp

text \<open>The inner loop: the component of the coordinates in the queue, and what remains.\<close>

function flood :: "ivec3 list \<Rightarrow> ivec3 btree_set \<Rightarrow> ivec3 btree_set \<Rightarrow> ivec3 btree_set \<times> ivec3 btree_set" where
  "flood [] remaining component = (remaining, component)"
| "flood (coordinate # queue) remaining component =
     (let (remaining, found) = take_neighbors (neighbors coordinate) remaining
      in flood (queue @ found) remaining (bt_insert coordinate () component))"
  by pat_completeness auto

termination
  by (relation "measure (\<lambda>(queue, remaining, component). 2 * bt_len remaining + length queue)")
     (auto dest!: sym [of "(_, _)"] take_neighbors_len)

lemma flood_len:
  "flood queue remaining component = (remaining', component') \<Longrightarrow> bt_len remaining' \<le> bt_len remaining"
proof (induction queue remaining component rule: flood.induct)
  case (2 coordinate queue remaining component)
  obtain r found where t: "take_neighbors (neighbors coordinate) remaining = (r, found)" by fastforce
  with 2 take_neighbors_len [OF t] show ?case by fastforce
qed simp

text \<open>The outer loop: the components of the remaining coordinates.\<close>

function flood_components :: "ivec3 btree_set \<Rightarrow> ivec3 btree_set list" where
  "flood_components remaining =
     (case bt_keys remaining of
        [] \<Rightarrow> []
      | start # _ \<Rightarrow>
          let (remaining, component) = flood [start] (bt_remove start remaining) bt_empty
          in component # flood_components remaining)"
  by pat_completeness auto

termination
proof (relation "measure bt_len")
  fix remaining :: "ivec3 btree_set" and start rest x r component
  assume keys: "bt_keys remaining = start # rest" and x: "x = flood [start] (bt_remove start remaining) bt_empty"
    "(r, component) = x"
  from keys have "bt_contains remaining start" by (metis bt_contains_def bt_in_keys_iff list.set_intros(1))
  from bt_len_remove_present [OF this] flood_len [of "[start]" "bt_remove start remaining" bt_empty r component] x
  show "(r, remaining) \<in> measure bt_len" by simp
qed simp

declare flood.simps(2) [simp del] flood_components.simps [simp del]

section \<open>Splitting a grid\<close>

definition component_has_core :: "grid \<Rightarrow> (ivec3, string) btree_map \<Rightarrow> ivec3 btree_set \<Rightarrow> bool" where
  "component_has_core original by_coordinate component =
     list_ex (\<lambda>coordinate.
       case Option.bind (bt_get by_coordinate coordinate) (bt_get (grd_blocks original)) of
         Some b \<Rightarrow> blk_kind b = BlkControlCore | None \<Rightarrow> False)
       (bt_keys component)"

fun position :: "('a \<Rightarrow> bool) \<Rightarrow> 'a list \<Rightarrow> nat option" where
  "position P [] = None"
| "position P (x # xs) = (if P x then Some 0 else map_option Suc (position P xs))"

definition split_grid_id :: "grid \<Rightarrow> u64 \<Rightarrow> nat \<Rightarrow> nat \<Rightarrow> string" where
  "split_grid_id original event_sequence primary_index index =
     (if index = primary_index then grd_grid_id original
      else grd_grid_id original @ ''-split-'' @ show_nat (unat event_sequence) @ ''-'' @ show_nat index)"

definition component_blocks :: "grid \<Rightarrow> (ivec3, string) btree_map \<Rightarrow> ivec3 btree_set \<Rightarrow> (string, block) btree_map" where
  "component_blocks original by_coordinate component =
     bt_collect (List.map_filter (\<lambda>coordinate.
       Option.bind (bt_get by_coordinate coordinate) (\<lambda>block_id.
       map_option (Pair block_id) (bt_get (grd_blocks original) block_id))) (bt_keys component))"

definition split_fragment ::
    "world_physics \<Rightarrow> voxel_field \<Rightarrow> grid \<Rightarrow> bool \<Rightarrow> bool \<Rightarrow> string \<Rightarrow> (string, block) btree_map \<Rightarrow> grid" where
  "split_fragment ph voxels original did_split is_primary grid_id blocks =
     (let g = original\<lparr>
            grd_grid_id := grid_id,
            grd_anchor_reward_eligible := grd_anchor_reward_eligible original \<and> is_primary,
            grd_control_linear_input := (if did_split then vec3_zero else grd_control_linear_input original),
            grd_control_angular_input := (if did_split then vec3_zero else grd_control_angular_input original),
            grd_dampeners := (grd_dampeners original \<or> did_split),
            grd_blocks := blocks\<rparr>
      in g\<lparr>grd_anchored := grd_anchored g \<and> anchor_touches ph g voxels\<rparr>)"

fun insert_fragments ::
    "(nat \<Rightarrow> string) \<Rightarrow> (nat \<Rightarrow> ivec3 btree_set \<Rightarrow> grid) \<Rightarrow> nat \<Rightarrow> ivec3 btree_set list \<Rightarrow>
     (string, grid) btree_map \<Rightarrow> (string, grid) btree_map" where
  "insert_fragments ids fragment index [] grids = grids"
| "insert_fragments ids fragment index (component # components) grids =
     insert_fragments ids fragment (Suc index) components (bt_insert (ids index) (fragment index component) grids)"

text \<open>
  \<open>sort_by_key\<close> compares the first coordinate of the components. An index of a map that is
  missing, where the source panics, does not occur for the coordinates of its own map.
\<close>

definition split_disconnected_grid ::
    "world_physics \<Rightarrow> string \<Rightarrow> u64 \<Rightarrow> world_state \<Rightarrow> intent_error + world_state" where
  "split_disconnected_grid ph grid_id event_sequence w =
     try_r (ok_or (bt_get (wst_grids w) grid_id) (Rejected ''replay_grid_missing'')) (\<lambda>original.
     if bt_values (grd_blocks original) = []
     then Inr (w\<lparr>wst_grids := bt_remove grid_id (wst_grids w)\<rparr>)
     else
     let by_coordinate = bt_collect (map (\<lambda>b. (blk_coordinate b, blk_block_id b)) (bt_values (grd_blocks original)));
         components = sort_key (\<lambda>component. hd (bt_keys component))
           (flood_components (bt_collect (map (\<lambda>coordinate. (coordinate, ())) (bt_keys by_coordinate))));
         primary_index = (case position (component_has_core original by_coordinate) components of
                            Some i \<Rightarrow> i | None \<Rightarrow> 0);
         ids = split_grid_id original event_sequence primary_index
     in
     if list_ex (\<lambda>index. index \<noteq> primary_index \<and> bt_contains (wst_grids w) (ids index)) [0..<length components]
     then Inl (Rejected ''replay_grid_split_identity_duplicate'')
     else
     Inr (w\<lparr>wst_grids := insert_fragments ids
             (\<lambda>index component. split_fragment ph (wst_voxels w) original (1 < length components)
                (index = primary_index) (ids index) (component_blocks original by_coordinate component))
             0 components (bt_remove grid_id (wst_grids w))\<rparr>))"

section \<open>Damage\<close>

definition sum_escrow :: "production_job list \<Rightarrow> intent_error + inventory_contents" where
  "sum_escrow queue =
     fold_r (\<lambda>job contents.
         try_r (ok_or (add_contents contents (job_reserved_inputs job)) (Rejected ''production_output_overflow'')) (\<lambda>contents.
         ok_or (add_contents contents (job_pending_outputs job)) (Rejected ''production_output_overflow'')))
       queue no_contents"

definition drop_cargo :: "string \<Rightarrow> block \<Rightarrow> world_state \<Rightarrow> world_state" where
  "drop_cargo owner removed w =
     (case blk_inventory_id removed of None \<Rightarrow> w
      | Some inventory_id \<Rightarrow>
      case bt_get (wst_inventories w) inventory_id of None \<Rightarrow> w
      | Some inventory \<Rightarrow>
          w\<lparr>wst_inventories := bt_insert inventory_id
              (inventory\<lparr>inv_domain := DomainDropped ''cargo_block_destroyed'' owner\<rparr>) (wst_inventories w)\<rparr>)"

definition drop_production ::
    "string \<Rightarrow> string \<Rightarrow> u64 \<Rightarrow> world_state \<Rightarrow> intent_error + world_state" where
  "drop_production owner block_id event_sequence w =
     (case bt_get (wst_production_queues w) block_id of None \<Rightarrow> Inr w
      | Some queue \<Rightarrow>
          try_r (sum_escrow queue) (\<lambda>contents.
          let inventory_id = ''inventory-production-drop-'' @ show_nat (unat event_sequence) @ ''-'' @ block_id in
          if bt_contains (wst_inventories w) inventory_id
          then Inl (Rejected ''replay_production_drop_identity_duplicate'')
          else Inr (w\<lparr>
            wst_production_queues := bt_remove block_id (wst_production_queues w),
            wst_inventories := bt_insert inventory_id
              \<lparr>inv_inventory_id = inventory_id,
               inv_domain = DomainDropped ''production_machine_destroyed'' owner,
               inv_contents = contents, inv_capacity_liters = -1\<rparr> (wst_inventories w)\<rparr>)))"

definition apply_damage ::
    "world_physics \<Rightarrow> string \<Rightarrow> string \<Rightarrow> u16 \<Rightarrow> u64 \<Rightarrow> world_state \<Rightarrow> intent_error + world_state" where
  "apply_damage ph grid_id block_id damage event_sequence w =
     try_r (find_grid w grid_id) (\<lambda>g.
     try_r (ok_or (bt_get (grd_blocks g) block_id) (Rejected ''replay_block_missing'')) (\<lambda>b.
     if damage < blk_health b
     then Inr (w\<lparr>wst_grids := bt_insert grid_id
            (g\<lparr>grd_blocks := bt_insert block_id (b\<lparr>blk_health := blk_health b - damage\<rparr>) (grd_blocks g)\<rparr>) (wst_grids w)\<rparr>)
     else
     let w = w\<lparr>wst_grids := bt_insert grid_id (g\<lparr>grd_blocks := bt_remove block_id (grd_blocks g)\<rparr>) (wst_grids w),
               wst_ledger := (wst_ledger w)
                 \<lparr>led_destroyed_blocks := led_destroyed_blocks (wst_ledger w) + 1,
                  led_destroyed_components := led_destroyed_components (wst_ledger w) + blk_component_cost b\<rparr>\<rparr> in
     try_r (drop_production (grd_owner_player_id g) block_id event_sequence (drop_cargo (grd_owner_player_id g) b w)) (\<lambda>w.
     split_disconnected_grid ph grid_id event_sequence w)))"

end
