(* ===== verification/Production.thy ===== *)
theory Production
  imports WorldModel
begin

text \<open>
  Physical production (\<open>production_route_exists\<close> and \<open>production_job_status\<close> of \<open>model.rs\<close>, the
  production quantum of \<open>engine.rs\<close>): the conveyor route between a machine and its cargo, the
  outcome of one second of work of a machine, and the quantum that commits the outcomes of all
  machines of a cell.
\<close>

section \<open>Conveyor routes\<close>

definition conveyor_block :: "block \<Rightarrow> bool" where
  "conveyor_block b = (blk_construction_complete b \<and> bdf_conveyor_ports (content_block (blk_kind b)) \<noteq> 0)"

text \<open>The inner loop: the visited blocks, and those to append to the frontier.\<close>

fun visit_neighbors :: "block \<Rightarrow> block list \<Rightarrow> string btree_set \<Rightarrow> string btree_set \<times> string list" where
  "visit_neighbors b [] visited = (visited, [])"
| "visit_neighbors b (neighbor # rest) visited =
     (if \<not> conveyor_block neighbor
         \<or> manhattan_distance (blk_coordinate b) (blk_coordinate neighbor) \<noteq> 1
         \<or> bt_contains visited (blk_block_id neighbor)
      then visit_neighbors b rest visited
      else (let (visited, found) = visit_neighbors b rest (bt_insert (blk_block_id neighbor) () visited)
            in (visited, blk_block_id neighbor # found)))"

definition unvisited :: "grid \<Rightarrow> string btree_set \<Rightarrow> string set" where
  "unvisited g visited = blk_block_id ` set (bt_values (grd_blocks g)) - dom (bt_get visited)"

lemma visit_neighbors_visited:
  "visit_neighbors b blocks visited = (visited', found) \<Longrightarrow>
     dom (bt_get visited') = dom (bt_get visited) \<union> set found \<and> dom (bt_get visited) \<inter> set found = {}
     \<and> distinct found \<and> set found \<subseteq> blk_block_id ` set blocks"
proof (induction blocks arbitrary: visited visited' found)
  case (Cons neighbor blocks)
  show ?case
  proof (cases "\<not> conveyor_block neighbor \<or> manhattan_distance (blk_coordinate b) (blk_coordinate neighbor) \<noteq> 1
      \<or> bt_contains visited (blk_block_id neighbor)")
    case True
    with Cons.prems have "visit_neighbors b blocks visited = (visited', found)" by auto
    from Cons.IH [OF this] show ?thesis by auto
  next
    case False
    with Cons.prems obtain found' where f: "found = blk_block_id neighbor # found'"
      "visit_neighbors b blocks (bt_insert (blk_block_id neighbor) () visited) = (visited', found')"
      by (auto split: prod.splits)
    from False have "blk_block_id neighbor \<notin> dom (bt_get visited)" by (auto simp: bt_contains_def)
    moreover have "dom (bt_get (bt_insert (blk_block_id neighbor) () visited))
        = insert (blk_block_id neighbor) (dom (bt_get visited))"
      by auto
    ultimately show ?thesis using Cons.IH [OF f(2)] f(1) by auto
  qed
qed simp

lemma visit_neighbors_shrinks:
  assumes "visit_neighbors b (bt_values (grd_blocks g)) visited = (visited', found)"
  shows "card (unvisited g visited') + length found = card (unvisited g visited)"
proof -
  note v = visit_neighbors_visited [OF assms]
  have "unvisited g visited = unvisited g visited' \<union> set found" "unvisited g visited' \<inter> set found = {}"
    using v by (auto simp: unvisited_def)
  moreover have "finite (unvisited g visited')" by (simp add: unvisited_def)
  ultimately show ?thesis using v by (simp add: card_Un_disjoint distinct_card)
qed

text \<open>
  The search. A frontier entry that is not a key of the grid would make the source panic; it does not
  occur in grids whose keys are the identities of their blocks.
\<close>

function search_route :: "grid \<Rightarrow> string \<Rightarrow> string list \<Rightarrow> string btree_set \<Rightarrow> bool" where
  "search_route g target [] visited = False"
| "search_route g target (block_id # frontier) visited =
     (if block_id = target then True
      else case bt_get (grd_blocks g) block_id of
        None \<Rightarrow> False
      | Some b \<Rightarrow>
          let (visited, found) = visit_neighbors b (bt_values (grd_blocks g)) visited
          in search_route g target (frontier @ found) visited)"
  by pat_completeness auto

termination
proof (relation "measure (\<lambda>(g, target, frontier, visited). 2 * card (unvisited g visited) + length frontier)")
  fix g :: grid and b :: block and target block_id frontier visited x visited' found
  assume "x = visit_neighbors b (bt_values (grd_blocks g)) visited" "(visited', found) = x"
  then have "visit_neighbors b (bt_values (grd_blocks g)) visited = (visited', found)" by simp
  from visit_neighbors_shrinks [OF this]
  show "((g, target, frontier @ found, visited'), g, target, block_id # frontier, visited)
      \<in> measure (\<lambda>(g, target, frontier, visited). 2 * card (unvisited g visited) + length frontier)"
    by simp
qed simp

definition production_route_exists :: "world_state \<Rightarrow> string \<Rightarrow> string \<Rightarrow> bool" where
  "production_route_exists w machine_block_id inventory_id =
     (case block_grid w machine_block_id of None \<Rightarrow> False
      | Some (machine_grid, machine) \<Rightarrow>
      case cargo_block_for_inventory w inventory_id of None \<Rightarrow> False
      | Some (cargo_grid, cargo) \<Rightarrow>
          if grd_grid_id machine_grid \<noteq> grd_grid_id cargo_grid \<or> \<not> conveyor_block machine then False
          else search_route machine_grid (blk_block_id cargo) [blk_block_id machine]
                 (bt_insert (blk_block_id machine) () bt_empty))"

section \<open>The status of a job\<close>

datatype production_job_status = JobQueued | JobRunning | JobPausedPower | JobPausedRoute | JobOutputBlocked

definition production_job_status :: "world_physics \<Rightarrow> world_state \<Rightarrow> string \<Rightarrow> nat \<Rightarrow> production_job_status" where
  "production_job_status ph w machine_block_id queue_index =
     (case bt_get (wst_production_queues w) machine_block_id of
        None \<Rightarrow> JobPausedRoute
      | Some queue \<Rightarrow>
          if length queue \<le> queue_index then JobPausedRoute
          else if 0 < queue_index then JobQueued
          else
          let job = queue ! queue_index in
          if \<not> (production_route_exists w machine_block_id (job_source_inventory_id job)
                 \<and> production_route_exists w machine_block_id (job_destination_inventory_id job))
          then JobPausedRoute
          else case block_grid w machine_block_id of
            None \<Rightarrow> JobPausedRoute
          | Some (g, _) \<Rightarrow>
              if \<not> wph_power_online ph g then JobPausedPower
              else if job_progress_ticks job = job_duration_ticks job
                \<and> (case bt_get (wst_inventories w) (job_destination_inventory_id job) of None \<Rightarrow> True
                   | Some inventory \<Rightarrow> \<not> inventory_can_add_contents inventory (job_pending_outputs job))
              then JobOutputBlocked
              else JobRunning)"

section \<open>One second of a machine\<close>

datatype production_outcome_kind =
  OutcomeAdvanced | OutcomeCompleted | OutcomeCompletedAndDelivered | OutcomeOutputDelivered
| OutcomePausedPower | OutcomePausedRoute | OutcomePausedMachine | OutcomeOutputBlocked

record production_outcome =
  out_grid_id :: string
  out_machine_block_id :: string
  out_job_id :: string
  out_kind :: production_outcome_kind
  out_previous_progress_ticks :: u64
  out_new_progress_ticks :: u64
  out_destination_inventory_id :: string
  out_outputs :: inventory_contents

definition changes_state :: "production_outcome \<Rightarrow> bool" where
  "changes_state outcome =
     (out_kind outcome \<in> {OutcomeAdvanced, OutcomeCompleted, OutcomeCompletedAndDelivered, OutcomeOutputDelivered})"

definition queue_head :: "world_state \<Rightarrow> string \<Rightarrow> production_job option" where
  "queue_head w machine_block_id =
     (case bt_get (wst_production_queues w) machine_block_id of
        Some (job # _) \<Rightarrow> Some job | _ \<Rightarrow> None)"

definition production_machine_outcome_after_one_second ::
    "world_physics \<Rightarrow> world_state \<Rightarrow> string \<Rightarrow> intent_error + production_outcome" where
  "production_machine_outcome_after_one_second ph w machine_block_id =
     try_r (ok_or (queue_head w machine_block_id) (Rejected ''production_job_missing'')) (\<lambda>job.
     try_r (ok_or (block_grid w machine_block_id) (Rejected ''production_machine_missing'')) (\<lambda>(g, machine).
     let base = \<lambda>kind new_progress_ticks outputs.
           \<lparr>out_grid_id = grd_grid_id g, out_machine_block_id = machine_block_id, out_job_id = job_job_id job,
            out_kind = kind, out_previous_progress_ticks = job_progress_ticks job,
            out_new_progress_ticks = new_progress_ticks,
            out_destination_inventory_id = job_destination_inventory_id job, out_outputs = outputs\<rparr> in
     if \<not> blk_construction_complete machine \<or> \<not> machine_supports_recipe (blk_kind machine) (job_recipe job)
     then Inr (base OutcomePausedMachine (job_progress_ticks job) no_contents)
     else if \<not> wph_power_online ph g
     then Inr (base OutcomePausedPower (job_progress_ticks job) no_contents)
     else if \<not> production_route_exists w machine_block_id (job_source_inventory_id job)
          \<or> \<not> production_route_exists w machine_block_id (job_destination_inventory_id job)
     then Inr (base OutcomePausedRoute (job_progress_ticks job) no_contents)
     else if job_progress_ticks job = job_duration_ticks job
     then
       try_r (find_inventory w (job_destination_inventory_id job)) (\<lambda>destination.
       if \<not> inventory_can_add_contents destination (job_pending_outputs job)
       then Inr (base OutcomeOutputBlocked (job_progress_ticks job) (job_pending_outputs job))
       else Inr (base OutcomeOutputDelivered (job_progress_ticks job) (job_pending_outputs job)))
     else
     let new_progress_ticks = min (saturating_add (job_progress_ticks job) FIXED_STEP_HZ) (job_duration_ticks job) in
     if new_progress_ticks \<noteq> job_duration_ticks job
     then Inr (base OutcomeAdvanced new_progress_ticks no_contents)
     else
     try_r (ok_or (production_recipe_quantities (job_recipe job) (job_batches job))
              (Rejected ''production_job_invalid'')) (\<lambda>(_, outputs, _).
     try_r (find_inventory w (job_destination_inventory_id job)) (\<lambda>destination.
     Inr (base (if inventory_can_add_contents destination outputs then OutcomeCompletedAndDelivered
                else OutcomeCompleted) new_progress_ticks outputs)))))"

section \<open>Applying an outcome\<close>

definition pop_production_queue_head :: "string \<Rightarrow> world_state \<Rightarrow> world_state" where
  "pop_production_queue_head machine_block_id w =
     (case bt_get (wst_production_queues w) machine_block_id of
        None \<Rightarrow> w
      | Some queue \<Rightarrow>
          w\<lparr>wst_production_queues :=
              (if tl queue = [] then bt_remove machine_block_id (wst_production_queues w)
               else bt_insert machine_block_id (tl queue) (wst_production_queues w))\<rparr>)"

text \<open>Assignments to the head of a queue, which the caller has found to exist.\<close>

definition update_queue_head :: "string \<Rightarrow> (production_job \<Rightarrow> production_job) \<Rightarrow> world_state \<Rightarrow> world_state" where
  "update_queue_head machine_block_id f w =
     (case bt_get (wst_production_queues w) machine_block_id of
        Some (job # jobs) \<Rightarrow>
          w\<lparr>wst_production_queues := bt_insert machine_block_id (f job # jobs) (wst_production_queues w)\<rparr>
      | _ \<Rightarrow> w)"

fun record_completion :: "production_recipe_kind \<Rightarrow> u64 \<Rightarrow> ledger \<Rightarrow> intent_error + ledger" where
  "record_completion Refining batches l =
     try_r (ok_or (checked_add (led_refine_batches l) batches) (Rejected ''replay_production_ledger_invalid'')) (\<lambda>n.
     Inr (l\<lparr>led_refine_batches := n\<rparr>))"
| "record_completion ComponentRecipe batches l =
     try_r (ok_or (checked_add (led_crafted_components l) batches) (Rejected ''replay_production_ledger_invalid'')) (\<lambda>n.
     Inr (l\<lparr>led_crafted_components := n\<rparr>))"

fun reward_completion :: "production_recipe_kind \<Rightarrow> u64 \<Rightarrow> player \<Rightarrow> player" where
  "reward_completion Refining batches p =
     p\<lparr>ply_experience := saturating_add (ply_experience p) (saturating_mul batches REWARD_REFINING_BATCH),
       ply_career := (ply_career p)\<lparr>car_refining_batches := saturating_add (car_refining_batches (ply_career p)) batches\<rparr>\<rparr>"
| "reward_completion ComponentRecipe batches p =
     p\<lparr>ply_experience := saturating_add (ply_experience p) (saturating_mul batches REWARD_CRAFTED_COMPONENT),
       ply_career := (ply_career p)\<lparr>car_components_crafted := saturating_add (car_components_crafted (ply_career p)) batches\<rparr>\<rparr>"

definition deliver_outputs :: "production_outcome \<Rightarrow> world_state \<Rightarrow> intent_error + world_state" where
  "deliver_outputs outcome w =
     try_r (find_inventory w (out_destination_inventory_id outcome)) (\<lambda>inventory.
     try_r (ok_or (add_contents (inv_contents inventory) (out_outputs outcome)) (Rejected ''production_output_overflow'')) (\<lambda>c.
     try_r (set_inventory_contents (out_destination_inventory_id outcome) c w) (\<lambda>w.
     Inr (pop_production_queue_head (out_machine_block_id outcome) w))))"

text \<open>\<open>apply_production_machine_outcome\<close>; a missing queue head, where the source panics, is an error here.\<close>

definition apply_production_machine_outcome :: "production_outcome \<Rightarrow> world_state \<Rightarrow> intent_error + world_state" where
  "apply_production_machine_outcome outcome w =
     (case out_kind outcome of
        OutcomePausedPower \<Rightarrow> Inr w
      | OutcomePausedRoute \<Rightarrow> Inr w
      | OutcomePausedMachine \<Rightarrow> Inr w
      | OutcomeOutputBlocked \<Rightarrow> Inr w
      | OutcomeAdvanced \<Rightarrow>
          try_r (ok_or (queue_head w (out_machine_block_id outcome)) (Rejected ''panic'')) (\<lambda>_.
          Inr (update_queue_head (out_machine_block_id outcome)
                 (\<lambda>job. job\<lparr>job_progress_ticks := out_new_progress_ticks outcome\<rparr>) w))
      | OutcomeOutputDelivered \<Rightarrow> deliver_outputs outcome w
      | _ \<Rightarrow>
          try_r (ok_or (queue_head w (out_machine_block_id outcome)) (Rejected ''panic'')) (\<lambda>job.
          try_r (record_completion (job_recipe job) (job_batches job) (wst_ledger w)) (\<lambda>l.
          try_r (ok_or (bt_get (wst_players w) (job_owner_player_id job)) (Rejected ''replay_production_owner_missing'')) (\<lambda>owner.
          let w = w\<lparr>wst_ledger := l, wst_players := bt_insert (job_owner_player_id job)
                      (reward_completion (job_recipe job) (job_batches job) owner) (wst_players w)\<rparr> in
          if out_kind outcome = OutcomeCompletedAndDelivered then deliver_outputs outcome w
          else Inr (update_queue_head (out_machine_block_id outcome)
                      (\<lambda>job. job\<lparr>job_progress_ticks := out_new_progress_ticks outcome,
                                job_reserved_inputs := no_contents,
                                job_pending_outputs := out_outputs outcome\<rparr>) w)))))"

end
