(* ===== verification/ConveyorRoutes.thy ===== *)
theory ConveyorRoutes
  imports Production
begin

text \<open>The search of a conveyor route is reachability over completed conveyor blocks that touch.\<close>

section \<open>Steps of a route\<close>

text \<open>The keys of a grid are the identities of its blocks.\<close>

definition grid_keyed :: "grid \<Rightarrow> bool" where
  "grid_keyed g \<longleftrightarrow> (\<forall>k b. bt_get (grd_blocks g) k = Some b \<longrightarrow> blk_block_id b = k)"

definition grids_keyed :: "world_state \<Rightarrow> bool" where
  "grids_keyed w \<longleftrightarrow> (\<forall>g \<in> set (bt_values (wst_grids w)). grid_keyed g)"

inductive conveyor_step :: "grid \<Rightarrow> string \<Rightarrow> string \<Rightarrow> bool" for g where
  touch: "bt_get (grd_blocks g) a = Some b \<Longrightarrow> bt_get (grd_blocks g) c = Some d \<Longrightarrow> conveyor_block d \<Longrightarrow>
     manhattan_distance (blk_coordinate b) (blk_coordinate d) = 1 \<Longrightarrow> conveyor_step g a c"

inductive_simps conveyor_step_simps: "conveyor_step g a c"

lemma keyed_values:
  "grid_keyed g \<Longrightarrow> b \<in> set (bt_values (grd_blocks g)) \<longleftrightarrow> bt_get (grd_blocks g) (blk_block_id b) = Some b"
  by (auto simp: bt_in_values_iff grid_keyed_def)

lemma visit_neighbors_found:
  "visit_neighbors b blocks visited = (visited', found) \<Longrightarrow>
     set found = {blk_block_id d |d. d \<in> set blocks \<and> conveyor_block d
       \<and> manhattan_distance (blk_coordinate b) (blk_coordinate d) = 1} - dom (bt_get visited)"
proof (induction blocks arbitrary: visited visited' found)
  case (Cons neighbor blocks)
  let ?skip = "\<not> conveyor_block neighbor \<or> manhattan_distance (blk_coordinate b) (blk_coordinate neighbor) \<noteq> 1
      \<or> bt_contains visited (blk_block_id neighbor)"
  show ?case
  proof (cases ?skip)
    case True
    with Cons.prems have "visit_neighbors b blocks visited = (visited', found)" by auto
    from Cons.IH [OF this] True show ?thesis by (auto simp: bt_contains_def)
  next
    case False
    with Cons.prems obtain found' where f: "found = blk_block_id neighbor # found'"
      "visit_neighbors b blocks (bt_insert (blk_block_id neighbor) () visited) = (visited', found')"
      by (auto split: prod.splits)
    from False Cons.IH [OF f(2)] f(1) show ?thesis
      by (auto simp: bt_contains_def dom_def split: if_splits)
  qed
qed simp

section \<open>The search\<close>

text \<open>
  What has been visited and left the frontier is not the target and leads only to visited blocks, so
  every way to the target from a visited block passes the frontier.
\<close>

definition explored :: "grid \<Rightarrow> string \<Rightarrow> string list \<Rightarrow> string btree_set \<Rightarrow> bool" where
  "explored g target frontier visited \<longleftrightarrow>
     set frontier \<subseteq> dom (bt_get visited) \<and> dom (bt_get visited) \<subseteq> dom (bt_get (grd_blocks g))
     \<and> (\<forall>x \<in> dom (bt_get visited) - set frontier. x \<noteq> target \<and> (\<forall>y. conveyor_step g x y \<longrightarrow> y \<in> dom (bt_get visited)))"

lemma explored_escape:
  assumes "(conveyor_step g)\<^sup>*\<^sup>* x target" and "explored g target frontier visited" and "x \<in> dom (bt_get visited)"
  shows "\<exists>z \<in> set frontier. (conveyor_step g)\<^sup>*\<^sup>* z target"
  using assms
proof (induction rule: converse_rtranclp_induct)
  case base
  then show ?case by (auto simp: explored_def)
next
  case (step x y)
  show ?case
  proof (cases "x \<in> set frontier")
    case True
    with step.hyps show ?thesis by (meson converse_rtranclp_into_rtranclp)
  next
    case False
    with step.prems step.hyps(1) have "y \<in> dom (bt_get visited)" unfolding explored_def by blast
    with step.IH step.prems show ?thesis by blast
  qed
qed

lemma explored_visit:
  assumes "grid_keyed g" and "explored g target (block_id # frontier) visited" and "block_id \<noteq> target"
    and "bt_get (grd_blocks g) block_id = Some b"
    and "visit_neighbors b (bt_values (grd_blocks g)) visited = (visited', found)"
  shows "explored g target (frontier @ found) visited'"
    and "set found \<subseteq> {y. conveyor_step g block_id y}" and "block_id \<in> dom (bt_get visited')"
proof -
  have succ: "conveyor_step g block_id y \<longleftrightarrow> y \<in> {blk_block_id d |d. d \<in> set (bt_values (grd_blocks g))
      \<and> conveyor_block d \<and> manhattan_distance (blk_coordinate b) (blk_coordinate d) = 1}" for y
    using assms(1,4) by (auto simp: conveyor_step_simps keyed_values grid_keyed_def bt_in_values_iff)
  have found: "set found = {y. conveyor_step g block_id y} - dom (bt_get visited)"
    using visit_neighbors_found [OF assms(5)] succ by auto
  have visited: "dom (bt_get visited') = dom (bt_get visited) \<union> set found"
    using visit_neighbors_visited [OF assms(5)] by blast
  from found show "set found \<subseteq> {y. conveyor_step g block_id y}" by blast
  from assms(2) visited show "block_id \<in> dom (bt_get visited')" by (auto simp: explored_def)
  have keys: "set found \<subseteq> dom (bt_get (grd_blocks g))" using found by (auto elim!: conveyor_step.cases)
  have reached: "x = block_id \<or> x \<in> dom (bt_get visited) - set (block_id # frontier)"
    if "x \<in> dom (bt_get visited') - set (frontier @ found)" for x
    using that visited by auto
  have "x \<noteq> target \<and> (\<forall>y. conveyor_step g x y \<longrightarrow> y \<in> dom (bt_get visited'))"
    if "x \<in> dom (bt_get visited') - set (frontier @ found)" for x
    using reached [OF that]
  proof
    assume "x = block_id"
    with assms(3) found visited show ?thesis by blast
  next
    assume "x \<in> dom (bt_get visited) - set (block_id # frontier)"
    with assms(2) visited show ?thesis unfolding explored_def by blast
  qed
  moreover have "set (frontier @ found) \<subseteq> dom (bt_get visited')" "dom (bt_get visited') \<subseteq> dom (bt_get (grd_blocks g))"
    using assms(2) visited keys by (auto simp: explored_def)
  ultimately show "explored g target (frontier @ found) visited'" unfolding explored_def by blast
qed

lemma search_route_iff:
  assumes "grid_keyed g" and "explored g target frontier visited"
  shows "search_route g target frontier visited \<longleftrightarrow> (\<exists>z \<in> set frontier. (conveyor_step g)\<^sup>*\<^sup>* z target)"
  using assms
proof (induction g target frontier visited rule: search_route.induct)
  case (2 g target block_id frontier visited)
  show ?case
  proof (cases "block_id = target")
    case False
    from 2(3) obtain b where b: "bt_get (grd_blocks g) block_id = Some b"
      unfolding explored_def by (metis domD insert_subset list.simps(15) subsetD)
    obtain visited' found where v: "visit_neighbors b (bt_values (grd_blocks g)) visited = (visited', found)"
      by fastforce
    note e = explored_visit [OF 2(2,3) False b v]
    have "search_route g target (block_id # frontier) visited = search_route g target (frontier @ found) visited'"
      using False b v by simp
    also have "\<dots> \<longleftrightarrow> (\<exists>z \<in> set (frontier @ found). (conveyor_step g)\<^sup>*\<^sup>* z target)"
      using 2(1) [OF False b v [symmetric] refl 2(2) e(1)] .
    also have "\<dots> \<longleftrightarrow> (\<exists>z \<in> set (block_id # frontier). (conveyor_step g)\<^sup>*\<^sup>* z target)" (is "?l \<longleftrightarrow> ?r")
    proof
      assume ?l
      then show ?r using e(2) by (auto intro: converse_rtranclp_into_rtranclp)
    next
      assume ?r
      then show ?l using explored_escape [OF _ e(1) e(3)] by auto
    qed
    finally show ?thesis .
  qed auto
qed simp

section \<open>Routes\<close>

lemma block_grid_Some:
  "block_grid w m = Some (g, b) \<Longrightarrow> g \<in> set (bt_values (wst_grids w)) \<and> bt_get (grd_blocks g) m = Some b"
proof -
  have "find_map (\<lambda>g. map_option (Pair g) (bt_get (grd_blocks g) m)) gs = Some (g, b) \<Longrightarrow>
      g \<in> set gs \<and> bt_get (grd_blocks g) m = Some b" for gs
    by (induction gs) (auto split: option.splits)
  then show "block_grid w m = Some (g, b) \<Longrightarrow> ?thesis" by (auto simp: block_grid_def)
qed

lemma route_iff_path:
  assumes "grids_keyed w"
  shows "production_route_exists w m i \<longleftrightarrow>
     (\<exists>g b g' c. block_grid w m = Some (g, b) \<and> conveyor_block b
        \<and> cargo_block_for_inventory w i = Some (g', c) \<and> grd_grid_id g' = grd_grid_id g
        \<and> (conveyor_step g)\<^sup>*\<^sup>* m (blk_block_id c))"
proof (cases "block_grid w m")
  case (Some gb)
  obtain g b where gb: "gb = (g, b)" by fastforce
  from Some gb block_grid_Some [of w m g b] assms
  have g: "grid_keyed g" "bt_get (grd_blocks g) m = Some b" "blk_block_id b = m"
    by (auto simp: grids_keyed_def grid_keyed_def)
  have "explored g t [m] (bt_insert m () bt_empty)" for t
    using g(2) by (auto simp: explored_def split: if_splits)
  from search_route_iff [OF g(1) this] Some gb g(3) show ?thesis
    by (auto simp: production_route_exists_def split: option.splits)
qed (simp add: production_route_exists_def)

end
