(* ===== verification/GridComponents.thy ===== *)
theory GridComponents
  imports GridSplit ConveyorRoutes
begin

text \<open>
  A grid splits into the connected components of its blocks: every block is kept in exactly one of the
  fragments, and two blocks stay together exactly when a chain of touching blocks links them.
\<close>

section \<open>Touching coordinates\<close>

fun i32_coordinate :: "ivec3 \<Rightarrow> bool" where
  "i32_coordinate (x, y, z) \<longleftrightarrow> in_i32 x \<and> in_i32 y \<and> in_i32 z"

definition linked :: "ivec3 set \<Rightarrow> ivec3 \<Rightarrow> ivec3 \<Rightarrow> bool" where
  "linked S a b \<longleftrightarrow> a \<in> S \<and> b \<in> S \<and> b \<in> set (neighbors a)"

abbreviation connected :: "ivec3 set \<Rightarrow> ivec3 \<Rightarrow> ivec3 \<Rightarrow> bool" where
  "connected S \<equiv> (linked S)\<^sup>*\<^sup>*"

lemma wrap_i32_id [simp]: "in_i32 v \<Longrightarrow> wrap_i32 v = v"
  by (simp add: wrap_i32_def in_i32_def)

lemma wrap_i32_step: "in_i32 x \<Longrightarrow> wrap_i32 (wrap_i32 (x + k) - k) = x"
  by (simp add: wrap_i32_def in_i32_def mod_simps)

lemma wrap_i32_back:
  assumes "in_i32 x"
  shows "wrap_i32 (wrap_i32 (x + 1) - 1) = x" "wrap_i32 (wrap_i32 (x - 1) + 1) = x"
  using wrap_i32_step [OF assms, of 1] wrap_i32_step [OF assms, of "- 1"] by simp_all

lemma neighbors_sym: "i32_coordinate a \<Longrightarrow> b \<in> set (neighbors a) \<Longrightarrow> a \<in> set (neighbors b)"
  by (cases a; cases b) (auto simp: wrap_i32_back)

lemma linked_sym: "Ball S i32_coordinate \<Longrightarrow> linked S a b \<Longrightarrow> linked S b a"
  by (auto simp: linked_def intro: neighbors_sym)

lemma connected_sym:
  assumes "Ball S i32_coordinate" and "connected S a b"
  shows "connected S b a"
  using assms(2)
proof (induction rule: rtranclp_induct)
  case (step b c)
  then show ?case using linked_sym [OF assms(1)] by (meson converse_rtranclp_into_rtranclp)
qed simp

lemma connected_closed:
  assumes "connected S a b" and "a \<in> C" and "\<And>x y. x \<in> C \<Longrightarrow> linked S x y \<Longrightarrow> y \<in> C"
  shows "b \<in> C"
  using assms(1,2) by (induction rule: rtranclp_induct) (auto intro: assms(3))

section \<open>Flooding\<close>

definition bt_dom :: "('k::linorder, 'v) btree_map \<Rightarrow> 'k set" where
  "bt_dom m = dom (bt_get m)"

lemma bt_dom_simps [simp]:
  "bt_dom bt_empty = {}"
  "bt_dom (bt_insert k v m) = insert k (bt_dom m)"
  "bt_dom (bt_remove k m) = bt_dom m - {k}"
  "bt_contains m k \<longleftrightarrow> k \<in> bt_dom m"
  "set (bt_keys m) = bt_dom m"
  by (auto simp: bt_dom_def bt_contains_def bt_in_keys_iff split: if_splits)

lemma take_neighbors_spec:
  "take_neighbors ns remaining = (remaining', found) \<Longrightarrow>
     bt_dom remaining' = bt_dom remaining - set ns \<and> set found = set ns \<inter> bt_dom remaining"
proof (induction ns arbitrary: remaining remaining' found)
  case (Cons n ns)
  show ?case
  proof (cases "bt_contains remaining n")
    case True
    with Cons.prems obtain found' where
      f: "take_neighbors ns (bt_remove n remaining) = (remaining', found')" "found = n # found'"
      by (auto split: prod.splits)
    from Cons.IH [OF f(1)] f(2) True show ?thesis by auto
  next
    case False
    with Cons.prems have "take_neighbors ns remaining = (remaining', found)" by simp
    from Cons.IH [OF this] False show ?thesis by auto
  qed
qed simp

lemma flood_partition:
  assumes "flood queue remaining component = (remaining', component')"
  shows "bt_dom component' \<union> bt_dom remaining'
      = bt_dom component \<union> set queue \<union> bt_dom remaining"
    and "(bt_dom component \<union> set queue) \<inter> bt_dom remaining = {} \<Longrightarrow>
      bt_dom component' \<inter> bt_dom remaining' = {}"
    and "bt_dom component \<union> set queue \<subseteq> bt_dom component'"
  using assms
proof (induction queue remaining component rule: flood.induct)
  case (2 coordinate queue remaining component)
  obtain r found where t: "take_neighbors (neighbors coordinate) remaining = (r, found)" by fastforce
  note spec = take_neighbors_spec [OF t]
  { case 1
    from 1 t have "flood (queue @ found) r (bt_insert coordinate () component) = (remaining', component')"
      by (simp add: flood.simps(2))
    from 2(1) [OF t [symmetric] refl this] spec show ?case by auto
  next
    case 2
    from 2(2) t have "flood (queue @ found) r (bt_insert coordinate () component) = (remaining', component')"
      by (simp add: flood.simps(2))
    from "2.IH"(2) [OF t [symmetric] refl _ this] spec 2(1) show ?case by auto
  next
    case 3
    from 3 t have "flood (queue @ found) r (bt_insert coordinate () component) = (remaining', component')"
      by (simp add: flood.simps(2))
    from "2.IH"(3) [OF t [symmetric] refl this] show ?case by auto }
qed auto

lemma flood_connected:
  assumes "flood queue remaining component = (remaining', component')"
    and "set queue \<subseteq> S" and "bt_dom remaining \<subseteq> S" and "c \<in> bt_dom component'"
  shows "c \<in> bt_dom component \<or> (\<exists>s \<in> set queue. connected S s c)"
  using assms
proof (induction queue remaining component rule: flood.induct)
  case (2 coordinate queue remaining component)
  obtain r found where t: "take_neighbors (neighbors coordinate) remaining = (r, found)" by fastforce
  note spec = take_neighbors_spec [OF t]
  from 2(2) t have f: "flood (queue @ found) r (bt_insert coordinate () component) = (remaining', component')"
    by (simp add: flood.simps(2))
  have link: "connected S coordinate y" if "x \<in> set found" "connected S x y" for x y
  proof -
    have "linked S coordinate x" using that(1) spec 2(3,4) by (auto simp: linked_def)
    with that(2) show ?thesis by (rule_tac converse_rtranclp_into_rtranclp)
  qed
  have "set (queue @ found) \<subseteq> S" "bt_dom r \<subseteq> S" using spec 2(3,4) by auto
  from 2(1) [OF t [symmetric] refl f this 2(5)] show ?case
    using link by (simp only: bt_dom_simps set_append list.set) blast
qed simp

lemma flood_closed:
  assumes "flood queue remaining component = (remaining', component')"
    and "\<forall>c \<in> bt_dom component. set (neighbors c) \<inter> bt_dom remaining = {}"
  shows "\<forall>c \<in> bt_dom component'. set (neighbors c) \<inter> bt_dom remaining' = {}"
  using assms
proof (induction queue remaining component rule: flood.induct)
  case (2 coordinate queue remaining component)
  obtain r found where t: "take_neighbors (neighbors coordinate) remaining = (r, found)" by fastforce
  note spec = take_neighbors_spec [OF t]
  from 2(2) t have f: "flood (queue @ found) r (bt_insert coordinate () component) = (remaining', component')"
    by (simp add: flood.simps(2))
  show ?case
  proof (rule 2(1) [OF t [symmetric] refl f])
    show "\<forall>c \<in> bt_dom (bt_insert coordinate () component). set (neighbors c) \<inter> bt_dom r = {}"
      using spec 2(3) by simp blast
  qed
qed simp

section \<open>Components\<close>

definition components_of :: "ivec3 set \<Rightarrow> ivec3 set \<Rightarrow> ivec3 btree_set list \<Rightarrow> bool" where
  "components_of S R comps \<longleftrightarrow>
     (\<Union>c \<in> set comps. bt_dom c) = R
     \<and> (\<forall>c \<in> set comps. bt_dom c \<noteq> {} \<and> (\<forall>a \<in> bt_dom c. \<forall>b. connected S a b \<longleftrightarrow> b \<in> bt_dom c))
     \<and> distinct comps"

lemma flood_components_spec:
  assumes "Ball S i32_coordinate" and "bt_dom remaining \<subseteq> S"
    and "\<forall>a \<in> bt_dom remaining. \<forall>b. linked S a b \<longrightarrow> b \<in> bt_dom remaining"
  shows "components_of S (bt_dom remaining) (flood_components remaining)"
  using assms
proof (induction remaining rule: flood_components.induct)
  case (1 remaining)
  show ?case
  proof (cases "bt_keys remaining")
    case Nil
    then have "bt_dom remaining = {}" by (metis bt_dom_simps(5) list.set(1))
    with Nil show ?thesis by (simp add: components_of_def flood_components.simps)
  next
    case (Cons start rest)
    obtain r c where f: "flood [start] (bt_remove start remaining) bt_empty = (r, c)" by fastforce
    from Cons have start: "start \<in> bt_dom remaining" by (metis bt_dom_simps(5) list.set_intros(1))
    note p = flood_partition [OF f]
    have part: "bt_dom c \<union> bt_dom r = bt_dom remaining"
      "bt_dom c \<inter> bt_dom r = {}" "start \<in> bt_dom c"
      using p start by auto
    have closed: "linked S a b \<Longrightarrow> a \<in> bt_dom c \<Longrightarrow> b \<in> bt_dom c" for a b
    proof -
      assume l: "linked S a b" "a \<in> bt_dom c"
      then have "b \<in> bt_dom remaining" using 1(4) part by blast
      moreover have "b \<notin> bt_dom r" using flood_closed [OF f] l by (auto simp: linked_def)
      ultimately show ?thesis using part by blast
    qed
    have closed': "linked S a b \<Longrightarrow> a \<in> bt_dom r \<Longrightarrow> b \<in> bt_dom r" for a b
      using 1(4) part closed [of b a] linked_sym [OF 1(2), of a b] by blast
    have reach: "connected S start a" if "a \<in> bt_dom c" for a
      using flood_connected [OF f, of S a] that start 1(3) by auto
    have conn: "connected S a b \<longleftrightarrow> b \<in> bt_dom c" if a: "a \<in> bt_dom c" for a b
      using connected_closed [of S a b, OF _ a closed] reach [of b] connected_sym [OF 1(2) reach [OF a]] by (meson rtranclp_trans)
    have ih: "components_of S (bt_dom r) (flood_components r)"
      using 1(1) [OF Cons f [symmetric] refl 1(2)] part(1) 1(3) closed' by blast
    have "flood_components remaining = c # flood_components r"
      using Cons f by (subst flood_components.simps) simp
    moreover have "c \<notin> set (flood_components r)" using ih part unfolding components_of_def by fastforce
    ultimately show ?thesis using ih part conn unfolding components_of_def by auto
  qed
qed

end
