(* ===== verification/GridPartition.thy ===== *)
theory GridPartition
  imports GridComponents
begin

text \<open>What the fragments of a split grid hold.\<close>

section \<open>Well-formed grids\<close>

definition coordinates :: "grid \<Rightarrow> ivec3 set" where
  "coordinates g = blk_coordinate ` set (bt_values (grd_blocks g))"

definition grid_ok :: "grid \<Rightarrow> bool" where
  "grid_ok g \<longleftrightarrow> grid_keyed g \<and> Ball (coordinates g) i32_coordinate
     \<and> inj_on blk_coordinate (set (bt_values (grd_blocks g)))"

lemma grid_okD:
  assumes "grid_ok g" and "bt_get (grd_blocks g) k = Some b"
  shows "blk_block_id b = k" "blk_coordinate b \<in> coordinates g" "i32_coordinate (blk_coordinate b)"
    and "bt_get (grd_blocks g) j = Some c \<Longrightarrow> blk_coordinate c = blk_coordinate b \<Longrightarrow> c = b \<and> j = k"
proof -
  have keyed: "bt_get (grd_blocks g) i = Some d \<Longrightarrow> blk_block_id d = i" for i d
    using assms(1) by (simp add: grid_ok_def grid_keyed_def)
  have among: "bt_get (grd_blocks g) i = Some d \<Longrightarrow> d \<in> set (bt_values (grd_blocks g))" for i d
    by (auto simp: bt_in_values_iff)
  show "blk_block_id b = k" using keyed assms(2) .
  show "blk_coordinate b \<in> coordinates g" using among [OF assms(2)] by (simp add: coordinates_def)
  with assms(1) show "i32_coordinate (blk_coordinate b)" by (simp add: grid_ok_def)
  show "c = b \<and> j = k" if c: "bt_get (grd_blocks g) j = Some c" "blk_coordinate c = blk_coordinate b"
  proof -
    from assms(1) among [OF c(1)] among [OF assms(2)] c(2) have "c = b" by (simp add: grid_ok_def inj_on_def)
    with keyed [OF c(1)] keyed [OF assms(2)] show ?thesis by simp
  qed
qed

section \<open>Collected maps\<close>

lemma bt_get_collect: "bt_get (bt_collect xs) = map_of (rev xs)"
  by (induction xs rule: rev_induct) (auto simp: bt_collect_def fun_eq_iff)

lemma bt_get_collect_iff:
  assumes "\<And>v v'. (k, v) \<in> set xs \<Longrightarrow> (k, v') \<in> set xs \<Longrightarrow> v = v'"
  shows "bt_get (bt_collect xs) k = Some v \<longleftrightarrow> (k, v) \<in> set xs"
proof
  assume "(k, v) \<in> set xs"
  then have "k \<in> fst ` set (rev xs)" by force
  then obtain v' where "map_of (rev xs) k = Some v'" by (metis map_of_eq_None_iff option.exhaust set_map)
  moreover from this have "(k, v') \<in> set xs" by (auto dest: map_of_SomeD)
  ultimately show "bt_get (bt_collect xs) k = Some v"
    using assms [OF \<open>(k, v) \<in> set xs\<close>] by (auto simp: bt_get_collect)
qed (auto simp: bt_get_collect dest: map_of_SomeD)

lemma bt_dom_collect: "bt_dom (bt_collect xs) = fst ` set xs"
  by (auto simp: bt_dom_def bt_get_collect dom_map_of_conv_image_fst)

lemma set_map_filter: "set (List.map_filter f xs) = {y. \<exists>x \<in> set xs. f x = Some y}"
  by (induction xs) (auto simp: List.map_filter_simps split: option.splits)

abbreviation by_coordinate :: "grid \<Rightarrow> (ivec3, string) btree_map" where
  "by_coordinate g \<equiv> bt_collect (map (\<lambda>b. (blk_coordinate b, blk_block_id b)) (bt_values (grd_blocks g)))"

lemma bt_get_by_coordinate:
  assumes "grid_ok g"
  shows "bt_get (by_coordinate g) c = Some k \<longleftrightarrow> (\<exists>b. bt_get (grd_blocks g) k = Some b \<and> blk_coordinate b = c)"
proof -
  have "bt_get (by_coordinate g) c = Some k \<longleftrightarrow>
      (c, k) \<in> set (map (\<lambda>b. (blk_coordinate b, blk_block_id b)) (bt_values (grd_blocks g)))"
    by (rule bt_get_collect_iff) (use assms in \<open>auto simp: grid_ok_def inj_on_def\<close>)
  also have "\<dots> \<longleftrightarrow> (\<exists>b. bt_get (grd_blocks g) k = Some b \<and> blk_coordinate b = c)"
    using assms by (fastforce simp: bt_in_values_iff grid_ok_def grid_keyed_def)
  finally show ?thesis .
qed

lemma bt_get_component_blocks:
  assumes "grid_ok g"
  shows "bt_get (component_blocks g (by_coordinate g) c) k = Some b \<longleftrightarrow>
    bt_get (grd_blocks g) k = Some b \<and> blk_coordinate b \<in> bt_dom c"
proof -
  let ?xs = "List.map_filter (\<lambda>coordinate. Option.bind (bt_get (by_coordinate g) coordinate) (\<lambda>block_id.
      map_option (Pair block_id) (bt_get (grd_blocks g) block_id))) (bt_keys c)"
  have mem: "(j, d) \<in> set ?xs \<longleftrightarrow> bt_get (grd_blocks g) j = Some d \<and> blk_coordinate d \<in> bt_dom c" for j d
    by (auto simp: set_map_filter bind_eq_Some_conv bt_get_by_coordinate [OF assms])
  show ?thesis unfolding component_blocks_def by (subst bt_get_collect_iff) (auto simp: mem)
qed

section \<open>Fragments\<close>

lemma insert_fragments_other:
  "(\<And>n. n < length components \<Longrightarrow> ids (i + n) \<noteq> k) \<Longrightarrow>
     bt_get (insert_fragments ids fragment i components grids) k = bt_get grids k"
proof (induction components arbitrary: i grids)
  case (Cons c components)
  have "ids (Suc i + n) \<noteq> k" if "n < length components" for n using Cons.prems [of "Suc n"] that by simp
  moreover have "ids i \<noteq> k" using Cons.prems [of 0] by simp
  ultimately show ?case using Cons.IH [of "Suc i"] by simp
qed simp

lemma insert_fragments_at:
  "inj ids \<Longrightarrow> n < length components \<Longrightarrow>
     bt_get (insert_fragments ids fragment i components grids) (ids (i + n)) = Some (fragment (i + n) (components ! n))"
proof (induction components arbitrary: i n grids)
  case (Cons c components)
  show ?case
  proof (cases n)
    case 0
    have "bt_get (insert_fragments ids fragment (Suc i) components (bt_insert (ids i) (fragment i c) grids)) (ids i)
        = bt_get (bt_insert (ids i) (fragment i c) grids) (ids i)"
      by (rule insert_fragments_other) (use Cons.prems(1) in \<open>auto dest: injD\<close>)
    with 0 show ?thesis by simp
  next
    case (Suc m)
    with Cons.IH [of m "Suc i"] Cons.prems show ?thesis by simp
  qed
qed simp

lemma show_nat_inj: "show_nat m = show_nat n \<Longrightarrow> m = n"
  by (metis option.inject parse_digits_show_nat)

lemma split_grid_id_inj: "inj (split_grid_id g event_sequence primary)"
  by (rule injI) (auto simp: split_grid_id_def dest: show_nat_inj split: if_splits)

lemma split_grid_id_primary [simp]: "split_grid_id g event_sequence p p = grd_grid_id g"
  by (simp add: split_grid_id_def)

lemma position_Some: "position P xs = Some i \<Longrightarrow> i < length xs \<and> P (xs ! i)"
  by (induction xs arbitrary: i) (auto split: if_splits)

lemma position_None: "position P xs = None \<longleftrightarrow> (\<forall>x \<in> set xs. \<not> P x)"
  by (induction xs) auto

lemma component_has_core_iff:
  "grid_ok g \<Longrightarrow> component_has_core g (by_coordinate g) c \<longleftrightarrow>
     (\<exists>k b. bt_get (grd_blocks g) k = Some b \<and> blk_coordinate b \<in> bt_dom c \<and> blk_kind b = BlkControlCore)"
proof -
  assume ok: "grid_ok g"
  have core: "(case Option.bind (bt_get (by_coordinate g) coordinate) (bt_get (grd_blocks g)) of
          Some b \<Rightarrow> blk_kind b = BlkControlCore | None \<Rightarrow> False) \<longleftrightarrow>
      (\<exists>k b. bt_get (grd_blocks g) k = Some b \<and> blk_coordinate b = coordinate \<and> blk_kind b = BlkControlCore)"
    (is "?l \<longleftrightarrow> ?r") for coordinate
  proof
    assume ?l
    then obtain b where b: "Option.bind (bt_get (by_coordinate g) coordinate) (bt_get (grd_blocks g)) = Some b"
      "blk_kind b = BlkControlCore"
      by (cases "Option.bind (bt_get (by_coordinate g) coordinate) (bt_get (grd_blocks g))") simp_all
    from b(1) obtain k where k: "bt_get (by_coordinate g) coordinate = Some k" "bt_get (grd_blocks g) k = Some b"
      unfolding bind_eq_Some_conv by blast
    from k(1) obtain d where "bt_get (grd_blocks g) k = Some d" "blk_coordinate d = coordinate"
      unfolding bt_get_by_coordinate [OF ok] by blast
    with b(2) k(2) show ?r by (metis option.inject)
  next
    assume ?r
    then obtain k b where b: "bt_get (grd_blocks g) k = Some b" "blk_coordinate b = coordinate"
      "blk_kind b = BlkControlCore" by blast
    then have "bt_get (by_coordinate g) coordinate = Some k" using bt_get_by_coordinate [OF ok] by blast
    with b show ?l by simp
  qed
  show ?thesis unfolding component_has_core_def list_ex_iff core bt_dom_simps by blast
qed

text \<open>The components of a grid as the split computes them, with the place of the one that keeps the identity.\<close>

definition grid_components :: "grid \<Rightarrow> ivec3 btree_set list" where
  "grid_components g = sort_key (\<lambda>component. hd (bt_keys component))
     (flood_components (bt_collect (map (\<lambda>coordinate. (coordinate, ())) (bt_keys (by_coordinate g)))))"

definition primary_component :: "grid \<Rightarrow> nat" where
  "primary_component g = (case position (component_has_core g (by_coordinate g)) (grid_components g) of
     Some i \<Rightarrow> i | None \<Rightarrow> 0)"

definition grid_fragment :: "world_physics \<Rightarrow> voxel_field \<Rightarrow> grid \<Rightarrow> u64 \<Rightarrow> nat \<Rightarrow> ivec3 btree_set \<Rightarrow> grid" where
  "grid_fragment ph voxels g event_sequence index component =
     split_fragment ph voxels g (1 < length (grid_components g)) (index = primary_component g)
       (split_grid_id g event_sequence (primary_component g) index) (component_blocks g (by_coordinate g) component)"

lemma grid_components_spec:
  assumes "grid_ok g"
  shows "components_of (coordinates g) (coordinates g) (grid_components g)"
proof -
  have "bt_dom (bt_collect (map (\<lambda>coordinate. (coordinate, ())) (bt_keys (by_coordinate g)))) = coordinates g"
    by (auto simp: bt_dom_collect coordinates_def image_image)
  then have "components_of (coordinates g) (coordinates g)
      (flood_components (bt_collect (map (\<lambda>coordinate. (coordinate, ())) (bt_keys (by_coordinate g)))))"
    using flood_components_spec [of "coordinates g"
        "bt_collect (map (\<lambda>coordinate. (coordinate, ())) (bt_keys (by_coordinate g)))"] assms
    by (auto simp: grid_ok_def linked_def)
  then show ?thesis unfolding components_of_def grid_components_def by simp
qed

lemma split_fragment_fields [simp]:
  "grd_blocks (split_fragment ph voxels g d p i blocks) = blocks"
  "grd_grid_id (split_fragment ph voxels g d p i blocks) = i"
  "grd_owner_player_id (split_fragment ph voxels g d p i blocks) = grd_owner_player_id g"
  by (simp_all add: split_fragment_def Let_def)

lemma split_disconnected_grid_Inr:
  assumes "bt_get (wst_grids w) (grd_grid_id g) = Some g" and "bt_values (grd_blocks g) \<noteq> []"
    and "split_disconnected_grid ph (grd_grid_id g) event_sequence w = Inr w'"
  shows "w' = w\<lparr>wst_grids := insert_fragments (split_grid_id g event_sequence (primary_component g))
      (grid_fragment ph (wst_voxels w) g event_sequence) 0 (grid_components g) (bt_remove (grd_grid_id g) (wst_grids w))\<rparr>"
    and "\<And>i. i < length (grid_components g) \<Longrightarrow> i \<noteq> primary_component g \<Longrightarrow>
      bt_get (wst_grids w) (split_grid_id g event_sequence (primary_component g) i) = None"
proof -
  let ?ids = "split_grid_id g event_sequence (primary_component g)"
  from assms(1,2) have "split_disconnected_grid ph (grd_grid_id g) event_sequence w =
    (if list_ex (\<lambda>i. i \<noteq> primary_component g \<and> bt_contains (wst_grids w) (?ids i)) [0..<length (grid_components g)]
     then Inl (Rejected ''replay_grid_split_identity_duplicate'')
     else Inr (w\<lparr>wst_grids := insert_fragments ?ids (grid_fragment ph (wst_voxels w) g event_sequence) 0
       (grid_components g) (bt_remove (grd_grid_id g) (wst_grids w))\<rparr>))"
    unfolding split_disconnected_grid_def assms(1) ok_or_simps try_r_simps Let_def grid_components_def [symmetric]
      primary_component_def [symmetric]
    by (simp only: if_False grid_fragment_def [abs_def])
  with assms(3) have *: "\<not> list_ex (\<lambda>i. i \<noteq> primary_component g \<and> bt_contains (wst_grids w) (?ids i)) [0..<length (grid_components g)]"
    and "w' = w\<lparr>wst_grids := insert_fragments ?ids (grid_fragment ph (wst_voxels w) g event_sequence) 0 (grid_components g)
       (bt_remove (grd_grid_id g) (wst_grids w))\<rparr>"
    by (simp_all split: if_splits)
  then show "w' = w\<lparr>wst_grids := insert_fragments ?ids (grid_fragment ph (wst_voxels w) g event_sequence) 0 (grid_components g)
       (bt_remove (grd_grid_id g) (wst_grids w))\<rparr>"
    by blast
  show "bt_get (wst_grids w) (?ids i) = None" if "i < length (grid_components g)" "i \<noteq> primary_component g" for i
    using * that by (auto simp: list_ex_iff bt_contains_def simp del: bt_dom_simps)
qed

end
