(* ===== verification/GridProperties.thy ===== *)
theory GridProperties
  imports GridPartition
begin

text \<open>The property of the splitting of grids, and what damage leaves of a grid.\<close>

text \<open>Where the fragments of a grid can be: under its own identity or under one that was free.\<close>

definition fragment_keys :: "world_state \<Rightarrow> grid \<Rightarrow> string set" where
  "fragment_keys w g = {k. k = grd_grid_id g \<or> bt_get (wst_grids w) k = None}"

definition in_fragment :: "world_state \<Rightarrow> grid \<Rightarrow> world_state \<Rightarrow> string \<Rightarrow> string \<Rightarrow> block \<Rightarrow> bool" where
  "in_fragment w g w' k j b \<longleftrightarrow> k \<in> fragment_keys w g
     \<and> (\<exists>f. bt_get (wst_grids w') k = Some f \<and> bt_get (grd_blocks f) j = Some b)"

lemma primary_component_bound:
  assumes "grid_ok g" and "bt_values (grd_blocks g) \<noteq> []"
  shows "primary_component g < length (grid_components g)"
proof -
  have "coordinates g \<noteq> {}" using assms(2) by (auto simp: coordinates_def)
  then have "grid_components g \<noteq> []" using grid_components_spec [OF assms(1)] by (auto simp: components_of_def)
  then show ?thesis by (auto simp: primary_component_def split: option.splits dest: position_Some)
qed

lemma fragment_iff:
  assumes "grid_ok g" and "bt_get (wst_grids w) (grd_grid_id g) = Some g" and "bt_values (grd_blocks g) \<noteq> []"
    and "split_disconnected_grid ph (grd_grid_id g) e w = Inr w'"
  shows "k \<in> fragment_keys w g \<Longrightarrow> bt_get (wst_grids w') k = Some f \<longleftrightarrow>
      (\<exists>i < length (grid_components g). k = split_grid_id g e (primary_component g) i
         \<and> f = grid_fragment ph (wst_voxels w) g e i (grid_components g ! i))"
    and "k \<notin> fragment_keys w g \<Longrightarrow> bt_get (wst_grids w') k = bt_get (wst_grids w) k"
    and "i < length (grid_components g) \<Longrightarrow> split_grid_id g e (primary_component g) i \<in> fragment_keys w g"
proof -
  let ?ids = "split_grid_id g e (primary_component g)"
  note s = split_disconnected_grid_Inr [OF assms(2,3,4)]
  have at: "bt_get (wst_grids w') (?ids i) = Some (grid_fragment ph (wst_voxels w) g e i (grid_components g ! i))"
    if "i < length (grid_components g)" for i
    using insert_fragments_at [OF split_grid_id_inj that, of g e "primary_component g" "grid_fragment ph (wst_voxels w) g e" 0]
    by (simp add: s(1))
  show keys: "?ids i \<in> fragment_keys w g" if "i < length (grid_components g)" for i
    using s(2) [OF that] by (cases "i = primary_component g") (auto simp: fragment_keys_def)
  have other: "bt_get (wst_grids w') k = bt_get (bt_remove (grd_grid_id g) (wst_grids w)) k"
    if "\<And>i. i < length (grid_components g) \<Longrightarrow> ?ids i \<noteq> k" for k
    using insert_fragments_other [of "grid_components g" ?ids 0 k] that by (simp add: s(1))
  show "bt_get (wst_grids w') k = bt_get (wst_grids w) k" if "k \<notin> fragment_keys w g" for k
  proof -
    have "?ids i \<noteq> k" if "i < length (grid_components g)" for i using keys [OF that] \<open>k \<notin> _\<close> by auto
    from other [OF this] that show ?thesis by (auto simp: fragment_keys_def)
  qed
  show "bt_get (wst_grids w') k = Some f \<longleftrightarrow> (\<exists>i < length (grid_components g). k = ?ids i
      \<and> f = grid_fragment ph (wst_voxels w) g e i (grid_components g ! i))" if "k \<in> fragment_keys w g" for k f
  proof
    assume some: "bt_get (wst_grids w') k = Some f"
    show "\<exists>i < length (grid_components g). k = ?ids i \<and> f = grid_fragment ph (wst_voxels w) g e i (grid_components g ! i)"
    proof (rule ccontr)
      assume none: "\<not> ?thesis"
      have "?ids i \<noteq> k" if "i < length (grid_components g)" for i using none at [OF that] some that by auto
      from other [OF this] that some show False by (auto simp: fragment_keys_def split: if_splits)
    qed
  qed (use at in auto)
qed

lemma in_fragment_iff:
  assumes "grid_ok g" and "bt_get (wst_grids w) (grd_grid_id g) = Some g" and "bt_values (grd_blocks g) \<noteq> []"
    and "split_disconnected_grid ph (grd_grid_id g) e w = Inr w'"
  shows "in_fragment w g w' k j b \<longleftrightarrow> (\<exists>i < length (grid_components g). k = split_grid_id g e (primary_component g) i
      \<and> bt_get (grd_blocks g) j = Some b \<and> blk_coordinate b \<in> bt_dom (grid_components g ! i))"
proof -
  let ?f = "\<lambda>i. grid_fragment ph (wst_voxels w) g e i (grid_components g ! i)"
  have blocks: "bt_get (grd_blocks (?f i)) j = Some b \<longleftrightarrow>
      bt_get (grd_blocks g) j = Some b \<and> blk_coordinate b \<in> bt_dom (grid_components g ! i)" for i
    by (simp add: grid_fragment_def bt_get_component_blocks [OF assms(1)])
  have "in_fragment w g w' k j b \<longleftrightarrow> k \<in> fragment_keys w g \<and> (\<exists>i < length (grid_components g).
      k = split_grid_id g e (primary_component g) i \<and> bt_get (grd_blocks (?f i)) j = Some b)"
  proof (cases "k \<in> fragment_keys w g")
    case True
    show ?thesis unfolding in_fragment_def fragment_iff(1) [OF assms True] by (simp only: True simp_thms) blast
  qed (simp add: in_fragment_def)
  then show ?thesis unfolding blocks using fragment_iff(3) [OF assms] by blast
qed

lemma unit_map_eqI: "bt_dom m = bt_dom n \<Longrightarrow> bt_get m = bt_get n" for m n :: "'k::linorder btree_set"
proof
  fix k
  assume "bt_dom m = bt_dom n"
  then have "bt_get m k = None \<longleftrightarrow> bt_get n k = None" by (auto simp: bt_dom_def)
  then show "bt_get m k = bt_get n k" by (cases "bt_get m k"; cases "bt_get n k") simp_all
qed

lemma component_unique:
  assumes "grid_ok g" and "c \<in> coordinates g"
  shows "\<exists>!i. i < length (grid_components g) \<and> c \<in> bt_dom (grid_components g ! i)"
proof -
  note spec = grid_components_spec [OF assms(1), unfolded components_of_def]
  from spec assms(2) have "c \<in> (\<Union>d \<in> set (grid_components g). bt_dom d)" by blast
  then obtain i where i: "i < length (grid_components g)" "c \<in> bt_dom (grid_components g ! i)"
    by (auto simp: in_set_conv_nth)
  moreover have "j = i" if j: "j < length (grid_components g)" "c \<in> bt_dom (grid_components g ! j)" for j
  proof -
    have "connected (coordinates g) c b \<longleftrightarrow> b \<in> bt_dom (grid_components g ! n)"
      if "n < length (grid_components g)" "c \<in> bt_dom (grid_components g ! n)" for n b
      using spec that nth_mem [OF that(1)] by blast
    from this [OF i] this [OF j] have "bt_dom (grid_components g ! j) = bt_dom (grid_components g ! i)" by blast
    then have "bt_get (grid_components g ! j) = bt_get (grid_components g ! i)"
      by (rule unit_map_eqI)
    then have "grid_components g ! j = grid_components g ! i" by (intro bt_eqI) simp
    with spec i j show ?thesis by (simp add: nth_eq_iff_index_eq)
  qed
  ultimately show ?thesis by blast
qed

text \<open>The fragment that keeps the identity of a grid keeps its control core.\<close>

lemma core_fragment:
  assumes "grid_ok g" and "bt_get (wst_grids w) (grd_grid_id g) = Some g" and "bt_values (grd_blocks g) \<noteq> []"
    and "split_disconnected_grid ph (grd_grid_id g) e w = Inr w'"
    and b: "bt_get (grd_blocks g) j = Some b" "blk_kind b = BlkControlCore"
  shows "\<exists>j b. in_fragment w g w' (grd_grid_id g) j b \<and> blk_kind b = BlkControlCore"
proof -
  from component_unique [OF assms(1) grid_okD(2) [OF assms(1) b(1)]] obtain n where
    n: "n < length (grid_components g)" "blk_coordinate b \<in> bt_dom (grid_components g ! n)" by blast
  with b component_has_core_iff [OF assms(1), of "grid_components g ! n"]
  have "component_has_core g (by_coordinate g) (grid_components g ! n)" by blast
  with n obtain p where p: "position (component_has_core g (by_coordinate g)) (grid_components g) = Some p"
    by (metis nth_mem not_None_eq position_None)
  then have "primary_component g = p" by (simp add: primary_component_def)
  with position_Some [OF p] component_has_core_iff [OF assms(1), of "grid_components g ! p"] show ?thesis
    unfolding in_fragment_iff [OF assms(1-4)] by (metis split_grid_id_primary)
qed

end
