(* ===== verification/ProductionQuantum.thy ===== *)
theory ProductionQuantum
  imports Production
begin

text \<open>
  The production of a whole cell (\<open>crates/verse-simulation/src/engine.rs\<close>): the occurrences of its
  clock, the quantum of one second that is planned for all machines with a queue in a fixed order, and
  its application.
\<close>

section \<open>The machines of a quantum\<close>

definition MAX_BACKGROUND_QUEUE_BEARING_MACHINES :: nat where "MAX_BACKGROUND_QUEUE_BEARING_MACHINES = 256"

text \<open>Rust's \<open>collect\<close> into a \<open>Result\<close>.\<close>

fun collect_r :: "('a \<Rightarrow> 'e + 'b) \<Rightarrow> 'a list \<Rightarrow> 'e + 'b list" where
  "collect_r f [] = Inr []"
| "collect_r f (x # xs) = try_r (f x) (\<lambda>y. try_r (collect_r f xs) (\<lambda>ys. Inr (y # ys)))"

text \<open>The machines with a queue, ordered by grid and machine.\<close>

definition scheduled_machines :: "world_state \<Rightarrow> intent_error + (string \<times> string) list" where
  "scheduled_machines w =
     try_r (collect_r (\<lambda>machine_block_id.
              try_r (ok_or (block_grid w machine_block_id) (Rejected ''production_machine_missing'')) (\<lambda>(g, _).
              Inr (grd_grid_id g, machine_block_id)))
            (bt_keys (wst_production_queues w))) (\<lambda>scheduled.
     Inr (sort scheduled))"

fun any_machine_changes :: "world_physics \<Rightarrow> world_state \<Rightarrow> (string \<times> string) list \<Rightarrow> intent_error + bool" where
  "any_machine_changes ph w [] = Inr False"
| "any_machine_changes ph w ((_, machine_block_id) # rest) =
     try_r (production_machine_outcome_after_one_second ph w machine_block_id) (\<lambda>outcome.
     if changes_state outcome then Inr True else any_machine_changes ph w rest)"

definition background_production_is_runnable :: "world_physics \<Rightarrow> world_state \<Rightarrow> intent_error + bool" where
  "background_production_is_runnable ph w =
     (if MAX_BACKGROUND_QUEUE_BEARING_MACHINES < bt_len (wst_production_queues w)
      then Inl (Rejected ''background_machine_budget_exceeded'')
      else try_r (scheduled_machines w) (any_machine_changes ph w))"

section \<open>Occurrences\<close>

definition production_occurrence_is_committed :: "world_state \<Rightarrow> production_schedule_occurrence \<Rightarrow> bool" where
  "production_occurrence_is_committed w occurrence =
     (occ_schema_version occurrence = PRODUCTION_SCHEDULE_OCCURRENCE_SCHEMA_VERSION
      \<and> occ_universe_id occurrence = wst_universe_id w
      \<and> occ_cell_id occurrence = wst_cell_id w
      \<and> occ_lifecycle_generation occurrence = pcl_lifecycle_generation (wst_production_clock w)
      \<and> occ_production_quantum_sequence occurrence = pcl_last_committed_quantum_sequence (wst_production_clock w)
      \<and> occ_scheduled_for_unix_ms occurrence = pcl_last_scheduled_for_unix_ms (wst_production_clock w)
      \<and> occ_universe_manifest_hash occurrence = wst_universe_manifest_hash w
      \<and> occ_celestial_registry_hash occurrence = wst_celestial_registry_hash w)"

text \<open>
  \<open>now\<close> is what the system clock yields in milliseconds, with the code of the error when it cannot be
  represented.
\<close>

definition next_active_production_occurrence ::
    "string + u64 \<Rightarrow> world_state \<Rightarrow> intent_error + production_schedule_occurrence" where
  "next_active_production_occurrence now w =
     try_r (ok_or (checked_add (pcl_last_committed_quantum_sequence (wst_production_clock w)) 1)
              (Rejected ''production_occurrence_exhausted'')) (\<lambda>production_quantum_sequence.
     try_r (if pcl_last_scheduled_for_unix_ms (wst_production_clock w) = 0 then map_err Rejected now
            else ok_or (checked_add (pcl_last_scheduled_for_unix_ms (wst_production_clock w)) 1000)
                   (Rejected ''production_clock_exhausted'')) (\<lambda>scheduled_for_unix_ms.
     Inr \<lparr>occ_schema_version = PRODUCTION_SCHEDULE_OCCURRENCE_SCHEMA_VERSION,
          occ_universe_id = wst_universe_id w,
          occ_cell_id = wst_cell_id w,
          occ_lifecycle_generation = pcl_lifecycle_generation (wst_production_clock w),
          occ_production_quantum_sequence = production_quantum_sequence,
          occ_scheduled_for_unix_ms = scheduled_for_unix_ms,
          occ_universe_manifest_hash = wst_universe_manifest_hash w,
          occ_celestial_registry_hash = wst_celestial_registry_hash w\<rparr>))"

definition next_production_occurrence_at ::
    "string + u64 \<Rightarrow> u64 \<Rightarrow> world_state \<Rightarrow> intent_error + production_schedule_occurrence" where
  "next_production_occurrence_at now scheduled_for_unix_ms w =
     try_r (next_active_production_occurrence now w) (\<lambda>occurrence.
     Inr (occurrence\<lparr>occ_scheduled_for_unix_ms := scheduled_for_unix_ms\<rparr>))"

definition validate_next_production_occurrence ::
    "world_state \<Rightarrow> production_schedule_occurrence \<Rightarrow> intent_error + unit" where
  "validate_next_production_occurrence w occurrence =
     try_r (ok_or (checked_add (pcl_last_committed_quantum_sequence (wst_production_clock w)) 1)
              (Rejected ''production_occurrence_exhausted'')) (\<lambda>expected_sequence.
     let time_is_valid =
           (if pcl_last_committed_quantum_sequence (wst_production_clock w) = 0
            then 0 < occ_scheduled_for_unix_ms occurrence
            else case checked_add (pcl_last_scheduled_for_unix_ms (wst_production_clock w)) 1000 of
                   None \<Rightarrow> False
                 | Some earliest \<Rightarrow> earliest \<le> occ_scheduled_for_unix_ms occurrence) in
     if occ_schema_version occurrence \<noteq> PRODUCTION_SCHEDULE_OCCURRENCE_SCHEMA_VERSION
        \<or> occ_universe_id occurrence \<noteq> wst_universe_id w
        \<or> occ_cell_id occurrence \<noteq> wst_cell_id w
        \<or> occ_lifecycle_generation occurrence \<noteq> pcl_lifecycle_generation (wst_production_clock w)
        \<or> occ_production_quantum_sequence occurrence \<noteq> expected_sequence
        \<or> occ_universe_manifest_hash occurrence \<noteq> wst_universe_manifest_hash w
        \<or> occ_celestial_registry_hash occurrence \<noteq> wst_celestial_registry_hash w
        \<or> \<not> time_is_valid
     then Inl (Rejected ''production_occurrence_invalid'')
     else Inr ())"

section \<open>Planning and applying\<close>

text \<open>The loop of \<open>production_quantum_payload\<close> over its planning state.\<close>

fun plan_outcomes ::
    "world_physics \<Rightarrow> (string \<times> string) list \<Rightarrow> world_state \<Rightarrow> intent_error + production_outcome list" where
  "plan_outcomes ph [] planning = Inr []"
| "plan_outcomes ph ((_, machine_block_id) # rest) planning =
     try_r (production_machine_outcome_after_one_second ph planning machine_block_id) (\<lambda>outcome.
     try_r (if changes_state outcome then apply_production_machine_outcome outcome planning else Inr planning)
       (\<lambda>planning.
     try_r (plan_outcomes ph rest planning) (\<lambda>outcomes.
     Inr (outcome # outcomes))))"

definition production_quantum_outcomes ::
    "world_physics \<Rightarrow> production_schedule_occurrence \<Rightarrow> world_state \<Rightarrow> intent_error + production_outcome list" where
  "production_quantum_outcomes ph occurrence w =
     try_r (validate_next_production_occurrence w occurrence) (\<lambda>_.
     try_r (scheduled_machines w) (\<lambda>scheduled. plan_outcomes ph scheduled w))"

definition apply_outcomes :: "production_outcome list \<Rightarrow> world_state \<Rightarrow> intent_error + world_state" where
  "apply_outcomes =
     fold_r (\<lambda>outcome w. if changes_state outcome then apply_production_machine_outcome outcome w else Inr w)"

text \<open>
  The branch of \<open>apply_event\<close> for a quantum: identity and time of the event, then the outcomes, which
  must be the ones planned for this state.
\<close>

definition apply_production_quantum ::
    "world_physics \<Rightarrow> string \<Rightarrow> u64 \<Rightarrow> production_schedule_occurrence \<Rightarrow> u64 \<Rightarrow> production_outcome list \<Rightarrow>
     world_state \<Rightarrow> intent_error + world_state" where
  "apply_production_quantum ph event_id occurred_at_unix_ms occurrence elapsed_ticks outcomes w =
     (if elapsed_ticks \<noteq> FIXED_STEP_HZ
         \<or> event_id \<noteq> wph_occurrence_event_id ph occurrence
         \<or> occurred_at_unix_ms \<noteq> occ_scheduled_for_unix_ms occurrence
      then Inl (Rejected ''replay_production_quantum_envelope_invalid'')
      else
      try_r (production_quantum_outcomes ph occurrence w) (\<lambda>expected.
      if expected \<noteq> outcomes then Inl (Rejected ''replay_production_quantum_invalid'')
      else
      try_r (apply_outcomes outcomes w) (\<lambda>w.
      Inr (w\<lparr>wst_production_clock := (wst_production_clock w)
               \<lparr>pcl_last_committed_quantum_sequence := occ_production_quantum_sequence occurrence,
                pcl_last_scheduled_for_unix_ms := occ_scheduled_for_unix_ms occurrence\<rparr>\<rparr>))))"

end
