(* ===== verification/WorldEvents.thy ===== *)
theory WorldEvents
  imports ProductionQuantum GridSplit
begin

text \<open>
  The gameplay events of a cell (\<open>apply_event\<close> in \<open>crates/verse-simulation/src/engine.rs\<close>,
  \<open>EventPayload\<close> and \<open>CanonicalEvent\<close> in \<open>event.rs\<close>): envelope, payload, rewards, the record of the
  operation and the check of conservation. The payloads of movement, life support, physics steps
  and player transfers are not represented.
\<close>

section \<open>Payloads and envelopes\<close>

datatype world_payload =
  VoxelMined ivec3 voxel_material u64 string
| OreRefined string u64
| ComponentCrafted string u64
| ProductionQueued production_job
| ProductionQuantumCommitted production_schedule_occurrence u64 "production_outcome list"
| InventoryTransferred string string resource_kind u64
| BlockBuilt string string block
| BlockWelded string string u16 u16 u16 bool
| GridControlSet string vec3 vec3 bool
| GridAnchorSet string bool bool
| BlockDamaged string string u16

record world_event =
  wev_schema_name :: string
  wev_schema_version :: u32
  wev_content_manifest_version :: string
  wev_universe_manifest_hash :: string
  wev_celestial_registry_hash :: string
  wev_event_id :: string
  wev_event_sequence :: u64
  wev_occurred_at_unix_ms :: u64
  wev_universe_id :: string
  wev_cell_id :: string
  wev_authority_fencing_token :: u64
  wev_actor_player_id :: "string option"
  wev_actor_type :: string
  wev_operation_id :: "string option"
  wev_operation_sequence :: "u64 option"
  wev_intent_fingerprint :: "string option"
  wev_previous_event_hash :: string
  wev_payload :: world_payload
  wev_event_hash :: string

section \<open>Requests of a client\<close>

datatype client_request =
  MineVoxel ivec3
| RefineOre string u64
| CraftComponent string u64
| QueueProduction string production_recipe_kind u64 string string
| TransferInventory string string resource_kind u64
| BuildBlock string ivec3 block_kind u8
| WeldBlock string string
| SetGridControl string vec3 vec3 bool
| ToggleGridAnchor string
| DamageBlock string string

text \<open>A mutating message carries the sequence and the identity of its operation; the others are not intents.\<close>

datatype client_message =
  Mutating (message_sequence: u64) (message_operation_id: string) (message_request: client_request)
| NotMutating

text \<open>
  What events take from outside: the fingerprint of the JSON text of a message (with universe and actor;
  nothing when it has no such text), the hash of an event over all its fields but the hash itself, and the
  codec of operation histories.
\<close>

record event_host =
  evh_fingerprint :: "string \<Rightarrow> string \<Rightarrow> client_message \<Rightarrow> string option"
  evh_hash :: "world_event \<Rightarrow> string"
  evh_codec :: history_codec

definition calculate_event_hash :: "event_host \<Rightarrow> world_event \<Rightarrow> string" where
  "calculate_event_hash h event = evh_hash h (event\<lparr>wev_event_hash := []\<rparr>)"

fun request_floats_are_finite :: "world_physics \<Rightarrow> client_request \<Rightarrow> bool" where
  "request_floats_are_finite ph (SetGridControl _ linear_input angular_input _) =
     (wph_finite ph linear_input \<and> wph_finite ph angular_input)"
| "request_floats_are_finite ph _ = True"

definition client_intent_fingerprint ::
    "world_physics \<Rightarrow> event_host \<Rightarrow> world_state \<Rightarrow> string \<Rightarrow> client_message \<Rightarrow> intent_error + string" where
  "client_intent_fingerprint ph h w actor_player_id message =
     (case message of
        NotMutating \<Rightarrow> Inl (Rejected ''not_a_mutating_intent'')
      | Mutating _ _ request \<Rightarrow>
          if \<not> request_floats_are_finite ph request then Inl (Rejected ''invalid_vector'')
          else ok_or (evh_fingerprint h (wst_universe_id w) actor_player_id message) (Rejected ''intent_fingerprint_invalid''))"

text \<open>\<open>client_message_for_human_event\<close>: the request an event answers.\<close>

fun request_of_payload :: "world_payload \<Rightarrow> intent_error + client_request" where
  "request_of_payload (VoxelMined coordinate _ _ _) = Inr (MineVoxel coordinate)"
| "request_of_payload (OreRefined inventory_id batches) = Inr (RefineOre inventory_id batches)"
| "request_of_payload (ComponentCrafted inventory_id quantity) = Inr (CraftComponent inventory_id quantity)"
| "request_of_payload (ProductionQueued job) =
     Inr (QueueProduction (job_machine_block_id job) (job_recipe job) (job_batches job)
            (job_source_inventory_id job) (job_destination_inventory_id job))"
| "request_of_payload (InventoryTransferred source destination resource quantity) =
     Inr (TransferInventory source destination resource quantity)"
| "request_of_payload (BlockBuilt grid_id _ b) =
     Inr (BuildBlock grid_id (blk_coordinate b) (blk_kind b) (blk_orientation b))"
| "request_of_payload (BlockWelded grid_id block_id _ _ _ _) = Inr (WeldBlock grid_id block_id)"
| "request_of_payload (GridControlSet grid_id linear_input angular_input dampeners) =
     Inr (SetGridControl grid_id linear_input angular_input dampeners)"
| "request_of_payload (GridAnchorSet grid_id _ _) = Inr (ToggleGridAnchor grid_id)"
| "request_of_payload (BlockDamaged grid_id block_id _) = Inr (DamageBlock grid_id block_id)"
| "request_of_payload (ProductionQuantumCommitted _ _ _) = Inl (Rejected ''replay_production_envelope_invalid'')"

definition client_message_for_human_event :: "u64 \<Rightarrow> string \<Rightarrow> world_payload \<Rightarrow> intent_error + client_message" where
  "client_message_for_human_event operation_sequence operation_id payload =
     try_r (request_of_payload payload) (\<lambda>request. Inr (Mutating operation_sequence operation_id request))"

section \<open>Rewards and receipts\<close>

definition REWARD_FIRST_ANCHOR_ENGAGEMENT :: u64 where "REWARD_FIRST_ANCHOR_ENGAGEMENT = 40"
definition REWARD_WELD_PROGRESS_OR_REPAIR :: u64 where "REWARD_WELD_PROGRESS_OR_REPAIR = 0"
definition REWARD_INVENTORY_TRANSFER :: u64 where "REWARD_INVENTORY_TRANSFER = 0"
definition REWARD_BLOCK_DAMAGE :: u64 where "REWARD_BLOCK_DAMAGE = 0"

fun experience_reward :: "world_payload \<Rightarrow> u64" where
  "experience_reward (VoxelMined _ _ ore_yield _) = saturating_mul ore_yield REWARD_MINED_ORE_UNIT"
| "experience_reward (OreRefined _ batches) = saturating_mul batches REWARD_REFINING_BATCH"
| "experience_reward (ComponentCrafted _ quantity) = saturating_mul quantity REWARD_CRAFTED_COMPONENT"
| "experience_reward (InventoryTransferred _ _ _ _) = REWARD_INVENTORY_TRANSFER"
| "experience_reward (BlockBuilt _ _ _) = REWARD_FRAME_PLACED"
| "experience_reward (BlockWelded _ _ _ _ _ completed_construction) =
     (if completed_construction then REWARD_CONSTRUCTION_COMPLETED else REWARD_WELD_PROGRESS_OR_REPAIR)"
| "experience_reward (GridAnchorSet _ _ reward_credited) = (if reward_credited then REWARD_FIRST_ANCHOR_ENGAGEMENT else 0)"
| "experience_reward (BlockDamaged _ _ _) = REWARD_BLOCK_DAMAGE"
| "experience_reward _ = 0"

fun career_update :: "world_payload \<Rightarrow> career \<Rightarrow> career" where
  "career_update (VoxelMined _ _ _ _) c = c\<lparr>car_voxels_mined := car_voxels_mined c + 1\<rparr>"
| "career_update (OreRefined _ batches) c = c\<lparr>car_refining_batches := car_refining_batches c + batches\<rparr>"
| "career_update (ComponentCrafted _ quantity) c = c\<lparr>car_components_crafted := car_components_crafted c + quantity\<rparr>"
| "career_update (BlockWelded _ _ _ _ _ completed_construction) c =
     (if completed_construction then c\<lparr>car_blocks_built := car_blocks_built c + 1\<rparr> else c)"
| "career_update (GridAnchorSet _ anchored _) c =
     (if anchored then c\<lparr>car_anchors_engaged := car_anchors_engaged c + 1\<rparr> else c)"
| "career_update _ c = c"

text \<open>Rewards go to the actor; events that carry one have an actor, where the source would panic.\<close>

definition credit_actor :: "string option \<Rightarrow> world_payload \<Rightarrow> world_state \<Rightarrow> world_state" where
  "credit_actor actor_player_id payload w =
     (case actor_player_id of None \<Rightarrow> w
      | Some player_id \<Rightarrow>
      case bt_get (wst_players w) player_id of None \<Rightarrow> w
      | Some actor \<Rightarrow>
          w\<lparr>wst_players := bt_insert player_id
              (actor\<lparr>ply_experience := saturating_add (ply_experience actor) (experience_reward payload),
                     ply_career := career_update payload (ply_career actor)\<rparr>) (wst_players w)\<rparr>)"

fun resource_debug :: "resource_kind \<Rightarrow> string" where
  "resource_debug ResOre = ''Ore''"
| "resource_debug ResRefinedMaterial = ''RefinedMaterial''"
| "resource_debug ResComponent = ''Component''"

fun recipe_debug :: "production_recipe_kind \<Rightarrow> string" where
  "recipe_debug Refining = ''Refining''"
| "recipe_debug ComponentRecipe = ''Component''"

fun block_kind_debug :: "block_kind \<Rightarrow> string" where
  "block_kind_debug BlkStructural = ''Structural''"
| "block_kind_debug BlkControlCore = ''ControlCore''"
| "block_kind_debug BlkPowerSource = ''PowerSource''"
| "block_kind_debug BlkBattery = ''Battery''"
| "block_kind_debug BlkCargo = ''Cargo''"
| "block_kind_debug BlkDrill = ''Drill''"
| "block_kind_debug BlkAnchor = ''Anchor''"
| "block_kind_debug BlkDamageTest = ''DamageTest''"
| "block_kind_debug BlkConveyor = ''Conveyor''"
| "block_kind_debug BlkRefinery = ''Refinery''"
| "block_kind_debug BlkAssembler = ''Assembler''"

fun payload_receipt :: "world_payload \<Rightarrow> string \<times> string" where
  "payload_receipt (VoxelMined _ _ ore_yield _) = (''voxel_mined'', ''Mined '' @ show_nat (unat ore_yield) @ '' ore'')"
| "payload_receipt (OreRefined _ batches) =
     (''ore_refined'', ''Refined '' @ show_nat (unat batches) @ '' batch(es) into '' @ show_nat (unat batches) @ '' material'')"
| "payload_receipt (ComponentCrafted _ quantity) =
     (''component_crafted'', ''Crafted '' @ show_nat (unat quantity) @ '' component(s)'')"
| "payload_receipt (ProductionQueued job) =
     (''production_queued'', ''Queued '' @ recipe_debug (job_recipe job) @ '' batch(es): '' @ show_nat (unat (job_batches job)))"
| "payload_receipt (ProductionQuantumCommitted _ _ outcomes) =
     (if list_ex (\<lambda>outcome. out_kind outcome \<in> {OutcomeCompleted, OutcomeCompletedAndDelivered}) outcomes
      then (''production_completed'', ''Machine work completed'')
      else (''production_advanced'', ''Machine work advanced''))"
| "payload_receipt (InventoryTransferred _ _ resource quantity) =
     (''inventory_transferred'', ''Transferred '' @ show_nat (unat quantity) @ '' '' @ resource_debug resource)"
| "payload_receipt (BlockBuilt _ _ b) =
     (''block_frame_placed'', ''Placed '' @ block_kind_debug (blk_kind b) @ '' frame'')"
| "payload_receipt (BlockWelded _ _ _ new_health max_health _) =
     (''block_welded'', ''Welded block to '' @ show_nat (unat new_health * 100 div unat max_health) @ ''% integrity'')"
| "payload_receipt (GridControlSet _ _ _ _) = (''grid_control_set'', ''Grid control accepted'')"
| "payload_receipt (GridAnchorSet _ anchored _) =
     (''grid_anchor_set'', if anchored then ''Grid anchored'' else ''Grid released'')"
| "payload_receipt (BlockDamaged _ _ _) = (''block_damaged'', ''Damage applied'')"

end
