(* ===== verification/WorldApply.thy ===== *)
theory WorldApply
  imports WorldEvents
begin

text \<open>
  The application of gameplay events (\<open>apply_event\<close> of \<open>crates/verse-simulation/src/engine.rs\<close>)
  and the check of conservation (\<open>conservation\<close> of \<open>model.rs\<close>) that closes it. Callers apply an event
  to a copy of the state, so an error leaves no state behind.
\<close>

section \<open>Conservation\<close>

definition total_of :: "(inventory_contents \<Rightarrow> u64) \<Rightarrow> world_state \<Rightarrow> u64" where
  "total_of amount w =
     foldl (\<lambda>live job. saturating_add (saturating_add live (amount (job_reserved_inputs job)))
                         (amount (job_pending_outputs job)))
       (sum_list (map (\<lambda>inventory. amount (inv_contents inventory)) (bt_values (wst_inventories w))))
       (concat (bt_values (wst_production_queues w)))"

definition all_blocks :: "world_state \<Rightarrow> block list" where
  "all_blocks w = concat (map (\<lambda>g. bt_values (grd_blocks g)) (bt_values (wst_grids w)))"

record conservation_snapshot =
  cns_ore_sources :: u64
  cns_ore_live :: u64
  cns_ore_consumed :: u64
  cns_refined_sources :: u64
  cns_refined_live :: u64
  cns_refined_consumed :: u64
  cns_component_sources :: u64
  cns_components_live :: u64
  cns_components_installed_or_destroyed :: u64
  cns_valid :: bool

definition conservation :: "world_state \<Rightarrow> conservation_snapshot" where
  "conservation w =
     (let l = wst_ledger w;
          ore_live = total_of ctn_ore w;
          refined_live = total_of ctn_refined_material w;
          components_live = total_of ctn_components w;
          live_blocks = sum_list (map blk_component_cost (all_blocks w));
          ore_sources = led_genesis_ore l + led_mined_ore l + led_transfer_imported_ore l;
          ore_consumed = led_refine_batches l * REFINING_ORE_INPUT + led_transfer_exported_ore l;
          refined_sources = led_genesis_refined l + led_refine_batches l * REFINING_REFINED_OUTPUT
            + led_transfer_imported_refined l;
          refined_consumed = led_crafted_components l * CRAFTING_REFINED_INPUT + led_transfer_exported_refined l;
          component_sources = led_genesis_components l + led_genesis_installed_components l
            + led_crafted_components l * CRAFTING_COMPONENT_OUTPUT + led_transfer_imported_components l;
          components_installed_or_destroyed = live_blocks + led_destroyed_components l
            + led_transfer_exported_components l
      in \<lparr>cns_ore_sources = ore_sources, cns_ore_live = ore_live, cns_ore_consumed = ore_consumed,
          cns_refined_sources = refined_sources, cns_refined_live = refined_live,
          cns_refined_consumed = refined_consumed,
          cns_component_sources = component_sources, cns_components_live = components_live,
          cns_components_installed_or_destroyed = components_installed_or_destroyed,
          cns_valid = (ore_sources = ore_live + ore_consumed
            \<and> refined_sources = refined_live + refined_consumed
            \<and> component_sources = components_live + components_installed_or_destroyed)\<rparr>)"

section \<open>Mining\<close>

definition VOXEL_COLLISION_CHUNK_EDGE_CELLS :: int where "VOXEL_COLLISION_CHUNK_EDGE_CELLS = 8"

fun voxel_collision_chunk_coordinate :: "ivec3 \<Rightarrow> ivec3" where
  "voxel_collision_chunk_coordinate (x, y, z) =
     (x div VOXEL_COLLISION_CHUNK_EDGE_CELLS, y div VOXEL_COLLISION_CHUNK_EDGE_CELLS,
      z div VOXEL_COLLISION_CHUNK_EDGE_CELLS)"

fun voxel_collision_chunk_body_id :: "ivec3 \<Rightarrow> string" where
  "voxel_collision_chunk_body_id (x, y, z) =
     ''voxel-chunk-'' @ show_int x @ ''-'' @ show_int y @ ''-'' @ show_int z"

fun voxel_collision_collider_id :: "ivec3 \<Rightarrow> string" where
  "voxel_collision_collider_id (x, y, z) = ''voxel-'' @ show_int x @ ''-'' @ show_int y @ ''-'' @ show_int z"

lift_definition bt_retain :: "('k \<Rightarrow> bool) \<Rightarrow> ('k::linorder, 'v) btree_map \<Rightarrow> ('k, 'v) btree_map"
  is "\<lambda>P. filter (\<lambda>(k, _). P k)"
  by (rule keys_sorted_filter)

definition voxel_supports_anchor :: "world_physics \<Rightarrow> world_state \<Rightarrow> ivec3 \<Rightarrow> bool" where
  "voxel_supports_anchor ph w coordinate =
     list_ex (\<lambda>g. grd_anchored g \<and> anchor_touches ph g (wst_voxels w)
         \<and> \<not> anchor_touches_after_removal ph g (wst_voxels w) (Some coordinate))
       (bt_values (wst_grids w))"

definition retain_contacts :: "ivec3 \<Rightarrow> contact_pair btree_set \<Rightarrow> contact_pair btree_set" where
  "retain_contacts coordinate contacts =
     (let body_id = voxel_collision_chunk_body_id (voxel_collision_chunk_coordinate coordinate);
          collider_id = voxel_collision_collider_id coordinate
      in bt_retain (\<lambda>(body_a, collider_a, body_b, collider_b).
           \<not> (body_a = body_id \<and> collider_a = collider_id \<or> body_b = body_id \<and> collider_b = collider_id)) contacts)"

definition apply_voxel_mined ::
    "world_physics \<Rightarrow> player \<Rightarrow> ivec3 \<Rightarrow> voxel_material \<Rightarrow> u64 \<Rightarrow> string \<Rightarrow> world_state \<Rightarrow> intent_error + world_state" where
  "apply_voxel_mined ph actor coordinate material ore_yield inventory_id w =
     (if inventory_id \<noteq> ply_inventory_id actor then Inl (Rejected ''replay_mining_actor_inventory_invalid'')
      else
      try_r (ok_or (voxel_material_at (wst_voxels w) coordinate) (Rejected ''replay_voxel_missing'')) (\<lambda>canonical_material.
      if canonical_material \<noteq> material then Inl (Rejected ''replay_material_mismatch'')
      else
      try_r (ensure_voxel_tool_target ph w actor coordinate ''replay_mining_target_invalid'') (\<lambda>_.
      let canonical_ore_yield = content_voxel_ore_yield canonical_material in
      if ore_yield \<noteq> canonical_ore_yield then Inl (Rejected ''replay_mining_yield_invalid'')
      else
      try_r (find_inventory w inventory_id) (\<lambda>inventory.
      if \<not> can_add inventory ResOre canonical_ore_yield
      then Inl (Rejected ''replay_mining_inventory_capacity_invalid'')
      else if voxel_supports_anchor ph w coordinate
      then Inl (Rejected ''replay_mining_anchor_support_invalid'')
      else
      try_r (set_inventory_contents inventory_id
               (mutate_resource ResOre (\<lambda>amount. amount + canonical_ore_yield) (inv_contents inventory))
               (w\<lparr>wst_voxels := remove_voxel coordinate (wst_voxels w)\<rparr>)) (\<lambda>w.
      Inr (w\<lparr>wst_ledger := (wst_ledger w)\<lparr>led_mined_ore := led_mined_ore (wst_ledger w) + canonical_ore_yield\<rparr>,
             wst_active_contact_pairs := retain_contacts coordinate (wst_active_contact_pairs w)\<rparr>))))))"

section \<open>Queueing production\<close>

definition queue_length :: "world_state \<Rightarrow> string \<Rightarrow> nat" where
  "queue_length w machine_block_id =
     (case bt_get (wst_production_queues w) machine_block_id of None \<Rightarrow> 0 | Some queue \<Rightarrow> length queue)"

definition production_job_id :: "u64 \<Rightarrow> string" where
  "production_job_id event_sequence = ''production-job-'' @ show_nat (unat event_sequence)"

definition ensure_production_endpoint :: "world_state \<Rightarrow> string \<Rightarrow> string \<Rightarrow> string \<Rightarrow> intent_error + unit" where
  "ensure_production_endpoint w actor_player_id machine_block_id inventory_id =
     try_r (ensure_actor_owns_inventory w actor_player_id inventory_id) (\<lambda>_.
     if cargo_block_for_inventory w inventory_id = None
        \<or> \<not> production_route_exists w machine_block_id inventory_id
     then Inl (Rejected ''replay_production_route_invalid'')
     else Inr ())"

definition apply_production_queued ::
    "string \<Rightarrow> string \<Rightarrow> u64 \<Rightarrow> production_job \<Rightarrow> world_state \<Rightarrow> intent_error + world_state" where
  "apply_production_queued actor_player_id operation_id event_sequence job w =
     try_r (ok_or (block_grid w (job_machine_block_id job)) (Rejected ''replay_production_machine_missing'')) (\<lambda>(g, machine).
     if job_job_id job \<noteq> production_job_id event_sequence
        \<or> job_queued_event_sequence job \<noteq> event_sequence
        \<or> job_operation_id job \<noteq> operation_id
        \<or> job_owner_player_id job \<noteq> actor_player_id
        \<or> grd_owner_player_id g \<noteq> actor_player_id
        \<or> \<not> blk_construction_complete machine
        \<or> \<not> machine_supports_recipe (blk_kind machine) (job_recipe job)
        \<or> job_content_manifest_version job \<noteq> wst_content_manifest_version w
        \<or> job_progress_ticks job \<noteq> 0
        \<or> job_pending_outputs job \<noteq> no_contents
        \<or> list_ex (\<lambda>prior. job_job_id prior = job_job_id job) (concat (bt_values (wst_production_queues w)))
     then Inl (Rejected ''replay_production_job_invalid'')
     else if QUEUE_LIMIT_PER_MACHINE \<le> queue_length w (job_machine_block_id job)
     then Inl (Rejected ''replay_production_queue_full'')
     else
     try_r (ok_or (production_recipe_quantities (job_recipe job) (job_batches job))
              (Rejected ''replay_production_quantity_invalid'')) (\<lambda>(expected_inputs, _, expected_duration).
     if job_reserved_inputs job \<noteq> expected_inputs \<or> job_duration_ticks job \<noteq> expected_duration
     then Inl (Rejected ''replay_production_recipe_invalid'')
     else
     try_r (for_each_r (ensure_production_endpoint w actor_player_id (job_machine_block_id job))
              [job_source_inventory_id job, job_destination_inventory_id job]) (\<lambda>_.
     try_r (find_inventory w (job_source_inventory_id job)) (\<lambda>source.
     try_r (ok_or (subtract_contents (inv_contents source) (job_reserved_inputs job))
              (Rejected ''replay_production_input_invalid'')) (\<lambda>c.
     try_r (set_inventory_contents (job_source_inventory_id job) c w) (\<lambda>w.
     Inr (w\<lparr>wst_production_queues := bt_insert (job_machine_block_id job)
              ((case bt_get (wst_production_queues w) (job_machine_block_id job) of None \<Rightarrow> [] | Some queue \<Rightarrow> queue) @ [job])
              (wst_production_queues w)\<rparr>)))))))"

section \<open>Transfers between inventories\<close>

definition apply_inventory_transferred ::
    "string \<Rightarrow> string \<Rightarrow> string \<Rightarrow> resource_kind \<Rightarrow> u64 \<Rightarrow> world_state \<Rightarrow> intent_error + world_state" where
  "apply_inventory_transferred actor_player_id source_inventory_id destination_inventory_id resource quantity w =
     (if source_inventory_id = destination_inventory_id \<or> quantity = 0
      then Inl (Rejected ''replay_inventory_transfer_invalid'')
      else
      try_r (ensure_actor_owns_inventory w actor_player_id source_inventory_id) (\<lambda>_.
      try_r (ensure_actor_owns_inventory w actor_player_id destination_inventory_id) (\<lambda>_.
      try_r (ensure_inventory_functional w source_inventory_id) (\<lambda>_.
      try_r (ensure_inventory_functional w destination_inventory_id) (\<lambda>_.
      try_r (find_inventory w source_inventory_id) (\<lambda>source.
      try_r (find_inventory w destination_inventory_id) (\<lambda>destination.
      if contents_amount (inv_contents source) resource < quantity
         \<or> \<not> can_add destination resource quantity
      then Inl (Rejected ''replay_inventory_transfer_invalid'')
      else
      let source_contents = mutate_resource resource (\<lambda>amount. amount - quantity) (inv_contents source) in
      try_r (ok_or (checked_add (contents_amount (inv_contents destination) resource) quantity)
               (Rejected ''replay_inventory_transfer_invalid'')) (\<lambda>destination_amount.
      try_r (set_inventory_contents source_inventory_id source_contents w)
        (set_inventory_contents destination_inventory_id
           (mutate_resource resource (\<lambda>_. destination_amount) (inv_contents destination)))))))))))"

section \<open>Construction\<close>

definition MAX_GRID_BLOCKS_P0 :: nat where "MAX_GRID_BLOCKS_P0 = 2048"

text \<open>\<open>div_ceil(4)\<close> on \<open>u16\<close>.\<close>

definition div_ceil_4 :: "u16 \<Rightarrow> u16" where
  "div_ceil_4 n = n div 4 + (if n mod 4 = 0 then 0 else 1)"

definition build_location_invalid :: "grid \<Rightarrow> ivec3 \<Rightarrow> bool" where
  "build_location_invalid g coordinate =
     (MAX_GRID_BLOCKS_P0 \<le> bt_len (grd_blocks g)
      \<or> block_at g coordinate \<noteq> None
      \<or> (bt_len (grd_blocks g) \<noteq> 0
         \<and> \<not> list_ex (\<lambda>existing. manhattan_distance (blk_coordinate existing) coordinate = 1)
               (bt_values (grd_blocks g))))"

definition built_block_id :: "u64 \<Rightarrow> string" where
  "built_block_id event_sequence = ''block-'' @ show_nat (unat event_sequence)"

definition built_inventory_id :: "block_kind \<Rightarrow> string \<Rightarrow> string option" where
  "built_inventory_id kind block_id = (if kind = BlkCargo then Some (''inventory-'' @ block_id) else None)"

definition apply_block_built ::
    "world_physics \<Rightarrow> string \<Rightarrow> player \<Rightarrow> u64 \<Rightarrow> string \<Rightarrow> string \<Rightarrow> block \<Rightarrow> world_state \<Rightarrow> intent_error + world_state" where
  "apply_block_built ph actor_player_id actor event_sequence grid_id component_inventory_id b w =
     (if 3 < blk_orientation b
         \<or> blk_health b \<noteq> div_ceil_4 (blk_max_health b)
         \<or> blk_construction_complete b
         \<or> blk_component_cost b \<noteq> bdf_component_cost (content_block (blk_kind b))
         \<or> blk_block_id b \<noteq> built_block_id event_sequence
         \<or> blk_inventory_id b \<noteq> built_inventory_id (blk_kind b) (blk_block_id b)
      then Inl (Rejected ''replay_construction_frame_invalid'')
      else if list_ex (\<lambda>g. bt_contains (grd_blocks g) (blk_block_id b)) (bt_values (wst_grids w))
         \<or> (case blk_inventory_id b of None \<Rightarrow> False | Some inventory_id \<Rightarrow> bt_contains (wst_inventories w) inventory_id)
      then Inl (Rejected ''replay_construction_identity_duplicate'')
      else
      try_r (find_grid w grid_id) (\<lambda>g.
      try_r (ensure_actor_owns_grid w actor_player_id grid_id) (\<lambda>_.
      if component_inventory_id \<noteq> ply_inventory_id actor then Inl (Rejected ''replay_construction_inventory_invalid'')
      else
      try_r (ensure_actor_owns_inventory w actor_player_id component_inventory_id) (\<lambda>_.
      if build_location_invalid g (blk_coordinate b) then Inl (Rejected ''replay_construction_location_invalid'')
      else
      try_r (ensure_build_tool_target ph w actor grid_id (blk_coordinate b) ''replay_construction_target_invalid'') (\<lambda>_.
      if player_intersects_grid_coordinate ph w g (blk_coordinate b)
      then Inl (Rejected ''replay_construction_intersects_player'')
      else
      try_r (find_inventory w component_inventory_id) (\<lambda>inventory.
      if ctn_components (inv_contents inventory) < blk_component_cost b
      then Inl (Rejected ''replay_construction_components_invalid'')
      else
      try_r (set_inventory_contents component_inventory_id
               (mutate_resource ResComponent (\<lambda>amount. amount - blk_component_cost b) (inv_contents inventory)) w) (\<lambda>w.
      let w = (case blk_inventory_id b of None \<Rightarrow> w
                | Some inventory_id \<Rightarrow> w\<lparr>wst_inventories := bt_insert inventory_id
                    \<lparr>inv_inventory_id = inventory_id, inv_domain = DomainCargo (blk_block_id b),
                     inv_contents = no_contents, inv_capacity_liters = CARGO_INVENTORY_CAPACITY_LITERS\<rparr>
                    (wst_inventories w)\<rparr>) in
      Inr (w\<lparr>wst_grids := bt_insert grid_id (g\<lparr>grd_blocks := bt_insert (blk_block_id b) b (grd_blocks g)\<rparr>) (wst_grids w),
             wst_ledger := (wst_ledger w)\<lparr>led_built_blocks := led_built_blocks (wst_ledger w) + 1\<rparr>\<rparr>))))))))"

definition welded_health :: "u16 \<Rightarrow> u16 \<Rightarrow> u16" where
  "welded_health previous_health max_health = min (saturating_add previous_health (div_ceil_4 max_health)) max_health"

definition apply_block_welded ::
    "world_physics \<Rightarrow> string \<Rightarrow> player \<Rightarrow> string \<Rightarrow> string \<Rightarrow> u16 \<Rightarrow> u16 \<Rightarrow> u16 \<Rightarrow> bool \<Rightarrow> world_state \<Rightarrow>
     intent_error + world_state" where
  "apply_block_welded ph actor_player_id actor grid_id block_id previous_health new_health max_health
       completed_construction w =
     try_r (ensure_actor_owns_grid w actor_player_id grid_id) (\<lambda>_.
     try_r (find_grid w grid_id) (\<lambda>g.
     try_r (ok_or (bt_get (grd_blocks g) block_id) (Rejected ''replay_block_missing'')) (\<lambda>b.
     try_r (ensure_block_tool_target ph w actor grid_id block_id ''replay_weld_target_invalid'') (\<lambda>_.
     if blk_health b \<noteq> previous_health \<or> blk_max_health b \<noteq> max_health
     then Inl (Rejected ''replay_integrity_mismatch'')
     else if max_health \<le> previous_health then Inl (Rejected ''replay_weld_no_change'')
     else if new_health \<noteq> welded_health previous_health max_health then Inl (Rejected ''replay_weld_increment_invalid'')
     else if completed_construction \<noteq> (\<not> blk_construction_complete b \<and> new_health = max_health)
     then Inl (Rejected ''replay_construction_completion_invalid'')
     else Inr (w\<lparr>wst_grids := bt_insert grid_id (g\<lparr>grd_blocks := bt_insert block_id
            (b\<lparr>blk_health := new_health,
               blk_construction_complete := (blk_construction_complete b \<or> completed_construction)\<rparr>)
            (grd_blocks g)\<rparr>) (wst_grids w)\<rparr>)))))"

section \<open>Grids\<close>

definition ensure_finite :: "world_physics \<Rightarrow> vec3 \<Rightarrow> intent_error + unit" where
  "ensure_finite ph v = (if wph_finite ph v then Inr () else Inl (Rejected ''invalid_vector''))"

definition apply_grid_control_set ::
    "world_physics \<Rightarrow> string \<Rightarrow> string \<Rightarrow> vec3 \<Rightarrow> vec3 \<Rightarrow> bool \<Rightarrow> world_state \<Rightarrow> intent_error + world_state" where
  "apply_grid_control_set ph actor_player_id grid_id linear_input angular_input dampeners w =
     try_r (ensure_actor_owns_grid w actor_player_id grid_id) (\<lambda>_.
     try_r (ensure_finite ph linear_input) (\<lambda>_.
     try_r (ensure_finite ph angular_input) (\<lambda>_.
     try_r (find_grid w grid_id) (\<lambda>g.
     if grd_anchored g \<or> \<not> wph_power_online ph g
        \<or> \<not> wph_within_control_limit ph linear_input \<or> \<not> wph_within_control_limit ph angular_input
     then Inl (Rejected ''replay_grid_control_invalid'')
     else Inr (w\<lparr>wst_grids := bt_insert grid_id
            (g\<lparr>grd_control_linear_input := linear_input, grd_control_angular_input := angular_input,
               grd_dampeners := dampeners\<rparr>) (wst_grids w)\<rparr>)))))"

definition set_anchor :: "bool \<Rightarrow> bool \<Rightarrow> grid \<Rightarrow> grid" where
  "set_anchor anchored reward_credited g =
     (if \<not> anchored then g\<lparr>grd_anchored := False\<rparr>
      else g\<lparr>grd_anchored := True,
             grd_anchor_reward_eligible := grd_anchor_reward_eligible g \<and> \<not> reward_credited,
             grd_motion := (grd_motion g)\<lparr>gmo_linear_velocity := vec3_zero, gmo_angular_velocity := vec3_zero\<rparr>,
             grd_control_linear_input := vec3_zero, grd_control_angular_input := vec3_zero\<rparr>)"

definition apply_grid_anchor_set ::
    "world_physics \<Rightarrow> string \<Rightarrow> string \<Rightarrow> bool \<Rightarrow> bool \<Rightarrow> world_state \<Rightarrow> intent_error + world_state" where
  "apply_grid_anchor_set ph actor_player_id grid_id anchored reward_credited w =
     try_r (ensure_actor_owns_grid w actor_player_id grid_id) (\<lambda>_.
     try_r (find_grid w grid_id) (\<lambda>g.
     if anchored = grd_anchored g
        \<or> (anchored \<and> (\<not> wph_power_online ph g \<or> \<not> anchor_touches ph g (wst_voxels w)))
        \<or> reward_credited \<noteq> (anchored \<and> grd_anchor_reward_eligible g)
     then Inl (Rejected ''replay_grid_anchor_invalid'')
     else Inr (w\<lparr>wst_grids := bt_insert grid_id (set_anchor anchored reward_credited g) (wst_grids w)\<rparr>)))"

definition HAND_TOOL_DAMAGE :: u16 where "HAND_TOOL_DAMAGE = 35"

definition apply_block_damaged ::
    "world_physics \<Rightarrow> player \<Rightarrow> u64 \<Rightarrow> string \<Rightarrow> string \<Rightarrow> u16 \<Rightarrow> world_state \<Rightarrow> intent_error + world_state" where
  "apply_block_damaged ph actor event_sequence grid_id block_id damage w =
     (if damage \<noteq> HAND_TOOL_DAMAGE then Inl (Rejected ''replay_damage_amount_invalid'')
      else
      try_r (find_grid w grid_id) (\<lambda>g.
      try_r (ok_or (bt_get (grd_blocks g) block_id) (Rejected ''replay_block_missing'')) (\<lambda>_.
      try_r (ensure_block_tool_target ph w actor grid_id block_id ''replay_damage_target_invalid'') (\<lambda>_.
      apply_damage ph grid_id block_id damage event_sequence w))))"

end
