(* ===== verification/WorldIntents.thy ===== *)
theory WorldIntents
  imports WorldApply
begin

text \<open>
  From a client's message to a committed event (\<open>prepare_client_event_as\<close>, \<open>apply_event\<close> and the
  execution in the runtime, \<open>crates/verse-simulation/src/engine.rs\<close>).
\<close>

section \<open>The application of an event\<close>

fun apply_human_payload ::
    "world_physics \<Rightarrow> string \<Rightarrow> player \<Rightarrow> string \<Rightarrow> u64 \<Rightarrow> world_payload \<Rightarrow> world_state \<Rightarrow> intent_error + world_state" where
  "apply_human_payload ph actor_player_id actor operation_id event_sequence (VoxelMined coordinate material ore_yield inventory_id) w =
     apply_voxel_mined ph actor coordinate material ore_yield inventory_id w"
| "apply_human_payload ph actor_player_id actor operation_id event_sequence (ProductionQueued job) w =
     apply_production_queued actor_player_id operation_id event_sequence job w"
| "apply_human_payload ph actor_player_id actor operation_id event_sequence (InventoryTransferred source destination resource quantity) w =
     apply_inventory_transferred actor_player_id source destination resource quantity w"
| "apply_human_payload ph actor_player_id actor operation_id event_sequence (BlockBuilt grid_id component_inventory_id b) w =
     apply_block_built ph actor_player_id actor event_sequence grid_id component_inventory_id b w"
| "apply_human_payload ph actor_player_id actor operation_id event_sequence
       (BlockWelded grid_id block_id previous_health new_health max_health completed_construction) w =
     apply_block_welded ph actor_player_id actor grid_id block_id previous_health new_health max_health completed_construction w"
| "apply_human_payload ph actor_player_id actor operation_id event_sequence (GridControlSet grid_id linear_input angular_input dampeners) w =
     apply_grid_control_set ph actor_player_id grid_id linear_input angular_input dampeners w"
| "apply_human_payload ph actor_player_id actor operation_id event_sequence (GridAnchorSet grid_id anchored reward_credited) w =
     apply_grid_anchor_set ph actor_player_id grid_id anchored reward_credited w"
| "apply_human_payload ph actor_player_id actor operation_id event_sequence (BlockDamaged grid_id block_id damage) w =
     apply_block_damaged ph actor event_sequence grid_id block_id damage w"
| "apply_human_payload ph actor_player_id actor operation_id event_sequence _ w = Inl (Rejected ''panic'')"

definition human_envelope_invalid :: "event_host \<Rightarrow> world_event \<Rightarrow> world_state \<Rightarrow> bool" where
  "human_envelope_invalid h event w =
     ((case wev_actor_player_id event of None \<Rightarrow> True | Some player_id \<Rightarrow> \<not> bt_contains (wst_players w) player_id)
      \<or> (case wev_operation_id event of None \<Rightarrow> True
         | Some operation_id \<Rightarrow> hcd_blank (evh_codec h) operation_id \<or> 128 < length operation_id)
      \<or> (case wev_operation_sequence event of None \<Rightarrow> True | Some sequence \<Rightarrow> sequence = 0)
      \<or> (case wev_intent_fingerprint event of None \<Rightarrow> True | Some fingerprint \<Rightarrow> \<not> valid_blake3_hex fingerprint))"

text \<open>The operation of a human event is new, and its fingerprint is the one of the request it answers.\<close>

definition check_human_operation ::
    "world_physics \<Rightarrow> event_host \<Rightarrow> world_event \<Rightarrow> world_state \<Rightarrow> intent_error + unit" where
  "check_human_operation ph h event w =
     (case (wev_actor_player_id event, wev_operation_id event, wev_operation_sequence event, wev_intent_fingerprint event) of
        (Some actor_player_id, Some operation_id, Some operation_sequence, Some intent_fingerprint) \<Rightarrow>
          try_r (map_err Rejected (validate_operation_attempt (wst_processed_operations w) actor_player_id
                   operation_sequence intent_fingerprint)) (\<lambda>receipt.
          if receipt \<noteq> None then Inl (Rejected ''replay_operation_duplicate'')
          else
          try_r (client_message_for_human_event operation_sequence operation_id (wev_payload event)) (\<lambda>reconstructed.
          try_r (client_intent_fingerprint ph h w actor_player_id reconstructed) (\<lambda>expected_fingerprint.
          if expected_fingerprint \<noteq> intent_fingerprint then Inl (Rejected ''replay_intent_fingerprint_mismatch'')
          else Inr ())))
      | _ \<Rightarrow> Inl (Rejected ''panic''))"

definition validate_actor :: "world_physics \<Rightarrow> event_host \<Rightarrow> world_event \<Rightarrow> world_state \<Rightarrow> intent_error + unit" where
  "validate_actor ph h event w =
     (if wev_actor_type event = ''human''
      then if human_envelope_invalid h event w then Inl (Rejected ''replay_actor_envelope_invalid'')
           else check_human_operation ph h event w
      else if wev_actor_type event = ''system''
      then if wev_actor_player_id event \<noteq> None \<or> wev_operation_id event \<noteq> None
              \<or> wev_operation_sequence event \<noteq> None \<or> wev_intent_fingerprint event \<noteq> None
           then Inl (Rejected ''replay_actor_envelope_invalid'') else Inr ()
      else Inl (Rejected ''replay_actor_envelope_invalid''))"

fun payload_is_operation :: "world_payload \<Rightarrow> bool" where
  "payload_is_operation (ProductionQuantumCommitted _ _ _) = False"
| "payload_is_operation (OreRefined _ _) = False"
| "payload_is_operation (ComponentCrafted _ _) = False"
| "payload_is_operation _ = True"

definition validate_payload_envelope :: "world_event \<Rightarrow> world_state \<Rightarrow> intent_error + unit" where
  "validate_payload_envelope event w =
     (if (case wev_actor_player_id event of None \<Rightarrow> False
          | Some player_id \<Rightarrow> bt_contains (wst_player_transfer_locks w) player_id)
      then Inl (Rejected ''replay_actor_transfer_locked'')
      else
      case wev_payload event of
        OreRefined _ _ \<Rightarrow> Inl (Rejected ''replay_physical_machine_required'')
      | ComponentCrafted _ _ \<Rightarrow> Inl (Rejected ''replay_physical_machine_required'')
      | ProductionQuantumCommitted _ _ _ \<Rightarrow>
          if wev_actor_player_id event \<noteq> None \<or> wev_actor_type event \<noteq> ''system'' \<or> wev_operation_id event \<noteq> None
          then Inl (Rejected ''replay_production_envelope_invalid'') else Inr ()
      | VoxelMined _ _ _ _ \<Rightarrow>
          if wev_actor_type event \<noteq> ''human'' \<or> wev_actor_player_id event = None
             \<or> (case wev_operation_id event of None \<Rightarrow> True | Some operation_id \<Rightarrow> operation_id = [])
          then Inl (Rejected ''replay_mining_envelope_invalid'') else Inr ()
      | _ \<Rightarrow>
          if wev_actor_type event \<noteq> ''human'' \<or> wev_actor_player_id event = None
             \<or> (case wev_operation_id event of None \<Rightarrow> True | Some operation_id \<Rightarrow> operation_id = [])
          then Inl (Rejected ''replay_hand_tool_envelope_invalid'') else Inr ())"

definition validate_actor_state :: "world_event \<Rightarrow> world_state \<Rightarrow> intent_error + unit" where
  "validate_actor_state event w =
     (if (case Option.bind (wev_actor_player_id event) (bt_get (wst_players w)) of
            None \<Rightarrow> False | Some actor \<Rightarrow> \<not> ply_alive actor)
      then Inl (Rejected ''replay_player_incapacitated'')
      else if wev_authority_fencing_token event = 0 \<or> wev_authority_fencing_token event < wst_fencing_token w
      then Inl (Rejected ''event_fencing_token_invalid'')
      else Inr ())"

definition validate_event_header :: "event_host \<Rightarrow> world_event \<Rightarrow> world_state \<Rightarrow> intent_error + unit" where
  "validate_event_header h event w =
     (if wev_schema_name event \<noteq> EVENT_SCHEMA_NAME \<or> wev_schema_version event \<noteq> EVENT_SCHEMA_VERSION
      then Inl (Rejected ''event_schema_mismatch'')
      else if wev_event_sequence event \<noteq> wst_event_sequence w + 1
      then Inl (SequenceMismatch (wst_event_sequence w + 1) (wev_event_sequence event))
      else if wev_previous_event_hash event \<noteq> wst_last_event_hash w then Inl PreviousHashMismatch
      else if wev_event_hash event \<noteq> calculate_event_hash h event then Inl InvalidEventHash
      else if wev_universe_id event \<noteq> wst_universe_id w \<or> wev_cell_id event \<noteq> wst_cell_id w then Inl WrongAuthority
      else if wev_content_manifest_version event \<noteq> wst_content_manifest_version w then Inl ContentManifestMismatch
      else if wev_universe_manifest_hash event \<noteq> wst_universe_manifest_hash w
         \<or> wev_celestial_registry_hash event \<noteq> wst_celestial_registry_hash w
      then Inl (Rejected ''event_universe_binding_mismatch'')
      else Inr ())"

definition apply_world_payload :: "world_physics \<Rightarrow> world_event \<Rightarrow> world_state \<Rightarrow> intent_error + world_state" where
  "apply_world_payload ph event w =
     (case wev_payload event of
        ProductionQuantumCommitted occurrence elapsed_ticks outcomes \<Rightarrow>
          apply_production_quantum ph (wev_event_id event) (wev_occurred_at_unix_ms event) occurrence elapsed_ticks outcomes w
      | payload \<Rightarrow>
          (case (wev_actor_player_id event, Option.bind (wev_actor_player_id event) (bt_get (wst_players w)), wev_operation_id event) of
             (Some actor_player_id, Some actor, Some operation_id) \<Rightarrow>
               apply_human_payload ph actor_player_id actor operation_id (wev_event_sequence event) payload w
           | _ \<Rightarrow> Inl (Rejected ''panic'')))"

definition record_event_operation :: "event_host \<Rightarrow> world_event \<Rightarrow> world_state \<Rightarrow> intent_error + world_state" where
  "record_event_operation h event w =
     (case (wev_actor_player_id event, wev_operation_id event, wev_operation_sequence event, wev_intent_fingerprint event) of
        (Some actor_player_id, Some operation_id, Some operation_sequence, Some intent_fingerprint) \<Rightarrow>
          (let (code, text) = payload_receipt (wev_payload event) in
           try_r (map_err (\<lambda>_. Rejected ''replay_operation_history_invalid'')
             (record_processed_operation (evh_codec h) (wst_cell_id w) (wst_event_sequence w) actor_player_id
                \<lparr>por_operation_id = operation_id, por_intent_fingerprint = intent_fingerprint,
                 por_receipt_origin_cell_id = wst_cell_id w,
                 por_receipt = \<lparr>rcp_operation_sequence = operation_sequence, rcp_operation_id = operation_id,
                                rcp_event_sequence = wev_event_sequence event, rcp_code = code, rcp_message = text\<rparr>\<rparr>
                (wst_processed_operations w))) (\<lambda>histories.
           Inr (w\<lparr>wst_processed_operations := histories\<rparr>)))
      | _ \<Rightarrow> Inr w)"

definition apply_world_event ::
    "world_physics \<Rightarrow> event_host \<Rightarrow> world_event \<Rightarrow> world_state \<Rightarrow> intent_error + world_state" where
  "apply_world_event ph h event w =
     try_r (validate_event_header h event w) (\<lambda>_.
     try_r (validate_actor ph h event w) (\<lambda>_.
     try_r (validate_payload_envelope event w) (\<lambda>_.
     try_r (validate_actor_state event w) (\<lambda>_.
     try_r (apply_world_payload ph event w) (\<lambda>w.
     let w = (credit_actor (wev_actor_player_id event) (wev_payload event) w)
                \<lparr>wst_event_sequence := wev_event_sequence event,
                 wst_fencing_token := wev_authority_fencing_token event,
                 wst_last_event_hash := wev_event_hash event\<rparr> in
     try_r (record_event_operation h event w) (\<lambda>w.
     if \<not> cns_valid (conservation w) then Inl (ConservationViolation (wev_event_sequence event))
     else Inr w))))))"

section \<open>Intents\<close>

definition prepare_mine_voxel ::
    "world_physics \<Rightarrow> player \<Rightarrow> ivec3 \<Rightarrow> world_state \<Rightarrow> intent_error + world_payload" where
  "prepare_mine_voxel ph actor coordinate w =
     try_r (ok_or (voxel_material_at (wst_voxels w) coordinate) (Rejected ''voxel_missing'')) (\<lambda>material.
     try_r (ensure_voxel_tool_target ph w actor coordinate ''voxel_not_targeted'') (\<lambda>_.
     try_r (find_inventory w (ply_inventory_id actor)) (\<lambda>inventory.
     if \<not> can_add inventory ResOre (content_voxel_ore_yield material)
     then Inl (Rejected ''inventory_capacity_exceeded'')
     else if voxel_supports_anchor ph w coordinate then Inl (Rejected ''voxel_supports_anchor'')
     else Inr (VoxelMined coordinate material (content_voxel_ore_yield material) (ply_inventory_id actor)))))"

definition ensure_queue_endpoint :: "world_state \<Rightarrow> string \<Rightarrow> string \<Rightarrow> string \<Rightarrow> intent_error + unit" where
  "ensure_queue_endpoint w actor_player_id machine_block_id inventory_id =
     try_r (ensure_actor_owns_inventory w actor_player_id inventory_id) (\<lambda>_.
     if cargo_block_for_inventory w inventory_id = None then Inl (Rejected ''production_cargo_required'')
     else if \<not> production_route_exists w machine_block_id inventory_id then Inl (Rejected ''production_route_missing'')
     else Inr ())"

definition prepare_queue_production ::
    "string \<Rightarrow> string \<Rightarrow> string \<Rightarrow> production_recipe_kind \<Rightarrow> u64 \<Rightarrow> string \<Rightarrow> string \<Rightarrow> world_state \<Rightarrow>
     intent_error + world_payload" where
  "prepare_queue_production actor_player_id operation_id machine_block_id recipe batches
       source_inventory_id destination_inventory_id w =
     try_r (ok_or (block_grid w machine_block_id) (Rejected ''production_machine_missing'')) (\<lambda>(g, machine).
     try_r (ensure_actor_owns_grid w actor_player_id (grd_grid_id g)) (\<lambda>_.
     if \<not> blk_construction_complete machine then Inl (Rejected ''production_machine_incomplete'')
     else if \<not> machine_supports_recipe (blk_kind machine) recipe then Inl (Rejected ''production_recipe_mismatch'')
     else if QUEUE_LIMIT_PER_MACHINE \<le> queue_length w machine_block_id then Inl (Rejected ''production_queue_full'')
     else
     try_r (for_each_r (ensure_queue_endpoint w actor_player_id machine_block_id)
              [source_inventory_id, destination_inventory_id]) (\<lambda>_.
     try_r (ok_or (production_recipe_quantities recipe batches) (Rejected ''production_quantity_invalid''))
       (\<lambda>(reserved_inputs, _, duration_ticks).
     try_r (find_inventory w source_inventory_id) (\<lambda>source.
     if ctn_ore (inv_contents source) < ctn_ore reserved_inputs
        \<or> ctn_refined_material (inv_contents source) < ctn_refined_material reserved_inputs
        \<or> ctn_components (inv_contents source) < ctn_components reserved_inputs
     then Inl (Rejected ''production_input_insufficient'')
     else Inr (ProductionQueued
       \<lparr>job_job_id = production_job_id (wst_event_sequence w + 1), job_operation_id = operation_id,
        job_owner_player_id = actor_player_id, job_machine_block_id = machine_block_id, job_recipe = recipe,
        job_content_manifest_version = wst_content_manifest_version w, job_batches = batches,
        job_source_inventory_id = source_inventory_id, job_destination_inventory_id = destination_inventory_id,
        job_progress_ticks = 0, job_duration_ticks = duration_ticks, job_reserved_inputs = reserved_inputs,
        job_pending_outputs = no_contents, job_queued_event_sequence = wst_event_sequence w + 1\<rparr>))))))"

definition prepare_transfer_inventory ::
    "string \<Rightarrow> string \<Rightarrow> string \<Rightarrow> resource_kind \<Rightarrow> u64 \<Rightarrow> world_state \<Rightarrow> intent_error + world_payload" where
  "prepare_transfer_inventory actor_player_id source_inventory_id destination_inventory_id resource quantity w =
     (if source_inventory_id = destination_inventory_id then Inl (Rejected ''same_inventory'')
      else if quantity = 0 then Inl (Rejected ''invalid_quantity'')
      else
      try_r (ensure_actor_owns_inventory w actor_player_id source_inventory_id) (\<lambda>_.
      try_r (ensure_actor_owns_inventory w actor_player_id destination_inventory_id) (\<lambda>_.
      try_r (ensure_inventory_functional w source_inventory_id) (\<lambda>_.
      try_r (ensure_inventory_functional w destination_inventory_id) (\<lambda>_.
      try_r (find_inventory w source_inventory_id) (\<lambda>source.
      try_r (find_inventory w destination_inventory_id) (\<lambda>destination.
      if contents_amount (inv_contents source) resource < quantity then Inl (Rejected ''insufficient_inventory'')
      else if \<not> can_add destination resource quantity then Inl (Rejected ''inventory_capacity_exceeded'')
      else Inr (InventoryTransferred source_inventory_id destination_inventory_id resource quantity))))))))"

definition new_block :: "string \<Rightarrow> ivec3 \<Rightarrow> block_kind \<Rightarrow> block" where
  "new_block block_id coordinate kind =
     \<lparr>blk_block_id = block_id, blk_coordinate = coordinate, blk_kind = kind, blk_orientation = 0,
      blk_health = bdf_max_health (content_block kind), blk_construction_complete = True,
      blk_component_cost = bdf_component_cost (content_block kind), blk_inventory_id = None\<rparr>"

definition new_frame :: "string \<Rightarrow> ivec3 \<Rightarrow> block_kind \<Rightarrow> u8 \<Rightarrow> block" where
  "new_frame block_id coordinate kind orientation =
     (let b = new_block block_id coordinate kind in
      b\<lparr>blk_orientation := orientation, blk_health := div_ceil_4 (blk_max_health b),
        blk_construction_complete := False, blk_inventory_id := built_inventory_id kind block_id\<rparr>)"

definition prepare_build_block ::
    "world_physics \<Rightarrow> string \<Rightarrow> player \<Rightarrow> string \<Rightarrow> ivec3 \<Rightarrow> block_kind \<Rightarrow> u8 \<Rightarrow> world_state \<Rightarrow> intent_error + world_payload" where
  "prepare_build_block ph actor_player_id actor grid_id coordinate kind orientation w =
     try_r (ensure_actor_owns_grid w actor_player_id grid_id) (\<lambda>_.
     try_r (find_grid w grid_id) (\<lambda>g.
     if 3 < orientation then Inl (Rejected ''invalid_block_orientation'')
     else if MAX_GRID_BLOCKS_P0 \<le> bt_len (grd_blocks g) then Inl (Rejected ''p0_grid_budget_reached'')
     else if block_at g coordinate \<noteq> None then Inl (Rejected ''block_position_occupied'')
     else if bt_len (grd_blocks g) \<noteq> 0
        \<and> \<not> list_ex (\<lambda>b. manhattan_distance (blk_coordinate b) coordinate = 1) (bt_values (grd_blocks g))
     then Inl (Rejected ''block_not_connected'')
     else
     try_r (ensure_build_tool_target ph w actor grid_id coordinate ''build_face_not_targeted'') (\<lambda>_.
     if player_intersects_grid_coordinate ph w g coordinate then Inl (Rejected ''block_intersects_player'')
     else
     try_r (find_inventory w (ply_inventory_id actor)) (\<lambda>inventory.
     if ctn_components (inv_contents inventory) < bdf_component_cost (content_block kind)
     then Inl (Rejected ''insufficient_components'')
     else Inr (BlockBuilt grid_id (ply_inventory_id actor)
                 (new_frame (built_block_id (wst_event_sequence w + 1)) coordinate kind orientation))))))"

definition prepare_weld_block ::
    "world_physics \<Rightarrow> string \<Rightarrow> player \<Rightarrow> string \<Rightarrow> string \<Rightarrow> world_state \<Rightarrow> intent_error + world_payload" where
  "prepare_weld_block ph actor_player_id actor grid_id block_id w =
     try_r (ensure_actor_owns_grid w actor_player_id grid_id) (\<lambda>_.
     try_r (find_grid w grid_id) (\<lambda>g.
     try_r (ok_or (bt_get (grd_blocks g) block_id) (Rejected ''block_missing'')) (\<lambda>b.
     try_r (ensure_block_tool_target ph w actor grid_id block_id ''block_not_targeted'') (\<lambda>_.
     let max_health = blk_max_health b; new_health = welded_health (blk_health b) max_health in
     if max_health \<le> blk_health b then Inl (Rejected ''block_already_complete'')
     else Inr (BlockWelded grid_id block_id (blk_health b) new_health max_health
                 (\<not> blk_construction_complete b \<and> new_health = max_health))))))"

definition prepare_set_grid_control ::
    "world_physics \<Rightarrow> string \<Rightarrow> string \<Rightarrow> vec3 \<Rightarrow> vec3 \<Rightarrow> bool \<Rightarrow> world_state \<Rightarrow> intent_error + world_payload" where
  "prepare_set_grid_control ph actor_player_id grid_id linear_input angular_input dampeners w =
     try_r (ensure_finite ph linear_input) (\<lambda>_.
     try_r (ensure_finite ph angular_input) (\<lambda>_.
     try_r (ensure_actor_owns_grid w actor_player_id grid_id) (\<lambda>_.
     try_r (find_grid w grid_id) (\<lambda>g.
     if grd_anchored g then Inl (Rejected ''grid_is_anchored'')
     else if \<not> wph_power_online ph g then Inl (Rejected ''grid_unpowered'')
     else if \<not> wph_within_control_limit ph linear_input \<or> \<not> wph_within_control_limit ph angular_input
     then Inl (Rejected ''control_limit_exceeded'')
     else Inr (GridControlSet grid_id linear_input angular_input dampeners)))))"

definition prepare_toggle_grid_anchor ::
    "world_physics \<Rightarrow> string \<Rightarrow> string \<Rightarrow> world_state \<Rightarrow> intent_error + world_payload" where
  "prepare_toggle_grid_anchor ph actor_player_id grid_id w =
     try_r (ensure_actor_owns_grid w actor_player_id grid_id) (\<lambda>_.
     try_r (find_grid w grid_id) (\<lambda>g.
     let anchored = (\<not> grd_anchored g) in
     if anchored \<and> \<not> wph_power_online ph g then Inl (Rejected ''grid_unpowered'')
     else if anchored \<and> \<not> anchor_touches ph g (wst_voxels w) then Inl (Rejected ''anchor_not_touching_voxel'')
     else Inr (GridAnchorSet grid_id anchored (anchored \<and> grd_anchor_reward_eligible g))))"

definition prepare_damage_block ::
    "world_physics \<Rightarrow> player \<Rightarrow> string \<Rightarrow> string \<Rightarrow> world_state \<Rightarrow> intent_error + world_payload" where
  "prepare_damage_block ph actor grid_id block_id w =
     try_r (find_grid w grid_id) (\<lambda>g.
     try_r (ok_or (bt_get (grd_blocks g) block_id) (Rejected ''block_missing'')) (\<lambda>_.
     try_r (ensure_block_tool_target ph w actor grid_id block_id ''block_not_targeted'') (\<lambda>_.
     Inr (BlockDamaged grid_id block_id HAND_TOOL_DAMAGE))))"

fun prepare_payload ::
    "world_physics \<Rightarrow> string \<Rightarrow> player \<Rightarrow> string \<Rightarrow> client_request \<Rightarrow> world_state \<Rightarrow> intent_error + world_payload" where
  "prepare_payload ph actor_player_id actor operation_id (MineVoxel coordinate) w = prepare_mine_voxel ph actor coordinate w"
| "prepare_payload ph actor_player_id actor operation_id (RefineOre _ _) w = Inl (Rejected ''physical_machine_required'')"
| "prepare_payload ph actor_player_id actor operation_id (CraftComponent _ _) w = Inl (Rejected ''physical_machine_required'')"
| "prepare_payload ph actor_player_id actor operation_id (QueueProduction machine recipe batches source destination) w =
     prepare_queue_production actor_player_id operation_id machine recipe batches source destination w"
| "prepare_payload ph actor_player_id actor operation_id (TransferInventory source destination resource quantity) w =
     prepare_transfer_inventory actor_player_id source destination resource quantity w"
| "prepare_payload ph actor_player_id actor operation_id (BuildBlock grid_id coordinate kind orientation) w =
     prepare_build_block ph actor_player_id actor grid_id coordinate kind orientation w"
| "prepare_payload ph actor_player_id actor operation_id (WeldBlock grid_id block_id) w =
     prepare_weld_block ph actor_player_id actor grid_id block_id w"
| "prepare_payload ph actor_player_id actor operation_id (SetGridControl grid_id linear_input angular_input dampeners) w =
     prepare_set_grid_control ph actor_player_id grid_id linear_input angular_input dampeners w"
| "prepare_payload ph actor_player_id actor operation_id (ToggleGridAnchor grid_id) w =
     prepare_toggle_grid_anchor ph actor_player_id grid_id w"
| "prepare_payload ph actor_player_id actor operation_id (DamageBlock grid_id block_id) w =
     prepare_damage_block ph actor grid_id block_id w"

section \<open>Events\<close>

text \<open>\<open>CanonicalEvent::new\<close> draws the identity of the event and reads the clock, which are arguments.\<close>

definition new_event ::
    "event_host \<Rightarrow> string \<Rightarrow> u64 \<Rightarrow> string option \<Rightarrow> string \<Rightarrow> (string \<times> u64 \<times> string) option \<Rightarrow> world_payload \<Rightarrow>
     world_state \<Rightarrow> world_event" where
  "new_event h event_id occurred_at_unix_ms actor_player_id actor_type operation payload w =
     (let event = \<lparr>wev_schema_name = EVENT_SCHEMA_NAME, wev_schema_version = EVENT_SCHEMA_VERSION,
        wev_content_manifest_version = wst_content_manifest_version w,
        wev_universe_manifest_hash = wst_universe_manifest_hash w,
        wev_celestial_registry_hash = wst_celestial_registry_hash w,
        wev_event_id = event_id, wev_event_sequence = wst_event_sequence w + 1,
        wev_occurred_at_unix_ms = occurred_at_unix_ms, wev_universe_id = wst_universe_id w,
        wev_cell_id = wst_cell_id w, wev_authority_fencing_token = max (wst_fencing_token w) 1,
        wev_actor_player_id = actor_player_id, wev_actor_type = actor_type,
        wev_operation_id = map_option fst operation,
        wev_operation_sequence = map_option (\<lambda>(_, sequence, _). sequence) operation,
        wev_intent_fingerprint = map_option (\<lambda>(_, _, fingerprint). fingerprint) operation,
        wev_previous_event_hash = wst_last_event_hash w, wev_payload = payload, wev_event_hash = []\<rparr>
      in event\<lparr>wev_event_hash := calculate_event_hash h event\<rparr>)"

definition retime_and_rehash :: "event_host \<Rightarrow> u64 \<Rightarrow> world_event \<Rightarrow> world_event" where
  "retime_and_rehash h occurred_at_unix_ms event =
     (let event = event\<lparr>wev_occurred_at_unix_ms := occurred_at_unix_ms\<rparr>
      in event\<lparr>wev_event_hash := calculate_event_hash h event\<rparr>)"

definition prepare_client_event_as ::
    "world_physics \<Rightarrow> event_host \<Rightarrow> string \<Rightarrow> u64 \<Rightarrow> string \<Rightarrow> client_message \<Rightarrow> world_state \<Rightarrow> intent_error + world_event" where
  "prepare_client_event_as ph h event_id now actor_player_id msg w =
     try_r (ok_or (bt_get (wst_players w) actor_player_id) (Rejected ''actor_not_present'')) (\<lambda>actor.
     if bt_contains (wst_player_transfer_locks w) actor_player_id then Inl (Rejected ''actor_transfer_locked'')
     else
     case msg of
       NotMutating \<Rightarrow> Inl (Rejected ''not_a_mutating_intent'')
     | Mutating operation_sequence operation_id request \<Rightarrow>
         if hcd_blank (evh_codec h) operation_id \<or> 128 < length operation_id then Inl (Rejected ''invalid_operation_id'')
         else
         try_r (client_intent_fingerprint ph h w actor_player_id msg) (\<lambda>intent_fingerprint.
         try_r (map_err Rejected (validate_operation_attempt (wst_processed_operations w) actor_player_id
                  operation_sequence intent_fingerprint)) (\<lambda>receipt.
         if receipt \<noteq> None then Inl (Rejected ''operation_already_committed'')
         else if \<not> ply_alive actor then Inl (Rejected ''player_incapacitated'')
         else
         try_r (prepare_payload ph actor_player_id actor operation_id request w) (\<lambda>payload.
         Inr (new_event h event_id now (Some actor_player_id) ''human''
                (Some (operation_id, operation_sequence, intent_fingerprint)) payload w)))))"

text \<open>
  The runtime's part of an intent up to the call of the store: an operation that is already committed is
  answered from its receipt, any other becomes an event and the state after it.
\<close>

definition execute_intent ::
    "world_physics \<Rightarrow> event_host \<Rightarrow> string \<Rightarrow> u64 \<Rightarrow> u64 \<Rightarrow> string \<Rightarrow> client_message \<Rightarrow> world_state \<Rightarrow>
     intent_error + intent_receipt + world_event \<times> world_state" where
  "execute_intent ph h event_id now trusted_now actor_player_id msg w =
     (if bt_get (wst_players w) actor_player_id = None then Inl (Rejected ''actor_not_present'')
      else if bt_contains (wst_player_transfer_locks w) actor_player_id then Inl (Rejected ''actor_transfer_locked'')
      else
      case msg of
        NotMutating \<Rightarrow> Inl (Rejected ''not_a_mutating_intent'')
      | Mutating operation_sequence operation_id request \<Rightarrow>
          if hcd_blank (evh_codec h) operation_id \<or> 128 < length operation_id then Inl (Rejected ''invalid_operation_id'')
          else
          try_r (client_intent_fingerprint ph h w actor_player_id msg) (\<lambda>intent_fingerprint.
          try_r (map_err Rejected (validate_operation_attempt (wst_processed_operations w) actor_player_id
                   operation_sequence intent_fingerprint)) (\<lambda>receipt.
          case receipt of
            Some receipt \<Rightarrow> Inr (Inl receipt)
          | None \<Rightarrow>
              try_r (prepare_client_event_as ph h event_id now actor_player_id msg w) (\<lambda>event.
              let event = retime_and_rehash h trusted_now event in
              try_r (background_production_is_runnable ph w) (\<lambda>_.
              try_r (apply_world_event ph h event w) (\<lambda>w'.
              Inr (Inr (event, w'))))))))"

definition prepare_production_quantum_event ::
    "world_physics \<Rightarrow> event_host \<Rightarrow> string \<Rightarrow> u64 \<Rightarrow> world_payload \<Rightarrow> world_state \<Rightarrow> intent_error + world_event" where
  "prepare_production_quantum_event ph h event_id now payload w =
     (case payload of
        ProductionQuantumCommitted occurrence _ _ \<Rightarrow>
          try_r (validate_next_production_occurrence w occurrence) (\<lambda>_.
          let event = (new_event h event_id now None ''system'' None payload w)
                \<lparr>wev_event_id := wph_occurrence_event_id ph occurrence,
                 wev_occurred_at_unix_ms := occ_scheduled_for_unix_ms occurrence\<rparr>
          in Inr (event\<lparr>wev_event_hash := calculate_event_hash h event\<rparr>))
      | _ \<Rightarrow> Inl (Rejected ''production_payload_invalid''))"

end
