(* ===== verification/WorldInvariant.thy ===== *)
theory WorldInvariant
  imports GridProperties WorldIntents
begin

text \<open>
  What the loader demands of a world (\<open>validate_player_roster\<close> and \<open>validate_authority_graph\<close> of
  \<open>crates/verse-simulation/src/model.rs\<close>) of its grids, inventories and production queues, and the
  exact balance of its resources behind \<open>conservation\<close>.
\<close>

section \<open>Well-formed worlds\<close>

definition grids_ok :: "(string, grid) btree_map \<Rightarrow> bool" where
  "grids_ok G \<longleftrightarrow> (\<forall>k g. bt_get G k = Some g \<longrightarrow> grd_grid_id g = k \<and> grid_ok g)
     \<and> (\<forall>k g j h m. bt_get G k = Some g \<and> bt_get G j = Some h \<and> m \<in> bt_dom (grd_blocks g) \<and> m \<in> bt_dom (grd_blocks h)
          \<longrightarrow> k = j)"

text \<open>A block of a world, with the owner of its grid.\<close>

definition block_of :: "(string, grid) btree_map \<Rightarrow> string \<Rightarrow> block \<Rightarrow> string \<Rightarrow> bool" where
  "block_of G m b owner \<longleftrightarrow>
     (\<exists>k g. bt_get G k = Some g \<and> bt_get (grd_blocks g) m = Some b \<and> grd_owner_player_id g = owner)"

definition owners_ok :: "world_state \<Rightarrow> bool" where
  "owners_ok w \<longleftrightarrow> (\<forall>k g. bt_get (wst_grids w) k = Some g \<longrightarrow> grd_owner_player_id g \<in> bt_dom (wst_players w))"

definition inventories_ok :: "(string, inventory_record) btree_map \<Rightarrow> bool" where
  "inventories_ok I \<longleftrightarrow> (\<forall>i v. bt_get I i = Some v \<longrightarrow> inv_inventory_id v = i \<and> used_liters v \<le> inv_capacity_liters v)"

definition players_linked :: "world_state \<Rightarrow> bool" where
  "players_linked w \<longleftrightarrow> (\<forall>p pl. bt_get (wst_players w) p = Some pl \<longrightarrow> ply_player_id pl = p
     \<and> (\<exists>v. bt_get (wst_inventories w) (ply_inventory_id pl) = Some v \<and> inv_domain v = DomainPlayer p))"

definition cargo_linked :: "world_state \<Rightarrow> bool" where
  "cargo_linked w \<longleftrightarrow> (\<forall>m b owner i. block_of (wst_grids w) m b owner \<and> blk_inventory_id b = Some i \<longrightarrow>
     (\<exists>v. bt_get (wst_inventories w) i = Some v \<and> inv_domain v = DomainCargo m))"

definition job_ok :: "string \<Rightarrow> production_job \<Rightarrow> bool" where
  "job_ok m job \<longleftrightarrow> job_machine_block_id job = m
     \<and> (\<exists>inputs outputs. production_recipe_quantities (job_recipe job) (job_batches job)
            = Some (inputs, outputs, job_duration_ticks job)
         \<and> job_progress_ticks job \<le> job_duration_ticks job
         \<and> (if job_progress_ticks job < job_duration_ticks job
            then job_reserved_inputs job = inputs \<and> job_pending_outputs job = no_contents
            else job_reserved_inputs job = no_contents \<and> job_pending_outputs job = outputs))"

definition queue_ok :: "(string, grid) btree_map \<Rightarrow> string \<Rightarrow> production_job list \<Rightarrow> bool" where
  "queue_ok G m q \<longleftrightarrow> q \<noteq> [] \<and> length q \<le> QUEUE_LIMIT_PER_MACHINE \<and> (\<forall>job \<in> set (tl q). job_progress_ticks job = 0)
     \<and> (\<forall>job \<in> set q. job_ok m job)
     \<and> (\<exists>b owner. block_of G m b owner \<and> blk_construction_complete b
          \<and> (\<forall>job \<in> set q. machine_supports_recipe (blk_kind b) (job_recipe job) \<and> job_owner_player_id job = owner))"

definition queues_ok :: "world_state \<Rightarrow> bool" where
  "queues_ok w \<longleftrightarrow> (\<forall>m q. bt_get (wst_production_queues w) m = Some q \<longrightarrow> queue_ok (wst_grids w) m q)"

definition world_ok :: "world_state \<Rightarrow> bool" where
  "world_ok w \<longleftrightarrow> grids_ok (wst_grids w) \<and> owners_ok w \<and> inventories_ok (wst_inventories w)
     \<and> players_linked w \<and> cargo_linked w \<and> queues_ok w"

section \<open>Sums over maps\<close>

definition bt_sum :: "('v \<Rightarrow> nat) \<Rightarrow> ('k::linorder, 'v) btree_map \<Rightarrow> nat" where
  "bt_sum f m = sum_list (map f (bt_values m))"

lemma bt_finite_bt_dom [simp]: "finite (bt_dom m)"
  by (simp add: bt_dom_def bt_finite_dom)

lemma bt_dom_iff: "k \<in> bt_dom m \<longleftrightarrow> (\<exists>v. bt_get m k = Some v)"
  by (auto simp: bt_dom_def)

lemma bt_sum_dom: "bt_sum f m = (\<Sum>k \<in> bt_dom m. f (the (bt_get m k)))"
proof -
  have "bt_sum f m = sum_list (map (\<lambda>(k, v). f v) (bt_entries m))"
    by (simp add: bt_sum_def bt_values_def case_prod_unfold comp_def)
  also have "\<dots> = (\<Sum>(k, v) \<in> set (bt_entries m). f v)"
    using bt_distinct_keys [of m] by (intro sum_list_distinct_conv_sum_set) (simp add: distinct_map)
  also have "set (bt_entries m) = (\<lambda>k. (k, the (bt_get m k))) ` bt_dom m"
    by (auto simp: bt_in_entries_iff bt_dom_iff image_iff)
  also have "(\<Sum>(k, v) \<in> \<dots>. f v) = (\<Sum>k \<in> bt_dom m. f (the (bt_get m k)))"
    by (subst sum.reindex) (auto simp: inj_on_def)
  finally show ?thesis .
qed

lemma bt_sum_remove: "bt_get m k = Some v \<Longrightarrow> bt_sum f (bt_remove k m) + f v = bt_sum f m"
proof -
  assume k: "bt_get m k = Some v"
  then have "bt_sum f m = f v + (\<Sum>j \<in> bt_dom m - {k}. f (the (bt_get m j)))"
    unfolding bt_sum_dom by (subst sum.remove [of _ k]) (auto simp: bt_dom_iff)
  moreover have "(\<Sum>j \<in> bt_dom m - {k}. f (the (bt_get m j))) = bt_sum f (bt_remove k m)"
    unfolding bt_sum_dom by (auto intro!: sum.cong)
  ultimately show ?thesis by simp
qed

lemma bt_sum_insert_new: "bt_get m k = None \<Longrightarrow> bt_sum f (bt_insert k v m) = bt_sum f m + f v"
proof -
  assume k: "bt_get m k = None"
  then have "bt_remove k (bt_insert k v m) = m" by (intro bt_eqI) auto
  with bt_sum_remove [of "bt_insert k v m" k v f] show ?thesis by simp
qed

lemma bt_remove_insert: "bt_remove k (bt_insert k v m) = bt_remove k m"
  by (rule bt_eqI) simp

lemma bt_sum_insert: "bt_get m k = Some u \<Longrightarrow> bt_sum f (bt_insert k v m) + f u = bt_sum f m + f v"
  using bt_sum_remove [of "bt_insert k v m" k v f] bt_sum_remove [of m k u f]
  by (simp add: bt_remove_insert)

lemma bt_sum_ge: "bt_get m k = Some v \<Longrightarrow> f v \<le> bt_sum f m"
  using bt_sum_remove [of m k v f] by simp

section \<open>The balance\<close>

definition amount_of :: "resource_kind \<Rightarrow> inventory_contents \<Rightarrow> nat" where
  "amount_of r c = unat (contents_amount c r)"

definition job_total :: "resource_kind \<Rightarrow> production_job \<Rightarrow> nat" where
  "job_total r job = amount_of r (job_reserved_inputs job) + amount_of r (job_pending_outputs job)"

definition queue_total :: "resource_kind \<Rightarrow> production_job list \<Rightarrow> nat" where
  "queue_total r q = sum_list (map (job_total r) q)"

definition stored :: "resource_kind \<Rightarrow> (string, inventory_record) btree_map \<Rightarrow> nat" where
  "stored r = bt_sum (\<lambda>v. amount_of r (inv_contents v))"

definition escrowed :: "resource_kind \<Rightarrow> (string, production_job list) btree_map \<Rightarrow> nat" where
  "escrowed r = bt_sum (queue_total r)"

definition live :: "resource_kind \<Rightarrow> world_state \<Rightarrow> nat" where
  "live r w = stored r (wst_inventories w) + escrowed r (wst_production_queues w)"

definition grid_cost :: "grid \<Rightarrow> nat" where
  "grid_cost g = bt_sum (\<lambda>b. unat (blk_component_cost b)) (grd_blocks g)"

definition installed :: "(string, grid) btree_map \<Rightarrow> nat" where
  "installed = bt_sum grid_cost"

text \<open>
  What was created and what was used up of each resource, by the ledger. A refined batch uses two ore and
  creates one refined material, a crafted component uses one refined material.
\<close>

fun created :: "ledger \<Rightarrow> resource_kind \<Rightarrow> nat" where
  "created l ResOre = unat (led_genesis_ore l) + unat (led_mined_ore l) + unat (led_transfer_imported_ore l)"
| "created l ResRefinedMaterial =
     unat (led_genesis_refined l) + unat (led_refine_batches l) + unat (led_transfer_imported_refined l)"
| "created l ResComponent = unat (led_genesis_components l) + unat (led_genesis_installed_components l)
     + unat (led_crafted_components l) + unat (led_transfer_imported_components l)"

fun used_up :: "ledger \<Rightarrow> resource_kind \<Rightarrow> nat" where
  "used_up l ResOre = 2 * unat (led_refine_batches l) + unat (led_transfer_exported_ore l)"
| "used_up l ResRefinedMaterial = unat (led_crafted_components l) + unat (led_transfer_exported_refined l)"
| "used_up l ResComponent = unat (led_destroyed_components l) + unat (led_transfer_exported_components l)"

fun built_in :: "world_state \<Rightarrow> resource_kind \<Rightarrow> nat" where
  "built_in w ResComponent = installed (wst_grids w)"
| "built_in w _ = 0"

definition balanced :: "world_state \<Rightarrow> bool" where
  "balanced w \<longleftrightarrow> (\<forall>r. created (wst_ledger w) r = live r w + built_in w r + used_up (wst_ledger w) r)"

text \<open>What has ever entered the world fits a counter, with room for one more voxel.\<close>

definition entered :: "ledger \<Rightarrow> nat" where
  "entered l = unat (led_genesis_ore l) + unat (led_mined_ore l) + unat (led_transfer_imported_ore l)
     + unat (led_genesis_refined l) + unat (led_transfer_imported_refined l)
     + unat (led_genesis_components l) + unat (led_genesis_installed_components l) + unat (led_transfer_imported_components l)"

definition headroom :: "world_state \<Rightarrow> bool" where
  "headroom w \<longleftrightarrow> entered (wst_ledger w) + 3 < 2 ^ 64"

section \<open>Machines\<close>

lemma find_map_None: "find_map f xs = None \<longleftrightarrow> (\<forall>x \<in> set xs. f x = None)"
  by (induction xs) (auto split: option.splits)

lemma block_grid_iff:
  assumes "grids_ok (wst_grids w)"
  shows "block_grid w m = Some (g, b) \<longleftrightarrow>
    bt_get (wst_grids w) (grd_grid_id g) = Some g \<and> bt_get (grd_blocks g) m = Some b"
proof
  assume "block_grid w m = Some (g, b)"
  from block_grid_Some [OF this] assms show "bt_get (wst_grids w) (grd_grid_id g) = Some g \<and> bt_get (grd_blocks g) m = Some b"
    by (auto simp: bt_in_values_iff grids_ok_def)
next
  assume gb: "bt_get (wst_grids w) (grd_grid_id g) = Some g \<and> bt_get (grd_blocks g) m = Some b"
  then have "g \<in> set (bt_values (wst_grids w))" by (auto simp: bt_in_values_iff)
  with gb have "block_grid w m \<noteq> None" unfolding block_grid_def find_map_None by force
  then obtain h d where hd: "block_grid w m = Some (h, d)" by fastforce
  from block_grid_Some [OF this] obtain k where "bt_get (wst_grids w) k = Some h" "bt_get (grd_blocks h) m = Some d"
    by (auto simp: bt_in_values_iff)
  moreover from this gb assms have "k = grd_grid_id g" unfolding grids_ok_def bt_dom_iff by blast
  ultimately show "block_grid w m = Some (g, b)" using gb hd by simp
qed

lemma block_of_unique:
  assumes "grids_ok G" and "block_of G m b owner" and "block_of G m c owner'"
  shows "c = b" "owner' = owner"
proof -
  from assms obtain k g j h where "bt_get G k = Some g" "bt_get (grd_blocks g) m = Some b" "grd_owner_player_id g = owner"
    "bt_get G j = Some h" "bt_get (grd_blocks h) m = Some c" "grd_owner_player_id h = owner'"
    by (auto simp: block_of_def)
  moreover from this assms(1) have "k = j" unfolding grids_ok_def bt_dom_iff by blast
  ultimately show "c = b" "owner' = owner" by auto
qed

lemma block_grid_of: "block_grid w m = Some (g, b) \<Longrightarrow> block_of (wst_grids w) m b (grd_owner_player_id g)"
  using block_grid_Some [of w m g b] by (auto simp: block_of_def bt_in_values_iff)

lemma block_grid_placed:
  assumes "grids_ok (wst_grids w)" and "bt_get (wst_grids w) k = Some g" and "bt_get (grd_blocks g) m = Some b"
  shows "block_grid w m = Some (g, b)"
  using assms block_grid_iff [OF assms(1), of m g b] by (simp add: grids_ok_def)

end
