(* ===== verification/Capacities.thy ===== *)
theory Capacities
  imports WorldInvariant
begin

text \<open>Volumes in exact arithmetic: what the saturating checks of capacities establish.\<close>

abbreviation MAX64 :: nat where "MAX64 \<equiv> 2 ^ 64 - 1"

definition volume :: "inventory_contents \<Rightarrow> nat" where
  "volume c = 37 * unat (ctn_ore c) + 15 * unat (ctn_refined_material c) + 22 * unat (ctn_components c)"

definition unit_volume :: "resource_kind \<Rightarrow> nat" where
  "unit_volume r = unat (resource_unit_volume_liters r)"

lemma unit_volume_simps [simp]:
  "unit_volume ResOre = 37" "unit_volume ResRefinedMaterial = 15" "unit_volume ResComponent = 22"
  by (simp_all add: unit_volume_def)

lemma unat_max64: "unat (- 1 :: u64) = MAX64"
  by (simp add: unsigned_minus_1_eq_mask mask_eq_exp_minus_1)

lemma u64_bound: "unat (c :: u64) \<le> MAX64"
proof -
  have "unat c < 2 ^ 64" using unsigned_less [of c] by simp
  then show ?thesis by simp
qed

lemma saturating_add_unat: "unat (saturating_add a b :: u64) = min MAX64 (unat a + unat b)"
proof (cases "checked_add a b")
  case None
  then have "2 ^ 64 \<le> unat a + unat b" by (simp add: checked_add_None_iff)
  with None show ?thesis by (simp add: saturating_add_def unat_max64)
next
  case (Some c)
  then have c: "unat c = unat a + unat b" by (simp add: checked_add_Some_iff)
  with Some show ?thesis using u64_bound [of c] by (simp add: saturating_add_def)
qed

lemma saturating_mul_unat: "unat (saturating_mul a b :: u64) = min MAX64 (unat a * unat b)"
proof (cases "unat a * unat b < 2 ^ 64")
  case True
  then show ?thesis by (simp add: saturating_mul_def checked_mul_def unat_word_ariths)
next
  case False
  then show ?thesis by (simp add: saturating_mul_def checked_mul_def unat_max64)
qed

lemma used_liters_unat: "unat (used_liters v) = min MAX64 (volume (inv_contents v))"
  by (simp add: used_liters_def saturating_total_def saturating_add_unat saturating_mul_unat volume_def)

lemma can_add_iff:
  "can_add v r q \<longleftrightarrow> min MAX64 (volume (inv_contents v) + unit_volume r * unat q) \<le> unat (inv_capacity_liters v)"
  by (simp add: can_add_def word_le_nat_alt saturating_add_unat saturating_mul_unat used_liters_unat unit_volume_def) linarith

lemma checked_mul_Some_unat: "checked_mul a b = Some (c :: u64) \<longleftrightarrow> unat c = unat a * unat b"
proof
  assume c: "unat c = unat a * unat b"
  with u64_bound [of c] have "unat a * unat b < 2 ^ 64" by simp
  with c show "checked_mul a b = Some c"
    by (simp add: checked_mul_def word_unat_eq_iff unat_word_ariths)
qed (rule checked_mul_SomeD)

lemma can_add_contents_bound:
  "inventory_can_add_contents v d \<Longrightarrow>
     min MAX64 (volume (inv_contents v)) + volume d \<le> unat (inv_capacity_liters v)"
  by (auto simp: inventory_can_add_contents_def bind_eq_Some_conv checked_mul_Some_unat checked_add_Some_iff
      used_liters_unat word_le_nat_alt volume_def split: option.splits)

lemma can_add_contents_fits:
  assumes "inventory_can_add_contents v d"
  shows "\<exists>c. add_contents (inv_contents v) d = Some c"
proof -
  have "min MAX64 (volume (inv_contents v)) + volume d \<le> MAX64"
    using can_add_contents_bound [OF assms] u64_bound [of "inv_capacity_liters v"] by simp
  then have "volume d = 0 \<or> volume (inv_contents v) + volume d \<le> MAX64" by linarith
  then have "unat (ctn_ore (inv_contents v)) + unat (ctn_ore d) \<le> MAX64"
    "unat (ctn_refined_material (inv_contents v)) + unat (ctn_refined_material d) \<le> MAX64"
    "unat (ctn_components (inv_contents v)) + unat (ctn_components d) \<le> MAX64"
    using u64_bound [of "ctn_ore (inv_contents v)"] u64_bound [of "ctn_refined_material (inv_contents v)"]
      u64_bound [of "ctn_components (inv_contents v)"]
    by (auto simp: volume_def)
  then show ?thesis by (simp add: add_contents_def checked_add_def)
qed

lemma add_contents_volume: "add_contents c d = Some e \<Longrightarrow> volume e = volume c + volume d"
  by (simp add: add_contents_Some_iff volume_def)

lemma add_contents_amount: "add_contents c d = Some e \<Longrightarrow> amount_of r e = amount_of r c + amount_of r d"
  by (cases r) (simp_all add: add_contents_Some_iff amount_of_def)

lemma subtract_contents_amount: "subtract_contents c d = Some e \<Longrightarrow> amount_of r e + amount_of r d = amount_of r c"
  unfolding subtract_contents_Some_iff by (simp add: add_contents_amount)

lemma amount_of_no_contents [simp]: "amount_of r no_contents = 0"
  by (cases r) (simp_all add: amount_of_def no_contents_def)

text \<open>An inventory may be refilled up to its capacity.\<close>

lemma used_liters_le:
  assumes "min MAX64 (volume c) \<le> unat (inv_capacity_liters v)"
  shows "used_liters (v\<lparr>inv_contents := c\<rparr>) \<le> inv_capacity_liters v"
  using assms by (simp add: word_le_nat_alt used_liters_unat)

lemma mutate_resource_amount [simp]:
  "contents_amount (mutate_resource r f c) s = (if s = r then f (contents_amount c r) else contents_amount c s)"
  by (cases r; cases s) simp_all

lemma volume_mutate:
  "volume (mutate_resource r f c) + unit_volume r * unat (contents_amount c r)
     = volume c + unit_volume r * unat (f (contents_amount c r))"
  by (cases r) (simp_all add: volume_def)

end
