(* ===== verification/WorldBlocks.thy ===== *)
theory WorldBlocks
  imports Capacities
begin

text \<open>
  How the operations on grids change the blocks of a world: in place, by a new block, by the loss of a
  block, and by regrouping them when a grid splits.
\<close>

section \<open>The cost of all blocks\<close>

lemma grids_okI:
  assumes "\<And>k g. bt_get G k = Some g \<Longrightarrow> grd_grid_id g = k \<and> grid_ok g"
    and "\<And>k g j h m. bt_get G k = Some g \<Longrightarrow> bt_get G j = Some h \<Longrightarrow> m \<in> bt_dom (grd_blocks g) \<Longrightarrow>
      m \<in> bt_dom (grd_blocks h) \<Longrightarrow> k = j"
  shows "grids_ok G"
  using assms unfolding grids_ok_def by blast

lemma grids_okD:
  assumes "grids_ok G" and "bt_get G k = Some g"
  shows "grd_grid_id g = k" "grid_ok g"
    and "bt_get G j = Some h \<Longrightarrow> m \<in> bt_dom (grd_blocks g) \<Longrightarrow> m \<in> bt_dom (grd_blocks h) \<Longrightarrow> k = j"
  using assms unfolding grids_ok_def by blast+

lemma block_ofI: "bt_get G k = Some g \<Longrightarrow> bt_get (grd_blocks g) m = Some b \<Longrightarrow> block_of G m b (grd_owner_player_id g)"
  by (auto simp: block_of_def)

lemma block_ofE:
  assumes "block_of G m b owner"
  obtains k g where "bt_get G k = Some g" "bt_get (grd_blocks g) m = Some b" "grd_owner_player_id g = owner"
  using assms by (auto simp: block_of_def)

definition block_ids :: "(string, grid) btree_map \<Rightarrow> string set" where
  "block_ids G = {m. \<exists>b owner. block_of G m b owner}"

definition cost_in :: "(string, grid) btree_map \<Rightarrow> string \<Rightarrow> nat" where
  "cost_in G m = unat (blk_component_cost (THE b. \<exists>owner. block_of G m b owner))"

lemma cost_in_eq: "grids_ok G \<Longrightarrow> block_of G m b owner \<Longrightarrow> cost_in G m = unat (blk_component_cost b)"
  unfolding cost_in_def by (rule arg_cong [where f = "\<lambda>b. unat (blk_component_cost b)"])
    (rule the_equality, auto dest: block_of_unique)

lemma block_ids_Union: "block_ids G = (\<Union>k \<in> bt_dom G. bt_dom (grd_blocks (the (bt_get G k))))"
  by (force simp: block_ids_def block_of_def bt_dom_iff)

lemma finite_block_ids [simp]: "finite (block_ids G)"
  by (simp add: block_ids_Union)

lemma installed_blocks: "grids_ok G \<Longrightarrow> installed G = (\<Sum>m \<in> block_ids G. cost_in G m)"
proof -
  assume ok: "grids_ok G"
  let ?ids = "\<lambda>k. bt_dom (grd_blocks (the (bt_get G k)))"
  have cost: "grid_cost (the (bt_get G k)) = (\<Sum>m \<in> ?ids k. cost_in G m)" if k: "k \<in> bt_dom G" for k
  proof -
    from k obtain g where g: "bt_get G k = Some g" by (auto simp: bt_dom_iff)
    have "cost_in G m = unat (blk_component_cost (the (bt_get (grd_blocks g) m)))" if m: "m \<in> bt_dom (grd_blocks g)" for m
    proof -
      from m obtain b where "bt_get (grd_blocks g) m = Some b" by (auto simp: bt_dom_iff)
      moreover from this g have "block_of G m b (grd_owner_player_id g)" by (auto simp: block_of_def)
      ultimately show ?thesis using cost_in_eq [OF ok] by simp
    qed
    with g show ?thesis by (simp add: grid_cost_def bt_sum_dom)
  qed
  have "installed G = (\<Sum>k \<in> bt_dom G. \<Sum>m \<in> ?ids k. cost_in G m)"
    unfolding installed_def bt_sum_dom [of grid_cost G] by (rule sum.cong) (simp_all add: cost)
  also have "\<dots> = (\<Sum>m \<in> block_ids G. cost_in G m)"
    unfolding block_ids_Union
  proof (rule sum.UNION_disjoint [symmetric])
    show "\<forall>i \<in> bt_dom G. \<forall>j \<in> bt_dom G. i \<noteq> j \<longrightarrow> ?ids i \<inter> ?ids j = {}"
      using ok unfolding grids_ok_def by (fastforce simp: bt_dom_iff)
  qed simp_all
  finally show ?thesis .
qed

text \<open>The blocks outside of a grid.\<close>

definition block_apart :: "(string, grid) btree_map \<Rightarrow> string \<Rightarrow> string \<Rightarrow> block \<Rightarrow> string \<Rightarrow> bool" where
  "block_apart G k m b owner \<longleftrightarrow>
     (\<exists>j g. j \<noteq> k \<and> bt_get G j = Some g \<and> bt_get (grd_blocks g) m = Some b \<and> grd_owner_player_id g = owner)"

lemma block_of_at:
  "bt_get G k = Some g \<Longrightarrow> block_of G m b owner \<longleftrightarrow>
     bt_get (grd_blocks g) m = Some b \<and> grd_owner_player_id g = owner \<or> block_apart G k m b owner"
  unfolding block_of_def block_apart_def by (metis option.inject)

lemma block_apart_simps [simp]:
  "block_apart (bt_insert k g G) k m b owner \<longleftrightarrow> block_apart G k m b owner"
  by (auto simp: block_apart_def)

lemma block_of_replaced:
  "block_of (bt_insert k g G) m b owner \<longleftrightarrow>
     bt_get (grd_blocks g) m = Some b \<and> grd_owner_player_id g = owner \<or> block_apart G k m b owner"
  using block_of_at [of "bt_insert k g G" k g] by simp

lemma block_of_dropped: "block_of (bt_remove k G) m b owner \<longleftrightarrow> block_apart G k m b owner"
  unfolding block_of_def block_apart_def by (metis bt_get_remove option.distinct(1))

text \<open>The same blocks in other grids cost the same.\<close>

definition regrouped :: "(string, grid) btree_map \<Rightarrow> (string, grid) btree_map \<Rightarrow> bool" where
  "regrouped G G' \<longleftrightarrow> (\<forall>m b owner. block_of G m b owner \<longleftrightarrow> block_of G' m b owner)"

lemma regrouped_installed: "regrouped G G' \<Longrightarrow> grids_ok G \<Longrightarrow> grids_ok G' \<Longrightarrow> installed G' = installed G"
  by (simp add: installed_blocks block_ids_def cost_in_def regrouped_def)

section \<open>Changes of a grid in place\<close>

definition same_block :: "block \<Rightarrow> block \<Rightarrow> bool" where
  "same_block b b' \<longleftrightarrow> blk_block_id b' = blk_block_id b \<and> blk_coordinate b' = blk_coordinate b
     \<and> blk_kind b' = blk_kind b \<and> blk_component_cost b' = blk_component_cost b \<and> blk_inventory_id b' = blk_inventory_id b
     \<and> (blk_construction_complete b \<longrightarrow> blk_construction_complete b')"

lemma same_block_refl [simp]: "same_block b b"
  by (simp add: same_block_def)

definition same_grid :: "grid \<Rightarrow> grid \<Rightarrow> bool" where
  "same_grid g g' \<longleftrightarrow> grd_grid_id g' = grd_grid_id g \<and> grd_owner_player_id g' = grd_owner_player_id g
     \<and> bt_dom (grd_blocks g') = bt_dom (grd_blocks g)
     \<and> (\<forall>m b b'. bt_get (grd_blocks g) m = Some b \<and> bt_get (grd_blocks g') m = Some b' \<longrightarrow> same_block b b')"

lemma same_grid_blocks:
  "grd_grid_id g' = grd_grid_id g \<Longrightarrow> grd_owner_player_id g' = grd_owner_player_id g \<Longrightarrow> grd_blocks g' = grd_blocks g \<Longrightarrow>
     same_grid g g'"
  by (auto simp: same_grid_def)

lemma same_grid_insert:
  "bt_get (grd_blocks g) m = Some b \<Longrightarrow> same_block b b' \<Longrightarrow> same_grid g (g\<lparr>grd_blocks := bt_insert m b' (grd_blocks g)\<rparr>)"
  by (auto simp: same_grid_def bt_dom_iff split: if_splits)

lemma grid_ok_mono:
  assumes "grid_ok g"
    and "\<And>m b'. bt_get (grd_blocks g') m = Some b' \<Longrightarrow> \<exists>b. bt_get (grd_blocks g) m = Some b \<and> same_block b b'"
  shows "grid_ok g'"
proof -
  have old: "\<exists>b. bt_get (grd_blocks g) m = Some b \<and> blk_coordinate b' = blk_coordinate b \<and> blk_block_id b' = m"
    if "bt_get (grd_blocks g') m = Some b'" for m b'
    using assms(2) [OF that] grid_okD(1) [OF assms(1)] by (auto simp: same_block_def)
  have "inj_on blk_coordinate (set (bt_values (grd_blocks g')))"
  proof (rule inj_onI)
    fix b c
    assume "b \<in> set (bt_values (grd_blocks g'))" "c \<in> set (bt_values (grd_blocks g'))" "blk_coordinate b = blk_coordinate c"
    moreover from this obtain m n where "bt_get (grd_blocks g') m = Some b" "bt_get (grd_blocks g') n = Some c"
      by (auto simp: bt_in_values_iff)
    ultimately have "n = m" using old grid_okD(4) [OF assms(1)] by metis
    with \<open>bt_get (grd_blocks g') m = Some b\<close> \<open>bt_get (grd_blocks g') n = Some c\<close> show "b = c" by simp
  qed
  moreover have "Ball (coordinates g') i32_coordinate"
  proof
    fix c
    assume "c \<in> coordinates g'"
    then obtain m b' where "bt_get (grd_blocks g') m = Some b'" "blk_coordinate b' = c"
      by (auto simp: coordinates_def bt_in_values_iff)
    with old grid_okD(3) [OF assms(1)] show "i32_coordinate c" by metis
  qed
  moreover have "grid_keyed g'" using old by (auto simp: grid_keyed_def)
  ultimately show ?thesis by (simp add: grid_ok_def)
qed

lemma same_grid_back:
  assumes "same_grid g g'" and "bt_get (grd_blocks g') m = Some b'"
  shows "\<exists>b. bt_get (grd_blocks g) m = Some b \<and> same_block b b'"
proof -
  from assms have "m \<in> bt_dom (grd_blocks g)" by (metis same_grid_def bt_dom_iff)
  with assms show ?thesis unfolding same_grid_def bt_dom_iff by blast
qed

lemma grids_ok_replace:
  assumes "grids_ok G" and "bt_get G k = Some g" and "grd_grid_id g' = k" and "grid_ok g'"
    and "bt_dom (grd_blocks g') \<subseteq> bt_dom (grd_blocks g) \<union> - block_ids G"
  shows "grids_ok (bt_insert k g' G)"
proof (rule grids_okI)
  fix j h
  assume "bt_get (bt_insert k g' G) j = Some h"
  then show "grd_grid_id h = j \<and> grid_ok h" using assms(3,4) grids_okD [OF assms(1)] by (auto split: if_splits)
next
  have old: "j = k" if h: "bt_get G j = Some h" "m \<in> bt_dom (grd_blocks h)" "m \<in> bt_dom (grd_blocks g')" for j h m
  proof -
    from h(1,2) have "m \<in> block_ids G" by (auto simp: block_ids_def bt_dom_iff dest: block_ofI)
    with h(3) assms(5) have "m \<in> bt_dom (grd_blocks g)" by blast
    with grids_okD(3) [OF assms(1) h(1) assms(2)] h(2) show ?thesis by blast
  qed
  fix j h i f m
  assume "bt_get (bt_insert k g' G) j = Some h" "bt_get (bt_insert k g' G) i = Some f"
    "m \<in> bt_dom (grd_blocks h)" "m \<in> bt_dom (grd_blocks f)"
  then show "j = i"
    using old grids_okD(3) [OF assms(1)] by (auto split: if_splits)
qed

lemma grids_ok_put:
  assumes "grids_ok G" and "bt_get G k = Some g" and "same_grid g g'"
  shows "grids_ok (bt_insert k g' G)"
proof (rule grids_ok_replace [OF assms(1,2)])
  show "grd_grid_id g' = k" using assms grids_okD(1) [OF assms(1,2)] by (simp add: same_grid_def)
  show "grid_ok g'"
    by (rule grid_ok_mono [OF grids_okD(2) [OF assms(1,2)]]) (rule same_grid_back [OF assms(3)])
  show "bt_dom (grd_blocks g') \<subseteq> bt_dom (grd_blocks g) \<union> - block_ids G" using assms(3) by (simp add: same_grid_def)
qed

text \<open>What holds of the blocks after a change in place.\<close>

lemma block_of_put:
  assumes "bt_get G k = Some g" and "same_grid g g'"
  shows "block_of G m b owner \<Longrightarrow> \<exists>b'. block_of (bt_insert k g' G) m b' owner \<and> same_block b b'"
    and "block_of (bt_insert k g' G) m b' owner \<Longrightarrow> \<exists>b. block_of G m b owner \<and> same_block b b'"
proof -
  have owner: "grd_owner_player_id g' = grd_owner_player_id g" using assms(2) by (simp add: same_grid_def)
  have put: "bt_get (bt_insert k g' G) k = Some g'" by simp
  show "\<exists>b'. block_of (bt_insert k g' G) m b' owner \<and> same_block b b'" if "block_of G m b owner"
    using that
  proof (rule block_ofE)
    fix j h
    assume h: "bt_get G j = Some h" "bt_get (grd_blocks h) m = Some b" "grd_owner_player_id h = owner"
    show ?thesis
    proof (cases "j = k")
      case True
      with h assms(1) have g: "bt_get (grd_blocks g) m = Some b" "grd_owner_player_id g = owner" by simp_all
      then have "m \<in> bt_dom (grd_blocks g')" using assms(2) by (auto simp: same_grid_def bt_dom_iff)
      then obtain b' where b': "bt_get (grd_blocks g') m = Some b'" by (auto simp: bt_dom_iff)
      with g(1) assms(2) have "same_block b b'" unfolding same_grid_def by blast
      with block_ofI [OF put b'] owner g(2) show ?thesis by auto
    next
      case False
      with h have "bt_get (bt_insert k g' G) j = Some h" by simp
      from block_ofI [OF this h(2)] h(3) show ?thesis by (intro exI [of _ b]) simp
    qed
  qed
  show "\<exists>b. block_of G m b owner \<and> same_block b b'" if "block_of (bt_insert k g' G) m b' owner"
    using that
  proof (rule block_ofE)
    fix j h
    assume h: "bt_get (bt_insert k g' G) j = Some h" "bt_get (grd_blocks h) m = Some b'" "grd_owner_player_id h = owner"
    show ?thesis
    proof (cases "j = k")
      case True
      with h have g': "bt_get (grd_blocks g') m = Some b'" "grd_owner_player_id g' = owner" by simp_all
      from same_grid_back [OF assms(2) g'(1)] obtain b where "bt_get (grd_blocks g) m = Some b" "same_block b b'" by blast
      with block_ofI [OF assms(1)] owner g'(2) show ?thesis by auto
    next
      case False
      with h(1) have "bt_get G j = Some h" by simp
      from block_ofI [OF this h(2)] h(3) show ?thesis by (intro exI [of _ b']) simp
    qed
  qed
qed

lemma installed_put:
  assumes "grids_ok G" and "bt_get G k = Some g" and "same_grid g g'"
  shows "installed (bt_insert k g' G) = installed G"
proof -
  have "grid_cost g' = grid_cost g"
    unfolding grid_cost_def bt_sum_dom
  proof (rule sum.cong)
    show "bt_dom (grd_blocks g') = bt_dom (grd_blocks g)" using assms(3) by (simp add: same_grid_def)
    fix m
    assume "m \<in> bt_dom (grd_blocks g)"
    with assms(3) obtain b b' where "bt_get (grd_blocks g) m = Some b" "bt_get (grd_blocks g') m = Some b'" "same_block b b'"
      unfolding same_grid_def by (metis bt_dom_iff)
    then show "unat (blk_component_cost (the (bt_get (grd_blocks g') m))) = unat (blk_component_cost (the (bt_get (grd_blocks g) m)))"
      by (simp add: same_block_def)
  qed
  with bt_sum_insert [OF assms(2), of grid_cost g'] show ?thesis by (simp add: installed_def)
qed

section \<open>A new block\<close>

lemma bt_values_insert_new:
  assumes "bt_get m k = None"
  shows "set (bt_values (bt_insert k v m)) = insert v (set (bt_values m))"
proof (intro set_eqI iffI)
  fix x
  assume "x \<in> set (bt_values (bt_insert k v m))"
  then obtain j where "bt_get (bt_insert k v m) j = Some x" unfolding bt_in_values_iff by blast
  then show "x \<in> insert v (set (bt_values m))" by (cases "j = k") (auto simp: bt_in_values_iff)
next
  fix x
  assume "x \<in> insert v (set (bt_values m))"
  then consider "x = v" | j where "bt_get m j = Some x" by (auto simp: bt_in_values_iff)
  then show "x \<in> set (bt_values (bt_insert k v m))"
  proof cases
    case 1
    then have "bt_get (bt_insert k v m) k = Some x" by simp
    then show ?thesis unfolding bt_in_values_iff by blast
  next
    case 2
    with assms have "bt_get (bt_insert k v m) j = Some x" by auto
    then show ?thesis unfolding bt_in_values_iff by blast
  qed
qed

lemma grid_ok_insert:
  assumes "grid_ok g" and "blk_block_id b = m" and "i32_coordinate (blk_coordinate b)"
    and "blk_coordinate b \<notin> coordinates g" and "m \<notin> bt_dom (grd_blocks g)"
  shows "grid_ok (g\<lparr>grd_blocks := bt_insert m b (grd_blocks g)\<rparr>)"
proof -
  let ?g = "g\<lparr>grd_blocks := bt_insert m b (grd_blocks g)\<rparr>"
  have none: "bt_get (grd_blocks g) m = None" using assms(5) by (auto simp: bt_dom_def)
  have contents: "set (bt_values (grd_blocks ?g)) = insert b (set (bt_values (grd_blocks g)))"
    using bt_values_insert_new [OF none] by simp
  have "inj_on blk_coordinate (set (bt_values (grd_blocks ?g)))"
    unfolding contents inj_on_insert using assms(1,4) by (auto simp: grid_ok_def coordinates_def)
  with assms contents show ?thesis by (auto simp: grid_ok_def grid_keyed_def coordinates_def)
qed

lemma block_of_insert:
  assumes "bt_get G k = Some g" and "m \<notin> block_ids G"
  shows "block_of (bt_insert k (g\<lparr>grd_blocks := bt_insert m b (grd_blocks g)\<rparr>) G) j c owner \<longleftrightarrow>
    block_of G j c owner \<or> j = m \<and> c = b \<and> owner = grd_owner_player_id g"
proof -
  have "\<not> block_of G m c owner" for c owner using assms(2) by (auto simp: block_ids_def)
  then have "bt_get (grd_blocks g) m \<noteq> Some c" "\<not> block_apart G k m c owner" for c owner
    unfolding block_of_at [OF assms(1)] by auto
  then show ?thesis unfolding block_of_replaced block_of_at [OF assms(1)] by auto
qed

lemma installed_insert:
  assumes "bt_get G k = Some g" and "m \<notin> bt_dom (grd_blocks g)"
  shows "installed (bt_insert k (g\<lparr>grd_blocks := bt_insert m b (grd_blocks g)\<rparr>) G) = installed G + unat (blk_component_cost b)"
proof -
  have "bt_get (grd_blocks g) m = None" using assms(2) by (auto simp: bt_dom_def)
  from bt_sum_insert_new [OF this, of "\<lambda>b. unat (blk_component_cost b)" b]
    bt_sum_insert [OF assms(1), of grid_cost "g\<lparr>grd_blocks := bt_insert m b (grd_blocks g)\<rparr>"]
  show ?thesis by (simp add: installed_def grid_cost_def)
qed

section \<open>A lost block\<close>

lemma grids_ok_remove:
  assumes "grids_ok G" and "bt_get G k = Some g"
  shows "grids_ok (bt_insert k (g\<lparr>grd_blocks := bt_remove m (grd_blocks g)\<rparr>) G)"
proof (rule grids_ok_replace [OF assms])
  show "grd_grid_id (g\<lparr>grd_blocks := bt_remove m (grd_blocks g)\<rparr>) = k" using grids_okD(1) [OF assms] by simp
  show "grid_ok (g\<lparr>grd_blocks := bt_remove m (grd_blocks g)\<rparr>)"
    by (rule grid_ok_mono [OF grids_okD(2) [OF assms]]) (auto split: if_splits)
qed auto

lemma block_of_remove:
  assumes "grids_ok G" and "bt_get G k = Some g" and "m \<in> bt_dom (grd_blocks g)"
  shows "block_of (bt_insert k (g\<lparr>grd_blocks := bt_remove m (grd_blocks g)\<rparr>) G) j c owner \<longleftrightarrow>
    block_of G j c owner \<and> j \<noteq> m"
proof -
  have "\<not> block_apart G k m b owner" for b owner
    using grids_okD(3) [OF assms(1) assms(2) _ assms(3)] unfolding block_apart_def bt_dom_iff by metis
  then show ?thesis unfolding block_of_replaced block_of_at [OF assms(2)] by auto
qed

lemma installed_remove:
  assumes "bt_get G k = Some g" and "bt_get (grd_blocks g) m = Some b"
  shows "installed (bt_insert k (g\<lparr>grd_blocks := bt_remove m (grd_blocks g)\<rparr>) G) + unat (blk_component_cost b) = installed G"
  using bt_sum_remove [OF assms(2), of "\<lambda>b. unat (blk_component_cost b)"]
    bt_sum_insert [OF assms(1), of grid_cost "g\<lparr>grd_blocks := bt_remove m (grd_blocks g)\<rparr>"]
  by (simp add: installed_def grid_cost_def)

section \<open>A split grid\<close>

lemma split_Inr_grids: "split_disconnected_grid ph k e w = Inr w' \<Longrightarrow> w' = w\<lparr>wst_grids := wst_grids w'\<rparr>"
  unfolding split_disconnected_grid_def by (auto simp: Let_def result_elims split: if_splits)

lemma split_regroups:
  assumes "grids_ok (wst_grids w)" and "bt_get (wst_grids w) k = Some g" and "split_disconnected_grid ph k e w = Inr w'"
  shows "regrouped (wst_grids w) (wst_grids w') \<and> grids_ok (wst_grids w')
    \<and> (\<forall>j f. bt_get (wst_grids w') j = Some f \<longrightarrow> (\<exists>i h. bt_get (wst_grids w) i = Some h
         \<and> grd_owner_player_id f = grd_owner_player_id h))"
proof (cases "bt_values (grd_blocks g) = []")
  case True
  then have none: "bt_get (grd_blocks g) j = None" for j by (metis bt_in_values_iff list.set(1) empty_iff option.exhaust)
  have w': "wst_grids w' = bt_remove k (wst_grids w)"
    using assms(2,3) True by (auto simp: split_disconnected_grid_def)
  have "block_of (wst_grids w) m b owner \<longleftrightarrow> block_of (wst_grids w') m b owner" for m b owner
    unfolding w' block_of_dropped block_of_at [OF assms(2)] using none by simp
  moreover have "grids_ok (wst_grids w')"
    unfolding w' by (rule grids_okI) (use grids_okD [OF assms(1)] in \<open>auto split: if_splits\<close>)
  ultimately show ?thesis by (auto simp: regrouped_def w' split: if_splits)
next
  case False
  note ok = grids_okD [OF assms(1,2)]
  have g: "bt_get (wst_grids w) (grd_grid_id g) = Some g" "split_disconnected_grid ph (grd_grid_id g) e w = Inr w'"
    using assms ok(1) by simp_all
  note frag = fragment_iff [OF ok(2) g(1) False g(2)] and inside = in_fragment_iff [OF ok(2) g(1) False g(2)]
  have fragment: "grd_grid_id f = j \<and> grd_owner_player_id f = grd_owner_player_id g
      \<and> (\<forall>m b. bt_get (grd_blocks f) m = Some b \<longrightarrow> in_fragment w g w' j m b)"
    if "j \<in> fragment_keys w g" "bt_get (wst_grids w') j = Some f" for j f
    using that(2) that unfolding frag(1) [OF that(1)] in_fragment_def by (auto simp: grid_fragment_def)
  have in_g: "bt_get (grd_blocks g) m = Some b" if "in_fragment w g w' j m b" for j m b
    using that unfolding inside by blast
  have unique: "\<exists>!j. in_fragment w g w' j m b" if b: "bt_get (grd_blocks g) m = Some b" for m b
    using component_unique [OF ok(2) grid_okD(2) [OF ok(2) b]] b unfolding inside by auto
  have keys: "j = k" if "j \<in> fragment_keys w g" "bt_get (wst_grids w) j = Some h" for j h
    using that ok(1) by (auto simp: fragment_keys_def)
  have forth: "block_of (wst_grids w') m b owner" if "block_of (wst_grids w) m b owner" for m b owner
    using that
  proof (rule block_ofE)
    fix j h
    assume h: "bt_get (wst_grids w) j = Some h" "bt_get (grd_blocks h) m = Some b" "grd_owner_player_id h = owner"
    show ?thesis
    proof (cases "j \<in> fragment_keys w g")
      case True
      with keys h assms(2) have "h = g" by auto
      with h unique obtain i f where "i \<in> fragment_keys w g" "bt_get (wst_grids w') i = Some f" "bt_get (grd_blocks f) m = Some b"
        unfolding in_fragment_def by blast
      with fragment \<open>h = g\<close> h(3) block_ofI show ?thesis by metis
    next
      case False
      with h frag(2) block_ofI show ?thesis by metis
    qed
  qed
  have backward: "block_of (wst_grids w) m b owner" if "block_of (wst_grids w') m b owner" for m b owner
    using that
  proof (rule block_ofE)
    fix j h
    assume h: "bt_get (wst_grids w') j = Some h" "bt_get (grd_blocks h) m = Some b" "grd_owner_player_id h = owner"
    show ?thesis
    proof (cases "j \<in> fragment_keys w g")
      case True
      with fragment h in_g have "bt_get (grd_blocks g) m = Some b" "grd_owner_player_id g = owner" by metis+
      with block_ofI [OF assms(2)] show ?thesis by auto
    next
      case False
      with h frag(2) block_ofI show ?thesis by metis
    qed
  qed
  have fragment_ok: "grid_ok f" if "j \<in> fragment_keys w g" "bt_get (wst_grids w') j = Some f" for j f
  proof (rule grid_ok_mono [OF ok(2)])
    fix m b
    assume "bt_get (grd_blocks f) m = Some b"
    with fragment [OF that] in_g show "\<exists>d. bt_get (grd_blocks g) m = Some d \<and> same_block d b" by (metis same_block_refl)
  qed
  have "grids_ok (wst_grids w')"
  proof (rule grids_okI)
    fix j h
    assume "bt_get (wst_grids w') j = Some h"
    then show "grd_grid_id h = j \<and> grid_ok h"
      using fragment fragment_ok frag(2) grids_okD(1,2) [OF assms(1)] by (cases "j \<in> fragment_keys w g") auto
  next
    fix j h i f m
    assume h: "bt_get (wst_grids w') j = Some h" and f: "bt_get (wst_grids w') i = Some f"
      and m: "m \<in> bt_dom (grd_blocks h)" "m \<in> bt_dom (grd_blocks f)"
    from m obtain b c where b: "bt_get (grd_blocks h) m = Some b" and c: "bt_get (grd_blocks f) m = Some c"
      by (auto simp: bt_dom_iff)
    have from_g: "l = k" if "bt_get (wst_grids w) l = Some d" "m \<in> bt_dom (grd_blocks d)" "bt_get (grd_blocks g) m = Some a" for l d a
      using grids_okD(3) [OF assms(1) that(1) assms(2) that(2)] that(3) by (auto simp: bt_dom_iff)
    have k: "k \<in> fragment_keys w g" using ok(1) by (simp add: fragment_keys_def)
    show "j = i"
    proof (cases "j \<in> fragment_keys w g"; cases "i \<in> fragment_keys w g")
      assume "j \<in> fragment_keys w g" "i \<in> fragment_keys w g"
      with fragment h f b c in_g unique show ?thesis by (metis option.inject)
    next
      assume "j \<in> fragment_keys w g" "i \<notin> fragment_keys w g"
      with fragment h f b c in_g frag(2) from_g k m show ?thesis by metis
    next
      assume "j \<notin> fragment_keys w g" "i \<in> fragment_keys w g"
      with fragment h f b c in_g frag(2) from_g k m show ?thesis by metis
    next
      assume "j \<notin> fragment_keys w g" "i \<notin> fragment_keys w g"
      with h f m frag(2) grids_okD(3) [OF assms(1)] show ?thesis by metis
    qed
  qed
  moreover have "\<exists>i h. bt_get (wst_grids w) i = Some h \<and> grd_owner_player_id f = grd_owner_player_id h"
    if "bt_get (wst_grids w') j = Some f" for j f
    using that fragment assms(2) frag(2) by (cases "j \<in> fragment_keys w g") metis+
  ultimately show ?thesis using forth backward unfolding regrouped_def by blast
qed

end
