(* ===== verification/WorldSteps.thy ===== *)
theory WorldSteps
  imports WorldBlocks
begin

text \<open>The payloads of players keep worlds well-formed and resources balanced.\<close>

section \<open>Changing the contents of an inventory\<close>

definition refill :: "string \<Rightarrow> inventory_record \<Rightarrow> inventory_contents \<Rightarrow> world_state \<Rightarrow> world_state" where
  "refill i v c w = w\<lparr>wst_inventories := bt_insert i (v\<lparr>inv_contents := c\<rparr>) (wst_inventories w)\<rparr>"

lemma set_contents_Inr:
  "set_inventory_contents i c w = Inr w' \<longleftrightarrow> (\<exists>v. bt_get (wst_inventories w) i = Some v \<and> w' = refill i v c w)"
  by (auto simp: set_inventory_contents_def find_inventory_def refill_def result_elims)

lemma find_inventory_Inr: "find_inventory w i = Inr v \<longleftrightarrow> bt_get (wst_inventories w) i = Some v"
  by (simp add: find_inventory_def result_elims)

lemma find_grid_Inr: "find_grid w k = Inr g \<longleftrightarrow> bt_get (wst_grids w) k = Some g"
  by (simp add: find_grid_def result_elims)

lemma refill_simps [simp]:
  "wst_grids (refill i v c w) = wst_grids w" "wst_production_queues (refill i v c w) = wst_production_queues w"
  "wst_ledger (refill i v c w) = wst_ledger w" "wst_players (refill i v c w) = wst_players w"
  "wst_inventories (refill i v c w) = bt_insert i (v\<lparr>inv_contents := c\<rparr>) (wst_inventories w)"
  by (simp_all add: refill_def)

text \<open>A change of the inventories that keeps domains keeps the links to them.\<close>

definition same_domains :: "(string, inventory_record) btree_map \<Rightarrow> (string, inventory_record) btree_map \<Rightarrow> bool" where
  "same_domains I I' \<longleftrightarrow> (\<forall>i v. bt_get I i = Some v \<longrightarrow> (\<exists>v'. bt_get I' i = Some v' \<and> inv_domain v' = inv_domain v))"

lemma same_domains_refl [simp]: "same_domains I I"
  by (simp add: same_domains_def)

lemma same_domains_put:
  "bt_get I i = Some v \<Longrightarrow> inv_domain v' = inv_domain v \<Longrightarrow> same_domains I (bt_insert i v' I)"
  by (auto simp: same_domains_def)

lemma same_domains_new: "bt_get I i = None \<Longrightarrow> same_domains I (bt_insert i v I)"
  by (auto simp: same_domains_def)

lemma world_ok_inventories:
  assumes "world_ok w" and "same_domains (wst_inventories w) I" and "inventories_ok I"
  shows "world_ok (w\<lparr>wst_inventories := I\<rparr>)"
proof -
  have linked: "\<exists>v'. bt_get I i = Some v' \<and> inv_domain v' = d"
    if "\<exists>v. bt_get (wst_inventories w) i = Some v \<and> inv_domain v = d" for i d
    using that assms(2) by (fastforce simp: same_domains_def)
  have "players_linked (w\<lparr>wst_inventories := I\<rparr>)" "cargo_linked (w\<lparr>wst_inventories := I\<rparr>)"
    using assms(1) linked by (simp_all add: world_ok_def players_linked_def cargo_linked_def)
  with assms show ?thesis by (simp add: world_ok_def owners_ok_def queues_ok_def)
qed

lemma inventories_ok_put:
  assumes "inventories_ok I" and "inv_inventory_id v = i" and "used_liters v \<le> inv_capacity_liters v"
  shows "inventories_ok (bt_insert i v I)"
  using assms by (simp add: inventories_ok_def)

lemma world_ok_refill:
  assumes "world_ok w" and "bt_get (wst_inventories w) i = Some v" and "min MAX64 (volume c) \<le> unat (inv_capacity_liters v)"
  shows "world_ok (refill i v c w)"
  unfolding refill_def
proof (rule world_ok_inventories [OF assms(1)])
  show "same_domains (wst_inventories w) (bt_insert i (v\<lparr>inv_contents := c\<rparr>) (wst_inventories w))"
    by (rule same_domains_put [OF assms(2)]) simp
  from assms(1,2) have "inventories_ok (wst_inventories w)" "inv_inventory_id v = i"
    by (auto simp: world_ok_def inventories_ok_def)
  then show "inventories_ok (bt_insert i (v\<lparr>inv_contents := c\<rparr>) (wst_inventories w))"
    using used_liters_le [OF assms(3)] by (intro inventories_ok_put) simp_all
qed

lemma inventory_volume:
  assumes "world_ok w" and "bt_get (wst_inventories w) i = Some v"
  shows "min MAX64 (volume (inv_contents v)) \<le> unat (inv_capacity_liters v)"
  using assms by (auto simp: world_ok_def inventories_ok_def word_le_nat_alt used_liters_unat)

lemma stored_refill:
  assumes "bt_get I i = Some v"
  shows "stored r (bt_insert i (v\<lparr>inv_contents := c\<rparr>) I) + amount_of r (inv_contents v) = stored r I + amount_of r c"
  using bt_sum_insert [OF assms, of "\<lambda>v. amount_of r (inv_contents v)" "v\<lparr>inv_contents := c\<rparr>"] by (simp add: stored_def)

lemma live_refill:
  assumes "bt_get (wst_inventories w) i = Some v"
  shows "live r (refill i v c w) + amount_of r (inv_contents v) = live r w + amount_of r c"
  using stored_refill [OF assms, of r c] by (simp add: live_def)

lemma amount_le_live: "bt_get (wst_inventories w) i = Some v \<Longrightarrow> amount_of r (inv_contents v) \<le> live r w"
  using bt_sum_ge [of "wst_inventories w" i v "\<lambda>v. amount_of r (inv_contents v)"] by (simp add: live_def stored_def)

lemma world_ok_cong:
  assumes "wst_grids w' = wst_grids w" and "wst_inventories w' = wst_inventories w"
    and "wst_production_queues w' = wst_production_queues w" and "wst_players w' = wst_players w"
  shows "world_ok w' = world_ok w"
  using assms by (simp add: world_ok_def owners_ok_def players_linked_def cargo_linked_def queues_ok_def)

lemma live_cong:
  "wst_inventories w' = wst_inventories w \<Longrightarrow> wst_production_queues w' = wst_production_queues w \<Longrightarrow> live r w' = live r w"
  by (simp add: live_def)

lemma built_in_cong: "wst_grids w' = wst_grids w \<Longrightarrow> built_in w' r = built_in w r"
  by (cases r) simp_all

section \<open>Bounds of the ledger\<close>

lemma created_le:
  assumes "balanced w"
  shows "created (wst_ledger w) r \<le> entered (wst_ledger w)"
proof -
  have "used_up (wst_ledger w) s \<le> created (wst_ledger w) s" for s using assms by (simp add: balanced_def)
  from this [of ResOre] this [of ResRefinedMaterial] show ?thesis by (cases r) (simp_all add: entered_def)
qed

lemma live_le: "balanced w \<Longrightarrow> live r w + built_in w r + used_up (wst_ledger w) r \<le> entered (wst_ledger w)"
  using created_le [of w r] by (simp add: balanced_def)

lemma plus_unat: "unat a + unat b < 2 ^ 64 \<Longrightarrow> unat (a + b :: u64) = unat a + unat b"
  by (simp add: unat_word_ariths)

lemma minus_unat: "b \<le> a \<Longrightarrow> unat (a - b :: u64) = unat a - unat b"
  by (simp add: unat_sub)

section \<open>Mining\<close>

lemma mined_Inr:
  assumes "apply_voxel_mined ph actor c mat y i w = Inr w'"
  shows "\<exists>v. bt_get (wst_inventories w) i = Some v \<and> can_add v ResOre y \<and> y = content_voxel_ore_yield mat
    \<and> wst_inventories w' = wst_inventories (refill i v (mutate_resource ResOre (\<lambda>a. a + y) (inv_contents v)) w)
    \<and> wst_grids w' = wst_grids w \<and> wst_production_queues w' = wst_production_queues w \<and> wst_players w' = wst_players w
    \<and> wst_ledger w' = (wst_ledger w)\<lparr>led_mined_ore := led_mined_ore (wst_ledger w) + y\<rparr>"
  using assms unfolding apply_voxel_mined_def
  by (auto simp: result_elims find_inventory_Inr set_contents_Inr Let_def refill_def split: if_splits)

lemma mined_step:
  assumes "world_ok w" and "balanced w" and "headroom w" and "apply_voxel_mined ph actor c mat y i w = Inr w'"
  shows "world_ok w' \<and> balanced w'"
proof -
  obtain v where v: "bt_get (wst_inventories w) i = Some v" "can_add v ResOre y" and y: "y = content_voxel_ore_yield mat"
    and w': "wst_inventories w' = wst_inventories (refill i v (mutate_resource ResOre (\<lambda>a. a + y) (inv_contents v)) w)"
      "wst_grids w' = wst_grids w" "wst_production_queues w' = wst_production_queues w" "wst_players w' = wst_players w"
      "wst_ledger w' = (wst_ledger w)\<lparr>led_mined_ore := led_mined_ore (wst_ledger w) + y\<rparr>"
    using mined_Inr [OF assms(4)] by blast
  let ?c = "mutate_resource ResOre (\<lambda>a. a + y) (inv_contents v)"
  have y3: "unat y \<le> 3" unfolding y by (cases mat) simp_all
  have ore: "unat (ctn_ore (inv_contents v)) + 3 < 2 ^ 64"
    using amount_le_live [OF v(1), of ResOre] live_le [OF assms(2), of ResOre] assms(3) by (simp add: headroom_def amount_of_def)
  have mined: "unat (led_mined_ore (wst_ledger w)) + 3 < 2 ^ 64" using assms(3) by (simp add: headroom_def entered_def)
  have sum: "unat (ctn_ore (inv_contents v) + y) = unat (ctn_ore (inv_contents v)) + unat y"
    "unat (led_mined_ore (wst_ledger w) + y) = unat (led_mined_ore (wst_ledger w)) + unat y"
    using ore mined y3 by (simp_all add: plus_unat)
  have "volume ?c = volume (inv_contents v) + 37 * unat y" using sum(1) by (simp add: volume_def)
  with v(2) have "world_ok (refill i v ?c w)" by (intro world_ok_refill [OF assms(1) v(1)]) (simp add: can_add_iff)
  then have "world_ok w'" using world_ok_cong [of w' "refill i v ?c w"] w' by simp
  moreover have lives: "live r w' + amount_of r (inv_contents v) = live r w + amount_of r ?c" for r
    using live_refill [OF v(1), of r ?c] live_cong [of w' "refill i v ?c w" r] w' by simp
  have "created (wst_ledger w') r = live r w' + built_in w' r + used_up (wst_ledger w') r" for r
    using lives [of r] spec [OF assms(2) [unfolded balanced_def], of r] sum built_in_cong [OF w'(2), of r]
    by (cases r) (simp_all add: amount_of_def w'(5))
  ultimately show ?thesis by (simp add: balanced_def)
qed

section \<open>Transfers between inventories\<close>

text \<open>A step that keeps the ledger and the blocks keeps the balance when it keeps the sums.\<close>

lemma balanced_same:
  assumes "balanced w" and "wst_ledger w' = wst_ledger w" and "\<And>r. live r w' + built_in w' r = live r w + built_in w r"
  shows "balanced w'"
  using assms unfolding balanced_def by (metis add.assoc add.commute)

lemma transferred_Inr:
  assumes "apply_inventory_transferred p i j r q w = Inr w'"
  shows "\<exists>u v a. i \<noteq> j \<and> bt_get (wst_inventories w) i = Some u \<and> bt_get (wst_inventories w) j = Some v
    \<and> q \<le> contents_amount (inv_contents u) r \<and> can_add v r q
    \<and> unat a = unat (contents_amount (inv_contents v) r) + unat q
    \<and> w' = refill j v (mutate_resource r (\<lambda>_. a) (inv_contents v))
             (refill i u (mutate_resource r (\<lambda>a. a - q) (inv_contents u)) w)"
  using assms unfolding apply_inventory_transferred_def
  by (auto simp: result_elims find_inventory_Inr set_contents_Inr Let_def checked_add_Some_iff not_less split: if_splits)

lemma transferred_step:
  assumes "world_ok w" and "balanced w" and "apply_inventory_transferred p i j r q w = Inr w'"
  shows "world_ok w' \<and> balanced w'"
proof -
  obtain u v a where i: "i \<noteq> j" "bt_get (wst_inventories w) i = Some u" "bt_get (wst_inventories w) j = Some v"
    and q: "q \<le> contents_amount (inv_contents u) r" "can_add v r q"
      "unat a = unat (contents_amount (inv_contents v) r) + unat q"
    and w': "w' = refill j v (mutate_resource r (\<lambda>_. a) (inv_contents v))
             (refill i u (mutate_resource r (\<lambda>a. a - q) (inv_contents u)) w)"
    using transferred_Inr [OF assms(3)] by blast
  let ?c = "mutate_resource r (\<lambda>a. a - q) (inv_contents u)" and ?d = "mutate_resource r (\<lambda>_. a) (inv_contents v)"
  have less: "unat (contents_amount (inv_contents u) r - q) + unat q = unat (contents_amount (inv_contents u) r)"
    using q(1) by (simp add: minus_unat word_le_nat_alt)
  have "volume ?c \<le> volume (inv_contents u)"
    using volume_mutate [of r "\<lambda>a. a - q" "inv_contents u"] less by (cases r) simp_all
  then have one: "world_ok (refill i u ?c w)"
    using inventory_volume [OF assms(1) i(2)] by (intro world_ok_refill [OF assms(1) i(2)]) linarith
  have "volume ?d = volume (inv_contents v) + unit_volume r * unat q"
    using volume_mutate [of r "\<lambda>_. a" "inv_contents v"] q(3) by (simp add: distrib_left)
  with q(2) i have "world_ok w'" unfolding w' by (intro world_ok_refill [OF one]) (simp_all add: can_add_iff)
  moreover have "live s w' = live s w" for s
  proof -
    have "amount_of s ?c + (if s = r then unat q else 0) = amount_of s (inv_contents u)"
      "amount_of s ?d = amount_of s (inv_contents v) + (if s = r then unat q else 0)"
      using less q(3) by (simp_all add: amount_of_def)
    moreover have "bt_get (wst_inventories (refill i u ?c w)) j = Some v" using i by simp
    ultimately show ?thesis
      using live_refill [OF i(2), of s ?c] live_refill [of "refill i u ?c w" j v s ?d] unfolding w' by linarith
  qed
  then have "balanced w'" using built_in_cong [of w' w] by (intro balanced_same [OF assms(2)]) (simp_all add: w')
  ultimately show ?thesis by blast
qed

section \<open>Queueing production\<close>

lemma recipe_quantities_pos:
  assumes "production_recipe_quantities recipe n = Some (inputs, outputs, duration)"
  shows "0 < duration"
proof -
  have "n \<noteq> 0 \<Longrightarrow> 0 < unat n" by (simp add: word_unat_eq_iff)
  with assms show ?thesis
    by (cases recipe) (auto simp: word_less_nat_alt checked_mul_Some_unat REFINING_DURATION_TICKS_def CRAFTING_DURATION_TICKS_def
        split: if_splits option.splits)
qed

lemma world_ok_queues:
  assumes "world_ok w" and "\<And>m q. bt_get Q m = Some q \<Longrightarrow> queue_ok (wst_grids w) m q"
  shows "world_ok (w\<lparr>wst_production_queues := Q\<rparr>)"
  using assms by (simp add: world_ok_def owners_ok_def players_linked_def cargo_linked_def queues_ok_def)

definition queue_of :: "world_state \<Rightarrow> string \<Rightarrow> production_job list" where
  "queue_of w m = (case bt_get (wst_production_queues w) m of None \<Rightarrow> [] | Some q \<Rightarrow> q)"

lemma queue_ok_snoc:
  assumes "grids_ok (wst_grids w)" and "queues_ok w" and "block_of (wst_grids w) m b owner" and "blk_construction_complete b"
    and "length (queue_of w m) < QUEUE_LIMIT_PER_MACHINE" and "job_ok m job" and "job_progress_ticks job = 0"
    and "machine_supports_recipe (blk_kind b) (job_recipe job)" and "job_owner_player_id job = owner"
  shows "queue_ok (wst_grids w) m (queue_of w m @ [job])"
proof (cases "bt_get (wst_production_queues w) m")
  case None
  with assms show ?thesis by (auto simp: queue_ok_def queue_of_def)
next
  case (Some q)
  with assms(2) have q: "queue_ok (wst_grids w) m q" by (simp add: queues_ok_def)
  then obtain c owner' where "block_of (wst_grids w) m c owner'"
    "\<forall>job \<in> set q. machine_supports_recipe (blk_kind c) (job_recipe job) \<and> job_owner_player_id job = owner'"
    by (auto simp: queue_ok_def)
  with block_of_unique [OF assms(1,3)] have "\<forall>job \<in> set q. machine_supports_recipe (blk_kind b) (job_recipe job)
      \<and> job_owner_player_id job = owner" by blast
  then have "\<forall>job' \<in> set (q @ [job]). machine_supports_recipe (blk_kind b) (job_recipe job') \<and> job_owner_player_id job' = owner"
    using assms(8,9) by simp
  moreover have "\<forall>job' \<in> set (tl (q @ [job])). job_progress_ticks job' = 0" "\<forall>job' \<in> set (q @ [job]). job_ok m job'"
    using q assms(6,7) by (cases q; simp add: queue_ok_def)+
  ultimately show ?thesis
    using q Some assms(3,4,5) unfolding queue_ok_def by (simp add: queue_of_def) blast
qed

lemma queued_Inr:
  assumes "apply_production_queued p opid n job w = Inr w'"
  shows "\<exists>g b v c inputs outputs. block_grid w (job_machine_block_id job) = Some (g, b)
    \<and> job_owner_player_id job = p \<and> grd_owner_player_id g = p \<and> blk_construction_complete b
    \<and> machine_supports_recipe (blk_kind b) (job_recipe job) \<and> job_progress_ticks job = 0
    \<and> job_pending_outputs job = no_contents \<and> length (queue_of w (job_machine_block_id job)) < QUEUE_LIMIT_PER_MACHINE
    \<and> production_recipe_quantities (job_recipe job) (job_batches job) = Some (inputs, outputs, job_duration_ticks job)
    \<and> job_reserved_inputs job = inputs
    \<and> bt_get (wst_inventories w) (job_source_inventory_id job) = Some v
    \<and> subtract_contents (inv_contents v) (job_reserved_inputs job) = Some c
    \<and> w' = (refill (job_source_inventory_id job) v c w)\<lparr>wst_production_queues :=
             bt_insert (job_machine_block_id job) (queue_of w (job_machine_block_id job) @ [job]) (wst_production_queues w)\<rparr>"
  using assms unfolding apply_production_queued_def
  by (auto simp: result_elims find_inventory_Inr set_contents_Inr not_le queue_length_def queue_of_def
      split: if_splits option.splits prod.splits)

lemma queued_step:
  assumes "world_ok w" and "balanced w" and "apply_production_queued p opid n job w = Inr w'"
  shows "world_ok w' \<and> balanced w'"
proof -
  let ?m = "job_machine_block_id job" and ?i = "job_source_inventory_id job"
  obtain g b v c inputs outputs where
    g: "block_grid w ?m = Some (g, b)" "job_owner_player_id job = p" "grd_owner_player_id g = p"
      "blk_construction_complete b" "machine_supports_recipe (blk_kind b) (job_recipe job)"
    and job: "job_progress_ticks job = 0" "job_pending_outputs job = no_contents"
      "length (queue_of w ?m) < QUEUE_LIMIT_PER_MACHINE"
      "production_recipe_quantities (job_recipe job) (job_batches job) = Some (inputs, outputs, job_duration_ticks job)"
      "job_reserved_inputs job = inputs"
    and v: "bt_get (wst_inventories w) ?i = Some v" "subtract_contents (inv_contents v) (job_reserved_inputs job) = Some c"
    and w': "w' = (refill ?i v c w)\<lparr>wst_production_queues := bt_insert ?m (queue_of w ?m @ [job]) (wst_production_queues w)\<rparr>"
    using queued_Inr [OF assms(3)] by blast
  have "volume c \<le> volume (inv_contents v)"
    using v(2) unfolding subtract_contents_Some_iff by (simp add: add_contents_volume)
  then have one: "world_ok (refill ?i v c w)"
    using inventory_volume [OF assms(1) v(1)] by (intro world_ok_refill [OF assms(1) v(1)]) linarith
  have ok: "grids_ok (wst_grids w)" "queues_ok w" using assms(1) by (simp_all add: world_ok_def)
  have "job_ok ?m job"
    using job recipe_quantities_pos [OF job(4)] by (simp add: job_ok_def)
  moreover have "block_of (wst_grids w) ?m b p" using block_grid_of [OF g(1)] g(3) by simp
  ultimately have "queue_ok (wst_grids w) ?m (queue_of w ?m @ [job])"
    using job(1,3) g(2,4,5) ok by (intro queue_ok_snoc)
  with ok(2) have "world_ok w'"
    unfolding w' by (intro world_ok_queues [OF one]) (auto simp: queues_ok_def split: if_splits)
  moreover have "live r w' = live r w" for r
  proof -
    have "escrowed r (bt_insert ?m (queue_of w ?m @ [job]) (wst_production_queues w))
        = escrowed r (wst_production_queues w) + amount_of r inputs"
      using bt_sum_insert [of "wst_production_queues w" ?m _ "queue_total r" "queue_of w ?m @ [job]"]
        bt_sum_insert_new [of "wst_production_queues w" ?m "queue_total r" "queue_of w ?m @ [job]"] job
      by (cases "bt_get (wst_production_queues w) ?m")
        (simp_all add: escrowed_def queue_of_def queue_total_def job_total_def)
    with live_refill [OF v(1), of r c] subtract_contents_amount [OF v(2), of r] job(5) show ?thesis
      by (simp add: w' live_def)
  qed
  then have "balanced w'" using built_in_cong [of w' w] by (intro balanced_same [OF assms(2)]) (simp_all add: w')
  ultimately show ?thesis by blast
qed

end
