(* ===== verification/WorldConstruction.thy ===== *)
theory WorldConstruction
  imports WorldSteps
begin

text \<open>Construction, welding, anchoring and damage keep worlds well-formed and resources balanced.\<close>

section \<open>A grid in place\<close>

lemma world_ok_put_grid:
  assumes "world_ok w" and "bt_get (wst_grids w) k = Some g" and "same_grid g g'"
  shows "world_ok (w\<lparr>wst_grids := bt_insert k g' (wst_grids w)\<rparr>)"
proof -
  let ?G = "bt_insert k g' (wst_grids w)"
  have ok: "grids_ok (wst_grids w)" using assms(1) by (simp add: world_ok_def)
  note put = block_of_put [OF assms(2,3)]
  have "queue_ok ?G m q" if q: "queue_ok (wst_grids w) m q" for m q
  proof -
    from q obtain b owner where b: "block_of (wst_grids w) m b owner" "blk_construction_complete b"
      "\<forall>job \<in> set q. machine_supports_recipe (blk_kind b) (job_recipe job) \<and> job_owner_player_id job = owner"
      by (auto simp: queue_ok_def)
    from put(1) [OF b(1)] obtain b' where "block_of ?G m b' owner" "same_block b b'" by blast
    with q b show ?thesis unfolding queue_ok_def same_block_def by metis
  qed
  moreover have "\<exists>v. bt_get (wst_inventories w) i = Some v \<and> inv_domain v = DomainCargo m"
    if "block_of ?G m b owner" "blk_inventory_id b = Some i" for m b owner i
  proof -
    from put(2) [OF that(1)] that(2) obtain c where "block_of (wst_grids w) m c owner" "blk_inventory_id c = Some i"
      by (auto simp: same_block_def)
    with assms(1) show ?thesis unfolding world_ok_def cargo_linked_def by blast
  qed
  then have "cargo_linked (w\<lparr>wst_grids := ?G\<rparr>)" unfolding cargo_linked_def by simp blast
  moreover have "owners_ok (w\<lparr>wst_grids := ?G\<rparr>)"
    using assms by (auto simp: world_ok_def owners_ok_def same_grid_def)
  ultimately show ?thesis
    using assms(1) grids_ok_put [OF ok assms(2,3)] by (simp add: world_ok_def queues_ok_def players_linked_def)
qed

lemma put_grid_step:
  assumes "world_ok w" and "balanced w" and "bt_get (wst_grids w) k = Some g" and "same_grid g g'"
    and "w' = w\<lparr>wst_grids := bt_insert k g' (wst_grids w)\<rparr>"
  shows "world_ok w' \<and> balanced w'"
proof
  show "world_ok w'" unfolding assms(5) by (rule world_ok_put_grid [OF assms(1,3,4)])
  have "installed (wst_grids w') = installed (wst_grids w)"
    using installed_put [OF _ assms(3,4)] assms(1) by (simp add: assms(5) world_ok_def)
  then have "built_in w' r = built_in w r" for r by (cases r) simp_all
  then show "balanced w'" by (intro balanced_same [OF assms(2)]) (simp_all add: assms(5) live_def)
qed

lemma welded_step:
  assumes "world_ok w" and "balanced w" and "apply_block_welded ph p actor k m x y z done w = Inr w'"
  shows "world_ok w' \<and> balanced w'"
proof -
  from assms(3) obtain g b where g: "bt_get (wst_grids w) k = Some g" "bt_get (grd_blocks g) m = Some b"
    and w': "w' = w\<lparr>wst_grids := bt_insert k (g\<lparr>grd_blocks := bt_insert m
      (b\<lparr>blk_health := y, blk_construction_complete := blk_construction_complete b \<or> done\<rparr>) (grd_blocks g)\<rparr>) (wst_grids w)\<rparr>"
    unfolding apply_block_welded_def by (auto simp: result_elims find_grid_Inr split: if_splits)
  show ?thesis
    by (rule put_grid_step [OF assms(1,2) g(1) same_grid_insert [OF g(2)] w']) (simp add: same_block_def)
qed

lemma control_step:
  assumes "world_ok w" and "balanced w" and "apply_grid_control_set ph p k x y d w = Inr w'"
  shows "world_ok w' \<and> balanced w'"
proof -
  from assms(3) obtain g where g: "bt_get (wst_grids w) k = Some g"
    and w': "w' = w\<lparr>wst_grids := bt_insert k (g\<lparr>grd_control_linear_input := x, grd_control_angular_input := y,
        grd_dampeners := d\<rparr>) (wst_grids w)\<rparr>"
    unfolding apply_grid_control_set_def by (auto simp: result_elims find_grid_Inr split: if_splits)
  show ?thesis by (rule put_grid_step [OF assms(1,2) g same_grid_blocks w']) simp_all
qed

lemma anchor_step:
  assumes "world_ok w" and "balanced w" and "apply_grid_anchor_set ph p k x y w = Inr w'"
  shows "world_ok w' \<and> balanced w'"
proof -
  from assms(3) obtain g where g: "bt_get (wst_grids w) k = Some g"
    and w': "w' = w\<lparr>wst_grids := bt_insert k (set_anchor x y g) (wst_grids w)\<rparr>"
    unfolding apply_grid_anchor_set_def by (auto simp: result_elims find_grid_Inr split: if_splits)
  show ?thesis by (rule put_grid_step [OF assms(1,2) g same_grid_blocks w']) (simp_all add: set_anchor_def)
qed

section \<open>Construction\<close>

lemma created_used_cong [simp]:
  "created (l\<lparr>led_built_blocks := n\<rparr>) r = created l r" "used_up (l\<lparr>led_built_blocks := n\<rparr>) r = used_up l r"
  by (cases r; simp)+

definition new_cargo :: "block \<Rightarrow> world_state \<Rightarrow> world_state" where
  "new_cargo b w = (case blk_inventory_id b of None \<Rightarrow> w
     | Some i \<Rightarrow> w\<lparr>wst_inventories := bt_insert i
         \<lparr>inv_inventory_id = i, inv_domain = DomainCargo (blk_block_id b), inv_contents = no_contents,
          inv_capacity_liters = CARGO_INVENTORY_CAPACITY_LITERS\<rparr> (wst_inventories w)\<rparr>)"

lemma built_Inr:
  assumes "apply_block_built ph p actor n k i b w = Inr w'"
  shows "\<exists>g v. bt_get (wst_grids w) k = Some g \<and> bt_get (wst_inventories w) i = Some v
    \<and> (\<forall>h \<in> set (bt_values (wst_grids w)). \<not> bt_contains (grd_blocks h) (blk_block_id b))
    \<and> (\<forall>j. blk_inventory_id b = Some j \<longrightarrow> bt_get (wst_inventories w) j = None)
    \<and> block_at g (blk_coordinate b) = None
    \<and> blk_component_cost b \<le> ctn_components (inv_contents v)
    \<and> wst_grids w' = bt_insert k (g\<lparr>grd_blocks := bt_insert (blk_block_id b) b (grd_blocks g)\<rparr>) (wst_grids w)
    \<and> wst_inventories w' = wst_inventories (new_cargo b
         (refill i v (mutate_resource ResComponent (\<lambda>a. a - blk_component_cost b) (inv_contents v)) w))
    \<and> wst_production_queues w' = wst_production_queues w \<and> wst_players w' = wst_players w
    \<and> wst_ledger w' = (wst_ledger w)\<lparr>led_built_blocks := led_built_blocks (wst_ledger w) + 1\<rparr>"
  using assms unfolding apply_block_built_def
  by (auto simp: result_elims find_inventory_Inr find_grid_Inr set_contents_Inr Let_def not_less list_ex_iff
      build_location_invalid_def new_cargo_def bt_contains_def simp del: bt_dom_simps split: if_splits option.splits)

text \<open>The inventories after the components of a new block were taken and its cargo inventory was added.\<close>

lemma new_cargo_fields [simp]:
  "wst_grids (new_cargo b w) = wst_grids w" "wst_production_queues (new_cargo b w) = wst_production_queues w"
  "wst_players (new_cargo b w) = wst_players w" "wst_ledger (new_cargo b w) = wst_ledger w"
  by (simp_all add: new_cargo_def split: option.splits)

lemma new_cargo_ok:
  assumes "world_ok w" and "\<And>j. blk_inventory_id b = Some j \<Longrightarrow> bt_get (wst_inventories w) j = None"
  shows "world_ok (new_cargo b w) \<and> same_domains (wst_inventories w) (wst_inventories (new_cargo b w))
    \<and> live r (new_cargo b w) = live r w
    \<and> (\<forall>j. blk_inventory_id b = Some j \<longrightarrow>
         (\<exists>v. bt_get (wst_inventories (new_cargo b w)) j = Some v \<and> inv_domain v = DomainCargo (blk_block_id b)))"
proof (cases "blk_inventory_id b")
  case None
  with assms(1) show ?thesis by (simp add: new_cargo_def)
next
  case (Some i)
  let ?v = "\<lparr>inv_inventory_id = i, inv_domain = DomainCargo (blk_block_id b), inv_contents = no_contents,
      inv_capacity_liters = CARGO_INVENTORY_CAPACITY_LITERS\<rparr>"
  let ?I = "bt_insert i ?v (wst_inventories w)"
  have new: "new_cargo b w = w\<lparr>wst_inventories := ?I\<rparr>" using Some by (simp add: new_cargo_def)
  have none: "bt_get (wst_inventories w) i = None" using Some assms(2) by simp
  have "used_liters ?v \<le> inv_capacity_liters ?v"
    by (simp add: word_le_nat_alt used_liters_unat volume_def no_contents_def CARGO_INVENTORY_CAPACITY_LITERS_def)
  then have "inventories_ok ?I"
    using assms(1) by (intro inventories_ok_put) (simp_all add: world_ok_def)
  then have "world_ok (new_cargo b w)"
    unfolding new by (rule world_ok_inventories [OF assms(1) same_domains_new [OF none]])
  moreover have "stored r ?I = stored r (wst_inventories w)"
    using bt_sum_insert_new [OF none, of "\<lambda>v. amount_of r (inv_contents v)" ?v] by (simp add: stored_def)
  ultimately show ?thesis using Some same_domains_new [OF none] by (simp add: new live_def)
qed

lemma block_at_None: "block_at g c = None \<longleftrightarrow> c \<notin> coordinates g"
  by (auto simp: block_at_def find_None_iff coordinates_def)

lemma block_ids_iff: "m \<in> block_ids G \<longleftrightarrow> (\<exists>h \<in> set (bt_values G). m \<in> bt_dom (grd_blocks h))"
  unfolding block_ids_def block_of_def bt_dom_iff Bex_def bt_in_values_iff by blast

lemma fresh_block: "bt_get G k = Some g \<Longrightarrow> m \<notin> block_ids G \<Longrightarrow> m \<notin> bt_dom (grd_blocks g)"
  unfolding block_ids_iff Bex_def bt_in_values_iff by blast

lemma world_ok_new_block:
  assumes "world_ok w" and "bt_get (wst_grids w) k = Some g" and "m \<notin> block_ids (wst_grids w)" and "blk_block_id b = m"
    and "i32_coordinate (blk_coordinate b)" and "blk_coordinate b \<notin> coordinates g"
    and "\<And>j. blk_inventory_id b = Some j \<Longrightarrow> \<exists>v. bt_get (wst_inventories w) j = Some v \<and> inv_domain v = DomainCargo m"
  shows "world_ok (w\<lparr>wst_grids := bt_insert k (g\<lparr>grd_blocks := bt_insert m b (grd_blocks g)\<rparr>) (wst_grids w)\<rparr>)"
proof -
  let ?g = "g\<lparr>grd_blocks := bt_insert m b (grd_blocks g)\<rparr>"
  let ?G = "bt_insert k ?g (wst_grids w)"
  have ok: "grids_ok (wst_grids w)" using assms(1) by (simp add: world_ok_def)
  note blocks = block_of_insert [OF assms(2,3), of b]
  have "m \<notin> bt_dom (grd_blocks g)"
    by (rule fresh_block [OF assms(2,3)])
  then have "grids_ok ?G"
    using grid_ok_insert [OF grids_okD(2) [OF ok assms(2)] assms(4,5,6)] grids_okD(1) [OF ok assms(2)] assms(3)
    by (intro grids_ok_replace [OF ok assms(2)]) auto
  moreover have "queue_ok ?G j q" if q: "queue_ok (wst_grids w) j q" for j q
  proof -
    from q obtain c owner where c: "block_of (wst_grids w) j c owner" "blk_construction_complete c"
      "\<forall>job \<in> set q. machine_supports_recipe (blk_kind c) (job_recipe job) \<and> job_owner_player_id job = owner"
      by (auto simp: queue_ok_def)
    moreover from c(1) have "block_of ?G j c owner" by (simp add: blocks)
    ultimately show ?thesis using q unfolding queue_ok_def by blast
  qed
  moreover have "\<exists>v. bt_get (wst_inventories w) i = Some v \<and> inv_domain v = DomainCargo j"
    if "block_of ?G j c owner" "blk_inventory_id c = Some i" for j c owner i
    using that assms(1,7) unfolding blocks world_ok_def cargo_linked_def by blast
  then have "cargo_linked (w\<lparr>wst_grids := ?G\<rparr>)" unfolding cargo_linked_def by simp blast
  moreover have "owners_ok (w\<lparr>wst_grids := ?G\<rparr>)" using assms(1,2) by (auto simp: world_ok_def owners_ok_def)
  ultimately show ?thesis using assms(1) by (simp add: world_ok_def queues_ok_def players_linked_def)
qed

lemma built_step:
  assumes "world_ok w" and "balanced w" and "i32_coordinate (blk_coordinate b)" and "apply_block_built ph p actor n k i b w = Inr w'"
  shows "world_ok w' \<and> balanced w'"
proof -
  let ?m = "blk_block_id b" and ?cost = "blk_component_cost b"
  obtain g v where g: "bt_get (wst_grids w) k = Some g" and v: "bt_get (wst_inventories w) i = Some v"
    and fresh: "\<forall>h \<in> set (bt_values (wst_grids w)). \<not> bt_contains (grd_blocks h) ?m"
      "\<forall>j. blk_inventory_id b = Some j \<longrightarrow> bt_get (wst_inventories w) j = None" "block_at g (blk_coordinate b) = None"
    and cost: "?cost \<le> ctn_components (inv_contents v)"
    and w': "wst_grids w' = bt_insert k (g\<lparr>grd_blocks := bt_insert ?m b (grd_blocks g)\<rparr>) (wst_grids w)"
      "wst_inventories w' = wst_inventories (new_cargo b
         (refill i v (mutate_resource ResComponent (\<lambda>a. a - ?cost) (inv_contents v)) w))"
      "wst_production_queues w' = wst_production_queues w" "wst_players w' = wst_players w"
      "wst_ledger w' = (wst_ledger w)\<lparr>led_built_blocks := led_built_blocks (wst_ledger w) + 1\<rparr>"
    using built_Inr [OF assms(4)] by blast
  let ?c = "mutate_resource ResComponent (\<lambda>a. a - ?cost) (inv_contents v)"
  let ?one = "refill i v ?c w" and ?two = "new_cargo b (refill i v ?c w)"
  have less: "unat (ctn_components (inv_contents v) - ?cost) + unat ?cost = unat (ctn_components (inv_contents v))"
    using cost by (simp add: minus_unat word_le_nat_alt)
  have "volume ?c \<le> volume (inv_contents v)" using less by (simp add: volume_def)
  then have one: "world_ok ?one"
    using inventory_volume [OF assms(1) v] by (intro world_ok_refill [OF assms(1) v]) linarith
  have "bt_get (wst_inventories ?one) j = None" if "blk_inventory_id b = Some j" for j
    using fresh(2) that v by auto
  note two = new_cargo_ok [of ?one b, OF one this]
  have ids: "?m \<notin> block_ids (wst_grids w)"
    using fresh(1) by (simp add: block_ids_iff)
  have "world_ok (?two\<lparr>wst_grids := bt_insert k (g\<lparr>grd_blocks := bt_insert ?m b (grd_blocks g)\<rparr>) (wst_grids ?two)\<rparr>)"
    by (rule world_ok_new_block) (use g ids two assms(3) fresh(3) in \<open>simp_all add: block_at_None\<close>)
  then have "world_ok w'"
    by (rule world_ok_cong [THEN iffD2, rotated -1]) (simp_all add: w')
  moreover have "live r w' + amount_of r (inv_contents v) = live r w + amount_of r ?c" for r
    using live_refill [OF v, of r ?c] two [of r] live_cong [of w' ?two r] w' by simp
  then have "live r w' + built_in w' r = live r w + built_in w r" for r
  proof -
    assume lives: "\<And>r. live r w' + amount_of r (inv_contents v) = live r w + amount_of r ?c"
    have "installed (wst_grids w') = installed (wst_grids w) + unat ?cost"
      unfolding w' by (rule installed_insert [OF g fresh_block [OF g ids]])
    with lives [of r] less show ?thesis by (cases r) (simp_all add: amount_of_def)
  qed
  then have "balanced w'"
    using assms(2) unfolding balanced_def w'(5) by simp
  ultimately show ?thesis by blast
qed

end
