(* ===== verification/WorldDamage.thy ===== *)
theory WorldDamage
  imports WorldConstruction
begin

text \<open>A destroyed block leaves a well-formed world, and what it held is still accounted for.\<close>

section \<open>What is dropped\<close>

lemma sum_escrow_Inr:
  assumes "sum_escrow q = Inr c"
  shows "amount_of r c = queue_total r q"
proof -
  let ?add = "\<lambda>job c. try_r (ok_or (add_contents c (job_reserved_inputs job)) (Rejected ''production_output_overflow'')) (\<lambda>c.
      ok_or (add_contents c (job_pending_outputs job)) (Rejected ''production_output_overflow''))"
  have "amount_of r d = amount_of r c + queue_total r q" if "fold_r ?add q c = Inr d" for c d
    using that
  proof (induction q arbitrary: c)
    case (Cons job q)
    then obtain e f where "add_contents c (job_reserved_inputs job) = Some e" "add_contents e (job_pending_outputs job) = Some f"
      "fold_r ?add q f = Inr d"
      by (auto simp: result_elims)
    with Cons.IH [of f] show ?case by (simp add: add_contents_amount queue_total_def job_total_def)
  qed (simp add: queue_total_def)
  from this [of no_contents c] assms show ?thesis by (simp add: sum_escrow_def)
qed

lemma drop_cargo_fields [simp]:
  "wst_grids (drop_cargo p b w) = wst_grids w" "wst_production_queues (drop_cargo p b w) = wst_production_queues w"
  "wst_players (drop_cargo p b w) = wst_players w" "wst_ledger (drop_cargo p b w) = wst_ledger w"
  by (simp_all add: drop_cargo_def split: option.splits)

text \<open>Dropping a cargo changes at most the domain of the inventory of the block.\<close>

lemma drop_cargo_inventories:
  assumes "inventories_ok (wst_inventories w)"
  shows "inventories_ok (wst_inventories (drop_cargo p b w))"
    and "stored r (wst_inventories (drop_cargo p b w)) = stored r (wst_inventories w)"
    and "blk_inventory_id b \<noteq> Some i \<Longrightarrow> bt_get (wst_inventories (drop_cargo p b w)) i = bt_get (wst_inventories w) i"
proof -
  consider (same) "drop_cargo p b w = w" | (drop) j v where "blk_inventory_id b = Some j" "bt_get (wst_inventories w) j = Some v"
    "drop_cargo p b w = w\<lparr>wst_inventories := bt_insert j
        (v\<lparr>inv_domain := DomainDropped ''cargo_block_destroyed'' p\<rparr>) (wst_inventories w)\<rparr>"
  proof (cases "blk_inventory_id b")
    case None
    then show ?thesis by (intro same) (simp add: drop_cargo_def)
  next
    case (Some j)
    with same drop [of j] show ?thesis
      by (cases "bt_get (wst_inventories w) j") (simp_all add: drop_cargo_def)
  qed
  then have "inventories_ok (wst_inventories (drop_cargo p b w))
    \<and> stored r (wst_inventories (drop_cargo p b w)) = stored r (wst_inventories w)
    \<and> (blk_inventory_id b \<noteq> Some i \<longrightarrow> bt_get (wst_inventories (drop_cargo p b w)) i = bt_get (wst_inventories w) i)"
  proof cases
    case drop
    have "used_liters (v\<lparr>inv_domain := d\<rparr>) = used_liters v" for d by (simp add: used_liters_def)
    with assms drop(2) have "inventories_ok (bt_insert j (v\<lparr>inv_domain := DomainDropped ''cargo_block_destroyed'' p\<rparr>) (wst_inventories w))"
      by (intro inventories_ok_put) (simp_all add: inventories_ok_def)
    moreover have "stored r (bt_insert j (v\<lparr>inv_domain := d\<rparr>) (wst_inventories w)) = stored r (wst_inventories w)" for d
      using bt_sum_insert [OF drop(2), of "\<lambda>v. amount_of r (inv_contents v)" "v\<lparr>inv_domain := d\<rparr>"] by (simp add: stored_def)
    ultimately show ?thesis using drop by simp
  qed (use assms in simp)
  then show "inventories_ok (wst_inventories (drop_cargo p b w))"
    "stored r (wst_inventories (drop_cargo p b w)) = stored r (wst_inventories w)"
    "blk_inventory_id b \<noteq> Some i \<Longrightarrow> bt_get (wst_inventories (drop_cargo p b w)) i = bt_get (wst_inventories w) i"
    by simp_all
qed

lemma drop_production_Inr:
  assumes "drop_production p m e w = Inr w'" and "inventories_ok (wst_inventories w)"
  shows "wst_grids w' = wst_grids w \<and> wst_players w' = wst_players w \<and> wst_ledger w' = wst_ledger w
    \<and> wst_production_queues w' = bt_remove m (wst_production_queues w) \<and> live r w' = live r w
    \<and> inventories_ok (wst_inventories w') \<and> same_domains (wst_inventories w) (wst_inventories w')"
proof (cases "bt_get (wst_production_queues w) m")
  case None
  then have "bt_remove m (wst_production_queues w) = wst_production_queues w" by (intro bt_eqI) auto
  with None assms show ?thesis by (simp add: drop_production_def)
next
  case (Some q)
  let ?i = "''inventory-production-drop-'' @ show_nat (unat e) @ ''-'' @ m"
  from assms(1) Some obtain c where c: "sum_escrow q = Inr c" "bt_get (wst_inventories w) ?i = None"
    and w': "w' = w\<lparr>wst_production_queues := bt_remove m (wst_production_queues w), wst_inventories := bt_insert ?i
        \<lparr>inv_inventory_id = ?i, inv_domain = DomainDropped ''production_machine_destroyed'' p, inv_contents = c,
         inv_capacity_liters = -1\<rparr> (wst_inventories w)\<rparr>"
    unfolding drop_production_def by (auto simp: result_elims bt_dom_def Let_def split: if_splits)
  have "live r w' = live r w"
    using bt_sum_insert_new [OF c(2), of "\<lambda>v. amount_of r (inv_contents v)"] bt_sum_remove [OF Some, of "queue_total r"]
      sum_escrow_Inr [OF c(1), of r]
    by (simp add: w' live_def stored_def escrowed_def)
  moreover have "inventories_ok (wst_inventories w')"
    unfolding w' using assms(2) by (simp add: inventories_ok_put)
  ultimately show ?thesis using same_domains_new [OF c(2)] by (simp add: w')
qed

section \<open>Damage\<close>

lemma destroyed_step:
  assumes "world_ok w" and "balanced w" and "headroom w" and g: "bt_get (wst_grids w) k = Some g"
    and b: "bt_get (grd_blocks g) m = Some b"
    and w1: "wst_grids w1 = bt_insert k (g\<lparr>grd_blocks := bt_remove m (grd_blocks g)\<rparr>) (wst_grids w)"
      "wst_inventories w1 = wst_inventories w" "wst_production_queues w1 = wst_production_queues w" "wst_players w1 = wst_players w"
      "wst_ledger w1 = (wst_ledger w)\<lparr>led_destroyed_blocks := x,
         led_destroyed_components := led_destroyed_components (wst_ledger w) + blk_component_cost b\<rparr>"
    and drop: "drop_production p m e (drop_cargo p b w1) = Inr w2" and split: "split_disconnected_grid ph k e w2 = Inr w'"
  shows "world_ok w' \<and> balanced w'"
proof -
  let ?g = "g\<lparr>grd_blocks := bt_remove m (grd_blocks g)\<rparr>"
  let ?G = "bt_insert k ?g (wst_grids w)"
  have ok: "grids_ok (wst_grids w)" "inventories_ok (wst_inventories w)" "queues_ok w" "cargo_linked w" "players_linked w" "owners_ok w"
    using assms(1) by (simp_all add: world_ok_def)
  have m: "m \<in> bt_dom (grd_blocks g)" using b by (auto simp: bt_dom_iff)
  note cargo = drop_cargo_inventories [where w = w1 and p = p and b = b, unfolded w1(2), OF ok(2)]
  note prod = drop_production_Inr [OF drop cargo(1)]
  have w2: "wst_grids w2 = ?G" using prod by (simp add: w1)
  have w': "w' = w2\<lparr>wst_grids := wst_grids w'\<rparr>" by (rule split_Inr_grids [OF split])
  have fields: "wst_inventories w' = wst_inventories w2" "wst_production_queues w' = bt_remove m (wst_production_queues w)"
    "wst_players w' = wst_players w" "wst_ledger w' = wst_ledger w1" "live r w' = live r w2" for r
    using prod by (subst w', simp add: w1 live_def)+
  have got: "bt_get ?G k = Some ?g" by simp
  note sp = split_regroups [of w2 k ?g, unfolded w2, OF grids_ok_remove [OF ok(1) g] got split]
  have regroup: "block_of (wst_grids w') j c owner \<longleftrightarrow> block_of (wst_grids w) j c owner \<and> j \<noteq> m" for j c owner
    using sp block_of_remove [OF ok(1) g m, of j c owner] by (simp add: regrouped_def)
  have "queue_ok (wst_grids w') j q" if "queue_ok (wst_grids w) j q" "j \<noteq> m" for j q
    using that unfolding queue_ok_def regroup by blast
  then have "queues_ok w'" using ok(3) by (auto simp: queues_ok_def fields split: if_splits)
  moreover have "cargo_linked w'" unfolding cargo_linked_def regroup
  proof (intro allI impI)
    fix j c owner i
    assume a: "(block_of (wst_grids w) j c owner \<and> j \<noteq> m) \<and> blk_inventory_id c = Some i"
    with ok(4) obtain v where v: "bt_get (wst_inventories w) i = Some v" "inv_domain v = DomainCargo j"
      unfolding cargo_linked_def by blast
    have "blk_inventory_id b \<noteq> Some i" using ok(4) block_ofI [OF g b] v a unfolding cargo_linked_def by fastforce
    with cargo(3) v(1) have "bt_get (wst_inventories (drop_cargo p b w1)) i = Some v" by simp
    with prod v(2) show "\<exists>v. bt_get (wst_inventories w') i = Some v \<and> inv_domain v = DomainCargo j"
      unfolding fields same_domains_def by metis
  qed
  moreover have "players_linked w'" unfolding players_linked_def fields
  proof (intro allI impI)
    fix q pl
    assume "bt_get (wst_players w) q = Some pl"
    with ok(5) obtain v where v: "ply_player_id pl = q" "bt_get (wst_inventories w) (ply_inventory_id pl) = Some v"
      "inv_domain v = DomainPlayer q"
      unfolding players_linked_def by blast
    have "blk_inventory_id b \<noteq> Some (ply_inventory_id pl)"
      using ok(4) block_ofI [OF g b] v unfolding cargo_linked_def by fastforce
    with cargo(3) v(2) have "bt_get (wst_inventories (drop_cargo p b w1)) (ply_inventory_id pl) = Some v" by simp
    with prod v(1,3) show "ply_player_id pl = q \<and> (\<exists>v. bt_get (wst_inventories w2) (ply_inventory_id pl) = Some v
        \<and> inv_domain v = DomainPlayer q)"
      unfolding same_domains_def by metis
  qed
  moreover have "owners_ok w'" unfolding owners_ok_def fields
  proof (intro allI impI)
    fix j f
    assume "bt_get (wst_grids w') j = Some f"
    with sp obtain i h where "bt_get ?G i = Some h" "grd_owner_player_id f = grd_owner_player_id h" by blast
    with ok(6) g show "grd_owner_player_id f \<in> bt_dom (wst_players w)" by (auto simp: owners_ok_def split: if_splits)
  qed
  ultimately have "world_ok w'" using sp prod by (simp add: world_ok_def fields)
  moreover have "balanced w'"
  proof -
    have inst: "installed (wst_grids w') + unat (blk_component_cost b) = installed (wst_grids w)"
      using regrouped_installed [of ?G "wst_grids w'"] sp grids_ok_remove [OF ok(1) g] installed_remove [OF g b] by simp
    have "installed (wst_grids w) + unat (led_destroyed_components (wst_ledger w)) < 2 ^ 64"
      using live_le [OF assms(2), of ResComponent] assms(3) by (simp add: headroom_def)
    with inst have sum: "unat (led_destroyed_components (wst_ledger w) + blk_component_cost b)
        = unat (led_destroyed_components (wst_ledger w)) + unat (blk_component_cost b)"
      by (intro plus_unat) linarith
    have "live r (drop_cargo p b w1) = live r w" for r using cargo(2) [of r] by (simp add: live_def w1)
    then have live: "live r w' = live r w" for r using prod [of r] fields(5) [of r] by simp
    have "created (wst_ledger w') r = live r w' + built_in w' r + used_up (wst_ledger w') r" for r
      using spec [OF assms(2) [unfolded balanced_def], of r] inst sum live [of r] by (cases r) (simp_all add: fields(4) w1(5))
    then show ?thesis by (simp add: balanced_def)
  qed
  ultimately show ?thesis by blast
qed

lemma apply_damage_placed:
  assumes "bt_get (wst_grids w) k = Some g" and "bt_get (grd_blocks g) m = Some b"
  shows "apply_damage ph k m d e w =
    (if d < blk_health b
     then Inr (w\<lparr>wst_grids := bt_insert k (g\<lparr>grd_blocks := bt_insert m (b\<lparr>blk_health := blk_health b - d\<rparr>) (grd_blocks g)\<rparr>) (wst_grids w)\<rparr>)
     else try_r (drop_production (grd_owner_player_id g) m e (drop_cargo (grd_owner_player_id g) b
         (w\<lparr>wst_grids := bt_insert k (g\<lparr>grd_blocks := bt_remove m (grd_blocks g)\<rparr>) (wst_grids w),
            wst_ledger := (wst_ledger w)\<lparr>led_destroyed_blocks := led_destroyed_blocks (wst_ledger w) + 1,
              led_destroyed_components := led_destroyed_components (wst_ledger w) + blk_component_cost b\<rparr>\<rparr>)))
       (split_disconnected_grid ph k e))"
  unfolding apply_damage_def find_grid_def assms ok_or_simps try_r_simps prod.case Let_def by (rule refl)

lemma damaged_step:
  assumes "world_ok w" and "balanced w" and "headroom w" and "apply_block_damaged ph actor e k m d w = Inr w'"
  shows "world_ok w' \<and> balanced w'"
proof -
  from assms(4) have "apply_damage ph k m d e w = Inr w'"
    unfolding apply_block_damaged_def by (auto simp: result_elims split: if_splits)
  then obtain g b where g: "bt_get (wst_grids w) k = Some g" and b: "bt_get (grd_blocks g) m = Some b"
    unfolding apply_damage_def by (auto simp: result_elims find_grid_Inr)
  show ?thesis
  proof (cases "d < blk_health b")
    case True
    with \<open>apply_damage ph k m d e w = Inr w'\<close> have
      w': "w' = w\<lparr>wst_grids := bt_insert k (g\<lparr>grd_blocks := bt_insert m (b\<lparr>blk_health := blk_health b - d\<rparr>) (grd_blocks g)\<rparr>) (wst_grids w)\<rparr>"
      unfolding apply_damage_placed [OF g b] by simp
    show ?thesis
      by (rule put_grid_step [OF assms(1,2) g same_grid_insert [OF b] w']) (simp add: same_block_def)
  next
    case False
    with \<open>apply_damage ph k m d e w = Inr w'\<close> obtain w2 where
      drop: "drop_production (grd_owner_player_id g) m e (drop_cargo (grd_owner_player_id g) b
        (w\<lparr>wst_grids := bt_insert k (g\<lparr>grd_blocks := bt_remove m (grd_blocks g)\<rparr>) (wst_grids w),
           wst_ledger := (wst_ledger w)\<lparr>led_destroyed_blocks := led_destroyed_blocks (wst_ledger w) + 1,
             led_destroyed_components := led_destroyed_components (wst_ledger w) + blk_component_cost b\<rparr>\<rparr>)) = Inr w2"
      and split: "split_disconnected_grid ph k e w2 = Inr w'"
      unfolding apply_damage_placed [OF g b] if_not_P [OF False] try_r_Inr_iff by blast
    show ?thesis
      by (rule destroyed_step [OF assms(1,2,3) g b _ _ _ _ _ drop split]) simp_all
  qed
qed

end
