(* ===== verification/ConservationCheck.thy ===== *)
theory ConservationCheck
  imports WorldDamage
begin

text \<open>
  The check of conservation that closes every event, in exact arithmetic: its wrapping and saturating sums
  are the sums of \<open>balanced\<close>, so a balanced world with headroom passes it.
\<close>

section \<open>Sums of words\<close>

lemma unat_sum_list:
  "sum_list (map (\<lambda>x. unat (f x :: u64)) xs) < 2 ^ 64 \<Longrightarrow>
     unat (sum_list (map f xs)) = sum_list (map (\<lambda>x. unat (f x)) xs)"
  by (induction xs) (simp_all add: plus_unat)

lemma saturating_add_exact: "unat a + unat b < 2 ^ 64 \<Longrightarrow> unat (saturating_add a b :: u64) = unat a + unat b"
  by (simp add: saturating_add_unat)

lemma contents_amounts: "ctn_ore = (\<lambda>c. contents_amount c ResOre)"
  "ctn_refined_material = (\<lambda>c. contents_amount c ResRefinedMaterial)" "ctn_components = (\<lambda>c. contents_amount c ResComponent)"
  by (simp_all add: fun_eq_iff)

lemma foldl_escrow:
  assumes "unat start + queue_total r jobs < 2 ^ 64"
  shows "unat (foldl (\<lambda>total job. saturating_add (saturating_add total (contents_amount (job_reserved_inputs job) r))
      (contents_amount (job_pending_outputs job) r)) start jobs) = unat start + queue_total r jobs"
  using assms
proof (induction jobs arbitrary: start)
  case (Cons job jobs)
  let ?next = "saturating_add (saturating_add start (contents_amount (job_reserved_inputs job) r))
      (contents_amount (job_pending_outputs job) r)"
  have "unat ?next = unat start + job_total r job"
    using Cons.prems by (simp add: saturating_add_exact queue_total_def job_total_def amount_of_def)
  with Cons.IH [of ?next] Cons.prems show ?case by (simp add: queue_total_def)
qed (simp add: queue_total_def)

lemma escrowed_concat: "escrowed r Q = queue_total r (concat (bt_values Q))"
proof -
  have "sum_list (map (queue_total r) qs) = queue_total r (concat qs)" for qs
    by (induction qs) (simp_all add: queue_total_def)
  then show ?thesis by (simp add: escrowed_def bt_sum_def)
qed

lemma total_of_live:
  assumes "live r w < 2 ^ 64"
  shows "unat (total_of (\<lambda>c. contents_amount c r) w) = live r w"
proof -
  let ?start = "sum_list (map (\<lambda>v. contents_amount (inv_contents v) r) (bt_values (wst_inventories w)))"
  have start: "unat ?start = stored r (wst_inventories w)"
    using assms unat_sum_list [of "\<lambda>v. contents_amount (inv_contents v) r" "bt_values (wst_inventories w)"]
    by (simp add: live_def stored_def bt_sum_def amount_of_def)
  then show ?thesis
    using assms foldl_escrow [of ?start r "concat (bt_values (wst_production_queues w))"]
    by (simp add: total_of_def live_def escrowed_concat)
qed

lemma installed_all_blocks: "installed (wst_grids w) = sum_list (map (\<lambda>b. unat (blk_component_cost b)) (all_blocks w))"
proof -
  have "sum_list (map grid_cost gs) = sum_list (map (\<lambda>b. unat (blk_component_cost b))
      (concat (map (\<lambda>g. bt_values (grd_blocks g)) gs)))" for gs
    by (induction gs) (simp_all add: grid_cost_def bt_sum_def)
  then show ?thesis by (simp add: installed_def bt_sum_def all_blocks_def)
qed

section \<open>The check\<close>

lemma balanced_passes:
  assumes "balanced w" and "entered (wst_ledger w) < 2 ^ 64"
  shows "cns_valid (conservation w)"
proof -
  have bound: "live r w + built_in w r < 2 ^ 64" for r
    using live_le [OF assms(1), of r] assms(2) by linarith
  have exact: "x = word_of_nat n" if "unat x = n" for x :: u64 and n using that by (auto simp: word_unat_eq_iff)
  have totals: "total_of (\<lambda>c. contents_amount c r) w = word_of_nat (live r w)" for r
    by (rule exact, rule total_of_live) (use bound [of r] in linarith)
  have blocks: "sum_list (map blk_component_cost (all_blocks w)) = word_of_nat (installed (wst_grids w))"
    unfolding installed_all_blocks
    by (rule exact, rule unat_sum_list) (use bound [of ResComponent] in \<open>simp add: installed_all_blocks [symmetric]\<close>)
  have "(word_of_nat (created (wst_ledger w) r) :: u64)
      = word_of_nat (live r w + built_in w r + used_up (wst_ledger w) r)" for r
    using assms(1) by (simp add: balanced_def)
  from this [of ResOre] this [of ResRefinedMaterial] this [of ResComponent] show ?thesis
    by (simp add: conservation_def Let_def blocks totals [of ResOre, folded contents_amounts]
        totals [of ResRefinedMaterial, folded contents_amounts] totals [of ResComponent, folded contents_amounts]
        content_constants ac_simps)
qed

end
