(* ===== verification/QuantumSteps.thy ===== *)
theory QuantumSteps
  imports WorldConstruction
begin

text \<open>
  One second of production: in a well-formed world every planned outcome can be applied, and its
  application keeps the world well-formed and its resources balanced.
\<close>

section \<open>Replacing the head of a queue\<close>

definition put_queue :: "string \<Rightarrow> production_job list \<Rightarrow> world_state \<Rightarrow> world_state" where
  "put_queue m q w = w\<lparr>wst_production_queues :=
     (if q = [] then bt_remove m (wst_production_queues w) else bt_insert m q (wst_production_queues w))\<rparr>"

lemma put_queue_fields [simp]:
  "wst_grids (put_queue m q w) = wst_grids w" "wst_inventories (put_queue m q w) = wst_inventories w"
  "wst_players (put_queue m q w) = wst_players w" "wst_ledger (put_queue m q w) = wst_ledger w"
  "wst_production_clock (put_queue m q w) = wst_production_clock w"
  "bt_get (wst_production_queues (put_queue m q w)) j = (if j = m then if q = [] then None else Some q else bt_get (wst_production_queues w) j)"
  by (simp_all add: put_queue_def)

lemma escrowed_put_queue:
  assumes "bt_get (wst_production_queues w) m = Some q"
  shows "escrowed r (wst_production_queues (put_queue m q' w)) + queue_total r q
    = escrowed r (wst_production_queues w) + queue_total r q'"
proof (cases "q' = []")
  case True
  with bt_sum_remove [OF assms, of "queue_total r"] show ?thesis
    by (simp add: put_queue_def escrowed_def queue_total_def)
next
  case False
  with bt_sum_insert [OF assms, of "queue_total r" q'] show ?thesis by (simp add: put_queue_def escrowed_def)
qed

lemma world_ok_put_queue:
  assumes "world_ok w" and "q = [] \<or> queue_ok (wst_grids w) m q"
  shows "world_ok (put_queue m q w)"
proof -
  have "queue_ok (wst_grids w) j p" if "bt_get (wst_production_queues (put_queue m q w)) j = Some p" for j p
    using that assms by (auto simp: world_ok_def queues_ok_def split: if_splits)
  with world_ok_queues [OF assms(1)] show ?thesis by (simp add: put_queue_def)
qed

lemma queue_ok_head:
  assumes "queue_ok G m (job # q)" and "job_ok m job'" and "job_recipe job' = job_recipe job"
    and "job_owner_player_id job' = job_owner_player_id job"
  shows "queue_ok G m (job' # q)"
  using assms unfolding queue_ok_def by simp

lemma queue_ok_pop: "queue_ok G m (job # q) \<Longrightarrow> q = [] \<or> queue_ok G m q"
  unfolding queue_ok_def by (cases q) auto

lemma pop_head:
  "bt_get (wst_production_queues w) m = Some (job # q) \<Longrightarrow> pop_production_queue_head m w = put_queue m q w"
  by (simp add: pop_production_queue_head_def put_queue_def)

lemma update_head:
  "bt_get (wst_production_queues w) m = Some (job # q) \<Longrightarrow> update_queue_head m f w = put_queue m (f job # q) w"
  by (simp add: update_queue_head_def put_queue_def)

lemma queue_head_Some: "queue_head w m = Some job \<longleftrightarrow> (\<exists>q. bt_get (wst_production_queues w) m = Some (job # q))"
  by (auto simp: queue_head_def split: option.splits list.splits)

section \<open>What is planned\<close>

definition fits :: "world_state \<Rightarrow> string \<Rightarrow> inventory_contents \<Rightarrow> bool" where
  "fits w i c \<longleftrightarrow> (\<exists>v. bt_get (wst_inventories w) i = Some v \<and> inventory_can_add_contents v c)"

definition finishes :: "production_job \<Rightarrow> production_outcome \<Rightarrow> bool" where
  "finishes job outcome \<longleftrightarrow> job_progress_ticks job < job_duration_ticks job
     \<and> out_new_progress_ticks outcome = job_duration_ticks job
     \<and> (\<exists>inputs duration. production_recipe_quantities (job_recipe job) (job_batches job)
          = Some (inputs, out_outputs outcome, duration))"

text \<open>The outcomes that can be planned for the head of a queue.\<close>

definition planned :: "world_state \<Rightarrow> production_job \<Rightarrow> production_outcome \<Rightarrow> bool" where
  "planned w job outcome \<longleftrightarrow> out_destination_inventory_id outcome = job_destination_inventory_id job
     \<and> (case out_kind outcome of
          OutcomeAdvanced \<Rightarrow> job_progress_ticks job < job_duration_ticks job
            \<and> job_progress_ticks job \<le> out_new_progress_ticks outcome \<and> out_new_progress_ticks outcome < job_duration_ticks job
        | OutcomeCompleted \<Rightarrow> finishes job outcome
        | OutcomeCompletedAndDelivered \<Rightarrow> finishes job outcome \<and> fits w (job_destination_inventory_id job) (out_outputs outcome)
        | OutcomeOutputDelivered \<Rightarrow> job_progress_ticks job = job_duration_ticks job
            \<and> out_outputs outcome = job_pending_outputs job \<and> fits w (job_destination_inventory_id job) (out_outputs outcome)
        | _ \<Rightarrow> True)"

lemma cargo_block_inventory: "cargo_block_for_inventory w i = Some gb \<Longrightarrow> \<exists>v. bt_get (wst_inventories w) i = Some v"
  by (auto simp: cargo_block_for_inventory_def split: option.splits)

lemma route_inventory: "production_route_exists w m i \<Longrightarrow> \<exists>v. bt_get (wst_inventories w) i = Some v"
  by (auto simp: production_route_exists_def split: option.splits dest: cargo_block_inventory)

lemma saturating_add_ge: "a \<le> saturating_add a (b :: u64)"
  using u64_bound [of a] by (simp add: word_le_nat_alt saturating_add_unat)

lemma queue_machine:
  assumes "world_ok w" and "bt_get (wst_production_queues w) m = Some q"
  shows "\<exists>g b. block_grid w m = Some (g, b) \<and> blk_construction_complete b
    \<and> (\<forall>job \<in> set q. machine_supports_recipe (blk_kind b) (job_recipe job) \<and> job_owner_player_id job = grd_owner_player_id g)
    \<and> grd_owner_player_id g \<in> bt_dom (wst_players w)"
proof -
  have ok: "grids_ok (wst_grids w)" "queue_ok (wst_grids w) m q" "owners_ok w"
    using assms by (auto simp: world_ok_def queues_ok_def)
  then obtain b owner where "block_of (wst_grids w) m b owner" and b: "blk_construction_complete b"
    "\<forall>job \<in> set q. machine_supports_recipe (blk_kind b) (job_recipe job) \<and> job_owner_player_id job = owner"
    by (auto simp: queue_ok_def)
  then obtain k g where g: "bt_get (wst_grids w) k = Some g" "bt_get (grd_blocks g) m = Some b" "grd_owner_player_id g = owner"
    by (auto elim: block_ofE)
  from block_grid_placed [OF ok(1) g(1,2)] g b ok(3) show ?thesis by (auto simp: owners_ok_def)
qed

text \<open>A machine with a queue always has an outcome, and it is a planned one.\<close>

lemma outcome_exists:
  assumes "queue_head w m = Some job" and "block_grid w m = Some (g, b)"
    and "production_recipe_quantities (job_recipe job) (job_batches job) \<noteq> None"
  shows "\<exists>outcome. production_machine_outcome_after_one_second ph w m = Inr outcome"
proof (cases "production_route_exists w m (job_destination_inventory_id job)")
  case True
  from route_inventory [OF this] assms show ?thesis
    by (auto simp: production_machine_outcome_after_one_second_def find_inventory_def Let_def)
qed (use assms in \<open>simp add: production_machine_outcome_after_one_second_def Let_def\<close>)

lemma outcome_is_planned:
  assumes "production_machine_outcome_after_one_second ph w m = Inr outcome" and "queue_head w m = Some job"
    and "job_progress_ticks job \<le> job_duration_ticks job"
  shows "out_machine_block_id outcome = m \<and> planned w job outcome"
proof -
  let ?p = "job_progress_ticks job" and ?d = "job_duration_ticks job"
  let ?t = "min (saturating_add ?p FIXED_STEP_HZ) ?d"
  have "?p \<le> ?t" "?t \<noteq> ?d \<longrightarrow> ?t < ?d" "?p \<noteq> ?d \<longrightarrow> ?p < ?d"
    using assms(3) saturating_add_ge [of ?p FIXED_STEP_HZ] by (auto simp: min_def)
  with assms(1,2) show ?thesis
    unfolding production_machine_outcome_after_one_second_def Let_def
    by (auto simp: result_elims find_inventory_Inr planned_def finishes_def fits_def split: if_splits prod.splits)
qed

lemma outcome_planned:
  assumes "world_ok w" and q: "bt_get (wst_production_queues w) m = Some (job # q)"
  shows "\<exists>outcome. production_machine_outcome_after_one_second ph w m = Inr outcome
    \<and> out_machine_block_id outcome = m \<and> planned w job outcome"
proof -
  obtain g b where g: "block_grid w m = Some (g, b)" using queue_machine [OF assms] by blast
  have head: "queue_head w m = Some job" using q by (simp add: queue_head_def)
  have "job_ok m job" using assms by (auto simp: world_ok_def queues_ok_def queue_ok_def)
  then have job: "production_recipe_quantities (job_recipe job) (job_batches job) \<noteq> None"
    "job_progress_ticks job \<le> job_duration_ticks job"
    by (auto simp: job_ok_def)
  from outcome_exists [OF head g job(1)] outcome_is_planned [OF _ head job(2)] show ?thesis by blast
qed

section \<open>The ledger of a completion\<close>

lemma recipe_amounts:
  assumes "production_recipe_quantities recipe n = Some (inputs, outputs, duration)"
  shows "amount_of r inputs = (case (recipe, r) of (Refining, ResOre) \<Rightarrow> 2 * unat n
      | (ComponentRecipe, ResRefinedMaterial) \<Rightarrow> unat n | _ \<Rightarrow> 0)"
    and "amount_of r outputs = (case (recipe, r) of (Refining, ResRefinedMaterial) \<Rightarrow> unat n
      | (ComponentRecipe, ResComponent) \<Rightarrow> unat n | _ \<Rightarrow> 0)"
  using assms
  by (cases recipe; cases r; auto simp: checked_mul_Some_unat amount_of_def no_contents_def content_constants
      split: if_splits option.splits)+

lemma completion_ledger:
  assumes "record_completion recipe n l = Inr l'" and "production_recipe_quantities recipe n = Some (inputs, outputs, duration)"
  shows "created l' r = created l r + amount_of r outputs" "used_up l' r = used_up l r + amount_of r inputs"
    and "entered l' = entered l"
  using assms(1) recipe_amounts [OF assms(2), of r]
  by (cases recipe; cases r; auto simp: result_elims checked_add_Some_iff entered_def)+

lemma completion_recorded:
  assumes "balanced w" and "headroom w" and "production_recipe_quantities recipe n = Some (inputs, outputs, duration)"
    and "\<And>r. amount_of r inputs \<le> live r w"
  shows "\<exists>l. record_completion recipe n (wst_ledger w) = Inr l"
proof -
  have "amount_of r inputs + used_up (wst_ledger w) r < 2 ^ 64" for r
    using live_le [OF assms(1), of r] assms(4) [of r] assms(2) by (simp add: headroom_def)
  from this [of ResOre] this [of ResRefinedMaterial] recipe_amounts(1) [OF assms(3)] show ?thesis
    by (cases recipe) (simp_all add: checked_add_def)
qed

lemma world_ok_rewarded:
  assumes "world_ok w" and "bt_get (wst_players w) p = Some pl"
    and "ply_player_id pl' = ply_player_id pl" and "ply_inventory_id pl' = ply_inventory_id pl"
  shows "world_ok (w\<lparr>wst_ledger := l, wst_players := bt_insert p pl' (wst_players w)\<rparr>)"
  using assms by (auto simp: world_ok_def owners_ok_def players_linked_def cargo_linked_def queues_ok_def)

lemma reward_completion_fields [simp]:
  "ply_player_id (reward_completion recipe n p) = ply_player_id p"
  "ply_inventory_id (reward_completion recipe n p) = ply_inventory_id p"
  by (cases recipe; simp)+

section \<open>Applying a planned outcome\<close>

text \<open>What the outcome of a machine leaves as it was.\<close>

definition same_inventory_domains :: "world_state \<Rightarrow> world_state \<Rightarrow> bool" where
  "same_inventory_domains w w' \<longleftrightarrow>
     (\<forall>i. map_option inv_domain (bt_get (wst_inventories w') i) = map_option inv_domain (bt_get (wst_inventories w) i))"

definition machine_frame :: "string \<Rightarrow> world_state \<Rightarrow> world_state \<Rightarrow> bool" where
  "machine_frame m w w' \<longleftrightarrow> w' = w\<lparr>wst_inventories := wst_inventories w', wst_production_queues := wst_production_queues w',
         wst_players := wst_players w', wst_ledger := wst_ledger w'\<rparr>
     \<and> same_inventory_domains w w' \<and> entered (wst_ledger w') = entered (wst_ledger w)
     \<and> (\<forall>j. j \<noteq> m \<longrightarrow> bt_get (wst_production_queues w') j = bt_get (wst_production_queues w) j)"

lemma machine_frame_grids:
  assumes "machine_frame m w w'"
  shows "wst_grids w' = wst_grids w"
proof -
  have "w' = w\<lparr>wst_inventories := wst_inventories w', wst_production_queues := wst_production_queues w',
      wst_players := wst_players w', wst_ledger := wst_ledger w'\<rparr>"
    using assms by (simp only: machine_frame_def)
  from arg_cong [OF this, of wst_grids] show ?thesis by simp
qed

lemma machine_frame_put:
  "machine_frame m w (put_queue m q w)"
  by (simp add: machine_frame_def same_inventory_domains_def) (simp add: put_queue_def)

lemma machine_frame_refill:
  assumes "bt_get (wst_inventories w) i = Some v"
  shows "machine_frame m w (put_queue m q (refill i v c w))"
  using assms by (simp add: machine_frame_def same_inventory_domains_def) (simp add: put_queue_def refill_def)

lemma deliver_outputs_Inr:
  assumes "world_ok w" and "fits w i c" and "bt_get (wst_production_queues w) m = Some (job # q)"
    and "out_destination_inventory_id outcome = i" and "out_machine_block_id outcome = m" and "out_outputs outcome = c"
  shows "\<exists>w'. deliver_outputs outcome w = Inr w' \<and> world_ok w' \<and> machine_frame m w w' \<and> wst_ledger w' = wst_ledger w
    \<and> wst_players w' = wst_players w \<and> bt_get (wst_production_queues w') m = (if q = [] then None else Some q)
    \<and> (\<forall>r. live r w' + job_total r job = live r w + amount_of r c)"
proof -
  obtain v where v: "bt_get (wst_inventories w) i = Some v" "inventory_can_add_contents v c"
    using assms(2) by (auto simp: fits_def)
  obtain d where d: "add_contents (inv_contents v) c = Some d" using can_add_contents_fits [OF v(2)] by blast
  let ?one = "refill i v d w" and ?w = "put_queue m q (refill i v d w)"
  have "min MAX64 (volume d) \<le> unat (inv_capacity_liters v)"
    using add_contents_volume [OF d] can_add_contents_bound [OF v(2)] by linarith
  then have one: "world_ok ?one" by (rule world_ok_refill [OF assms(1) v(1)])
  have "queue_ok (wst_grids w) m (job # q)" using assms(1,3) by (auto simp: world_ok_def queues_ok_def)
  from queue_ok_pop [OF this] have "world_ok ?w" by (intro world_ok_put_queue [OF one]) simp
  moreover have "live r ?w + job_total r job = live r w + amount_of r c" for r
    using escrowed_put_queue [of ?one m "job # q" r q] assms(3) live_refill [OF v(1), of r d] add_contents_amount [OF d, of r]
    by (simp add: live_def queue_total_def)
  moreover have "deliver_outputs outcome w = Inr ?w"
    using v(1) d assms(3-6) pop_head [of ?one m job q]
    by (simp add: deliver_outputs_def find_inventory_def set_inventory_contents_def refill_def)
  moreover have "machine_frame m w ?w"
    by (rule machine_frame_refill [OF v(1)])
  ultimately show ?thesis by auto
qed

text \<open>The head of a queue after its outcome; a delivered job leaves the queue.\<close>

definition next_queue :: "production_job \<Rightarrow> production_job list \<Rightarrow> production_outcome \<Rightarrow> production_job list" where
  "next_queue job q outcome =
     (case out_kind outcome of
        OutcomeAdvanced \<Rightarrow> job\<lparr>job_progress_ticks := out_new_progress_ticks outcome\<rparr> # q
      | OutcomeCompleted \<Rightarrow> job\<lparr>job_progress_ticks := out_new_progress_ticks outcome,
            job_reserved_inputs := no_contents, job_pending_outputs := out_outputs outcome\<rparr> # q
      | OutcomeCompletedAndDelivered \<Rightarrow> q
      | OutcomeOutputDelivered \<Rightarrow> q
      | _ \<Rightarrow> job # q)"

definition stepped :: "string \<Rightarrow> production_job list \<Rightarrow> world_state \<Rightarrow> world_state \<Rightarrow> bool" where
  "stepped m q w w' \<longleftrightarrow> world_ok w' \<and> balanced w' \<and> machine_frame m w w'
     \<and> bt_get (wst_production_queues w') m = (if q = [] then None else Some q)"

lemma head_job:
  assumes "world_ok w" and "bt_get (wst_production_queues w) m = Some (job # q)"
  shows "queue_ok (wst_grids w) m (job # q)" "job_ok m job"
proof -
  show ok: "queue_ok (wst_grids w) m (job # q)" using assms by (auto simp: world_ok_def queues_ok_def)
  then show "job_ok m job" by (simp add: queue_ok_def)
qed

lemma balanced_completed:
  assumes "balanced w" and "wst_grids w' = wst_grids w"
    and "\<And>r. created (wst_ledger w') r = created (wst_ledger w) r + gained r"
    and "\<And>r. used_up (wst_ledger w') r = used_up (wst_ledger w) r + spent r"
    and "\<And>r. live r w' + spent r = live r w + gained r"
  shows "balanced w'"
  unfolding balanced_def
proof
  fix r
  show "created (wst_ledger w') r = live r w' + built_in w' r + used_up (wst_ledger w') r"
    using spec [OF assms(1) [unfolded balanced_def], of r] assms(3-5) [of r] built_in_cong [OF assms(2), of r] by simp
qed

lemma advanced_step:
  assumes "world_ok w" and "balanced w" and q: "bt_get (wst_production_queues w) m = Some (job # q)"
    and "planned w job outcome" and "out_kind outcome = OutcomeAdvanced" and "out_machine_block_id outcome = m"
  shows "\<exists>w'. apply_production_machine_outcome outcome w = Inr w' \<and> stepped m (next_queue job q outcome) w w'"
proof -
  let ?job = "job\<lparr>job_progress_ticks := out_new_progress_ticks outcome\<rparr>"
  let ?w = "put_queue m (?job # q) w"
  have "job_ok m ?job" using head_job(2) [OF assms(1) q] assms(4,5) by (auto simp: job_ok_def planned_def)
  then have "queue_ok (wst_grids w) m (?job # q)" by (rule queue_ok_head [OF head_job(1) [OF assms(1) q]]) simp_all
  then have "world_ok ?w" by (intro world_ok_put_queue [OF assms(1)]) simp
  moreover have "live r ?w = live r w" for r
    using escrowed_put_queue [OF q, of r "?job # q"] by (simp add: live_def queue_total_def job_total_def)
  then have "balanced ?w" using built_in_cong [of ?w w] by (intro balanced_same [OF assms(2)]) simp_all
  moreover have "apply_production_machine_outcome outcome w = Inr ?w"
    using assms(5,6) q update_head [OF q] by (simp add: apply_production_machine_outcome_def queue_head_def)
  ultimately show ?thesis using assms(5) machine_frame_put by (simp add: stepped_def next_queue_def)
qed

lemma delivered_step:
  assumes "world_ok w" and "balanced w" and q: "bt_get (wst_production_queues w) m = Some (job # q)"
    and "planned w job outcome" and "out_kind outcome = OutcomeOutputDelivered" and "out_machine_block_id outcome = m"
  shows "\<exists>w'. apply_production_machine_outcome outcome w = Inr w' \<and> stepped m (next_queue job q outcome) w w'"
proof -
  have job: "job_progress_ticks job = job_duration_ticks job" "out_outputs outcome = job_pending_outputs job"
    "fits w (job_destination_inventory_id job) (out_outputs outcome)"
    "out_destination_inventory_id outcome = job_destination_inventory_id job"
    using assms(4,5) unfolding planned_def by auto
  from deliver_outputs_Inr [OF assms(1) job(3) q job(4) assms(6) refl] obtain w' where w':
    "deliver_outputs outcome w = Inr w'" "world_ok w'" "machine_frame m w w'" "wst_ledger w' = wst_ledger w"
    "bt_get (wst_production_queues w') m = (if q = [] then None else Some q)"
    "\<forall>r. live r w' + job_total r job = live r w + amount_of r (out_outputs outcome)"
    by blast
  have "job_total r job = amount_of r (out_outputs outcome)" for r
    using head_job(2) [OF assms(1) q] job(1,2) by (auto simp: job_ok_def job_total_def)
  with w'(6) have "live r w' = live r w" for r by simp
  moreover have "wst_grids w' = wst_grids w" by (rule machine_frame_grids [OF w'(3)])
  ultimately have "balanced w'" using w'(4) built_in_cong [of w' w] by (intro balanced_same [OF assms(2)]) simp_all
  with w'(2,3,5) assms(5) have "stepped m (next_queue job q outcome) w w'" by (simp add: stepped_def next_queue_def)
  moreover have "apply_production_machine_outcome outcome w = Inr w'"
    using w'(1) assms(5) by (simp add: apply_production_machine_outcome_def)
  ultimately show ?thesis by blast
qed

text \<open>The ledger and the owner's experience when a job completes.\<close>

definition rewarded :: "production_job \<Rightarrow> ledger \<Rightarrow> player \<Rightarrow> world_state \<Rightarrow> world_state" where
  "rewarded job l pl w = w\<lparr>wst_ledger := l, wst_players := bt_insert (job_owner_player_id job)
     (reward_completion (job_recipe job) (job_batches job) pl) (wst_players w)\<rparr>"

lemma rewarded_fields [simp]:
  "wst_grids (rewarded job l pl w) = wst_grids w" "wst_inventories (rewarded job l pl w) = wst_inventories w"
  "wst_production_queues (rewarded job l pl w) = wst_production_queues w" "wst_ledger (rewarded job l pl w) = l"
  "live r (rewarded job l pl w) = live r w" "fits (rewarded job l pl w) i c = fits w i c"
  by (simp_all add: rewarded_def live_def fits_def)

lemma machine_frame_rewarded:
  assumes "machine_frame m (rewarded job l pl w) w'" and "entered l = entered (wst_ledger w)"
  shows "machine_frame m w w'"
proof -
  have "w' = (rewarded job l pl w)\<lparr>wst_inventories := wst_inventories w', wst_production_queues := wst_production_queues w',
      wst_players := wst_players w', wst_ledger := wst_ledger w'\<rparr>"
    using assms(1) by (simp only: machine_frame_def)
  also have "\<dots> = w\<lparr>wst_inventories := wst_inventories w', wst_production_queues := wst_production_queues w',
      wst_players := wst_players w', wst_ledger := wst_ledger w'\<rparr>"
    by (simp add: rewarded_def)
  finally show ?thesis using assms unfolding machine_frame_def same_inventory_domains_def rewarded_fields by metis
qed

lemma completion_prepared:
  assumes "world_ok w" and "balanced w" and "headroom w" and q: "bt_get (wst_production_queues w) m = Some (job # q)"
    and "finishes job outcome" and "out_machine_block_id outcome = m"
    and kind: "out_kind outcome = OutcomeCompleted \<or> out_kind outcome = OutcomeCompletedAndDelivered"
  shows "\<exists>l pl. world_ok (rewarded job l pl w) \<and> entered l = entered (wst_ledger w)
    \<and> (\<forall>r. created l r = created (wst_ledger w) r + amount_of r (out_outputs outcome))
    \<and> (\<forall>r. used_up l r = used_up (wst_ledger w) r + job_total r job)
    \<and> apply_production_machine_outcome outcome w =
        (if out_kind outcome = OutcomeCompletedAndDelivered then deliver_outputs outcome (rewarded job l pl w)
         else Inr (put_queue m (next_queue job q outcome) (rewarded job l pl w)))"
proof -
  obtain inputs where job: "production_recipe_quantities (job_recipe job) (job_batches job)
      = Some (inputs, out_outputs outcome, job_duration_ticks job)"
    "job_reserved_inputs job = inputs" "job_pending_outputs job = no_contents"
    using head_job(2) [OF assms(1) q] assms(5) by (auto simp: job_ok_def finishes_def)
  have total: "job_total r job = amount_of r inputs" for r using job by (simp add: job_total_def)
  have "amount_of r inputs \<le> live r w" for r
    using bt_sum_ge [OF q, of "queue_total r"] total [of r] by (simp add: live_def escrowed_def queue_total_def)
  from completion_recorded [OF assms(2,3) job(1) this] obtain l where
    l: "record_completion (job_recipe job) (job_batches job) (wst_ledger w) = Inr l" by blast
  from queue_machine [OF assms(1) q] obtain pl where pl: "bt_get (wst_players w) (job_owner_player_id job) = Some pl"
    by (auto simp: bt_dom_iff)
  let ?w = "rewarded job l pl w"
  have "apply_production_machine_outcome outcome w =
      (if out_kind outcome = OutcomeCompletedAndDelivered then deliver_outputs outcome ?w
       else Inr (update_queue_head m (\<lambda>job. job\<lparr>job_progress_ticks := out_new_progress_ticks outcome,
          job_reserved_inputs := no_contents, job_pending_outputs := out_outputs outcome\<rparr>) ?w))"
    using kind q l pl assms(6)
    by (auto simp: apply_production_machine_outcome_def queue_head_def rewarded_def Let_def)
  also have "\<dots> = (if out_kind outcome = OutcomeCompletedAndDelivered then deliver_outputs outcome ?w
      else Inr (put_queue m (next_queue job q outcome) ?w))"
    using kind update_head [of ?w m job q] q by (auto simp: next_queue_def)
  finally have result: "apply_production_machine_outcome outcome w = \<dots>" .
  have "world_ok ?w" unfolding rewarded_def by (rule world_ok_rewarded [OF assms(1) pl]) simp_all
  with result completion_ledger [OF l job(1)] total show ?thesis by metis
qed

lemma completed_step:
  assumes "world_ok w" and "balanced w" and "headroom w" and q: "bt_get (wst_production_queues w) m = Some (job # q)"
    and "planned w job outcome" and "out_machine_block_id outcome = m"
    and kind: "out_kind outcome = OutcomeCompleted \<or> out_kind outcome = OutcomeCompletedAndDelivered"
  shows "\<exists>w'. apply_production_machine_outcome outcome w = Inr w' \<and> stepped m (next_queue job q outcome) w w'"
proof -
  have fin: "finishes job outcome" "out_destination_inventory_id outcome = job_destination_inventory_id job"
    using assms(5) kind unfolding planned_def by auto
  obtain l pl where one: "world_ok (rewarded job l pl w)" "entered l = entered (wst_ledger w)"
    and l: "\<forall>r. created l r = created (wst_ledger w) r + amount_of r (out_outputs outcome)"
      "\<forall>r. used_up l r = used_up (wst_ledger w) r + job_total r job"
    and result: "apply_production_machine_outcome outcome w =
        (if out_kind outcome = OutcomeCompletedAndDelivered then deliver_outputs outcome (rewarded job l pl w)
         else Inr (put_queue m (next_queue job q outcome) (rewarded job l pl w)))"
    using completion_prepared [OF assms(1-4) fin(1) assms(6,7)] by blast
  let ?w = "rewarded job l pl w"
  have queue: "bt_get (wst_production_queues ?w) m = Some (job # q)" using q by simp
  show ?thesis
  proof (cases "out_kind outcome = OutcomeCompletedAndDelivered")
    case True
    with assms(5) have "fits ?w (job_destination_inventory_id job) (out_outputs outcome)" by (simp add: planned_def)
    from deliver_outputs_Inr [OF one(1) this queue fin(2) assms(6) refl] obtain w' where w':
      "deliver_outputs outcome ?w = Inr w'" "world_ok w'" "machine_frame m ?w w'" "wst_ledger w' = l"
      "bt_get (wst_production_queues w') m = (if q = [] then None else Some q)"
      "\<forall>r. live r w' + job_total r job = live r w + amount_of r (out_outputs outcome)"
      by auto
    have "wst_grids w' = wst_grids w" using machine_frame_grids [OF w'(3)] by simp
    then have "balanced w'"
      by (rule balanced_completed [OF assms(2), where gained = "\<lambda>r. amount_of r (out_outputs outcome)"
            and spent = "\<lambda>r. job_total r job"])
        (use w'(4,6) l in auto)
    moreover note machine_frame_rewarded [OF w'(3) one(2)]
    ultimately have "stepped m (next_queue job q outcome) w w'"
      using w'(2,5) True by (simp add: stepped_def next_queue_def)
    moreover have "apply_production_machine_outcome outcome w = Inr w'" unfolding result if_P [OF True] by (rule w'(1))
    ultimately show ?thesis by blast
  next
    case False
    let ?job = "job\<lparr>job_progress_ticks := out_new_progress_ticks outcome,
        job_reserved_inputs := no_contents, job_pending_outputs := out_outputs outcome\<rparr>"
    let ?w' = "put_queue m (?job # q) ?w"
    have queue': "next_queue job q outcome = ?job # q" using kind False by (simp add: next_queue_def)
    have "job_ok m ?job" using head_job(2) [OF assms(1) q] fin(1) by (auto simp: job_ok_def finishes_def)
    then have "queue_ok (wst_grids ?w) m (?job # q)"
      unfolding rewarded_fields by (rule queue_ok_head [OF head_job(1) [OF assms(1) q]]) simp_all
    then have "world_ok ?w'" by (intro world_ok_put_queue [OF one(1)]) blast
    moreover have "live r ?w' + job_total r job = live r w + amount_of r (out_outputs outcome)" for r
      using escrowed_put_queue [OF queue, of r "?job # q"] by (simp add: live_def queue_total_def) (simp add: job_total_def)
    then have "balanced ?w'"
      by (intro balanced_completed [OF assms(2), where gained = "\<lambda>r. amount_of r (out_outputs outcome)"
            and spent = "\<lambda>r. job_total r job"]) (use l in simp_all)
    moreover note machine_frame_rewarded [OF machine_frame_put one(2)]
    ultimately show ?thesis using result False by (simp add: stepped_def queue')
  qed
qed

text \<open>Every planned outcome that changes the state can be applied.\<close>

lemma outcome_step:
  assumes "world_ok w" and "balanced w" and "headroom w" and "bt_get (wst_production_queues w) m = Some (job # q)"
    and "planned w job outcome" and "out_machine_block_id outcome = m" and "changes_state outcome"
  shows "\<exists>w'. apply_production_machine_outcome outcome w = Inr w' \<and> stepped m (next_queue job q outcome) w w'"
  using assms(7) advanced_step [OF assms(1,2,4,5) _ assms(6)] delivered_step [OF assms(1,2,4,5) _ assms(6)]
    completed_step [OF assms(1-6)]
  unfolding changes_state_def by blast

end
