(* ===== verification/QuantumPlan.thy ===== *)
theory QuantumPlan
  imports QuantumSteps
begin

text \<open>
  The plan of a quantum: in a well-formed world it is made without error and can be applied, and what it
  does to the queue of one machine does not depend on the other machines.
\<close>

section \<open>The frame of a quantum\<close>

definition quantum_frame :: "world_state \<Rightarrow> world_state \<Rightarrow> bool" where
  "quantum_frame w w' \<longleftrightarrow> w' = w\<lparr>wst_inventories := wst_inventories w', wst_production_queues := wst_production_queues w',
         wst_players := wst_players w', wst_ledger := wst_ledger w'\<rparr>
     \<and> same_inventory_domains w w' \<and> entered (wst_ledger w') = entered (wst_ledger w)"

lemma quantum_frame_refl [simp]: "quantum_frame w w"
  by (simp add: quantum_frame_def same_inventory_domains_def)

lemma quantum_frame_machine: "machine_frame m w w' \<Longrightarrow> quantum_frame w w'"
  by (simp add: machine_frame_def quantum_frame_def)

lemma quantum_frame_fields:
  assumes "quantum_frame w w'"
  shows "wst_grids w' = wst_grids w" "wst_production_clock w' = wst_production_clock w" "wst_universe_id w' = wst_universe_id w"
    "wst_cell_id w' = wst_cell_id w" "wst_universe_manifest_hash w' = wst_universe_manifest_hash w"
    "wst_celestial_registry_hash w' = wst_celestial_registry_hash w" "headroom w' \<longleftrightarrow> headroom w"
    "same_inventory_domains w w'"
proof -
  have eq: "w' = w\<lparr>wst_inventories := wst_inventories w', wst_production_queues := wst_production_queues w',
      wst_players := wst_players w', wst_ledger := wst_ledger w'\<rparr>"
    using assms by (simp only: quantum_frame_def)
  show "wst_grids w' = wst_grids w" "wst_production_clock w' = wst_production_clock w" "wst_universe_id w' = wst_universe_id w"
    "wst_cell_id w' = wst_cell_id w" "wst_universe_manifest_hash w' = wst_universe_manifest_hash w"
    "wst_celestial_registry_hash w' = wst_celestial_registry_hash w"
    by (subst eq, simp)+
  show "headroom w' \<longleftrightarrow> headroom w" "same_inventory_domains w w'"
    using assms by (simp_all add: quantum_frame_def headroom_def)
qed

lemma quantum_frame_trans:
  assumes "quantum_frame u v" and "quantum_frame v w"
  shows "quantum_frame u w"
proof -
  have v: "v = u\<lparr>wst_inventories := wst_inventories v, wst_production_queues := wst_production_queues v,
      wst_players := wst_players v, wst_ledger := wst_ledger v\<rparr>"
    and w: "w = v\<lparr>wst_inventories := wst_inventories w, wst_production_queues := wst_production_queues w,
      wst_players := wst_players w, wst_ledger := wst_ledger w\<rparr>"
    using assms by (simp_all only: quantum_frame_def)
  from v obtain I Q P l where "v = u\<lparr>wst_inventories := I, wst_production_queues := Q, wst_players := P, wst_ledger := l\<rparr>"
    by (rule that)
  with w have "w = u\<lparr>wst_inventories := wst_inventories w, wst_production_queues := wst_production_queues w,
      wst_players := wst_players w, wst_ledger := wst_ledger w\<rparr>"
    by (elim trans) simp
  with assms show ?thesis by (simp add: quantum_frame_def same_inventory_domains_def)
qed

section \<open>The machines of a quantum\<close>

lemma collect_r_Inr: "(\<And>x. x \<in> set xs \<Longrightarrow> f x = Inr (g x)) \<Longrightarrow> collect_r f xs = Inr (map g xs)"
  by (induction xs) simp_all

lemma scheduled_machines_Inr:
  assumes "world_ok w"
  shows "\<exists>machines. scheduled_machines w = Inr machines \<and> distinct (map snd machines)
    \<and> set (map snd machines) = bt_dom (wst_production_queues w)"
proof -
  let ?keys = "bt_keys (wst_production_queues w)"
  let ?place = "\<lambda>m. (grd_grid_id (fst (the (block_grid w m))), m)"
  have "try_r (ok_or (block_grid w m) (Rejected ''production_machine_missing'')) (\<lambda>(g, _). Inr (grd_grid_id g, m)) = Inr (?place m)"
    if "m \<in> set ?keys" for m
  proof -
    from that obtain q where "bt_get (wst_production_queues w) m = Some q" by (auto simp: bt_in_keys_iff bt_dom_iff bt_dom_def)
    from queue_machine [OF assms this] show ?thesis by auto
  qed
  then have "collect_r (\<lambda>m. try_r (ok_or (block_grid w m) (Rejected ''production_machine_missing'')) (\<lambda>(g, _). Inr (grd_grid_id g, m)))
      ?keys = Inr (map ?place ?keys)"
    by (rule collect_r_Inr)
  then have "scheduled_machines w = Inr (sort (map ?place ?keys))"
    by (simp add: scheduled_machines_def)
  moreover have "distinct (map snd (sort xs)) = distinct (map snd xs)" "set (map snd (sort xs)) = set (map snd xs)"
    for xs :: "(string \<times> string) list"
    by (simp_all add: distinct_map)
  then have "distinct (map snd (sort (map ?place ?keys)))" "set (map snd (sort (map ?place ?keys))) = set ?keys"
    using bt_distinct_keys [of "wst_production_queues w"] by (simp_all add: comp_def bt_keys_def image_image)
  moreover have "set ?keys = bt_dom (wst_production_queues w)" by (auto simp: bt_in_keys_iff bt_dom_iff)
  ultimately show ?thesis by simp
qed

section \<open>The plan\<close>

text \<open>What one quantum does to the queue of a machine, in the planning state of its turn.\<close>

definition machine_step :: "world_physics \<Rightarrow> world_state \<Rightarrow> world_state \<Rightarrow> string \<Rightarrow> bool" where
  "machine_step ph w w' m \<longleftrightarrow> (\<exists>u job q outcome. quantum_frame w u
     \<and> bt_get (wst_production_queues w) m = Some (job # q) \<and> bt_get (wst_production_queues u) m = Some (job # q)
     \<and> production_machine_outcome_after_one_second ph u m = Inr outcome
     \<and> bt_get (wst_production_queues w') m = (if next_queue job q outcome = [] then None else Some (next_queue job q outcome)))"

text \<open>The outcome of a machine that was planned, whether it changes the state or not.\<close>

lemma planned_turn:
  assumes "world_ok w" and "balanced w" and "headroom w" and q: "bt_get (wst_production_queues w) m = Some (job # q)"
  shows "\<exists>outcome w'. production_machine_outcome_after_one_second ph w m = Inr outcome
    \<and> (if changes_state outcome then apply_production_machine_outcome outcome w else Inr w) = Inr w'
    \<and> stepped m (next_queue job q outcome) w w'"
proof -
  obtain outcome where outcome: "production_machine_outcome_after_one_second ph w m = Inr outcome"
    "out_machine_block_id outcome = m" "planned w job outcome"
    using outcome_planned [OF assms(1) q] by blast
  show ?thesis
  proof (cases "changes_state outcome")
    case True
    with outcome_step [OF assms outcome(3,2)] outcome(1) show ?thesis by auto
  next
    case False
    then have "next_queue job q outcome = job # q"
      by (auto simp: changes_state_def next_queue_def split: production_outcome_kind.splits)
    with q assms(1,2) have "stepped m (next_queue job q outcome) w w"
      by (simp add: stepped_def machine_frame_def same_inventory_domains_def)
    with outcome(1) False show ?thesis by auto
  qed
qed

lemma plan_applies:
  assumes "world_ok w" and "balanced w" and "headroom w" and "distinct (map snd machines)"
    and "set (map snd machines) \<subseteq> bt_dom (wst_production_queues w)"
  shows "\<exists>outcomes w'. plan_outcomes ph machines w = Inr outcomes \<and> apply_outcomes outcomes w = Inr w'
    \<and> length outcomes = length machines \<and> world_ok w' \<and> balanced w' \<and> quantum_frame w w'
    \<and> (\<forall>m. m \<notin> set (map snd machines) \<longrightarrow> bt_get (wst_production_queues w') m = bt_get (wst_production_queues w) m)
    \<and> (\<forall>m \<in> set (map snd machines). machine_step ph w w' m)"
  using assms
proof (induction machines arbitrary: w)
  case Nil
  then show ?case by (simp add: apply_outcomes_def)
next
  case (Cons place machines)
  obtain k m where place: "place = (k, m)" by fastforce
  from Cons.prems(5) place obtain q' where "bt_get (wst_production_queues w) m = Some q'" by (auto simp: bt_dom_iff)
  moreover from this Cons.prems(1) have "q' \<noteq> []" by (auto simp: world_ok_def queues_ok_def queue_ok_def)
  ultimately obtain job q where q: "bt_get (wst_production_queues w) m = Some (job # q)" by (cases q') auto
  obtain outcome u where u: "production_machine_outcome_after_one_second ph w m = Inr outcome"
    "(if changes_state outcome then apply_production_machine_outcome outcome w else Inr w) = Inr u"
    "stepped m (next_queue job q outcome) w u"
    using planned_turn [OF Cons.prems(1-3) q] by blast
  have frame: "quantum_frame w u" "machine_frame m w u" and ok: "world_ok u" "balanced u"
    using u(3) quantum_frame_machine by (auto simp: stepped_def)
  have other: "bt_get (wst_production_queues u) j = bt_get (wst_production_queues w) j" if "j \<noteq> m" for j
    using frame(2) that by (simp add: machine_frame_def)
  have m: "m \<notin> set (map snd machines)" "distinct (map snd machines)" using Cons.prems(4) place by auto
  have "set (map snd machines) \<subseteq> bt_dom (wst_production_queues u)"
    using Cons.prems(5) m(1) other place unfolding bt_dom_iff subset_iff by (metis list.set_intros(2) list.simps(9))
  from Cons.IH [OF ok _ m(2) this] quantum_frame_fields(7) [OF frame(1)] Cons.prems(3) obtain outcomes w' where
    rest: "plan_outcomes ph machines u = Inr outcomes" "apply_outcomes outcomes u = Inr w'"
      "length outcomes = length machines" "world_ok w'" "balanced w'" "quantum_frame u w'"
      "\<forall>j. j \<notin> set (map snd machines) \<longrightarrow> bt_get (wst_production_queues w') j = bt_get (wst_production_queues u) j"
      "\<forall>j \<in> set (map snd machines). machine_step ph u w' j"
    by blast
  have "machine_step ph w w' m"
    using q u(1,3) rest(7) m(1) unfolding machine_step_def stepped_def by (metis quantum_frame_refl)
  moreover have "machine_step ph w w' j" if "j \<in> set (map snd machines)" for j
  proof -
    from that m(1) have "j \<noteq> m" by blast
    with rest(8) that other [OF this] show ?thesis
      unfolding machine_step_def by (metis quantum_frame_trans [OF frame(1)])
  qed
  moreover have "plan_outcomes ph (place # machines) w = Inr (outcome # outcomes)"
    using u(1,2) rest(1) place by simp
  moreover have "apply_outcomes (outcome # outcomes) w = Inr w'"
    using u(2) rest(2) by (simp add: apply_outcomes_def)
  moreover note quantum_frame_trans [OF frame(1) rest(6)]
  ultimately show ?case using rest(3-5,7) other m(1) place by (intro exI [of _ "outcome # outcomes"] exI [of _ w']) auto
qed

end
