(* ===== verification/WorldHistory.thy ===== *)
theory WorldHistory
  imports ConservationCheck QuantumPlan
begin

text \<open>
  Whole events and histories of events: every payload, the reward of the actor and the record of the
  operation keep worlds well-formed and resources balanced.
\<close>

section \<open>What enters the world\<close>

text \<open>The \<open>i32\<close> coordinate of a built block.\<close>

fun payload_in_range :: "world_payload \<Rightarrow> bool" where
  "payload_in_range (BlockBuilt _ _ b) = i32_coordinate (blk_coordinate b)"
| "payload_in_range _ = True"

text \<open>A voxel yields three units of ore at most; nothing else enters.\<close>

lemma entered_cong:
  "wst_ledger w' = wst_ledger w \<Longrightarrow> entered (wst_ledger w') \<le> entered (wst_ledger w) + 3"
  by simp

lemma mined_entered:
  assumes "headroom w" and "apply_voxel_mined ph actor c mat y i w = Inr w'"
  shows "entered (wst_ledger w') \<le> entered (wst_ledger w) + 3"
proof -
  from mined_Inr [OF assms(2)] have y: "y = content_voxel_ore_yield mat"
    and l: "wst_ledger w' = (wst_ledger w)\<lparr>led_mined_ore := led_mined_ore (wst_ledger w) + y\<rparr>" by blast+
  have y3: "unat y \<le> 3" unfolding y by (cases mat) simp_all
  then have "unat (led_mined_ore (wst_ledger w) + y) = unat (led_mined_ore (wst_ledger w)) + unat y"
    using assms(1) by (intro plus_unat) (simp add: headroom_def entered_def)
  with y3 show ?thesis by (simp add: l entered_def)
qed

lemma damage_ledger:
  assumes "apply_damage ph k m d e w = Inr w'"
  shows "entered (wst_ledger w') = entered (wst_ledger w)"
proof -
  from assms obtain g b where g: "bt_get (wst_grids w) k = Some g" "bt_get (grd_blocks g) m = Some b"
    unfolding apply_damage_def by (auto simp: result_elims find_grid_Inr)
  have drop: "wst_ledger v = wst_ledger u" if "drop_production p m e u = Inr v" for p u v
    using that unfolding drop_production_def by (auto simp: result_elims Let_def split: option.splits if_splits)
  have split: "wst_ledger v = wst_ledger u" if "split_disconnected_grid ph k e u = Inr v" for u v
    by (subst split_Inr_grids [OF that]) simp
  show ?thesis
  proof (cases "d < blk_health b")
    case True
    with assms show ?thesis unfolding apply_damage_placed [OF g] by auto
  next
    case False
    with assms show ?thesis
      unfolding apply_damage_placed [OF g] if_not_P [OF False] try_r_Inr_iff
      by (auto dest!: drop split simp: entered_def)
  qed
qed

lemma welded_ledger: "apply_block_welded ph p actor k m x y z c w = Inr w' \<Longrightarrow> wst_ledger w' = wst_ledger w"
  unfolding apply_block_welded_def by (auto simp: result_elims split: if_splits)

lemma control_ledger: "apply_grid_control_set ph p k x y d w = Inr w' \<Longrightarrow> wst_ledger w' = wst_ledger w"
  unfolding apply_grid_control_set_def by (auto simp: result_elims split: if_splits)

lemma anchor_ledger: "apply_grid_anchor_set ph p k x y w = Inr w' \<Longrightarrow> wst_ledger w' = wst_ledger w"
  unfolding apply_grid_anchor_set_def by (auto simp: result_elims split: if_splits)

lemma transferred_ledger: "apply_inventory_transferred p i j r q w = Inr w' \<Longrightarrow> wst_ledger w' = wst_ledger w"
  by (drule transferred_Inr) auto

lemma queued_ledger: "apply_production_queued p opid n job w = Inr w' \<Longrightarrow> wst_ledger w' = wst_ledger w"
  by (drule queued_Inr) auto

lemma built_ledger: "apply_block_built ph p actor n k i b w = Inr w' \<Longrightarrow> entered (wst_ledger w') = entered (wst_ledger w)"
  by (drule built_Inr) (auto simp: entered_def)

section \<open>Payloads\<close>

definition sound_step :: "world_state \<Rightarrow> world_state \<Rightarrow> bool" where
  "sound_step w w' \<longleftrightarrow> world_ok w' \<and> balanced w' \<and> entered (wst_ledger w') \<le> entered (wst_ledger w) + 3"

lemma sound_stepI: "world_ok w' \<and> balanced w' \<Longrightarrow> entered (wst_ledger w') = entered (wst_ledger w) \<Longrightarrow> sound_step w w'"
  by (simp add: sound_step_def)

lemma sound_step_cong:
  assumes "wst_grids w' = wst_grids u" and "wst_inventories w' = wst_inventories u"
    and "wst_production_queues w' = wst_production_queues u" and "wst_players w' = wst_players u" and "wst_ledger w' = wst_ledger u"
  shows "sound_step w w' = sound_step w u"
  using world_ok_cong [OF assms(1-4)] live_cong [OF assms(2,3)] built_in_cong [OF assms(1)] assms(5)
  by (simp add: sound_step_def balanced_def)

lemma human_step:
  assumes "world_ok w" and "balanced w" and "headroom w" and "payload_in_range payload"
    and "apply_human_payload ph p actor opid n payload w = Inr w'"
  shows "sound_step w w'"
proof (cases payload)
  case (VoxelMined c mat y i)
  note a = assms(5) [unfolded VoxelMined apply_human_payload.simps]
  from mined_step [OF assms(1-3) a] mined_entered [OF assms(3) a] show ?thesis by (simp add: sound_step_def)
next
  case (ProductionQueued job)
  note a = assms(5) [unfolded ProductionQueued apply_human_payload.simps]
  show ?thesis by (rule sound_stepI [OF queued_step [OF assms(1,2) a]]) (simp add: queued_ledger [OF a])
next
  case (InventoryTransferred i j r q)
  note a = assms(5) [unfolded InventoryTransferred apply_human_payload.simps]
  show ?thesis by (rule sound_stepI [OF transferred_step [OF assms(1,2) a]]) (simp add: transferred_ledger [OF a])
next
  case (BlockBuilt k i b)
  note a = assms(5) [unfolded BlockBuilt apply_human_payload.simps]
  from assms(4) BlockBuilt have "i32_coordinate (blk_coordinate b)" by simp
  from sound_stepI [OF built_step [OF assms(1,2) this a] built_ledger [OF a]] show ?thesis .
next
  case (BlockWelded k m x y z c)
  note a = assms(5) [unfolded BlockWelded apply_human_payload.simps]
  show ?thesis by (rule sound_stepI [OF welded_step [OF assms(1,2) a]]) (simp add: welded_ledger [OF a])
next
  case (GridControlSet k x y d)
  note a = assms(5) [unfolded GridControlSet apply_human_payload.simps]
  show ?thesis by (rule sound_stepI [OF control_step [OF assms(1,2) a]]) (simp add: control_ledger [OF a])
next
  case (GridAnchorSet k x y)
  note a = assms(5) [unfolded GridAnchorSet apply_human_payload.simps]
  show ?thesis by (rule sound_stepI [OF anchor_step [OF assms(1,2) a]]) (simp add: anchor_ledger [OF a])
next
  case (BlockDamaged k m d)
  note a = assms(5) [unfolded BlockDamaged apply_human_payload.simps]
  from a have "apply_damage ph k m d n w = Inr w'"
    unfolding apply_block_damaged_def by (auto simp: result_elims split: if_splits)
  from sound_stepI [OF damaged_step [OF assms(1-3) a] damage_ledger [OF this]] show ?thesis .
qed (use assms(5) in simp_all)

section \<open>Quanta\<close>

definition occurrence_clock :: "production_schedule_occurrence \<Rightarrow> production_clock \<Rightarrow> production_clock" where
  "occurrence_clock occurrence clock =
     clock\<lparr>pcl_last_committed_quantum_sequence := occ_production_quantum_sequence occurrence,
           pcl_last_scheduled_for_unix_ms := occ_scheduled_for_unix_ms occurrence\<rparr>"

text \<open>The quantum of a valid occurrence is planned and applied without error.\<close>

lemma quantum_runs:
  assumes "world_ok w" and "balanced w" and "headroom w" and "validate_next_production_occurrence w occurrence = Inr ()"
  shows "\<exists>outcomes u w'. production_quantum_outcomes ph occurrence w = Inr outcomes
    \<and> length outcomes = card (bt_dom (wst_production_queues w))
    \<and> world_ok u \<and> balanced u \<and> quantum_frame w u \<and> (\<forall>m \<in> bt_dom (wst_production_queues w). machine_step ph w u m)
    \<and> w' = u\<lparr>wst_production_clock := occurrence_clock occurrence (wst_production_clock u)\<rparr>
    \<and> apply_production_quantum ph (wph_occurrence_event_id ph occurrence) (occ_scheduled_for_unix_ms occurrence)
        occurrence FIXED_STEP_HZ outcomes w = Inr w'"
proof -
  obtain machines where machines: "scheduled_machines w = Inr machines" "distinct (map snd machines)"
    "set (map snd machines) = bt_dom (wst_production_queues w)"
    using scheduled_machines_Inr [OF assms(1)] by blast
  obtain outcomes u where u: "plan_outcomes ph machines w = Inr outcomes" "apply_outcomes outcomes w = Inr u"
    "length outcomes = length machines" "world_ok u" "balanced u" "quantum_frame w u"
    "\<forall>m \<in> set (map snd machines). machine_step ph w u m"
    using plan_applies [OF assms(1-3) machines(2)] machines(3) by blast
  have "length machines = card (bt_dom (wst_production_queues w))"
    using distinct_card [OF machines(2)] machines(3) by simp
  moreover have plan: "production_quantum_outcomes ph occurrence w = Inr outcomes"
    using assms(4) machines(1) u(1) by (simp add: production_quantum_outcomes_def)
  moreover have "apply_production_quantum ph (wph_occurrence_event_id ph occurrence) (occ_scheduled_for_unix_ms occurrence)
        occurrence FIXED_STEP_HZ outcomes w
      = Inr (u\<lparr>wst_production_clock := occurrence_clock occurrence (wst_production_clock u)\<rparr>)"
    unfolding apply_production_quantum_def plan using u(2) by (simp add: occurrence_clock_def)
  moreover note u(3-6) u(7) [unfolded machines(3)]
  ultimately show ?thesis by (intro exI [of _ outcomes] exI [of _ u] exI conjI) (assumption | simp)+
qed

lemma quantum_step:
  assumes "world_ok w" and "balanced w" and "headroom w"
    and "apply_production_quantum ph event_id time occurrence ticks outcomes w = Inr w'"
  shows "sound_step w w'"
proof -
  from assms(4) have envelope: "ticks = FIXED_STEP_HZ" "event_id = wph_occurrence_event_id ph occurrence"
    "time = occ_scheduled_for_unix_ms occurrence" and "production_quantum_outcomes ph occurrence w = Inr outcomes"
    unfolding apply_production_quantum_def by (auto simp: result_elims split: if_splits)
  moreover from this have "validate_next_production_occurrence w occurrence = Inr ()"
    unfolding production_quantum_outcomes_def by (auto simp: result_elims)
  ultimately obtain u where u: "world_ok u" "balanced u" "quantum_frame w u"
    "w' = u\<lparr>wst_production_clock := occurrence_clock occurrence (wst_production_clock u)\<rparr>"
    using quantum_runs [OF assms(1-3), of occurrence ph] assms(4) by auto
  then have "sound_step w u" by (simp add: sound_step_def quantum_frame_def)
  moreover have "sound_step w w' = sound_step w u" unfolding u(4) by (rule sound_step_cong) simp_all
  ultimately show ?thesis by simp
qed

section \<open>Events\<close>

lemma payload_step:
  assumes "world_ok w" and "balanced w" and "headroom w" and "payload_in_range (wev_payload event)"
    and "apply_world_payload ph event w = Inr w'"
  shows "sound_step w w'"
proof (cases "\<exists>occurrence ticks outcomes. wev_payload event = ProductionQuantumCommitted occurrence ticks outcomes")
  case True
  with assms(5) quantum_step [OF assms(1-3)] show ?thesis by (auto simp: apply_world_payload_def)
next
  case False
  with assms(5) obtain p actor opid where
    "apply_human_payload ph p actor opid (wev_event_sequence event) (wev_payload event) w = Inr w'"
    unfolding apply_world_payload_def by (auto split: world_payload.splits option.splits)
  from human_step [OF assms(1-4) this] show ?thesis .
qed

lemma credit_actor_sound:
  assumes "world_ok w"
  shows "world_ok (credit_actor p payload w)" "wst_grids (credit_actor p payload w) = wst_grids w"
    "wst_inventories (credit_actor p payload w) = wst_inventories w"
    "wst_production_queues (credit_actor p payload w) = wst_production_queues w"
    "wst_ledger (credit_actor p payload w) = wst_ledger w"
proof -
  show "world_ok (credit_actor p payload w)"
  proof (cases "Option.bind p (bt_get (wst_players w))")
    case None
    with assms show ?thesis by (auto simp: credit_actor_def split: option.splits)
  next
    case (Some actor)
    then obtain q where "p = Some q" "bt_get (wst_players w) q = Some actor" by (auto simp: bind_eq_Some_conv)
    with world_ok_rewarded [OF assms this(2), of "actor\<lparr>ply_experience := x, ply_career := c\<rparr>" "wst_ledger w" for x c]
    show ?thesis by (simp add: credit_actor_def)
  qed
  show "wst_grids (credit_actor p payload w) = wst_grids w"
    "wst_inventories (credit_actor p payload w) = wst_inventories w"
    "wst_production_queues (credit_actor p payload w) = wst_production_queues w"
    "wst_ledger (credit_actor p payload w) = wst_ledger w"
    by (simp_all add: credit_actor_def split: option.splits)
qed

text \<open>The state of an event before the final check.\<close>

definition settled_event :: "world_event \<Rightarrow> world_state \<Rightarrow> world_state" where
  "settled_event event w = (credit_actor (wev_actor_player_id event) (wev_payload event) w)
     \<lparr>wst_event_sequence := wev_event_sequence event, wst_fencing_token := wev_authority_fencing_token event,
      wst_last_event_hash := wev_event_hash event\<rparr>"

lemma settled_sound:
  assumes "sound_step w u" and "record_event_operation h event (settled_event event u) = Inr v"
  shows "sound_step w v"
proof -
  have ok: "world_ok u" using assms(1) by (simp add: sound_step_def)
  note credit = credit_actor_sound [OF ok, of "wev_actor_player_id event" "wev_payload event"]
  from assms(2) have v: "wst_grids v = wst_grids (settled_event event u)" "wst_inventories v = wst_inventories (settled_event event u)"
    "wst_production_queues v = wst_production_queues (settled_event event u)"
    "wst_players v = wst_players (settled_event event u)" "wst_ledger v = wst_ledger (settled_event event u)"
    unfolding record_event_operation_def by (auto simp: result_elims Let_def split: option.splits prod.splits)
  have "sound_step w (credit_actor (wev_actor_player_id event) (wev_payload event) u)"
    using assms(1) credit live_cong [OF credit(3,4)] built_in_cong [OF credit(2)] by (simp add: sound_step_def balanced_def)
  then show ?thesis
    by (rule sound_step_cong [THEN iffD2, rotated -1]) (simp_all add: v settled_event_def)
qed

lemma apply_world_event_eq:
  "apply_world_event ph h event w =
     try_r (validate_event_header h event w) (\<lambda>_. try_r (validate_actor ph h event w) (\<lambda>_.
     try_r (validate_payload_envelope event w) (\<lambda>_. try_r (validate_actor_state event w) (\<lambda>_.
     try_r (apply_world_payload ph event w) (\<lambda>u.
     try_r (record_event_operation h event (settled_event event u)) (\<lambda>v.
     if \<not> cns_valid (conservation v) then Inl (ConservationViolation (wev_event_sequence event)) else Inr v))))))"
  unfolding apply_world_event_def settled_event_def Let_def by (rule refl)

lemma event_step:
  assumes "world_ok w" and "balanced w" and "headroom w" and "payload_in_range (wev_payload event)"
    and "apply_world_event ph h event w = Inr w'"
  shows "sound_step w w'"
proof -
  from assms(5) obtain u where "apply_world_payload ph event w = Inr u"
    "record_event_operation h event (settled_event event u) = Inr w'"
    unfolding apply_world_event_eq by (auto simp: result_elims split: if_splits)
  with payload_step [OF assms(1-4)] settled_sound show ?thesis by blast
qed

text \<open>The check of conservation never fails.\<close>

lemma no_violation:
  assumes "world_ok w" and "balanced w" and "headroom w" and "payload_in_range (wev_payload event)"
    and "apply_world_payload ph event w = Inr u" and "record_event_operation h event (settled_event event u) = Inr v"
  shows "cns_valid (conservation v)"
proof -
  have "sound_step w v" by (rule settled_sound [OF payload_step [OF assms(1-5)] assms(6)])
  with assms(3) balanced_passes show ?thesis by (simp add: sound_step_def headroom_def)
qed

text \<open>Histories of events.\<close>

lemma events_step:
  assumes "world_ok w" and "balanced w" and "entered (wst_ledger w) + 3 * length events < 2 ^ 64"
    and "\<forall>event \<in> set events. payload_in_range (wev_payload event)"
    and "fold_r (apply_world_event ph h) events w = Inr w'"
  shows "world_ok w' \<and> balanced w' \<and> entered (wst_ledger w') \<le> entered (wst_ledger w) + 3 * length events"
  using assms
proof (induction events arbitrary: w)
  case (Cons event events)
  then obtain u where u: "apply_world_event ph h event w = Inr u" "fold_r (apply_world_event ph h) events u = Inr w'"
    by (auto simp: result_elims)
  have "sound_step w u" using Cons.prems u(1) by (intro event_step) (simp_all add: headroom_def)
  with Cons.IH [of u] Cons.prems(3,4) u(2) show ?case by (auto simp: sound_step_def)
qed simp

end
