(* ===== verification/JobProgress.thy ===== *)
theory JobProgress
  imports WorldHistory
begin

text \<open>
  The head of a production queue under repeated quanta: as long as nothing else happens to the world, it
  advances by sixty ticks a second and completes at the end of its duration.
\<close>

section \<open>What a quantum leaves of the routes\<close>

lemma block_grid_cong: "wst_grids u = wst_grids w \<Longrightarrow> block_grid u m = block_grid w m"
  by (simp add: block_grid_def)

lemma cargo_block_cong:
  assumes "wst_grids u = wst_grids w" and "same_inventory_domains w u"
  shows "cargo_block_for_inventory u i = cargo_block_for_inventory w i"
proof -
  have "map_option inv_domain (bt_get (wst_inventories u) i) = map_option inv_domain (bt_get (wst_inventories w) i)"
    using assms(2) by (simp add: same_inventory_domains_def)
  then show ?thesis
    unfolding cargo_block_for_inventory_def block_grid_cong [OF assms(1)]
    by (cases "bt_get (wst_inventories u) i"; cases "bt_get (wst_inventories w) i") simp_all
qed

lemma route_cong:
  assumes "wst_grids u = wst_grids w" and "same_inventory_domains w u"
  shows "production_route_exists u m i = production_route_exists w m i"
  by (simp only: production_route_exists_def cargo_block_cong [OF assms] block_grid_cong [OF assms(1)])

section \<open>Running jobs\<close>

definition job_runs :: "world_physics \<Rightarrow> world_state \<Rightarrow> string \<Rightarrow> production_job \<Rightarrow> bool" where
  "job_runs ph w m job \<longleftrightarrow> (\<exists>g b. block_grid w m = Some (g, b) \<and> wph_power_online ph g)
     \<and> production_route_exists w m (job_source_inventory_id job) \<and> production_route_exists w m (job_destination_inventory_id job)"

lemma job_runs_cong:
  assumes "wst_grids u = wst_grids w" and "same_inventory_domains w u"
    and "job_source_inventory_id job' = job_source_inventory_id job"
    and "job_destination_inventory_id job' = job_destination_inventory_id job"
  shows "job_runs ph u m job' = job_runs ph w m job"
  by (simp only: job_runs_def route_cong [OF assms(1,2)] block_grid_cong [OF assms(1)] assms(3,4))

text \<open>A job after a number of its ticks, and a completed one, which waits with its outputs or has left.\<close>

definition job_at :: "production_job \<Rightarrow> nat \<Rightarrow> production_job" where
  "job_at job ticks = job\<lparr>job_progress_ticks := word_of_nat ticks\<rparr>"

definition job_completed :: "production_job \<Rightarrow> production_job list \<Rightarrow> production_job list \<Rightarrow> bool" where
  "job_completed job q q' \<longleftrightarrow> q' = q \<or> (\<exists>inputs outputs duration.
     production_recipe_quantities (job_recipe job) (job_batches job) = Some (inputs, outputs, duration)
     \<and> q' = job\<lparr>job_progress_ticks := job_duration_ticks job, job_reserved_inputs := no_contents,
                job_pending_outputs := outputs\<rparr> # q)"

lemma running_outcome:
  assumes "bt_get (wst_production_queues u) m = Some (job # q)" and "job_runs ph u m job"
    and "\<And>g b. block_grid u m = Some (g, b) \<Longrightarrow> blk_construction_complete b \<and> machine_supports_recipe (blk_kind b) (job_recipe job)"
    and "job_progress_ticks job < job_duration_ticks job"
    and "production_machine_outcome_after_one_second ph u m = Inr outcome"
  shows "if unat (job_progress_ticks job) + 60 < unat (job_duration_ticks job)
    then next_queue job q outcome = job_at job (unat (job_progress_ticks job) + 60) # q
    else job_completed job q (next_queue job q outcome)"
proof -
  let ?p = "job_progress_ticks job" and ?d = "job_duration_ticks job"
  let ?t = "min (saturating_add ?p FIXED_STEP_HZ) ?d"
  obtain g b where g: "block_grid u m = Some (g, b)" "wph_power_online ph g"
    "production_route_exists u m (job_source_inventory_id job)" "production_route_exists u m (job_destination_inventory_id job)"
    using assms(2) by (auto simp: job_runs_def)
  have neq: "?p \<noteq> ?d" using assms(4) by simp
  have head: "queue_head u m = Some job" using assms(1) by (simp add: queue_head_def)
  have sixty: "unat (saturating_add ?p FIXED_STEP_HZ) = min MAX64 (unat ?p + 60)"
    by (simp add: saturating_add_unat FIXED_STEP_HZ_def)
  have t: "?t = ?d \<longleftrightarrow> \<not> unat ?p + 60 < unat ?d"
    using u64_bound [of ?d] sixty by (auto simp: min_def word_le_nat_alt word_unat_eq_iff)
  show ?thesis
  proof (cases "?t = ?d")
    case False
    with t u64_bound [of ?d] sixty have "unat ?t = unat ?p + 60"
      by (auto simp: min_def word_le_nat_alt)
    then have "?t = word_of_nat (unat ?p + 60)" by (auto simp: word_unat_eq_iff simp flip: \<open>unat ?t = unat ?p + 60\<close>)
    with False assms(3) [OF g(1)] assms(5) neq g head t show ?thesis
      by (auto simp: production_machine_outcome_after_one_second_def Let_def next_queue_def job_at_def)
  next
    case True
    with assms(3) [OF g(1)] assms(4,5) g head t show ?thesis
      by (auto simp: production_machine_outcome_after_one_second_def Let_def result_elims find_inventory_Inr
          next_queue_def job_completed_def split: if_splits)
  qed
qed

section \<open>Quanta in a row\<close>

text \<open>The next quantum of the clock of a world whose clock has started, and a number of them.\<close>

definition next_quantum :: "world_physics \<Rightarrow> world_state \<Rightarrow> intent_error + world_state" where
  "next_quantum ph w =
     try_r (next_active_production_occurrence (Inl []) w) (\<lambda>occurrence.
     try_r (production_quantum_outcomes ph occurrence w) (\<lambda>outcomes.
     apply_production_quantum ph (wph_occurrence_event_id ph occurrence) (occ_scheduled_for_unix_ms occurrence)
       occurrence FIXED_STEP_HZ outcomes w))"

fun run_quanta :: "world_physics \<Rightarrow> nat \<Rightarrow> world_state \<Rightarrow> intent_error + world_state" where
  "run_quanta ph 0 w = Inr w"
| "run_quanta ph (Suc n) w = try_r (next_quantum ph w) (run_quanta ph n)"

definition clock_has_room :: "nat \<Rightarrow> world_state \<Rightarrow> bool" where
  "clock_has_room n w \<longleftrightarrow> pcl_last_scheduled_for_unix_ms (wst_production_clock w) \<noteq> 0
     \<and> unat (pcl_last_committed_quantum_sequence (wst_production_clock w)) + n < 2 ^ 64
     \<and> unat (pcl_last_scheduled_for_unix_ms (wst_production_clock w)) + 1000 * n < 2 ^ 64"

lemma next_occurrence:
  assumes "clock_has_room (Suc n) w"
  shows "\<exists>occurrence. next_active_production_occurrence (Inl []) w = Inr occurrence
    \<and> validate_next_production_occurrence w occurrence = Inr ()
    \<and> (\<forall>u. wst_production_clock u = wst_production_clock w \<longrightarrow>
         clock_has_room n (u\<lparr>wst_production_clock := occurrence_clock occurrence (wst_production_clock u)\<rparr>))"
proof -
  let ?seq = "pcl_last_committed_quantum_sequence (wst_production_clock w)"
    and ?time = "pcl_last_scheduled_for_unix_ms (wst_production_clock w)"
  have room: "?time \<noteq> 0" "unat ?seq + Suc n < 2 ^ 64" "unat ?time + 1000 * Suc n < 2 ^ 64"
    using assms by (auto simp: clock_has_room_def)
  then obtain s t where st: "checked_add ?seq 1 = Some s" "checked_add ?time 1000 = Some t"
    unfolding checked_add_def by fastforce
  then have unats: "unat s = unat ?seq + 1" "unat t = unat ?time + 1000"
    by (simp_all add: checked_add_Some_iff)
  then have "t \<noteq> 0" by auto
  then have "0 < t" by (simp add: word_neq_0_conv)
  then show ?thesis
    using st unats room
    by (simp add: next_active_production_occurrence_def validate_next_production_occurrence_def Let_def clock_has_room_def
        occurrence_clock_def \<open>t \<noteq> 0\<close>)
qed

text \<open>The worlds in which quanta run.\<close>

definition ready :: "nat \<Rightarrow> world_state \<Rightarrow> bool" where
  "ready n w \<longleftrightarrow> world_ok w \<and> balanced w \<and> headroom w \<and> clock_has_room n w"

lemma ready_mono: "ready n w \<Longrightarrow> k \<le> n \<Longrightarrow> ready k w"
  by (auto simp: ready_def clock_has_room_def)

lemma next_quantum_step:
  assumes "ready (Suc n) w"
  shows "\<exists>w'. next_quantum ph w = Inr w' \<and> ready n w' \<and> wst_grids w' = wst_grids w \<and> same_inventory_domains w w'
    \<and> (\<forall>m \<in> bt_dom (wst_production_queues w). machine_step ph w w' m)"
proof -
  have ok: "world_ok w" "balanced w" "headroom w" and "clock_has_room (Suc n) w" using assms by (simp_all add: ready_def)
  from next_occurrence [OF this(4)] obtain occurrence where
    occ: "next_active_production_occurrence (Inl []) w = Inr occurrence" "validate_next_production_occurrence w occurrence = Inr ()"
    and room: "\<forall>u. wst_production_clock u = wst_production_clock w \<longrightarrow>
      clock_has_room n (u\<lparr>wst_production_clock := occurrence_clock occurrence (wst_production_clock u)\<rparr>)" by blast
  from quantum_runs [OF ok occ(2)] obtain outcomes u w' where
    plan: "production_quantum_outcomes ph occurrence w = Inr outcomes"
    and u: "world_ok u" "balanced u" "quantum_frame w u" "\<forall>m \<in> bt_dom (wst_production_queues w). machine_step ph w u m"
    and w': "w' = u\<lparr>wst_production_clock := occurrence_clock occurrence (wst_production_clock u)\<rparr>"
    and run: "apply_production_quantum ph (wph_occurrence_event_id ph occurrence) (occ_scheduled_for_unix_ms occurrence)
        occurrence FIXED_STEP_HZ outcomes w = Inr w'" by blast
  have fields: "wst_grids w' = wst_grids u" "wst_inventories w' = wst_inventories u"
    "wst_production_queues w' = wst_production_queues u" "wst_players w' = wst_players u" "wst_ledger w' = wst_ledger u"
    by (simp_all add: w')
  have "sound_step w w'"
    using u(1-3) sound_step_cong [OF fields, of w] by (simp add: sound_step_def quantum_frame_def)
  moreover have "headroom w'" using quantum_frame_fields(7) [OF u(3)] ok(3) fields(5) by (simp add: headroom_def)
  moreover have "clock_has_room n w'" using room quantum_frame_fields(2) [OF u(3)] w' by blast
  ultimately have "ready n w'" by (simp add: ready_def sound_step_def)
  moreover have "next_quantum ph w = Inr w'" by (simp add: next_quantum_def occ plan run)
  ultimately show ?thesis
    using u(4) quantum_frame_fields(1,8) [OF u(3)] fields by (auto simp: machine_step_def same_inventory_domains_def)
qed

text \<open>One quantum of a running head.\<close>

lemma running_step:
  assumes "ready (Suc n) w" and q: "bt_get (wst_production_queues w) m = Some (job # q)" and "job_runs ph w m job"
    and "job_progress_ticks job < job_duration_ticks job"
  shows "\<exists>w'. next_quantum ph w = Inr w' \<and> ready n w' \<and> wst_grids w' = wst_grids w \<and> same_inventory_domains w w'
    \<and> (if unat (job_progress_ticks job) + 60 < unat (job_duration_ticks job)
        then bt_get (wst_production_queues w') m = Some (job_at job (unat (job_progress_ticks job) + 60) # q)
        else job_completed job q (queue_of w' m))"
proof -
  obtain w' where w': "next_quantum ph w = Inr w'" "ready n w'" "wst_grids w' = wst_grids w" "same_inventory_domains w w'"
    "\<forall>m \<in> bt_dom (wst_production_queues w). machine_step ph w w' m"
    using next_quantum_step [OF assms(1)] by blast
  have "m \<in> bt_dom (wst_production_queues w)" using q by (auto simp: bt_dom_iff)
  with w'(5) q obtain u outcome where u: "quantum_frame w u" "bt_get (wst_production_queues u) m = Some (job # q)"
    "production_machine_outcome_after_one_second ph u m = Inr outcome"
    "bt_get (wst_production_queues w') m = (if next_queue job q outcome = [] then None else Some (next_queue job q outcome))"
    unfolding machine_step_def by fastforce
  have ok: "world_ok w" using assms(1) by (simp add: ready_def)
  have frame: "wst_grids u = wst_grids w" "same_inventory_domains w u" using quantum_frame_fields(1,8) [OF u(1)] by simp_all
  have "blk_construction_complete b \<and> machine_supports_recipe (blk_kind b) (job_recipe job)"
    if "block_grid u m = Some (g, b)" for g b
    using that queue_machine [OF ok q] block_grid_cong [OF frame(1)] by auto
  from running_outcome [OF u(2) _ this assms(4) u(3)] job_runs_cong [OF frame refl refl, of ph m job] assms(3)
  have "if unat (job_progress_ticks job) + 60 < unat (job_duration_ticks job)
    then next_queue job q outcome = job_at job (unat (job_progress_ticks job) + 60) # q
    else job_completed job q (next_queue job q outcome)" by simp
  moreover have "queue_of w' m = next_queue job q outcome" using u(4) by (simp add: queue_of_def)
  ultimately have "if unat (job_progress_ticks job) + 60 < unat (job_duration_ticks job)
      then bt_get (wst_production_queues w') m = Some (job_at job (unat (job_progress_ticks job) + 60) # q)
      else job_completed job q (queue_of w' m)"
    using u(4) by (auto split: if_splits)
  with w'(1-4) show ?thesis by blast
qed

lemma job_at_fields [simp]:
  "job_duration_ticks (job_at job t) = job_duration_ticks job" "job_at (job_at job s) t = job_at job t"
  "job_source_inventory_id (job_at job t) = job_source_inventory_id job"
  "job_destination_inventory_id (job_at job t) = job_destination_inventory_id job"
  "job_completed (job_at job t) q q' = job_completed job q q'" "job_progress_ticks (job_at job t) = word_of_nat t"
  by (simp_all add: job_at_def job_completed_def)

lemma job_at_ticks: "t < unat (job_duration_ticks job) \<Longrightarrow> unat (job_progress_ticks (job_at job t)) = t"
  using u64_bound [of "job_duration_ticks job"] by (simp add: unsigned_of_nat take_bit_nat_eq_self)

text \<open>After \<open>k\<close> quanta short of its duration the head has advanced by \<open>60 * k\<close> ticks.\<close>

lemma runs_on:
  assumes "ready (k + n) w" and "bt_get (wst_production_queues w) m = Some (job # q)" and "job_runs ph w m job"
    and "unat (job_progress_ticks job) + 60 * k < unat (job_duration_ticks job)"
  shows "\<exists>w'. run_quanta ph k w = Inr w' \<and> ready n w' \<and> job_runs ph w' m job
    \<and> bt_get (wst_production_queues w') m = Some (job_at job (unat (job_progress_ticks job) + 60 * k) # q)"
  using assms
proof (induction k arbitrary: w job)
  case 0
  then show ?case by (simp add: job_at_def)
next
  case (Suc k)
  let ?p = "unat (job_progress_ticks job)"
  have less: "job_progress_ticks job < job_duration_ticks job" "?p + 60 < unat (job_duration_ticks job)"
    using Suc.prems(4) by (simp_all add: word_less_nat_alt)
  have "ready (Suc (k + n)) w" using Suc.prems(1) by simp
  from running_step [OF this Suc.prems(2,3) less(1)] less(2) obtain u where
    u: "next_quantum ph w = Inr u" "ready (k + n) u" "wst_grids u = wst_grids w" "same_inventory_domains w u"
      "bt_get (wst_production_queues u) m = Some (job_at job (?p + 60) # q)" by auto
  have p: "unat (job_progress_ticks (job_at job (?p + 60))) = ?p + 60" by (rule job_at_ticks [OF less(2)])
  have "job_runs ph u m (job_at job (?p + 60))" using job_runs_cong [OF u(3,4)] Suc.prems(3) by simp
  moreover have "unat (job_progress_ticks (job_at job (?p + 60))) + 60 * k < unat (job_duration_ticks (job_at job (?p + 60)))"
    unfolding p using Suc.prems(4) by simp
  ultimately obtain w' where "run_quanta ph k u = Inr w'" "ready n w'" "job_runs ph w' m (job_at job (?p + 60))"
    "bt_get (wst_production_queues w') m = Some (job_at (job_at job (?p + 60)) (?p + 60 + 60 * k) # q)"
    using Suc.IH [OF u(2,5)] unfolding p by blast
  moreover from this have "job_runs ph w' m job"
    using job_runs_cong [of w' w' "job_at job (?p + 60)" job ph m] by (simp add: same_inventory_domains_def)
  ultimately show ?case using u(1) by (simp add: add.assoc)
qed

lemma run_quanta_snoc: "run_quanta ph k w = Inr u \<Longrightarrow> run_quanta ph (Suc k) w = next_quantum ph u"
proof (induction k arbitrary: w)
  case 0
  then show ?case by (cases "next_quantum ph w") simp_all
next
  case (Suc k)
  from Suc.prems obtain v where v: "next_quantum ph w = Inr v" "run_quanta ph k v = Inr u" by (auto simp: try_r_Inr_iff)
  have "run_quanta ph (Suc (Suc k)) w = run_quanta ph (Suc k) v" using v(1) by simp
  then show ?case using Suc.IH [OF v(2)] by simp
qed

end
