(* ===== verification/IntentAcceptance.thy ===== *)
theory IntentAcceptance
  imports WorldHistory
begin

text \<open>
  The two evaluations of an intent agree: the payload that is prepared from a client's request is the
  one the application of the event accepts, and it answers the request.
\<close>

section \<open>Identities\<close>

text \<open>
  The identities the next event would give to a job, a block, the inventory of a block, the inventory of
  a lost queue and a split grid are free.
\<close>

definition identities_fresh :: "world_state \<Rightarrow> bool" where
  "identities_fresh w \<longleftrightarrow> (let n = wst_event_sequence w + 1 in
     (\<forall>m q job. bt_get (wst_production_queues w) m = Some q \<and> job \<in> set q \<longrightarrow> job_job_id job \<noteq> production_job_id n)
     \<and> built_block_id n \<notin> block_ids (wst_grids w)
     \<and> bt_get (wst_inventories w) (''inventory-'' @ built_block_id n) = None
     \<and> (\<forall>m. bt_get (wst_inventories w) (''inventory-production-drop-'' @ show_nat (unat n) @ ''-'' @ m) = None)
     \<and> (\<forall>k i. bt_get (wst_grids w) (k @ ''-split-'' @ show_nat (unat n) @ ''-'' @ show_nat i) = None))"

section \<open>Checks shared by both evaluations\<close>

lemma ensure_voxel_any: "ensure_voxel_tool_target ph w a c x = Inr u \<Longrightarrow> ensure_voxel_tool_target ph w a c y = Inr ()"
  by (auto simp: ensure_voxel_tool_target_def split: option.splits if_splits)

lemma ensure_block_any: "ensure_block_tool_target ph w a k m x = Inr u \<Longrightarrow> ensure_block_tool_target ph w a k m y = Inr ()"
  by (auto simp: ensure_block_tool_target_def split: option.splits if_splits)

lemma ensure_build_any: "ensure_build_tool_target ph w a k c x = Inr u \<Longrightarrow> ensure_build_tool_target ph w a k c y = Inr ()"
  by (auto simp: ensure_build_tool_target_def split: option.splits if_splits tool_target.splits prod.splits)

lemma ensure_owns_unit: "ensure_actor_owns_grid w p k = Inr u \<longleftrightarrow> (\<exists>g. bt_get (wst_grids w) k = Some g \<and> grd_owner_player_id g = p)"
  by (auto simp: ensure_actor_owns_grid_def find_grid_def result_elims split: if_splits)

lemma set_contents_ok: "bt_get (wst_inventories w) i = Some v \<Longrightarrow> set_inventory_contents i c w = Inr (refill i v c w)"
  by (simp add: set_inventory_contents_def find_inventory_def refill_def)

lemma owns_inventory_unit: "ensure_actor_owns_inventory w p i = Inr u \<longleftrightarrow> ensure_actor_owns_inventory w p i = Inr ()"
  by simp

text \<open>A player owns the inventory on him.\<close>

lemma owns_own_inventory:
  assumes "world_ok w" and "bt_get (wst_players w) p = Some actor"
  shows "ensure_actor_owns_inventory w p (ply_inventory_id actor) = Inr ()"
proof -
  from assms obtain v where "bt_get (wst_inventories w) (ply_inventory_id actor) = Some v" "inv_domain v = DomainPlayer p"
    unfolding world_ok_def players_linked_def by blast
  with assms(2) show ?thesis
    by (simp add: ensure_actor_owns_inventory_def find_inventory_def inventory_owner_player_id_def map_err_def)
qed

section \<open>The payloads\<close>

lemma mine_accepted:
  assumes "prepare_mine_voxel ph actor c w = Inr payload"
  shows "\<exists>w'. apply_human_payload ph p actor opid n payload w = Inr w'"
proof -
  from assms obtain mat v where m: "voxel_material_at (wst_voxels w) c = Some mat"
    "ensure_voxel_tool_target ph w actor c ''voxel_not_targeted'' = Inr ()"
    and v: "bt_get (wst_inventories w) (ply_inventory_id actor) = Some v" "can_add v ResOre (content_voxel_ore_yield mat)"
    "\<not> voxel_supports_anchor ph w c"
    and payload: "payload = VoxelMined c mat (content_voxel_ore_yield mat) (ply_inventory_id actor)"
    unfolding prepare_mine_voxel_def by (auto simp: result_elims find_inventory_Inr split: if_splits)
  from ensure_voxel_any [OF m(2), of "''replay_mining_target_invalid''"] m(1) v show ?thesis
    by (simp add: payload apply_voxel_mined_def find_inventory_def set_inventory_contents_def Let_def)
qed

lemma weld_accepted:
  assumes "prepare_weld_block ph p actor k m w = Inr payload"
  shows "\<exists>w'. apply_human_payload ph p actor opid n payload w = Inr w'"
proof -
  from assms obtain g b where g: "bt_get (wst_grids w) k = Some g" "grd_owner_player_id g = p" "bt_get (grd_blocks g) m = Some b"
    "ensure_block_tool_target ph w actor k m ''block_not_targeted'' = Inr ()" "\<not> blk_max_health b \<le> blk_health b"
    and payload: "payload = BlockWelded k m (blk_health b) (welded_health (blk_health b) (blk_max_health b)) (blk_max_health b)
       (\<not> blk_construction_complete b \<and> welded_health (blk_health b) (blk_max_health b) = blk_max_health b)"
    unfolding prepare_weld_block_def by (auto simp: result_elims ensure_owns_unit find_grid_Inr Let_def split: if_splits)
  from ensure_block_any [OF g(4), of "''replay_weld_target_invalid''"] g(1-3,5) show ?thesis
    by (simp add: payload apply_block_welded_def find_grid_def ensure_actor_owns_grid_def)
qed

lemma control_accepted:
  assumes "prepare_set_grid_control ph p k x y d w = Inr payload"
  shows "\<exists>w'. apply_human_payload ph p actor opid n payload w = Inr w'"
  using assms unfolding prepare_set_grid_control_def
  by (auto simp: result_elims ensure_owns_unit find_grid_Inr apply_grid_control_set_def find_grid_def
      ensure_actor_owns_grid_def split: if_splits)

lemma anchor_accepted:
  assumes "prepare_toggle_grid_anchor ph p k w = Inr payload"
  shows "\<exists>w'. apply_human_payload ph p actor opid n payload w = Inr w'"
  using assms unfolding prepare_toggle_grid_anchor_def
  by (auto simp: result_elims ensure_owns_unit find_grid_Inr apply_grid_anchor_set_def find_grid_def
      ensure_actor_owns_grid_def Let_def split: if_splits)

lemma bt_sum_two:
  assumes "bt_get m j = Some u" and "bt_get m k = Some v" and "j \<noteq> k"
  shows "f u + f v \<le> bt_sum f m"
  using bt_sum_remove [OF assms(1), of f] bt_sum_ge [of "bt_remove j m" k v f] assms(2,3) by simp

lemma transfer_accepted:
  assumes "balanced w" and "headroom w" and "prepare_transfer_inventory p i j r q w = Inr payload"
  shows "\<exists>w'. apply_human_payload ph p actor opid n payload w = Inr w'"
proof -
  from assms(3) obtain u v where ij: "i \<noteq> j" "q \<noteq> 0"
    and checks: "ensure_actor_owns_inventory w p i = Inr ()" "ensure_actor_owns_inventory w p j = Inr ()"
      "ensure_inventory_functional w i = Inr ()" "ensure_inventory_functional w j = Inr ()"
    and u: "bt_get (wst_inventories w) i = Some u" "\<not> contents_amount (inv_contents u) r < q"
    and v: "bt_get (wst_inventories w) j = Some v" "can_add v r q" and payload: "payload = InventoryTransferred i j r q"
    unfolding prepare_transfer_inventory_def by (auto simp: result_elims find_inventory_Inr split: if_splits)
  have "amount_of r (inv_contents u) + amount_of r (inv_contents v) \<le> live r w"
    using bt_sum_two [OF u(1) v(1) ij(1), of "\<lambda>v. amount_of r (inv_contents v)"] by (simp add: live_def stored_def)
  moreover have "live r w < 2 ^ 64" using live_le [OF assms(1), of r] assms(2) by (simp add: headroom_def)
  moreover have "unat q \<le> amount_of r (inv_contents u)" using u(2) by (simp add: amount_of_def word_le_nat_alt not_less)
  ultimately have "unat (contents_amount (inv_contents v) r) + unat q < 2 ^ 64" by (simp add: amount_of_def)
  then obtain a where "checked_add (contents_amount (inv_contents v) r) q = Some a" by (auto simp: checked_add_def)
  with ij checks u v show ?thesis
    by (simp add: payload apply_inventory_transferred_def find_inventory_def set_inventory_contents_def Let_def)
qed

lemma subtract_contents_ok:
  assumes "ctn_ore d \<le> ctn_ore c" and "ctn_refined_material d \<le> ctn_refined_material c" and "ctn_components d \<le> ctn_components c"
  shows "\<exists>e. subtract_contents c d = Some e"
  using assms by (simp add: subtract_contents_def checked_sub_def)

lemma endpoint_accepted:
  "ensure_queue_endpoint w p m i = Inr () \<Longrightarrow> ensure_production_endpoint w p m i = Inr ()"
  by (auto simp: ensure_queue_endpoint_def ensure_production_endpoint_def result_elims split: if_splits)

lemma queue_accepted:
  assumes "world_ok w" and "identities_fresh w" and "prepare_queue_production p opid m recipe batches i j w = Inr payload"
  shows "\<exists>w'. apply_human_payload ph p actor opid (wst_event_sequence w + 1) payload w = Inr w'"
proof -
  let ?n = "wst_event_sequence w + 1"
  from assms(3) obtain g b inputs outputs duration v where g: "block_grid w m = Some (g, b)"
      "ensure_actor_owns_grid w p (grd_grid_id g) = Inr ()" "blk_construction_complete b" "machine_supports_recipe (blk_kind b) recipe"
      "\<not> QUEUE_LIMIT_PER_MACHINE \<le> queue_length w m"
    and ends: "ensure_queue_endpoint w p m i = Inr ()" "ensure_queue_endpoint w p m j = Inr ()"
    and recipe: "production_recipe_quantities recipe batches = Some (inputs, outputs, duration)"
    and v: "bt_get (wst_inventories w) i = Some v" "ctn_ore inputs \<le> ctn_ore (inv_contents v)"
      "ctn_refined_material inputs \<le> ctn_refined_material (inv_contents v)" "ctn_components inputs \<le> ctn_components (inv_contents v)"
    and payload: "payload = ProductionQueued \<lparr>job_job_id = production_job_id ?n, job_operation_id = opid,
        job_owner_player_id = p, job_machine_block_id = m, job_recipe = recipe,
        job_content_manifest_version = wst_content_manifest_version w, job_batches = batches,
        job_source_inventory_id = i, job_destination_inventory_id = j,
        job_progress_ticks = 0, job_duration_ticks = duration, job_reserved_inputs = inputs,
        job_pending_outputs = no_contents, job_queued_event_sequence = ?n\<rparr>"
    unfolding prepare_queue_production_def
    by (auto simp: result_elims find_inventory_Inr not_less split: if_splits prod.splits)
  have ok: "grids_ok (wst_grids w)" using assms(1) by (simp add: world_ok_def)
  have owner: "grd_owner_player_id g = p" using g(2) block_grid_iff [OF ok, of m g b] g(1) by (auto simp: ensure_owns_unit)
  have "\<not> list_ex (\<lambda>prior. job_job_id prior = production_job_id ?n) (concat (bt_values (wst_production_queues w)))"
    using assms(2) by (auto simp: identities_fresh_def Let_def list_ex_iff bt_in_values_iff)
  moreover obtain d where "subtract_contents (inv_contents v) inputs = Some d" using subtract_contents_ok [OF v(2-4)] by blast
  ultimately show ?thesis
    using g(1,3-5) owner recipe v(1) endpoint_accepted [OF ends(1)] endpoint_accepted [OF ends(2)]
    by (simp add: payload apply_production_queued_def find_inventory_def set_inventory_contents_def)
qed

lemma build_accepted:
  assumes "world_ok w" and "identities_fresh w" and "bt_get (wst_players w) p = Some actor"
    and "prepare_build_block ph p actor k c kind orientation w = Inr payload"
  shows "\<exists>w'. apply_human_payload ph p actor opid (wst_event_sequence w + 1) payload w = Inr w'"
proof -
  let ?n = "wst_event_sequence w + 1"
  let ?b = "new_frame (built_block_id ?n) c kind orientation"
  from assms(4) obtain g v where g: "bt_get (wst_grids w) k = Some g" "grd_owner_player_id g = p" "\<not> 3 < orientation"
      "\<not> build_location_invalid g c" "ensure_build_tool_target ph w actor k c ''build_face_not_targeted'' = Inr ()"
      "\<not> player_intersects_grid_coordinate ph w g c"
    and v: "bt_get (wst_inventories w) (ply_inventory_id actor) = Some v"
      "\<not> ctn_components (inv_contents v) < bdf_component_cost (content_block kind)"
    and payload: "payload = BlockBuilt k (ply_inventory_id actor) ?b"
    unfolding prepare_build_block_def
    by (auto simp: result_elims find_inventory_Inr find_grid_Inr ensure_owns_unit build_location_invalid_def split: if_splits)
  have b: "blk_orientation ?b = orientation" "blk_coordinate ?b = c" "blk_kind ?b = kind" "blk_block_id ?b = built_block_id ?n"
    "blk_health ?b = div_ceil_4 (blk_max_health ?b)" "\<not> blk_construction_complete ?b"
    "blk_component_cost ?b = bdf_component_cost (content_block kind)"
    "blk_inventory_id ?b = built_inventory_id kind (built_block_id ?n)"
    by (simp_all add: new_frame_def new_block_def Let_def blk_max_health_def)
  have fresh: "\<not> list_ex (\<lambda>g. bt_contains (grd_blocks g) (built_block_id ?n)) (bt_values (wst_grids w))"
    "\<not> bt_contains (wst_inventories w) (''inventory-'' @ built_block_id ?n)"
    using assms(2) by (auto simp: identities_fresh_def Let_def block_ids_iff list_ex_iff bt_contains_def bt_dom_def)
  note owns = owns_own_inventory [OF assms(1,3)]
    and target = ensure_build_any [OF g(5), of "''replay_construction_target_invalid''"]
  show ?thesis
    unfolding payload apply_human_payload.simps apply_block_built_def b
    using g(1-4,6) v fresh owns target b(5,6)
    by (simp add: find_grid_def find_inventory_def ensure_actor_owns_grid_def set_inventory_contents_def built_inventory_id_def Let_def)
qed

section \<open>Damage\<close>

lemma sum_escrow_ok:
  assumes "\<And>r. queue_total r q < 2 ^ 64"
  shows "\<exists>c. sum_escrow q = Inr c"
proof -
  let ?add = "\<lambda>job c. try_r (ok_or (add_contents c (job_reserved_inputs job)) (Rejected ''production_output_overflow'')) (\<lambda>c.
      ok_or (add_contents c (job_pending_outputs job)) (Rejected ''production_output_overflow''))"
  have add: "\<exists>e. add_contents c d = Some e" if "\<And>r. amount_of r c + amount_of r d < 2 ^ 64" for c d
    using that [of ResOre] that [of ResRefinedMaterial] that [of ResComponent]
    by (simp add: amount_of_def add_contents_def checked_add_def)
  have "\<exists>d. fold_r ?add q c = Inr d" if "\<And>r. amount_of r c + queue_total r q < 2 ^ 64" for c
    using that
  proof (induction q arbitrary: c)
    case (Cons job q)
    have total: "amount_of r c + (amount_of r (job_reserved_inputs job) + amount_of r (job_pending_outputs job))
        + queue_total r q < 2 ^ 64" for r
      using Cons.prems [of r] by (simp add: queue_total_def job_total_def)
    have "amount_of r c + amount_of r (job_reserved_inputs job) < 2 ^ 64" for r using total [of r] by linarith
    from add [OF this] obtain e where e: "add_contents c (job_reserved_inputs job) = Some e" by blast
    have "amount_of r e + amount_of r (job_pending_outputs job) < 2 ^ 64" for r
      using total [of r] add_contents_amount [OF e, of r] by linarith
    from add [OF this] obtain f where f: "add_contents e (job_pending_outputs job) = Some f" by blast
    have "amount_of r f + queue_total r q < 2 ^ 64" for r
      using total [of r] add_contents_amount [OF e, of r] add_contents_amount [OF f, of r] by linarith
    with Cons.IH [of f] e f show ?case by simp
  qed simp
  from this [of no_contents] assms show ?thesis by (simp add: sum_escrow_def)
qed

lemma drop_production_ok:
  assumes "balanced w" and "headroom w" and "wst_production_queues w1 = wst_production_queues w"
    and "bt_get (wst_inventories w1) (''inventory-production-drop-'' @ show_nat (unat e) @ ''-'' @ m) = None"
  shows "\<exists>w'. drop_production p m e w1 = Inr w'"
proof (cases "bt_get (wst_production_queues w) m")
  case None
  with assms(3) show ?thesis by (simp add: drop_production_def)
next
  case (Some q)
  have "queue_total r q < 2 ^ 64" for r
    using bt_sum_ge [OF Some, of "queue_total r"] live_le [OF assms(1), of r] assms(2)
    by (simp add: headroom_def live_def escrowed_def)
  from sum_escrow_ok [OF this] obtain c where "sum_escrow q = Inr c" by blast
  moreover have "\<not> bt_contains (wst_inventories w1) (''inventory-production-drop-'' @ show_nat (unat e) @ ''-'' @ m)"
    using assms(4) by (simp only: bt_contains_def) simp
  ultimately show ?thesis using Some assms(3) unfolding drop_production_def Let_def by simp
qed

lemma split_ok:
  assumes "bt_get (wst_grids w) k = Some g" and "grd_grid_id g = k"
    and "\<And>i. bt_get (wst_grids w) (k @ ''-split-'' @ show_nat (unat e) @ ''-'' @ show_nat i) = None"
  shows "\<exists>w'. split_disconnected_grid ph k e w = Inr w'"
proof -
  have "\<not> list_ex (\<lambda>i. i \<noteq> p \<and> bt_contains (wst_grids w) (split_grid_id g e p i)) xs" for p xs
    using assms(2,3) by (auto simp: list_ex_iff split_grid_id_def bt_contains_def bt_dom_def)
  with assms(1) show ?thesis unfolding split_disconnected_grid_def Let_def by simp
qed

lemma fresh_drop: "identities_fresh w \<Longrightarrow>
    bt_get (wst_inventories w) (''inventory-production-drop-'' @ show_nat (unat (wst_event_sequence w + 1)) @ ''-'' @ m) = None"
  unfolding identities_fresh_def Let_def by blast

lemma fresh_split: "identities_fresh w \<Longrightarrow>
    bt_get (wst_grids w) (k @ ''-split-'' @ show_nat (unat (wst_event_sequence w + 1)) @ ''-'' @ show_nat i) = None"
  unfolding identities_fresh_def Let_def by blast

lemma drop_cargo_missing: "bt_get (wst_inventories w) i = None \<Longrightarrow> bt_get (wst_inventories (drop_cargo p b w)) i = None"
  by (auto simp: drop_cargo_def split: option.splits)

lemma destruction_ok:
  assumes "world_ok w" and "balanced w" and "headroom w" and "identities_fresh w" and "bt_get (wst_grids w) k = Some g"
    and w1: "wst_grids w1 = bt_insert k (g\<lparr>grd_blocks := B\<rparr>) (wst_grids w)" "wst_inventories w1 = wst_inventories w"
      "wst_production_queues w1 = wst_production_queues w"
  shows "\<exists>w'. try_r (drop_production p m (wst_event_sequence w + 1) (drop_cargo p b w1))
    (split_disconnected_grid ph k (wst_event_sequence w + 1)) = Inr w'"
proof -
  let ?n = "wst_event_sequence w + 1"
  have ok: "grids_ok (wst_grids w)" "inventories_ok (wst_inventories w)" using assms(1) by (simp_all add: world_ok_def)
  have "bt_get (wst_inventories (drop_cargo p b w1)) (''inventory-production-drop-'' @ show_nat (unat ?n) @ ''-'' @ m) = None"
    by (rule drop_cargo_missing) (simp only: w1(2) fresh_drop [OF assms(4)])
  from drop_production_ok [OF assms(2,3) _ this] obtain w2 where w2: "drop_production p m ?n (drop_cargo p b w1) = Inr w2"
    unfolding drop_cargo_fields(2) w1(3) by blast
  have "inventories_ok (wst_inventories (drop_cargo p b w1))"
    by (rule drop_cargo_inventories(1)) (simp add: w1(2) ok(2))
  from drop_production_Inr [OF w2 this] have grids: "wst_grids w2 = bt_insert k (g\<lparr>grd_blocks := B\<rparr>) (wst_grids w)"
    by (simp add: w1(1))
  have "bt_get (wst_grids w2) k = Some (g\<lparr>grd_blocks := B\<rparr>)" by (simp add: grids)
  moreover have "grd_grid_id (g\<lparr>grd_blocks := B\<rparr>) = k" using grids_okD(1) [OF ok(1) assms(5)] by simp
  moreover have "bt_get (wst_grids w2) (k @ ''-split-'' @ show_nat (unat ?n) @ ''-'' @ show_nat i) = None" for i
    using fresh_split [OF assms(4), of k i] by (simp add: grids)
  ultimately obtain w' where "split_disconnected_grid ph k ?n w2 = Inr w'" using split_ok by blast
  with w2 show ?thesis by simp
qed

lemma damage_accepted:
  assumes "world_ok w" and "balanced w" and "headroom w" and "identities_fresh w"
    and "prepare_damage_block ph actor k m w = Inr payload"
  shows "\<exists>w'. apply_human_payload ph p actor opid (wst_event_sequence w + 1) payload w = Inr w'"
proof -
  let ?n = "wst_event_sequence w + 1"
  from assms(5) obtain g b where g: "bt_get (wst_grids w) k = Some g" and b: "bt_get (grd_blocks g) m = Some b"
    and target: "ensure_block_tool_target ph w actor k m ''block_not_targeted'' = Inr ()"
    and payload: "payload = BlockDamaged k m HAND_TOOL_DAMAGE"
    unfolding prepare_damage_block_def by (auto simp: result_elims find_grid_Inr)
  have "\<exists>w'. apply_damage ph k m HAND_TOOL_DAMAGE ?n w = Inr w'"
  proof (cases "HAND_TOOL_DAMAGE < blk_health b")
    case True
    then show ?thesis unfolding apply_damage_placed [OF g b] by simp
  next
    case False
    show ?thesis
      unfolding apply_damage_placed [OF g b] if_not_P [OF False]
      by (rule destruction_ok [OF assms(1-4) g]) simp_all
  qed
  with ensure_block_any [OF target, of "''replay_damage_target_invalid''"] g b show ?thesis
    by (simp add: payload apply_block_damaged_def find_grid_def)
qed

section \<open>Requests and events\<close>

lemma payload_accepted:
  assumes "world_ok w" and "balanced w" and "headroom w" and "identities_fresh w" and "bt_get (wst_players w) p = Some actor"
    and "prepare_payload ph p actor opid request w = Inr payload"
  shows "\<exists>w'. apply_human_payload ph p actor opid (wst_event_sequence w + 1) payload w = Inr w'"
proof (cases request)
  case (MineVoxel c)
  from assms(6) [unfolded this prepare_payload.simps] show ?thesis by (rule mine_accepted)
next
  case (QueueProduction m recipe batches i j)
  from assms(6) [unfolded this prepare_payload.simps] show ?thesis by (rule queue_accepted [OF assms(1,4)])
next
  case (TransferInventory i j r q)
  from assms(6) [unfolded this prepare_payload.simps] show ?thesis by (rule transfer_accepted [OF assms(2,3)])
next
  case (BuildBlock k c kind orientation)
  from assms(6) [unfolded this prepare_payload.simps] show ?thesis by (rule build_accepted [OF assms(1,4,5)])
next
  case (WeldBlock k m)
  from assms(6) [unfolded this prepare_payload.simps] show ?thesis by (rule weld_accepted)
next
  case (SetGridControl k x y d)
  from assms(6) [unfolded this prepare_payload.simps] show ?thesis by (rule control_accepted)
next
  case (ToggleGridAnchor k)
  from assms(6) [unfolded this prepare_payload.simps] show ?thesis by (rule anchor_accepted)
next
  case (DamageBlock k m)
  from assms(6) [unfolded this prepare_payload.simps] show ?thesis by (rule damage_accepted [OF assms(1-4)])
qed (use assms(6) in simp_all)

lemma request_answered:
  assumes "prepare_payload ph p actor opid request w = Inr payload"
  shows "request_of_payload payload = Inr request"
proof (cases request)
  case (MineVoxel c)
  with assms show ?thesis by (auto simp: prepare_mine_voxel_def result_elims split: if_splits)
next
  case (QueueProduction m recipe batches i j)
  with assms show ?thesis by (auto simp: prepare_queue_production_def result_elims split: if_splits prod.splits)
next
  case (TransferInventory i j r q)
  with assms show ?thesis by (auto simp: prepare_transfer_inventory_def result_elims split: if_splits)
next
  case (BuildBlock k c kind orientation)
  with assms show ?thesis
    by (auto simp: prepare_build_block_def result_elims new_frame_def new_block_def Let_def split: if_splits)
next
  case (WeldBlock k m)
  with assms show ?thesis by (auto simp: prepare_weld_block_def result_elims Let_def split: if_splits)
next
  case (SetGridControl k x y d)
  with assms show ?thesis by (auto simp: prepare_set_grid_control_def result_elims split: if_splits)
next
  case (ToggleGridAnchor k)
  with assms show ?thesis by (auto simp: prepare_toggle_grid_anchor_def result_elims Let_def split: if_splits)
next
  case (DamageBlock k m)
  with assms show ?thesis by (auto simp: prepare_damage_block_def result_elims)
qed (use assms in simp_all)

text \<open>Fingerprints print as hexadecimal digits, and the empty text is blank.\<close>

definition host_documented :: "event_host \<Rightarrow> bool" where
  "host_documented h \<longleftrightarrow> hcd_blank (evh_codec h) []
     \<and> (\<forall>u a m f. evh_fingerprint h u a m = Some f \<longrightarrow> valid_blake3_hex f)"

text \<open>What a prepared event is made of.\<close>

lemma prepared_event:
  assumes "prepare_client_event_as ph h event_id now p msg w = Inr event"
  shows "\<exists>actor sequence opid request fingerprint payload. msg = Mutating sequence opid request
    \<and> bt_get (wst_players w) p = Some actor \<and> ply_alive actor \<and> \<not> bt_contains (wst_player_transfer_locks w) p
    \<and> \<not> hcd_blank (evh_codec h) opid \<and> length opid \<le> 128
    \<and> client_intent_fingerprint ph h w p msg = Inr fingerprint
    \<and> validate_operation_attempt (wst_processed_operations w) p sequence fingerprint = Inr None
    \<and> prepare_payload ph p actor opid request w = Inr payload
    \<and> event = new_event h event_id now (Some p) ''human'' (Some (opid, sequence, fingerprint)) payload w"
proof -
  from assms obtain actor where actor: "bt_get (wst_players w) p = Some actor" "\<not> bt_contains (wst_player_transfer_locks w) p"
    unfolding prepare_client_event_as_def by (auto simp: result_elims simp del: bt_dom_simps split: if_splits)
  show ?thesis
  proof (cases msg)
    case (Mutating sequence opid request)
    with assms actor show ?thesis
      unfolding prepare_client_event_as_def by (auto simp: result_elims split: if_splits)
  qed (use assms actor in \<open>simp add: prepare_client_event_as_def\<close>)
qed

definition retimed :: "event_host \<Rightarrow> u64 option \<Rightarrow> world_event \<Rightarrow> world_event" where
  "retimed h time event = (case time of None \<Rightarrow> event | Some t \<Rightarrow> retime_and_rehash h t event)"

lemma hash_ignored [simp]: "calculate_event_hash h (event\<lparr>wev_event_hash := x\<rparr>) = calculate_event_hash h event"
  by (simp add: calculate_event_hash_def)

lemma new_event_fields:
  fixes event_id now p kind operation payload w h time
  defines "e \<equiv> retimed h time (new_event h event_id now p kind operation payload w)"
  shows "wev_actor_player_id e = p" "wev_actor_type e = kind" "wev_payload e = payload"
    "wev_operation_id e = map_option fst operation" "wev_operation_sequence e = map_option (\<lambda>(_, s, _). s) operation"
    "wev_intent_fingerprint e = map_option (\<lambda>(_, _, f). f) operation" "wev_event_sequence e = wst_event_sequence w + 1"
    "wev_authority_fencing_token e = max (wst_fencing_token w) 1" "validate_event_header h e w = Inr ()"
  by (simp_all add: e_def retimed_def new_event_def retime_and_rehash_def Let_def validate_event_header_def
      calculate_event_hash_def split: option.splits)

text \<open>The checks before the payload.\<close>

lemma actor_validated:
  assumes "host_documented h" and "bt_get (wst_players w) p = Some actor" and "\<not> hcd_blank (evh_codec h) opid" and "length opid \<le> 128"
    and "client_intent_fingerprint ph h w p (Mutating sequence opid request) = Inr fingerprint"
    and "validate_operation_attempt (wst_processed_operations w) p sequence fingerprint = Inr None"
    and "request_of_payload payload = Inr request"
    and e: "wev_actor_player_id e = Some p" "wev_actor_type e = ''human''" "wev_payload e = payload" "wev_operation_id e = Some opid"
      "wev_operation_sequence e = Some sequence" "wev_intent_fingerprint e = Some fingerprint"
  shows "validate_actor ph h e w = Inr ()"
proof -
  have "valid_blake3_hex fingerprint"
    using assms(1,5) by (auto simp: client_intent_fingerprint_def host_documented_def result_elims split: if_splits)
  moreover have "sequence \<noteq> 0" using assms(6) by (auto simp: validate_operation_attempt_def)
  ultimately have "\<not> human_envelope_invalid h e w"
    using assms(2-4) e by (auto simp: human_envelope_invalid_def bt_contains_def bt_dom_def)
  moreover have "check_human_operation ph h e w = Inr ()"
    using assms(5-7) e by (simp add: check_human_operation_def client_message_for_human_event_def)
  ultimately show ?thesis by (simp add: validate_actor_def e(2))
qed

lemma envelope_validated:
  assumes "\<not> bt_contains (wst_player_transfer_locks w) p" and "opid \<noteq> []" and "apply_human_payload ph p actor opid n payload w = Inr u"
    and e: "wev_actor_player_id e = Some p" "wev_actor_type e = ''human''" "wev_payload e = payload" "wev_operation_id e = Some opid"
  shows "validate_payload_envelope e w = Inr ()"
  using assms by (cases payload) (simp_all add: validate_payload_envelope_def)

lemma actor_state_validated:
  assumes "bt_get (wst_players w) p = Some actor" and "ply_alive actor"
    and "wev_actor_player_id e = Some p" and "wev_authority_fencing_token e = max (wst_fencing_token w) 1"
  shows "validate_actor_state e w = Inr ()"
proof -
  have "max (wst_fencing_token w) 1 \<noteq> 0" by (metis max.cobounded2 word_le_0_iff zero_neq_one)
  with assms show ?thesis by (simp add: validate_actor_state_def)
qed

lemma human_payload_applied:
  assumes "apply_human_payload ph p actor opid n payload w = Inr u" and "bt_get (wst_players w) p = Some actor"
    and "wev_actor_player_id e = Some p" and "wev_payload e = payload" and "wev_operation_id e = Some opid" and "wev_event_sequence e = n"
  shows "apply_world_payload ph e w = Inr u"
  using assms by (cases payload) (simp_all add: apply_world_payload_def)

lemma request_range:
  assumes "request_of_payload payload = Inr request"
    and "\<And>k c kind orientation. request = BuildBlock k c kind orientation \<Longrightarrow> i32_coordinate c"
  shows "payload_in_range payload"
proof (cases payload)
  case (BlockBuilt k i b)
  with assms(1) have "request = BuildBlock k (blk_coordinate b) (blk_kind b) (blk_orientation b)" by simp
  from assms(2) [OF this] BlockBuilt show ?thesis by simp
qed simp_all

section \<open>Quanta as events\<close>

definition system_event :: "event_host \<Rightarrow> world_physics \<Rightarrow> production_schedule_occurrence \<Rightarrow> world_payload \<Rightarrow> world_state \<Rightarrow>
    world_event \<Rightarrow> bool" where
  "system_event h ph occurrence payload w e \<longleftrightarrow> validate_event_header h e w = Inr () \<and> wev_actor_player_id e = None
     \<and> wev_actor_type e = ''system'' \<and> wev_operation_id e = None \<and> wev_operation_sequence e = None
     \<and> wev_intent_fingerprint e = None \<and> wev_payload e = payload \<and> wev_event_id e = wph_occurrence_event_id ph occurrence
     \<and> wev_occurred_at_unix_ms e = occ_scheduled_for_unix_ms occurrence
     \<and> wev_authority_fencing_token e = max (wst_fencing_token w) 1 \<and> payload_in_range payload"

lemma quantum_event_prepared:
  assumes "validate_next_production_occurrence w occurrence = Inr ()"
  shows "\<exists>e. prepare_production_quantum_event ph h event_id now (ProductionQuantumCommitted occurrence ticks outcomes) w = Inr e
    \<and> system_event h ph occurrence (ProductionQuantumCommitted occurrence ticks outcomes) w e"
  using assms
  by (simp add: prepare_production_quantum_event_def new_event_def Let_def system_event_def validate_event_header_def
      calculate_event_hash_def)

lemma fencing_positive: "max f 1 \<noteq> (0 :: u64)"
  by (metis max.cobounded2 word_le_0_iff zero_neq_one)

lemma quantum_event_applied:
  assumes e: "system_event h ph occurrence (ProductionQuantumCommitted occurrence ticks outcomes) w e"
    and "apply_production_quantum ph (wph_occurrence_event_id ph occurrence) (occ_scheduled_for_unix_ms occurrence)
        occurrence ticks outcomes w = Inr u"
  shows "\<exists>v. apply_world_payload ph e w = Inr u \<and> record_event_operation h e (settled_event e u) = Inr v
    \<and> (cns_valid (conservation v) \<longrightarrow> apply_world_event ph h e w = Inr v)"
proof -
  have "apply_world_payload ph e w = Inr u" "record_event_operation h e (settled_event e u) = Inr (settled_event e u)"
    "validate_event_header h e w = Inr ()" "validate_actor ph h e w = Inr ()"
    "validate_payload_envelope e w = Inr ()" "validate_actor_state e w = Inr ()"
    using assms fencing_positive [of "wst_fencing_token w"]
    by (simp_all add: system_event_def apply_world_payload_def record_event_operation_def validate_actor_def
        validate_payload_envelope_def validate_actor_state_def)
  then show ?thesis by (simp add: apply_world_event_eq)
qed

end
