(* ===== verification/Refusals.thy ===== *)
theory Refusals
  imports WorldHistory
begin

text \<open>
  Which errors an event can end with: nothing before the closing check reports a violation of conservation.
\<close>

definition no_violation_in :: "intent_error + 'a \<Rightarrow> bool" where
  "no_violation_in r \<longleftrightarrow> (\<forall>n. r \<noteq> Inl (ConservationViolation n))"

lemma no_violation_simps [simp]:
  "no_violation_in (Inr x)" "no_violation_in (Inl (Rejected c))"
  "no_violation_in (Inl e) \<longleftrightarrow> (\<forall>n. e \<noteq> ConservationViolation n)"
  by (simp_all add: no_violation_in_def)

lemma no_violation_ok_or [simp]: "(\<forall>n. e \<noteq> ConservationViolation n) \<Longrightarrow> no_violation_in (ok_or x e)"
  by (cases x) simp_all

lemma no_violation_map_err [simp]: "(\<And>e n. f e \<noteq> ConservationViolation n) \<Longrightarrow> no_violation_in (map_err f r)"
  by (cases r) simp_all

lemma no_violation_try [intro!]: "no_violation_in r \<Longrightarrow> (\<And>x. no_violation_in (f x)) \<Longrightarrow> no_violation_in (try_r r f)"
  by (cases r) simp_all

lemma no_violation_if [intro!]: "no_violation_in a \<Longrightarrow> no_violation_in b \<Longrightarrow> no_violation_in (if c then a else b)"
  by simp

lemma no_violation_option [intro!]:
  "no_violation_in a \<Longrightarrow> (\<And>x. no_violation_in (f x)) \<Longrightarrow> no_violation_in (case v of None \<Rightarrow> a | Some x \<Rightarrow> f x)"
  by (cases v) simp_all

lemma no_violation_prod [intro!]: "(\<And>x y. no_violation_in (f x y)) \<Longrightarrow> no_violation_in (case v of (x, y) \<Rightarrow> f x y)"
  by (cases v) simp

lemma no_violation_for_each [intro!]: "(\<And>x. no_violation_in (f x)) \<Longrightarrow> no_violation_in (for_each_r f xs)"
  by (induction xs) auto

lemma no_violation_fold [intro!]: "(\<And>x s. no_violation_in (f x s)) \<Longrightarrow> no_violation_in (fold_r f xs s)"
  by (induction xs arbitrary: s) auto

lemma no_violation_collect [intro!]: "(\<And>x. no_violation_in (f x)) \<Longrightarrow> no_violation_in (collect_r f xs)"
  by (induction xs) auto

section \<open>Look-ups and checks\<close>

lemma unviolated_checks [simp, intro!]:
  "no_violation_in (find_inventory w i)" "no_violation_in (find_grid w k)" "no_violation_in (set_inventory_contents i c w)"
  "no_violation_in (ensure_inventory_functional w i)" "no_violation_in (ensure_actor_owns_inventory w p i)"
  "no_violation_in (ensure_actor_owns_grid w p k)" "no_violation_in (ensure_finite ph v)"
  by (auto simp: find_inventory_def find_grid_def set_inventory_contents_def ensure_inventory_functional_def
      ensure_actor_owns_inventory_def ensure_actor_owns_grid_def ensure_finite_def split: inventory_domain.split)

lemma unviolated_targets [simp, intro!]:
  "no_violation_in (ensure_voxel_tool_target ph w a c x)" "no_violation_in (ensure_block_tool_target ph w a k m x)"
  "no_violation_in (ensure_build_tool_target ph w a k c x)" "no_violation_in (ensure_production_endpoint w p m i)"
  by (auto simp: ensure_voxel_tool_target_def ensure_block_tool_target_def ensure_build_tool_target_def
      ensure_production_endpoint_def split: tool_target.split)

section \<open>Payloads\<close>

lemma unviolated_split [simp, intro!]: "no_violation_in (split_disconnected_grid ph k e w)"
  unfolding split_disconnected_grid_def Let_def by auto

lemma unviolated_drop [simp, intro!]: "no_violation_in (drop_production p m e w)"
  unfolding drop_production_def sum_escrow_def Let_def by auto

lemma unviolated_outcome [simp, intro!]: "no_violation_in (apply_production_machine_outcome outcome w)"
proof -
  have "no_violation_in (record_completion recipe n l)" for recipe n l by (cases recipe) auto
  then show ?thesis
    unfolding apply_production_machine_outcome_def deliver_outputs_def Let_def by (auto split: production_outcome_kind.split)
qed

lemma unviolated_planned [simp, intro!]: "no_violation_in (production_machine_outcome_after_one_second ph w m)"
  unfolding production_machine_outcome_after_one_second_def Let_def by auto

lemma unviolated_plan [simp, intro!]: "no_violation_in (plan_outcomes ph machines w)"
  by (induction ph machines w rule: plan_outcomes.induct) auto

lemma unviolated_quantum [simp, intro!]: "no_violation_in (apply_production_quantum ph i t occurrence ticks outcomes w)"
  unfolding apply_production_quantum_def production_quantum_outcomes_def validate_next_production_occurrence_def
    scheduled_machines_def apply_outcomes_def Let_def
  by auto

lemma unviolated_human [simp, intro!]: "no_violation_in (apply_human_payload ph p actor opid n payload w)"
  by (cases payload)
    (auto simp: apply_voxel_mined_def apply_production_queued_def apply_inventory_transferred_def apply_block_built_def
      apply_block_welded_def apply_grid_control_set_def apply_grid_anchor_set_def apply_block_damaged_def apply_damage_def Let_def)

lemma unviolated_payload [simp, intro!]: "no_violation_in (apply_world_payload ph event w)"
  unfolding apply_world_payload_def by (cases "wev_payload event") auto

lemma unviolated_envelope [simp, intro!]:
  "no_violation_in (validate_event_header h event w)" "no_violation_in (validate_actor ph h event w)"
  "no_violation_in (validate_payload_envelope event w)" "no_violation_in (validate_actor_state event w)"
proof -
  have "no_violation_in (request_of_payload payload)" for payload by (cases payload) simp_all
  then have "no_violation_in (check_human_operation ph h event w)"
    unfolding check_human_operation_def client_message_for_human_event_def client_intent_fingerprint_def
    by (auto split: client_message.split option.split)
  then show "no_violation_in (validate_actor ph h event w)" unfolding validate_actor_def by auto
  show "no_violation_in (validate_event_header h event w)" unfolding validate_event_header_def by auto
  show "no_violation_in (validate_payload_envelope event w)"
    unfolding validate_payload_envelope_def by (cases "wev_payload event") auto
  show "no_violation_in (validate_actor_state event w)" unfolding validate_actor_state_def by auto
qed

lemma unviolated_record [simp, intro!]: "no_violation_in (record_event_operation h event w)"
  unfolding record_event_operation_def Let_def by (auto split: option.split)

text \<open>A reported violation comes from the check that closes the event.\<close>

lemma violation_reported:
  assumes "apply_world_event ph h event w = Inl (ConservationViolation n)"
  obtains u v where "apply_world_payload ph event w = Inr u"
    "record_event_operation h event (settled_event event u) = Inr v" "\<not> cns_valid (conservation v)"
proof -
  have stops: "try_r r f = Inl (ConservationViolation n) \<longleftrightarrow> (\<exists>x. r = Inr x \<and> f x = Inl (ConservationViolation n))"
    if "no_violation_in r" for r :: "intent_error + 'y" and f :: "'y \<Rightarrow> intent_error + 'z"
    using that by (cases r) (auto simp: no_violation_in_def)
  from assms that show thesis
    unfolding apply_world_event_eq stops [OF unviolated_envelope(1)] stops [OF unviolated_envelope(2)]
      stops [OF unviolated_envelope(3)] stops [OF unviolated_envelope(4)] stops [OF unviolated_payload] stops [OF unviolated_record]
    by (auto split: if_splits)
qed

end
