(* ===== verification/WorldScenario.thy ===== *)
theory WorldScenario
  imports WorldInvariant "HOL-Library.Code_Target_Nat"
begin

text \<open>
  Concrete worlds for the properties of the economy: a yard with a refinery at work next to a cargo block,
  and a wreck of two blocks that do not touch.
\<close>

section \<open>The environment\<close>

definition calm :: world_physics where
  "calm = \<lparr>wph_power_online = (\<lambda>_. True), wph_world_coordinate = (\<lambda>_ c. c), wph_closest_tool_hit = (\<lambda>_ _ _. None),
     wph_capsule_intersects = (\<lambda>_ _ _. False), wph_finite = (\<lambda>_. True), wph_within_control_limit = (\<lambda>_. True),
     wph_occurrence_event_id = (\<lambda>_. ''quantum'')\<rparr>"

definition plain_host :: event_host where
  "plain_host = \<lparr>evh_fingerprint = (\<lambda>_ _ _. Some (replicate 64 CHR ''f'')), evh_hash = (\<lambda>_. replicate 64 CHR ''e''),
     evh_codec = \<lparr>hcd_record_bytes = (\<lambda>_. 400), hcd_retained_bytes = (\<lambda>m. 2 + 410 * bt_len m),
       hcd_compaction_hash = (\<lambda>_ _ _. replicate 64 CHR ''c''), hcd_blank = (\<lambda>s. s = [])\<rparr>\<rparr>"

definition at_rest :: body_motion where
  "at_rest = \<lparr>gmo_address = cell_origin_address ''verse'',
     gmo_position = vec3_zero, gmo_orientation = (0, 0, 0, 0), gmo_linear_velocity = vec3_zero, gmo_angular_velocity = vec3_zero\<rparr>"

section \<open>The yard\<close>

definition placed :: "string \<Rightarrow> ivec3 \<Rightarrow> block_kind \<Rightarrow> string option \<Rightarrow> block" where
  "placed block_id c kind inventory_id = (new_block block_id c kind)\<lparr>blk_inventory_id := inventory_id\<rparr>"

definition yard_blocks :: "(string, block) btree_map" where
  "yard_blocks = bt_insert ''cargo'' (placed ''cargo'' (2, 0, 0) BlkCargo (Some ''hold''))
     (bt_insert ''refinery'' (placed ''refinery'' (1, 0, 0) BlkRefinery None)
     (bt_insert ''core'' (placed ''core'' (0, 0, 0) BlkControlCore None) bt_empty))"

definition grid_of_blocks :: "string \<Rightarrow> (string, block) btree_map \<Rightarrow> grid" where
  "grid_of_blocks k blocks = \<lparr>grd_grid_id = k, grd_owner_player_id = ''pilot'', grd_anchor_reward_eligible = True,
     grd_motion = at_rest, grd_control_linear_input = vec3_zero, grd_control_angular_input = vec3_zero,
     grd_dampeners = True, grd_anchored = False, grd_blocks = blocks\<rparr>"

definition inventory_of :: "string \<Rightarrow> inventory_domain \<Rightarrow> u64 \<Rightarrow> u64 \<Rightarrow> inventory_record" where
  "inventory_of i d ore components = \<lparr>inv_inventory_id = i, inv_domain = d,
     inv_contents = \<lparr>ctn_ore = ore, ctn_refined_material = 0, ctn_components = components\<rparr>, inv_capacity_liters = 8000\<rparr>"

definition yard_job :: production_job where
  "yard_job = \<lparr>job_job_id = ''production-job-3'', job_operation_id = ''refine'', job_owner_player_id = ''pilot'',
     job_machine_block_id = ''refinery'', job_recipe = Refining, job_content_manifest_version = ''p0'', job_batches = 2,
     job_source_inventory_id = ''hold'', job_destination_inventory_id = ''hold'', job_progress_ticks = 0,
     job_duration_ticks = 240, job_reserved_inputs = no_contents\<lparr>ctn_ore := 4\<rparr>, job_pending_outputs = no_contents,
     job_queued_event_sequence = 3\<rparr>"

definition pilot :: player where
  "pilot = \<lparr>ply_player_id = ''pilot'', ply_inventory_id = ''pack'', ply_experience = 0,
     ply_career = \<lparr>car_voxels_mined = 0, car_refining_batches = 0, car_components_crafted = 0, car_blocks_built = 0,
       car_anchors_engaged = 0\<rparr>, ply_alive = True, ply_motion = at_rest\<rparr>"

definition genesis_ledger :: "u64 \<Rightarrow> u64 \<Rightarrow> u64 \<Rightarrow> ledger" where
  "genesis_ledger ore components installed_components = \<lparr>led_genesis_ore = ore, led_genesis_refined = 0,
     led_genesis_components = components, led_genesis_installed_components = installed_components,
     led_mined_ore = 0, led_refine_batches = 0, led_crafted_components = 0, led_built_blocks = 0,
     led_destroyed_blocks = 0, led_destroyed_components = 0, led_transfer_imported_ore = 0,
     led_transfer_imported_refined = 0, led_transfer_imported_components = 0, led_transfer_exported_ore = 0,
     led_transfer_exported_refined = 0, led_transfer_exported_components = 0\<rparr>"

definition world_of :: "(string, grid) btree_map \<Rightarrow> (string, inventory_record) btree_map \<Rightarrow>
    (string, production_job list) btree_map \<Rightarrow> ledger \<Rightarrow> world_state" where
  "world_of grids inventories queues l = \<lparr>wst_content_manifest_version = ''p0'', wst_universe_id = ''verse'',
     wst_cell_id = replicate 64 CHR ''d'', wst_universe_manifest_hash = ''manifest'', wst_celestial_registry_hash = ''registry'',
     wst_event_sequence = 10, wst_fencing_token = 2, wst_last_event_hash = ''previous'',
     wst_players = bt_insert ''pilot'' pilot bt_empty, wst_voxels = \<lparr>vox_occupied = bt_empty, vox_ferrite_ore = bt_empty\<rparr>,
     wst_grids = grids, wst_inventories = inventories, wst_production_queues = queues,
     wst_production_clock = \<lparr>pcl_lifecycle_generation = 1, pcl_last_committed_quantum_sequence = 7,
       pcl_last_scheduled_for_unix_ms = 1000000\<rparr>,
     wst_player_transfer_locks = bt_empty, wst_processed_operations = bt_empty, wst_active_contact_pairs = bt_empty,
     wst_ledger = l\<rparr>"

definition yard :: world_state where
  "yard = world_of (bt_insert ''base'' (grid_of_blocks ''base'' yard_blocks) bt_empty)
     (bt_insert ''pack'' (inventory_of ''pack'' (DomainPlayer ''pilot'') 0 3)
       (bt_insert ''hold'' (inventory_of ''hold'' (DomainCargo ''cargo'') 10 0) bt_empty))
     (bt_insert ''refinery'' [yard_job] bt_empty) (genesis_ledger 14 3 6)"

definition wreck_grid :: grid where
  "wreck_grid = grid_of_blocks ''wreck'' (bt_insert ''far'' (placed ''far'' (2, 0, 0) BlkStructural None)
     (bt_insert ''core'' (placed ''core'' (0, 0, 0) BlkControlCore None) bt_empty))"

definition wreck :: world_state where
  "wreck = world_of (bt_insert ''wreck'' wreck_grid bt_empty) bt_empty bt_empty (genesis_ledger 0 0 2)"

section \<open>They are well-formed\<close>

lemma placed_fields [simp]:
  "blk_block_id (placed m c kind i) = m" "blk_coordinate (placed m c kind i) = c" "blk_kind (placed m c kind i) = kind"
  "blk_construction_complete (placed m c kind i)" "blk_inventory_id (placed m c kind i) = i"
  "blk_component_cost (placed m c kind i) = bdf_component_cost (content_block kind)"
  by (simp_all add: placed_def new_block_def)

lemma yard_fields [simp]:
  "wst_grids yard = bt_insert ''base'' (grid_of_blocks ''base'' yard_blocks) bt_empty"
  "wst_inventories yard = bt_insert ''pack'' (inventory_of ''pack'' (DomainPlayer ''pilot'') 0 3)
       (bt_insert ''hold'' (inventory_of ''hold'' (DomainCargo ''cargo'') 10 0) bt_empty)"
  "wst_production_queues yard = bt_insert ''refinery'' [yard_job] bt_empty"
  "wst_players yard = bt_insert ''pilot'' pilot bt_empty" "wst_ledger yard = genesis_ledger 14 3 6"
  "wst_event_sequence yard = 10"
  by (simp_all add: yard_def world_of_def)

lemma grid_of_blocks_fields [simp]:
  "grd_grid_id (grid_of_blocks k blocks) = k" "grd_owner_player_id (grid_of_blocks k blocks) = ''pilot''"
  "grd_blocks (grid_of_blocks k blocks) = blocks"
  by (simp_all add: grid_of_blocks_def)

lemma inventory_of_fields [simp]:
  "inv_inventory_id (inventory_of i d ore components) = i" "inv_domain (inventory_of i d ore components) = d"
  by (simp_all add: inventory_of_def)

lemma yard_blocks_get:
  "bt_get yard_blocks m = Some b \<longleftrightarrow> (m = ''cargo'' \<and> b = placed ''cargo'' (2, 0, 0) BlkCargo (Some ''hold''))
     \<or> (m = ''refinery'' \<and> b = placed ''refinery'' (1, 0, 0) BlkRefinery None)
     \<or> (m = ''core'' \<and> b = placed ''core'' (0, 0, 0) BlkControlCore None)"
  by (auto simp: yard_blocks_def)

lemma yard_block_of:
  "block_of (wst_grids yard) m b owner \<longleftrightarrow> bt_get yard_blocks m = Some b \<and> owner = ''pilot''"
  by (auto simp: block_of_def)

lemma yard_grid_ok: "grid_ok (grid_of_blocks ''base'' yard_blocks)"
proof -
  have blocks: "set (bt_values yard_blocks) = {placed ''cargo'' (2, 0, 0) BlkCargo (Some ''hold''),
      placed ''refinery'' (1, 0, 0) BlkRefinery None, placed ''core'' (0, 0, 0) BlkControlCore None}"
    by (auto simp: bt_in_values_iff yard_blocks_get)
  have "grid_keyed (grid_of_blocks ''base'' yard_blocks)"
    by (auto simp: grid_keyed_def yard_blocks_get)
  moreover have "inj_on blk_coordinate (set (bt_values yard_blocks))" unfolding blocks by (auto simp: inj_on_def)
  moreover have "Ball (blk_coordinate ` set (bt_values yard_blocks)) i32_coordinate" unfolding blocks by (simp add: in_i32_def)
  ultimately show ?thesis by (simp add: grid_ok_def coordinates_def)
qed

lemma yard_queue_ok: "queue_ok (wst_grids yard) ''refinery'' [yard_job]"
proof -
  have "production_recipe_quantities Refining 2 = Some (no_contents\<lparr>ctn_ore := 4\<rparr>, no_contents\<lparr>ctn_refined_material := 2\<rparr>, 240)"
    by code_simp
  then have "job_ok ''refinery'' yard_job" by (simp add: job_ok_def yard_job_def)
  moreover have "block_of (wst_grids yard) ''refinery'' (placed ''refinery'' (1, 0, 0) BlkRefinery None) ''pilot''"
    by (simp only: yard_block_of yard_blocks_get) simp
  ultimately show ?thesis
    unfolding queue_ok_def
    by (auto simp: QUEUE_LIMIT_PER_MACHINE_def machine_supports_recipe_def yard_job_def intro!: exI)
qed

lemma yard_ok: "world_ok yard"
proof -
  have "used_liters (inventory_of ''pack'' (DomainPlayer ''pilot'') 0 3) \<le> 8000"
    "used_liters (inventory_of ''hold'' (DomainCargo ''cargo'') 10 0) \<le> 8000"
    by code_simp+
  then have "inventories_ok (wst_inventories yard)" by (auto simp: inventories_ok_def inventory_of_def split: if_splits)
  moreover have "grids_ok (wst_grids yard)" using yard_grid_ok by (auto simp: grids_ok_def split: if_splits)
  moreover have "cargo_linked yard" unfolding cargo_linked_def yard_block_of by (auto simp: yard_blocks_get)
  moreover have "queues_ok yard" using yard_queue_ok by (auto simp: queues_ok_def split: if_splits)
  moreover have "owners_ok yard" "players_linked yard"
    by (auto simp: owners_ok_def players_linked_def pilot_def split: if_splits)
  ultimately show ?thesis by (simp add: world_ok_def)
qed

lemma yard_balanced: "balanced yard"
proof -
  have "live ResOre yard = 14" "live ResRefinedMaterial yard = 0" "live ResComponent yard = 3" "built_in yard ResComponent = 6"
    by code_simp+
  then have "created (wst_ledger yard) r = live r yard + built_in yard r + used_up (wst_ledger yard) r" for r
    by (cases r) (simp_all add: genesis_ledger_def)
  then show ?thesis by (simp add: balanced_def)
qed

lemma yard_headroom: "headroom yard" "entered (wst_ledger yard) = 23"
  by (simp_all add: headroom_def entered_def genesis_ledger_def)

lemma wreck_grid_ok: "grid_ok wreck_grid"
proof -
  have get: "bt_get (grd_blocks wreck_grid) m = Some b \<longleftrightarrow> (m = ''far'' \<and> b = placed ''far'' (2, 0, 0) BlkStructural None)
      \<or> (m = ''core'' \<and> b = placed ''core'' (0, 0, 0) BlkControlCore None)" for m b
    by (auto simp: wreck_grid_def)
  have blocks: "set (bt_values (grd_blocks wreck_grid)) = {placed ''far'' (2, 0, 0) BlkStructural None,
      placed ''core'' (0, 0, 0) BlkControlCore None}"
    by (auto simp: bt_in_values_iff get)
  have "grid_keyed wreck_grid" by (auto simp: grid_keyed_def get)
  moreover have "inj_on blk_coordinate (set (bt_values (grd_blocks wreck_grid)))" unfolding blocks by (auto simp: inj_on_def)
  moreover have "Ball (blk_coordinate ` set (bt_values (grd_blocks wreck_grid))) i32_coordinate"
    unfolding blocks by (simp add: in_i32_def)
  ultimately show ?thesis by (simp add: grid_ok_def coordinates_def)
qed

end
