(* ===== verification/EconomyProperties.thy ===== *)
theory EconomyProperties
  imports JobProgress IntentAcceptance Refusals ConveyorRoutes WorldScenario
begin

text \<open>
  The properties of the economy of a cell: well-formed worlds and the conservation of resources over
  histories of events, production, conveyor routes, and the agreement of intents with events.
\<close>

section \<open>Histories of events\<close>


text \<open>
  C3: Resources are conserved. After every accepted history each resource balances exactly over the
  naturals: what was created equals what is stored, escrowed and built in, and what was used up; and the
  wrapping check that closes the next event never reports a violation.
\<close>

theorem resources_are_conserved:
  assumes "world_ok w" and "balanced w" and "entered (wst_ledger w) + 3 * Suc (length events) < 2 ^ 64"
    and "\<forall>event \<in> set events. payload_in_range (wev_payload event)"
    and "fold_r (apply_world_event ph h) events w = Inr w'" and "payload_in_range (wev_payload event)"
  shows "(\<forall>r. created (wst_ledger w') r = live r w' + built_in w' r + used_up (wst_ledger w') r)
    \<and> cns_valid (conservation w')
    \<and> apply_world_event ph h event w' \<noteq> Inl (ConservationViolation n)"
proof -
  have ok: "world_ok w'" "balanced w'" "entered (wst_ledger w') \<le> entered (wst_ledger w) + 3 * length events"
    using events_step [OF assms(1,2) _ assms(4,5)] assms(3) by simp_all
  then have room: "headroom w'" "entered (wst_ledger w') < 2 ^ 64" using assms(3) by (simp_all add: headroom_def)
  have "apply_world_event ph h event w' \<noteq> Inl (ConservationViolation n)"
  proof
    assume "apply_world_event ph h event w' = Inl (ConservationViolation n)"
    then obtain u v where "apply_world_payload ph event w' = Inr u"
      "record_event_operation h event (settled_event event u) = Inr v" "\<not> cns_valid (conservation v)"
      by (rule violation_reported)
    with no_violation [OF ok(1,2) room(1) assms(6)] show False by blast
  qed
  with ok(2) balanced_passes [OF ok(2) room(2)] show ?thesis by (simp add: balanced_def)
qed

section \<open>Production\<close>



text \<open>
  C13: The search for a conveyor route is exact: it finds a route precisely when machine and cargo are on
  the same grid and a chain of complete, face-adjacent conveyor blocks leads from one to the other.
\<close>

theorem production_route_is_conveyor_path:
  assumes "world_ok w"
  shows "production_route_exists w m i \<longleftrightarrow>
     (\<exists>g b g' c. block_grid w m = Some (g, b) \<and> conveyor_block b
        \<and> cargo_block_for_inventory w i = Some (g', c) \<and> grd_grid_id g' = grd_grid_id g
        \<and> (conveyor_step g)\<^sup>*\<^sup>* m (blk_block_id c))"
proof (rule route_iff_path)
  show "grids_keyed w"
    using assms by (auto simp: world_ok_def grids_ok_def grids_keyed_def grid_ok_def bt_in_values_iff)
qed

section \<open>Intents\<close>

text \<open>
  C6: Preparation and application of an intent agree. The event prepared from a client's message, at
  whatever time it is stamped, is recognised as the answer to exactly that message, passes every check of
  the application, and its payload is applied; only the record of the operation in the actor's history can
  still refuse it.
\<close>

theorem prepared_intent_is_applied:
  assumes "world_ok w" and "balanced w" and "headroom w" and "identities_fresh w" and "host_documented h"
    and "prepare_client_event_as ph h event_id now p (Mutating sequence opid request) w = Inr event"
    and "\<And>k c kind orientation. request = BuildBlock k c kind orientation \<Longrightarrow> i32_coordinate c"
  shows "client_message_for_human_event sequence opid (wev_payload event) = Inr (Mutating sequence opid request)
    \<and> (\<exists>u. apply_world_payload ph (retimed h time event) w = Inr u
        \<and> apply_world_event ph h (retimed h time event) w
            = record_event_operation h (retimed h time event) (settled_event (retimed h time event) u))"
proof -
  obtain actor fingerprint payload where actor: "bt_get (wst_players w) p = Some actor" "ply_alive actor"
      "\<not> bt_contains (wst_player_transfer_locks w) p"
    and opid: "\<not> hcd_blank (evh_codec h) opid" "length opid \<le> 128"
    and attempt: "client_intent_fingerprint ph h w p (Mutating sequence opid request) = Inr fingerprint"
      "validate_operation_attempt (wst_processed_operations w) p sequence fingerprint = Inr None"
    and payload: "prepare_payload ph p actor opid request w = Inr payload"
    and event: "event = new_event h event_id now (Some p) ''human'' (Some (opid, sequence, fingerprint)) payload w"
    using prepared_event [OF assms(6)] by auto
  let ?e = "retimed h time event"
  note fields = new_event_fields [of h time event_id now "Some p" "''human''" "Some (opid, sequence, fingerprint)" payload w,
      folded event]
  obtain u where u: "apply_human_payload ph p actor opid (wst_event_sequence w + 1) payload w = Inr u"
    using payload_accepted [OF assms(1-4) actor(1) payload] by blast
  have "opid \<noteq> []" using opid(1) assms(5) by (auto simp: host_documented_def)
  then have checks: "validate_actor ph h ?e w = Inr ()" "validate_payload_envelope ?e w = Inr ()" "validate_actor_state ?e w = Inr ()"
    using actor_validated [OF assms(5) actor(1) opid attempt request_answered [OF payload], of ?e]
      envelope_validated [OF actor(3) _ u, of ?e] actor_state_validated [OF actor(1,2), of ?e] fields by simp_all
  have applied: "apply_world_payload ph ?e w = Inr u"
    using human_payload_applied [OF u actor(1), of ?e] fields by simp
  have "payload_in_range (wev_payload ?e)"
    using fields(3) request_range [OF request_answered [OF payload]] assms(7) by simp
  from no_violation [OF assms(1-3) this applied] have "apply_world_event ph h ?e w = record_event_operation h ?e (settled_event ?e u)"
    using fields(9) checks applied
    by (cases "record_event_operation h ?e (settled_event ?e u)") (simp_all add: apply_world_event_eq)
  moreover have "wev_payload event = payload" by (simp add: event new_event_def Let_def)
  ultimately show ?thesis
    using applied request_answered [OF payload] by (auto simp: client_message_for_human_event_def)
qed

section \<open>Damage\<close>

text \<open>
  C7: The splitting of a grid loses and invents no block: outside the identities of its fragments the
  grids are unchanged, every block is in exactly one fragment, unchanged, fragments hold nothing else and
  keep the owner, two blocks are in one fragment exactly when a chain of face-adjacent blocks of the grid
  links them, and the fragment that keeps the grid's identity has a control core if the grid had one.
\<close>

theorem split_partitions_blocks:
  assumes "grid_ok g" and "bt_get (wst_grids w) (grd_grid_id g) = Some g"
    and "split_disconnected_grid ph (grd_grid_id g) e w = Inr w'"
  shows "(\<forall>k. k \<notin> fragment_keys w g \<longrightarrow> bt_get (wst_grids w') k = bt_get (wst_grids w) k)
    \<and> (\<forall>j b. bt_get (grd_blocks g) j = Some b \<longrightarrow> (\<exists>!k. in_fragment w g w' k j b))
    \<and> (\<forall>k j b. in_fragment w g w' k j b \<longrightarrow> bt_get (grd_blocks g) j = Some b)
    \<and> (\<forall>k \<in> fragment_keys w g. \<forall>f. bt_get (wst_grids w') k = Some f \<longrightarrow>
         grd_grid_id f = k \<and> grd_owner_player_id f = grd_owner_player_id g)
    \<and> (\<forall>i b j c. bt_get (grd_blocks g) i = Some b \<and> bt_get (grd_blocks g) j = Some c \<longrightarrow>
         ((\<exists>k. in_fragment w g w' k i b \<and> in_fragment w g w' k j c) \<longleftrightarrow>
          connected (coordinates g) (blk_coordinate b) (blk_coordinate c)))
    \<and> ((\<exists>j b. bt_get (grd_blocks g) j = Some b \<and> blk_kind b = BlkControlCore) \<longrightarrow>
         (\<exists>j b. in_fragment w g w' (grd_grid_id g) j b \<and> blk_kind b = BlkControlCore))"
proof (cases "bt_values (grd_blocks g) = []")
  case True
  then have "bt_get (grd_blocks g) j = None" for j by (metis bt_in_values_iff list.set(1) empty_iff option.exhaust)
  with assms True show ?thesis
    by (auto simp: split_disconnected_grid_def in_fragment_def fragment_keys_def split: if_splits)
next
  case False
  note f = fragment_iff [OF assms(1,2) False assms(3)] and iff = in_fragment_iff [OF assms(1,2) False assms(3)]
    and spec = grid_components_spec [OF assms(1), unfolded components_of_def]
  have unique: "\<exists>!k. in_fragment w g w' k j b" if b: "bt_get (grd_blocks g) j = Some b" for j b
    using component_unique [OF assms(1) grid_okD(2) [OF assms(1) b]] b unfolding iff by auto
  have together: "(\<exists>k. in_fragment w g w' k i b \<and> in_fragment w g w' k j c) \<longleftrightarrow>
      connected (coordinates g) (blk_coordinate b) (blk_coordinate c)"
    if b: "bt_get (grd_blocks g) i = Some b" and c: "bt_get (grd_blocks g) j = Some c" for i b j c
  proof -
    from component_unique [OF assms(1) grid_okD(2) [OF assms(1) b]] obtain n where
      n: "n < length (grid_components g)" "blk_coordinate b \<in> bt_dom (grid_components g ! n)" by blast
    with spec have "connected (coordinates g) (blk_coordinate b) (blk_coordinate c) \<longleftrightarrow>
        blk_coordinate c \<in> bt_dom (grid_components g ! n)"
      by (metis nth_mem)
    with n b c component_unique [OF assms(1) grid_okD(2) [OF assms(1) b]] show ?thesis
      unfolding iff by (metis (no_types, lifting) injD [OF split_grid_id_inj])
  qed
  note core = core_fragment [OF assms(1,2) False assms(3)]
  have held: "bt_get (grd_blocks g) j = Some b" if "in_fragment w g w' k j b" for k j b
    using that unfolding iff by blast
  have owner: "grd_grid_id d = k \<and> grd_owner_player_id d = grd_owner_player_id g"
    if "k \<in> fragment_keys w g" "bt_get (wst_grids w') k = Some d" for k d
    using that(2) unfolding f(1) [OF that(1)] by (auto simp: grid_fragment_def)
  show ?thesis
    by (intro conjI allI impI ballI; (elim conjE exE)?)
      (rule f(2) unique held owner [THEN conjunct1] owner [THEN conjunct2] together core; assumption)+
qed

section \<open>Witnesses\<close>

definition yard_message :: client_message where
  "yard_message = Mutating 1 ''operation'' (TransferInventory ''pack'' ''hold'' ResComponent 1)"

definition yard_event :: world_event where
  "yard_event = projr (prepare_client_event_as calm plain_host ''event'' 5 ''pilot'' yard_message yard)"


lemma yard_prepared: "prepare_client_event_as calm plain_host ''event'' 5 ''pilot'' yard_message yard = Inr yard_event"
proof -
  have "is_ok (prepare_client_event_as calm plain_host ''event'' 5 ''pilot'' yard_message yard)" by code_simp
  then show ?thesis by (auto simp: is_ok_iff yard_event_def)
qed

lemma yard_history: "\<exists>w'. fold_r (apply_world_event calm plain_host) [yard_event] yard = Inr w'"
proof -
  have "is_ok (fold_r (apply_world_event calm plain_host) [yard_event] yard)" by code_simp
  then show ?thesis by (simp only: is_ok_iff)
qed

lemma yard_event_in_range: "payload_in_range (wev_payload yard_event)"
  by code_simp

lemma yard_fresh: "identities_fresh yard"
proof -
  have "production_job_id 11 \<noteq> ''production-job-3''" "''inventory-'' @ built_block_id 11 \<notin> {''pack'', ''hold''}"
    "built_block_id 11 \<notin> {''cargo'', ''refinery'', ''core''}"
    by code_simp+
  moreover from this have "built_block_id 11 \<notin> block_ids (wst_grids yard)"
    unfolding block_ids_def yard_block_of yard_blocks_get by auto
  moreover have "k @ ''-split-'' @ s \<noteq> ''base''" for k s by (auto dest: arg_cong [of _ _ length])
  ultimately show ?thesis
    unfolding identities_fresh_def Let_def by (auto simp: yard_job_def simp del: append.simps split: if_splits)
qed


theorem resources_are_conserved_witness:
  "\<exists>w'. fold_r (apply_world_event calm plain_host) [yard_event] yard = Inr w' \<and> cns_valid (conservation w')"
  using yard_history resources_are_conserved [OF yard_ok yard_balanced, of "[yard_event]" calm plain_host _ yard_event]
    yard_headroom(2) yard_event_in_range by auto



theorem production_route_is_conveyor_path_witness:
  "\<exists>g b g' c. block_grid yard ''refinery'' = Some (g, b) \<and> cargo_block_for_inventory yard ''hold'' = Some (g', c)
     \<and> (conveyor_step g)\<^sup>*\<^sup>* ''refinery'' (blk_block_id c)"
proof -
  have "production_route_exists yard ''refinery'' ''hold''" by code_simp
  with production_route_is_conveyor_path [OF yard_ok, of "''refinery''" "''hold''"] show ?thesis by blast
qed

theorem prepared_intent_is_applied_witness:
  "client_message_for_human_event 1 ''operation'' (wev_payload yard_event) = Inr yard_message
    \<and> (\<exists>u. apply_world_payload calm (retimed plain_host (Some 6) yard_event) yard = Inr u)"
proof -
  have "valid_blake3_hex (replicate 64 CHR ''f'')" by code_simp
  then have "host_documented plain_host" by (simp only: host_documented_def plain_host_def event_host.simps history_codec.simps) blast
  from prepared_intent_is_applied [OF yard_ok yard_balanced yard_headroom(1) yard_fresh this
      yard_prepared [unfolded yard_message_def], of "Some 6"] show ?thesis
    by (auto simp: yard_message_def)
qed

theorem split_partitions_blocks_witness:
  "\<exists>w'. split_disconnected_grid calm ''wreck'' 5 wreck = Inr w'
     \<and> (\<exists>!k. in_fragment wreck wreck_grid w' k ''far'' (placed ''far'' (2, 0, 0) BlkStructural None))"
proof -
  have "is_ok (split_disconnected_grid calm ''wreck'' 5 wreck)" by code_simp
  then obtain w' where w': "split_disconnected_grid calm ''wreck'' 5 wreck = Inr w'" by (auto simp only: is_ok_iff)
  have "grd_grid_id wreck_grid = ''wreck''" "bt_get (wst_grids wreck) ''wreck'' = Some wreck_grid"
    "bt_get (grd_blocks wreck_grid) ''far'' = Some (placed ''far'' (2, 0, 0) BlkStructural None)"
    by (simp_all add: wreck_grid_def wreck_def world_of_def)
  with w' split_partitions_blocks [OF wreck_grid_ok, of wreck calm 5 w'] show ?thesis by auto
qed

end
