(* ===== verification/HandoffProofs.thy ===== *)
theory HandoffProofs
  imports CellDirectory
begin

text \<open>
  The proofs that cells submit to the directory of protocol 19 when a grid is handed over
  (\<open>crates/verse-simulation/src/grid_handoff_v2/state.rs\<close>): one record per phase, the hash that seals
  it, and its validation. A proof is sealed by the hash of its own JSON with the hash field cleared;
  the encoders of the seven records are parameters.
\<close>

section \<open>Records\<close>

record ledger_vector =
  glv_ore :: u64
  glv_refined_material :: u64
  glv_components :: u64

datatype grid_transfer_abort_side = SourceSide | DestinationSide

record grid_prepare_proof =
  gpp_transfer_id :: string
  gpp_root_aggregate_id :: string
  gpp_member_root :: string
  gpp_package_hash :: string
  gpp_source_cell_id :: string
  gpp_assignment_generation :: u64
  gpp_fencing_token :: u64
  gpp_prior_event_sequence :: u64
  gpp_prior_event_hash :: string
  gpp_event_sequence :: u64
  gpp_event_hash :: string
  gpp_event_payload_hash :: string
  gpp_prior_active_world_hash :: string
  gpp_resulting_active_world_hash :: string
  gpp_prepared_at_simulation_tick :: u64
  gpp_mutation_witness_hash :: string
  gpp_proof_hash :: string

record grid_quarantine_proof =
  gqp_transfer_id :: string
  gqp_root_aggregate_id :: string
  gqp_member_root :: string
  gqp_package_hash :: string
  gqp_destination_cell_id :: string
  gqp_assignment_generation :: u64
  gqp_fencing_token :: u64
  gqp_prior_event_sequence :: u64
  gqp_prior_event_hash :: string
  gqp_event_sequence :: u64
  gqp_event_hash :: string
  gqp_event_payload_hash :: string
  gqp_prior_active_world_hash :: string
  gqp_resulting_active_world_hash :: string
  gqp_quarantine_receipt_hash :: string
  gqp_quarantined_at_unix_ms :: u64
  gqp_mutation_witness_hash :: string
  gqp_proof_hash :: string

record grid_export_proof =
  gep_transfer_id :: string
  gep_root_aggregate_id :: string
  gep_member_root :: string
  gep_package_hash :: string
  gep_source_cell_id :: string
  gep_assignment_generation :: u64
  gep_fencing_token :: u64
  gep_prior_event_sequence :: u64
  gep_prior_event_hash :: string
  gep_event_sequence :: u64
  gep_event_hash :: string
  gep_event_payload_hash :: string
  gep_prior_draft_world_hash :: string
  gep_resulting_active_world_hash :: string
  gep_quarantine_receipt_hash :: string
  gep_exported_at_unix_ms :: u64
  gep_mutation_witness_hash :: string
  gep_proof_hash :: string
  gep_ledger_vector :: ledger_vector

record grid_import_proof =
  gip_transfer_id :: string
  gip_root_aggregate_id :: string
  gip_member_root :: string
  gip_package_hash :: string
  gip_destination_cell_id :: string
  gip_assignment_generation :: u64
  gip_fencing_token :: u64
  gip_prior_event_sequence :: u64
  gip_prior_event_hash :: string
  gip_event_sequence :: u64
  gip_event_hash :: string
  gip_event_payload_hash :: string
  gip_prior_draft_world_hash :: string
  gip_resulting_active_world_hash :: string
  gip_quarantine_receipt_hash :: string
  gip_quarantined_at_unix_ms :: u64
  gip_source_export_proof_hash :: string
  gip_source_exported_at_unix_ms :: u64
  gip_imported_at_unix_ms :: u64
  gip_destination_production_lifecycle_generation :: u64
  gip_production_eligibility_root :: string
  gip_mutation_witness_hash :: string
  gip_proof_hash :: string
  gip_ledger_vector :: ledger_vector

record grid_activation_proof =
  gap_transfer_id :: string
  gap_root_aggregate_id :: string
  gap_member_root :: string
  gap_package_hash :: string
  gap_destination_cell_id :: string
  gap_assignment_generation :: u64
  gap_fencing_token :: u64
  gap_prior_event_sequence :: u64
  gap_prior_event_hash :: string
  gap_event_sequence :: u64
  gap_event_hash :: string
  gap_event_payload_hash :: string
  gap_prior_active_world_hash :: string
  gap_resulting_active_world_hash :: string
  gap_quarantine_receipt_hash :: string
  gap_destination_import_proof_hash :: string
  gap_imported_at_unix_ms :: u64
  gap_activated_at_unix_ms :: u64
  gap_production_eligibility_root :: string
  gap_mutation_witness_hash :: string
  gap_proof_hash :: string

record grid_finalization_proof =
  gfp_transfer_id :: string
  gfp_root_aggregate_id :: string
  gfp_member_root :: string
  gfp_package_hash :: string
  gfp_source_cell_id :: string
  gfp_assignment_generation :: u64
  gfp_fencing_token :: u64
  gfp_prior_event_sequence :: u64
  gfp_prior_event_hash :: string
  gfp_event_sequence :: u64
  gfp_event_hash :: string
  gfp_event_payload_hash :: string
  gfp_prior_active_world_hash :: string
  gfp_resulting_active_world_hash :: string
  gfp_source_export_proof_hash :: string
  gfp_source_exported_at_unix_ms :: u64
  gfp_destination_import_proof_hash :: string
  gfp_imported_at_unix_ms :: u64
  gfp_destination_activation_proof_hash :: string
  gfp_activated_at_unix_ms :: u64
  gfp_finalized_at_unix_ms :: u64
  gfp_mutation_witness_hash :: string
  gfp_proof_hash :: string

record grid_abort_cleanup_proof =
  gcp_side :: grid_transfer_abort_side
  gcp_transfer_id :: string
  gcp_member_root :: string
  gcp_package_hash :: string
  gcp_cell_id :: string
  gcp_assignment_generation :: u64
  gcp_fencing_token :: u64
  gcp_event_sequence :: u64
  gcp_event_hash :: string
  gcp_event_payload_hash :: string
  gcp_prior_event_sequence :: u64
  gcp_prior_event_hash :: string
  gcp_prior_draft_world_hash :: string
  gcp_resulting_draft_world_hash :: string
  gcp_trusted_time_unix_ms :: u64
  gcp_mutation_witness_hash :: string
  gcp_quarantine_receipt_hash :: "string option"
  gcp_abort_witness_hash :: string
  gcp_removed_authority :: bool
  gcp_proof_hash :: string

section \<open>Encoders and hashes\<close>

record handoff_codec =
  hc_externals :: externals
  hc_prepare_json :: "grid_prepare_proof \<Rightarrow> string + string"
  hc_quarantine_json :: "grid_quarantine_proof \<Rightarrow> string + string"
  hc_export_json :: "grid_export_proof \<Rightarrow> string + string"
  hc_import_json :: "grid_import_proof \<Rightarrow> string + string"
  hc_activation_json :: "grid_activation_proof \<Rightarrow> string + string"
  hc_finalization_json :: "grid_finalization_proof \<Rightarrow> string + string"
  hc_abort_cleanup_json :: "grid_abort_cleanup_proof \<Rightarrow> string + string"

datatype grid_closure_error =
    ClosureInvalid string
  | ClosureUnsupported string
  | ClosureChanged string
  | ClosureTooLarge

fun grid_closure_error_text :: "grid_closure_error \<Rightarrow> string" where
  "grid_closure_error_text (ClosureInvalid s) = ''grid closure package is invalid: '' @ s"
| "grid_closure_error_text (ClosureUnsupported s) = ''grid closure is unsupported by the bounded handoff: '' @ s"
| "grid_closure_error_text (ClosureChanged s) = ''grid closure changed after capture: '' @ s"
| "grid_closure_error_text ClosureTooLarge = ''grid closure package exceeds the 16777216-byte bound''"

text \<open>\<open>hash_json\<close>: the argument \<open>bytes\<close> is the result of \<open>serde_json::to_vec\<close> on the material.\<close>

definition hash_json :: "externals \<Rightarrow> string \<Rightarrow> string + string \<Rightarrow> grid_closure_error + string" where
  "hash_json ext domain bytes =
     try_r (map_err (\<lambda>source. ClosureInvalid (''hash material cannot be encoded: '' @ source)) bytes) (\<lambda>bytes.
     Inr (ext_blake3_hex ext (domain @ bytes)))"

definition handoff_domain :: "string \<Rightarrow> string" where
  "handoff_domain name = ''the-verse/grid-transfer-'' @ name @ ''/v2'' @ [CHR 0x00]"

definition valid_stable_id :: "string \<Rightarrow> bool" where
  "valid_stable_id value = (value \<noteq> [] \<and> length value \<le> 128 \<and> list_all stable_id_byte value)"

text \<open>
  The event a proof names follows its predecessor: the part of every validation that compares the
  prior event with the event.
\<close>

definition event_frontier_invalid :: "u64 \<Rightarrow> string \<Rightarrow> u64 \<Rightarrow> bool" where
  "event_frontier_invalid prior_event_sequence prior_event_hash event_sequence =
     ((prior_event_sequence = 0 \<and> prior_event_hash \<noteq> [])
      \<or> (0 < prior_event_sequence \<and> \<not> valid_blake3_hex prior_event_hash)
      \<or> checked_add prior_event_sequence 1 \<noteq> Some event_sequence)"

section \<open>Validation\<close>

definition calculate_prepare_mutation_hash :: "handoff_codec \<Rightarrow> grid_prepare_proof \<Rightarrow> grid_closure_error + string" where
  "calculate_prepare_mutation_hash codec proof =
     hash_json (hc_externals codec) (handoff_domain ''prepare-witness'')
       (hc_prepare_json codec (proof\<lparr>gpp_event_hash := [], gpp_resulting_active_world_hash := [],
                                gpp_mutation_witness_hash := [], gpp_proof_hash := []\<rparr>))"

definition calculate_prepare_hash :: "handoff_codec \<Rightarrow> grid_prepare_proof \<Rightarrow> grid_closure_error + string" where
  "calculate_prepare_hash codec proof =
     hash_json (hc_externals codec) (handoff_domain ''prepare-proof'') (hc_prepare_json codec (proof\<lparr>gpp_proof_hash := []\<rparr>))"

definition validate_grid_prepare_proof :: "handoff_codec \<Rightarrow> grid_prepare_proof \<Rightarrow> grid_closure_error + unit" where
  "validate_grid_prepare_proof codec proof =
     (let invalid = Inl (ClosureInvalid ''grid prepare proof is not canonical event-17 material'') in
      if \<not> valid_stable_id (gpp_transfer_id proof)
        \<or> \<not> valid_stable_id (gpp_root_aggregate_id proof)
        \<or> \<not> valid_blake3_hex (gpp_member_root proof)
        \<or> \<not> valid_blake3_hex (gpp_package_hash proof)
        \<or> \<not> valid_blake3_hex (gpp_source_cell_id proof)
        \<or> gpp_assignment_generation proof = 0
        \<or> gpp_fencing_token proof = 0
        \<or> event_frontier_invalid (gpp_prior_event_sequence proof) (gpp_prior_event_hash proof) (gpp_event_sequence proof)
        \<or> \<not> valid_blake3_hex (gpp_event_hash proof)
        \<or> \<not> valid_blake3_hex (gpp_event_payload_hash proof)
        \<or> \<not> valid_blake3_hex (gpp_prior_active_world_hash proof)
        \<or> \<not> valid_blake3_hex (gpp_resulting_active_world_hash proof)
        \<or> \<not> valid_blake3_hex (gpp_mutation_witness_hash proof)
      then invalid else
      try_r (calculate_prepare_mutation_hash codec proof) (\<lambda>mutation_hash.
      if gpp_mutation_witness_hash proof \<noteq> mutation_hash
        \<or> \<not> valid_blake3_hex (gpp_proof_hash proof)
      then invalid else
      try_r (calculate_prepare_hash codec proof) (\<lambda>proof_hash.
      if gpp_proof_hash proof \<noteq> proof_hash then invalid else Inr ())))"

definition validate_prepare_for_directory :: "handoff_codec \<Rightarrow> grid_prepare_proof \<Rightarrow> string + unit" where
  "validate_prepare_for_directory codec proof =
     map_err grid_closure_error_text (validate_grid_prepare_proof codec proof)"

definition calculate_quarantine_mutation_hash :: "handoff_codec \<Rightarrow> grid_quarantine_proof \<Rightarrow> grid_closure_error + string" where
  "calculate_quarantine_mutation_hash codec proof =
     hash_json (hc_externals codec) (handoff_domain ''quarantine-witness'')
       (hc_quarantine_json codec (proof\<lparr>gqp_event_hash := [], gqp_resulting_active_world_hash := [],
                                gqp_mutation_witness_hash := [], gqp_proof_hash := []\<rparr>))"

definition calculate_quarantine_hash :: "handoff_codec \<Rightarrow> grid_quarantine_proof \<Rightarrow> grid_closure_error + string" where
  "calculate_quarantine_hash codec proof =
     hash_json (hc_externals codec) (handoff_domain ''quarantine-proof'') (hc_quarantine_json codec (proof\<lparr>gqp_proof_hash := []\<rparr>))"

definition validate_grid_quarantine_proof :: "handoff_codec \<Rightarrow> grid_quarantine_proof \<Rightarrow> grid_closure_error + unit" where
  "validate_grid_quarantine_proof codec proof =
     (let invalid = Inl (ClosureInvalid ''grid quarantine proof is not canonical event-17 material'') in
      if \<not> valid_stable_id (gqp_transfer_id proof)
        \<or> \<not> valid_stable_id (gqp_root_aggregate_id proof)
        \<or> \<not> valid_blake3_hex (gqp_member_root proof)
        \<or> \<not> valid_blake3_hex (gqp_package_hash proof)
        \<or> \<not> valid_blake3_hex (gqp_destination_cell_id proof)
        \<or> gqp_assignment_generation proof = 0
        \<or> gqp_fencing_token proof = 0
        \<or> event_frontier_invalid (gqp_prior_event_sequence proof) (gqp_prior_event_hash proof) (gqp_event_sequence proof)
        \<or> \<not> valid_blake3_hex (gqp_event_hash proof)
        \<or> \<not> valid_blake3_hex (gqp_event_payload_hash proof)
        \<or> \<not> valid_blake3_hex (gqp_prior_active_world_hash proof)
        \<or> \<not> valid_blake3_hex (gqp_resulting_active_world_hash proof)
        \<or> \<not> valid_blake3_hex (gqp_quarantine_receipt_hash proof)
        \<or> gqp_quarantined_at_unix_ms proof = 0
        \<or> \<not> valid_blake3_hex (gqp_mutation_witness_hash proof)
      then invalid else
      try_r (calculate_quarantine_mutation_hash codec proof) (\<lambda>mutation_hash.
      if gqp_mutation_witness_hash proof \<noteq> mutation_hash
        \<or> \<not> valid_blake3_hex (gqp_proof_hash proof)
      then invalid else
      try_r (calculate_quarantine_hash codec proof) (\<lambda>proof_hash.
      if gqp_proof_hash proof \<noteq> proof_hash then invalid else Inr ())))"

definition validate_quarantine_for_directory :: "handoff_codec \<Rightarrow> grid_quarantine_proof \<Rightarrow> string + unit" where
  "validate_quarantine_for_directory codec proof =
     map_err grid_closure_error_text (validate_grid_quarantine_proof codec proof)"

definition calculate_export_hash :: "handoff_codec \<Rightarrow> grid_export_proof \<Rightarrow> grid_closure_error + string" where
  "calculate_export_hash codec proof =
     hash_json (hc_externals codec) (handoff_domain ''export-proof'') (hc_export_json codec (proof\<lparr>gep_proof_hash := []\<rparr>))"

definition validate_grid_export_proof :: "handoff_codec \<Rightarrow> grid_export_proof \<Rightarrow> string + unit" where
  "validate_grid_export_proof codec proof =
     (let invalid = Inl ''grid source-export proof is not canonical fenced material'' in
      if \<not> valid_stable_id (gep_transfer_id proof)
        \<or> \<not> valid_stable_id (gep_root_aggregate_id proof)
        \<or> \<not> valid_blake3_hex (gep_member_root proof)
        \<or> \<not> valid_blake3_hex (gep_package_hash proof)
        \<or> \<not> valid_blake3_hex (gep_source_cell_id proof)
        \<or> gep_assignment_generation proof = 0
        \<or> gep_fencing_token proof = 0
        \<or> event_frontier_invalid (gep_prior_event_sequence proof) (gep_prior_event_hash proof) (gep_event_sequence proof)
        \<or> \<not> valid_blake3_hex (gep_event_hash proof)
        \<or> \<not> valid_blake3_hex (gep_event_payload_hash proof)
        \<or> \<not> valid_blake3_hex (gep_prior_draft_world_hash proof)
        \<or> \<not> valid_blake3_hex (gep_resulting_active_world_hash proof)
        \<or> \<not> valid_blake3_hex (gep_quarantine_receipt_hash proof)
        \<or> gep_exported_at_unix_ms proof = 0
        \<or> \<not> valid_blake3_hex (gep_mutation_witness_hash proof)
        \<or> \<not> valid_blake3_hex (gep_proof_hash proof)
      then invalid else
      try_r (map_err grid_closure_error_text (calculate_export_hash codec proof)) (\<lambda>proof_hash.
      if gep_proof_hash proof \<noteq> proof_hash then invalid else Inr ()))"

definition calculate_import_hash :: "handoff_codec \<Rightarrow> grid_import_proof \<Rightarrow> grid_closure_error + string" where
  "calculate_import_hash codec proof =
     hash_json (hc_externals codec) (handoff_domain ''import-proof'') (hc_import_json codec (proof\<lparr>gip_proof_hash := []\<rparr>))"

definition validate_grid_import_proof :: "handoff_codec \<Rightarrow> grid_import_proof \<Rightarrow> string + unit" where
  "validate_grid_import_proof codec proof =
     (let invalid = Inl ''grid destination-import proof is not canonical fenced material'' in
      if \<not> valid_stable_id (gip_transfer_id proof)
        \<or> \<not> valid_stable_id (gip_root_aggregate_id proof)
        \<or> \<not> valid_blake3_hex (gip_member_root proof)
        \<or> \<not> valid_blake3_hex (gip_package_hash proof)
        \<or> \<not> valid_blake3_hex (gip_destination_cell_id proof)
        \<or> gip_assignment_generation proof = 0
        \<or> gip_fencing_token proof = 0
        \<or> event_frontier_invalid (gip_prior_event_sequence proof) (gip_prior_event_hash proof) (gip_event_sequence proof)
        \<or> \<not> valid_blake3_hex (gip_event_hash proof)
        \<or> \<not> valid_blake3_hex (gip_event_payload_hash proof)
        \<or> \<not> valid_blake3_hex (gip_prior_draft_world_hash proof)
        \<or> \<not> valid_blake3_hex (gip_resulting_active_world_hash proof)
        \<or> \<not> valid_blake3_hex (gip_quarantine_receipt_hash proof)
        \<or> gip_quarantined_at_unix_ms proof = 0
        \<or> \<not> valid_blake3_hex (gip_source_export_proof_hash proof)
        \<or> gip_source_exported_at_unix_ms proof = 0
        \<or> gip_imported_at_unix_ms proof < gip_quarantined_at_unix_ms proof
        \<or> gip_imported_at_unix_ms proof < gip_source_exported_at_unix_ms proof
        \<or> gip_destination_production_lifecycle_generation proof = 0
        \<or> \<not> valid_blake3_hex (gip_production_eligibility_root proof)
        \<or> \<not> valid_blake3_hex (gip_mutation_witness_hash proof)
        \<or> \<not> valid_blake3_hex (gip_proof_hash proof)
      then invalid else
      try_r (map_err grid_closure_error_text (calculate_import_hash codec proof)) (\<lambda>proof_hash.
      if gip_proof_hash proof \<noteq> proof_hash then invalid else Inr ()))"

definition calculate_activation_hash :: "handoff_codec \<Rightarrow> grid_activation_proof \<Rightarrow> grid_closure_error + string" where
  "calculate_activation_hash codec proof =
     hash_json (hc_externals codec) (handoff_domain ''activation-proof'') (hc_activation_json codec (proof\<lparr>gap_proof_hash := []\<rparr>))"

definition validate_grid_activation_proof :: "handoff_codec \<Rightarrow> grid_activation_proof \<Rightarrow> string + unit" where
  "validate_grid_activation_proof codec proof =
     (let invalid = Inl ''grid destination-activation proof is not canonical fenced material'' in
      if \<not> valid_stable_id (gap_transfer_id proof)
        \<or> \<not> valid_stable_id (gap_root_aggregate_id proof)
        \<or> \<not> valid_blake3_hex (gap_member_root proof)
        \<or> \<not> valid_blake3_hex (gap_package_hash proof)
        \<or> \<not> valid_blake3_hex (gap_destination_cell_id proof)
        \<or> gap_assignment_generation proof = 0
        \<or> gap_fencing_token proof = 0
        \<or> event_frontier_invalid (gap_prior_event_sequence proof) (gap_prior_event_hash proof) (gap_event_sequence proof)
        \<or> \<not> valid_blake3_hex (gap_event_hash proof)
        \<or> \<not> valid_blake3_hex (gap_event_payload_hash proof)
        \<or> \<not> valid_blake3_hex (gap_prior_active_world_hash proof)
        \<or> \<not> valid_blake3_hex (gap_resulting_active_world_hash proof)
        \<or> \<not> valid_blake3_hex (gap_quarantine_receipt_hash proof)
        \<or> \<not> valid_blake3_hex (gap_destination_import_proof_hash proof)
        \<or> gap_imported_at_unix_ms proof = 0
        \<or> gap_activated_at_unix_ms proof < gap_imported_at_unix_ms proof
        \<or> \<not> valid_blake3_hex (gap_production_eligibility_root proof)
        \<or> \<not> valid_blake3_hex (gap_mutation_witness_hash proof)
        \<or> \<not> valid_blake3_hex (gap_proof_hash proof)
      then invalid else
      try_r (map_err grid_closure_error_text (calculate_activation_hash codec proof)) (\<lambda>proof_hash.
      if gap_proof_hash proof \<noteq> proof_hash then invalid else Inr ()))"

definition calculate_finalization_hash :: "handoff_codec \<Rightarrow> grid_finalization_proof \<Rightarrow> grid_closure_error + string" where
  "calculate_finalization_hash codec proof =
     hash_json (hc_externals codec) (handoff_domain ''finalization-proof'') (hc_finalization_json codec (proof\<lparr>gfp_proof_hash := []\<rparr>))"

definition validate_grid_finalization_proof :: "handoff_codec \<Rightarrow> grid_finalization_proof \<Rightarrow> string + unit" where
  "validate_grid_finalization_proof codec proof =
     (let invalid = Inl ''grid source-finalization proof is not canonical fenced material'' in
      if \<not> valid_stable_id (gfp_transfer_id proof)
        \<or> \<not> valid_stable_id (gfp_root_aggregate_id proof)
        \<or> \<not> valid_blake3_hex (gfp_member_root proof)
        \<or> \<not> valid_blake3_hex (gfp_package_hash proof)
        \<or> \<not> valid_blake3_hex (gfp_source_cell_id proof)
        \<or> gfp_assignment_generation proof = 0
        \<or> gfp_fencing_token proof = 0
        \<or> event_frontier_invalid (gfp_prior_event_sequence proof) (gfp_prior_event_hash proof) (gfp_event_sequence proof)
        \<or> \<not> valid_blake3_hex (gfp_event_hash proof)
        \<or> \<not> valid_blake3_hex (gfp_event_payload_hash proof)
        \<or> \<not> valid_blake3_hex (gfp_prior_active_world_hash proof)
        \<or> \<not> valid_blake3_hex (gfp_resulting_active_world_hash proof)
        \<or> \<not> valid_blake3_hex (gfp_source_export_proof_hash proof)
        \<or> gfp_source_exported_at_unix_ms proof = 0
        \<or> \<not> valid_blake3_hex (gfp_destination_import_proof_hash proof)
        \<or> gfp_imported_at_unix_ms proof < gfp_source_exported_at_unix_ms proof
        \<or> \<not> valid_blake3_hex (gfp_destination_activation_proof_hash proof)
        \<or> gfp_activated_at_unix_ms proof < gfp_imported_at_unix_ms proof
        \<or> gfp_finalized_at_unix_ms proof < gfp_activated_at_unix_ms proof
        \<or> \<not> valid_blake3_hex (gfp_mutation_witness_hash proof)
        \<or> \<not> valid_blake3_hex (gfp_proof_hash proof)
      then invalid else
      try_r (map_err grid_closure_error_text (calculate_finalization_hash codec proof)) (\<lambda>proof_hash.
      if gfp_proof_hash proof \<noteq> proof_hash then invalid else Inr ()))"

definition calculate_abort_cleanup_hash :: "handoff_codec \<Rightarrow> grid_abort_cleanup_proof \<Rightarrow> grid_closure_error + string" where
  "calculate_abort_cleanup_hash codec proof =
     hash_json (hc_externals codec) (handoff_domain ''abort-proof'') (hc_abort_cleanup_json codec (proof\<lparr>gcp_proof_hash := []\<rparr>))"

definition validate_grid_abort_cleanup_proof :: "handoff_codec \<Rightarrow> grid_abort_cleanup_proof \<Rightarrow> string + unit" where
  "validate_grid_abort_cleanup_proof codec proof =
     (let invalid = Inl ''grid abort cleanup proof is not canonical fenced material'' in
      if \<not> valid_stable_id (gcp_transfer_id proof)
        \<or> \<not> valid_blake3_hex (gcp_member_root proof)
        \<or> \<not> valid_blake3_hex (gcp_package_hash proof)
        \<or> \<not> valid_blake3_hex (gcp_cell_id proof)
        \<or> gcp_assignment_generation proof = 0
        \<or> gcp_fencing_token proof = 0
        \<or> gcp_event_sequence proof = 0
        \<or> \<not> valid_blake3_hex (gcp_event_hash proof)
        \<or> \<not> valid_blake3_hex (gcp_event_payload_hash proof)
        \<or> event_frontier_invalid (gcp_prior_event_sequence proof) (gcp_prior_event_hash proof) (gcp_event_sequence proof)
        \<or> \<not> valid_blake3_hex (gcp_prior_draft_world_hash proof)
        \<or> \<not> valid_blake3_hex (gcp_resulting_draft_world_hash proof)
        \<or> gcp_trusted_time_unix_ms proof = 0
        \<or> \<not> valid_blake3_hex (gcp_mutation_witness_hash proof)
        \<or> (case gcp_quarantine_receipt_hash proof of None \<Rightarrow> False | Some hash \<Rightarrow> \<not> valid_blake3_hex hash)
        \<or> \<not> valid_blake3_hex (gcp_abort_witness_hash proof)
        \<or> \<not> valid_blake3_hex (gcp_proof_hash proof)
      then invalid else
      try_r (map_err grid_closure_error_text (calculate_abort_cleanup_hash codec proof)) (\<lambda>proof_hash.
      if gcp_proof_hash proof \<noteq> proof_hash then invalid else Inr ()))"

end
