(* ===== verification/DirectoryV3.thy ===== *)
theory DirectoryV3
  imports HandoffProofs BundledPlacement "HOL-Library.Product_Lexorder"
begin

text \<open>
  The directory of protocol 19 (\<open>crates/verse-simulation/src/cell_directory_v3.rs\<close>), which hands over
  a grid together with its riders as one bundle: its records, the proofs it keeps of every phase, and
  the checks of one transfer. The document and its validation follow in \<open>DirectoryV3Document\<close>, the
  transactions in \<open>DirectoryV3Stages\<close>.
\<close>

section \<open>Records\<close>

record directory_bundle =
  dbn_package_schema_version :: u32
  dbn_receipt_schema_version :: u32
  dbn_aggregate_kind :: mobile_aggregate_kind
  dbn_closure_root :: string
  dbn_conservation_root :: string
  dbn_package_hash :: string
  dbn_members :: "bundled_placement_member list"
  dbn_member_root :: string

datatype directory_phase_proof_kind =
    SourcePrepare
  | DestinationQuarantine
  | SourceExport
  | DestinationImport
  | DestinationActivation
  | SourceFinalization
  | SourceAbort
  | DestinationAbort

record directory_phase_proof =
  dpp_kind :: directory_phase_proof_kind
  dpp_transfer_id :: string
  dpp_member_root :: string
  dpp_package_hash :: string
  dpp_cell_id :: string
  dpp_assignment_generation :: u64
  dpp_fencing_token :: u64
  dpp_event_sequence :: u64
  dpp_event_hash :: string
  dpp_event_payload_hash :: "string option"
  dpp_world_hash :: string
  dpp_quarantine_receipt_hash :: "string option"
  dpp_export_proof_hash :: "string option"
  dpp_prepare_proof_hash :: "string option"
  dpp_quarantine_proof_hash :: "string option"
  dpp_import_proof_hash :: "string option"
  dpp_activation_proof_hash :: "string option"
  dpp_finalization_proof_hash :: "string option"
  dpp_destination_import_proof_hash :: "string option"
  dpp_prior_event_sequence :: "u64 option"
  dpp_prior_event_hash :: "string option"
  dpp_prior_draft_world_hash :: "string option"
  dpp_prior_active_world_hash :: "string option"
  dpp_quarantined_at_unix_ms :: "u64 option"
  dpp_imported_at_unix_ms :: "u64 option"
  dpp_destination_activated_at_unix_ms :: "u64 option"
  dpp_source_export_proof_hash :: "string option"
  dpp_source_exported_at_unix_ms :: "u64 option"
  dpp_destination_production_lifecycle_generation :: "u64 option"
  dpp_production_eligibility_root :: "string option"
  dpp_mutation_witness_hash :: "string option"
  dpp_ledger_vector :: "ledger_vector option"
  dpp_trusted_time_unix_ms :: "u64 option"
  dpp_prepared_at_simulation_tick :: "u64 option"
  dpp_abort_witness_hash :: "string option"
  dpp_abort_proof_hash :: "string option"
  dpp_resulting_draft_world_hash :: "string option"
  dpp_abort_removed_authority :: "bool option"

record cell_transfer_record_v3 =
  tv_transfer_id :: string
  tv_root_aggregate_id :: string
  tv_source_cell_key :: cell_key_v1
  tv_source_cell_id :: string
  tv_destination_cell_key :: cell_key_v1
  tv_destination_cell_id :: string
  tv_source_assignment_generation :: u64
  tv_source_fencing_token :: u64
  tv_destination_assignment_generation :: u64
  tv_destination_fencing_token :: u64
  tv_bundle :: directory_bundle
  tv_quarantine_receipt_hash :: "string option"
  tv_source_prepare_proof :: "directory_phase_proof option"
  tv_destination_quarantine_proof :: "directory_phase_proof option"
  tv_source_export_proof :: "directory_phase_proof option"
  tv_import_proof :: "directory_phase_proof option"
  tv_destination_activation_proof :: "directory_phase_proof option"
  tv_finalization_proof :: "directory_phase_proof option"
  tv_source_abort_proof :: "directory_phase_proof option"
  tv_destination_abort_proof :: "directory_phase_proof option"
  tv_phase :: transfer_phase

section \<open>Identifiers and hashes\<close>

definition validate_stable_id_v3 :: "string \<Rightarrow> string \<Rightarrow> cell_directory_error + unit" where
  "validate_stable_id_v3 value kind =
     (if value = [] \<or> 128 < length value \<or> \<not> list_all stable_id_byte value
      then Inl (InvalidDirectory (''v3 '' @ kind @ '' ID is not bounded canonical text''))
      else Inr ())"

definition validate_hash_v3 :: "string \<Rightarrow> string \<Rightarrow> cell_directory_error + unit" where
  "validate_hash_v3 value kind =
     (if \<not> valid_blake3_hex value
      then Inl (InvalidDirectory (''v3 '' @ kind @ '' hash is not canonical BLAKE3 text''))
      else Inr ())"

section \<open>The typed proofs behind a phase proof\<close>

text \<open>
  The directory keeps one record for all phases, whose optional fields belong to particular phases.
  Each function rebuilds the proof of one phase; it answers nothing when a field is missing or the
  proof does not validate.
\<close>

definition source_prepare_cell_proof ::
    "handoff_codec \<Rightarrow> directory_phase_proof \<Rightarrow> string \<Rightarrow> grid_prepare_proof option" where
  "source_prepare_cell_proof codec proof root_aggregate_id =
     Option.bind (dpp_prior_event_sequence proof) (\<lambda>prior_event_sequence.
     Option.bind (dpp_prior_event_hash proof) (\<lambda>prior_event_hash.
     Option.bind (dpp_event_payload_hash proof) (\<lambda>event_payload_hash.
     Option.bind (dpp_prior_active_world_hash proof) (\<lambda>prior_active_world_hash.
     Option.bind (dpp_prepared_at_simulation_tick proof) (\<lambda>prepared_at_simulation_tick.
     Option.bind (dpp_mutation_witness_hash proof) (\<lambda>mutation_witness_hash.
     Option.bind (dpp_prepare_proof_hash proof) (\<lambda>prepare_proof_hash.
     let typed = \<lparr>gpp_transfer_id = dpp_transfer_id proof, gpp_root_aggregate_id = root_aggregate_id,
       gpp_member_root = dpp_member_root proof, gpp_package_hash = dpp_package_hash proof,
       gpp_source_cell_id = dpp_cell_id proof, gpp_assignment_generation = dpp_assignment_generation proof,
       gpp_fencing_token = dpp_fencing_token proof, gpp_prior_event_sequence = prior_event_sequence,
       gpp_prior_event_hash = prior_event_hash, gpp_event_sequence = dpp_event_sequence proof,
       gpp_event_hash = dpp_event_hash proof, gpp_event_payload_hash = event_payload_hash,
       gpp_prior_active_world_hash = prior_active_world_hash,
       gpp_resulting_active_world_hash = dpp_world_hash proof,
       gpp_prepared_at_simulation_tick = prepared_at_simulation_tick,
       gpp_mutation_witness_hash = mutation_witness_hash, gpp_proof_hash = prepare_proof_hash\<rparr> in
     if is_ok (validate_prepare_for_directory codec typed) then Some typed else None)))))))"

definition destination_quarantine_cell_proof ::
    "handoff_codec \<Rightarrow> directory_phase_proof \<Rightarrow> string \<Rightarrow> grid_quarantine_proof option" where
  "destination_quarantine_cell_proof codec proof root_aggregate_id =
     Option.bind (dpp_prior_event_sequence proof) (\<lambda>prior_event_sequence.
     Option.bind (dpp_prior_event_hash proof) (\<lambda>prior_event_hash.
     Option.bind (dpp_event_payload_hash proof) (\<lambda>event_payload_hash.
     Option.bind (dpp_prior_active_world_hash proof) (\<lambda>prior_active_world_hash.
     Option.bind (dpp_quarantine_receipt_hash proof) (\<lambda>quarantine_receipt_hash.
     Option.bind (dpp_quarantined_at_unix_ms proof) (\<lambda>quarantined_at_unix_ms.
     Option.bind (dpp_mutation_witness_hash proof) (\<lambda>mutation_witness_hash.
     Option.bind (dpp_quarantine_proof_hash proof) (\<lambda>quarantine_proof_hash.
     let typed = \<lparr>gqp_transfer_id = dpp_transfer_id proof, gqp_root_aggregate_id = root_aggregate_id,
       gqp_member_root = dpp_member_root proof, gqp_package_hash = dpp_package_hash proof,
       gqp_destination_cell_id = dpp_cell_id proof,
       gqp_assignment_generation = dpp_assignment_generation proof,
       gqp_fencing_token = dpp_fencing_token proof, gqp_prior_event_sequence = prior_event_sequence,
       gqp_prior_event_hash = prior_event_hash, gqp_event_sequence = dpp_event_sequence proof,
       gqp_event_hash = dpp_event_hash proof, gqp_event_payload_hash = event_payload_hash,
       gqp_prior_active_world_hash = prior_active_world_hash,
       gqp_resulting_active_world_hash = dpp_world_hash proof,
       gqp_quarantine_receipt_hash = quarantine_receipt_hash,
       gqp_quarantined_at_unix_ms = quarantined_at_unix_ms,
       gqp_mutation_witness_hash = mutation_witness_hash, gqp_proof_hash = quarantine_proof_hash\<rparr> in
     if is_ok (validate_quarantine_for_directory codec typed) then Some typed else None))))))))"

definition destination_import_cell_proof ::
    "handoff_codec \<Rightarrow> directory_phase_proof \<Rightarrow> string \<Rightarrow> grid_import_proof option" where
  "destination_import_cell_proof codec proof root_aggregate_id =
     Option.bind (dpp_prior_event_sequence proof) (\<lambda>prior_event_sequence.
     Option.bind (dpp_prior_event_hash proof) (\<lambda>prior_event_hash.
     Option.bind (dpp_event_payload_hash proof) (\<lambda>event_payload_hash.
     Option.bind (dpp_prior_draft_world_hash proof) (\<lambda>prior_draft_world_hash.
     Option.bind (dpp_quarantine_receipt_hash proof) (\<lambda>quarantine_receipt_hash.
     Option.bind (dpp_quarantined_at_unix_ms proof) (\<lambda>quarantined_at_unix_ms.
     Option.bind (dpp_source_export_proof_hash proof) (\<lambda>source_export_proof_hash.
     Option.bind (dpp_source_exported_at_unix_ms proof) (\<lambda>source_exported_at_unix_ms.
     Option.bind (dpp_trusted_time_unix_ms proof) (\<lambda>trusted_time_unix_ms.
     Option.bind (dpp_destination_production_lifecycle_generation proof) (\<lambda>destination_production_lifecycle_generation.
     Option.bind (dpp_production_eligibility_root proof) (\<lambda>production_eligibility_root.
     Option.bind (dpp_mutation_witness_hash proof) (\<lambda>mutation_witness_hash.
     Option.bind (dpp_import_proof_hash proof) (\<lambda>import_proof_hash.
     Option.bind (dpp_ledger_vector proof) (\<lambda>ledger_vector.
     let typed = \<lparr>gip_transfer_id = dpp_transfer_id proof, gip_root_aggregate_id = root_aggregate_id,
       gip_member_root = dpp_member_root proof, gip_package_hash = dpp_package_hash proof,
       gip_destination_cell_id = dpp_cell_id proof,
       gip_assignment_generation = dpp_assignment_generation proof,
       gip_fencing_token = dpp_fencing_token proof, gip_prior_event_sequence = prior_event_sequence,
       gip_prior_event_hash = prior_event_hash, gip_event_sequence = dpp_event_sequence proof,
       gip_event_hash = dpp_event_hash proof, gip_event_payload_hash = event_payload_hash,
       gip_prior_draft_world_hash = prior_draft_world_hash,
       gip_resulting_active_world_hash = dpp_world_hash proof,
       gip_quarantine_receipt_hash = quarantine_receipt_hash,
       gip_quarantined_at_unix_ms = quarantined_at_unix_ms,
       gip_source_export_proof_hash = source_export_proof_hash,
       gip_source_exported_at_unix_ms = source_exported_at_unix_ms,
       gip_imported_at_unix_ms = trusted_time_unix_ms,
       gip_destination_production_lifecycle_generation = destination_production_lifecycle_generation,
       gip_production_eligibility_root = production_eligibility_root,
       gip_mutation_witness_hash = mutation_witness_hash, gip_proof_hash = import_proof_hash,
       gip_ledger_vector = ledger_vector\<rparr> in
     if is_ok (validate_grid_import_proof codec typed) then Some typed else None))))))))))))))"

definition destination_activation_cell_proof ::
    "handoff_codec \<Rightarrow> directory_phase_proof \<Rightarrow> string \<Rightarrow> grid_activation_proof option" where
  "destination_activation_cell_proof codec proof root_aggregate_id =
     Option.bind (dpp_prior_event_sequence proof) (\<lambda>prior_event_sequence.
     Option.bind (dpp_prior_event_hash proof) (\<lambda>prior_event_hash.
     Option.bind (dpp_event_payload_hash proof) (\<lambda>event_payload_hash.
     Option.bind (dpp_prior_active_world_hash proof) (\<lambda>prior_active_world_hash.
     Option.bind (dpp_quarantine_receipt_hash proof) (\<lambda>quarantine_receipt_hash.
     Option.bind (dpp_destination_import_proof_hash proof) (\<lambda>destination_import_proof_hash.
     Option.bind (dpp_imported_at_unix_ms proof) (\<lambda>imported_at_unix_ms.
     Option.bind (dpp_trusted_time_unix_ms proof) (\<lambda>trusted_time_unix_ms.
     Option.bind (dpp_production_eligibility_root proof) (\<lambda>production_eligibility_root.
     Option.bind (dpp_mutation_witness_hash proof) (\<lambda>mutation_witness_hash.
     Option.bind (dpp_activation_proof_hash proof) (\<lambda>activation_proof_hash.
     let typed = \<lparr>gap_transfer_id = dpp_transfer_id proof, gap_root_aggregate_id = root_aggregate_id,
       gap_member_root = dpp_member_root proof, gap_package_hash = dpp_package_hash proof,
       gap_destination_cell_id = dpp_cell_id proof,
       gap_assignment_generation = dpp_assignment_generation proof,
       gap_fencing_token = dpp_fencing_token proof, gap_prior_event_sequence = prior_event_sequence,
       gap_prior_event_hash = prior_event_hash, gap_event_sequence = dpp_event_sequence proof,
       gap_event_hash = dpp_event_hash proof, gap_event_payload_hash = event_payload_hash,
       gap_prior_active_world_hash = prior_active_world_hash,
       gap_resulting_active_world_hash = dpp_world_hash proof,
       gap_quarantine_receipt_hash = quarantine_receipt_hash,
       gap_destination_import_proof_hash = destination_import_proof_hash,
       gap_imported_at_unix_ms = imported_at_unix_ms, gap_activated_at_unix_ms = trusted_time_unix_ms,
       gap_production_eligibility_root = production_eligibility_root,
       gap_mutation_witness_hash = mutation_witness_hash, gap_proof_hash = activation_proof_hash\<rparr> in
     if is_ok (validate_grid_activation_proof codec typed) then Some typed else None)))))))))))"

definition source_finalization_cell_proof ::
    "handoff_codec \<Rightarrow> directory_phase_proof \<Rightarrow> string \<Rightarrow> grid_finalization_proof option" where
  "source_finalization_cell_proof codec proof root_aggregate_id =
     Option.bind (dpp_prior_event_sequence proof) (\<lambda>prior_event_sequence.
     Option.bind (dpp_prior_event_hash proof) (\<lambda>prior_event_hash.
     Option.bind (dpp_event_payload_hash proof) (\<lambda>event_payload_hash.
     Option.bind (dpp_prior_active_world_hash proof) (\<lambda>prior_active_world_hash.
     Option.bind (dpp_source_export_proof_hash proof) (\<lambda>source_export_proof_hash.
     Option.bind (dpp_source_exported_at_unix_ms proof) (\<lambda>source_exported_at_unix_ms.
     Option.bind (dpp_destination_import_proof_hash proof) (\<lambda>destination_import_proof_hash.
     Option.bind (dpp_imported_at_unix_ms proof) (\<lambda>imported_at_unix_ms.
     Option.bind (dpp_activation_proof_hash proof) (\<lambda>activation_proof_hash.
     Option.bind (dpp_destination_activated_at_unix_ms proof) (\<lambda>destination_activated_at_unix_ms.
     Option.bind (dpp_trusted_time_unix_ms proof) (\<lambda>trusted_time_unix_ms.
     Option.bind (dpp_mutation_witness_hash proof) (\<lambda>mutation_witness_hash.
     Option.bind (dpp_finalization_proof_hash proof) (\<lambda>finalization_proof_hash.
     let typed = \<lparr>gfp_transfer_id = dpp_transfer_id proof, gfp_root_aggregate_id = root_aggregate_id,
       gfp_member_root = dpp_member_root proof, gfp_package_hash = dpp_package_hash proof,
       gfp_source_cell_id = dpp_cell_id proof, gfp_assignment_generation = dpp_assignment_generation proof,
       gfp_fencing_token = dpp_fencing_token proof, gfp_prior_event_sequence = prior_event_sequence,
       gfp_prior_event_hash = prior_event_hash, gfp_event_sequence = dpp_event_sequence proof,
       gfp_event_hash = dpp_event_hash proof, gfp_event_payload_hash = event_payload_hash,
       gfp_prior_active_world_hash = prior_active_world_hash,
       gfp_resulting_active_world_hash = dpp_world_hash proof,
       gfp_source_export_proof_hash = source_export_proof_hash,
       gfp_source_exported_at_unix_ms = source_exported_at_unix_ms,
       gfp_destination_import_proof_hash = destination_import_proof_hash,
       gfp_imported_at_unix_ms = imported_at_unix_ms,
       gfp_destination_activation_proof_hash = activation_proof_hash,
       gfp_activated_at_unix_ms = destination_activated_at_unix_ms,
       gfp_finalized_at_unix_ms = trusted_time_unix_ms, gfp_mutation_witness_hash = mutation_witness_hash,
       gfp_proof_hash = finalization_proof_hash\<rparr> in
     if is_ok (validate_grid_finalization_proof codec typed) then Some typed else None)))))))))))))"

definition abort_cell_proof ::
    "handoff_codec \<Rightarrow> directory_phase_proof \<Rightarrow> grid_transfer_abort_side \<Rightarrow> grid_abort_cleanup_proof option" where
  "abort_cell_proof codec proof expected_side =
     Option.bind (dpp_event_payload_hash proof) (\<lambda>event_payload_hash.
     Option.bind (dpp_prior_event_sequence proof) (\<lambda>prior_event_sequence.
     Option.bind (dpp_prior_event_hash proof) (\<lambda>prior_event_hash.
     Option.bind (dpp_prior_draft_world_hash proof) (\<lambda>prior_draft_world_hash.
     Option.bind (dpp_resulting_draft_world_hash proof) (\<lambda>resulting_draft_world_hash.
     Option.bind (dpp_trusted_time_unix_ms proof) (\<lambda>trusted_time_unix_ms.
     Option.bind (dpp_mutation_witness_hash proof) (\<lambda>mutation_witness_hash.
     Option.bind (dpp_abort_witness_hash proof) (\<lambda>abort_witness_hash.
     Option.bind (dpp_abort_removed_authority proof) (\<lambda>abort_removed_authority.
     Option.bind (dpp_abort_proof_hash proof) (\<lambda>abort_proof_hash.
     let typed = \<lparr>gcp_side = expected_side, gcp_transfer_id = dpp_transfer_id proof,
       gcp_member_root = dpp_member_root proof, gcp_package_hash = dpp_package_hash proof,
       gcp_cell_id = dpp_cell_id proof, gcp_assignment_generation = dpp_assignment_generation proof,
       gcp_fencing_token = dpp_fencing_token proof, gcp_event_sequence = dpp_event_sequence proof,
       gcp_event_hash = dpp_event_hash proof, gcp_event_payload_hash = event_payload_hash,
       gcp_prior_event_sequence = prior_event_sequence, gcp_prior_event_hash = prior_event_hash,
       gcp_prior_draft_world_hash = prior_draft_world_hash,
       gcp_resulting_draft_world_hash = resulting_draft_world_hash,
       gcp_trusted_time_unix_ms = trusted_time_unix_ms, gcp_mutation_witness_hash = mutation_witness_hash,
       gcp_quarantine_receipt_hash = dpp_quarantine_receipt_hash proof,
       gcp_abort_witness_hash = abort_witness_hash, gcp_removed_authority = abort_removed_authority,
       gcp_proof_hash = abort_proof_hash\<rparr> in
     if is_ok (validate_grid_abort_cleanup_proof codec typed) then Some typed else None))))))))))"

section \<open>The bindings of a phase proof\<close>

text \<open>\<open>unwrap_or_default\<close> of an optional field.\<close>

definition unwrap_or :: "'a \<Rightarrow> 'a option \<Rightarrow> 'a" where
  "unwrap_or fallback x = (case x of None \<Rightarrow> fallback | Some v \<Rightarrow> v)"

definition prepare_binding_valid ::
    "handoff_codec \<Rightarrow> cell_transfer_record_v3 \<Rightarrow> directory_phase_proof_kind \<Rightarrow> directory_phase_proof \<Rightarrow> bool" where
  "prepare_binding_valid codec t expected_kind proof =
     (if expected_kind = SourcePrepare
      then source_prepare_cell_proof codec proof (tv_root_aggregate_id t) \<noteq> None
      else dpp_prepare_proof_hash proof = None \<and> dpp_prepared_at_simulation_tick proof = None)"

definition quarantine_binding_valid ::
    "handoff_codec \<Rightarrow> cell_transfer_record_v3 \<Rightarrow> directory_phase_proof_kind \<Rightarrow> directory_phase_proof \<Rightarrow> bool" where
  "quarantine_binding_valid codec t expected_kind proof =
     (if expected_kind = DestinationQuarantine
      then destination_quarantine_cell_proof codec proof (tv_root_aggregate_id t) \<noteq> None
      else dpp_quarantine_proof_hash proof = None)"

definition export_binding_valid ::
    "handoff_codec \<Rightarrow> cell_transfer_record_v3 \<Rightarrow> directory_phase_proof_kind \<Rightarrow> directory_phase_proof \<Rightarrow> bool" where
  "export_binding_valid codec t expected_kind proof =
     (if expected_kind = SourceExport
      then (case (dpp_export_proof_hash proof, dpp_mutation_witness_hash proof, dpp_ledger_vector proof) of
              (Some proof_hash, Some mutation_witness_hash, Some ledger_vector) \<Rightarrow>
                is_ok (validate_grid_export_proof codec
                  \<lparr>gep_transfer_id = dpp_transfer_id proof, gep_root_aggregate_id = tv_root_aggregate_id t,
                   gep_member_root = dpp_member_root proof, gep_package_hash = dpp_package_hash proof,
                   gep_source_cell_id = dpp_cell_id proof,
                   gep_assignment_generation = dpp_assignment_generation proof,
                   gep_fencing_token = dpp_fencing_token proof,
                   gep_prior_event_sequence = unwrap_or 0 (dpp_prior_event_sequence proof),
                   gep_prior_event_hash = unwrap_or [] (dpp_prior_event_hash proof),
                   gep_event_sequence = dpp_event_sequence proof, gep_event_hash = dpp_event_hash proof,
                   gep_event_payload_hash = unwrap_or [] (dpp_event_payload_hash proof),
                   gep_prior_draft_world_hash = unwrap_or [] (dpp_prior_draft_world_hash proof),
                   gep_resulting_active_world_hash = dpp_world_hash proof,
                   gep_quarantine_receipt_hash = unwrap_or [] (dpp_quarantine_receipt_hash proof),
                   gep_exported_at_unix_ms = unwrap_or 0 (dpp_trusted_time_unix_ms proof),
                   gep_mutation_witness_hash = mutation_witness_hash, gep_proof_hash = proof_hash,
                   gep_ledger_vector = ledger_vector\<rparr>)
            | _ \<Rightarrow> False)
      else dpp_export_proof_hash proof = None)"

definition typed_import ::
    "cell_transfer_record_v3 \<Rightarrow> directory_phase_proof \<Rightarrow> grid_import_proof option" where
  "typed_import t proof =
     Option.bind (dpp_import_proof_hash proof) (\<lambda>import_proof_hash.
     Option.bind (dpp_prior_event_sequence proof) (\<lambda>prior_event_sequence.
     Option.bind (dpp_prior_event_hash proof) (\<lambda>prior_event_hash.
     Option.bind (dpp_prior_draft_world_hash proof) (\<lambda>prior_draft_world_hash.
     Option.bind (dpp_quarantined_at_unix_ms proof) (\<lambda>quarantined_at_unix_ms.
     Option.bind (dpp_source_export_proof_hash proof) (\<lambda>source_export_proof_hash.
     Option.bind (dpp_source_exported_at_unix_ms proof) (\<lambda>source_exported_at_unix_ms.
     Option.bind (dpp_destination_production_lifecycle_generation proof) (\<lambda>destination_production_lifecycle_generation.
     Option.bind (dpp_production_eligibility_root proof) (\<lambda>production_eligibility_root.
     Option.bind (dpp_mutation_witness_hash proof) (\<lambda>mutation_witness_hash.
     Option.bind (dpp_ledger_vector proof) (\<lambda>ledger_vector.
     Option.bind (dpp_trusted_time_unix_ms proof) (\<lambda>imported_at_unix_ms.
     Some \<lparr>gip_transfer_id = dpp_transfer_id proof, gip_root_aggregate_id = tv_root_aggregate_id t,
       gip_member_root = dpp_member_root proof, gip_package_hash = dpp_package_hash proof,
       gip_destination_cell_id = dpp_cell_id proof,
       gip_assignment_generation = dpp_assignment_generation proof,
       gip_fencing_token = dpp_fencing_token proof, gip_prior_event_sequence = prior_event_sequence,
       gip_prior_event_hash = prior_event_hash, gip_event_sequence = dpp_event_sequence proof,
       gip_event_hash = dpp_event_hash proof,
       gip_event_payload_hash = unwrap_or [] (dpp_event_payload_hash proof),
       gip_prior_draft_world_hash = prior_draft_world_hash,
       gip_resulting_active_world_hash = dpp_world_hash proof,
       gip_quarantine_receipt_hash = unwrap_or [] (dpp_quarantine_receipt_hash proof),
       gip_quarantined_at_unix_ms = quarantined_at_unix_ms,
       gip_source_export_proof_hash = source_export_proof_hash,
       gip_source_exported_at_unix_ms = source_exported_at_unix_ms,
       gip_imported_at_unix_ms = imported_at_unix_ms,
       gip_destination_production_lifecycle_generation = destination_production_lifecycle_generation,
       gip_production_eligibility_root = production_eligibility_root,
       gip_mutation_witness_hash = mutation_witness_hash, gip_proof_hash = import_proof_hash,
       gip_ledger_vector = ledger_vector\<rparr>))))))))))))"

definition typed_activation ::
    "cell_transfer_record_v3 \<Rightarrow> directory_phase_proof \<Rightarrow> grid_activation_proof option" where
  "typed_activation t proof =
     Option.bind (dpp_activation_proof_hash proof) (\<lambda>activation_proof_hash.
     Option.bind (dpp_destination_import_proof_hash proof) (\<lambda>destination_import_proof_hash.
     Option.bind (dpp_prior_event_sequence proof) (\<lambda>prior_event_sequence.
     Option.bind (dpp_prior_event_hash proof) (\<lambda>prior_event_hash.
     Option.bind (dpp_prior_active_world_hash proof) (\<lambda>prior_active_world_hash.
     Option.bind (dpp_imported_at_unix_ms proof) (\<lambda>imported_at_unix_ms.
     Option.bind (dpp_production_eligibility_root proof) (\<lambda>production_eligibility_root.
     Option.bind (dpp_mutation_witness_hash proof) (\<lambda>mutation_witness_hash.
     Option.bind (dpp_trusted_time_unix_ms proof) (\<lambda>activated_at_unix_ms.
     Some \<lparr>gap_transfer_id = dpp_transfer_id proof, gap_root_aggregate_id = tv_root_aggregate_id t,
       gap_member_root = dpp_member_root proof, gap_package_hash = dpp_package_hash proof,
       gap_destination_cell_id = dpp_cell_id proof,
       gap_assignment_generation = dpp_assignment_generation proof,
       gap_fencing_token = dpp_fencing_token proof, gap_prior_event_sequence = prior_event_sequence,
       gap_prior_event_hash = prior_event_hash, gap_event_sequence = dpp_event_sequence proof,
       gap_event_hash = dpp_event_hash proof,
       gap_event_payload_hash = unwrap_or [] (dpp_event_payload_hash proof),
       gap_prior_active_world_hash = prior_active_world_hash,
       gap_resulting_active_world_hash = dpp_world_hash proof,
       gap_quarantine_receipt_hash = unwrap_or [] (dpp_quarantine_receipt_hash proof),
       gap_destination_import_proof_hash = destination_import_proof_hash,
       gap_imported_at_unix_ms = imported_at_unix_ms, gap_activated_at_unix_ms = activated_at_unix_ms,
       gap_production_eligibility_root = production_eligibility_root,
       gap_mutation_witness_hash = mutation_witness_hash, gap_proof_hash = activation_proof_hash\<rparr>)))))))))"

abbreviation is_abort_kind :: "directory_phase_proof_kind \<Rightarrow> bool" where
  "is_abort_kind expected_kind \<equiv> expected_kind = SourceAbort \<or> expected_kind = DestinationAbort"

definition import_binding_valid ::
    "handoff_codec \<Rightarrow> cell_transfer_record_v3 \<Rightarrow> directory_phase_proof_kind \<Rightarrow> directory_phase_proof \<Rightarrow> bool" where
  "import_binding_valid codec t expected_kind proof =
     (if expected_kind = DestinationImport then
        (case typed_import t proof of None \<Rightarrow> False | Some import \<Rightarrow> is_ok (validate_grid_import_proof codec import))
        \<and> (case tv_source_export_proof t of None \<Rightarrow> False
            | Some source_export \<Rightarrow>
                dpp_source_export_proof_hash proof = dpp_export_proof_hash source_export
                \<and> dpp_source_exported_at_unix_ms proof = dpp_trusted_time_unix_ms source_export)
      else if expected_kind = SourceFinalization then
        dpp_import_proof_hash proof = None \<and> dpp_prior_draft_world_hash proof = None
        \<and> dpp_quarantined_at_unix_ms proof = None \<and> dpp_source_export_proof_hash proof \<noteq> None
        \<and> dpp_source_exported_at_unix_ms proof \<noteq> None
        \<and> dpp_destination_production_lifecycle_generation proof = None
      else if expected_kind = DestinationQuarantine then
        dpp_import_proof_hash proof = None \<and> dpp_prior_draft_world_hash proof = None
        \<and> dpp_quarantined_at_unix_ms proof \<noteq> None \<and> dpp_source_export_proof_hash proof = None
        \<and> dpp_source_exported_at_unix_ms proof = None
        \<and> dpp_destination_production_lifecycle_generation proof = None
      else if is_abort_kind expected_kind \<or> expected_kind = SourceExport then
        dpp_import_proof_hash proof = None \<and> dpp_prior_draft_world_hash proof \<noteq> None
        \<and> dpp_quarantined_at_unix_ms proof = None \<and> dpp_source_export_proof_hash proof = None
        \<and> dpp_source_exported_at_unix_ms proof = None
        \<and> dpp_destination_production_lifecycle_generation proof = None
      else
        dpp_import_proof_hash proof = None \<and> dpp_prior_draft_world_hash proof = None
        \<and> dpp_quarantined_at_unix_ms proof = None \<and> dpp_source_export_proof_hash proof = None
        \<and> dpp_source_exported_at_unix_ms proof = None
        \<and> dpp_destination_production_lifecycle_generation proof = None)"

definition activation_follows_import ::
    "directory_phase_proof \<Rightarrow> directory_phase_proof \<Rightarrow> bool" where
  "activation_follows_import proof import =
     (dpp_destination_import_proof_hash proof = dpp_import_proof_hash import
      \<and> dpp_imported_at_unix_ms proof = dpp_trusted_time_unix_ms import
      \<and> dpp_production_eligibility_root proof = dpp_production_eligibility_root import
      \<and> dpp_assignment_generation import \<le> dpp_assignment_generation proof
      \<and> dpp_fencing_token import \<le> dpp_fencing_token proof
      \<and> (case dpp_prior_event_sequence proof of None \<Rightarrow> False
          | Some sequence \<Rightarrow> dpp_event_sequence import \<le> sequence)
      \<and> (dpp_prior_event_sequence proof \<noteq> Some (dpp_event_sequence import)
          \<or> (dpp_prior_event_hash proof = Some (dpp_event_hash import)
             \<and> dpp_prior_active_world_hash proof = Some (dpp_world_hash import))))"

definition activation_binding_valid ::
    "handoff_codec \<Rightarrow> cell_transfer_record_v3 \<Rightarrow> directory_phase_proof_kind \<Rightarrow> directory_phase_proof \<Rightarrow> bool" where
  "activation_binding_valid codec t expected_kind proof =
     (if expected_kind = DestinationActivation then
        (case typed_activation t proof of None \<Rightarrow> False
         | Some activation \<Rightarrow> is_ok (validate_grid_activation_proof codec activation))
        \<and> (case tv_import_proof t of None \<Rightarrow> False | Some import \<Rightarrow> activation_follows_import proof import)
      else if expected_kind = SourceFinalization then
        dpp_activation_proof_hash proof \<noteq> None \<and> dpp_destination_import_proof_hash proof \<noteq> None
        \<and> dpp_prior_active_world_hash proof \<noteq> None \<and> dpp_imported_at_unix_ms proof \<noteq> None
      else if expected_kind = SourcePrepare \<or> expected_kind = DestinationQuarantine then
        dpp_activation_proof_hash proof = None \<and> dpp_destination_import_proof_hash proof = None
        \<and> dpp_prior_active_world_hash proof \<noteq> None \<and> dpp_imported_at_unix_ms proof = None
      else
        dpp_activation_proof_hash proof = None \<and> dpp_destination_import_proof_hash proof = None
        \<and> dpp_prior_active_world_hash proof = None \<and> dpp_imported_at_unix_ms proof = None)"

definition finalization_binding_valid ::
    "handoff_codec \<Rightarrow> cell_transfer_record_v3 \<Rightarrow> directory_phase_proof_kind \<Rightarrow> directory_phase_proof \<Rightarrow> bool" where
  "finalization_binding_valid codec t expected_kind proof =
     (if expected_kind = SourceFinalization then
        (case source_finalization_cell_proof codec proof (tv_root_aggregate_id t) of None \<Rightarrow> False
         | Some finalization \<Rightarrow>
             is_ok (validate_grid_finalization_proof codec finalization)
             \<and> (case tv_source_export_proof t of None \<Rightarrow> False
                 | Some export \<Rightarrow>
                     dpp_export_proof_hash export = Some (gfp_source_export_proof_hash finalization)
                     \<and> dpp_trusted_time_unix_ms export = Some (gfp_source_exported_at_unix_ms finalization))
             \<and> (case tv_import_proof t of None \<Rightarrow> False
                 | Some import \<Rightarrow>
                     dpp_import_proof_hash import = Some (gfp_destination_import_proof_hash finalization)
                     \<and> dpp_trusted_time_unix_ms import = Some (gfp_imported_at_unix_ms finalization))
             \<and> (case tv_destination_activation_proof t of None \<Rightarrow> False
                 | Some activation \<Rightarrow>
                     dpp_activation_proof_hash activation = Some (gfp_destination_activation_proof_hash finalization)
                     \<and> dpp_trusted_time_unix_ms activation = Some (gfp_activated_at_unix_ms finalization)))
      else dpp_finalization_proof_hash proof = None \<and> dpp_destination_activated_at_unix_ms proof = None)"

text \<open>Every kind of proof has a predecessor event: \<open>has_event_predecessor\<close> of the source lists all eight.\<close>

definition event_predecessor_valid :: "directory_phase_proof \<Rightarrow> bool" where
  "event_predecessor_valid proof =
     (dpp_prior_event_sequence proof \<noteq> None \<and> dpp_prior_event_hash proof \<noteq> None)"

definition production_root_valid :: "directory_phase_proof_kind \<Rightarrow> directory_phase_proof \<Rightarrow> bool" where
  "production_root_valid expected_kind proof =
     ((expected_kind = DestinationImport \<or> expected_kind = DestinationActivation)
      = (dpp_production_eligibility_root proof \<noteq> None))"

fun shared_handoff_binding_valid :: "directory_phase_proof_kind \<Rightarrow> directory_phase_proof \<Rightarrow> bool" where
  "shared_handoff_binding_valid SourcePrepare proof =
     (dpp_mutation_witness_hash proof \<noteq> None \<and> dpp_trusted_time_unix_ms proof = None
      \<and> dpp_prepared_at_simulation_tick proof \<noteq> None)"
| "shared_handoff_binding_valid DestinationQuarantine proof =
     (dpp_mutation_witness_hash proof \<noteq> None \<and> dpp_trusted_time_unix_ms proof = None
      \<and> dpp_prepared_at_simulation_tick proof = None)"
| "shared_handoff_binding_valid _ proof =
     (dpp_mutation_witness_hash proof \<noteq> None \<and> dpp_trusted_time_unix_ms proof \<noteq> None
      \<and> dpp_prepared_at_simulation_tick proof = None)"

definition ledger_binding_valid :: "directory_phase_proof_kind \<Rightarrow> directory_phase_proof \<Rightarrow> bool" where
  "ledger_binding_valid expected_kind proof =
     ((expected_kind = SourceExport \<or> expected_kind = DestinationImport) = (dpp_ledger_vector proof \<noteq> None))"

definition abort_binding_valid ::
    "handoff_codec \<Rightarrow> directory_phase_proof_kind \<Rightarrow> directory_phase_proof \<Rightarrow> bool" where
  "abort_binding_valid codec expected_kind proof =
     (if is_abort_kind expected_kind then
        dpp_resulting_draft_world_hash proof = Some (dpp_world_hash proof)
        \<and> (case (dpp_abort_witness_hash proof, dpp_abort_removed_authority proof) of
              (Some witness_hash, Some removed_authority) \<Rightarrow>
                is_ok (validate_grid_abort_cleanup_proof codec
                  \<lparr>gcp_side = (if expected_kind = SourceAbort then SourceSide else DestinationSide),
                   gcp_transfer_id = dpp_transfer_id proof, gcp_member_root = dpp_member_root proof,
                   gcp_package_hash = dpp_package_hash proof, gcp_cell_id = dpp_cell_id proof,
                   gcp_assignment_generation = dpp_assignment_generation proof,
                   gcp_fencing_token = dpp_fencing_token proof,
                   gcp_event_sequence = dpp_event_sequence proof, gcp_event_hash = dpp_event_hash proof,
                   gcp_event_payload_hash = unwrap_or [] (dpp_event_payload_hash proof),
                   gcp_prior_event_sequence = unwrap_or 0 (dpp_prior_event_sequence proof),
                   gcp_prior_event_hash = unwrap_or [] (dpp_prior_event_hash proof),
                   gcp_prior_draft_world_hash = unwrap_or [] (dpp_prior_draft_world_hash proof),
                   gcp_resulting_draft_world_hash = dpp_world_hash proof,
                   gcp_trusted_time_unix_ms = unwrap_or 0 (dpp_trusted_time_unix_ms proof),
                   gcp_mutation_witness_hash = unwrap_or [] (dpp_mutation_witness_hash proof),
                   gcp_quarantine_receipt_hash = dpp_quarantine_receipt_hash proof,
                   gcp_abort_witness_hash = witness_hash, gcp_removed_authority = removed_authority,
                   gcp_proof_hash = unwrap_or [] (dpp_abort_proof_hash proof)\<rparr>)
            | _ \<Rightarrow> False)
      else
        dpp_abort_witness_hash proof = None \<and> dpp_abort_proof_hash proof = None
        \<and> dpp_resulting_draft_world_hash proof = None \<and> dpp_abort_removed_authority proof = None)"

definition receipt_binding_valid ::
    "cell_transfer_record_v3 \<Rightarrow> directory_phase_proof_kind \<Rightarrow> bool \<Rightarrow> directory_phase_proof \<Rightarrow> bool" where
  "receipt_binding_valid t expected_kind binds_receipt proof =
     (if expected_kind = SourceAbort then
        (case dpp_quarantine_receipt_hash proof of None \<Rightarrow> True
         | Some receipt \<Rightarrow> tv_quarantine_receipt_hash t = Some receipt)
      else if binds_receipt then dpp_quarantine_receipt_hash proof = tv_quarantine_receipt_hash t
      else dpp_quarantine_receipt_hash proof = None)"

section \<open>The checks of a transfer\<close>

abbreviation validate_optional_hash :: "string option \<times> string \<Rightarrow> cell_directory_error + unit" where
  "validate_optional_hash \<equiv> \<lambda>(hash, kind). if_some_r hash (\<lambda>hash. validate_hash_v3 hash kind)"

text \<open>The hashes of a phase proof, in the order of the source.\<close>

definition validate_phase_hashes :: "directory_phase_proof \<Rightarrow> cell_directory_error + unit" where
  "validate_phase_hashes proof =
     try_r (validate_hash_v3 (dpp_event_hash proof) ''phase event'') (\<lambda>_.
     try_r (validate_hash_v3 (dpp_world_hash proof) ''phase world'') (\<lambda>_.
     try_r (for_each_r validate_optional_hash
       [(dpp_event_payload_hash proof, ''phase event payload''),
        (dpp_prepare_proof_hash proof, ''source-prepare proof''),
        (dpp_quarantine_proof_hash proof, ''destination-quarantine proof''),
        (dpp_abort_witness_hash proof, ''abort witness''),
        (dpp_abort_proof_hash proof, ''abort cleanup proof''),
        (dpp_export_proof_hash proof, ''source-export proof''),
        (dpp_import_proof_hash proof, ''destination-import proof''),
        (dpp_activation_proof_hash proof, ''destination-activation proof''),
        (dpp_finalization_proof_hash proof, ''source-finalization proof''),
        (dpp_destination_import_proof_hash proof, ''activation destination-import proof'')]) (\<lambda>_.
     try_r (if_some_r (dpp_prior_event_hash proof) (\<lambda>hash.
              if hash \<noteq> [] then validate_hash_v3 hash ''prior phase event'' else Inr ())) (\<lambda>_.
     for_each_r validate_optional_hash
       [(dpp_prior_draft_world_hash proof, ''prior draft world''),
        (dpp_prior_active_world_hash proof, ''prior active world''),
        (dpp_source_export_proof_hash proof, ''import source-export proof''),
        (dpp_production_eligibility_root proof, ''import production eligibility''),
        (dpp_mutation_witness_hash proof, ''source-export mutation witness''),
        (dpp_resulting_draft_world_hash proof, ''resulting draft world'')]))))"

definition validate_phase_proof ::
    "handoff_codec \<Rightarrow> cell_transfer_record_v3 \<Rightarrow> directory_phase_proof option \<Rightarrow>
     directory_phase_proof_kind \<Rightarrow> string \<Rightarrow> u64 \<Rightarrow> cell_assignment_record \<Rightarrow> bool \<Rightarrow>
     cell_directory_error + unit" where
  "validate_phase_proof codec t proof expected_kind expected_cell_id minimum_generation authority binds_receipt =
     if_some_r proof (\<lambda>proof.
     try_r (validate_phase_hashes proof) (\<lambda>_.
     if dpp_kind proof \<noteq> expected_kind
        \<or> dpp_transfer_id proof \<noteq> tv_transfer_id t
        \<or> dpp_member_root proof \<noteq> dbn_member_root (tv_bundle t)
        \<or> dpp_package_hash proof \<noteq> dbn_package_hash (tv_bundle t)
        \<or> dpp_cell_id proof \<noteq> expected_cell_id
        \<or> dpp_assignment_generation proof < minimum_generation
        \<or> bt_get (asg_fencing_history authority) (dpp_assignment_generation proof)
            \<noteq> Some (dpp_fencing_token proof)
        \<or> dpp_event_sequence proof = 0
        \<or> \<not> prepare_binding_valid codec t expected_kind proof
        \<or> \<not> quarantine_binding_valid codec t expected_kind proof
        \<or> \<not> export_binding_valid codec t expected_kind proof
        \<or> \<not> import_binding_valid codec t expected_kind proof
        \<or> \<not> activation_binding_valid codec t expected_kind proof
        \<or> \<not> finalization_binding_valid codec t expected_kind proof
        \<or> \<not> event_predecessor_valid proof
        \<or> \<not> production_root_valid expected_kind proof
        \<or> \<not> shared_handoff_binding_valid expected_kind proof
        \<or> dpp_event_payload_hash proof = None
        \<or> \<not> ledger_binding_valid expected_kind proof
        \<or> \<not> abort_binding_valid codec expected_kind proof
        \<or> \<not> receipt_binding_valid t expected_kind binds_receipt proof
     then Inl (InvalidDirectory (''v3 transfer '' @ tv_transfer_id t @ '' contains an invalid phase proof''))
     else Inr ()))"

definition validate_proof_order ::
    "directory_phase_proof option \<Rightarrow> directory_phase_proof option \<Rightarrow> string \<Rightarrow> cell_directory_error + unit" where
  "validate_proof_order earlier later phase_pair =
     (case (earlier, later) of
        (Some earlier, Some later) \<Rightarrow>
          if dpp_cell_id later \<noteq> dpp_cell_id earlier
             \<or> dpp_assignment_generation later < dpp_assignment_generation earlier
             \<or> dpp_event_sequence later \<le> dpp_event_sequence earlier
          then Inl (InvalidDirectory (''v3 transfer proof order is invalid for '' @ phase_pair))
          else Inr ()
      | _ \<Rightarrow> Inr ())"

fun proof_matrix_valid :: "transfer_phase \<Rightarrow> cell_transfer_record_v3 \<Rightarrow> bool" where
  "proof_matrix_valid Prepared t =
     (tv_quarantine_receipt_hash t = None \<and> tv_destination_quarantine_proof t = None
      \<and> tv_source_export_proof t = None \<and> tv_import_proof t = None
      \<and> tv_destination_activation_proof t = None \<and> tv_finalization_proof t = None
      \<and> tv_source_abort_proof t = None \<and> tv_destination_abort_proof t = None)"
| "proof_matrix_valid Quarantined t =
     (tv_quarantine_receipt_hash t \<noteq> None \<and> tv_source_prepare_proof t \<noteq> None
      \<and> tv_destination_quarantine_proof t \<noteq> None
      \<and> tv_source_export_proof t = None \<and> tv_import_proof t = None
      \<and> tv_destination_activation_proof t = None \<and> tv_finalization_proof t = None
      \<and> tv_source_abort_proof t = None \<and> tv_destination_abort_proof t = None)"
| "proof_matrix_valid Committed t =
     (tv_quarantine_receipt_hash t \<noteq> None \<and> tv_source_prepare_proof t \<noteq> None
      \<and> tv_destination_quarantine_proof t \<noteq> None \<and> tv_import_proof t = None
      \<and> tv_destination_activation_proof t = None \<and> tv_finalization_proof t = None
      \<and> tv_source_abort_proof t = None \<and> tv_destination_abort_proof t = None)"
| "proof_matrix_valid Imported t =
     (tv_quarantine_receipt_hash t \<noteq> None \<and> tv_source_prepare_proof t \<noteq> None
      \<and> tv_destination_quarantine_proof t \<noteq> None \<and> tv_source_export_proof t \<noteq> None
      \<and> tv_import_proof t \<noteq> None \<and> tv_finalization_proof t = None
      \<and> tv_source_abort_proof t = None \<and> tv_destination_abort_proof t = None)"
| "proof_matrix_valid Finalized t =
     (tv_quarantine_receipt_hash t \<noteq> None \<and> tv_source_prepare_proof t \<noteq> None
      \<and> tv_destination_quarantine_proof t \<noteq> None \<and> tv_source_export_proof t \<noteq> None
      \<and> tv_import_proof t \<noteq> None \<and> tv_destination_activation_proof t \<noteq> None
      \<and> tv_finalization_proof t \<noteq> None
      \<and> tv_source_abort_proof t = None \<and> tv_destination_abort_proof t = None)"
| "proof_matrix_valid Aborting t =
     (tv_source_export_proof t = None \<and> tv_destination_activation_proof t = None
      \<and> tv_import_proof t = None \<and> tv_finalization_proof t = None
      \<and> (tv_quarantine_receipt_hash t \<noteq> None) = (tv_destination_quarantine_proof t \<noteq> None)
      \<and> (tv_destination_quarantine_proof t = None \<or> tv_source_prepare_proof t \<noteq> None))"
| "proof_matrix_valid Aborted t =
     (tv_source_export_proof t = None \<and> tv_destination_activation_proof t = None
      \<and> tv_import_proof t = None \<and> tv_finalization_proof t = None
      \<and> tv_source_abort_proof t \<noteq> None \<and> tv_destination_abort_proof t \<noteq> None
      \<and> (tv_quarantine_receipt_hash t \<noteq> None) = (tv_destination_quarantine_proof t \<noteq> None)
      \<and> (tv_destination_quarantine_proof t = None \<or> tv_source_prepare_proof t \<noteq> None))"

definition validate_phase_proofs ::
    "handoff_codec \<Rightarrow> cell_transfer_record_v3 \<Rightarrow> cell_assignment_record \<Rightarrow> cell_assignment_record \<Rightarrow>
     cell_directory_error + unit" where
  "validate_phase_proofs codec t source destination =
     (let at_source = (\<lambda>proof kind binds_receipt. validate_phase_proof codec t proof kind
            (tv_source_cell_id t) (tv_source_assignment_generation t) source binds_receipt);
          at_destination = (\<lambda>proof kind binds_receipt. validate_phase_proof codec t proof kind
            (tv_destination_cell_id t) (tv_destination_assignment_generation t) destination binds_receipt) in
     try_r (at_source (tv_source_prepare_proof t) SourcePrepare False) (\<lambda>_.
     try_r (at_destination (tv_destination_quarantine_proof t) DestinationQuarantine True) (\<lambda>_.
     try_r (at_source (tv_source_export_proof t) SourceExport True) (\<lambda>_.
     try_r (at_destination (tv_import_proof t) DestinationImport True) (\<lambda>_.
     try_r (at_destination (tv_destination_activation_proof t) DestinationActivation True) (\<lambda>_.
     try_r (at_source (tv_finalization_proof t) SourceFinalization False) (\<lambda>_.
     try_r (at_source (tv_source_abort_proof t) SourceAbort True) (\<lambda>_.
     try_r (at_destination (tv_destination_abort_proof t) DestinationAbort True) (\<lambda>_.
     try_r (validate_proof_order (tv_source_prepare_proof t) (tv_source_export_proof t)
              ''source prepare and export'') (\<lambda>_.
     try_r (validate_proof_order (tv_source_export_proof t) (tv_finalization_proof t)
              ''source export and finalization'') (\<lambda>_.
     try_r (validate_proof_order (tv_destination_quarantine_proof t) (tv_import_proof t)
              ''destination quarantine and import'') (\<lambda>_.
     try_r (validate_proof_order (tv_import_proof t) (tv_destination_activation_proof t)
              ''destination import and activation'') (\<lambda>_.
     try_r (validate_proof_order (tv_source_prepare_proof t) (tv_source_abort_proof t)
              ''source prepare and abort cleanup'') (\<lambda>_.
     try_r (validate_proof_order (tv_destination_quarantine_proof t) (tv_destination_abort_proof t)
              ''destination quarantine and abort cleanup'') (\<lambda>_.
     if \<not> proof_matrix_valid (tv_phase t) t
     then Inl (InvalidDirectory (''v3 transfer '' @ tv_transfer_id t
                 @ '' phase and durable proof matrix disagree''))
     else Inr ())))))))))))))))"

definition immutable_material_matches :: "cell_transfer_record_v3 \<Rightarrow> cell_transfer_record_v3 \<Rightarrow> bool" where
  "immutable_material_matches t other =
     (tv_transfer_id t = tv_transfer_id other
      \<and> tv_root_aggregate_id t = tv_root_aggregate_id other
      \<and> tv_source_cell_key t = tv_source_cell_key other
      \<and> tv_source_cell_id t = tv_source_cell_id other
      \<and> tv_destination_cell_key t = tv_destination_cell_key other
      \<and> tv_destination_cell_id t = tv_destination_cell_id other
      \<and> tv_source_assignment_generation t = tv_source_assignment_generation other
      \<and> tv_source_fencing_token t = tv_source_fencing_token other
      \<and> tv_destination_assignment_generation t = tv_destination_assignment_generation other
      \<and> tv_destination_fencing_token t = tv_destination_fencing_token other
      \<and> tv_bundle t = tv_bundle other)"

text \<open>\<open>json\<close> encodes the material of the member root.\<close>

definition bundled_plan ::
    "externals \<Rightarrow> (bundled_placement_root_material \<Rightarrow> string + string) \<Rightarrow> cell_transfer_record_v3 \<Rightarrow>
     cell_directory_error + bundled_placement_plan" where
  "bundled_plan ext json t =
     (let plan = \<lparr>bpp_root_aggregate_id = tv_root_aggregate_id t,
                   bpp_source_cell_key = tv_source_cell_key t, bpp_source_cell_id = tv_source_cell_id t,
                   bpp_destination_cell_key = tv_destination_cell_key t,
                   bpp_destination_cell_id = tv_destination_cell_id t,
                   bpp_members = dbn_members (tv_bundle t), bpp_member_root = dbn_member_root (tv_bundle t)\<rparr> in
      try_r (validate_bundled_placement_plan ext json plan) (\<lambda>_. Inr plan))"

definition receipt_phase_disagrees :: "cell_transfer_record_v3 \<Rightarrow> bool" where
  "receipt_phase_disagrees t =
     ((tv_phase t = Prepared \<and> tv_quarantine_receipt_hash t \<noteq> None)
      \<or> (tv_phase t \<in> {Quarantined, Committed, Imported, Finalized} \<and> tv_quarantine_receipt_hash t = None))"

definition validate_identity ::
    "externals \<Rightarrow> (bundled_placement_root_material \<Rightarrow> string + string) \<Rightarrow> cell_transfer_record_v3 \<Rightarrow> string \<Rightarrow>
     cell_directory_error + bundled_placement_plan" where
  "validate_identity ext json t transfer_id =
     try_r (validate_stable_id_v3 transfer_id ''transfer'') (\<lambda>_.
     try_r (validate_stable_id_v3 (tv_root_aggregate_id t) ''root aggregate'') (\<lambda>_.
     try_r (validate_hash_v3 (dbn_closure_root (tv_bundle t)) ''closure root'') (\<lambda>_.
     try_r (validate_hash_v3 (dbn_conservation_root (tv_bundle t)) ''conservation root'') (\<lambda>_.
     try_r (validate_hash_v3 (dbn_package_hash (tv_bundle t)) ''package'') (\<lambda>_.
     try_r (validate_hash_v3 (dbn_member_root (tv_bundle t)) ''member root'') (\<lambda>_.
     if tv_transfer_id t \<noteq> transfer_id
        \<or> dbn_package_schema_version (tv_bundle t) \<noteq> 2
        \<or> dbn_receipt_schema_version (tv_bundle t) \<noteq> 2
        \<or> dbn_aggregate_kind (tv_bundle t) \<noteq> Grid
        \<or> tv_source_assignment_generation t = 0
        \<or> tv_source_fencing_token t = 0
        \<or> tv_destination_assignment_generation t = 0
        \<or> tv_destination_fencing_token t = 0
     then Inl (InvalidDirectory (''v3 transfer '' @ transfer_id
                 @ '' has invalid immutable identity, schema, or authority'')) else
     try_r (if_some_r (tv_quarantine_receipt_hash t) (\<lambda>receipt_hash.
              validate_hash_v3 receipt_hash ''quarantine receipt'')) (\<lambda>_.
     if receipt_phase_disagrees t
     then Inl (InvalidDirectory (''v3 transfer '' @ transfer_id @ '' phase and receipt binding disagree'')) else
     try_r (bundled_plan ext json t) (\<lambda>plan.
     try_r (ok_or (find (\<lambda>member. bpm_aggregate_id member = bpp_root_aggregate_id plan) (bpp_members plan))
              (InvalidDirectory (''v3 transfer '' @ transfer_id @ '' omits its root''))) (\<lambda>root.
     if bpm_aggregate_kind root \<noteq> dbn_aggregate_kind (tv_bundle t)
     then Inl (InvalidDirectory (''v3 transfer '' @ transfer_id @ '' root alias and member kind disagree''))
     else Inr plan)))))))))"

definition member_matches_phase ::
    "aggregate_placement_record \<Rightarrow> bundled_placement_member \<Rightarrow> cell_transfer_record_v3 \<Rightarrow> string \<Rightarrow> bool" where
  "member_matches_phase p member t transfer_id =
     (if tv_phase t \<in> {Prepared, Quarantined, Aborting} then
        plc_state p = Preparing
        \<and> plc_cell_key p = tv_source_cell_key t
        \<and> plc_cell_id p = tv_source_cell_id t
        \<and> plc_placement_generation p = bpm_prior_placement_generation member
        \<and> plc_active_transfer_id p = Some transfer_id
      else if tv_phase t = Committed then
        plc_state p = InTransit
        \<and> plc_cell_key p = tv_destination_cell_key t
        \<and> plc_cell_id p = tv_destination_cell_id t
        \<and> plc_placement_generation p = bpm_resulting_placement_generation member
        \<and> plc_active_transfer_id p = Some transfer_id
      else if tv_phase t \<in> {Imported, Finalized} then
        bpm_resulting_placement_generation member < plc_placement_generation p
        \<or> (plc_state p = Resident
           \<and> plc_cell_key p = tv_destination_cell_key t
           \<and> plc_cell_id p = tv_destination_cell_id t
           \<and> plc_placement_generation p = bpm_resulting_placement_generation member
           \<and> plc_active_transfer_id p = None)
      else
        bpm_prior_placement_generation member < plc_placement_generation p
        \<or> (plc_state p = Resident
           \<and> plc_cell_key p = tv_source_cell_key t
           \<and> plc_cell_id p = tv_source_cell_id t
           \<and> plc_placement_generation p = bpm_prior_placement_generation member
           \<and> plc_active_transfer_id p = None))"

definition are_face_neighbors :: "cell_key_v1 \<Rightarrow> cell_key_v1 \<Rightarrow> bool" where
  "are_face_neighbors source destination =
     list_ex (\<lambda>offset. neighbor_cell_key source offset = Inr destination)
       [(-1, 0, 0), (1, 0, 0), (0, -1, 0), (0, 1, 0), (0, 0, -1), (0, 0, 1)]"

end
