(* ===== verification/DirectoryV3Document.thy ===== *)
theory DirectoryV3Document
  imports DirectoryV3
begin

text \<open>
  The document of the directory of protocol 19 and its validation (\<open>CellDirectoryDocumentV3\<close> of
  \<open>cell_directory_v3.rs\<close>): the sealing hash, the assignments, the floors a migration left, the
  placements, and the history of the transfers that moved them.
\<close>

section \<open>Records\<close>

record migration_placement_floor =
  mpf_aggregate_id :: string
  mpf_aggregate_kind :: mobile_aggregate_kind
  mpf_cell_key :: cell_key_v1
  mpf_cell_id :: string
  mpf_placement_generation :: u64

record directory_migration_genesis =
  mig_schema_version :: u32
  mig_source_directory_revision :: u64
  mig_source_directory_document_hash :: string
  mig_source_terminal_transfer_count :: u64
  mig_source_terminal_transfer_root :: string
  mig_source_terminal_transfer_ids :: "(string, unit) btree_map"
  mig_source_assignment_root :: string
  mig_source_placement_root :: string
  mig_target_assignment_root :: string
  mig_target_placement_root :: string
  mig_identity_map_root :: string
  mig_production_origin_root :: string
  mig_normalized_gameplay_root :: string
  mig_placement_floors :: "(string, migration_placement_floor) btree_map"
  mig_record_hash :: string

record cell_directory_document_v3 =
  dv_schema_version :: u32
  dv_universe_id :: string
  dv_universe_manifest_hash :: string
  dv_directory_revision :: u64
  dv_assignments :: "(string, cell_assignment_record) btree_map"
  dv_placements :: "(string, aggregate_placement_record) btree_map"
  dv_transfers :: "(string, cell_transfer_record_v3) btree_map"
  dv_migration_genesis :: "directory_migration_genesis option"
  dv_document_hash :: string

text \<open>The encoders of the directory, \<open>serde_json::to_vec\<close> on each of the types it hashes.\<close>

record directory_codec =
  dc_handoff :: handoff_codec
  dc_plan_json :: "bundled_placement_root_material \<Rightarrow> string + string"
  dc_document_json :: "cell_directory_document_v3 \<Rightarrow> string + string"
  dc_genesis_json :: "directory_migration_genesis \<Rightarrow> string + string"
  dc_assignments_json :: "(string, cell_assignment_record) btree_map \<Rightarrow> string + string"
  dc_placements_json :: "(string, aggregate_placement_record) btree_map \<Rightarrow> string + string"

abbreviation dc_ext :: "directory_codec \<Rightarrow> externals" where
  "dc_ext codec \<equiv> hc_externals (dc_handoff codec)"

section \<open>The migration genesis\<close>

definition hash_directory_genesis :: "externals \<Rightarrow> string \<Rightarrow> string + string \<Rightarrow> cell_directory_error + string" where
  "hash_directory_genesis ext domain bytes =
     try_r (map_err (\<lambda>source. InvalidDirectory (''directory genesis root cannot encode: '' @ source)) bytes) (\<lambda>bytes.
     Inr (ext_blake3_hex ext (domain @ bytes)))"

definition genesis_domain :: "string \<Rightarrow> string" where
  "genesis_domain name = ''the-verse/protocol-19-directory-genesis-'' @ name @ ''/v1'' @ [CHR 0x00]"

definition calculate_genesis_hash ::
    "directory_codec \<Rightarrow> directory_migration_genesis \<Rightarrow> cell_directory_error + string" where
  "calculate_genesis_hash codec genesis =
     hash_directory_genesis (dc_ext codec) (genesis_domain ''record'')
       (dc_genesis_json codec (genesis\<lparr>mig_record_hash := []\<rparr>))"

definition placement_floor_invalid :: "string \<Rightarrow> migration_placement_floor \<Rightarrow> bool" where
  "placement_floor_invalid aggregate_id floor =
     (mpf_aggregate_id floor \<noteq> aggregate_id
      \<or> mpf_placement_generation floor \<le> 1
      \<or> mpf_cell_id floor = []
      \<or> key_universe_id (mpf_cell_key floor) = [])"

definition validate_genesis ::
    "directory_codec \<Rightarrow> directory_migration_genesis \<Rightarrow> cell_directory_error + unit" where
  "validate_genesis codec genesis =
     (let invalid = Inl (InvalidDirectory ''directory-v3 migration genesis record is invalid'') in
      if mig_schema_version genesis \<noteq> 1
         \<or> mig_source_directory_revision genesis = 0
         \<or> \<not> list_all valid_blake3_hex
              [mig_source_directory_document_hash genesis, mig_source_terminal_transfer_root genesis,
               mig_source_assignment_root genesis, mig_source_placement_root genesis,
               mig_target_assignment_root genesis, mig_target_placement_root genesis,
               mig_identity_map_root genesis, mig_production_origin_root genesis,
               mig_normalized_gameplay_root genesis, mig_record_hash genesis]
      then invalid else
      try_r (calculate_genesis_hash codec genesis) (\<lambda>record_hash.
      if mig_record_hash genesis \<noteq> record_hash
         \<or> unat (mig_source_terminal_transfer_count genesis) \<noteq> bt_len (mig_source_terminal_transfer_ids genesis)
         \<or> list_ex (\<lambda>transfer_id. \<not> is_ok (validate_stable_id_v3 transfer_id ''transfer''))
              (bt_keys (mig_source_terminal_transfer_ids genesis))
         \<or> bt_any placement_floor_invalid (mig_placement_floors genesis)
      then invalid else Inr ()))"

definition placement_floor_of :: "string \<times> aggregate_placement_record \<Rightarrow> string \<times> migration_placement_floor" where
  "placement_floor_of = (\<lambda>(aggregate_id, p).
     (aggregate_id, \<lparr>mpf_aggregate_id = aggregate_id, mpf_aggregate_kind = plc_aggregate_kind p,
                     mpf_cell_key = plc_cell_key p, mpf_cell_id = plc_cell_id p,
                     mpf_placement_generation = plc_placement_generation p\<rparr>))"

definition expected_floors ::
    "(string, aggregate_placement_record) btree_map \<Rightarrow> (string, migration_placement_floor) btree_map" where
  "expected_floors placements =
     fold (\<lambda>(aggregate_id, floor). bt_insert aggregate_id floor)
       (map placement_floor_of (filter (\<lambda>(_, p). 1 < plc_placement_generation p) (bt_entries placements)))
       bt_empty"

definition validate_floor ::
    "cell_directory_document_v3 \<Rightarrow> string \<Rightarrow> migration_placement_floor \<Rightarrow> cell_directory_error + unit" where
  "validate_floor document aggregate_id floor =
     try_r (ok_or (bt_get (dv_placements document) aggregate_id)
              (InvalidDirectory (''directory-v3 migration floor '' @ aggregate_id @ '' has no current placement''))) (\<lambda>p.
     try_r (ok_or (bt_get (dv_assignments document) (mpf_cell_id floor))
              (InvalidDirectory (''directory-v3 migration floor '' @ aggregate_id @ '' has no genesis cell''))) (\<lambda>a.
     if mpf_cell_key floor \<noteq> asg_cell_key a
        \<or> mpf_aggregate_kind floor \<noteq> plc_aggregate_kind p
        \<or> plc_placement_generation p < mpf_placement_generation floor
        \<or> (plc_placement_generation p = mpf_placement_generation floor
           \<and> (plc_cell_id p \<noteq> mpf_cell_id floor \<or> plc_cell_key p \<noteq> mpf_cell_key floor))
     then Inl (InvalidDirectory (''directory-v3 migration floor '' @ aggregate_id
                 @ '' disagrees with placement history''))
     else Inr ()))"

definition validate_genesis_roots ::
    "directory_codec \<Rightarrow> cell_directory_document_v3 \<Rightarrow> directory_migration_genesis \<Rightarrow> cell_directory_error + unit" where
  "validate_genesis_roots codec document genesis =
     (let invalid = Inl (InvalidDirectory ''directory-v3 migration genesis roots differ from revision one'') in
      try_r (hash_directory_genesis (dc_ext codec) (genesis_domain ''assignments'')
               (dc_assignments_json codec (dv_assignments document))) (\<lambda>assignment_root.
      if mig_target_assignment_root genesis \<noteq> assignment_root then invalid else
      try_r (hash_directory_genesis (dc_ext codec) (genesis_domain ''placements'')
               (dc_placements_json codec (dv_placements document))) (\<lambda>placement_root.
      if mig_target_placement_root genesis \<noteq> placement_root then invalid else
      if mig_placement_floors genesis \<noteq> expected_floors (dv_placements document)
      then Inl (InvalidDirectory ''directory-v3 migration placement floors are incomplete'')
      else Inr ())))"

definition validate_migration_genesis ::
    "directory_codec \<Rightarrow> cell_directory_document_v3 \<Rightarrow> cell_directory_error + unit" where
  "validate_migration_genesis codec document =
     if_some_r (dv_migration_genesis document) (\<lambda>genesis.
     try_r (validate_genesis codec genesis) (\<lambda>_.
     try_r (if dv_directory_revision document = 1 then validate_genesis_roots codec document genesis
            else Inr ()) (\<lambda>_.
     bt_for_each (validate_floor document) (mig_placement_floors genesis))))"

section \<open>Assignments and placements\<close>

text \<open>The body of the loop over generations; the state is \<open>prior_fence\<close>.\<close>

definition validate_fence :: "string \<Rightarrow> cell_assignment_record \<Rightarrow> u64 \<Rightarrow> u64 \<Rightarrow> cell_directory_error + u64" where
  "validate_fence cid stored generation prior_fence =
     try_r (ok_or (bt_get (asg_fencing_history stored) generation)
              (InvalidDirectory (''v3 assigned cell '' @ cid @ '' has a fence gap''))) (\<lambda>fence.
     if fence \<le> prior_fence
     then Inl (InvalidDirectory (''v3 assigned cell '' @ cid @ '' has a non-increasing fence''))
     else Inr fence)"

text \<open>The values of \<open>1..=newest\<close>.\<close>

definition generations_to :: "u64 \<Rightarrow> u64 list" where
  "generations_to newest = map word_of_nat [1..<Suc (unat newest)]"

definition validate_assignment_state_v3 :: "string \<Rightarrow> cell_assignment_record \<Rightarrow> cell_directory_error + unit" where
  "validate_assignment_state_v3 cid stored =
     (case asg_state stored of
        Sleeping \<Rightarrow>
          if asg_holder_id stored \<noteq> None
          then Inl (InvalidDirectory (''v3 sleeping assignment '' @ cid @ '' retains authority''))
          else Inr ()
      | Assigned \<Rightarrow>
          if asg_assignment_generation stored = 0
             \<or> asg_authority_fencing_token stored = 0
             \<or> asg_holder_id stored = None \<or> asg_holder_id stored = Some []
          then Inl (InvalidDirectory (''v3 assigned cell '' @ cid @ '' has invalid authority history''))
          else Inr ()
      | _ \<Rightarrow> Inl (InvalidDirectory (''v3 cell '' @ cid @ '' retained an incomplete authority transition'')))"

definition validate_assignment_v3 ::
    "directory_codec \<Rightarrow> cell_directory_document_v3 \<Rightarrow> string \<Rightarrow> cell_assignment_record \<Rightarrow>
     cell_directory_error + unit" where
  "validate_assignment_v3 codec document cid stored =
     try_r (map_err (\<lambda>source. InvalidDirectory (celestial_error_text source))
              (validate_cell_key (asg_cell_key stored))) (\<lambda>_.
     try_r (directory_cell_id (dc_ext codec) (asg_cell_key stored)) (\<lambda>derived.
     if cid \<noteq> derived \<or> asg_cell_id stored \<noteq> cid
        \<or> key_universe_id (asg_cell_key stored) \<noteq> dv_universe_id document
     then Inl (InvalidDirectory (''v3 assignment '' @ cid @ '' has inconsistent cell identity'')) else
     try_r (validate_assignment_state_v3 cid stored) (\<lambda>_.
     if bt_len (asg_fencing_history stored) \<noteq> unat (asg_assignment_generation stored)
        \<or> (case bt_get (asg_fencing_history stored) (asg_assignment_generation stored) of
              None \<Rightarrow> 0 | Some fence \<Rightarrow> fence) \<noteq> asg_authority_fencing_token stored
     then Inl (InvalidDirectory (''v3 cell '' @ cid @ '' has an incomplete authority history'')) else
     try_r (fold_r (validate_fence cid stored) (generations_to (asg_assignment_generation stored)) 0)
       (\<lambda>_. Inr ()))))"

definition validate_assignments :: "directory_codec \<Rightarrow> cell_directory_document_v3 \<Rightarrow> cell_directory_error + unit" where
  "validate_assignments codec document =
     (if bt_len (dv_assignments document) = 0
      then Inl (InvalidDirectory ''v3 directory has no cell assignments'')
      else bt_for_each (validate_assignment_v3 codec document) (dv_assignments document))"

definition validate_placement_v3 ::
    "cell_directory_document_v3 \<Rightarrow> string \<Rightarrow> aggregate_placement_record \<Rightarrow> cell_directory_error + unit" where
  "validate_placement_v3 document aggregate_id p =
     try_r (validate_stable_id_v3 aggregate_id ''aggregate'') (\<lambda>_.
     try_r (ok_or (bt_get (dv_assignments document) (plc_cell_id p))
              (InvalidDirectory (''v3 placement '' @ aggregate_id @ '' references an unknown cell''))) (\<lambda>a.
     if plc_aggregate_id p \<noteq> aggregate_id
        \<or> plc_placement_generation p = 0
        \<or> plc_cell_key p \<noteq> asg_cell_key a
     then Inl (InvalidDirectory (''v3 placement '' @ aggregate_id @ '' has invalid identity or generation''))
     else if (case plc_state p of
                Resident \<Rightarrow> plc_active_transfer_id p = None
              | Preparing \<Rightarrow> plc_active_transfer_id p \<noteq> None
              | InTransit \<Rightarrow> plc_active_transfer_id p \<noteq> None)
     then Inr ()
     else Inl (InvalidDirectory (''v3 placement '' @ aggregate_id @ '' state and transfer binding disagree''))))"

definition validate_placements :: "cell_directory_document_v3 \<Rightarrow> cell_directory_error + unit" where
  "validate_placements document = bt_for_each (validate_placement_v3 document) (dv_placements document)"

section \<open>The history of a placement\<close>

text \<open>
  The index of advances: an aggregate, its generation and the cell it left, with the generation and
  the cell it reached.
\<close>

type_synonym advance_index = "(string \<times> u64 \<times> string, u64 \<times> string) btree_map"

definition saturating_succ :: "u64 \<Rightarrow> u64" where
  "saturating_succ generation = (case checked_add generation 1 of None \<Rightarrow> - 1 | Some g \<Rightarrow> g)"

function validate_later_member_history ::
    "string \<Rightarrow> u64 \<Rightarrow> string \<Rightarrow> aggregate_placement_record \<Rightarrow> advance_index \<Rightarrow> cell_directory_error + unit" where
  "validate_later_member_history aggregate_id generation current_cell_id p advance_index =
     (if generation < plc_placement_generation p then
        case bt_get advance_index (aggregate_id, generation, current_cell_id) of
          None \<Rightarrow> Inl (InvalidDirectory (''v3 placement '' @ aggregate_id
                    @ '' skips a durable transfer generation''))
        | Some (next_generation, next_cell_id) \<Rightarrow>
            if next_generation \<noteq> saturating_succ generation
            then Inl (InvalidDirectory (''v3 placement '' @ aggregate_id
                       @ '' has a non-contiguous transfer history''))
            else validate_later_member_history aggregate_id next_generation next_cell_id p advance_index
      else if generation \<noteq> plc_placement_generation p \<or> current_cell_id \<noteq> plc_cell_id p
      then Inl (InvalidDirectory (''v3 placement '' @ aggregate_id
                 @ '' history does not reach its current cell''))
      else Inr ())"
  by pat_completeness auto

lemma saturating_succ_below:
  assumes "generation < limit"
  shows "unat (saturating_succ generation) = Suc (unat generation)"
proof -
  have "unat generation < unat limit" using assms by (simp add: word_less_nat_alt)
  moreover have "unat limit < 2 ^ LENGTH(64)" by (rule unsigned_less)
  ultimately have "checked_add generation 1 \<noteq> None" unfolding checked_add_None_iff by simp
  then show ?thesis by (auto simp: saturating_succ_def dest: checked_succ_unat split: option.splits)
qed

termination validate_later_member_history
proof (relation "measure (\<lambda>(_, generation, _, p, _). unat (plc_placement_generation p) - unat generation)")
  fix aggregate_id generation current_cell_id p advance_index x next_generation next_cell_id
  assume "generation < plc_placement_generation p" and "\<not> next_generation \<noteq> saturating_succ generation"
  then show "((aggregate_id, next_generation, next_cell_id, p, advance_index),
      aggregate_id, generation, current_cell_id, p, advance_index)
    \<in> measure (\<lambda>(_, generation, _, p, _). unat (plc_placement_generation p) - unat generation)"
    using saturating_succ_below [of generation "plc_placement_generation p"]
    by (simp add: word_less_nat_alt)
qed simp

declare validate_later_member_history.simps [simp del]

section \<open>Transfers\<close>

text \<open>\<open>moved\<close>: the phases in which a transfer has moved its members.\<close>

abbreviation moved :: "cell_transfer_record_v3 \<Rightarrow> bool" where
  "moved t \<equiv> tv_phase t \<in> {Committed, Imported, Finalized}"

definition member_precedes_floor ::
    "directory_migration_genesis option \<Rightarrow> bundled_placement_member \<Rightarrow> bool" where
  "member_precedes_floor genesis member =
     (case genesis of None \<Rightarrow> False
      | Some genesis \<Rightarrow>
          (case bt_get (mig_placement_floors genesis) (bpm_aggregate_id member) of None \<Rightarrow> False
           | Some floor \<Rightarrow> bpm_prior_placement_generation member < mpf_placement_generation floor))"

definition index_member ::
    "cell_transfer_record_v3 \<Rightarrow> bundled_placement_member \<Rightarrow> advance_index \<Rightarrow>
     cell_directory_error + advance_index" where
  "index_member t member advance_index =
     (let key = (bpm_aggregate_id member, bpm_prior_placement_generation member, tv_source_cell_id t) in
      if bt_contains advance_index key
      then Inl (InvalidDirectory (''v3 transfer history is ambiguous for member '' @ bpm_aggregate_id member))
      else Inr (bt_insert key (bpm_resulting_placement_generation member, tv_destination_cell_id t) advance_index))"

text \<open>
  The first loop over the transfers: the state is \<open>total_memberships\<close>, \<open>plans\<close> and \<open>advance_index\<close>.
  The number of memberships is a natural number: a plan has at most 128 members and the sum is
  bounded after each, so that the checked addition of the source cannot overflow. Bounds are
  compared as integers, which evaluate in binary.
\<close>

definition index_transfer ::
    "directory_codec \<Rightarrow> cell_directory_document_v3 \<Rightarrow> string \<times> cell_transfer_record_v3 \<Rightarrow>
     nat \<times> (string, bundled_placement_plan) btree_map \<times> advance_index \<Rightarrow>
     cell_directory_error + nat \<times> (string, bundled_placement_plan) btree_map \<times> advance_index" where
  "index_transfer codec document = (\<lambda>(transfer_id, t) (total_memberships, plans, advance_index).
     if (case dv_migration_genesis document of None \<Rightarrow> False
         | Some genesis \<Rightarrow> bt_contains (mig_source_terminal_transfer_ids genesis) transfer_id)
     then Inl (InvalidDirectory (''v3 transfer '' @ transfer_id @ '' reuses a frozen source transfer identity'')) else
     try_r (validate_identity (dc_ext codec) (dc_plan_json codec) t transfer_id) (\<lambda>plan.
     if list_ex (member_precedes_floor (dv_migration_genesis document)) (bpp_members plan)
     then Inl (InvalidDirectory (''v3 transfer '' @ transfer_id @ '' precedes a receipt-bound migration floor'')) else
     let total_memberships = total_memberships + length (bpp_members plan) in
     if 8192 < int total_memberships
     then Inl (InvalidDirectory ''v3 directory exceeds its transfer membership bound'') else
     try_r (if moved t then fold_r (index_member t) (bpp_members plan) advance_index
            else Inr advance_index) (\<lambda>advance_index.
     Inr (total_memberships, bt_insert transfer_id plan plans, advance_index))))"

definition terminal_start ::
    "cell_transfer_record_v3 \<Rightarrow> bundled_placement_member \<Rightarrow> aggregate_placement_record \<Rightarrow> (u64 \<times> string) option" where
  "terminal_start t member p =
     (if tv_phase t \<in> {Imported, Finalized}
         \<and> bpm_resulting_placement_generation member < plc_placement_generation p
      then Some (bpm_resulting_placement_generation member, tv_destination_cell_id t)
      else if tv_phase t = Aborted \<and> bpm_prior_placement_generation member < plc_placement_generation p
      then Some (bpm_prior_placement_generation member, tv_source_cell_id t)
      else None)"

definition validate_transfer_member ::
    "cell_directory_document_v3 \<Rightarrow> advance_index \<Rightarrow> string \<Rightarrow> cell_transfer_record_v3 \<Rightarrow>
     bundled_placement_member \<Rightarrow> cell_directory_error + unit" where
  "validate_transfer_member document advance_index transfer_id t member =
     try_r (ok_or (bt_get (dv_placements document) (bpm_aggregate_id member))
              (InvalidDirectory (''v3 transfer '' @ transfer_id @ '' member '' @ bpm_aggregate_id member
                 @ '' has no placement''))) (\<lambda>p.
     if plc_aggregate_kind p \<noteq> bpm_aggregate_kind member \<or> \<not> member_matches_phase p member t transfer_id
     then Inl (InvalidDirectory (''v3 transfer '' @ transfer_id @ '' member '' @ bpm_aggregate_id member
                 @ '' disagrees with its phase''))
     else if_some_r (terminal_start t member p) (\<lambda>(generation, cid).
            validate_later_member_history (bpm_aggregate_id member) generation cid p advance_index))"

definition route_invalid ::
    "cell_transfer_record_v3 \<Rightarrow> cell_assignment_record \<Rightarrow> cell_assignment_record \<Rightarrow> bool" where
  "route_invalid t source destination =
     (asg_cell_key source \<noteq> tv_source_cell_key t
      \<or> asg_cell_key destination \<noteq> tv_destination_cell_key t
      \<or> bt_get (asg_fencing_history source) (tv_source_assignment_generation t)
          \<noteq> Some (tv_source_fencing_token t)
      \<or> bt_get (asg_fencing_history destination) (tv_destination_assignment_generation t)
          \<noteq> Some (tv_destination_fencing_token t)
      \<or> \<not> are_face_neighbors (tv_source_cell_key t) (tv_destination_cell_key t)
      \<or> (tv_phase t \<notin> {Finalized, Aborted}
         \<and> (asg_state source \<noteq> Assigned \<or> asg_state destination \<noteq> Assigned)))"

text \<open>
  The second loop over the transfers. A transfer without an indexed plan is a panic of the source;
  the first loop has indexed every one, so the branch is never taken.
\<close>

definition validate_transfer_v3 ::
    "directory_codec \<Rightarrow> cell_directory_document_v3 \<Rightarrow> (string, bundled_placement_plan) btree_map \<Rightarrow>
     advance_index \<Rightarrow> string \<Rightarrow> cell_transfer_record_v3 \<Rightarrow> cell_directory_error + unit" where
  "validate_transfer_v3 codec document plans advance_index transfer_id t =
     try_r (ok_or (bt_get plans transfer_id) (InvalidDirectory ''validated v3 transfer plan is indexed'')) (\<lambda>plan.
     try_r (ok_or (bt_get (dv_assignments document) (tv_source_cell_id t))
              (InvalidDirectory (''v3 transfer '' @ transfer_id @ '' source cell is unknown''))) (\<lambda>source.
     try_r (ok_or (bt_get (dv_assignments document) (tv_destination_cell_id t))
              (InvalidDirectory (''v3 transfer '' @ transfer_id @ '' destination cell is unknown''))) (\<lambda>destination.
     if route_invalid t source destination
     then Inl (InvalidDirectory (''v3 transfer '' @ transfer_id
                 @ '' cell route or historical authority is invalid'')) else
     try_r (validate_phase_proofs (dc_handoff codec) t source destination) (\<lambda>_.
     try_r (for_each_r (validate_transfer_member document advance_index transfer_id t) (bpp_members plan)) (\<lambda>_.
     if bt_any (\<lambda>aggregate_id p. plc_active_transfer_id p = Some transfer_id
            \<and> \<not> list_ex (\<lambda>member. bpm_aggregate_id member = aggregate_id) (bpp_members plan))
          (dv_placements document)
     then Inl (InvalidDirectory (''v3 transfer '' @ transfer_id @ '' is active on a nonmember placement''))
     else Inr ())))))"

definition validate_origin ::
    "string \<Rightarrow> aggregate_placement_record \<Rightarrow> advance_index \<Rightarrow> cell_directory_error + unit" where
  "validate_origin aggregate_id p advance_index =
     (case filter (\<lambda>(candidate_id, generation, _). candidate_id = aggregate_id \<and> generation = 1)
             (bt_keys advance_index) of
        [] \<Rightarrow> Inl (InvalidDirectory (''v3 placement '' @ aggregate_id
                @ '' has no durable generation-one origin''))
      | [(_, _, origin_cell_id)] \<Rightarrow>
          validate_later_member_history aggregate_id 1 origin_cell_id p advance_index
      | _ \<Rightarrow> Inl (InvalidDirectory (''v3 placement '' @ aggregate_id
               @ '' has ambiguous generation-one history'')))"

definition floor_of ::
    "cell_directory_document_v3 \<Rightarrow> string \<Rightarrow> migration_placement_floor option" where
  "floor_of document aggregate_id =
     Option.bind (dv_migration_genesis document) (\<lambda>genesis. bt_get (mig_placement_floors genesis) aggregate_id)"

definition validate_placement_history ::
    "cell_directory_document_v3 \<Rightarrow> advance_index \<Rightarrow> string \<Rightarrow> aggregate_placement_record \<Rightarrow>
     cell_directory_error + unit" where
  "validate_placement_history document advance_index aggregate_id p =
     try_r (if 1 < plc_placement_generation p then
              (case floor_of document aggregate_id of
                 Some floor \<Rightarrow> validate_later_member_history aggregate_id (mpf_placement_generation floor)
                                 (mpf_cell_id floor) p advance_index
               | None \<Rightarrow> validate_origin aggregate_id p advance_index)
            else Inr ()) (\<lambda>_.
     if_some_r (plc_active_transfer_id p) (\<lambda>transfer_id.
     try_r (ok_or (bt_get (dv_transfers document) transfer_id)
              (InvalidDirectory (''v3 active placement '' @ aggregate_id
                 @ '' references an unknown transfer''))) (\<lambda>t.
     if \<not> list_ex (\<lambda>member. bpm_aggregate_id member = aggregate_id) (dbn_members (tv_bundle t))
     then Inl (InvalidDirectory (''v3 active placement '' @ aggregate_id @ '' is absent from its transfer''))
     else Inr ())))"

definition validate_transfers :: "directory_codec \<Rightarrow> cell_directory_document_v3 \<Rightarrow> cell_directory_error + unit" where
  "validate_transfers codec document =
     try_r (fold_r (index_transfer codec document) (bt_entries (dv_transfers document)) (0, bt_empty, bt_empty))
       (\<lambda>(_, plans, advance_index).
     try_r (bt_for_each (validate_transfer_v3 codec document plans advance_index) (dv_transfers document)) (\<lambda>_.
     bt_for_each (validate_placement_history document advance_index) (dv_placements document)))"

section \<open>The document\<close>

text \<open>Whether a text is empty after \<open>trim\<close>: its UTF-8 bytes encode white space only.\<close>

fun blank_text :: "string \<Rightarrow> bool" where
  "blank_text [] = True"
| "blank_text (a # rest) =
     (if CHR 0x09 \<le> a \<and> a \<le> CHR 0x0D \<or> a = CHR 0x20 then blank_text rest
      else case rest of
        b # rest1 \<Rightarrow>
          if a = CHR 0xC2 \<and> (b = CHR 0x85 \<or> b = CHR 0xA0) then blank_text rest1
          else (case rest1 of
            c # rest2 \<Rightarrow>
              (if a = CHR 0xE1 \<and> b = CHR 0x9A \<and> c = CHR 0x80
                  \<or> a = CHR 0xE2 \<and> b = CHR 0x80
                    \<and> (CHR 0x80 \<le> c \<and> c \<le> CHR 0x8A \<or> c = CHR 0xA8 \<or> c = CHR 0xA9 \<or> c = CHR 0xAF)
                  \<or> a = CHR 0xE2 \<and> b = CHR 0x81 \<and> c = CHR 0x9F
                  \<or> a = CHR 0xE3 \<and> b = CHR 0x80 \<and> c = CHR 0x80
               then blank_text rest2 else False)
          | [] \<Rightarrow> False)
      | [] \<Rightarrow> False)"

definition document_domain :: string where
  "document_domain = ''the-verse/cell-directory-document/v3'' @ [CHR 0x00]"

definition calculate_document_hash ::
    "directory_codec \<Rightarrow> cell_directory_document_v3 \<Rightarrow> cell_directory_error + string" where
  "calculate_document_hash codec document =
     try_r (map_err (\<lambda>source. InvalidDirectory (''v3 directory hash material cannot be encoded: '' @ source))
              (dc_document_json codec (document\<lparr>dv_document_hash := []\<rparr>))) (\<lambda>bytes.
     Inr (ext_blake3_hex (dc_ext codec) (document_domain @ bytes)))"

definition validate_header_v3 ::
    "directory_codec \<Rightarrow> cell_directory_document_v3 \<Rightarrow> cell_directory_error + unit" where
  "validate_header_v3 codec document =
     (let invalid = Inl (InvalidDirectory
            ''v3 directory schema, universe, manifest, revision, or hash is invalid'') in
      try_r (map_err (\<lambda>source. InvalidDirectory (''v3 directory cannot be measured: '' @ source))
               (dc_document_json codec document)) (\<lambda>bytes.
      if dv_schema_version document \<noteq> 3
         \<or> blank_text (dv_universe_id document)
         \<or> \<not> valid_blake3_hex (dv_universe_manifest_hash document)
         \<or> dv_directory_revision document = 0
         \<or> bt_len (dv_assignments document) \<noteq> 2
         \<or> 8192 < int (bt_len (dv_placements document))
         \<or> 1024 < int (bt_len (dv_transfers document))
         \<or> 16777216 < int (length bytes)
         \<or> \<not> valid_blake3_hex (dv_document_hash document)
      then invalid else
      try_r (calculate_document_hash codec document) (\<lambda>document_hash.
      if dv_document_hash document \<noteq> document_hash then invalid else Inr ())))"

definition validate_document_v3 ::
    "directory_codec \<Rightarrow> cell_directory_document_v3 \<Rightarrow> cell_directory_error + unit" where
  "validate_document_v3 codec document =
     try_r (validate_header_v3 codec document) (\<lambda>_.
     try_r (validate_assignments codec document) (\<lambda>_.
     try_r (validate_migration_genesis codec document) (\<lambda>_.
     try_r (validate_placements document) (\<lambda>_.
     validate_transfers codec document))))"

definition seal_document ::
    "directory_codec \<Rightarrow> cell_directory_document_v3 \<Rightarrow> cell_directory_error + cell_directory_document_v3" where
  "seal_document codec document =
     try_r (calculate_document_hash codec document) (\<lambda>document_hash.
     let document = document\<lparr>dv_document_hash := document_hash\<rparr> in
     try_r (validate_document_v3 codec document) (\<lambda>_. Inr document))"

end
