(* ===== verification/DirectoryV3Stages.thy ===== *)
theory DirectoryV3Stages
  imports DirectoryV3Document
begin

text \<open>
  The transactions of the directory of protocol 19 (\<open>stage_v3_*\<close> and \<open>apply_v3_*\<close> of
  \<open>cell_directory_v3.rs\<close>). Each validates the document, stages a copy and seals it with the next
  revision, or answers with the document as it is when the transfer is already past the phase.
\<close>

section \<open>Sealing a staged document\<close>

definition finish_v3_transaction ::
    "directory_codec \<Rightarrow> cell_directory_document_v3 \<Rightarrow> cell_directory_document_v3 \<Rightarrow>
     cell_directory_error + cell_directory_document_v3" where
  "finish_v3_transaction codec prior staged =
     try_r (ok_or (checked_add (dv_directory_revision prior) 1) DirectoryRevisionExhausted) (\<lambda>revision.
     seal_document codec (staged\<lparr>dv_directory_revision := revision, dv_document_hash := []\<rparr>))"

definition v3_transfer ::
    "cell_directory_document_v3 \<Rightarrow> string \<Rightarrow> cell_directory_error + cell_transfer_record_v3" where
  "v3_transfer document transfer_id = ok_or (bt_get (dv_transfers document) transfer_id) (UnknownTransfer transfer_id)"

abbreviation put_transfer_v3 ::
    "string \<Rightarrow> cell_transfer_record_v3 \<Rightarrow> cell_directory_document_v3 \<Rightarrow> cell_directory_document_v3" where
  "put_transfer_v3 transfer_id t document \<equiv>
     document\<lparr>dv_transfers := bt_insert transfer_id t (dv_transfers document)\<rparr>"

definition stage_members ::
    "directory_codec \<Rightarrow> cell_directory_document_v3 \<Rightarrow> bundled_placement_plan \<Rightarrow> string \<Rightarrow> string \<Rightarrow>
     bundled_placement_transition \<Rightarrow> cell_directory_error + (string, aggregate_placement_record) btree_map" where
  "stage_members codec document plan transfer_id member_root transition =
     stage_bundled_placement_transition (dc_ext codec) (dc_plan_json codec) (dv_placements document) plan
       transfer_id member_root transition"

section \<open>Prepare\<close>

definition carries_evidence :: "cell_transfer_record_v3 \<Rightarrow> bool" where
  "carries_evidence requested =
     (tv_phase requested \<noteq> Prepared
      \<or> tv_quarantine_receipt_hash requested \<noteq> None
      \<or> tv_source_prepare_proof requested \<noteq> None
      \<or> tv_destination_quarantine_proof requested \<noteq> None
      \<or> tv_source_export_proof requested \<noteq> None
      \<or> tv_import_proof requested \<noteq> None
      \<or> tv_destination_activation_proof requested \<noteq> None
      \<or> tv_finalization_proof requested \<noteq> None
      \<or> tv_source_abort_proof requested \<noteq> None
      \<or> tv_destination_abort_proof requested \<noteq> None)"

definition prepare_route_invalid ::
    "cell_transfer_record_v3 \<Rightarrow> cell_assignment_record \<Rightarrow> cell_assignment_record \<Rightarrow> bool" where
  "prepare_route_invalid requested source destination =
     (asg_cell_key source \<noteq> tv_source_cell_key requested
      \<or> asg_cell_key destination \<noteq> tv_destination_cell_key requested
      \<or> asg_state source \<noteq> Assigned
      \<or> asg_state destination \<noteq> Assigned
      \<or> asg_assignment_generation source \<noteq> tv_source_assignment_generation requested
      \<or> asg_authority_fencing_token source \<noteq> tv_source_fencing_token requested
      \<or> asg_assignment_generation destination \<noteq> tv_destination_assignment_generation requested
      \<or> asg_authority_fencing_token destination \<noteq> tv_destination_fencing_token requested
      \<or> \<not> are_face_neighbors (tv_source_cell_key requested) (tv_destination_cell_key requested))"

definition stage_v3_prepare ::
    "directory_codec \<Rightarrow> cell_directory_document_v3 \<Rightarrow> cell_transfer_record_v3 \<Rightarrow>
     cell_directory_error + cell_directory_document_v3" where
  "stage_v3_prepare codec document requested =
     try_r (validate_document_v3 codec document) (\<lambda>_.
     if carries_evidence requested
     then Inl (TransferConflict (tv_transfer_id requested) ''v3 prepare request contains post-prepare evidence'') else
     try_r (validate_identity (dc_ext codec) (dc_plan_json codec) requested (tv_transfer_id requested)) (\<lambda>plan.
     try_r (ok_or (bt_get (dv_assignments document) (tv_source_cell_id requested))
              (InvalidDirectory ''v3 prepare source assignment is unknown'')) (\<lambda>source.
     try_r (ok_or (bt_get (dv_assignments document) (tv_destination_cell_id requested))
              (InvalidDirectory ''v3 prepare destination assignment is unknown'')) (\<lambda>destination.
     try_r (validate_phase_proofs (dc_handoff codec) requested source destination) (\<lambda>_.
     case bt_get (dv_transfers document) (tv_transfer_id requested) of
       Some existing \<Rightarrow>
         if immutable_material_matches existing requested then Inr document
         else Inl (TransferConflict (tv_transfer_id requested)
                     ''v3 transfer ID is already bound to different immutable material'')
     | None \<Rightarrow>
         if prepare_route_invalid requested source destination
         then Inl (TransferConflict (tv_transfer_id requested)
                     ''v3 prepare route does not match current cell authority'') else
         try_r (stage_members codec document plan (tv_transfer_id requested)
                  (dbn_member_root (tv_bundle requested)) PrepareBundle) (\<lambda>placements.
         finish_v3_transaction codec document
           (put_transfer_v3 (tv_transfer_id requested) requested (document\<lparr>dv_placements := placements\<rparr>))))))))"

section \<open>Evidence of the source and the destination\<close>

definition prepare_phase_proof :: "grid_prepare_proof \<Rightarrow> directory_phase_proof" where
  "prepare_phase_proof prepare =
     \<lparr>dpp_kind = SourcePrepare, dpp_transfer_id = gpp_transfer_id prepare,
      dpp_member_root = gpp_member_root prepare, dpp_package_hash = gpp_package_hash prepare,
      dpp_cell_id = gpp_source_cell_id prepare, dpp_assignment_generation = gpp_assignment_generation prepare,
      dpp_fencing_token = gpp_fencing_token prepare, dpp_event_sequence = gpp_event_sequence prepare,
      dpp_event_hash = gpp_event_hash prepare, dpp_event_payload_hash = Some (gpp_event_payload_hash prepare),
      dpp_world_hash = gpp_resulting_active_world_hash prepare, dpp_quarantine_receipt_hash = None,
      dpp_export_proof_hash = None, dpp_prepare_proof_hash = Some (gpp_proof_hash prepare),
      dpp_quarantine_proof_hash = None, dpp_import_proof_hash = None, dpp_activation_proof_hash = None,
      dpp_finalization_proof_hash = None, dpp_destination_import_proof_hash = None,
      dpp_prior_event_sequence = Some (gpp_prior_event_sequence prepare),
      dpp_prior_event_hash = Some (gpp_prior_event_hash prepare), dpp_prior_draft_world_hash = None,
      dpp_prior_active_world_hash = Some (gpp_prior_active_world_hash prepare),
      dpp_quarantined_at_unix_ms = None, dpp_imported_at_unix_ms = None,
      dpp_destination_activated_at_unix_ms = None, dpp_source_export_proof_hash = None,
      dpp_source_exported_at_unix_ms = None, dpp_destination_production_lifecycle_generation = None,
      dpp_production_eligibility_root = None,
      dpp_mutation_witness_hash = Some (gpp_mutation_witness_hash prepare), dpp_ledger_vector = None,
      dpp_trusted_time_unix_ms = None,
      dpp_prepared_at_simulation_tick = Some (gpp_prepared_at_simulation_tick prepare),
      dpp_abort_witness_hash = None, dpp_abort_proof_hash = None, dpp_resulting_draft_world_hash = None,
      dpp_abort_removed_authority = None\<rparr>"

definition apply_v3_source_prepare_proof ::
    "directory_codec \<Rightarrow> cell_directory_document_v3 \<Rightarrow> string \<Rightarrow> directory_phase_proof \<Rightarrow>
     cell_directory_error + cell_directory_document_v3" where
  "apply_v3_source_prepare_proof codec document transfer_id proof =
     try_r (validate_document_v3 codec document) (\<lambda>_.
     try_r (v3_transfer document transfer_id) (\<lambda>current.
     case tv_source_prepare_proof current of
       Some existing \<Rightarrow>
         if existing = proof then Inr document
         else Inl (TransferConflict transfer_id ''v3 source-prepare retry changed its durable proof'')
     | None \<Rightarrow>
         if tv_phase current \<noteq> Prepared
         then Inl (TransferConflict transfer_id ''v3 source-prepare proof arrived after prepare phase'')
         else finish_v3_transaction codec document
                (put_transfer_v3 transfer_id (current\<lparr>tv_source_prepare_proof := Some proof\<rparr>) document)))"

definition stage_v3_source_prepared ::
    "directory_codec \<Rightarrow> cell_directory_document_v3 \<Rightarrow> string \<Rightarrow> grid_prepare_proof \<Rightarrow>
     cell_directory_error + cell_directory_document_v3" where
  "stage_v3_source_prepared codec document transfer_id prepare =
     try_r (map_err (\<lambda>source. InvalidDirectory (''grid source-prepare proof is invalid: '' @ source))
              (validate_prepare_for_directory (dc_handoff codec) prepare)) (\<lambda>_.
     try_r (validate_document_v3 codec document) (\<lambda>_.
     try_r (v3_transfer document transfer_id) (\<lambda>current.
     if gpp_root_aggregate_id prepare \<noteq> tv_root_aggregate_id current
     then Inl (TransferConflict transfer_id ''v3 source-prepare proof changed its root aggregate'')
     else apply_v3_source_prepare_proof codec document transfer_id (prepare_phase_proof prepare))))"

definition quarantine_phase_proof :: "grid_quarantine_proof \<Rightarrow> directory_phase_proof" where
  "quarantine_phase_proof quarantine =
     \<lparr>dpp_kind = DestinationQuarantine, dpp_transfer_id = gqp_transfer_id quarantine,
      dpp_member_root = gqp_member_root quarantine, dpp_package_hash = gqp_package_hash quarantine,
      dpp_cell_id = gqp_destination_cell_id quarantine,
      dpp_assignment_generation = gqp_assignment_generation quarantine,
      dpp_fencing_token = gqp_fencing_token quarantine, dpp_event_sequence = gqp_event_sequence quarantine,
      dpp_event_hash = gqp_event_hash quarantine,
      dpp_event_payload_hash = Some (gqp_event_payload_hash quarantine),
      dpp_world_hash = gqp_resulting_active_world_hash quarantine,
      dpp_quarantine_receipt_hash = Some (gqp_quarantine_receipt_hash quarantine),
      dpp_export_proof_hash = None, dpp_prepare_proof_hash = None,
      dpp_quarantine_proof_hash = Some (gqp_proof_hash quarantine), dpp_import_proof_hash = None,
      dpp_activation_proof_hash = None, dpp_finalization_proof_hash = None,
      dpp_destination_import_proof_hash = None,
      dpp_prior_event_sequence = Some (gqp_prior_event_sequence quarantine),
      dpp_prior_event_hash = Some (gqp_prior_event_hash quarantine), dpp_prior_draft_world_hash = None,
      dpp_prior_active_world_hash = Some (gqp_prior_active_world_hash quarantine),
      dpp_quarantined_at_unix_ms = Some (gqp_quarantined_at_unix_ms quarantine),
      dpp_imported_at_unix_ms = None, dpp_destination_activated_at_unix_ms = None,
      dpp_source_export_proof_hash = None, dpp_source_exported_at_unix_ms = None,
      dpp_destination_production_lifecycle_generation = None, dpp_production_eligibility_root = None,
      dpp_mutation_witness_hash = Some (gqp_mutation_witness_hash quarantine), dpp_ledger_vector = None,
      dpp_trusted_time_unix_ms = None, dpp_prepared_at_simulation_tick = None, dpp_abort_witness_hash = None,
      dpp_abort_proof_hash = None, dpp_resulting_draft_world_hash = None, dpp_abort_removed_authority = None\<rparr>"

definition apply_v3_quarantine_proof ::
    "directory_codec \<Rightarrow> cell_directory_document_v3 \<Rightarrow> string \<Rightarrow> directory_phase_proof \<Rightarrow>
     cell_directory_error + cell_directory_document_v3" where
  "apply_v3_quarantine_proof codec document transfer_id proof =
     try_r (validate_document_v3 codec document) (\<lambda>_.
     try_r (ok_or (dpp_quarantine_receipt_hash proof)
              (InvalidDirectory ''typed destination-quarantine proof omits its receipt commitment'')) (\<lambda>receipt_hash.
     try_r (validate_hash_v3 receipt_hash ''quarantine receipt'') (\<lambda>_.
     try_r (v3_transfer document transfer_id) (\<lambda>current.
     if tv_quarantine_receipt_hash current \<noteq> None \<or> tv_destination_quarantine_proof current \<noteq> None
     then (if tv_quarantine_receipt_hash current = Some receipt_hash
              \<and> tv_destination_quarantine_proof current = Some proof
           then Inr document
           else Inl (TransferConflict transfer_id ''v3 quarantine retry changed its receipt or durable proof''))
     else if tv_phase current \<notin> {Prepared, Aborting}
        \<or> tv_source_prepare_proof current = None
        \<or> tv_destination_abort_proof current \<noteq> None
     then Inl (TransferConflict transfer_id ''v3 transfer is not awaiting its first quarantine proof'')
     else finish_v3_transaction codec document
            (put_transfer_v3 transfer_id
               (current\<lparr>tv_quarantine_receipt_hash := Some receipt_hash,
                        tv_destination_quarantine_proof := Some proof,
                        tv_phase := (if tv_phase current = Prepared then Quarantined else tv_phase current)\<rparr>)
               document)))))"

definition stage_v3_quarantine ::
    "directory_codec \<Rightarrow> cell_directory_document_v3 \<Rightarrow> string \<Rightarrow> grid_quarantine_proof \<Rightarrow>
     cell_directory_error + cell_directory_document_v3" where
  "stage_v3_quarantine codec document transfer_id quarantine =
     try_r (map_err (\<lambda>source. InvalidDirectory (''grid destination-quarantine proof is invalid: '' @ source))
              (validate_quarantine_for_directory (dc_handoff codec) quarantine)) (\<lambda>_.
     try_r (validate_document_v3 codec document) (\<lambda>_.
     try_r (v3_transfer document transfer_id) (\<lambda>current.
     if gqp_root_aggregate_id quarantine \<noteq> tv_root_aggregate_id current
     then Inl (TransferConflict transfer_id ''v3 destination-quarantine proof changed its root aggregate'')
     else apply_v3_quarantine_proof codec document transfer_id (quarantine_phase_proof quarantine))))"

section \<open>Commit\<close>

definition stage_v3_commit ::
    "directory_codec \<Rightarrow> cell_directory_document_v3 \<Rightarrow> string \<Rightarrow> string \<Rightarrow>
     cell_directory_error + cell_directory_document_v3" where
  "stage_v3_commit codec document transfer_id expected_member_root =
     try_r (validate_document_v3 codec document) (\<lambda>_.
     try_r (validate_hash_v3 expected_member_root ''member root'') (\<lambda>_.
     try_r (v3_transfer document transfer_id) (\<lambda>current.
     if dbn_member_root (tv_bundle current) \<noteq> expected_member_root
     then Inl (TransferConflict transfer_id ''v3 commit member root changed after prepare'')
     else if tv_phase current \<in> {Committed, Imported, Finalized} then Inr document
     else if tv_phase current \<noteq> Quarantined
        \<or> tv_source_prepare_proof current = None
        \<or> tv_destination_quarantine_proof current = None
     then Inl (TransferConflict transfer_id ''v3 transfer is not quarantined with complete durable evidence'') else
     try_r (bundled_plan (dc_ext codec) (dc_plan_json codec) current) (\<lambda>plan.
     try_r (stage_members codec document plan transfer_id (dbn_member_root (tv_bundle current)) CommitBundle)
       (\<lambda>placements.
     finish_v3_transaction codec document
       (put_transfer_v3 transfer_id (current\<lparr>tv_phase := Committed\<rparr>)
          (document\<lparr>dv_placements := placements\<rparr>)))))))"

section \<open>Export, import, activation, finalization\<close>

definition import_phase_proof :: "grid_import_proof \<Rightarrow> directory_phase_proof" where
  "import_phase_proof import =
     \<lparr>dpp_kind = DestinationImport, dpp_transfer_id = gip_transfer_id import,
      dpp_member_root = gip_member_root import, dpp_package_hash = gip_package_hash import,
      dpp_cell_id = gip_destination_cell_id import,
      dpp_assignment_generation = gip_assignment_generation import,
      dpp_fencing_token = gip_fencing_token import, dpp_event_sequence = gip_event_sequence import,
      dpp_event_hash = gip_event_hash import, dpp_event_payload_hash = Some (gip_event_payload_hash import),
      dpp_world_hash = gip_resulting_active_world_hash import,
      dpp_quarantine_receipt_hash = Some (gip_quarantine_receipt_hash import), dpp_export_proof_hash = None,
      dpp_prepare_proof_hash = None, dpp_quarantine_proof_hash = None,
      dpp_import_proof_hash = Some (gip_proof_hash import), dpp_activation_proof_hash = None,
      dpp_finalization_proof_hash = None, dpp_destination_import_proof_hash = None,
      dpp_prior_event_sequence = Some (gip_prior_event_sequence import),
      dpp_prior_event_hash = Some (gip_prior_event_hash import),
      dpp_prior_draft_world_hash = Some (gip_prior_draft_world_hash import),
      dpp_prior_active_world_hash = None,
      dpp_quarantined_at_unix_ms = Some (gip_quarantined_at_unix_ms import), dpp_imported_at_unix_ms = None,
      dpp_destination_activated_at_unix_ms = None,
      dpp_source_export_proof_hash = Some (gip_source_export_proof_hash import),
      dpp_source_exported_at_unix_ms = Some (gip_source_exported_at_unix_ms import),
      dpp_destination_production_lifecycle_generation = Some (gip_destination_production_lifecycle_generation import),
      dpp_production_eligibility_root = Some (gip_production_eligibility_root import),
      dpp_mutation_witness_hash = Some (gip_mutation_witness_hash import),
      dpp_ledger_vector = Some (gip_ledger_vector import),
      dpp_trusted_time_unix_ms = Some (gip_imported_at_unix_ms import),
      dpp_prepared_at_simulation_tick = None, dpp_abort_witness_hash = None, dpp_abort_proof_hash = None,
      dpp_resulting_draft_world_hash = None, dpp_abort_removed_authority = None\<rparr>"

definition apply_v3_import_proof ::
    "directory_codec \<Rightarrow> cell_directory_document_v3 \<Rightarrow> string \<Rightarrow> directory_phase_proof \<Rightarrow>
     cell_directory_error + cell_directory_document_v3" where
  "apply_v3_import_proof codec document transfer_id proof =
     try_r (validate_document_v3 codec document) (\<lambda>_.
     try_r (v3_transfer document transfer_id) (\<lambda>current.
     case tv_import_proof current of
       Some existing \<Rightarrow>
         if existing = proof \<and> tv_phase current \<in> {Imported, Finalized} then Inr document
         else Inl (TransferConflict transfer_id ''v3 import retry changed its durable proof'')
     | None \<Rightarrow>
         if tv_phase current \<noteq> Committed \<or> tv_source_export_proof current = None
         then Inl (TransferConflict transfer_id
                     ''v3 transfer is not committed with durable source-export evidence'') else
         try_r (bundled_plan (dc_ext codec) (dc_plan_json codec) current) (\<lambda>plan.
         try_r (stage_members codec document plan transfer_id (dbn_member_root (tv_bundle current)) ImportBundle)
           (\<lambda>placements.
         finish_v3_transaction codec document
           (put_transfer_v3 transfer_id (current\<lparr>tv_import_proof := Some proof, tv_phase := Imported\<rparr>)
              (document\<lparr>dv_placements := placements\<rparr>))))))"

definition stage_v3_destination_imported ::
    "directory_codec \<Rightarrow> cell_directory_document_v3 \<Rightarrow> string \<Rightarrow> grid_import_proof \<Rightarrow>
     cell_directory_error + cell_directory_document_v3" where
  "stage_v3_destination_imported codec document transfer_id import =
     try_r (map_err (\<lambda>source. InvalidDirectory (''grid destination-import proof is invalid: '' @ source))
              (validate_grid_import_proof (dc_handoff codec) import)) (\<lambda>_.
     try_r (validate_document_v3 codec document) (\<lambda>_.
     try_r (v3_transfer document transfer_id) (\<lambda>current.
     if gip_root_aggregate_id import \<noteq> tv_root_aggregate_id current
     then Inl (TransferConflict transfer_id ''v3 destination-import proof changed its root aggregate'')
     else apply_v3_import_proof codec document transfer_id (import_phase_proof import))))"

definition export_phase_proof :: "grid_export_proof \<Rightarrow> directory_phase_proof" where
  "export_phase_proof export =
     \<lparr>dpp_kind = SourceExport, dpp_transfer_id = gep_transfer_id export,
      dpp_member_root = gep_member_root export, dpp_package_hash = gep_package_hash export,
      dpp_cell_id = gep_source_cell_id export, dpp_assignment_generation = gep_assignment_generation export,
      dpp_fencing_token = gep_fencing_token export, dpp_event_sequence = gep_event_sequence export,
      dpp_event_hash = gep_event_hash export, dpp_event_payload_hash = Some (gep_event_payload_hash export),
      dpp_world_hash = gep_resulting_active_world_hash export,
      dpp_quarantine_receipt_hash = Some (gep_quarantine_receipt_hash export),
      dpp_export_proof_hash = Some (gep_proof_hash export), dpp_prepare_proof_hash = None,
      dpp_quarantine_proof_hash = None, dpp_import_proof_hash = None, dpp_activation_proof_hash = None,
      dpp_finalization_proof_hash = None, dpp_destination_import_proof_hash = None,
      dpp_prior_event_sequence = Some (gep_prior_event_sequence export),
      dpp_prior_event_hash = Some (gep_prior_event_hash export),
      dpp_prior_draft_world_hash = Some (gep_prior_draft_world_hash export),
      dpp_prior_active_world_hash = None, dpp_quarantined_at_unix_ms = None, dpp_imported_at_unix_ms = None,
      dpp_destination_activated_at_unix_ms = None, dpp_source_export_proof_hash = None,
      dpp_source_exported_at_unix_ms = None, dpp_destination_production_lifecycle_generation = None,
      dpp_production_eligibility_root = None,
      dpp_mutation_witness_hash = Some (gep_mutation_witness_hash export),
      dpp_ledger_vector = Some (gep_ledger_vector export),
      dpp_trusted_time_unix_ms = Some (gep_exported_at_unix_ms export),
      dpp_prepared_at_simulation_tick = None, dpp_abort_witness_hash = None, dpp_abort_proof_hash = None,
      dpp_resulting_draft_world_hash = None, dpp_abort_removed_authority = None\<rparr>"

definition apply_v3_source_export_proof ::
    "directory_codec \<Rightarrow> cell_directory_document_v3 \<Rightarrow> string \<Rightarrow> directory_phase_proof \<Rightarrow>
     cell_directory_error + cell_directory_document_v3" where
  "apply_v3_source_export_proof codec document transfer_id proof =
     try_r (validate_document_v3 codec document) (\<lambda>_.
     try_r (v3_transfer document transfer_id) (\<lambda>current.
     case tv_source_export_proof current of
       Some existing \<Rightarrow>
         if existing = proof \<and> tv_phase current \<in> {Committed, Imported, Finalized} then Inr document
         else Inl (TransferConflict transfer_id ''v3 source-export retry changed its durable proof'')
     | None \<Rightarrow>
         if tv_phase current \<noteq> Committed \<or> tv_import_proof current \<noteq> None
         then Inl (TransferConflict transfer_id
                     ''v3 source export requires a committed transfer before destination import'')
         else finish_v3_transaction codec document
                (put_transfer_v3 transfer_id (current\<lparr>tv_source_export_proof := Some proof\<rparr>) document)))"

definition stage_v3_source_exported ::
    "directory_codec \<Rightarrow> cell_directory_document_v3 \<Rightarrow> string \<Rightarrow> grid_export_proof \<Rightarrow>
     cell_directory_error + cell_directory_document_v3" where
  "stage_v3_source_exported codec document transfer_id export =
     try_r (map_err (\<lambda>source. InvalidDirectory (''grid source-export proof is invalid: '' @ source))
              (validate_grid_export_proof (dc_handoff codec) export)) (\<lambda>_.
     try_r (validate_document_v3 codec document) (\<lambda>_.
     try_r (v3_transfer document transfer_id) (\<lambda>current.
     if gep_root_aggregate_id export \<noteq> tv_root_aggregate_id current
     then Inl (TransferConflict transfer_id ''v3 source-export proof changed its root aggregate'')
     else apply_v3_source_export_proof codec document transfer_id (export_phase_proof export))))"

definition activation_phase_proof :: "grid_activation_proof \<Rightarrow> directory_phase_proof" where
  "activation_phase_proof activation =
     \<lparr>dpp_kind = DestinationActivation, dpp_transfer_id = gap_transfer_id activation,
      dpp_member_root = gap_member_root activation, dpp_package_hash = gap_package_hash activation,
      dpp_cell_id = gap_destination_cell_id activation,
      dpp_assignment_generation = gap_assignment_generation activation,
      dpp_fencing_token = gap_fencing_token activation, dpp_event_sequence = gap_event_sequence activation,
      dpp_event_hash = gap_event_hash activation,
      dpp_event_payload_hash = Some (gap_event_payload_hash activation),
      dpp_world_hash = gap_resulting_active_world_hash activation,
      dpp_quarantine_receipt_hash = Some (gap_quarantine_receipt_hash activation),
      dpp_export_proof_hash = None, dpp_prepare_proof_hash = None, dpp_quarantine_proof_hash = None,
      dpp_import_proof_hash = None, dpp_activation_proof_hash = Some (gap_proof_hash activation),
      dpp_finalization_proof_hash = None,
      dpp_destination_import_proof_hash = Some (gap_destination_import_proof_hash activation),
      dpp_prior_event_sequence = Some (gap_prior_event_sequence activation),
      dpp_prior_event_hash = Some (gap_prior_event_hash activation), dpp_prior_draft_world_hash = None,
      dpp_prior_active_world_hash = Some (gap_prior_active_world_hash activation),
      dpp_quarantined_at_unix_ms = None, dpp_imported_at_unix_ms = Some (gap_imported_at_unix_ms activation),
      dpp_destination_activated_at_unix_ms = None, dpp_source_export_proof_hash = None,
      dpp_source_exported_at_unix_ms = None, dpp_destination_production_lifecycle_generation = None,
      dpp_production_eligibility_root = Some (gap_production_eligibility_root activation),
      dpp_mutation_witness_hash = Some (gap_mutation_witness_hash activation), dpp_ledger_vector = None,
      dpp_trusted_time_unix_ms = Some (gap_activated_at_unix_ms activation),
      dpp_prepared_at_simulation_tick = None, dpp_abort_witness_hash = None, dpp_abort_proof_hash = None,
      dpp_resulting_draft_world_hash = None, dpp_abort_removed_authority = None\<rparr>"

definition apply_v3_destination_activation_proof ::
    "directory_codec \<Rightarrow> cell_directory_document_v3 \<Rightarrow> string \<Rightarrow> directory_phase_proof \<Rightarrow>
     cell_directory_error + cell_directory_document_v3" where
  "apply_v3_destination_activation_proof codec document transfer_id proof =
     try_r (validate_document_v3 codec document) (\<lambda>_.
     try_r (v3_transfer document transfer_id) (\<lambda>current.
     case tv_destination_activation_proof current of
       Some existing \<Rightarrow>
         if existing = proof \<and> tv_phase current \<in> {Imported, Finalized} then Inr document
         else Inl (TransferConflict transfer_id ''v3 destination-activation retry changed its durable proof'')
     | None \<Rightarrow>
         if tv_phase current \<noteq> Imported \<or> tv_import_proof current = None
         then Inl (TransferConflict transfer_id
                     ''v3 destination activation requires a durably imported transfer'')
         else finish_v3_transaction codec document
                (put_transfer_v3 transfer_id (current\<lparr>tv_destination_activation_proof := Some proof\<rparr>)
                   document)))"

definition stage_v3_destination_activated ::
    "directory_codec \<Rightarrow> cell_directory_document_v3 \<Rightarrow> string \<Rightarrow> grid_activation_proof \<Rightarrow>
     cell_directory_error + cell_directory_document_v3" where
  "stage_v3_destination_activated codec document transfer_id activation =
     try_r (map_err (\<lambda>source. InvalidDirectory (''grid destination-activation proof is invalid: '' @ source))
              (validate_grid_activation_proof (dc_handoff codec) activation)) (\<lambda>_.
     try_r (validate_document_v3 codec document) (\<lambda>_.
     try_r (v3_transfer document transfer_id) (\<lambda>current.
     if gap_root_aggregate_id activation \<noteq> tv_root_aggregate_id current
     then Inl (TransferConflict transfer_id ''v3 destination-activation proof changed its root aggregate'')
     else apply_v3_destination_activation_proof codec document transfer_id (activation_phase_proof activation))))"

definition finalization_phase_proof :: "grid_finalization_proof \<Rightarrow> directory_phase_proof" where
  "finalization_phase_proof finalization =
     \<lparr>dpp_kind = SourceFinalization, dpp_transfer_id = gfp_transfer_id finalization,
      dpp_member_root = gfp_member_root finalization, dpp_package_hash = gfp_package_hash finalization,
      dpp_cell_id = gfp_source_cell_id finalization,
      dpp_assignment_generation = gfp_assignment_generation finalization,
      dpp_fencing_token = gfp_fencing_token finalization,
      dpp_event_sequence = gfp_event_sequence finalization, dpp_event_hash = gfp_event_hash finalization,
      dpp_event_payload_hash = Some (gfp_event_payload_hash finalization),
      dpp_world_hash = gfp_resulting_active_world_hash finalization, dpp_quarantine_receipt_hash = None,
      dpp_export_proof_hash = None, dpp_prepare_proof_hash = None, dpp_quarantine_proof_hash = None,
      dpp_import_proof_hash = None,
      dpp_activation_proof_hash = Some (gfp_destination_activation_proof_hash finalization),
      dpp_finalization_proof_hash = Some (gfp_proof_hash finalization),
      dpp_destination_import_proof_hash = Some (gfp_destination_import_proof_hash finalization),
      dpp_prior_event_sequence = Some (gfp_prior_event_sequence finalization),
      dpp_prior_event_hash = Some (gfp_prior_event_hash finalization), dpp_prior_draft_world_hash = None,
      dpp_prior_active_world_hash = Some (gfp_prior_active_world_hash finalization),
      dpp_quarantined_at_unix_ms = None,
      dpp_imported_at_unix_ms = Some (gfp_imported_at_unix_ms finalization),
      dpp_destination_activated_at_unix_ms = Some (gfp_activated_at_unix_ms finalization),
      dpp_source_export_proof_hash = Some (gfp_source_export_proof_hash finalization),
      dpp_source_exported_at_unix_ms = Some (gfp_source_exported_at_unix_ms finalization),
      dpp_destination_production_lifecycle_generation = None, dpp_production_eligibility_root = None,
      dpp_mutation_witness_hash = Some (gfp_mutation_witness_hash finalization), dpp_ledger_vector = None,
      dpp_trusted_time_unix_ms = Some (gfp_finalized_at_unix_ms finalization),
      dpp_prepared_at_simulation_tick = None, dpp_abort_witness_hash = None, dpp_abort_proof_hash = None,
      dpp_resulting_draft_world_hash = None, dpp_abort_removed_authority = None\<rparr>"

definition apply_v3_source_finalization_proof ::
    "directory_codec \<Rightarrow> cell_directory_document_v3 \<Rightarrow> string \<Rightarrow> directory_phase_proof \<Rightarrow>
     cell_directory_error + cell_directory_document_v3" where
  "apply_v3_source_finalization_proof codec document transfer_id proof =
     try_r (validate_document_v3 codec document) (\<lambda>_.
     try_r (v3_transfer document transfer_id) (\<lambda>current.
     case tv_finalization_proof current of
       Some existing \<Rightarrow>
         if existing = proof \<and> tv_phase current = Finalized then Inr document
         else Inl (TransferConflict transfer_id ''v3 finalization retry changed its durable proof'')
     | None \<Rightarrow>
         if tv_phase current \<noteq> Imported
            \<or> tv_import_proof current = None
            \<or> tv_destination_activation_proof current = None
         then Inl (TransferConflict transfer_id
                     ''v3 transfer is not imported with durable destination-activation evidence'')
         else finish_v3_transaction codec document
                (put_transfer_v3 transfer_id
                   (current\<lparr>tv_finalization_proof := Some proof, tv_phase := Finalized\<rparr>) document)))"

definition stage_v3_source_finalized ::
    "directory_codec \<Rightarrow> cell_directory_document_v3 \<Rightarrow> string \<Rightarrow> grid_finalization_proof \<Rightarrow>
     cell_directory_error + cell_directory_document_v3" where
  "stage_v3_source_finalized codec document transfer_id finalization =
     try_r (map_err (\<lambda>source. InvalidDirectory (''grid source-finalization proof is invalid: '' @ source))
              (validate_grid_finalization_proof (dc_handoff codec) finalization)) (\<lambda>_.
     try_r (validate_document_v3 codec document) (\<lambda>_.
     try_r (v3_transfer document transfer_id) (\<lambda>current.
     if gfp_root_aggregate_id finalization \<noteq> tv_root_aggregate_id current
     then Inl (TransferConflict transfer_id ''v3 source-finalization proof changed its root aggregate'')
     else apply_v3_source_finalization_proof codec document transfer_id (finalization_phase_proof finalization))))"

section \<open>Abort\<close>

definition stage_v3_request_abort ::
    "directory_codec \<Rightarrow> cell_directory_document_v3 \<Rightarrow> string \<Rightarrow>
     cell_directory_error + cell_directory_document_v3" where
  "stage_v3_request_abort codec document transfer_id =
     try_r (validate_document_v3 codec document) (\<lambda>_.
     try_r (v3_transfer document transfer_id) (\<lambda>current.
     if tv_phase current \<in> {Aborting, Aborted} then Inr document
     else if tv_phase current \<notin> {Prepared, Quarantined}
     then Inl (TransferConflict transfer_id ''v3 committed transfer cannot abort to its source'')
     else finish_v3_transaction codec document
            (put_transfer_v3 transfer_id (current\<lparr>tv_phase := Aborting\<rparr>) document)))"

definition cleanup_phase_proof :: "grid_abort_cleanup_proof \<Rightarrow> directory_phase_proof" where
  "cleanup_phase_proof cleanup =
     \<lparr>dpp_kind = (case gcp_side cleanup of SourceSide \<Rightarrow> SourceAbort | DestinationSide \<Rightarrow> DestinationAbort),
      dpp_transfer_id = gcp_transfer_id cleanup, dpp_member_root = gcp_member_root cleanup,
      dpp_package_hash = gcp_package_hash cleanup, dpp_cell_id = gcp_cell_id cleanup,
      dpp_assignment_generation = gcp_assignment_generation cleanup,
      dpp_fencing_token = gcp_fencing_token cleanup, dpp_event_sequence = gcp_event_sequence cleanup,
      dpp_event_hash = gcp_event_hash cleanup, dpp_event_payload_hash = Some (gcp_event_payload_hash cleanup),
      dpp_world_hash = gcp_resulting_draft_world_hash cleanup,
      dpp_quarantine_receipt_hash = gcp_quarantine_receipt_hash cleanup, dpp_export_proof_hash = None,
      dpp_prepare_proof_hash = None, dpp_quarantine_proof_hash = None, dpp_import_proof_hash = None,
      dpp_activation_proof_hash = None, dpp_finalization_proof_hash = None,
      dpp_destination_import_proof_hash = None,
      dpp_prior_event_sequence = Some (gcp_prior_event_sequence cleanup),
      dpp_prior_event_hash = Some (gcp_prior_event_hash cleanup),
      dpp_prior_draft_world_hash = Some (gcp_prior_draft_world_hash cleanup),
      dpp_prior_active_world_hash = None, dpp_quarantined_at_unix_ms = None, dpp_imported_at_unix_ms = None,
      dpp_destination_activated_at_unix_ms = None, dpp_source_export_proof_hash = None,
      dpp_source_exported_at_unix_ms = None, dpp_destination_production_lifecycle_generation = None,
      dpp_production_eligibility_root = None,
      dpp_mutation_witness_hash = Some (gcp_mutation_witness_hash cleanup), dpp_ledger_vector = None,
      dpp_trusted_time_unix_ms = Some (gcp_trusted_time_unix_ms cleanup),
      dpp_prepared_at_simulation_tick = None, dpp_abort_witness_hash = Some (gcp_abort_witness_hash cleanup),
      dpp_abort_proof_hash = Some (gcp_proof_hash cleanup),
      dpp_resulting_draft_world_hash = Some (gcp_resulting_draft_world_hash cleanup),
      dpp_abort_removed_authority = Some (gcp_removed_authority cleanup)\<rparr>"

definition apply_v3_abort_cleanup_proof ::
    "directory_codec \<Rightarrow> cell_directory_document_v3 \<Rightarrow> string \<Rightarrow> directory_phase_proof \<Rightarrow>
     cell_directory_error + cell_directory_document_v3" where
  "apply_v3_abort_cleanup_proof codec document transfer_id proof =
     try_r (validate_document_v3 codec document) (\<lambda>_.
     try_r (v3_transfer document transfer_id) (\<lambda>current.
     if \<not> is_abort_kind (dpp_kind proof)
     then Inl (TransferConflict transfer_id ''v3 abort cleanup proof has a non-abort role'') else
     case (if dpp_kind proof = SourceAbort then tv_source_abort_proof current
           else tv_destination_abort_proof current) of
       Some existing \<Rightarrow>
         if existing = proof \<and> tv_phase current \<in> {Aborting, Aborted} then Inr document
         else Inl (TransferConflict transfer_id ''v3 abort cleanup retry changed its durable proof'')
     | None \<Rightarrow>
         if tv_phase current \<noteq> Aborting
         then Inl (TransferConflict transfer_id ''v3 abort cleanup requires an aborting transfer'')
         else finish_v3_transaction codec document
                (put_transfer_v3 transfer_id
                   (if dpp_kind proof = SourceAbort then current\<lparr>tv_source_abort_proof := Some proof\<rparr>
                    else current\<lparr>tv_destination_abort_proof := Some proof\<rparr>) document)))"

definition stage_v3_abort_cleanup ::
    "directory_codec \<Rightarrow> cell_directory_document_v3 \<Rightarrow> string \<Rightarrow> grid_abort_cleanup_proof \<Rightarrow>
     cell_directory_error + cell_directory_document_v3" where
  "stage_v3_abort_cleanup codec document transfer_id cleanup =
     try_r (map_err (\<lambda>source. InvalidDirectory (''grid abort cleanup proof is invalid: '' @ source))
              (validate_grid_abort_cleanup_proof (dc_handoff codec) cleanup)) (\<lambda>_.
     apply_v3_abort_cleanup_proof codec document transfer_id (cleanup_phase_proof cleanup))"

definition stage_v3_finalize_abort ::
    "directory_codec \<Rightarrow> cell_directory_document_v3 \<Rightarrow> string \<Rightarrow>
     cell_directory_error + cell_directory_document_v3" where
  "stage_v3_finalize_abort codec document transfer_id =
     try_r (validate_document_v3 codec document) (\<lambda>_.
     try_r (v3_transfer document transfer_id) (\<lambda>current.
     if tv_phase current = Aborted then Inr document
     else if tv_phase current \<noteq> Aborting
        \<or> tv_source_abort_proof current = None
        \<or> tv_destination_abort_proof current = None
     then Inl (TransferConflict transfer_id ''v3 abort cannot finalize before both durable cell cleanups'') else
     try_r (bundled_plan (dc_ext codec) (dc_plan_json codec) current) (\<lambda>plan.
     try_r (stage_members codec document plan transfer_id (dbn_member_root (tv_bundle current)) AbortBundle)
       (\<lambda>placements.
     finish_v3_transaction codec document
       (put_transfer_v3 transfer_id (current\<lparr>tv_phase := Aborted\<rparr>)
          (document\<lparr>dv_placements := placements\<rparr>))))))"

section \<open>Commands\<close>

datatype directory_v3_command =
    PrepareV3 cell_transfer_record_v3
  | SourcePreparedV3 string grid_prepare_proof
  | QuarantineV3 string grid_quarantine_proof
  | CommitV3 string string
  | SourceExportedV3 string grid_export_proof
  | DestinationImportedV3 string grid_import_proof
  | DestinationActivatedV3 string grid_activation_proof
  | SourceFinalizedV3 string grid_finalization_proof
  | RequestAbortV3 string
  | AbortCleanupV3 string grid_abort_cleanup_proof
  | FinalizeAbortV3 string

fun stage_command ::
    "directory_codec \<Rightarrow> cell_directory_document_v3 \<Rightarrow> directory_v3_command \<Rightarrow>
     cell_directory_error + cell_directory_document_v3" where
  "stage_command codec document (PrepareV3 requested) = stage_v3_prepare codec document requested"
| "stage_command codec document (SourcePreparedV3 tid prepare) = stage_v3_source_prepared codec document tid prepare"
| "stage_command codec document (QuarantineV3 tid quarantine) = stage_v3_quarantine codec document tid quarantine"
| "stage_command codec document (CommitV3 tid root) = stage_v3_commit codec document tid root"
| "stage_command codec document (SourceExportedV3 tid export) = stage_v3_source_exported codec document tid export"
| "stage_command codec document (DestinationImportedV3 tid import) = stage_v3_destination_imported codec document tid import"
| "stage_command codec document (DestinationActivatedV3 tid activation) = stage_v3_destination_activated codec document tid activation"
| "stage_command codec document (SourceFinalizedV3 tid finalization) = stage_v3_source_finalized codec document tid finalization"
| "stage_command codec document (RequestAbortV3 tid) = stage_v3_request_abort codec document tid"
| "stage_command codec document (AbortCleanupV3 tid cleanup) = stage_v3_abort_cleanup codec document tid cleanup"
| "stage_command codec document (FinalizeAbortV3 tid) = stage_v3_finalize_abort codec document tid"

fun command_transfer_id :: "directory_v3_command \<Rightarrow> string" where
  "command_transfer_id (PrepareV3 requested) = tv_transfer_id requested"
| "command_transfer_id (SourcePreparedV3 tid _) = tid"
| "command_transfer_id (QuarantineV3 tid _) = tid"
| "command_transfer_id (CommitV3 tid _) = tid"
| "command_transfer_id (SourceExportedV3 tid _) = tid"
| "command_transfer_id (DestinationImportedV3 tid _) = tid"
| "command_transfer_id (DestinationActivatedV3 tid _) = tid"
| "command_transfer_id (SourceFinalizedV3 tid _) = tid"
| "command_transfer_id (RequestAbortV3 tid) = tid"
| "command_transfer_id (AbortCleanupV3 tid _) = tid"
| "command_transfer_id (FinalizeAbortV3 tid) = tid"

end
