(* ===== verification/DirectoryV3Validity.thy ===== *)
theory DirectoryV3Validity
  imports DirectoryV3Stages
begin

text \<open>
  The validation of a document of protocol 19 as a condition on its maps: the index of advances is
  the set of moves of the committed transfers, the check of a history is reachability in that index,
  and the loops are quantifiers over transfers, members and placements.
\<close>

section \<open>Plans and identities\<close>

definition plan_of :: "cell_transfer_record_v3 \<Rightarrow> bundled_placement_plan" where
  "plan_of t = \<lparr>bpp_root_aggregate_id = tv_root_aggregate_id t,
     bpp_source_cell_key = tv_source_cell_key t, bpp_source_cell_id = tv_source_cell_id t,
     bpp_destination_cell_key = tv_destination_cell_key t, bpp_destination_cell_id = tv_destination_cell_id t,
     bpp_members = dbn_members (tv_bundle t), bpp_member_root = dbn_member_root (tv_bundle t)\<rparr>"

lemma plan_of_simps [simp]:
  "bpp_root_aggregate_id (plan_of t) = tv_root_aggregate_id t"
  "bpp_source_cell_key (plan_of t) = tv_source_cell_key t"
  "bpp_source_cell_id (plan_of t) = tv_source_cell_id t"
  "bpp_destination_cell_key (plan_of t) = tv_destination_cell_key t"
  "bpp_destination_cell_id (plan_of t) = tv_destination_cell_id t"
  "bpp_members (plan_of t) = dbn_members (tv_bundle t)"
  "bpp_member_root (plan_of t) = dbn_member_root (tv_bundle t)"
  by (simp_all add: plan_of_def)

abbreviation members :: "cell_transfer_record_v3 \<Rightarrow> bundled_placement_member list" where
  "members t \<equiv> dbn_members (tv_bundle t)"

abbreviation member_ids :: "cell_transfer_record_v3 \<Rightarrow> string set" where
  "member_ids t \<equiv> bpm_aggregate_id ` set (members t)"

lemma bundled_plan_ok_iff:
  "bundled_plan ext json t = Inr plan \<longleftrightarrow>
     plan = plan_of t \<and> validate_bundled_placement_plan ext json (plan_of t) = Inr ()"
  by (auto simp: bundled_plan_def plan_of_def result_elims Let_def)

definition identity_ok ::
    "externals \<Rightarrow> (bundled_placement_root_material \<Rightarrow> string + string) \<Rightarrow> cell_transfer_record_v3 \<Rightarrow> string \<Rightarrow> bool" where
  "identity_ok ext json t tid \<longleftrightarrow> validate_identity ext json t tid = Inr (plan_of t)"

lemma validate_identity_plan: "validate_identity ext json t tid = Inr plan \<Longrightarrow> plan = plan_of t"
  by (auto simp: validate_identity_def result_elims bundled_plan_ok_iff)

lemma identity_ok_plan: "identity_ok ext json t tid \<Longrightarrow> validate_bundled_placement_plan ext json (plan_of t) = Inr ()"
  by (auto simp: identity_ok_def validate_identity_def result_elims bundled_plan_ok_iff)

lemma identity_ok_members:
  assumes "identity_ok ext json t tid"
  shows "bundle_members_ok (tv_root_aggregate_id t) (members t)" and "tv_root_aggregate_id t \<in> member_ids t"
    and "tv_source_cell_key t \<noteq> tv_destination_cell_key t"
  using validate_plan_sound [OF identity_ok_plan [OF assms]] by simp_all

lemma member_generations:
  assumes "identity_ok ext json t tid" and "m \<in> set (members t)"
  shows "checked_add (bpm_prior_placement_generation m) 1 = Some (bpm_resulting_placement_generation m)"
    and "bpm_prior_placement_generation m < bpm_resulting_placement_generation m"
    and "unat (bpm_resulting_placement_generation m) = Suc (unat (bpm_prior_placement_generation m))"
    and "bpm_prior_placement_generation m \<noteq> 0"
  using identity_ok_members(1) [OF assms(1)] assms(2) checked_succ_gt checked_succ_unat
  unfolding bundle_members_ok_def by blast+

lemma members_distinct: "identity_ok ext json t tid \<Longrightarrow> distinct (map bpm_aggregate_id (members t))"
  by (rule bundle_members_distinct [OF identity_ok_members(1)])

section \<open>The index of advances\<close>

definition move_of ::
    "cell_transfer_record_v3 \<Rightarrow> bundled_placement_member \<Rightarrow> (string \<times> u64 \<times> string) \<times> u64 \<times> string" where
  "move_of t m = ((bpm_aggregate_id m, bpm_prior_placement_generation m, tv_source_cell_id t),
                  bpm_resulting_placement_generation m, tv_destination_cell_id t)"

definition transfer_advances ::
    "cell_transfer_record_v3 \<Rightarrow> ((string \<times> u64 \<times> string) \<times> u64 \<times> string) list" where
  "transfer_advances t = (if moved t then map (move_of t) (members t) else [])"

abbreviation insert_all :: "('k::linorder \<times> 'v) list \<Rightarrow> ('k, 'v) btree_map \<Rightarrow> ('k, 'v) btree_map" where
  "insert_all \<equiv> fold (\<lambda>(k, v). bt_insert k v)"

lemma insert_all_get:
  "distinct (map fst kvs) \<Longrightarrow>
    bt_get (insert_all kvs m) k = (case map_of kvs k of Some v \<Rightarrow> Some v | None \<Rightarrow> bt_get m k)"
proof (induction kvs arbitrary: m)
  case (Cons x kvs)
  obtain a b where x: "x = (a, b)" by (cases x)
  with Cons.prems have "map_of kvs a = None" by (simp add: map_of_eq_None_iff)
  moreover have "bt_get (insert_all kvs (bt_insert a b m)) k =
      (case map_of kvs k of Some v \<Rightarrow> Some v | None \<Rightarrow> bt_get (bt_insert a b m) k)"
    by (rule Cons.IH) (use Cons.prems in simp)
  ultimately show ?case by (cases "map_of kvs k") (auto simp: x)
qed simp

lemma index_member_ok:
  "fold_r (index_member t) ms idx = Inr idx' \<longleftrightarrow>
     distinct (map fst (map (move_of t) ms)) \<and>
     (\<forall>k \<in> fst ` set (map (move_of t) ms). bt_get idx k = None) \<and>
     idx' = insert_all (map (move_of t) ms) idx"
proof (induction ms arbitrary: idx)
  case (Cons m ms)
  have "fold_r (index_member t) (m # ms) idx = Inr idx' \<longleftrightarrow> bt_get idx (fst (move_of t m)) = None \<and>
      fold_r (index_member t) ms (bt_insert (fst (move_of t m)) (snd (move_of t m)) idx) = Inr idx'"
    by (cases "bt_get idx (fst (move_of t m))")
      (auto simp: result_elims index_member_def Let_def bt_contains_def move_of_def)
  moreover have "(\<forall>k \<in> S. bt_get (bt_insert j v idx) k = None) \<longleftrightarrow> j \<notin> S \<and> (\<forall>k \<in> S. bt_get idx k = None)"
    for S j v by auto
  ultimately show ?case unfolding Cons.IH by (simp only: list.simps list.set image_insert fold_simps
      distinct.simps ball_simps set_map [symmetric] case_prod_unfold) blast
qed auto

definition transfer_admitted :: "directory_codec \<Rightarrow> cell_directory_document_v3 \<Rightarrow> string \<Rightarrow> cell_transfer_record_v3 \<Rightarrow> bool" where
  "transfer_admitted codec document tid t \<longleftrightarrow>
     \<not> (case dv_migration_genesis document of None \<Rightarrow> False
        | Some genesis \<Rightarrow> bt_contains (mig_source_terminal_transfer_ids genesis) tid) \<and>
     identity_ok (dc_ext codec) (dc_plan_json codec) t tid \<and>
     (\<forall>m \<in> set (members t). \<not> member_precedes_floor (dv_migration_genesis document) m)"

lemma index_transfer_ok:
  "index_transfer codec document (tid, t) (n, plans, idx) = Inr (n', plans', idx') \<longleftrightarrow>
     transfer_admitted codec document tid t \<and> n' = n + length (members t) \<and> n' \<le> 8192 \<and>
     plans' = bt_insert tid (plan_of t) plans \<and> distinct (map fst (transfer_advances t)) \<and>
     (\<forall>k \<in> fst ` set (transfer_advances t). bt_get idx k = None) \<and>
     idx' = insert_all (transfer_advances t) idx"
proof -
  let ?moves = "if moved t then fold_r (index_member t) (members t) idx else Inr idx"
  have moves: "?moves = Inr j \<longleftrightarrow> distinct (map fst (transfer_advances t)) \<and>
      (\<forall>k \<in> fst ` set (transfer_advances t). bt_get idx k = None) \<and> j = insert_all (transfer_advances t) idx" for j
    by (cases "moved t") (simp_all only: transfer_advances_def if_True if_False index_member_ok, auto)
  have "index_transfer codec document (tid, t) (n, plans, idx) = Inr (n', plans', idx') \<longleftrightarrow>
      transfer_admitted codec document tid t \<and> n' = n + length (members t) \<and> n' \<le> 8192 \<and>
      plans' = bt_insert tid (plan_of t) plans \<and> ?moves = Inr idx'"
    by (auto simp: index_transfer_def transfer_admitted_def identity_ok_def result_elims Let_def list_ex_iff
        dest: validate_identity_plan split: if_splits)
  then show ?thesis unfolding moves by blast
qed

definition advances_of :: "(string \<times> cell_transfer_record_v3) list \<Rightarrow>
    ((string \<times> u64 \<times> string) \<times> u64 \<times> string) list" where
  "advances_of xs = concat (map (\<lambda>(_, t). transfer_advances t) xs)"

definition memberships_of :: "(string \<times> cell_transfer_record_v3) list \<Rightarrow> nat" where
  "memberships_of xs = sum_list (map (\<lambda>(_, t). length (members t)) xs)"

lemma advances_of_simps [simp]:
  "advances_of [] = []" "advances_of ((k, t) # xs) = transfer_advances t @ advances_of xs"
  "advances_of (xs @ ys) = advances_of xs @ advances_of ys"
  by (simp_all add: advances_of_def)

lemma memberships_of_simps [simp]:
  "memberships_of [] = 0" "memberships_of ((k, t) # xs) = length (members t) + memberships_of xs"
  "memberships_of (xs @ ys) = memberships_of xs + memberships_of ys"
  by (simp_all add: memberships_of_def)

lemma index_transfers_ok:
  "fold_r (index_transfer codec document) xs (n, plans, idx) = Inr (n', plans', idx') \<longleftrightarrow>
     (\<forall>(tid, t) \<in> set xs. transfer_admitted codec document tid t) \<and>
     n' = n + memberships_of xs \<and> (xs = [] \<or> n' \<le> 8192) \<and>
     plans' = insert_all (map (\<lambda>(tid, t). (tid, plan_of t)) xs) plans \<and>
     distinct (map fst (advances_of xs)) \<and> (\<forall>k \<in> fst ` set (advances_of xs). bt_get idx k = None) \<and>
     idx' = insert_all (advances_of xs) idx"
proof (induction xs arbitrary: n plans idx)
  case (Cons x xs)
  obtain tid t where x: "x = (tid, t)" by (cases x)
  have "fold_r (index_transfer codec document) (x # xs) (n, plans, idx) = Inr (n', plans', idx') \<longleftrightarrow>
      (\<exists>n1 p1 i1. index_transfer codec document (tid, t) (n, plans, idx) = Inr (n1, p1, i1) \<and>
        fold_r (index_transfer codec document) xs (n1, p1, i1) = Inr (n', plans', idx'))"
    by (auto simp: x result_elims)
  also have "\<dots> \<longleftrightarrow> transfer_admitted codec document tid t \<and> n + length (members t) \<le> 8192 \<and>
      distinct (map fst (transfer_advances t)) \<and> (\<forall>k \<in> fst ` set (transfer_advances t). bt_get idx k = None) \<and>
      fold_r (index_transfer codec document) xs
        (n + length (members t), bt_insert tid (plan_of t) plans, insert_all (transfer_advances t) idx)
        = Inr (n', plans', idx')"
    unfolding index_transfer_ok by (rule iffI; (elim exE conjE)?; (intro exI conjI)?; simp)
  also have "\<dots> \<longleftrightarrow> (\<forall>(tid, t) \<in> set (x # xs). transfer_admitted codec document tid t) \<and>
     n' = n + memberships_of (x # xs) \<and> (x # xs = [] \<or> n' \<le> 8192) \<and>
     plans' = insert_all (map (\<lambda>(tid, t). (tid, plan_of t)) (x # xs)) plans \<and>
     distinct (map fst (advances_of (x # xs))) \<and> (\<forall>k \<in> fst ` set (advances_of (x # xs)). bt_get idx k = None) \<and>
     idx' = insert_all (advances_of (x # xs)) idx"
  proof (cases "distinct (map fst (transfer_advances t))")
    case True
    have get: "bt_get (insert_all (transfer_advances t) idx) k = None \<longleftrightarrow>
        k \<notin> fst ` set (transfer_advances t) \<and> bt_get idx k = None" for k
      unfolding insert_all_get [OF True] map_of_eq_None_iff [symmetric]
      by (cases "map_of (transfer_advances t) k") simp_all
    have bound: "n + length (members t) \<le> 8192 \<and> (xs = [] \<or> n + length (members t) + memberships_of xs \<le> 8192)
        \<longleftrightarrow> n + (length (members t) + memberships_of xs) \<le> 8192"
      by auto
    show ?thesis unfolding Cons.IH get
      by (simp add: x True add.assoc) (use bound in \<open>blast dest: sym\<close>)
  qed (simp add: x)
  finally show ?case .
qed auto

section \<open>The document as conditions on its maps\<close>

definition advances :: "cell_directory_document_v3 \<Rightarrow> ((string \<times> u64 \<times> string) \<times> u64 \<times> string) list" where
  "advances document = advances_of (bt_entries (dv_transfers document))"

definition index_of :: "cell_directory_document_v3 \<Rightarrow> advance_index" where
  "index_of document = insert_all (advances document) bt_empty"

lemma index_of_get:
  assumes "distinct (map fst (advances document))"
  shows "bt_get (index_of document) k = Some v \<longleftrightarrow> (k, v) \<in> set (advances document)"
  unfolding index_of_def insert_all_get [OF assms]
  by (cases "map_of (advances document) k") (simp_all flip: map_of_eq_Some_iff [OF assms])

lemma in_advances_iff:
  "((a, g, c), g', c') \<in> set (advances document) \<longleftrightarrow>
     (\<exists>tid t m. bt_get (dv_transfers document) tid = Some t \<and> moved t \<and> m \<in> set (members t) \<and>
        a = bpm_aggregate_id m \<and> g = bpm_prior_placement_generation m \<and> c = tv_source_cell_id t \<and>
        g' = bpm_resulting_placement_generation m \<and> c' = tv_destination_cell_id t)"
proof -
  have "((a, g, c), g', c') \<in> set (advances document) \<longleftrightarrow>
      (\<exists>tid t. (tid, t) \<in> set (bt_entries (dv_transfers document)) \<and> ((a, g, c), g', c') \<in> set (transfer_advances t))"
    by (auto simp: advances_def advances_of_def)
  then show ?thesis unfolding bt_in_entries_iff by (auto simp: transfer_advances_def move_of_def)
qed

definition transfer_checked ::
    "directory_codec \<Rightarrow> cell_directory_document_v3 \<Rightarrow> string \<Rightarrow> cell_transfer_record_v3 \<Rightarrow> bool" where
  "transfer_checked codec document tid t \<longleftrightarrow>
     (\<exists>source destination. bt_get (dv_assignments document) (tv_source_cell_id t) = Some source \<and>
        bt_get (dv_assignments document) (tv_destination_cell_id t) = Some destination \<and>
        \<not> route_invalid t source destination \<and>
        validate_phase_proofs (dc_handoff codec) t source destination = Inr ()) \<and>
     (\<forall>m \<in> set (members t). validate_transfer_member document (index_of document) tid t m = Inr ()) \<and>
     (\<forall>aid p. bt_get (dv_placements document) aid = Some p \<longrightarrow> plc_active_transfer_id p = Some tid \<longrightarrow>
        aid \<in> member_ids t)"

lemma validate_transfer_v3_ok:
  assumes "bt_get plans tid = Some (plan_of t)"
  shows "validate_transfer_v3 codec document plans (index_of document) tid t = Inr () \<longleftrightarrow>
    transfer_checked codec document tid t"
proof -
  have mem: "(\<exists>m \<in> set (members t). bpm_aggregate_id m = aid) \<longleftrightarrow> aid \<in> member_ids t" for aid by auto
  show ?thesis
    unfolding validate_transfer_v3_def transfer_checked_def assms
    by (simp add: result_elims bt_any_iff list_ex_iff mem) blast
qed

lemma validate_transfers_ok:
  "validate_transfers codec document = Inr () \<longleftrightarrow>
     (\<forall>tid t. bt_get (dv_transfers document) tid = Some t \<longrightarrow> transfer_admitted codec document tid t) \<and>
     memberships_of (bt_entries (dv_transfers document)) \<le> 8192 \<and>
     distinct (map fst (advances document)) \<and>
     (\<forall>tid t. bt_get (dv_transfers document) tid = Some t \<longrightarrow> transfer_checked codec document tid t) \<and>
     (\<forall>aid p. bt_get (dv_placements document) aid = Some p \<longrightarrow>
        validate_placement_history document (index_of document) aid p = Inr ())"
proof -
  let ?xs = "bt_entries (dv_transfers document)"
  let ?plans = "insert_all (map (\<lambda>(tid, t). (tid, plan_of t)) ?xs) bt_empty"
  have adm: "(\<forall>(tid, t) \<in> set ?xs. transfer_admitted codec document tid t) \<longleftrightarrow>
      (\<forall>tid t. bt_get (dv_transfers document) tid = Some t \<longrightarrow> transfer_admitted codec document tid t)"
    unfolding bt_in_entries_iff [symmetric] by blast
  have "distinct (map fst (map (\<lambda>(tid, t). (tid, plan_of t)) ?xs))"
    using bt_distinct_keys [of "dv_transfers document"] by (simp add: comp_def case_prod_unfold)
  from insert_all_get [OF this, of bt_empty]
  have plans: "bt_get ?plans tid = Some (plan_of t)" if "bt_get (dv_transfers document) tid = Some t" for tid t
    using that by (simp add: bt_get_entries map_of_map)
  have bound: "?xs = [] \<or> n \<le> 8192 \<longleftrightarrow> n \<le> 8192" if "n = memberships_of ?xs" for n :: nat
    using that by auto
  have "validate_transfers codec document = Inr () \<longleftrightarrow>
      (\<forall>(tid, t) \<in> set ?xs. transfer_admitted codec document tid t) \<and>
      (?xs = [] \<or> memberships_of ?xs \<le> 8192) \<and> distinct (map fst (advances document)) \<and>
      (\<forall>tid t. bt_get (dv_transfers document) tid = Some t \<longrightarrow>
         validate_transfer_v3 codec document ?plans (index_of document) tid t = Inr ()) \<and>
      (\<forall>aid p. bt_get (dv_placements document) aid = Some p \<longrightarrow>
         validate_placement_history document (index_of document) aid p = Inr ())"
    unfolding validate_transfers_def
    by (auto simp: result_elims index_transfers_ok advances_def index_of_def)
  then show ?thesis unfolding adm bound [OF refl] using validate_transfer_v3_ok [OF plans] by blast
qed

section \<open>Histories as reachability\<close>

definition advance_step :: "advance_index \<Rightarrow> string \<Rightarrow> u64 \<times> string \<Rightarrow> u64 \<times> string \<Rightarrow> bool" where
  "advance_step idx aid = (\<lambda>(g, c) (g', c'). bt_get idx (aid, g, c) = Some (g', c') \<and> unat g' = Suc (unat g))"

abbreviation advance_path :: "advance_index \<Rightarrow> string \<Rightarrow> u64 \<times> string \<Rightarrow> u64 \<times> string \<Rightarrow> bool" where
  "advance_path idx aid \<equiv> (advance_step idx aid)\<^sup>*\<^sup>*"

lemma advance_path_increases: "advance_path idx aid x y \<Longrightarrow> fst x \<le> fst y"
  by (induction rule: rtranclp_induct)
    (auto simp: advance_step_def word_le_nat_alt split: prod.splits)

lemma advance_path_strict: "advance_path idx aid x y \<Longrightarrow> x = y \<or> fst x < fst y"
proof (induction rule: converse_rtranclp_induct)
  case (step x z)
  from step.hyps(1) have "fst x < fst z" by (auto simp: advance_step_def word_less_nat_alt split: prod.splits)
  also note advance_path_increases [OF step.hyps(2)]
  finally show ?case ..
qed simp

lemma later_history_iff:
  "validate_later_member_history aid g c p idx = Inr () \<longleftrightarrow>
     advance_path idx aid (g, c) (plc_placement_generation p, plc_cell_id p)"
proof (induction aid g c p idx rule: validate_later_member_history.induct)
  case (1 aid g c p idx)
  let ?goal = "(plc_placement_generation p, plc_cell_id p)"
  show ?case
  proof (cases "g < plc_placement_generation p")
    case True
    then have ne: "(g, c) \<noteq> ?goal" by auto
    have succ: "unat (saturating_succ g) = Suc (unat g)" by (rule saturating_succ_below [OF True])
    have first: "advance_path idx aid (g, c) ?goal \<longleftrightarrow>
        (\<exists>y. advance_step idx aid (g, c) y \<and> advance_path idx aid y ?goal)"
      using ne by (blast elim: converse_rtranclpE intro: converse_rtranclp_into_rtranclp)
    have step: "advance_step idx aid (g, c) (g', c') \<longleftrightarrow>
        bt_get idx (aid, g, c) = Some (g', c') \<and> g' = saturating_succ g" for g' c'
      unfolding advance_step_def prod.case succ [symmetric] word_unat_eq_iff ..
    show ?thesis
    proof (cases "bt_get idx (aid, g, c)")
      case None
      with first True show ?thesis by (subst validate_later_member_history.simps) (auto simp: step)
    next
      case (Some y)
      then obtain g' c' where y: "bt_get idx (aid, g, c) = Some (g', c')" by (cases y) auto
      with first True 1 [OF True y] show ?thesis
        by (subst validate_later_member_history.simps) (auto simp: step)
    qed
  next
    case False
    with advance_path_strict [of idx aid "(g, c)" ?goal] show ?thesis
      by (subst validate_later_member_history.simps) auto
  qed
qed

lemma bt_filter_keys_single:
  "filter P (bt_keys m) = [k] \<longleftrightarrow> (\<forall>j. bt_contains m j \<and> P j \<longleftrightarrow> j = k)"
proof -
  have d: "distinct (filter P (bt_keys m))" using bt_distinct_keys [of m] by (simp add: bt_keys_def)
  have "filter P (bt_keys m) = [k] \<longleftrightarrow> set (filter P (bt_keys m)) = {k}"
  proof
    assume s: "set (filter P (bt_keys m)) = {k}"
    have "card (set (filter P (bt_keys m))) = 1" unfolding s by simp
    then have "length (filter P (bt_keys m)) = 1" unfolding distinct_card [OF d] .
    then obtain y where "filter P (bt_keys m) = [y]" by (auto simp: length_Suc_conv)
    with s show "filter P (bt_keys m) = [k]" by (metis list.set(1,2) singleton_insert_inj_eq)
  qed simp
  also have "\<dots> \<longleftrightarrow> (\<forall>j. bt_contains m j \<and> P j \<longleftrightarrow> j = k)"
    by (auto simp: bt_in_keys_iff bt_contains_def set_eq_iff)
  finally show ?thesis .
qed

lemma validate_origin_iff:
  "validate_origin aid p idx = Inr () \<longleftrightarrow>
     (\<exists>c. (\<forall>c'. bt_contains idx (aid, 1, c') \<longleftrightarrow> c' = c) \<and>
        advance_path idx aid (1, c) (plc_placement_generation p, plc_cell_id p))"
proof -
  let ?xs = "filter (\<lambda>(candidate_id, generation, _). candidate_id = aid \<and> generation = 1) (bt_keys idx)"
  have "validate_origin aid p idx = Inr () \<longleftrightarrow> (\<exists>a g c. ?xs = [(a, g, c)] \<and>
      advance_path idx aid (1, c) (plc_placement_generation p, plc_cell_id p))"
    unfolding validate_origin_def by (auto simp: later_history_iff split: list.splits)
  also have "\<dots> \<longleftrightarrow> (\<exists>c. (\<forall>c'. bt_contains idx (aid, 1, c') \<longleftrightarrow> c' = c) \<and>
        advance_path idx aid (1, c) (plc_placement_generation p, plc_cell_id p))"
  proof -
    have "(\<forall>j. bt_contains idx j \<and> (case j of (a, g, _) \<Rightarrow> a = aid \<and> g = 1) \<longleftrightarrow> j = (a, g, c)) \<longleftrightarrow>
        a = aid \<and> g = 1 \<and> (\<forall>c'. bt_contains idx (aid, 1, c') \<longleftrightarrow> c' = c)" for a g c
      by (simp add: split_paired_All) metis
    then show ?thesis unfolding bt_filter_keys_single by simp
  qed
  finally show ?thesis .
qed

end
