(* ===== verification/DirectoryV3Preservation.thy ===== *)
theory DirectoryV3Preservation
  imports DirectoryV3Validity
begin

text \<open>
  What a transaction of the directory of protocol 19 may change and stay valid: evidence that is
  added to a transfer within its phase class, and a transition of all members of a live transfer.
\<close>

section \<open>Replacing one transfer\<close>

lemma upd_sorted_present:
  "keys_sorted xs \<Longrightarrow> map_of xs k = Some w \<Longrightarrow>
    \<exists>ys zs. xs = ys @ (k, w) # zs \<and> (\<forall>v. upd_sorted k v xs = ys @ (k, v) # zs)"
proof (induction xs)
  case (Cons x xs)
  obtain a b where x: "x = (a, b)" by (cases x)
  show ?case
  proof (cases "a = k")
    case True
    with Cons.prems x show ?thesis by (intro exI [of _ "[]"] exI [of _ xs]) simp
  next
    case False
    with Cons.prems x have m: "map_of xs k = Some w" and s: "keys_sorted xs" by simp_all
    with Cons.prems(1) x have "a < k" by (auto dest!: map_of_SomeD)
    moreover from Cons.IH [OF s m] obtain ys zs where
      "xs = ys @ (k, w) # zs" "\<forall>v. upd_sorted k v xs = ys @ (k, v) # zs" by blast
    ultimately show ?thesis using x by (intro exI [of _ "x # ys"] exI [of _ zs]) auto
  qed
qed simp

lemma bt_entries_replace:
  assumes "bt_get m k = Some w"
  obtains ys zs where "bt_entries m = ys @ (k, w) # zs" "\<And>v. bt_entries (bt_insert k v m) = ys @ (k, v) # zs"
  using upd_sorted_present [OF bt_keys_sorted, of m k w] assms by (auto simp: bt_get_entries)

fun phase_class :: "transfer_phase \<Rightarrow> transfer_phase" where
  "phase_class Quarantined = Prepared"
| "phase_class Aborting = Prepared"
| "phase_class Finalized = Imported"
| "phase_class phase = phase"

abbreviation live :: "cell_transfer_record_v3 \<Rightarrow> bool" where
  "live t \<equiv> tv_phase t \<notin> {Imported, Finalized, Aborted}"

abbreviation terminal :: "cell_transfer_record_v3 \<Rightarrow> bool" where
  "terminal t \<equiv> tv_phase t \<in> {Finalized, Aborted}"

lemma immutable_fields:
  assumes "immutable_material_matches t t'"
  shows "tv_transfer_id t' = tv_transfer_id t" "tv_root_aggregate_id t' = tv_root_aggregate_id t"
    "tv_source_cell_key t' = tv_source_cell_key t" "tv_source_cell_id t' = tv_source_cell_id t"
    "tv_destination_cell_key t' = tv_destination_cell_key t" "tv_destination_cell_id t' = tv_destination_cell_id t"
    "tv_source_assignment_generation t' = tv_source_assignment_generation t"
    "tv_source_fencing_token t' = tv_source_fencing_token t"
    "tv_destination_assignment_generation t' = tv_destination_assignment_generation t"
    "tv_destination_fencing_token t' = tv_destination_fencing_token t" "tv_bundle t' = tv_bundle t"
  using assms by (simp_all add: immutable_material_matches_def)

lemma immutable_refl [simp]: "immutable_material_matches t t"
  by (simp add: immutable_material_matches_def)

lemma move_of_immutable: "immutable_material_matches t t' \<Longrightarrow> move_of t' = move_of t"
  by (rule ext) (simp add: move_of_def immutable_fields)

lemma plan_of_immutable: "immutable_material_matches t t' \<Longrightarrow> plan_of t' = plan_of t"
  by (simp add: plan_of_def immutable_fields)

lemma same_class:
  assumes "phase_class (tv_phase t') = phase_class (tv_phase t)" and "immutable_material_matches t t'"
  shows "moved t' \<longleftrightarrow> moved t" "live t' \<longleftrightarrow> live t"
    "member_matches_phase p m t' tid \<longleftrightarrow> member_matches_phase p m t tid" "terminal_start t' m p = terminal_start t m p"
  using assms(1)
  by (cases "tv_phase t"; cases "tv_phase t'";
      simp add: member_matches_phase_def terminal_start_def immutable_fields [OF assms(2)])+

lemma route_immutable:
  assumes "immutable_material_matches t t'" and "terminal t \<longrightarrow> terminal t'"
    and "\<not> route_invalid t source destination"
  shows "\<not> route_invalid t' source destination"
  using assms(2,3) by (auto simp: route_invalid_def immutable_fields [OF assms(1)])

text \<open>What identity depends on: the immutable material, and the agreement of the receipt with the phase.\<close>

lemma identity_ok_immutable:
  assumes "identity_ok ext json t tid" and "immutable_material_matches t t'"
    and "\<not> receipt_phase_disagrees t'" and "\<And>h. tv_quarantine_receipt_hash t' = Some h \<Longrightarrow> valid_blake3_hex h"
  shows "identity_ok ext json t' tid"
  using assms(1,3,4)
  by (auto simp: identity_ok_def validate_identity_def result_elims bundled_plan_ok_iff validate_hash_v3_def
      immutable_fields [OF assms(2)] plan_of_immutable [OF assms(2)])

lemma identity_ok_receipt:
  assumes "identity_ok ext json t tid"
  shows "\<not> receipt_phase_disagrees t" and "tv_quarantine_receipt_hash t = Some h \<Longrightarrow> valid_blake3_hex h"
  using assms by (auto simp: identity_ok_def validate_identity_def result_elims validate_hash_v3_def)

section \<open>Documents\<close>

lemma validate_document_v3_ok:
  "validate_document_v3 codec document = Inr () \<longleftrightarrow>
     validate_header_v3 codec document = Inr () \<and> validate_assignments codec document = Inr () \<and>
     validate_migration_genesis codec document = Inr () \<and> validate_placements document = Inr () \<and>
     validate_transfers codec document = Inr ()"
  by (auto simp: validate_document_v3_def result_elims)

lemmas validate_transfersD = validate_transfers_ok [THEN iffD1, THEN conjunct1, rule_format]

lemma valid_transfer:
  assumes "validate_document_v3 codec document = Inr ()" and "bt_get (dv_transfers document) tid = Some t"
  shows "transfer_admitted codec document tid t" and "transfer_checked codec document tid t"
    and "identity_ok (dc_ext codec) (dc_plan_json codec) t tid"
  using assms unfolding validate_document_v3_ok validate_transfers_ok by (auto simp: transfer_admitted_def)

lemma valid_transfer_id:
  assumes "validate_document_v3 codec document = Inr ()" and "bt_get (dv_transfers document) tid = Some t"
  shows "tv_transfer_id t = tid"
  using valid_transfer(3) [OF assms] by (auto simp: identity_ok_def validate_identity_def result_elims)

lemma valid_member:
  assumes "validate_document_v3 codec document = Inr ()" and "bt_get (dv_transfers document) tid = Some t"
    and "m \<in> set (members t)"
  obtains p where "bt_get (dv_placements document) (bpm_aggregate_id m) = Some p"
    "plc_aggregate_kind p = bpm_aggregate_kind m" "member_matches_phase p m t tid"
    "\<And>g c. terminal_start t m p = Some (g, c) \<Longrightarrow>
      advance_path (index_of document) (bpm_aggregate_id m) (g, c) (plc_placement_generation p, plc_cell_id p)"
proof -
  from valid_transfer(2) [OF assms(1,2)] assms(3)
  have "validate_transfer_member document (index_of document) tid t m = Inr ()"
    by (auto simp: transfer_checked_def)
  then show thesis
    by (auto simp: validate_transfer_member_def result_elims later_history_iff intro!: that split: prod.splits)
qed

lemma valid_placement:
  assumes "validate_document_v3 codec document = Inr ()" and "bt_get (dv_placements document) aid = Some p"
  shows "validate_placement_v3 document aid p = Inr ()" and "plc_aggregate_id p = aid"
    and "validate_placement_history document (index_of document) aid p = Inr ()"
  using assms unfolding validate_document_v3_ok validate_transfers_ok validate_placements_def
  by (auto simp: result_elims validate_placement_v3_def)

text \<open>The moves of two committed transfers are different moves.\<close>

lemma valid_advances_distinct: "validate_document_v3 codec document = Inr () \<Longrightarrow> distinct (map fst (advances document))"
  unfolding validate_document_v3_ok validate_transfers_ok by blast

lemma valid_index:
  assumes "validate_document_v3 codec document = Inr ()"
  shows "bt_get (index_of document) (a, g, c) = Some (g', c') \<longleftrightarrow>
     (\<exists>tid t m. bt_get (dv_transfers document) tid = Some t \<and> moved t \<and> m \<in> set (members t) \<and>
        a = bpm_aggregate_id m \<and> g = bpm_prior_placement_generation m \<and> c = tv_source_cell_id t \<and>
        g' = bpm_resulting_placement_generation m \<and> c' = tv_destination_cell_id t)"
  unfolding index_of_get [OF valid_advances_distinct [OF assms]] in_advances_iff ..

section \<open>Sealing\<close>

definition sealed :: "directory_codec \<Rightarrow> cell_directory_document_v3 \<Rightarrow> u64 \<Rightarrow> cell_directory_document_v3" where
  "sealed codec staged revision =
     (let cleared = staged\<lparr>dv_directory_revision := revision, dv_document_hash := []\<rparr> in
      cleared\<lparr>dv_document_hash := (case calculate_document_hash codec cleared of Inl _ \<Rightarrow> [] | Inr h \<Rightarrow> h)\<rparr>)"

text \<open>
  The encoding of a document exists and is within the bound: with its hash, and cleared of it for hashing.
\<close>

definition document_fits :: "directory_codec \<Rightarrow> cell_directory_document_v3 \<Rightarrow> bool" where
  "document_fits codec document \<longleftrightarrow>
     is_ok (dc_document_json codec (document\<lparr>dv_document_hash := []\<rparr>)) \<and>
     (case dc_document_json codec document of Inl _ \<Rightarrow> False | Inr bytes \<Rightarrow> length bytes \<le> 16777216)"

text \<open>The documented shape of a hash: 64 lowercase hexadecimal digits.\<close>

definition hashes_are_hex :: "externals \<Rightarrow> bool" where
  "hashes_are_hex ext \<longleftrightarrow> (\<forall>bytes. valid_blake3_hex (ext_blake3_hex ext bytes))"

lemma sealed_simps [simp]:
  "dv_schema_version (sealed codec staged r) = dv_schema_version staged"
  "dv_universe_id (sealed codec staged r) = dv_universe_id staged"
  "dv_universe_manifest_hash (sealed codec staged r) = dv_universe_manifest_hash staged"
  "dv_directory_revision (sealed codec staged r) = r"
  "dv_assignments (sealed codec staged r) = dv_assignments staged"
  "dv_placements (sealed codec staged r) = dv_placements staged"
  "dv_transfers (sealed codec staged r) = dv_transfers staged"
  "dv_migration_genesis (sealed codec staged r) = dv_migration_genesis staged"
  by (simp_all add: sealed_def Let_def)

lemma finish_ok:
  "finish_v3_transaction codec prior staged = Inr next \<longleftrightarrow>
     (\<exists>r. checked_add (dv_directory_revision prior) 1 = Some r \<and> next = sealed codec staged r \<and>
        is_ok (calculate_document_hash codec next) \<and> validate_document_v3 codec next = Inr ())"
proof -
  have clear: "calculate_document_hash codec (d\<lparr>dv_document_hash := h\<rparr>) = calculate_document_hash codec d" for d h
    by (simp add: calculate_document_hash_def)
  show ?thesis
    unfolding finish_v3_transaction_def seal_document_def sealed_def
    by (auto simp: result_elims Let_def is_ok_iff clear)
qed

lemma sealed_header:
  assumes valid: "validate_header_v3 codec prior = Inr ()" and fits: "document_fits codec (sealed codec staged r)"
    and hex: "hashes_are_hex (dc_ext codec)" and r: "r \<noteq> 0"
    and same: "dv_schema_version staged = dv_schema_version prior" "dv_universe_id staged = dv_universe_id prior"
      "dv_universe_manifest_hash staged = dv_universe_manifest_hash prior"
      "bt_len (dv_assignments staged) = bt_len (dv_assignments prior)"
      "bt_len (dv_placements staged) = bt_len (dv_placements prior)"
      "bt_len (dv_transfers staged) \<le> 1024"
  shows "validate_header_v3 codec (sealed codec staged r) = Inr ()"
    and "is_ok (calculate_document_hash codec (sealed codec staged r))"
proof -
  let ?c = "staged\<lparr>dv_directory_revision := r, dv_document_hash := []\<rparr>"
  let ?d = "sealed codec staged r"
  have cleared: "?d\<lparr>dv_document_hash := []\<rparr> = ?c" by (simp add: sealed_def Let_def)
  from fits obtain bytes where j: "dc_document_json codec ?c = Inr bytes"
    by (auto simp: document_fits_def cleared is_ok_iff)
  let ?h = "ext_blake3_hex (dc_ext codec) (document_domain @ bytes)"
  have calc: "calculate_document_hash codec ?c = Inr ?h" "calculate_document_hash codec ?d = Inr ?h"
    by (simp_all add: calculate_document_hash_def cleared j)
  then show "is_ok (calculate_document_hash codec ?d)" by simp
  have h: "dv_document_hash ?d = ?h" by (simp add: sealed_def Let_def calc(1))
  from fits obtain bytes' where "dc_document_json codec ?d = Inr bytes'" "length bytes' \<le> 16777216"
    by (auto simp: document_fits_def split: sum.splits)
  then show "validate_header_v3 codec ?d = Inr ()"
    using valid r hex same calc(2) h
    by (simp add: validate_header_v3_def result_elims Let_def hashes_are_hex_def) auto
qed


section \<open>Evidence\<close>

lemma validate_assignments_cong:
  assumes "dv_assignments d' = dv_assignments d" and "dv_universe_id d' = dv_universe_id d"
  shows "validate_assignments codec d' = validate_assignments codec d"
proof -
  have "validate_assignment_v3 codec d' = validate_assignment_v3 codec d"
    by (intro ext) (simp add: validate_assignment_v3_def assms(2))
  then show ?thesis by (simp add: validate_assignments_def assms(1))
qed

lemma validate_placement_cong:
  "dv_assignments d' = dv_assignments d \<Longrightarrow> validate_placement_v3 d' = validate_placement_v3 d"
  by (intro ext) (simp add: validate_placement_v3_def)

lemma genesis_kept:
  assumes "validate_migration_genesis codec d = Inr ()" and "dv_migration_genesis d' = dv_migration_genesis d"
    and "dv_directory_revision d' \<noteq> 1"
    and "\<And>aid floor. floor_of d aid = Some floor \<Longrightarrow> validate_floor d aid floor = Inr () \<Longrightarrow>
      validate_floor d' aid floor = Inr ()"
  shows "validate_migration_genesis codec d' = Inr ()"
  using assms unfolding validate_migration_genesis_def floor_of_def by (auto simp: result_elims)

lemma header_bound: "validate_header_v3 codec d = Inr () \<Longrightarrow> bt_len (dv_transfers d) \<le> 1024"
  by (auto simp: validate_header_v3_def result_elims Let_def)

lemma validate_member_cong:
  assumes "dv_placements d' = dv_placements d" and "phase_class (tv_phase t') = phase_class (tv_phase t)"
    and "immutable_material_matches t t'"
  shows "validate_transfer_member d' idx tid t' m = validate_transfer_member d idx tid t m"
  unfolding validate_transfer_member_def assms(1) same_class(3,4) [OF assms(2,3)] ..

lemma history_cong:
  assumes "dv_migration_genesis d' = dv_migration_genesis d"
    and "\<And>tid t. bt_get (dv_transfers d) tid = Some t \<Longrightarrow>
      \<exists>t'. bt_get (dv_transfers d') tid = Some t' \<and> tv_bundle t' = tv_bundle t"
    and "validate_placement_history d idx aid p = Inr ()"
  shows "validate_placement_history d' idx aid p = Inr ()"
  using assms(2,3) by (fastforce simp: validate_placement_history_def floor_of_def assms(1) result_elims)

lemma transfer_admitted_cong:
  "dv_migration_genesis d' = dv_migration_genesis d \<Longrightarrow>
    transfer_admitted codec d' tid t \<longleftrightarrow> transfer_admitted codec d tid t"
  by (simp add: transfer_admitted_def)

lemma evidence_transfers:
  assumes valid: "validate_document_v3 codec d = Inr ()" and t: "bt_get (dv_transfers d) tid = Some t"
    and imm: "immutable_material_matches t t'" and cls: "phase_class (tv_phase t') = phase_class (tv_phase t)"
    and ident: "identity_ok (dc_ext codec) (dc_plan_json codec) t' tid"
    and ends: "terminal t \<longrightarrow> terminal t'"
    and proofs: "\<And>source destination. bt_get (dv_assignments d) (tv_source_cell_id t) = Some source \<Longrightarrow>
      bt_get (dv_assignments d) (tv_destination_cell_id t) = Some destination \<Longrightarrow>
      validate_phase_proofs (dc_handoff codec) t source destination = Inr () \<Longrightarrow>
      validate_phase_proofs (dc_handoff codec) t' source destination = Inr ()"
    and d': "dv_transfers d' = bt_insert tid t' (dv_transfers d)" "dv_assignments d' = dv_assignments d"
      "dv_placements d' = dv_placements d" "dv_migration_genesis d' = dv_migration_genesis d"
  shows "validate_transfers codec d' = Inr ()"
proof -
  from bt_entries_replace [OF t] obtain ys zs where e: "bt_entries (dv_transfers d) = ys @ (tid, t) # zs"
    "\<And>v. bt_entries (bt_insert tid v (dv_transfers d)) = ys @ (tid, v) # zs" by blast
  have "transfer_advances t' = transfer_advances t"
    unfolding transfer_advances_def same_class(1) [OF cls imm] move_of_immutable [OF imm] immutable_fields [OF imm] ..
  then have adv: "advances d' = advances d" unfolding advances_def d'(1) e by simp
  then have idx: "index_of d' = index_of d" by (simp add: index_of_def)
  have mem: "memberships_of (bt_entries (dv_transfers d')) = memberships_of (bt_entries (dv_transfers d))"
    unfolding d'(1) e by (simp add: immutable_fields [OF imm])
  have old: "transfer_admitted codec d k u" "transfer_checked codec d k u"
    if "bt_get (dv_transfers d) k = Some u" for k u
    using valid_transfer [OF valid that] by blast+
  have checked: "transfer_checked codec d' tid t'"
    using old(2) [OF t] proofs route_immutable [OF imm ends]
    unfolding transfer_checked_def idx d'(2,3) validate_member_cong [OF d'(3) cls imm] immutable_fields [OF imm]
    by blast
  have other: "transfer_checked codec d' k u" if "bt_get (dv_transfers d) k = Some u" for k u
    using old(2) [OF that] unfolding transfer_checked_def idx d'(2,3) validate_member_cong [OF d'(3) refl immutable_refl] .
  have admitted: "transfer_admitted codec d' tid t'"
    using old(1) [OF t] ident
    unfolding transfer_admitted_def d'(4) immutable_fields [OF imm] by blast
  have "validate_placement_history d' (index_of d') aid p = Inr ()" if "bt_get (dv_placements d') aid = Some p" for aid p
    unfolding idx
  proof (rule history_cong [OF d'(4)])
    show "validate_placement_history d (index_of d) aid p = Inr ()"
      using valid_placement(3) [OF valid] that unfolding d'(3) by blast
    show "\<exists>u'. bt_get (dv_transfers d') k = Some u' \<and> tv_bundle u' = tv_bundle u"
      if "bt_get (dv_transfers d) k = Some u" for k u
      using that t immutable_fields(11) [OF imm] by (auto simp: d'(1))
  qed
  moreover have "transfer_admitted codec d' k u \<and> transfer_checked codec d' k u"
    if "bt_get (dv_transfers d') k = Some u" for k u
    using that checked other admitted old(1) transfer_admitted_cong [OF d'(4)]
    by (auto simp: d'(1) split: if_splits)
  moreover have "memberships_of (bt_entries (dv_transfers d')) \<le> 8192" "distinct (map fst (advances d'))"
    using valid unfolding mem adv validate_document_v3_ok validate_transfers_ok by blast+
  ultimately show ?thesis unfolding validate_transfers_ok by blast
qed

lemma evidence_keeps_valid:
  assumes valid: "validate_document_v3 codec d = Inr ()" and t: "bt_get (dv_transfers d) tid = Some t"
    and imm: "immutable_material_matches t t'" and cls: "phase_class (tv_phase t') = phase_class (tv_phase t)"
    and ident: "identity_ok (dc_ext codec) (dc_plan_json codec) t' tid"
    and ends: "terminal t \<longrightarrow> terminal t'"
    and proofs: "\<And>source destination. bt_get (dv_assignments d) (tv_source_cell_id t) = Some source \<Longrightarrow>
      bt_get (dv_assignments d) (tv_destination_cell_id t) = Some destination \<Longrightarrow>
      validate_phase_proofs (dc_handoff codec) t source destination = Inr () \<Longrightarrow>
      validate_phase_proofs (dc_handoff codec) t' source destination = Inr ()"
    and r: "checked_add (dv_directory_revision d) 1 = Some r" and hex: "hashes_are_hex (dc_ext codec)"
    and fits: "document_fits codec (sealed codec (put_transfer_v3 tid t' d) r)"
  shows "finish_v3_transaction codec d (put_transfer_v3 tid t' d) = Inr (sealed codec (put_transfer_v3 tid t' d) r)"
proof -
  let ?d = "sealed codec (put_transfer_v3 tid t' d) r"
  from valid have parts: "validate_header_v3 codec d = Inr ()" "validate_assignments codec d = Inr ()"
    "validate_migration_genesis codec d = Inr ()" "validate_placements d = Inr ()"
    unfolding validate_document_v3_ok by blast+
  have rev: "r \<noteq> 0" "r \<noteq> 1"
    using checked_succ_gt(2) [OF r] checked_succ_unat [OF r] parts(1)
    by (auto simp: validate_header_v3_def result_elims Let_def unat_eq_0)
  note header = sealed_header [OF parts(1) fits hex rev(1)]
  have "validate_header_v3 codec ?d = Inr ()" "is_ok (calculate_document_hash codec ?d)"
    by (rule header; simp add: bt_len_insert_present [OF t] header_bound [OF parts(1)])+
  moreover have "validate_assignments codec ?d = Inr ()"
    using parts(2) validate_assignments_cong [of ?d d codec] by simp
  moreover have "validate_migration_genesis codec ?d = Inr ()"
    by (rule genesis_kept [OF parts(3)]) (use rev in \<open>simp_all add: validate_floor_def\<close>)
  moreover have "validate_placements ?d = Inr ()"
    using parts(4) validate_placement_cong [of ?d d] by (simp add: validate_placements_def)
  moreover have "validate_transfers codec ?d = Inr ()"
    by (rule evidence_transfers [OF valid t imm cls ident ends proofs]) simp_all
  ultimately show ?thesis using r unfolding finish_ok validate_document_v3_ok by blast
qed

end
