(* ===== verification/DirectoryV3Movement.thy ===== *)
theory DirectoryV3Movement
  imports DirectoryV3Preservation
begin

text \<open>
  The transitions that move the members of a live transfer (commit, import, the end of an abort) keep
  a document of protocol 19 valid: the index of advances gains at most the moves of that transfer, and
  every history that was complete stays complete.
\<close>

definition movement ::
    "directory_codec \<Rightarrow> cell_directory_document_v3 \<Rightarrow> string \<Rightarrow> cell_transfer_record_v3 \<Rightarrow> cell_transfer_record_v3 \<Rightarrow>
     bundled_placement_transition \<Rightarrow> (string, aggregate_placement_record) btree_map \<Rightarrow> bool" where
  "movement codec d tid t t' tr P \<longleftrightarrow>
     validate_document_v3 codec d = Inr () \<and> bt_get (dv_transfers d) tid = Some t \<and>
     immutable_material_matches t t' \<and>
     stage_members codec d (plan_of t) tid (dbn_member_root (tv_bundle t)) tr = Inr P \<and>
     (tr, tv_phase t, tv_phase t') \<in>
       {(CommitBundle, Quarantined, Committed), (ImportBundle, Committed, Imported), (AbortBundle, Aborting, Aborted)}"

definition moved_document ::
    "string \<Rightarrow> cell_transfer_record_v3 \<Rightarrow> (string, aggregate_placement_record) btree_map \<Rightarrow>
     cell_directory_document_v3 \<Rightarrow> cell_directory_document_v3" where
  "moved_document tid t' P d = put_transfer_v3 tid t' (d\<lparr>dv_placements := P\<rparr>)"

lemma moved_document_simps [simp]:
  "dv_transfers (moved_document tid t' P d) = bt_insert tid t' (dv_transfers d)"
  "dv_placements (moved_document tid t' P d) = P"
  "dv_assignments (moved_document tid t' P d) = dv_assignments d"
  "dv_migration_genesis (moved_document tid t' P d) = dv_migration_genesis d"
  "dv_universe_id (moved_document tid t' P d) = dv_universe_id d"
  "dv_universe_manifest_hash (moved_document tid t' P d) = dv_universe_manifest_hash d"
  "dv_schema_version (moved_document tid t' P d) = dv_schema_version d"
  by (simp_all add: moved_document_def)

lemma movementD:
  assumes "movement codec d tid t t' tr P"
  shows "validate_document_v3 codec d = Inr ()" "bt_get (dv_transfers d) tid = Some t"
    "immutable_material_matches t t'" "tr \<noteq> PrepareBundle"
    "stage_members codec d (plan_of t) tid (dbn_member_root (tv_bundle t)) tr = Inr P"
    "identity_ok (dc_ext codec) (dc_plan_json codec) t tid"
  using assms valid_transfer(3) unfolding movement_def by blast+

section \<open>The placements of a movement\<close>

lemma movement_member:
  assumes "movement codec d tid t t' tr P" and "m \<in> set (members t)"
  obtains p where "bt_get (dv_placements d) (bpm_aggregate_id m) = Some p"
    "bundle_phase_valid (plan_of t) tid tr m p" "plc_aggregate_kind p = bpm_aggregate_kind m"
    "bt_get P (bpm_aggregate_id m) = Some (advance_bundle_member (plan_of t) tid tr m p)"
  using stage_bundle_member [OF movementD(5) [OF assms(1), unfolded stage_members_def], of m] assms(2) by auto

lemma movement_nonmember:
  assumes "movement codec d tid t t' tr P" and "aid \<notin> member_ids t"
  shows "bt_get P aid = bt_get (dv_placements d) aid"
  using stage_bundle_nonmember [OF movementD(5) [OF assms(1), unfolded stage_members_def]] assms(2) by simp

lemma movement_domain:
  assumes "movement codec d tid t t' tr P"
  shows "bt_get P aid = None \<longleftrightarrow> bt_get (dv_placements d) aid = None"
proof (cases "aid \<in> member_ids t")
  case True
  then obtain m where "m \<in> set (members t)" "aid = bpm_aggregate_id m" by blast
  with movement_member [OF assms this(1)] show ?thesis by (metis option.distinct(1))
qed (simp add: movement_nonmember [OF assms])

lemma movement_length: "movement codec d tid t t' tr P \<Longrightarrow> bt_len P = bt_len (dv_placements d)"
  using movement_domain by (simp add: bt_len_keys dom_def)

lemma advanced_fields:
  "plc_aggregate_id (advance_bundle_member plan tid tr m p) = plc_aggregate_id p"
  "plc_aggregate_kind (advance_bundle_member plan tid tr m p) = plc_aggregate_kind p"
  by (cases tr; simp)+

text \<open>A member in the phase of a movement is held by the transfer.\<close>

lemma held_member:
  assumes "bundle_phase_valid plan tid tr m p" and "tr \<noteq> PrepareBundle"
  shows "plc_active_transfer_id p = Some tid" and "plc_state p \<noteq> Resident"
  using assms by (cases tr; simp)+

lemma other_member:
  assumes valid: "validate_document_v3 codec d = Inr ()" and p: "bt_get (dv_placements d) aid = Some p"
    and held: "plc_active_transfer_id p = Some tid" "plc_state p \<noteq> Resident"
    and u: "bt_get (dv_transfers d) k = Some u" "k \<noteq> tid" "m \<in> set (members u)" "bpm_aggregate_id m = aid"
  shows "tv_phase u \<in> {Imported, Finalized} \<and> bpm_resulting_placement_generation m < plc_placement_generation p \<or>
    tv_phase u = Aborted \<and> bpm_prior_placement_generation m < plc_placement_generation p"
proof -
  from valid_member [OF valid u(1,3)] p u(4) have "member_matches_phase p m u k" by auto
  with held u(2) show ?thesis
    by (cases "tv_phase u") (auto simp: member_matches_phase_def)
qed

text \<open>What a movement does to the generation and the cell of a member.\<close>

lemma advanced_generation:
  assumes "movement codec d tid t t' tr P" and "m \<in> set (members t)"
    and "bundle_phase_valid (plan_of t) tid tr m p"
  shows "(if tr = CommitBundle
          then plc_placement_generation p = bpm_prior_placement_generation m \<and> plc_cell_id p = tv_source_cell_id t \<and>
            plc_placement_generation (advance_bundle_member (plan_of t) tid tr m p) = bpm_resulting_placement_generation m \<and>
            plc_cell_id (advance_bundle_member (plan_of t) tid tr m p) = tv_destination_cell_id t
          else plc_placement_generation (advance_bundle_member (plan_of t) tid tr m p) = plc_placement_generation p \<and>
            plc_cell_id (advance_bundle_member (plan_of t) tid tr m p) = plc_cell_id p \<and>
            plc_cell_key (advance_bundle_member (plan_of t) tid tr m p) = plc_cell_key p)"
    and "plc_placement_generation p \<le> plc_placement_generation (advance_bundle_member (plan_of t) tid tr m p)"
  using assms(3) member_generations(2) [OF movementD(6) [OF assms(1)] assms(2)] movementD(4) [OF assms(1)]
  by (cases tr; simp)+

section \<open>The index of a movement\<close>

lemma movement_advances:
  assumes mv: "movement codec d tid t t' tr P"
  shows "\<exists>A B. advances d = A @ B \<and>
    advances (moved_document tid t' P d) = A @ (if tr = CommitBundle then map (move_of t) (members t) else []) @ B"
proof -
  from bt_entries_replace [OF movementD(2) [OF mv]] obtain ys zs where
    e: "bt_entries (dv_transfers d) = ys @ (tid, t) # zs"
    "\<And>v. bt_entries (bt_insert tid v (dv_transfers d)) = ys @ (tid, v) # zs" by blast
  have adv: "advances d = advances_of ys @ transfer_advances t @ advances_of zs"
    "advances (moved_document tid t' P d) = advances_of ys @ transfer_advances t' @ advances_of zs"
    unfolding advances_def moved_document_simps e by simp_all
  note imm = movementD(3) [OF mv]
  show ?thesis
  proof (cases "tr = CommitBundle")
    case True
    with mv have "transfer_advances t = []" "transfer_advances t' = map (move_of t) (members t)"
      unfolding movement_def transfer_advances_def move_of_immutable [OF imm] immutable_fields(11) [OF imm] by auto
    with adv True show ?thesis by auto
  next
    case False
    with mv have "transfer_advances t' = transfer_advances t"
      unfolding movement_def transfer_advances_def move_of_immutable [OF imm] immutable_fields(11) [OF imm] by auto
    with adv False show ?thesis by (auto intro: exI [of _ "advances_of ys @ transfer_advances t"])
  qed
qed

text \<open>No committed transfer has made the move of a member that still stands before it.\<close>

lemma move_is_new:
  assumes mv: "movement codec d tid t t' CommitBundle P" and m: "m \<in> set (members t)"
  shows "((bpm_aggregate_id m, bpm_prior_placement_generation m, c), v) \<notin> set (advances d)"
proof
  assume "((bpm_aggregate_id m, bpm_prior_placement_generation m, c), v) \<in> set (advances d)"
  then obtain k u m' where u: "bt_get (dv_transfers d) k = Some u" "moved u" "m' \<in> set (members u)"
    "bpm_aggregate_id m' = bpm_aggregate_id m" "bpm_prior_placement_generation m' = bpm_prior_placement_generation m"
    by (cases v) (auto simp: in_advances_iff)
  obtain p where p: "bt_get (dv_placements d) (bpm_aggregate_id m) = Some p"
    "bundle_phase_valid (plan_of t) tid CommitBundle m p"
    using movement_member [OF mv m] by metis
  have "k \<noteq> tid" using mv u(1,2) by (auto simp: movement_def)
  from other_member [OF movementD(1) [OF mv] p(1) held_member [OF p(2)] u(1) this u(3,4)] u(2)
  have "bpm_resulting_placement_generation m' < plc_placement_generation p" by auto
  moreover have "bpm_prior_placement_generation m' < bpm_resulting_placement_generation m'"
    by (rule member_generations(2) [OF valid_transfer(3) [OF movementD(1) [OF mv] u(1)] u(3)])
  ultimately show False using p(2) u(5) by simp
qed

lemma movement_index:
  assumes mv: "movement codec d tid t t' tr P"
  shows "distinct (map fst (advances (moved_document tid t' P d)))"
    and "bt_get (index_of (moved_document tid t' P d)) k = Some v \<longleftrightarrow>
      bt_get (index_of d) k = Some v \<or> tr = CommitBundle \<and> (k, v) \<in> move_of t ` set (members t)"
proof -
  let ?new = "if tr = CommitBundle then map (move_of t) (members t) else []"
  obtain A B where ab: "advances d = A @ B" "advances (moved_document tid t' P d) = A @ ?new @ B"
    using movement_advances [OF mv] by blast
  have old: "distinct (map fst (A @ B))" using valid_advances_distinct [OF movementD(1) [OF mv]] ab(1) by simp
  have "distinct (map fst ?new)"
    using members_distinct [OF movementD(6) [OF mv]] by (auto simp: distinct_map move_of_def inj_on_def)
  moreover have "fst ` set ?new \<inter> fst ` set (A @ B) = {}"
    using move_is_new mv by (fastforce simp: move_of_def simp flip: ab(1) split: if_splits)
  ultimately show d: "distinct (map fst (advances (moved_document tid t' P d)))"
    using old unfolding ab(2) by auto
  show "bt_get (index_of (moved_document tid t' P d)) k = Some v \<longleftrightarrow>
      bt_get (index_of d) k = Some v \<or> tr = CommitBundle \<and> (k, v) \<in> move_of t ` set (members t)"
    unfolding index_of_get [OF d] index_of_get [OF valid_advances_distinct [OF movementD(1) [OF mv]]] ab by auto
qed

lemma movement_path:
  assumes mv: "movement codec d tid t t' tr P" and "advance_path (index_of d) aid x y"
  shows "advance_path (index_of (moved_document tid t' P d)) aid x y"
  using assms(2)
proof (rule rtranclp_mono [THEN predicate2D, rotated])
  show "advance_step (index_of d) aid \<le> advance_step (index_of (moved_document tid t' P d)) aid"
    using movement_index(2) [OF mv] by (auto simp: advance_step_def)
qed

lemma movement_member_path:
  assumes mv: "movement codec d tid t t' tr P" and m: "m \<in> set (members t)"
    and ph: "bundle_phase_valid (plan_of t) tid tr m p"
  shows "advance_path (index_of (moved_document tid t' P d)) (bpm_aggregate_id m)
    (plc_placement_generation p, plc_cell_id p)
    (plc_placement_generation (advance_bundle_member (plan_of t) tid tr m p),
     plc_cell_id (advance_bundle_member (plan_of t) tid tr m p))"
proof (cases "tr = CommitBundle")
  case True
  have "advance_step (index_of (moved_document tid t' P d)) (bpm_aggregate_id m)
      (bpm_prior_placement_generation m, tv_source_cell_id t) (bpm_resulting_placement_generation m, tv_destination_cell_id t)"
    using movement_index(2) [OF mv] m True member_generations(3) [OF movementD(6) [OF mv] m]
    by (auto simp: advance_step_def move_of_def)
  with advanced_generation(1) [OF mv m ph] True show ?thesis by simp
qed (use advanced_generation(1) [OF mv m ph] in simp)


section \<open>The document after a movement\<close>

lemma valid_route:
  assumes "validate_document_v3 codec d = Inr ()" and "bt_get (dv_transfers d) tid = Some t"
  obtains source destination where "bt_get (dv_assignments d) (tv_source_cell_id t) = Some source"
    "bt_get (dv_assignments d) (tv_destination_cell_id t) = Some destination"
    "\<not> route_invalid t source destination" "validate_phase_proofs (dc_handoff codec) t source destination = Inr ()"
    "asg_cell_key source = tv_source_cell_key t" "asg_cell_key destination = tv_destination_cell_key t"
  using valid_transfer(2) [OF assms] that by (auto simp: transfer_checked_def route_invalid_def)

lemma movement_placement:
  assumes mv: "movement codec d tid t t' tr P" and p': "bt_get P aid = Some p'"
  shows "validate_placement_v3 (moved_document tid t' P d) aid p' = Inr ()"
proof (cases "aid \<in> member_ids t")
  case True
  then obtain m where m: "m \<in> set (members t)" "aid = bpm_aggregate_id m" by blast
  obtain p where p: "bt_get (dv_placements d) aid = Some p" "bundle_phase_valid (plan_of t) tid tr m p"
    "p' = advance_bundle_member (plan_of t) tid tr m p"
    using movement_member [OF mv m(1)] p' m(2) by auto
  obtain source destination where a: "bt_get (dv_assignments d) (tv_destination_cell_id t) = Some destination"
    "asg_cell_key destination = tv_destination_cell_key t"
    using valid_route [OF movementD(1,2) [OF mv]] by metis
  have "bpm_resulting_placement_generation m \<noteq> 0"
    using member_generations(3) [OF movementD(6) [OF mv] m(1)] by auto
  with valid_placement(1) [OF movementD(1) [OF mv] p(1)] p(2) a movementD(4) [OF mv] show ?thesis
    unfolding p(3) by (cases tr) (auto simp: validate_placement_v3_def result_elims)
next
  case False
  with p' movement_nonmember [OF mv] have "bt_get (dv_placements d) aid = Some p'" by simp
  from valid_placement(1) [OF movementD(1) [OF mv] this] show ?thesis
    using validate_placement_cong [of "moved_document tid t' P d" d] by simp
qed

lemma movement_floor:
  assumes mv: "movement codec d tid t t' tr P" and old: "validate_floor d aid floor = Inr ()"
  shows "validate_floor (moved_document tid t' P d) aid floor = Inr ()"
proof (cases "aid \<in> member_ids t")
  case True
  then obtain m where m: "m \<in> set (members t)" "aid = bpm_aggregate_id m" by blast
  obtain p where p: "bt_get (dv_placements d) aid = Some p" "bundle_phase_valid (plan_of t) tid tr m p"
    "bt_get P aid = Some (advance_bundle_member (plan_of t) tid tr m p)"
    using movement_member [OF mv m(1)] m(2) by metis
  let ?q = "advance_bundle_member (plan_of t) tid tr m p"
  have "plc_placement_generation p < plc_placement_generation ?q \<or>
      plc_placement_generation ?q = plc_placement_generation p \<and> plc_cell_id ?q = plc_cell_id p \<and>
      plc_cell_key ?q = plc_cell_key p"
    using advanced_generation(1) [OF mv m(1) p(2)] member_generations(2) [OF movementD(6) [OF mv] m(1)]
    by (auto split: if_splits)
  with old p(1,3) show ?thesis
    by (auto simp: validate_floor_def result_elims advanced_fields)
next
  case False
  with old movement_nonmember [OF mv] show ?thesis by (simp add: validate_floor_def result_elims)
qed

lemma movement_self:
  assumes mv: "movement codec d tid t t' tr P" and m: "m \<in> set (members t)"
  shows "validate_transfer_member (moved_document tid t' P d) idx tid t' m = Inr ()"
proof -
  obtain p where p: "bundle_phase_valid (plan_of t) tid tr m p" "plc_aggregate_kind p = bpm_aggregate_kind m"
    "bt_get P (bpm_aggregate_id m) = Some (advance_bundle_member (plan_of t) tid tr m p)"
    using movement_member [OF mv m] by metis
  from mv p(1) have "member_matches_phase (advance_bundle_member (plan_of t) tid tr m p) m t' tid"
    "terminal_start t' m (advance_bundle_member (plan_of t) tid tr m p) = None"
    unfolding movement_def
    by (auto simp: member_matches_phase_def terminal_start_def immutable_fields [OF movementD(3) [OF mv]])
  with p(2,3) show ?thesis
    by (simp add: validate_transfer_member_def result_elims advanced_fields)
qed

lemma movement_other:
  assumes mv: "movement codec d tid t t' tr P" and u: "bt_get (dv_transfers d) k = Some u" "k \<noteq> tid"
    and m': "m' \<in> set (members u)"
  shows "validate_transfer_member (moved_document tid t' P d) (index_of (moved_document tid t' P d)) k u m' = Inr ()"
proof -
  from valid_member [OF movementD(1) [OF mv] u(1) m'] obtain p where
    p: "bt_get (dv_placements d) (bpm_aggregate_id m') = Some p" "plc_aggregate_kind p = bpm_aggregate_kind m'"
      "member_matches_phase p m' u k"
    and path: "\<And>g c. terminal_start u m' p = Some (g, c) \<Longrightarrow>
      advance_path (index_of d) (bpm_aggregate_id m') (g, c) (plc_placement_generation p, plc_cell_id p)" by blast
  note path' = movement_path [OF mv path]
  show ?thesis
  proof (cases "bpm_aggregate_id m' \<in> member_ids t")
    case False
    with p path' movement_nonmember [OF mv] show ?thesis
      by (auto simp: validate_transfer_member_def result_elims later_history_iff)
  next
    case True
    then obtain m where m: "m \<in> set (members t)" "bpm_aggregate_id m = bpm_aggregate_id m'" by auto
    with movement_member [OF mv m(1)] p(1) have ph: "bundle_phase_valid (plan_of t) tid tr m p"
      and q: "bt_get P (bpm_aggregate_id m') = Some (advance_bundle_member (plan_of t) tid tr m p)" by auto
    let ?q = "advance_bundle_member (plan_of t) tid tr m p"
    have strict: "tv_phase u \<in> {Imported, Finalized} \<and> bpm_resulting_placement_generation m' < plc_placement_generation p \<or>
        tv_phase u = Aborted \<and> bpm_prior_placement_generation m' < plc_placement_generation p"
      by (rule other_member [OF movementD(1) [OF mv] p(1) held_member [OF ph movementD(4) [OF mv]] u m' refl])
    note le = advanced_generation(2) [OF mv m(1) ph]
    from strict le have "member_matches_phase ?q m' u k" "terminal_start u m' ?q = terminal_start u m' p"
      by (auto simp: member_matches_phase_def terminal_start_def intro: less_le_trans)
    moreover note rtranclp_trans [OF path' movement_member_path [OF mv m(1) ph, unfolded m(2)]]
    ultimately show ?thesis using q p(2)
      by (auto simp: validate_transfer_member_def result_elims later_history_iff advanced_fields)
  qed
qed


lemma word_eq_one: "\<not> 1 < g \<Longrightarrow> g \<noteq> 0 \<Longrightarrow> g = 1" for g :: u64
  unfolding word_less_nat_alt word_unat_eq_iff by simp

lemma floor_bounds:
  assumes valid: "validate_document_v3 codec d = Inr ()" and f: "floor_of d aid = Some f"
    and p: "bt_get (dv_placements d) aid = Some p"
  shows "1 < mpf_placement_generation f" and "mpf_placement_generation f \<le> plc_placement_generation p"
proof -
  from f obtain g where g: "dv_migration_genesis d = Some g" "bt_get (mig_placement_floors g) aid = Some f"
    by (auto simp: floor_of_def bind_eq_Some_conv)
  with valid have "validate_genesis codec g = Inr ()" "validate_floor d aid f = Inr ()"
    unfolding validate_document_v3_ok validate_migration_genesis_def by (auto simp: result_elims)
  from this(1) have "\<not> bt_any placement_floor_invalid (mig_placement_floors g)"
    unfolding validate_genesis_def by (simp add: result_elims Let_def)
  with g(2) show "1 < mpf_placement_generation f" by (auto simp: bt_any_iff placement_floor_invalid_def not_le)
  from \<open>validate_floor d aid f = Inr ()\<close> p show "mpf_placement_generation f \<le> plc_placement_generation p"
    by (auto simp: validate_floor_def result_elims)
qed

text \<open>An origin stays the only one: a member that has left generation one keeps the origin it has.\<close>

lemma movement_origin:
  assumes mv: "movement codec d tid t t' tr P" and m: "m \<in> set (members t)"
    and p: "bt_get (dv_placements d) (bpm_aggregate_id m) = Some p" and ph: "bundle_phase_valid (plan_of t) tid tr m p"
    and late: "1 < plc_placement_generation (advance_bundle_member (plan_of t) tid tr m p)"
    and floor: "floor_of d (bpm_aggregate_id m) = None"
  shows "validate_origin (bpm_aggregate_id m) (advance_bundle_member (plan_of t) tid tr m p)
    (index_of (moved_document tid t' P d)) = Inr ()"
proof -
  let ?q = "advance_bundle_member (plan_of t) tid tr m p" and ?aid = "bpm_aggregate_id m"
  let ?idx = "index_of d" and ?idx' = "index_of (moved_document tid t' P d)"
  note path = movement_member_path [OF mv m ph]
  have contains: "bt_contains ?idx' (?aid, 1, c) \<longleftrightarrow> bt_contains ?idx (?aid, 1, c) \<or>
      tr = CommitBundle \<and> bpm_prior_placement_generation m = 1 \<and> c = tv_source_cell_id t" for c
  proof -
    have "n = m" if "n \<in> set (members t)" "bpm_aggregate_id n = ?aid" for n
      using that m members_distinct [OF movementD(6) [OF mv]] by (auto simp: distinct_map dest: inj_onD)
    then have "(\<exists>v. ((?aid, 1, c), v) \<in> move_of t ` set (members t)) \<longleftrightarrow>
        bpm_prior_placement_generation m = 1 \<and> c = tv_source_cell_id t"
      using m by (auto simp: move_of_def image_iff)
    then show ?thesis
      unfolding bt_contains_def not_None_eq movement_index(2) [OF mv] by blast
  qed
  show ?thesis
  proof (cases "1 < plc_placement_generation p")
    case True
    with valid_placement(3) [OF movementD(1) [OF mv] p] floor
    obtain c where c: "\<forall>c'. bt_contains ?idx (?aid, 1, c') \<longleftrightarrow> c' = c"
      "advance_path ?idx ?aid (1, c) (plc_placement_generation p, plc_cell_id p)"
      by (auto simp: validate_placement_history_def result_elims validate_origin_iff)
    have "\<not> (tr = CommitBundle \<and> bpm_prior_placement_generation m = 1)"
      using advanced_generation(1) [OF mv m ph] True by auto
    with c(1) contains have "\<forall>c'. bt_contains ?idx' (?aid, 1, c') \<longleftrightarrow> c' = c" by blast
    with rtranclp_trans [OF movement_path [OF mv c(2)] path] show ?thesis unfolding validate_origin_iff by blast
  next
    case False
    have "plc_placement_generation p \<noteq> 0"
      using valid_placement(1) [OF movementD(1) [OF mv] p] by (auto simp: validate_placement_v3_def result_elims)
    with False have one: "plc_placement_generation p = 1"
      by (rule word_eq_one)
    with late advanced_generation(1) [OF mv m ph] have tr: "tr = CommitBundle" "bpm_prior_placement_generation m = 1"
      "plc_cell_id p = tv_source_cell_id t" by (auto split: if_splits)
    have "\<not> bt_contains ?idx (?aid, 1, c)" for c
      using move_is_new [OF mv [unfolded tr(1)] m] tr(2)
      by (auto simp: bt_contains_def index_of_get [OF valid_advances_distinct [OF movementD(1) [OF mv]]])
    with contains tr path one show ?thesis unfolding validate_origin_iff by auto
  qed
qed

lemma movement_history:
  assumes mv: "movement codec d tid t t' tr P" and p': "bt_get P aid = Some p'"
  shows "validate_placement_history (moved_document tid t' P d) (index_of (moved_document tid t' P d)) aid p' = Inr ()"
proof (cases "aid \<in> member_ids t")
  case True
  then obtain m where m: "m \<in> set (members t)" "aid = bpm_aggregate_id m" by blast
  obtain p where p: "bt_get (dv_placements d) aid = Some p" "bundle_phase_valid (plan_of t) tid tr m p"
    "p' = advance_bundle_member (plan_of t) tid tr m p"
    using movement_member [OF mv m(1)] p' m(2) by auto
  have active: "plc_active_transfer_id p' = None \<or> plc_active_transfer_id p' = Some tid"
    using p(2,3) movementD(4) [OF mv] by (cases tr) auto
  have floor: "validate_later_member_history aid (mpf_placement_generation f) (mpf_cell_id f) p'
      (index_of (moved_document tid t' P d)) = Inr ()" if f: "floor_of d aid = Some f" for f
  proof -
    have "1 < plc_placement_generation p"
      using floor_bounds [OF movementD(1) [OF mv] f p(1)] by (rule less_le_trans)
    with valid_placement(3) [OF movementD(1) [OF mv] p(1)] f
    have "advance_path (index_of d) aid (mpf_placement_generation f, mpf_cell_id f)
        (plc_placement_generation p, plc_cell_id p)"
      by (auto simp: validate_placement_history_def result_elims later_history_iff)
    from rtranclp_trans [OF movement_path [OF mv this] movement_member_path [OF mv m(1) p(2), folded m(2)]]
    show ?thesis unfolding later_history_iff p(3) .
  qed
  have "validate_origin aid p' (index_of (moved_document tid t' P d)) = Inr ()"
    if "floor_of d aid = None" "1 < plc_placement_generation p'"
    using movement_origin [OF mv m(1) p(1) [unfolded m(2)] p(2)] that unfolding p(3) m(2) by blast
  with floor active True immutable_fields(11) [OF movementD(3) [OF mv]] show ?thesis
    by (auto simp: validate_placement_history_def floor_of_def result_elims list_ex_iff split: option.splits)
next
  case False
  with p' movement_nonmember [OF mv] have p: "bt_get (dv_placements d) aid = Some p'" by simp
  note old = valid_placement(3) [OF movementD(1) [OF mv] p]
  have same: "bt_contains (index_of (moved_document tid t' P d)) (aid, 1, c) \<longleftrightarrow> bt_contains (index_of d) (aid, 1, c)" for c
    unfolding bt_contains_def not_None_eq movement_index(2) [OF mv] using False by (auto simp: move_of_def)
  have origin: "validate_origin aid p' (index_of (moved_document tid t' P d)) = Inr ()"
    if "validate_origin aid p' (index_of d) = Inr ()"
    using that movement_path [OF mv] unfolding validate_origin_iff same by blast
  have later: "validate_later_member_history aid g c p' (index_of (moved_document tid t' P d)) = Inr ()"
    if "validate_later_member_history aid g c p' (index_of d) = Inr ()" for g c
    using that movement_path [OF mv] unfolding later_history_iff by blast
  have "validate_placement_history d (index_of (moved_document tid t' P d)) aid p' = Inr ()"
    using old origin later by (auto simp: validate_placement_history_def result_elims split: option.splits)
  then show ?thesis
  proof (rule history_cong [rotated 2])
    show "\<exists>u'. bt_get (dv_transfers (moved_document tid t' P d)) k = Some u' \<and> tv_bundle u' = tv_bundle u"
      if "bt_get (dv_transfers d) k = Some u" for k u
      using that movementD(2) [OF mv] immutable_fields(11) [OF movementD(3) [OF mv]] by auto
  qed simp
qed


section \<open>A movement is sealed\<close>

lemma movement_active:
  assumes mv: "movement codec d tid t t' tr P" and p': "bt_get P aid = Some p'" and k: "plc_active_transfer_id p' = Some k"
  shows "(k = tid \<and> aid \<in> member_ids t) \<or> (aid \<notin> member_ids t \<and> bt_get (dv_placements d) aid = Some p')"
proof (cases "aid \<in> member_ids t")
  case True
  then obtain m where m: "m \<in> set (members t)" "aid = bpm_aggregate_id m" by blast
  with movement_member [OF mv m(1)] p' obtain p where "bundle_phase_valid (plan_of t) tid tr m p"
    "p' = advance_bundle_member (plan_of t) tid tr m p" by auto
  with k True movementD(4) [OF mv] show ?thesis by (cases tr) auto
qed (use p' movement_nonmember [OF mv] in simp)

lemma movement_transfers:
  assumes mv: "movement codec d tid t t' tr P"
    and ident: "identity_ok (dc_ext codec) (dc_plan_json codec) t' tid"
    and proofs: "\<And>source destination. validate_phase_proofs (dc_handoff codec) t source destination = Inr () \<Longrightarrow>
      validate_phase_proofs (dc_handoff codec) t' source destination = Inr ()"
  shows "validate_transfers codec (moved_document tid t' P d) = Inr ()"
proof -
  let ?d = "moved_document tid t' P d"
  note valid = movementD(1) [OF mv] and t = movementD(2) [OF mv] and imm = movementD(3) [OF mv]
  have old: "transfer_admitted codec d k u" "transfer_checked codec d k u"
    if "bt_get (dv_transfers d) k = Some u" for k u
    using valid_transfer [OF valid that] by blast+
  from bt_entries_replace [OF t] obtain ys zs where e: "bt_entries (dv_transfers d) = ys @ (tid, t) # zs"
    "\<And>v. bt_entries (bt_insert tid v (dv_transfers d)) = ys @ (tid, v) # zs" by blast
  have mem: "memberships_of (bt_entries (dv_transfers ?d)) = memberships_of (bt_entries (dv_transfers d))"
    unfolding moved_document_simps e by (simp add: immutable_fields [OF imm])
  have held: "aid \<in> member_ids u"
    if "bt_get (dv_transfers d) k = Some u" "bt_get P aid = Some p'" "plc_active_transfer_id p' = Some k" for k u aid p'
    using movement_active [OF mv that(2,3)] old(2) [OF that(1)] that(1,3) t unfolding transfer_checked_def by auto
  obtain source destination where a: "bt_get (dv_assignments d) (tv_source_cell_id t) = Some source"
    "bt_get (dv_assignments d) (tv_destination_cell_id t) = Some destination"
    "\<not> route_invalid t source destination" "validate_phase_proofs (dc_handoff codec) t source destination = Inr ()"
    using valid_route [OF valid t] by metis
  have "\<not> terminal t" using mv by (auto simp: movement_def)
  then have self: "transfer_checked codec ?d tid t'"
    using a proofs [OF a(4)] route_immutable [OF imm _ a(3)] movement_self [OF mv] held [OF t]
    unfolding transfer_checked_def moved_document_simps immutable_fields [OF imm] by blast
  have other: "transfer_checked codec ?d k u" if "bt_get (dv_transfers d) k = Some u" "k \<noteq> tid" for k u
    using old(2) [OF that(1)] movement_other [OF mv that] held [OF that(1)]
    unfolding transfer_checked_def moved_document_simps by blast
  have "transfer_admitted codec ?d tid t'"
    using old(1) [OF t] ident unfolding transfer_admitted_def moved_document_simps immutable_fields [OF imm] by blast
  with self other old(1) transfer_admitted_cong [of ?d d codec]
  have "transfer_admitted codec ?d k u \<and> transfer_checked codec ?d k u" if "bt_get (dv_transfers ?d) k = Some u" for k u
    using that by (auto split: if_splits)
  moreover have "memberships_of (bt_entries (dv_transfers ?d)) \<le> 8192"
    using valid unfolding mem validate_document_v3_ok validate_transfers_ok by blast
  moreover have "validate_placement_history ?d (index_of ?d) aid p = Inr ()" if "bt_get (dv_placements ?d) aid = Some p" for aid p
    using movement_history [OF mv] that by simp
  ultimately show ?thesis using movement_index(1) [OF mv] unfolding validate_transfers_ok by blast
qed

lemma sealed_transfers: "validate_transfers codec (sealed codec d r) = validate_transfers codec d"
proof -
  have "index_transfer codec (sealed codec d r) = index_transfer codec d"
    unfolding index_transfer_def sealed_simps ..
  moreover have "validate_transfer_v3 codec (sealed codec d r) = validate_transfer_v3 codec d"
    unfolding validate_transfer_v3_def [abs_def] validate_transfer_member_def [abs_def] sealed_simps ..
  moreover have "validate_placement_history (sealed codec d r) = validate_placement_history d"
    unfolding validate_placement_history_def [abs_def] floor_of_def sealed_simps ..
  ultimately show ?thesis by (simp add: validate_transfers_def)
qed

lemma revision_successor:
  assumes "validate_header_v3 codec d = Inr ()" and "checked_add (dv_directory_revision d) 1 = Some r"
  shows "r \<noteq> 0" "r \<noteq> 1"
  using checked_succ_gt(2) [OF assms(2)] checked_succ_unat [OF assms(2)] assms(1)
  by (auto simp: validate_header_v3_def result_elims Let_def unat_eq_0)

lemma movement_keeps_valid:
  assumes mv: "movement codec d tid t t' tr P"
    and ident: "identity_ok (dc_ext codec) (dc_plan_json codec) t' tid"
    and proofs: "\<And>source destination. validate_phase_proofs (dc_handoff codec) t source destination = Inr () \<Longrightarrow>
      validate_phase_proofs (dc_handoff codec) t' source destination = Inr ()"
    and r: "checked_add (dv_directory_revision d) 1 = Some r" and hex: "hashes_are_hex (dc_ext codec)"
    and fits: "document_fits codec (sealed codec (moved_document tid t' P d) r)"
  shows "finish_v3_transaction codec d (moved_document tid t' P d) = Inr (sealed codec (moved_document tid t' P d) r)"
proof -
  let ?d = "sealed codec (moved_document tid t' P d) r"
  from movementD(1) [OF mv] have parts: "validate_header_v3 codec d = Inr ()" "validate_assignments codec d = Inr ()"
    "validate_migration_genesis codec d = Inr ()"
    unfolding validate_document_v3_ok by blast+
  note rev = revision_successor [OF parts(1) r]
  note header = sealed_header [OF parts(1) fits hex rev(1)]
  have "validate_header_v3 codec ?d = Inr ()" "is_ok (calculate_document_hash codec ?d)"
    by (rule header; simp add: bt_len_insert_present [OF movementD(2) [OF mv]] movement_length [OF mv]
          header_bound [OF parts(1)])+
  moreover have "validate_assignments codec ?d = Inr ()"
    using parts(2) validate_assignments_cong [of ?d d codec] by simp
  moreover have "validate_migration_genesis codec ?d = Inr ()"
    by (rule genesis_kept [OF parts(3)])
      (use rev movement_floor [OF mv] in \<open>simp_all add: validate_floor_def\<close>)
  moreover have "validate_placements ?d = Inr ()"
    using movement_placement [OF mv] validate_placement_cong [of ?d "moved_document tid t' P d"]
    by (auto simp: validate_placements_def result_elims)
  moreover have "validate_transfers codec ?d = Inr ()"
    unfolding sealed_transfers by (rule movement_transfers [OF mv ident proofs])
  ultimately show ?thesis using r unfolding finish_ok validate_document_v3_ok by blast
qed

end
