(* ===== verification/DirectoryV3Commands.thy ===== *)
theory DirectoryV3Commands
  imports DirectoryV3Movement
begin

text \<open>
  The protocol of a transfer as a step relation, and every command of the directory of protocol 19
  as a step of it: what a command that is accepted has changed, and that it is accepted again.
\<close>

section \<open>The protocol\<close>

text \<open>What a transfer has recorded is never removed or replaced.\<close>

definition evidence_kept :: "cell_transfer_record_v3 \<Rightarrow> cell_transfer_record_v3 \<Rightarrow> bool" where
  "evidence_kept t t' \<longleftrightarrow>
     list_all (\<lambda>evidence. evidence t = None \<or> evidence t' = evidence t)
       [tv_source_prepare_proof, tv_destination_quarantine_proof, tv_source_export_proof, tv_import_proof,
        tv_destination_activation_proof, tv_finalization_proof, tv_source_abort_proof, tv_destination_abort_proof] \<and>
     (tv_quarantine_receipt_hash t = None \<or> tv_quarantine_receipt_hash t' = tv_quarantine_receipt_hash t)"

text \<open>Phases that change without a placement being touched.\<close>

definition evidence_edges :: "(transfer_phase \<times> transfer_phase) set" where
  "evidence_edges = {(Prepared, Prepared), (Prepared, Quarantined), (Committed, Committed), (Imported, Imported),
     (Imported, Finalized), (Prepared, Aborting), (Quarantined, Aborting), (Aborting, Aborting)}"

text \<open>
  \<open>protocol_step codec d tid t' P\<close>: in the document \<open>d\<close> the transfer \<open>tid\<close> becomes \<open>t'\<close> and the
  placements become \<open>P\<close>.
\<close>

inductive protocol_step ::
    "directory_codec \<Rightarrow> cell_directory_document_v3 \<Rightarrow> string \<Rightarrow> cell_transfer_record_v3 \<Rightarrow>
     (string, aggregate_placement_record) btree_map \<Rightarrow> bool"
  for codec d tid where
  prepared: "bt_get (dv_transfers d) tid = None \<Longrightarrow> tv_transfer_id t' = tid \<Longrightarrow> \<not> carries_evidence t' \<Longrightarrow>
      stage_members codec d (plan_of t') tid (dbn_member_root (tv_bundle t')) PrepareBundle = Inr P \<Longrightarrow>
      protocol_step codec d tid t' P"
| recorded: "bt_get (dv_transfers d) tid = Some t \<Longrightarrow> immutable_material_matches t t' \<Longrightarrow> evidence_kept t t' \<Longrightarrow>
      (tv_phase t, tv_phase t') \<in> evidence_edges \<Longrightarrow> protocol_step codec d tid t' (dv_placements d)"
| moved: "movement codec d tid t t' tr P \<Longrightarrow> evidence_kept t t' \<Longrightarrow> protocol_step codec d tid t' P"

definition accepted_step ::
    "directory_codec \<Rightarrow> cell_directory_document_v3 \<Rightarrow> string \<Rightarrow> cell_directory_document_v3 \<Rightarrow> bool" where
  "accepted_step codec d tid d' \<longleftrightarrow>
     (\<exists>t' P. protocol_step codec d tid t' P \<and> finish_v3_transaction codec d (moved_document tid t' P d) = Inr d')"

lemma accepted_prepared:
  assumes "bt_get (dv_transfers d) (tv_transfer_id t) = None" and "\<not> carries_evidence t"
    and "stage_members codec d (plan_of t) (tv_transfer_id t) (dbn_member_root (tv_bundle t)) PrepareBundle = Inr P"
    and "finish_v3_transaction codec d (put_transfer_v3 (tv_transfer_id t) t (d\<lparr>dv_placements := P\<rparr>)) = Inr d'"
  shows "accepted_step codec d (tv_transfer_id t) d'"
  using protocol_step.prepared [OF assms(1) refl assms(2,3)] assms(4)
  unfolding accepted_step_def moved_document_def by metis

lemma accepted_recorded:
  assumes "finish_v3_transaction codec d (put_transfer_v3 tid t' d) = Inr d'" and "bt_get (dv_transfers d) tid = Some t"
    and "immutable_material_matches t t'" and "evidence_kept t t'" and "(tv_phase t, tv_phase t') \<in> evidence_edges"
  shows "accepted_step codec d tid d'"
proof -
  have "moved_document tid t' (dv_placements d) d = put_transfer_v3 tid t' d"
    by (simp add: moved_document_def)
  with protocol_step.recorded [OF assms(2-5)] assms(1) show ?thesis
    unfolding accepted_step_def by (metis (no_types))
qed

lemma accepted_moved:
  assumes "finish_v3_transaction codec d (put_transfer_v3 tid t' (d\<lparr>dv_placements := P\<rparr>)) = Inr d'"
    and "movement codec d tid t t' tr P" and "evidence_kept t t'"
  shows "accepted_step codec d tid d'"
  using protocol_step.moved [OF assms(2,3)] assms(1) unfolding accepted_step_def moved_document_def by metis

lemma v3_transfer_ok [result_elims]: "v3_transfer d tid = Inr t \<longleftrightarrow> bt_get (dv_transfers d) tid = Some t"
  by (auto simp: v3_transfer_def result_elims)

lemma case_option_Inr:
  "(case x of None \<Rightarrow> a | Some v \<Rightarrow> f v) = Inr w \<longleftrightarrow> (x = None \<and> a = Inr w) \<or> (\<exists>v. x = Some v \<and> f v = Inr w)"
  by (cases x) simp_all

lemmas stage_outcome = case_option_Inr result_elims evidence_kept_def evidence_edges_def immutable_material_matches_def
  bundled_plan_ok_iff movement_def

section \<open>Every command is a step\<close>

lemma prepare_step:
  assumes "stage_v3_prepare codec d t = Inr d'"
  shows "d' = d \<or> accepted_step codec d (tv_transfer_id t) d'"
  using assms unfolding stage_v3_prepare_def
  by (cases "bt_get (dv_transfers d) (tv_transfer_id t)")
    (auto simp: result_elims dest!: validate_identity_plan intro!: accepted_prepared split: if_splits)

lemma source_prepare_step:
  "stage_v3_source_prepared codec d tid p = Inr d' \<Longrightarrow> d' = d \<or> accepted_step codec d tid d'"
  unfolding stage_v3_source_prepared_def apply_v3_source_prepare_proof_def
  by (auto simp: stage_outcome intro!: accepted_recorded split: if_splits)

lemma quarantine_step:
  "stage_v3_quarantine codec d tid p = Inr d' \<Longrightarrow> d' = d \<or> accepted_step codec d tid d'"
  unfolding stage_v3_quarantine_def apply_v3_quarantine_proof_def
  by (auto simp: stage_outcome intro!: accepted_recorded split: if_splits)

lemma commit_step:
  "stage_v3_commit codec d tid root = Inr d' \<Longrightarrow> d' = d \<or> accepted_step codec d tid d'"
  unfolding stage_v3_commit_def
  by (auto simp: stage_outcome intro!: accepted_moved split: if_splits)

lemma export_step:
  "stage_v3_source_exported codec d tid p = Inr d' \<Longrightarrow> d' = d \<or> accepted_step codec d tid d'"
  unfolding stage_v3_source_exported_def apply_v3_source_export_proof_def
  by (auto simp: stage_outcome intro!: accepted_recorded split: if_splits)

lemma import_step:
  "stage_v3_destination_imported codec d tid p = Inr d' \<Longrightarrow> d' = d \<or> accepted_step codec d tid d'"
  unfolding stage_v3_destination_imported_def apply_v3_import_proof_def
  by (auto simp: stage_outcome intro!: accepted_moved split: if_splits)

lemma activation_step:
  "stage_v3_destination_activated codec d tid p = Inr d' \<Longrightarrow> d' = d \<or> accepted_step codec d tid d'"
  unfolding stage_v3_destination_activated_def apply_v3_destination_activation_proof_def
  by (auto simp: stage_outcome intro!: accepted_recorded split: if_splits)

lemma finalization_step:
  "stage_v3_source_finalized codec d tid p = Inr d' \<Longrightarrow> d' = d \<or> accepted_step codec d tid d'"
  unfolding stage_v3_source_finalized_def apply_v3_source_finalization_proof_def
  by (auto simp: stage_outcome intro!: accepted_recorded split: if_splits)

lemma request_abort_step:
  "stage_v3_request_abort codec d tid = Inr d' \<Longrightarrow> d' = d \<or> accepted_step codec d tid d'"
  unfolding stage_v3_request_abort_def
  by (auto simp: stage_outcome intro!: accepted_recorded split: if_splits)

lemma abort_cleanup_step:
  "stage_v3_abort_cleanup codec d tid p = Inr d' \<Longrightarrow> d' = d \<or> accepted_step codec d tid d'"
  unfolding stage_v3_abort_cleanup_def apply_v3_abort_cleanup_proof_def
  by (auto simp: stage_outcome intro!: accepted_recorded split: if_splits)

lemma finalize_abort_step:
  "stage_v3_finalize_abort codec d tid = Inr d' \<Longrightarrow> d' = d \<or> accepted_step codec d tid d'"
  unfolding stage_v3_finalize_abort_def
  by (auto simp: stage_outcome intro!: accepted_moved split: if_splits)

lemma command_step:
  assumes "stage_command codec d c = Inr d'"
  shows "d' = d \<or> accepted_step codec d (command_transfer_id c) d'"
  using assms prepare_step source_prepare_step quarantine_step commit_step export_step import_step
    activation_step finalization_step request_abort_step abort_cleanup_step finalize_abort_step
  by (cases c) (simp only: stage_command.simps command_transfer_id.simps; blast)+

end
