(* ===== verification/DirectoryV3Retry.thy ===== *)
theory DirectoryV3Retry
  imports DirectoryV3Commands
begin

text \<open>
  A command of the directory of protocol 19 that is repeated on the document it has produced is
  answered with that document.
\<close>

lemma if_Inr: "(if b then x else y) = Inr w \<longleftrightarrow> b \<and> x = Inr w \<or> \<not> b \<and> y = Inr w"
  by simp

lemmas retry_outcome = result_elims case_option_Inr if_Inr finish_ok

lemma stored_again: "\<exists>e. (immutable_material_matches e t \<longrightarrow> t = e) \<and> immutable_material_matches e t"
  by (rule exI [of _ t]) simp

lemma v3_prepare_retry:
  "stage_v3_prepare codec d t = Inr d' \<Longrightarrow> stage_v3_prepare codec d' t = Inr d'"
  unfolding stage_v3_prepare_def
  by (cases "bt_get (dv_transfers d) (tv_transfer_id t)")
    (auto simp: retry_outcome stored_again)

lemma v3_source_prepare_retry:
  "stage_v3_source_prepared codec d tid p = Inr d' \<Longrightarrow> stage_v3_source_prepared codec d' tid p = Inr d'"
  unfolding stage_v3_source_prepared_def apply_v3_source_prepare_proof_def
  by (auto simp: retry_outcome)

lemma quarantine_receipt [simp]:
  "dpp_quarantine_receipt_hash (quarantine_phase_proof p) = Some (gqp_quarantine_receipt_hash p)"
  by (simp add: quarantine_phase_proof_def)

lemma quarantine_recorded:
  assumes "apply_v3_quarantine_proof codec d tid proof = Inr d'"
  shows "\<exists>t t'. bt_get (dv_transfers d) tid = Some t \<and> bt_get (dv_transfers d') tid = Some t' \<and>
    tv_root_aggregate_id t' = tv_root_aggregate_id t \<and> tv_quarantine_receipt_hash t' = dpp_quarantine_receipt_hash proof \<and>
    tv_destination_quarantine_proof t' = Some proof"
    and "validate_document_v3 codec d' = Inr ()"
    and "\<exists>receipt. dpp_quarantine_receipt_hash proof = Some receipt \<and> validate_hash_v3 receipt ''quarantine receipt'' = Inr ()"
  using assms unfolding apply_v3_quarantine_proof_def by (auto simp: retry_outcome)

lemma quarantine_again:
  assumes "apply_v3_quarantine_proof codec d tid proof = Inr d'"
  shows "apply_v3_quarantine_proof codec d' tid proof = Inr d'"
  using quarantine_recorded [OF assms]
  unfolding apply_v3_quarantine_proof_def v3_transfer_def by auto

lemma v3_quarantine_retry:
  assumes "stage_v3_quarantine codec d tid p = Inr d'"
  shows "stage_v3_quarantine codec d' tid p = Inr d'"
proof -
  from assms have app: "apply_v3_quarantine_proof codec d tid (quarantine_phase_proof p) = Inr d'"
    and p: "validate_quarantine_for_directory (dc_handoff codec) p = Inr ()"
    and root: "\<And>t. bt_get (dv_transfers d) tid = Some t \<Longrightarrow> tv_root_aggregate_id t = gqp_root_aggregate_id p"
    unfolding stage_v3_quarantine_def by (auto simp: result_elims)
  from quarantine_recorded(1,2) [OF app] quarantine_again [OF app] p root show ?thesis
    unfolding stage_v3_quarantine_def v3_transfer_def by auto
qed

lemma commit_recorded:
  assumes "stage_v3_commit codec d tid root = Inr d'"
  shows "validate_document_v3 codec d' = Inr () \<and> validate_hash_v3 root ''member root'' = Inr () \<and>
    (\<exists>t. bt_get (dv_transfers d') tid = Some t \<and> dbn_member_root (tv_bundle t) = root \<and>
      tv_phase t \<in> {Committed, Imported, Finalized})"
  using assms unfolding stage_v3_commit_def by (auto simp: retry_outcome)

lemma v3_commit_retry:
  "stage_v3_commit codec d tid root = Inr d' \<Longrightarrow> stage_v3_commit codec d' tid root = Inr d'"
  using commit_recorded [of codec d tid root d'] unfolding stage_v3_commit_def [of _ d'] v3_transfer_def
  by auto

lemma v3_export_retry:
  "stage_v3_source_exported codec d tid p = Inr d' \<Longrightarrow> stage_v3_source_exported codec d' tid p = Inr d'"
  unfolding stage_v3_source_exported_def apply_v3_source_export_proof_def
  by (auto simp: retry_outcome)

lemma v3_import_retry:
  "stage_v3_destination_imported codec d tid p = Inr d' \<Longrightarrow> stage_v3_destination_imported codec d' tid p = Inr d'"
  unfolding stage_v3_destination_imported_def apply_v3_import_proof_def
  by (auto simp: retry_outcome)

lemma v3_activation_retry:
  "stage_v3_destination_activated codec d tid p = Inr d' \<Longrightarrow> stage_v3_destination_activated codec d' tid p = Inr d'"
  unfolding stage_v3_destination_activated_def apply_v3_destination_activation_proof_def
  by (auto simp: retry_outcome)

lemma v3_finalization_retry:
  "stage_v3_source_finalized codec d tid p = Inr d' \<Longrightarrow> stage_v3_source_finalized codec d' tid p = Inr d'"
  unfolding stage_v3_source_finalized_def apply_v3_source_finalization_proof_def
  by (auto simp: retry_outcome)

lemma v3_request_abort_retry:
  "stage_v3_request_abort codec d tid = Inr d' \<Longrightarrow> stage_v3_request_abort codec d' tid = Inr d'"
  unfolding stage_v3_request_abort_def
  by (auto simp: retry_outcome)

lemma v3_abort_cleanup_retry:
  "stage_v3_abort_cleanup codec d tid p = Inr d' \<Longrightarrow> stage_v3_abort_cleanup codec d' tid p = Inr d'"
  unfolding stage_v3_abort_cleanup_def apply_v3_abort_cleanup_proof_def
  by (auto simp: retry_outcome)

lemma v3_finalize_abort_retry:
  "stage_v3_finalize_abort codec d tid = Inr d' \<Longrightarrow> stage_v3_finalize_abort codec d' tid = Inr d'"
  unfolding stage_v3_finalize_abort_def
  by (auto simp: retry_outcome)

lemma command_retry: "stage_command codec d c = Inr d' \<Longrightarrow> stage_command codec d' c = Inr d'"
  using v3_prepare_retry v3_source_prepare_retry v3_quarantine_retry v3_commit_retry v3_export_retry v3_import_retry
    v3_activation_retry v3_finalization_retry v3_request_abort_retry v3_abort_cleanup_retry v3_finalize_abort_retry
  by (cases c) (simp only: stage_command.simps; blast)+

end
