(* ===== verification/DirectoryV3Liveness.thy ===== *)
theory DirectoryV3Liveness
  imports DirectoryV3Movement
begin

text \<open>
  Every live transfer of a valid document has a transaction of the directory that is accepted: what a
  change of phase needs beyond the validity of the document follows from it.
\<close>

section \<open>A change of phase alone\<close>

lemma phase_fields:
  "tv_transfer_id (t\<lparr>tv_phase := ph\<rparr>) = tv_transfer_id t"
  "tv_root_aggregate_id (t\<lparr>tv_phase := ph\<rparr>) = tv_root_aggregate_id t"
  "tv_bundle (t\<lparr>tv_phase := ph\<rparr>) = tv_bundle t"
  "tv_quarantine_receipt_hash (t\<lparr>tv_phase := ph\<rparr>) = tv_quarantine_receipt_hash t"
  "tv_source_export_proof (t\<lparr>tv_phase := ph\<rparr>) = tv_source_export_proof t"
  "tv_import_proof (t\<lparr>tv_phase := ph\<rparr>) = tv_import_proof t"
  "tv_destination_activation_proof (t\<lparr>tv_phase := ph\<rparr>) = tv_destination_activation_proof t"
  by simp_all

lemma bindings_update:
  "prepare_binding_valid codec (t\<lparr>tv_phase := ph\<rparr>) = prepare_binding_valid codec t"
  "quarantine_binding_valid codec (t\<lparr>tv_phase := ph\<rparr>) = quarantine_binding_valid codec t"
  "export_binding_valid codec (t\<lparr>tv_phase := ph\<rparr>) = export_binding_valid codec t"
  "import_binding_valid codec (t\<lparr>tv_phase := ph\<rparr>) = import_binding_valid codec t"
  "activation_binding_valid codec (t\<lparr>tv_phase := ph\<rparr>) = activation_binding_valid codec t"
  "finalization_binding_valid codec (t\<lparr>tv_phase := ph\<rparr>) = finalization_binding_valid codec t"
  "receipt_binding_valid (t\<lparr>tv_phase := ph\<rparr>) = receipt_binding_valid t"
  unfolding prepare_binding_valid_def [abs_def] quarantine_binding_valid_def [abs_def] export_binding_valid_def [abs_def]
    import_binding_valid_def [abs_def] activation_binding_valid_def [abs_def] finalization_binding_valid_def [abs_def]
    receipt_binding_valid_def [abs_def] typed_import_def [abs_def] typed_activation_def [abs_def] phase_fields
  by (rule refl)+

lemma phase_proof_update: "validate_phase_proof codec (t\<lparr>tv_phase := ph\<rparr>) = validate_phase_proof codec t"
  unfolding validate_phase_proof_def [abs_def] bindings_update phase_fields ..

lemma proof_matrix_update: "proof_matrix_valid q (t\<lparr>tv_phase := ph\<rparr>) = proof_matrix_valid q t"
  by (cases q) simp_all

lemma proofs_matrix: "validate_phase_proofs codec t source destination = Inr () \<Longrightarrow> proof_matrix_valid (tv_phase t) t"
  unfolding validate_phase_proofs_def Let_def result_elims by blast

lemma phase_proofs_update:
  assumes "validate_phase_proofs codec t source destination = Inr ()" and "proof_matrix_valid ph t"
  shows "validate_phase_proofs codec (t\<lparr>tv_phase := ph\<rparr>) source destination = Inr ()"
  using assms unfolding validate_phase_proofs_def Let_def phase_proof_update result_elims
  by (simp add: proof_matrix_update)

lemma valid_matrix:
  assumes "validate_document_v3 codec d = Inr ()" and "bt_get (dv_transfers d) tid = Some t"
  shows "proof_matrix_valid (tv_phase t) t"
  using valid_route [OF assms] proofs_matrix by metis

lemma immutable_phase [simp]: "immutable_material_matches t (t\<lparr>tv_phase := ph\<rparr>)"
  by (simp add: immutable_material_matches_def)

lemma identity_ok_phase:
  assumes "validate_document_v3 codec d = Inr ()" and "bt_get (dv_transfers d) tid = Some t"
    and "\<not> receipt_phase_disagrees (t\<lparr>tv_phase := ph\<rparr>)"
  shows "identity_ok (dc_ext codec) (dc_plan_json codec) (t\<lparr>tv_phase := ph\<rparr>) tid"
  using identity_ok_immutable [OF valid_transfer(3) [OF assms(1,2)] immutable_phase assms(3)]
    identity_ok_receipt(2) [OF valid_transfer(3) [OF assms(1,2)]] by simp

section \<open>Staging the members of a live transfer\<close>

lemma live_members_staged:
  assumes valid: "validate_document_v3 codec d = Inr ()" and t: "bt_get (dv_transfers d) tid = Some t"
    and phase: "\<And>m p. member_matches_phase p m t tid \<Longrightarrow> bundle_phase_valid (plan_of t) tid tr m p"
  shows "\<exists>P. stage_members codec d (plan_of t) tid (dbn_member_root (tv_bundle t)) tr = Inr P"
proof -
  note ident = valid_transfer(3) [OF valid t]
  have "validate_stable_id tid ''transfer'' = Inr ()"
    "validate_hash (dbn_member_root (tv_bundle t)) ''bundled placement member root'' = Inr ()"
    using ident by (auto simp: identity_ok_def validate_identity_def result_elims validate_stable_id_v3_def
        validate_stable_id_def validate_hash_v3_def validate_hash_def)
  moreover have "\<forall>aid p. bt_get (dv_placements d) aid = Some p \<longrightarrow> plc_active_transfer_id p = Some tid \<longrightarrow>
      aid \<in> member_ids t"
    using valid_transfer(2) [OF valid t] unfolding transfer_checked_def by blast
  moreover have "\<exists>p. bt_get (dv_placements d) (bpm_aggregate_id m) = Some p \<and> plc_aggregate_id p = bpm_aggregate_id m \<and>
      plc_aggregate_kind p = bpm_aggregate_kind m \<and> bundle_phase_valid (plan_of t) tid tr m p"
    if "m \<in> set (members t)" for m
    using valid_member [OF valid t that] valid_placement(2) [OF valid] phase by metis
  ultimately show ?thesis
    unfolding stage_members_def stage_bundle_ok using identity_ok_plan [OF ident] by simp
qed

section \<open>The transactions that are always open\<close>

text \<open>
  \<open>r\<close> is the next revision; the hash has the documented shape, and the successor document fits the
  bound on its encoding.
\<close>

lemma abort_can_be_requested:
  assumes valid: "validate_document_v3 codec d = Inr ()" and t: "bt_get (dv_transfers d) tid = Some t"
    and phase: "tv_phase t \<in> {Prepared, Quarantined}"
    and r: "checked_add (dv_directory_revision d) 1 = Some r" and hex: "hashes_are_hex (dc_ext codec)"
    and fits: "document_fits codec (sealed codec (put_transfer_v3 tid (t\<lparr>tv_phase := Aborting\<rparr>) d) r)"
  shows "stage_v3_request_abort codec d tid = Inr (sealed codec (put_transfer_v3 tid (t\<lparr>tv_phase := Aborting\<rparr>) d) r)"
proof -
  have matrix: "proof_matrix_valid Aborting t" using valid_matrix [OF valid t] phase by auto
  have "identity_ok (dc_ext codec) (dc_plan_json codec) (t\<lparr>tv_phase := Aborting\<rparr>) tid"
    by (rule identity_ok_phase [OF valid t]) (simp add: receipt_phase_disagrees_def)
  then have "finish_v3_transaction codec d (put_transfer_v3 tid (t\<lparr>tv_phase := Aborting\<rparr>) d) =
      Inr (sealed codec (put_transfer_v3 tid (t\<lparr>tv_phase := Aborting\<rparr>) d) r)"
    by (intro evidence_keeps_valid [OF valid t immutable_phase _ _ _ _ r hex fits])
      (use phase phase_proofs_update [OF _ matrix] in auto)
  then show ?thesis
    using phase by (auto simp: stage_v3_request_abort_def v3_transfer_def t valid)
qed

lemma quarantined_can_commit:
  assumes valid: "validate_document_v3 codec d = Inr ()" and t: "bt_get (dv_transfers d) tid = Some t"
    and phase: "tv_phase t = Quarantined"
    and r: "checked_add (dv_directory_revision d) 1 = Some r" and hex: "hashes_are_hex (dc_ext codec)"
  obtains P where
    "stage_members codec d (plan_of t) tid (dbn_member_root (tv_bundle t)) CommitBundle = Inr P"
    "document_fits codec (sealed codec (moved_document tid (t\<lparr>tv_phase := Committed\<rparr>) P d) r) \<Longrightarrow>
      stage_v3_commit codec d tid (dbn_member_root (tv_bundle t)) =
        Inr (sealed codec (moved_document tid (t\<lparr>tv_phase := Committed\<rparr>) P d) r)"
proof -
  have matrix: "proof_matrix_valid Quarantined t" using valid_matrix [OF valid t] phase by simp
  obtain P where P: "stage_members codec d (plan_of t) tid (dbn_member_root (tv_bundle t)) CommitBundle = Inr P"
    using live_members_staged [OF valid t, of CommitBundle] phase by (auto simp: member_matches_phase_def)
  then have mv: "movement codec d tid t (t\<lparr>tv_phase := Committed\<rparr>) CommitBundle P"
    using valid t phase by (simp add: movement_def)
  have ident: "identity_ok (dc_ext codec) (dc_plan_json codec) (t\<lparr>tv_phase := Committed\<rparr>) tid"
    by (rule identity_ok_phase [OF valid t]) (use matrix in \<open>simp add: receipt_phase_disagrees_def\<close>)
  have proofs: "proof_matrix_valid Committed t" using matrix by simp
  note finish = movement_keeps_valid [OF mv ident phase_proofs_update [OF _ proofs] r hex]
  have "bundled_plan (dc_ext codec) (dc_plan_json codec) t = Inr (plan_of t)"
    using identity_ok_plan [OF valid_transfer(3) [OF valid t]] by (simp add: bundled_plan_ok_iff)
  moreover have "validate_hash_v3 (dbn_member_root (tv_bundle t)) ''member root'' = Inr ()"
    using valid_transfer(3) [OF valid t] by (auto simp: identity_ok_def validate_identity_def result_elims)
  ultimately show thesis
    using P finish phase matrix valid t
    by (intro that [of P]) (auto simp: stage_v3_commit_def v3_transfer_def moved_document_def)
qed

lemma aborting_can_finish:
  assumes valid: "validate_document_v3 codec d = Inr ()" and t: "bt_get (dv_transfers d) tid = Some t"
    and phase: "tv_phase t = Aborting" "tv_source_abort_proof t \<noteq> None" "tv_destination_abort_proof t \<noteq> None"
    and r: "checked_add (dv_directory_revision d) 1 = Some r" and hex: "hashes_are_hex (dc_ext codec)"
  obtains P where
    "stage_members codec d (plan_of t) tid (dbn_member_root (tv_bundle t)) AbortBundle = Inr P"
    "document_fits codec (sealed codec (moved_document tid (t\<lparr>tv_phase := Aborted\<rparr>) P d) r) \<Longrightarrow>
      stage_v3_finalize_abort codec d tid =
        Inr (sealed codec (moved_document tid (t\<lparr>tv_phase := Aborted\<rparr>) P d) r)"
proof -
  have matrix: "proof_matrix_valid Aborting t" using valid_matrix [OF valid t] phase by simp
  obtain P where P: "stage_members codec d (plan_of t) tid (dbn_member_root (tv_bundle t)) AbortBundle = Inr P"
    using live_members_staged [OF valid t, of AbortBundle] phase by (auto simp: member_matches_phase_def)
  then have mv: "movement codec d tid t (t\<lparr>tv_phase := Aborted\<rparr>) AbortBundle P"
    using valid t phase by (simp add: movement_def)
  have ident: "identity_ok (dc_ext codec) (dc_plan_json codec) (t\<lparr>tv_phase := Aborted\<rparr>) tid"
    by (rule identity_ok_phase [OF valid t]) (simp add: receipt_phase_disagrees_def)
  have proofs: "proof_matrix_valid Aborted t" using matrix phase by simp
  note finish = movement_keeps_valid [OF mv ident phase_proofs_update [OF _ proofs] r hex]
  have "bundled_plan (dc_ext codec) (dc_plan_json codec) t = Inr (plan_of t)"
    using identity_ok_plan [OF valid_transfer(3) [OF valid t]] by (simp add: bundled_plan_ok_iff)
  then show thesis
    using P finish phase valid t
    by (intro that [of P]) (auto simp: stage_v3_finalize_abort_def v3_transfer_def moved_document_def)
qed

end
