(* ===== verification/DirectoryV3History.thy ===== *)
theory DirectoryV3History
  imports DirectoryV3Movement
begin

text \<open>
  Where a valid document of protocol 19 says that aggregates are and have been: the members of a live
  transfer are held by it in one cell, and the committed transfers of an aggregate form one chain.
\<close>

section \<open>Live transfers\<close>

definition held_by :: "string \<Rightarrow> cell_transfer_record_v3 \<Rightarrow> bundled_placement_member \<Rightarrow> aggregate_placement_record" where
  "held_by tid t m =
     (let gone = (tv_phase t = Committed) in
      \<lparr>plc_aggregate_id = bpm_aggregate_id m, plc_aggregate_kind = bpm_aggregate_kind m,
       plc_cell_key = (if gone then tv_destination_cell_key t else tv_source_cell_key t),
       plc_cell_id = (if gone then tv_destination_cell_id t else tv_source_cell_id t),
       plc_placement_generation = (if gone then bpm_resulting_placement_generation m else bpm_prior_placement_generation m),
       plc_state = (if gone then InTransit else Preparing), plc_active_transfer_id = Some tid\<rparr>)"

lemma live_member_held:
  assumes valid: "validate_document_v3 codec d = Inr ()" and t: "bt_get (dv_transfers d) tid = Some t"
    and phase: "tv_phase t \<in> {Prepared, Quarantined, Aborting, Committed}" and m: "m \<in> set (members t)"
  shows "bt_get (dv_placements d) (bpm_aggregate_id m) = Some (held_by tid t m)"
proof -
  from valid_member [OF valid t m] obtain p where p: "bt_get (dv_placements d) (bpm_aggregate_id m) = Some p"
    "plc_aggregate_kind p = bpm_aggregate_kind m" "member_matches_phase p m t tid" by metis
  with phase valid_placement(2) [OF valid p(1)] have "p = held_by tid t m"
    by (intro aggregate_placement_record.equality) (auto simp: member_matches_phase_def held_by_def Let_def)
  with p(1) show ?thesis by simp
qed

section \<open>The two cells\<close>

lemma transfer_ends:
  assumes valid: "validate_document_v3 codec d = Inr ()" and t: "bt_get (dv_transfers d) tid = Some t"
  shows "bt_contains (dv_assignments d) (tv_source_cell_id t)" "bt_contains (dv_assignments d) (tv_destination_cell_id t)"
    "tv_source_cell_id t \<noteq> tv_destination_cell_id t"
proof -
  obtain source destination where "bt_get (dv_assignments d) (tv_source_cell_id t) = Some source"
    "bt_get (dv_assignments d) (tv_destination_cell_id t) = Some destination"
    "asg_cell_key source = tv_source_cell_key t" "asg_cell_key destination = tv_destination_cell_key t"
    using valid_route [OF valid t] by metis
  with identity_ok_members(3) [OF valid_transfer(3) [OF valid t]]
  show "bt_contains (dv_assignments d) (tv_source_cell_id t)" "bt_contains (dv_assignments d) (tv_destination_cell_id t)"
    "tv_source_cell_id t \<noteq> tv_destination_cell_id t"
    by (auto simp: bt_contains_def)
qed

lemma two_cells:
  assumes valid: "validate_document_v3 codec d = Inr ()"
    and "bt_contains (dv_assignments d) a" "bt_contains (dv_assignments d) b" "bt_contains (dv_assignments d) c"
    and "a \<noteq> c" "b \<noteq> c"
  shows "a = b"
proof (rule ccontr)
  assume "a \<noteq> b"
  have "bt_len (dv_assignments d) = 2"
    using valid unfolding validate_document_v3_ok by (auto simp: validate_header_v3_def result_elims Let_def)
  then have two: "card (dom (bt_get (dv_assignments d))) = 2" unfolding bt_len_keys .
  have "{a, b, c} \<subseteq> dom (bt_get (dv_assignments d))" using assms(2-4) by (auto simp: bt_contains_def)
  moreover have "card {a, b, c} = 3" using \<open>a \<noteq> b\<close> assms(5,6) by simp
  moreover have "finite (dom (bt_get (dv_assignments d)))" by (rule card_ge_0_finite) (simp add: two)
  ultimately show False using card_mono [of "dom (bt_get (dv_assignments d))" "{a, b, c}"] two by simp
qed

section \<open>Steps and paths\<close>

text \<open>\<open>moves d tid aid g\<close>: the transfer has committed, and it took the aggregate from generation \<open>g\<close> to the next.\<close>

definition moves :: "cell_directory_document_v3 \<Rightarrow> string \<Rightarrow> string \<Rightarrow> u64 \<Rightarrow> bool" where
  "moves d tid aid g \<longleftrightarrow> (\<exists>t m. bt_get (dv_transfers d) tid = Some t \<and> moved t \<and> m \<in> set (members t) \<and>
     bpm_aggregate_id m = aid \<and> bpm_prior_placement_generation m = g)"

lemma step_moves:
  assumes valid: "validate_document_v3 codec d = Inr ()" and "advance_step (index_of d) aid (g, c) (g', c')"
  obtains tid t m where "bt_get (dv_transfers d) tid = Some t" "moved t" "m \<in> set (members t)"
    "bpm_aggregate_id m = aid" "bpm_prior_placement_generation m = g" "c = tv_source_cell_id t"
    "g' = bpm_resulting_placement_generation m" "c' = tv_destination_cell_id t"
proof -
  from assms(2) have "bt_get (index_of d) (aid, g, c) = Some (g', c')" by (simp add: advance_step_def)
  then show thesis unfolding valid_index [OF valid] using that by blast
qed

lemma step_cells:
  assumes valid: "validate_document_v3 codec d = Inr ()" and "advance_step (index_of d) aid (g, c) (g', c')"
  shows "bt_contains (dv_assignments d) c'" "c \<noteq> c'"
  by (rule step_moves [OF assms]; simp add: transfer_ends [OF valid])+

lemma moves_step:
  assumes valid: "validate_document_v3 codec d = Inr ()" and t: "bt_get (dv_transfers d) tid = Some t" "moved t"
    and m: "m \<in> set (members t)"
  shows "advance_step (index_of d) (bpm_aggregate_id m) (bpm_prior_placement_generation m, tv_source_cell_id t)
    (bpm_resulting_placement_generation m, tv_destination_cell_id t)"
proof -
  have "bt_get (index_of d) (bpm_aggregate_id m, bpm_prior_placement_generation m, tv_source_cell_id t) =
      Some (bpm_resulting_placement_generation m, tv_destination_cell_id t)"
    unfolding valid_index [OF valid] using t m by blast
  then show ?thesis
    using member_generations(3) [OF valid_transfer(3) [OF valid t(1)] m] by (simp add: advance_step_def)
qed

text \<open>After its move an aggregate has a path from the destination to where it is.\<close>

lemma moved_path:
  assumes valid: "validate_document_v3 codec d = Inr ()" and t: "bt_get (dv_transfers d) tid = Some t" "moved t"
    and m: "m \<in> set (members t)" and p: "bt_get (dv_placements d) (bpm_aggregate_id m) = Some p"
  shows "advance_path (index_of d) (bpm_aggregate_id m)
    (bpm_resulting_placement_generation m, tv_destination_cell_id t) (plc_placement_generation p, plc_cell_id p)"
proof -
  from valid_member [OF valid t(1) m] p have ph: "member_matches_phase p m t tid"
    and path: "\<And>g c. terminal_start t m p = Some (g, c) \<Longrightarrow>
      advance_path (index_of d) (bpm_aggregate_id m) (g, c) (plc_placement_generation p, plc_cell_id p)"
    by auto
  from t(2) ph path show ?thesis
    by (cases "tv_phase t") (auto simp: member_matches_phase_def terminal_start_def split: if_splits)
qed

text \<open>With two cells every step leaves for the other one, so the end of a path determines its start.\<close>

lemma path_start_unique:
  assumes valid: "validate_document_v3 codec d = Inr ()"
    and "advance_path (index_of d) aid x y" and "advance_path (index_of d) aid x' y" and "fst x' = fst x"
    and "bt_contains (dv_assignments d) (snd x)" "bt_contains (dv_assignments d) (snd x')"
  shows "x = x'"
  using assms(2-6)
proof (induction arbitrary: x' rule: converse_rtranclp_induct)
  case base
  then show ?case using advance_path_strict by fastforce
next
  case (step x z)
  obtain g c g1 c1 where xz: "x = (g, c)" "z = (g1, c1)" by (cases x; cases z)
  have "fst x < fst z" using step.hyps(1) by (simp add: xz advance_step_def word_less_nat_alt)
  also note advance_path_increases [OF step.hyps(2)]
  finally have "x' \<noteq> y" using step.prems(2) by auto
  with step.prems(1) obtain z' where z': "advance_step (index_of d) aid x' z'" "advance_path (index_of d) aid z' y"
    by (blast elim: converse_rtranclpE)
  obtain c' g1' c1' where xz': "x' = (g, c')" "z' = (g1', c1')" using step.prems(2) by (cases x'; cases z') (auto simp: xz)
  have g1: "g1' = g1"
    using step.hyps(1) z'(1) by (simp add: xz xz' advance_step_def word_unat_eq_iff)
  note cells = step_cells [OF valid step.hyps(1) [unfolded xz]] step_cells [OF valid z'(1) [unfolded xz']]
  have "z = z'" by (rule step.IH [OF z'(2)]) (use g1 cells in \<open>simp_all add: xz xz'\<close>)
  then have "c = c'"
    using two_cells [OF valid _ _ cells(1,2)] step.prems(3,4) cells(4) by (simp add: xz xz')
  then show ?case by (simp add: xz xz')
qed

lemma path_visits:
  assumes "advance_path idx aid x y" and "fst x \<le> g" and "g < fst y"
  shows "\<exists>c g' c'. advance_step idx aid (g, c) (g', c')"
  using assms
proof (induction rule: converse_rtranclp_induct)
  case (step x z)
  show ?case
  proof (cases "g = fst x")
    case True
    with step.hyps show ?thesis by (metis prod.collapse)
  next
    case False
    with step.prems(1) have "fst x < g" by simp
    with step.hyps(1) have "fst z \<le> g"
      by (cases x; cases z) (auto simp: advance_step_def word_le_nat_alt word_less_nat_alt)
    from step.IH [OF this step.prems(2)] show ?thesis .
  qed
qed simp

section \<open>The chain of an aggregate\<close>

text \<open>The generation a placement has history from: its migration floor, or the first one.\<close>

definition first_generation :: "cell_directory_document_v3 \<Rightarrow> string \<Rightarrow> u64" where
  "first_generation d aid = (case floor_of d aid of None \<Rightarrow> 1 | Some floor \<Rightarrow> mpf_placement_generation floor)"

lemma whole_path:
  assumes valid: "validate_document_v3 codec d = Inr ()" and p: "bt_get (dv_placements d) aid = Some p"
  obtains c where "advance_path (index_of d) aid (first_generation d aid, c) (plc_placement_generation p, plc_cell_id p)"
proof -
  have history: "validate_placement_history d (index_of d) aid p = Inr ()" by (rule valid_placement(3) [OF valid p])
  have nz: "plc_placement_generation p \<noteq> 0"
    using valid_placement(1) [OF valid p] by (auto simp: validate_placement_v3_def result_elims)
  show thesis
  proof (cases "1 < plc_placement_generation p")
    case True
    with history show thesis
      by (auto simp: validate_placement_history_def result_elims first_generation_def later_history_iff
          validate_origin_iff intro: that split: option.splits)
  next
    case False
    have "floor_of d aid = None"
      using floor_bounds [OF valid _ p] False by (cases "floor_of d aid") auto
    with word_eq_one [OF False nz] show thesis
      by (intro that [of "plc_cell_id p"]) (simp add: first_generation_def)
  qed
qed

lemma moves_unique:
  assumes valid: "validate_document_v3 codec d = Inr ()" and "moves d tid aid g" and "moves d tid' aid g"
  shows "tid = tid'"
proof (rule ccontr)
  assume ne: "tid \<noteq> tid'"
  obtain t m where t: "bt_get (dv_transfers d) tid = Some t" "moved t" "m \<in> set (members t)"
    "bpm_aggregate_id m = aid" "bpm_prior_placement_generation m = g"
    using assms(2) unfolding moves_def by blast
  obtain t' m' where t': "bt_get (dv_transfers d) tid' = Some t'" "moved t'" "m' \<in> set (members t')"
    "bpm_aggregate_id m' = aid" "bpm_prior_placement_generation m' = g"
    using assms(3) unfolding moves_def by blast
  obtain p where p: "bt_get (dv_placements d) aid = Some p" using valid_member [OF valid t(1,3)] t(4) by metis
  have gen: "bpm_resulting_placement_generation m' = bpm_resulting_placement_generation m"
    using member_generations(3) [OF valid_transfer(3) [OF valid t(1)] t(3)]
      member_generations(3) [OF valid_transfer(3) [OF valid t'(1)] t'(3)] t(5) t'(5)
    by (simp add: word_unat_eq_iff)
  have "advance_path (index_of d) aid (bpm_resulting_placement_generation m, tv_destination_cell_id t)
      (plc_placement_generation p, plc_cell_id p)"
    "advance_path (index_of d) aid (bpm_resulting_placement_generation m, tv_destination_cell_id t')
      (plc_placement_generation p, plc_cell_id p)"
    using moved_path [OF valid t(1-3)] moved_path [OF valid t'(1-3)] p t(4) t'(4) gen by auto
  from path_start_unique [OF valid this] have "tv_destination_cell_id t = tv_destination_cell_id t'"
    using transfer_ends(2) [OF valid t(1)] transfer_ends(2) [OF valid t'(1)] by simp
  then have "tv_source_cell_id t = tv_source_cell_id t'"
    using two_cells [OF valid transfer_ends(1) [OF valid t(1)] transfer_ends(1) [OF valid t'(1)]
        transfer_ends(2) [OF valid t(1)]] transfer_ends(3) [OF valid t(1)] transfer_ends(3) [OF valid t'(1)] by simp
  then have same: "fst (move_of t m) = fst (move_of t' m')" using t(4,5) t'(4,5) by (simp add: move_of_def)
  from bt_entries_replace [OF t(1)] obtain ys zs where e: "bt_entries (dv_transfers d) = ys @ (tid, t) # zs" by blast
  have "(tid', t') \<in> set (ys @ zs)" using t'(1) ne e bt_in_entries_iff [of tid' t' "dv_transfers d"] by auto
  then have "set (transfer_advances t') \<subseteq> set (advances_of ys @ advances_of zs)"
    by (fastforce simp: advances_of_def)
  moreover have "move_of t' m' \<in> set (transfer_advances t')"
    using t'(2,3) by (simp add: transfer_advances_def)
  ultimately have "fst (move_of t' m') \<in> fst ` set (advances_of ys @ advances_of zs)" by blast
  moreover have "fst (move_of t m) \<in> fst ` set (transfer_advances t)"
    using t(2,3) by (simp add: transfer_advances_def)
  moreover have "distinct (map fst (advances_of ys @ transfer_advances t @ advances_of zs))"
    using valid_advances_distinct [OF valid] unfolding advances_def e by simp
  ultimately show False unfolding same by auto
qed

lemma moves_bounds:
  assumes valid: "validate_document_v3 codec d = Inr ()" and p: "bt_get (dv_placements d) aid = Some p"
    and "moves d tid aid g"
  shows "first_generation d aid \<le> g" and "g < plc_placement_generation p"
proof -
  obtain t m where t: "bt_get (dv_transfers d) tid = Some t" "moved t" "m \<in> set (members t)"
    "bpm_aggregate_id m = aid" "bpm_prior_placement_generation m = g"
    using assms(3) unfolding moves_def by blast
  note gens = member_generations [OF valid_transfer(3) [OF valid t(1)] t(3)]
  have "\<not> member_precedes_floor (dv_migration_genesis d) m"
    using valid_transfer(1) [OF valid t(1)] t(3) unfolding transfer_admitted_def by blast
  then show "first_generation d aid \<le> g"
    using gens(4) t(4,5)
    by (auto simp: first_generation_def member_precedes_floor_def floor_of_def not_less word_le_nat_alt
        unat_eq_0 [symmetric] Suc_le_eq split: option.splits)
  show "g < plc_placement_generation p"
    using advance_path_increases [OF moved_path [OF valid t(1-3)]] p gens(2) t(4,5) by fastforce
qed

lemma moves_total:
  assumes valid: "validate_document_v3 codec d = Inr ()" and p: "bt_get (dv_placements d) aid = Some p"
    and "first_generation d aid \<le> g" and "g < plc_placement_generation p"
  shows "\<exists>tid. moves d tid aid g"
proof -
  obtain c where "advance_path (index_of d) aid (first_generation d aid, c) (plc_placement_generation p, plc_cell_id p)"
    by (rule whole_path [OF valid p])
  from path_visits [OF this, of g] assms(3,4) obtain c g' c' where "advance_step (index_of d) aid (g, c) (g', c')"
    by auto
  from step_moves [OF valid this] show ?thesis unfolding moves_def by metis
qed

text \<open>Where a move ends: at the current cell, or where the next one begins.\<close>

lemma moves_continue:
  assumes valid: "validate_document_v3 codec d = Inr ()" and t: "bt_get (dv_transfers d) tid = Some t" "moved t"
    and m: "m \<in> set (members t)" and p: "bt_get (dv_placements d) (bpm_aggregate_id m) = Some p"
  shows "bpm_resulting_placement_generation m = plc_placement_generation p \<and> tv_destination_cell_id t = plc_cell_id p \<or>
    (\<exists>tid' t'. moves d tid' (bpm_aggregate_id m) (bpm_resulting_placement_generation m) \<and>
      bt_get (dv_transfers d) tid' = Some t' \<and> tv_source_cell_id t' = tv_destination_cell_id t)"
  using moved_path [OF valid t m p]
proof (cases rule: converse_rtranclpE)
  case (step z)
  obtain g' c' where "z = (g', c')" by (cases z)
  with step_moves [OF valid step(1) [unfolded this]] show ?thesis unfolding moves_def by metis
qed simp

end
