(* ===== verification/DirectoryV3Scenario.thy ===== *)
theory DirectoryV3Scenario
  imports DirectoryV3Stages
begin

text \<open>
  A concrete directory of protocol 19 for the witnesses: two assigned cells, a ship with a rider, and
  the proofs that carry its bundle from the one cell to the other. The digest is a concrete function
  whose values have the shape of a hash.
\<close>

definition hex_digit :: "char \<Rightarrow> bool" where
  "hex_digit c = (is_ascii_digit c \<or> CHR ''a'' \<le> c \<and> c \<le> CHR ''f'')"

definition digest :: "string \<Rightarrow> string" where
  "digest bytes = replicate 64 (if bytes \<noteq> [] \<and> hex_digit (last bytes) then last bytes else CHR ''0'')"

definition v3_externals :: externals where
  "v3_externals = \<lparr>ext_blake3_hex = digest,
     ext_cell_key_json = (\<lambda>key. if key = scenario_origin then Inr ''a'' else Inr ''b'')\<rparr>"

definition v3_codec :: directory_codec where
  "v3_codec = \<lparr>dc_handoff = \<lparr>hc_externals = v3_externals,
       hc_prepare_json = (\<lambda>_. Inr ''1''), hc_quarantine_json = (\<lambda>_. Inr ''2''), hc_export_json = (\<lambda>_. Inr ''3''),
       hc_import_json = (\<lambda>_. Inr ''4''), hc_activation_json = (\<lambda>_. Inr ''5''),
       hc_finalization_json = (\<lambda>_. Inr ''6''), hc_abort_cleanup_json = (\<lambda>_. Inr ''7'')\<rparr>,
     dc_plan_json = (\<lambda>_. Inr ''c''), dc_document_json = (\<lambda>_. Inr ''d''), dc_genesis_json = (\<lambda>_. Inr ''e''),
     dc_assignments_json = (\<lambda>_. Inr ''f''), dc_placements_json = (\<lambda>_. Inr ''9'')\<rparr>"

abbreviation h64 :: "char \<Rightarrow> string" where
  "h64 c \<equiv> replicate 64 c"

definition v3_assigned :: "cell_key_v1 \<Rightarrow> string \<Rightarrow> u64 \<Rightarrow> cell_assignment_record" where
  "v3_assigned key cid fence = \<lparr>asg_cell_key = key, asg_cell_id = cid, asg_assignment_generation = 1,
     asg_authority_fencing_token = fence, asg_fencing_history = bt_insert 1 fence bt_empty,
     asg_state = Assigned, asg_holder_id = Some ''holder''\<rparr>"

definition v3_resident :: "string \<Rightarrow> mobile_aggregate_kind \<Rightarrow> aggregate_placement_record" where
  "v3_resident aid kind = \<lparr>plc_aggregate_id = aid, plc_aggregate_kind = kind, plc_cell_key = scenario_origin,
     plc_cell_id = h64 (CHR ''a''), plc_placement_generation = 1, plc_state = Resident,
     plc_active_transfer_id = None\<rparr>"

definition v3_start :: cell_directory_document_v3 where
  "v3_start = \<lparr>dv_schema_version = 3, dv_universe_id = ''verse'', dv_universe_manifest_hash = h64 (CHR ''0''),
     dv_directory_revision = 1,
     dv_assignments = bt_insert (h64 (CHR ''a'')) (v3_assigned scenario_origin (h64 (CHR ''a'')) 7)
       (bt_insert (h64 (CHR ''b'')) (v3_assigned scenario_east (h64 (CHR ''b'')) 8) bt_empty),
     dv_placements = bt_insert ''rider'' (v3_resident ''rider'' Player)
       (bt_insert ''ship'' (v3_resident ''ship'' Grid) bt_empty),
     dv_transfers = bt_empty, dv_migration_genesis = None, dv_document_hash = h64 (CHR ''d'')\<rparr>"

definition v3_bundle :: directory_bundle where
  "v3_bundle = \<lparr>dbn_package_schema_version = 2, dbn_receipt_schema_version = 2, dbn_aggregate_kind = Grid,
     dbn_closure_root = h64 (CHR ''0''), dbn_conservation_root = h64 (CHR ''0''), dbn_package_hash = h64 (CHR ''0''),
     dbn_members = [\<lparr>bpm_aggregate_id = ''rider'', bpm_aggregate_kind = Player,
                      bpm_prior_placement_generation = 1, bpm_resulting_placement_generation = 2\<rparr>,
                    \<lparr>bpm_aggregate_id = ''ship'', bpm_aggregate_kind = Grid,
                      bpm_prior_placement_generation = 1, bpm_resulting_placement_generation = 2\<rparr>],
     dbn_member_root = h64 (CHR ''c'')\<rparr>"

definition v3_request :: cell_transfer_record_v3 where
  "v3_request = \<lparr>tv_transfer_id = ''t'', tv_root_aggregate_id = ''ship'',
     tv_source_cell_key = scenario_origin, tv_source_cell_id = h64 (CHR ''a''),
     tv_destination_cell_key = scenario_east, tv_destination_cell_id = h64 (CHR ''b''),
     tv_source_assignment_generation = 1, tv_source_fencing_token = 7,
     tv_destination_assignment_generation = 1, tv_destination_fencing_token = 8,
     tv_bundle = v3_bundle, tv_quarantine_receipt_hash = None,
     tv_source_prepare_proof = None, tv_destination_quarantine_proof = None, tv_source_export_proof = None,
     tv_import_proof = None, tv_destination_activation_proof = None, tv_finalization_proof = None,
     tv_source_abort_proof = None, tv_destination_abort_proof = None, tv_phase = Prepared\<rparr>"

definition v3_prepare_proof :: grid_prepare_proof where
  "v3_prepare_proof = \<lparr>gpp_transfer_id = ''t'', gpp_root_aggregate_id = ''ship'', gpp_member_root = h64 (CHR ''c''),
     gpp_package_hash = h64 (CHR ''0''), gpp_source_cell_id = h64 (CHR ''a''), gpp_assignment_generation = 1,
     gpp_fencing_token = 7, gpp_prior_event_sequence = 0, gpp_prior_event_hash = [], gpp_event_sequence = 1,
     gpp_event_hash = h64 (CHR ''0''), gpp_event_payload_hash = h64 (CHR ''0''),
     gpp_prior_active_world_hash = h64 (CHR ''0''), gpp_resulting_active_world_hash = h64 (CHR ''0''),
     gpp_prepared_at_simulation_tick = 5, gpp_mutation_witness_hash = h64 (CHR ''1''),
     gpp_proof_hash = h64 (CHR ''1'')\<rparr>"

definition v3_quarantine_proof :: grid_quarantine_proof where
  "v3_quarantine_proof = \<lparr>gqp_transfer_id = ''t'', gqp_root_aggregate_id = ''ship'', gqp_member_root = h64 (CHR ''c''),
     gqp_package_hash = h64 (CHR ''0''), gqp_destination_cell_id = h64 (CHR ''b''), gqp_assignment_generation = 1,
     gqp_fencing_token = 8, gqp_prior_event_sequence = 0, gqp_prior_event_hash = [], gqp_event_sequence = 1,
     gqp_event_hash = h64 (CHR ''0''), gqp_event_payload_hash = h64 (CHR ''0''),
     gqp_prior_active_world_hash = h64 (CHR ''0''), gqp_resulting_active_world_hash = h64 (CHR ''0''),
     gqp_quarantine_receipt_hash = h64 (CHR ''0''), gqp_quarantined_at_unix_ms = 9,
     gqp_mutation_witness_hash = h64 (CHR ''2''), gqp_proof_hash = h64 (CHR ''2'')\<rparr>"

lemma v3_start_valid: "validate_document_v3 v3_codec v3_start = Inr ()"
  by code_simp

text \<open>The directory after the destination has quarantined the bundle, and after the commit.\<close>

definition v3_quarantined_transfer :: cell_transfer_record_v3 where
  "v3_quarantined_transfer = v3_request\<lparr>tv_quarantine_receipt_hash := Some (h64 (CHR ''0'')),
     tv_source_prepare_proof := Some (prepare_phase_proof v3_prepare_proof),
     tv_destination_quarantine_proof := Some (quarantine_phase_proof v3_quarantine_proof), tv_phase := Quarantined\<rparr>"

definition v3_holding :: "aggregate_placement_record \<Rightarrow> aggregate_placement_record" where
  "v3_holding p = p\<lparr>plc_state := Preparing, plc_active_transfer_id := Some ''t''\<rparr>"

definition v3_departed :: "aggregate_placement_record \<Rightarrow> aggregate_placement_record" where
  "v3_departed p = p\<lparr>plc_cell_key := scenario_east, plc_cell_id := h64 (CHR ''b''), plc_placement_generation := 2,
     plc_state := InTransit, plc_active_transfer_id := Some ''t''\<rparr>"

definition v3_placed :: "(aggregate_placement_record \<Rightarrow> aggregate_placement_record) \<Rightarrow>
    (string, aggregate_placement_record) btree_map" where
  "v3_placed f = bt_insert ''rider'' (f (v3_resident ''rider'' Player))
     (bt_insert ''ship'' (f (v3_resident ''ship'' Grid)) bt_empty)"

definition v3_quarantined :: cell_directory_document_v3 where
  "v3_quarantined = v3_start\<lparr>dv_directory_revision := 4, dv_placements := v3_placed v3_holding,
     dv_transfers := bt_insert ''t'' v3_quarantined_transfer bt_empty\<rparr>"

definition v3_committed :: cell_directory_document_v3 where
  "v3_committed = v3_start\<lparr>dv_directory_revision := 5, dv_placements := v3_placed v3_departed,
     dv_transfers := bt_insert ''t'' (v3_quarantined_transfer\<lparr>tv_phase := Committed\<rparr>) bt_empty\<rparr>"

lemma v3_quarantined_valid: "validate_document_v3 v3_codec v3_quarantined = Inr ()"
  by code_simp

lemma v3_committed_valid: "validate_document_v3 v3_codec v3_committed = Inr ()"
  by code_simp

end
