(* ===== verification/DirectoryV3Properties.thy ===== *)
theory DirectoryV3Properties
  imports DirectoryV3Retry DirectoryV3Liveness DirectoryV3History DirectoryV3Scenario
begin

text \<open>
  The properties of the directory of protocol 19, with their witnesses on the documents of
  \<open>DirectoryV3Scenario\<close>.
\<close>

section \<open>The witness documents\<close>

lemma v3_fits: "document_fits v3_codec d"
  by (simp add: document_fits_def v3_codec_def)

lemma v3_hex: "hashes_are_hex (dc_ext v3_codec)"
proof -
  have "hex_digit (if bytes \<noteq> [] \<and> hex_digit (last bytes) then last bytes else CHR ''0'')" for bytes
    by (simp add: hex_digit_def is_ascii_digit_def)
  then show ?thesis
    by (simp add: hashes_are_hex_def valid_blake3_hex_def v3_codec_def v3_externals_def digest_def
        list_all_iff hex_digit_def)
qed

lemma v3_transfers:
  "bt_get (dv_transfers v3_quarantined) ''t'' = Some v3_quarantined_transfer" "tv_phase v3_quarantined_transfer = Quarantined"
  "bt_get (dv_transfers v3_committed) ''t'' = Some (v3_quarantined_transfer\<lparr>tv_phase := Committed\<rparr>)"
  by (simp_all add: v3_quarantined_def v3_committed_def v3_quarantined_transfer_def)

lemma v3_revision: "checked_add (dv_directory_revision v3_quarantined) 1 = Some 5"
  by code_simp

lemma v3_commits:
  "\<exists>d'. stage_command v3_codec v3_quarantined (CommitV3 ''t'' (dbn_member_root (tv_bundle v3_quarantined_transfer))) = Inr d' \<and>
    dv_directory_revision d' = 5"
proof -
  obtain P where "stage_v3_commit v3_codec v3_quarantined ''t'' (dbn_member_root (tv_bundle v3_quarantined_transfer)) =
      Inr (sealed v3_codec (moved_document ''t'' (v3_quarantined_transfer\<lparr>tv_phase := Committed\<rparr>) P v3_quarantined) 5)"
    using quarantined_can_commit [OF v3_quarantined_valid v3_transfers(1,2) v3_revision v3_hex] v3_fits by metis
  then show ?thesis by simp
qed

section \<open>The properties\<close>

text \<open>
  C8: A command of the directory of protocol 19 that is accepted either leaves the document as it is or
  leads to a valid document with the next revision, in which exactly the transfer of the command has
  taken one step of its protocol: it is new and without evidence, or it keeps its immutable material
  and everything it has recorded, and its phase follows an edge of the protocol. The cells, the universe
  and the migration record are as before, and the placements change only by the transition of the
  whole bundle that belongs to the edge.
\<close>

theorem v3_commands_follow_protocol:
  assumes "stage_command codec d c = Inr d'"
  shows "d' = d \<or> validate_document_v3 codec d' = Inr () \<and>
    checked_add (dv_directory_revision d) 1 = Some (dv_directory_revision d') \<and>
    dv_schema_version d' = dv_schema_version d \<and> dv_universe_id d' = dv_universe_id d \<and>
    dv_universe_manifest_hash d' = dv_universe_manifest_hash d \<and> dv_assignments d' = dv_assignments d \<and>
    dv_migration_genesis d' = dv_migration_genesis d \<and>
    (\<exists>t'. protocol_step codec d (command_transfer_id c) t' (dv_placements d') \<and>
      dv_transfers d' = bt_insert (command_transfer_id c) t' (dv_transfers d))"
  using command_step [OF assms] by (auto simp: accepted_step_def finish_ok)

theorem v3_commands_follow_protocol_witness:
  "\<exists>d' t'. validate_document_v3 v3_codec d' = Inr () \<and> dv_directory_revision d' = 5 \<and>
    protocol_step v3_codec v3_quarantined ''t'' t' (dv_placements d')"
proof -
  obtain d' where d': "stage_command v3_codec v3_quarantined
      (CommitV3 ''t'' (dbn_member_root (tv_bundle v3_quarantined_transfer))) = Inr d'" "dv_directory_revision d' = 5"
    using v3_commits by blast
  moreover from d'(2) have "d' \<noteq> v3_quarantined" by (auto simp: v3_quarantined_def)
  ultimately show ?thesis using v3_commands_follow_protocol [OF d'(1)] by auto
qed

text \<open>
  C10: In a valid document of protocol 19 no transfer is stuck for reasons of its own. A prepared or
  quarantined transfer can be aborted, also before its source has recorded the prepare; a quarantined
  one can be committed; an aborting one with both cleanups recorded can be finished, and the
  document the command answers with is the expected one. The successor must fit the bound on its encoding
  and a next revision must exist; the hash function answers 64 hexadecimal digits.
\<close>

theorem v3_transfers_can_advance:
  assumes "validate_document_v3 codec d = Inr ()" and "bt_get (dv_transfers d) tid = Some t"
    and "checked_add (dv_directory_revision d) 1 = Some r" and "hashes_are_hex (dc_ext codec)"
  shows "(tv_phase t \<in> {Prepared, Quarantined} \<longrightarrow>
      document_fits codec (sealed codec (put_transfer_v3 tid (t\<lparr>tv_phase := Aborting\<rparr>) d) r) \<longrightarrow>
      stage_v3_request_abort codec d tid = Inr (sealed codec (put_transfer_v3 tid (t\<lparr>tv_phase := Aborting\<rparr>) d) r)) \<and>
    (tv_phase t = Quarantined \<longrightarrow> (\<exists>P.
      stage_members codec d (plan_of t) tid (dbn_member_root (tv_bundle t)) CommitBundle = Inr P \<and>
      (document_fits codec (sealed codec (moved_document tid (t\<lparr>tv_phase := Committed\<rparr>) P d) r) \<longrightarrow>
       stage_v3_commit codec d tid (dbn_member_root (tv_bundle t)) =
         Inr (sealed codec (moved_document tid (t\<lparr>tv_phase := Committed\<rparr>) P d) r)))) \<and>
    (tv_phase t = Aborting \<and> tv_source_abort_proof t \<noteq> None \<and> tv_destination_abort_proof t \<noteq> None \<longrightarrow> (\<exists>P.
      stage_members codec d (plan_of t) tid (dbn_member_root (tv_bundle t)) AbortBundle = Inr P \<and>
      (document_fits codec (sealed codec (moved_document tid (t\<lparr>tv_phase := Aborted\<rparr>) P d) r) \<longrightarrow>
       stage_v3_finalize_abort codec d tid = Inr (sealed codec (moved_document tid (t\<lparr>tv_phase := Aborted\<rparr>) P d) r))))"
  using abort_can_be_requested [OF assms(1,2) _ assms(3,4)] quarantined_can_commit [OF assms(1,2) _ assms(3,4)]
    aborting_can_finish [OF assms(1,2) _ _ _ assms(3,4)]
  by metis

theorem v3_transfers_can_advance_witness:
  "is_ok (stage_v3_request_abort v3_codec v3_quarantined ''t'') \<and>
   is_ok (stage_v3_commit v3_codec v3_quarantined ''t'' (dbn_member_root (tv_bundle v3_quarantined_transfer)))"
  using v3_transfers_can_advance [OF v3_quarantined_valid v3_transfers(1) v3_revision v3_hex] v3_transfers(2) v3_fits
  by auto

text \<open>
  C39: In a valid document of protocol 19 a live transfer holds every member of its bundle in one cell,
  the source before its commit and the destination after it, in the same state and at the
  generation of its plan; and two live transfers have no aggregate in common.
\<close>

theorem v3_live_bundle_has_one_place:
  assumes "validate_document_v3 codec d = Inr ()" and "bt_get (dv_transfers d) tid = Some t" and "live t"
  shows "list_all (\<lambda>m. bt_get (dv_placements d) (bpm_aggregate_id m) = Some (held_by tid t m)) (members t) \<and>
    (\<forall>tid' t'. bt_get (dv_transfers d) tid' = Some t' \<longrightarrow> live t' \<longrightarrow> member_ids t \<inter> member_ids t' \<noteq> {} \<longrightarrow> tid' = tid)"
proof -
  have held: "bt_get (dv_placements d) (bpm_aggregate_id m) = Some (held_by k u m)"
    if "bt_get (dv_transfers d) k = Some u" "live u" "m \<in> set (members u)" for k u m
    using live_member_held [OF assms(1) that(1) _ that(3)] that(2) by (cases "tv_phase u") auto
  have "tid' = tid" if u: "bt_get (dv_transfers d) tid' = Some t'" "live t'" "member_ids t \<inter> member_ids t' \<noteq> {}" for tid' t'
  proof -
    from u(3) obtain m m' where m: "m \<in> set (members t)" "m' \<in> set (members t')" "bpm_aggregate_id m = bpm_aggregate_id m'"
      by auto
    from held [OF assms(2,3) m(1)] held [OF u(1,2) m(2)] m(3) have "held_by tid t m = held_by tid' t' m'" by simp
    then show ?thesis by (simp add: held_by_def Let_def)
  qed
  then show ?thesis using held [OF assms(2,3)] unfolding list_all_iff by blast
qed

theorem v3_live_bundle_has_one_place_witness:
  "bt_get (dv_placements v3_committed) ''ship'' = Some \<lparr>plc_aggregate_id = ''ship'', plc_aggregate_kind = Grid,
     plc_cell_key = scenario_east, plc_cell_id = replicate 64 (CHR ''b''), plc_placement_generation = 2,
     plc_state = InTransit, plc_active_transfer_id = Some ''t''\<rparr>"
  using v3_live_bundle_has_one_place [OF v3_committed_valid v3_transfers(3)]
  by (simp add: v3_quarantined_transfer_def v3_request_def v3_bundle_def held_by_def)

text \<open>
  C11: In a valid document of protocol 19 the committed transfers of an aggregate are one chain. From the
  generation its history starts at (its migration floor, or the first) up to its current one,
  every generation was left by exactly one transfer, and no other transfer has moved it; each of them
  ended in the cell the next one started from, and the last one in the current cell. The validation
  of the code rejects two transfers out of the same generation only when they start in the same cell.
\<close>

theorem v3_history_is_one_chain:
  assumes "validate_document_v3 codec d = Inr ()" and "bt_get (dv_placements d) aid = Some p"
  shows "(if first_generation d aid \<le> g \<and> g < plc_placement_generation p
          then \<exists>!tid. moves d tid aid g else \<nexists>tid. moves d tid aid g) \<and>
    (\<forall>tid t m. bt_get (dv_transfers d) tid = Some t \<and> moved t \<and> m \<in> set (members t) \<and> bpm_aggregate_id m = aid \<longrightarrow>
      bpm_resulting_placement_generation m = plc_placement_generation p \<and> tv_destination_cell_id t = plc_cell_id p \<or>
      (\<exists>tid' t'. moves d tid' aid (bpm_resulting_placement_generation m) \<and> bt_get (dv_transfers d) tid' = Some t' \<and>
        tv_source_cell_id t' = tv_destination_cell_id t))"
proof (intro conjI allI impI)
  show "if first_generation d aid \<le> g \<and> g < plc_placement_generation p
      then \<exists>!tid. moves d tid aid g else \<nexists>tid. moves d tid aid g"
    using moves_total [OF assms] moves_unique [OF assms(1)] moves_bounds [OF assms] by (smt (verit))
next
  fix tid t m
  assume "bt_get (dv_transfers d) tid = Some t \<and> moved t \<and> m \<in> set (members t) \<and> bpm_aggregate_id m = aid"
  then show "bpm_resulting_placement_generation m = plc_placement_generation p \<and> tv_destination_cell_id t = plc_cell_id p \<or>
      (\<exists>tid' t'. moves d tid' aid (bpm_resulting_placement_generation m) \<and> bt_get (dv_transfers d) tid' = Some t' \<and>
        tv_source_cell_id t' = tv_destination_cell_id t)"
    using moves_continue [OF assms(1), of tid t m p] assms(2) by blast
qed

theorem v3_history_is_one_chain_witness:
  "\<exists>!tid. moves v3_committed tid ''ship'' 1"
proof -
  have p: "bt_get (dv_placements v3_committed) ''ship'' = Some (v3_departed (v3_resident ''ship'' Grid))"
    by (simp add: v3_committed_def v3_placed_def)
  show ?thesis
    using v3_history_is_one_chain [OF v3_committed_valid p, of 1]
    by (simp add: first_generation_def floor_of_def v3_committed_def v3_start_def v3_departed_def)
qed

text \<open>
  C40: A command of the directory of protocol 19 that is repeated after it was accepted is accepted again
  and leaves the document as it is.
\<close>

theorem v3_retry_changes_nothing:
  assumes "stage_command codec d c = Inr d'"
  shows "stage_command codec d' c = Inr d'"
  using assms by (rule command_retry)

theorem v3_retry_changes_nothing_witness:
  "\<exists>d'. dv_directory_revision d' = 5 \<and> stage_command v3_codec d'
     (CommitV3 ''t'' (dbn_member_root (tv_bundle v3_quarantined_transfer))) = Inr d'"
  using v3_commits v3_retry_changes_nothing by blast

end
