(* ===== verification/Spec2Isabelle.thy ===== *)
theory Spec2Isabelle
  imports DirectoryProperties BundledPlacement LifecycleProperties RecoveryProperties BoundaryProperties OperationProperties EconomyProperties
    DirectoryV3Properties
begin

text \<open>
  The Verse: a verification development for the Rust simulation server of a persistent
  multiplayer universe (\<open>crates/verse-simulation\<close>, \<open>crates/verse-protocol\<close>).

  The universe is divided into cells. A process that hosts a cell acquires it, loads its world
  from a snapshot and a journal of events, answers the messages of players by appending events,
  and releases the cell again. Aggregates that move (players, grids) are handed from one cell to
  another by transfers. The parts, from the outside in, and how they call each other:

  \<^item> the cell directory, one durable document per universe, says which process may host a cell,
    where every aggregate is and how far each transfer has come. Its evidence of a transfer comes
    from the journals of the two cells;
  \<^item> the cell store keeps the lifecycle record of one cell (the fencing token, the lease, the
    announced commit), its journal, its journal of transfer boundaries and its snapshots. It
    writes an event only under a live lease, and it announces the event in the lifecycle record
    before it appends it;
  \<^item> the world of a cell is the state the journal is replayed to: grids of blocks, inventories,
    production queues, players and the records of their operations. Messages of players are turned
    into events, and the same function applies an event when it is committed and when it is replayed.

  Rust's conventions carry over as follows. A struct is a \<open>record\<close> whose fields have the prefix of
  the type (\<open>plc_\<close> for \<open>AggregatePlacementRecord\<close>), an enum a \<open>datatype\<close>, \<open>u16\<close>, \<open>u32\<close> and \<open>u64\<close>
  machine words of that width, on which plain addition wraps and \<open>checked_add\<close>, \<open>checked_sub\<close> and
  \<open>saturating_sub\<close> of \<open>Prelude\<close> are Rust's; signed integers, which the code only combines by checked
  operations, are \<open>int\<close> with the range written out; \<open>BTreeMap\<close> a sorted association list (\<open>bt_insert\<close>,
  \<open>bt_get\<close>), \<open>Result\<close> a sum with the error on the left, and \<open>?\<close> the combinator \<open>try_r\<close>. Code that writes
  files and may return half way is in the monad of \<open>StoreMonad\<close>: what has been written before an
  early return stays written, and every write and every reading of the clock takes its outcome
  from a list of outcomes, so that a statement over all lists is one over all failures.
\<close>

section \<open>The theories\<close>

text \<open>
  Shared: \<open>Prelude\<close> (results, machine integers, ordered maps, the collections of rules), \<open>StoreMonad\<close>
  (state with early return), \<open>Durable\<close> (the interface of a document kept in memory and in a file,
  with its lemmas proved once; the directory provides it in \<open>DirectoryHost\<close>).

  Addresses (\<open>celestial.rs\<close>): \<open>Celestial\<close> models the normalisation and validation of exact addresses,
  the keys of cells, their neighbours and identities.

  Cell directory (\<open>cell_directory.rs\<close>): \<open>CellDirectory\<close> has the document, one definition per command
  (\<open>claim\<close>, \<open>release\<close>, \<open>recover_assignment\<close>, \<open>register_placement\<close>, \<open>prepare_transfer\<close>, \<open>record_source_prepared\<close>,
  \<open>record_quarantine\<close>, \<open>commit_transfer\<close>, \<open>record_imported\<close>, \<open>finalize_transfer\<close>, \<open>request_abort\<close>,
  \<open>record_abort_cleanup\<close>, \<open>finalize_abort\<close>), \<open>commit_document\<close> with the three outcomes of an atomic write,
  and \<open>open_directory\<close>; \<open>DirectoryDocument\<close> the validation of the document. \<open>DirectorySpec\<close> is the
  abstract specification: where every aggregate is and which transfer may move it.
  \<open>DirectorySoundness\<close> and \<open>DirectoryOperations\<close> show that every command keeps what validation
  demands, \<open>DirectoryEvolution\<close> how records change from one document to the next, \<open>DirectoryRetry\<close> that a
  repeated command is answered alike, \<open>DirectoryHost\<close> runs of commands, failed writes, crashes and
  reopenings; \<open>DirectoryScenario\<close> is a concrete universe and \<open>DirectoryProperties\<close> holds the properties.
  \<open>BundledPlacement\<close> models the plan and the staging of the move of a grid with its riders.

  Directory of protocol 19 (\<open>cell_directory_v3.rs\<close>, and the proofs of \<open>grid_handoff_v2/state.rs\<close>), which moves a
  grid with its riders as one bundle between two neighbouring cells and keeps the proofs of both cells:
  \<open>HandoffProofs\<close> models the seven proofs a cell hands to the directory and their validation, \<open>DirectoryV3\<close> the
  transfer record with the one record all proofs are kept in, its bindings and the matrix of phases,
  \<open>DirectoryV3Document\<close> the document with its validation, and \<open>DirectoryV3Stages\<close> the eleven transactions
  (\<open>stage_v3_*\<close>, \<open>apply_v3_*\<close>) and the sealing of the next revision. \<open>DirectoryV3Validity\<close> turns the
  validation into conditions on the maps of the document, with its walk through the history as reachability;
  \<open>DirectoryV3Preservation\<close> and \<open>DirectoryV3Movement\<close> show what adding evidence and moving a bundle keep of them,
  \<open>DirectoryV3Liveness\<close> that the transactions of a valid document are accepted, \<open>DirectoryV3Commands\<close> and
  \<open>DirectoryV3Retry\<close> what an accepted command is and that it can be repeated, \<open>DirectoryV3History\<close> that histories
  are chains; \<open>DirectoryV3Scenario\<close> has concrete documents and \<open>DirectoryV3Properties\<close> the properties.

  Cell store (\<open>persistence.rs\<close>): \<open>Lifecycle\<close> models the lifecycle record, the lease and its renewal, the
  modes, \<open>commit_world_event\<close> and the acquisition of a cell; \<open>WorldRecovery\<close> the loading of the world from
  snapshot and journal, the reconciliation of an announced commit and the check of the journal of
  transfer boundaries. \<open>LifecycleRecords\<close> shows that written records are accepted by the next opening,
  \<open>LifecycleAuthority\<close> that a superseded store changes no file (the locale \<open>fenced_writer\<close>),
  \<open>LifecycleCommit\<close> what a crash leaves of a commit, \<open>WorldReplay\<close> and \<open>BoundaryRecovery\<close> what a replay
  accepts and yields; \<open>LifecycleScenario\<close> is a concrete cell, and \<open>LifecycleProperties\<close>, \<open>RecoveryProperties\<close>
  and \<open>BoundaryProperties\<close> hold the properties.

  Operation history (\<open>model.rs\<close>): \<open>OperationHistory\<close> models how a cell remembers, compacts and answers the
  operations of each player; \<open>OperationProperties\<close> has its lemmas and properties.

  World (\<open>model.rs\<close>, \<open>content.rs\<close>, \<open>event.rs\<close>, \<open>engine.rs\<close>): \<open>Content\<close> and \<open>WorldModel\<close> hold the definitions of
  items, blocks and recipes, grids, inventories, capacities and look-ups; \<open>Production\<close> and
  \<open>ProductionQuantum\<close> conveyor routes, one second of a machine and the quantum of a whole cell;
  \<open>GridSplit\<close> damage and the splitting of a grid; \<open>WorldEvents\<close> and \<open>WorldApply\<close> the events and their
  application (\<open>apply_event\<close> of \<open>engine.rs\<close>, arm by arm, with the closing check of conservation);
  \<open>WorldIntents\<close> the way from a message to an event. \<open>WorldInvariant\<close> states what the loader demands of a
  world; \<open>Capacities\<close> and \<open>ConservationCheck\<close> relate the saturating and wrapping arithmetic of the checks to
  exact sums; \<open>WorldBlocks\<close>, \<open>WorldSteps\<close>, \<open>WorldConstruction\<close>, \<open>WorldDamage\<close>, \<open>GridPartition\<close> and \<open>QuantumSteps\<close>
  show payload by payload that worlds stay well-formed and resources balanced, \<open>WorldHistory\<close> puts them
  together for events and histories; \<open>GridComponents\<close> and \<open>ConveyorRoutes\<close> relate the two searches to
  reachability, \<open>GridProperties\<close> the split to its fragments, \<open>QuantumPlan\<close>, \<open>JobProgress\<close>, \<open>IntentAcceptance\<close>
  and \<open>Refusals\<close> the plans, jobs, intents and refusals to the application; \<open>WorldScenario\<close> has the concrete
  worlds and \<open>EconomyProperties\<close> the properties.
\<close>

section \<open>What the properties show\<close>

text \<open>
  The directory refines its abstract specification under every outcome of its writes; what it
  stores can be opened again, with one exception that is a defect of the code
  (\<open>premature_abort_blocks_reopening\<close>); transfers follow their protocol, hold their aggregate alone, keep
  their material, and can always advance; claims are exclusive, and fences only increase.

  In the directory of protocol 19 an accepted command takes one transfer along one edge of its protocol and
  leads to a valid document; no live transfer is stuck, and a premature abort no longer blocks anything; a
  live bundle is in one place; the committed transfers of an aggregate form one chain through the two cells.

  A cell store whose fencing token has been superseded leaves no trace in the files; a commit that
  fails at any of its writes resolves to the state before or after the event; the records written
  can be opened again, with one exception that is a defect of the code
  (\<open>transition_to_sleeping_blocks_reopening\<close>); a committed event is recovered; a snapshot replaces the
  prefix of the journal it was taken from; the boundaries form a hash chain that an interrupted
  commit leaves loadable.

  In the world, every accepted history of events keeps the world well-formed and every resource
  balanced exactly, although the code checks balance in wrapping arithmetic; the event prepared from
  a message passes the checks of the application; an operation is never repeated; a split grid
  partitions its blocks into connected components; a production route exists exactly when a chain of
  conveyor blocks does; a quantum of production never fails, and a job completes after exactly the
  quanta of its duration.
\<close>

section \<open>Bounds, fuel and termination\<close>

text \<open>
  No loop of the model stops for lack of fuel. The check of a lease is repeated at most twice in the
  code, and \<open>verify_lease_rounds\<close> takes that number. The flood of a split and the breadth-first search
  of a route are recursive functions that terminate because every step visits a position that was
  unvisited (the measure counts the unvisited blocks and the queue), and the compaction of a history
  because every round drops a record. Replays recurse over the journal.
\<close>

section \<open>Parameters\<close>

text \<open>
  What the code calls and does not define is an argument: the BLAKE3 hash and the JSON encoders with
  their lengths (\<open>externals\<close>, \<open>directory_codec\<close> and the \<open>json\<close> arguments), the clock and the outcomes of writes, and
  computations in floating point (distances, reach, power). Where a property depends on one of
  them it names the documented behaviour as a hypothesis, such as the injectivity of the encoder of keys,
  and its witness instantiates it with a concrete function.
\<close>

section \<open>Not modelled\<close>

text \<open>
  In the modelled files: the thread that renews a lease while a long journal is replayed, the
  truncation of an unterminated last line of a journal, the frozen archive, the byte formats and
  their parsing (documents are values, a file that does not parse is one outcome of a read); the
  text of some errors; the registry of celestial bodies and conversions from floating-point
  positions; movement, life support, physics steps, genesis of players and the payloads that transfer
  players, which compute in floating point or on the physics engine.

  Whole parts: the bindings to the physics engine (C++ over FFI), the adapter for the game
  client, the interest verifier and the projections (floating-point views and their encodings), the
  network service, the migration tools for protocol 19, and of the directory of protocol 19 the journal and
  head files that store its documents, the claim and release of cells in it, and the capture and
  application of grid packages by the cells, of which only the proofs are modelled.
\<close>

end
